(* ===== verification/Prelude.thy ===== *)
theory Prelude
  imports Complex_Main "HOL-Library.AList" "HOL-Library.List_Lexorder" "HOL-Library.Char_ord"
    "HOL-Library.Multiset"
begin

text \<open>
  What every component of the model shares: Python's dynamic values and dictionaries,
  exceptions as values, the state-and-exception computations that stand for methods with
  side effects, and a small Hoare logic for them.

  A dictionary keeps its insertion order, so it is an association list with the operations of
  \<^theory_text>\<open>HOL-Library.AList\<close>: \<open>AList.update\<close> overwrites in place and appends a new key, as
  \<open>d[k] = v\<close> does. Python's floats are exact rationals here.
\<close>

named_theorems py_run \<open>unfolding rules that run a computation symbolically\<close>
named_theorems hoare_intro \<open>introduction rules of the Hoare logic\<close>

section \<open>Dynamic values\<close>

datatype pyval =
    PNone
  | PBool bool
  | PInt int
  | PFloat rat
  | PStr string
  | PList "pyval list"
  | PDict "(string \<times> pyval) list"

type_synonym pydict = "(string \<times> pyval) list"

text \<open>Truth value testing (\<open>if x:\<close>).\<close>

fun truthy :: "pyval \<Rightarrow> bool" where
  "truthy PNone = False"
| "truthy (PBool b) = b"
| "truthy (PInt i) = (i \<noteq> 0)"
| "truthy (PFloat r) = (r \<noteq> 0)"
| "truthy (PStr s) = (s \<noteq> [])"
| "truthy (PList xs) = (xs \<noteq> [])"
| "truthy (PDict d) = (d \<noteq> [])"

text \<open>\<open>d.get(k, default)\<close> on any association list.\<close>

definition dict_get :: "('k \<times> 'v) list \<Rightarrow> 'k \<Rightarrow> 'v \<Rightarrow> 'v" where
  "dict_get d k v = (case map_of d k of None \<Rightarrow> v | Some x \<Rightarrow> x)"

definition dict_set :: "'k \<Rightarrow> 'v \<Rightarrow> ('k \<times> 'v) list \<Rightarrow> ('k \<times> 'v) list" where
  "dict_set k v d = AList.update k v d"

lemma find_mem: "find P xs = Some x \<Longrightarrow> x \<in> set xs \<and> P x"
  by (auto simp: find_Some_iff)

lemma map_of_dict_set [simp]: "map_of (dict_set k v d) = (map_of d)(k \<mapsto> v)"
  by (simp add: dict_set_def update_conv')

lemma dict_get_set_same [simp]: "dict_get (dict_set k v d) k w = v"
  by (simp add: dict_get_def)

lemma dict_get_set_other [simp]: "k \<noteq> k' \<Longrightarrow> dict_get (dict_set k v d) k' w = dict_get d k' w"
  by (simp add: dict_get_def)

lemma keys_dict_set: "fst ` set (dict_set k v d) = insert k (fst ` set d)"
  by (simp add: dict_set_def dom_map_of_conv_image_fst [symmetric] update_conv')

lemma distinct_dict_set: "distinct (map fst d) \<Longrightarrow> distinct (map fst (dict_set k v d))"
  by (simp add: dict_set_def distinct_update)

lemma dict_get_Nil [simp]: "dict_get [] k v = v"
  by (simp add: dict_get_def)

lemma dict_get_Cons: "dict_get ((k', x) # d) k v = (if k' = k then x else dict_get d k v)"
  by (simp add: dict_get_def)

text \<open>\<open>ORDER BY key DESC\<close> and \<open>sorted(xs, key=key, reverse=True)\<close>: equal keys keep their order.\<close>

definition sort_desc :: "('a \<Rightarrow> 'k::linorder) \<Rightarrow> 'a list \<Rightarrow> 'a list" where
  "sort_desc key xs = rev (sort_key key (rev xs))"

lemma set_sort_desc [simp]: "set (sort_desc key xs) = set xs"
  by (simp add: sort_desc_def)

lemma sort_desc_Nil [simp]: "sort_desc key [] = []"
  by (simp add: sort_desc_def)

lemma mset_sort_desc [simp]: "mset (sort_desc key xs) = mset xs"
  by (simp add: sort_desc_def)

lemma sorted_sort_desc: "sorted_wrt (\<lambda>x y. key y \<le> key x) (sort_desc key xs)"
  using sorted_sort_key [of key "rev xs"]
  by (simp add: sort_desc_def sorted_wrt_rev sorted_map)

lemma distinct_sort_desc: "distinct (map f (sort_desc key xs)) = distinct (map f xs)"
  by (simp add: distinct_map) (simp add: sort_desc_def)

definition opt_str :: "string option \<Rightarrow> pyval" where
  "opt_str x = (case x of None \<Rightarrow> PNone | Some s \<Rightarrow> PStr s)"

definition opt_val :: "pyval option \<Rightarrow> pyval" where
  "opt_val x = (case x of None \<Rightarrow> PNone | Some v \<Rightarrow> v)"

definition strs :: "string list \<Rightarrow> pyval" where
  "strs xs = PList (map PStr xs)"

section \<open>Exceptions\<close>

text \<open>
  The exception classes the modelled code raises or distinguishes; \<open>OtherException\<close> stands
  for every other subclass of \<open>Exception\<close>. The string is \<open>str(exc)\<close>.
\<close>

datatype exn_class =
    AgentValidationError | PermissionError | TimeoutError | LifecycleError | KanbanError
  | WorkflowConfigurationError | RouteFallbackExhausted | RuntimeError | ValueError | KeyError | IndexError
  | TypeError | AttributeError | JSONDecodeError | KnowledgeError | SkillMetadataError | ResearchError
  | FileNotFoundError | OtherException

datatype exn = Exn exn_class string

primrec exn_message :: "exn \<Rightarrow> string" where
  "exn_message (Exn c m) = m"

primrec exn_kind :: "exn \<Rightarrow> exn_class" where
  "exn_kind (Exn c m) = c"

section \<open>Computations with state and exceptions\<close>

text \<open>
  A method is a function from the state to its answer (\<open>Inl\<close> an exception, \<open>Inr\<close> the
  returned value) and the state it leaves behind. The state survives an exception, as the
  effects of a Python method do.
\<close>

type_synonym ('s, 'a) py = "'s \<Rightarrow> (exn + 'a) \<times> 's"

definition ret :: "'a \<Rightarrow> ('s, 'a) py" where
  "ret x = (\<lambda>s. (Inr x, s))"

definition raise :: "exn \<Rightarrow> ('s, 'a) py" where
  "raise e = (\<lambda>s. (Inl e, s))"

definition bnd :: "('s, 'a) py \<Rightarrow> ('a \<Rightarrow> ('s, 'b) py) \<Rightarrow> ('s, 'b) py" where
  "bnd m f = (\<lambda>s. case m s of (Inl e, t) \<Rightarrow> (Inl e, t) | (Inr x, t) \<Rightarrow> f x t)"

definition seq :: "('s, unit) py \<Rightarrow> ('s, 'b) py \<Rightarrow> ('s, 'b) py" where
  "seq m n = bnd m (\<lambda>_. n)"

definition gets :: "('s \<Rightarrow> 'a) \<Rightarrow> ('s, 'a) py" where
  "gets f = (\<lambda>s. (Inr (f s), s))"

definition modify :: "('s \<Rightarrow> 's) \<Rightarrow> ('s, unit) py" where
  "modify f = (\<lambda>s. (Inr (), f s))"

definition try_except :: "('s, 'a) py \<Rightarrow> (exn \<Rightarrow> ('s, 'a) py) \<Rightarrow> ('s, 'a) py" where
  "try_except m h = (\<lambda>s. case m s of (Inl e, t) \<Rightarrow> h e t | (Inr x, t) \<Rightarrow> (Inr x, t))"

text \<open>An operation that answers or raises without touching the state.\<close>

definition of_sum :: "exn + 'a \<Rightarrow> ('s, 'a) py" where
  "of_sum r = (\<lambda>s. (r, s))"

lemma ret_run [py_run]: "ret x s = (Inr x, s)"
  by (simp add: ret_def)

lemma raise_run [py_run]: "raise e s = (Inl e, s)"
  by (simp add: raise_def)

lemma bnd_run [py_run]:
  "bnd m f s = (case m s of (Inl e, t) \<Rightarrow> (Inl e, t) | (Inr x, t) \<Rightarrow> f x t)"
  by (simp add: bnd_def)

lemma seq_run [py_run]:
  "seq m n s = (case m s of (Inl e, t) \<Rightarrow> (Inl e, t) | (Inr x, t) \<Rightarrow> n t)"
  by (simp add: seq_def bnd_def)

lemma gets_run [py_run]: "gets f s = (Inr (f s), s)"
  by (simp add: gets_def)

lemma modify_run [py_run]: "modify f s = (Inr (), f s)"
  by (simp add: modify_def)

lemma try_except_run [py_run]:
  "try_except m h s = (case m s of (Inl e, t) \<Rightarrow> h e t | (Inr x, t) \<Rightarrow> (Inr x, t))"
  by (simp add: try_except_def)

lemma of_sum_run [py_run]: "of_sum r s = (r, s)"
  by (simp add: of_sum_def)

text \<open>The same without a state: an exception ends the evaluation.\<close>

definition sum_bind :: "exn + 'a \<Rightarrow> ('a \<Rightarrow> exn + 'b) \<Rightarrow> exn + 'b" where
  "sum_bind m f = (case m of Inl e \<Rightarrow> Inl e | Inr x \<Rightarrow> f x)"

lemma sum_bind_Inr: "sum_bind m f = Inr y \<longleftrightarrow> (\<exists>x. m = Inr x \<and> f x = Inr y)"
  by (cases m) (simp_all add: sum_bind_def)

section \<open>A Hoare logic\<close>

text \<open>
  \<open>hoare P m Q R\<close>: from a state satisfying \<open>P\<close>, a normal return satisfies \<open>Q\<close> and a raise
  satisfies \<open>R\<close>. With \<open>R = no_raise\<close> the computation does not raise.
\<close>

definition hoare ::
  "('s \<Rightarrow> bool) \<Rightarrow> ('s, 'a) py \<Rightarrow> ('a \<Rightarrow> 's \<Rightarrow> bool) \<Rightarrow> (exn \<Rightarrow> 's \<Rightarrow> bool) \<Rightarrow> bool" where
  "hoare P m Q R \<longleftrightarrow>
     (\<forall>s. P s \<longrightarrow> (case m s of (Inl e, t) \<Rightarrow> R e t | (Inr x, t) \<Rightarrow> Q x t))"

definition no_raise :: "exn \<Rightarrow> 's \<Rightarrow> bool" where
  "no_raise e s \<longleftrightarrow> False"

lemma hoareI:
  "(\<And>s. P s \<Longrightarrow> (case m s of (Inl e, t) \<Rightarrow> R e t | (Inr x, t) \<Rightarrow> Q x t)) \<Longrightarrow> hoare P m Q R"
  by (simp add: hoare_def)

lemma hoareD_Inr: "hoare P m Q R \<Longrightarrow> P s \<Longrightarrow> m s = (Inr x, t) \<Longrightarrow> Q x t"
  by (fastforce simp: hoare_def)

lemma hoareD_Inl: "hoare P m Q R \<Longrightarrow> P s \<Longrightarrow> m s = (Inl e, t) \<Longrightarrow> R e t"
  by (fastforce simp: hoare_def)

lemma hoare_no_raise: "hoare P m Q no_raise \<Longrightarrow> P s \<Longrightarrow> \<exists>x t. m s = (Inr x, t) \<and> Q x t"
  by (cases "m s"; cases "fst (m s)") (fastforce simp: hoare_def no_raise_def)+

lemma hoare_ret [hoare_intro]: "(\<And>s. P s \<Longrightarrow> Q x s) \<Longrightarrow> hoare P (ret x) Q R"
  by (simp add: hoare_def py_run)

lemma hoare_raise [hoare_intro]: "(\<And>s. P s \<Longrightarrow> R e s) \<Longrightarrow> hoare P (raise e) Q R"
  by (simp add: hoare_def py_run)

lemma hoare_modify [hoare_intro]: "(\<And>s. P s \<Longrightarrow> Q () (f s)) \<Longrightarrow> hoare P (modify f) Q R"
  by (simp add: hoare_def py_run)

lemma hoare_gets [hoare_intro]: "(\<And>s. P s \<Longrightarrow> Q (f s) s) \<Longrightarrow> hoare P (gets f) Q R"
  by (simp add: hoare_def py_run)

lemma hoare_bnd:
  assumes "hoare P m S R" and "\<And>x. hoare (S x) (f x) Q R"
  shows "hoare P (bnd m f) Q R"
  using assms by (fastforce simp: hoare_def py_run split: prod.splits sum.splits)

lemma hoare_seq:
  assumes "hoare P m (\<lambda>_. S) R" and "hoare S n Q R"
  shows "hoare P (seq m n) Q R"
  unfolding seq_def by (rule hoare_bnd [OF assms(1)]) (rule assms(2))

lemma hoare_try:
  assumes "hoare P m Q S" and "\<And>e. hoare (S e) (h e) Q R"
  shows "hoare P (try_except m h) Q R"
  using assms by (fastforce simp: hoare_def py_run split: prod.splits sum.splits)

lemma hoare_weaken:
  assumes "hoare P m Q R"
    and "\<And>s. P' s \<Longrightarrow> P s" and "\<And>x s. Q x s \<Longrightarrow> Q' x s" and "\<And>e s. R e s \<Longrightarrow> R' e s"
  shows "hoare P' m Q' R'"
  using assms by (fastforce simp: hoare_def split: prod.splits sum.splits)

lemma hoare_pre: "hoare P m Q R \<Longrightarrow> (\<And>s. P' s \<Longrightarrow> P s) \<Longrightarrow> hoare P' m Q R"
  by (erule hoare_weaken) auto

lemma hoare_if [hoare_intro]:
  "(b \<Longrightarrow> hoare P m Q R) \<Longrightarrow> (\<not> b \<Longrightarrow> hoare P n Q R) \<Longrightarrow> hoare P (if b then m else n) Q R"
  by simp

end
