(* ===== verification/PyStr.thy ===== *)
theory PyStr
  imports Prelude
begin

text \<open>
  The methods of Python's \<open>str\<close> that the modelled code calls. A \<open>char\<close> is a code point below
  256, so the white space and the case mapping are those of Unicode's first 256 code points;
  other code points are outside the model.
\<close>

section \<open>Characters\<close>

abbreviation code :: "char \<Rightarrow> nat" where
  "code c \<equiv> of_char c"

definition is_space :: "char \<Rightarrow> bool" where
  "is_space c = (let n = code c in 9 \<le> n \<and> n \<le> 13 \<or> 28 \<le> n \<and> n \<le> 32 \<or> n = 133 \<or> n = 160)"

definition lower_char :: "char \<Rightarrow> char" where
  "lower_char c = (let n = code c in
     if 65 \<le> n \<and> n \<le> 90 \<or> 192 \<le> n \<and> n \<le> 222 \<and> n \<noteq> 215 then char_of (n + 32) else c)"

definition lower :: "string \<Rightarrow> string" where
  "lower s = map lower_char s"

definition is_digit :: "char \<Rightarrow> bool" where
  "is_digit c = (let n = code c in 48 \<le> n \<and> n \<le> 57)"

definition is_lower_ascii :: "char \<Rightarrow> bool" where
  "is_lower_ascii c = (let n = code c in 97 \<le> n \<and> n \<le> 122)"

definition newline :: char where
  "newline = char_of (10::nat)"

lemma lower_char_idem [simp]: "lower_char (lower_char c) = lower_char c"
proof -
  have "code c mod 256 < 256" by (rule mod_less_divisor) simp
  then have "code c < 256" by simp
  then show ?thesis by (auto simp: lower_char_def Let_def)
qed

lemma lower_idem [simp]: "lower (lower s) = lower s"
  by (simp add: lower_def)

lemma length_lower [simp]: "length (lower s) = length s"
  by (simp add: lower_def)

section \<open>Prefixes, suffixes and slices\<close>

definition startswith :: "string \<Rightarrow> string \<Rightarrow> bool" where
  "startswith s p = (take (length p) s = p)"

definition endswith :: "string \<Rightarrow> string \<Rightarrow> bool" where
  "endswith s p = (length p \<le> length s \<and> drop (length s - length p) s = p)"

lemma startswith_iff: "startswith s p \<longleftrightarrow> (\<exists>t. s = p @ t)"
  unfolding startswith_def by (metis append_eq_conv_conj append_take_drop_id)

lemma endswith_iff: "endswith s p \<longleftrightarrow> (\<exists>t. s = t @ p)"
proof
  assume "endswith s p"
  then show "\<exists>t. s = t @ p"
    unfolding endswith_def by (metis append_take_drop_id)
next
  assume "\<exists>t. s = t @ p"
  then show "endswith s p" by (auto simp: endswith_def)
qed

lemma startswith_append [simp]: "startswith (p @ t) p"
  by (simp add: startswith_def)

lemma startswith_Nil [simp]: "startswith s []"
  by (simp add: startswith_def)

fun contains :: "string \<Rightarrow> string \<Rightarrow> bool" where
  "contains s p = (startswith s p \<or> (case s of [] \<Rightarrow> False | _ # t \<Rightarrow> contains t p))"

declare contains.simps [simp del]

section \<open>Stripping and splitting\<close>

definition lstrip :: "string \<Rightarrow> string" where
  "lstrip s = dropWhile is_space s"

definition rstrip :: "string \<Rightarrow> string" where
  "rstrip s = rev (dropWhile is_space (rev s))"

definition strip :: "string \<Rightarrow> string" where
  "strip s = rstrip (lstrip s)"

definition strip_char :: "char \<Rightarrow> string \<Rightarrow> string" where
  "strip_char c s = rev (dropWhile (\<lambda>d. d = c) (rev (dropWhile (\<lambda>d. d = c) s)))"

text \<open>\<open>s.split()\<close>: the maximal runs of characters that are not white space.\<close>

function split_ws :: "string \<Rightarrow> string list" where
  "split_ws s =
     (let t = dropWhile is_space s in
      if t = [] then []
      else takeWhile (\<lambda>c. \<not> is_space c) t # split_ws (dropWhile (\<lambda>c. \<not> is_space c) t))"
  by pat_completeness auto
termination
proof (relation "measure length", simp)
  fix s t :: string
  assume t: "t = dropWhile is_space s" and ne: "t \<noteq> []"
  have "\<not> is_space (hd t)" using t ne hd_dropWhile by blast
  with ne have "length (dropWhile (\<lambda>c. \<not> is_space c) t) < length t"
    by (cases t) (auto simp: le_imp_less_Suc length_dropWhile_le)
  also have "\<dots> \<le> length s" by (simp add: t length_dropWhile_le)
  finally show "(dropWhile (\<lambda>c. \<not> is_space c) t, s) \<in> measure length" by simp
qed

declare split_ws.simps [simp del]

fun join :: "string \<Rightarrow> string list \<Rightarrow> string" where
  "join sep [] = []"
| "join sep [x] = x"
| "join sep (x # y # ys) = x @ sep @ join sep (y # ys)"

text \<open>\<open>s.partition(c)\<close> for a one-character separator.\<close>

definition partition_char :: "char \<Rightarrow> string \<Rightarrow> string \<times> string \<times> string" where
  "partition_char c s =
     (let a = takeWhile (\<lambda>d. d \<noteq> c) s; b = dropWhile (\<lambda>d. d \<noteq> c) s in
      case b of [] \<Rightarrow> (s, [], []) | _ # r \<Rightarrow> (a, [c], r))"

definition remove_char :: "char \<Rightarrow> string \<Rightarrow> string" where
  "remove_char c s = filter (\<lambda>d. d \<noteq> c) s"

lemma strip_Nil [simp]: "strip [] = []"
  by (simp add: strip_def rstrip_def lstrip_def)

lemma partition_char_cases:
  "partition_char c s = (if c \<in> set s
     then (takeWhile (\<lambda>d. d \<noteq> c) s, [c], tl (dropWhile (\<lambda>d. d \<noteq> c) s)) else (s, [], []))"
proof (cases "c \<in> set s")
  case True
  then have "dropWhile (\<lambda>d. d \<noteq> c) s \<noteq> []" by (auto simp: dropWhile_eq_Nil_conv)
  with True show ?thesis
    by (cases "dropWhile (\<lambda>d. d \<noteq> c) s") (auto simp: partition_char_def Let_def)
next
  case False
  then have "dropWhile (\<lambda>d. d \<noteq> c) s = []" by (auto simp: dropWhile_eq_Nil_conv)
  then show ?thesis using False by (simp add: partition_char_def Let_def del: dropWhile_eq_Nil_conv)
qed

lemma partition_char_join: "(case partition_char c s of (a, m, b) \<Rightarrow> a @ m @ b) = s"
proof (cases "c \<in> set s")
  case True
  then obtain d r where dr: "dropWhile (\<lambda>d. d \<noteq> c) s = d # r"
    by (cases "dropWhile (\<lambda>d. d \<noteq> c) s") (auto simp: dropWhile_eq_Nil_conv)
  then have "d = c" using hd_dropWhile [of "\<lambda>d. d \<noteq> c" s] by auto
  with dr have "takeWhile (\<lambda>d. d \<noteq> c) s @ c # r = s"
    by (metis takeWhile_dropWhile_id)
  with True dr show ?thesis by (simp add: partition_char_cases)
qed (simp add: partition_char_cases)

lemma split_ws_Nil [simp]: "split_ws [] = []"
  by (simp add: split_ws.simps)

lemma split_ws_step:
  "split_ws s = (if dropWhile is_space s = [] then []
     else takeWhile (\<lambda>c. \<not> is_space c) (dropWhile is_space s) #
       split_ws (dropWhile (\<lambda>c. \<not> is_space c) (dropWhile is_space s)))"
  by (subst split_ws.simps) (simp add: Let_def del: dropWhile_eq_Nil_conv)

lemma words_no_space: "\<forall>w \<in> set (split_ws s). w \<noteq> [] \<and> (\<forall>c \<in> set w. \<not> is_space c)"
proof (induction s rule: split_ws.induct)
  case (1 s)
  let ?t = "dropWhile is_space s"
  show ?case
  proof (cases "?t = []")
    case True
    then show ?thesis by (subst split_ws_step) simp
  next
    case False
    have "\<not> is_space (hd ?t)" using False by (rule hd_dropWhile)
    with False have hd: "takeWhile (\<lambda>c. \<not> is_space c) ?t \<noteq> []"
      by (cases ?t) auto
    have sp: "\<forall>c \<in> set (takeWhile (\<lambda>c. \<not> is_space c) ?t). \<not> is_space c"
      by (auto dest: set_takeWhileD)
    have tl: "\<forall>w \<in> set (split_ws (dropWhile (\<lambda>c. \<not> is_space c) ?t)).
        w \<noteq> [] \<and> (\<forall>c \<in> set w. \<not> is_space c)"
      by (rule 1) (use False in simp_all)
    from False have "split_ws s = takeWhile (\<lambda>c. \<not> is_space c) ?t #
        split_ws (dropWhile (\<lambda>c. \<not> is_space c) ?t)"
      by (subst split_ws_step) (simp del: dropWhile_eq_Nil_conv)
    then show ?thesis using hd sp tl by (metis set_ConsD)
  qed
qed

section \<open>Numbers\<close>

fun digits :: "nat \<Rightarrow> string" where
  "digits n = (if n < 10 then [char_of (48 + n)]
     else digits (n div 10) @ [char_of (48 + n mod 10)])"

declare digits.simps [simp del]

definition str_of_int :: "int \<Rightarrow> string" where
  "str_of_int i = (if i < 0 then CHR ''-'' # digits (nat (- i)) else digits (nat i))"

definition nat_of_digits :: "string \<Rightarrow> nat" where
  "nat_of_digits s = foldl (\<lambda>n c. 10 * n + (code c - 48)) 0 s"

lemma nat_of_digits_snoc: "nat_of_digits (s @ [c]) = 10 * nat_of_digits s + (code c - 48)"
  by (simp add: nat_of_digits_def)

lemma code_digit: "k < 10 \<Longrightarrow> code (char_of (48 + k)) = 48 + k"
  by simp

lemma nat_of_digits_digits: "nat_of_digits (digits n) = n"
proof (induction n rule: digits.induct)
  case (1 n)
  show ?case
  proof (cases "n < 10")
    case True
    then show ?thesis
      by (simp add: digits.simps [of n] nat_of_digits_def)
  next
    case False
    with 1 have "nat_of_digits (digits (n div 10)) = n div 10" by simp
    moreover have "code (char_of (48 + n mod 10)) = 48 + n mod 10" by simp
    ultimately show ?thesis
      using False by (simp add: digits.simps [of n] nat_of_digits_snoc)
  qed
qed

lemma digits_inject: "digits m = digits n \<Longrightarrow> m = n"
  by (metis nat_of_digits_digits)

lemma digits_are_digits: "c \<in> set (digits n) \<Longrightarrow> is_digit c"
proof (induction n arbitrary: c rule: digits.induct)
  case (1 n c)
  have d: "is_digit (char_of (48 + n mod 10))"
    by (simp add: is_digit_def)
  show ?case
  proof (cases "n < 10")
    case True
    with "1.prems" show ?thesis by (simp add: digits.simps [of n] is_digit_def)
  next
    case False
    with "1.prems" have "c \<in> set (digits (n div 10)) \<or> c = char_of (48 + n mod 10)"
      by (auto simp: digits.simps [of n])
    with False d "1.IH" show ?thesis by blast
  qed
qed

lemma digits_not_Nil [simp]: "digits n \<noteq> []"
  by (subst digits.simps) simp

section \<open>Further methods\<close>

text \<open>\<open>s.split(c)\<close> for a one-character separator; the answer is never empty.\<close>

fun split_char :: "char \<Rightarrow> string \<Rightarrow> string list" where
  "split_char c [] = [[]]"
| "split_char c (d # s) =
     (if d = c then [] # split_char c s
      else case split_char c s of [] \<Rightarrow> [[d]] | w # ws \<Rightarrow> (d # w) # ws)"

lemma split_char_not_Nil [simp]: "split_char c s \<noteq> []"
  by (cases s) (auto split: list.splits)

lemma split_char_join: "join [c] (split_char c s) = s"
proof (induction s)
  case (Cons d s)
  then show ?case
    by (cases "split_char c s"; cases "tl (split_char c s)") (auto split: list.splits)
qed simp

lemma split_char_parts: "w \<in> set (split_char c s) \<Longrightarrow> c \<notin> set w"
  by (induction s arbitrary: w) (auto split: list.splits if_splits)

text \<open>\<open>int(s)\<close>: white space around, a sign, digits with single underscores between them.\<close>

definition int_literal :: "string \<Rightarrow> int option" where
  "int_literal s =
     (let t = strip s;
          neg = (take 1 t = ''-'');
          u = (if take 1 t = ''-'' \<or> take 1 t = ''+'' then drop 1 t else t);
          parts = split_char (CHR ''_'') u
      in if list_all (\<lambda>p. p \<noteq> [] \<and> list_all is_digit p) parts
         then Some (if neg then - int (nat_of_digits (concat parts))
                    else int (nat_of_digits (concat parts)))
         else None)"

definition int_of_str :: "string \<Rightarrow> exn + int" where
  "int_of_str s =
     (case int_literal s of
        Some i \<Rightarrow> Inr i
      | None \<Rightarrow> Inl (Exn ValueError
          (''invalid literal for int() with base 10: '' @ [CHR 0x27] @ s @ [CHR 0x27])))"

text \<open>\<open>f"{r:.nf}"\<close>: round half to even, as Python formats the exact value.\<close>

definition round_half_even :: "rat \<Rightarrow> int" where
  "round_half_even r =
     (let f = \<lfloor>r\<rfloor>; d = r - of_int f in
      if d < 1 / 2 then f else if d > 1 / 2 then f + 1 else if even f then f else f + 1)"

definition fixed :: "nat \<Rightarrow> rat \<Rightarrow> string" where
  "fixed n r =
     (let m = nat (round_half_even (\<bar>r\<bar> * 10 ^ n));
          whole = digits (m div 10 ^ n);
          frac = digits (m mod 10 ^ n)
      in (if r < 0 then ''-'' else '''') @ whole @
         (if n = 0 then '''' else ''.'' @ replicate (n - length frac) (CHR ''0'') @ frac))"

section \<open>Lines and words\<close>

definition upper_char :: "char \<Rightarrow> char" where
  "upper_char c = (let n = code c in
     if 97 \<le> n \<and> n \<le> 122 \<or> 224 \<le> n \<and> n \<le> 254 \<and> n \<noteq> 247 then char_of (n - 32) else c)"

definition is_upper_ascii :: "char \<Rightarrow> bool" where
  "is_upper_ascii c = (let n = code c in 65 \<le> n \<and> n \<le> 90)"

text \<open>\<open>\w\<close> of the regular expressions: letters, digits, numeric characters and the underscore.\<close>

definition is_word :: "char \<Rightarrow> bool" where
  "is_word c = (let n = code c in
     is_digit c \<or> is_upper_ascii c \<or> is_lower_ascii c \<or> n = 95 \<or>
     n \<in> {170, 178, 179, 181, 185, 186, 188, 189, 190} \<or> 192 \<le> n \<and> n \<noteq> 215 \<and> n \<noteq> 247)"

definition is_line_end :: "char \<Rightarrow> bool" where
  "is_line_end c = (let n = code c in 10 \<le> n \<and> n \<le> 13 \<or> 28 \<le> n \<and> n \<le> 30 \<or> n = 133)"

text \<open>\<open>s.splitlines()\<close>: a carriage return prev a newline ends one line, not two.\<close>

fun splitlines :: "string \<Rightarrow> string list" where
  "splitlines [] = []"
| "splitlines (c # s) =
     (if is_line_end c
      then [] # (if code c = 13 then (case s of d # t \<Rightarrow>
                   if d = newline then splitlines t else splitlines s | [] \<Rightarrow> [])
                 else splitlines s)
      else case splitlines s of [] \<Rightarrow> [[c]] | l # ls \<Rightarrow> (c # l) # ls)"

text \<open>\<open>str(v)\<close> of a scalar; \<open>show\<close> displays the values with an inner structure and the floats.\<close>

fun py_str :: "(pyval \<Rightarrow> string) \<Rightarrow> pyval \<Rightarrow> string" where
  "py_str show (PStr s) = s"
| "py_str show (PInt i) = str_of_int i"
| "py_str show (PBool b) = (if b then ''True'' else ''False'')"
| "py_str show PNone = ''None''"
| "py_str show v = show v"

text \<open>\<open>v == 0\<close>\<close>

fun is_zero :: "pyval \<Rightarrow> bool" where
  "is_zero (PInt i) = (i = 0)"
| "is_zero (PFloat r) = (r = 0)"
| "is_zero (PBool b) = (\<not> b)"
| "is_zero _ = False"

text \<open>The first position where a pattern matches: the pattern sees the character before it.\<close>

fun search :: "(char option \<Rightarrow> string \<Rightarrow> 'a option) \<Rightarrow> char option \<Rightarrow> string \<Rightarrow> 'a option" where
  "search p prev [] = p prev []"
| "search p prev (c # s) =
     (case p prev (c # s) of Some x \<Rightarrow> Some x | None \<Rightarrow> search p (Some c) s)"

definition word_start :: "char option \<Rightarrow> bool" where
  "word_start prev = (case prev of None \<Rightarrow> True | Some c \<Rightarrow> \<not> is_word c)"

definition word_end :: "string \<Rightarrow> bool" where
  "word_end rest = (case rest of [] \<Rightarrow> True | c # _ \<Rightarrow> \<not> is_word c)"

end
