(* ===== verification/Agents.thy ===== *)
theory Agents
  imports PyStr
begin

text \<open>
  The vocabulary every agent shares (\<open>agents/contracts.py\<close>), the validated life cycle of an
  execution (\<open>agents/lifecycle.py\<close>) and the result an agent returns (\<open>agents/models.py\<close>).
\<close>

section \<open>Error codes and capabilities\<close>

abbreviation VALIDATION_ERROR :: string where "VALIDATION_ERROR \<equiv> ''VALIDATION_ERROR''"
abbreviation RUNTIME_ERROR :: string where "RUNTIME_ERROR \<equiv> ''RUNTIME_ERROR''"
abbreviation PERMISSION_DENIED :: string where "PERMISSION_DENIED \<equiv> ''PERMISSION_DENIED''"
abbreviation TIMEOUT :: string where "TIMEOUT \<equiv> ''TIMEOUT''"

definition ERROR_CODES :: "string list" where
  "ERROR_CODES = [VALIDATION_ERROR, RUNTIME_ERROR, PERMISSION_DENIED, TIMEOUT,
     ''CANCELLED'', ''UNKNOWN'']"

abbreviation FILESYSTEM_READ :: string where "FILESYSTEM_READ \<equiv> ''filesystem_read''"
abbreviation FILESYSTEM_WRITE :: string where "FILESYSTEM_WRITE \<equiv> ''filesystem_write''"
abbreviation SHELL :: string where "SHELL \<equiv> ''shell''"
abbreviation GIT :: string where "GIT \<equiv> ''git''"
abbreviation INTERNET :: string where "INTERNET \<equiv> ''internet''"
abbreviation ASK_USER :: string where "ASK_USER \<equiv> ''ask_user''"

section \<open>Tasks\<close>

record core_task =
  ct_description :: string
  ct_task_type :: string
  ct_files :: "string list"

record agent_task =
  at_description :: string
  at_task_type :: string
  at_files :: "string list"
  at_params :: pydict
  at_task_id :: string
  at_correlation_id :: string

text \<open>\<open>AgentTask.from_task\<close> on a \<open>Task\<close>, as \<open>coerce_task\<close> calls it (no overrides); \<open>tid\<close> is the
  fresh uuid of the \<open>task_id\<close> field.\<close>

definition from_task :: "string \<Rightarrow> core_task \<Rightarrow> agent_task" where
  "from_task tid t = \<lparr>at_description = ct_description t, at_task_type = ct_task_type t,
     at_files = ct_files t, at_params = [], at_task_id = tid, at_correlation_id = ''''\<rparr>"

datatype task_arg = CoreTask core_task | AnAgentTask agent_task

fun coerce_task :: "string \<Rightarrow> task_arg \<Rightarrow> agent_task" where
  "coerce_task tid (AnAgentTask t) = t"
| "coerce_task tid (CoreTask t) = from_task tid t"

definition agent_task_to_dict :: "agent_task \<Rightarrow> pydict" where
  "agent_task_to_dict t =
     [(''task_id'', PStr (at_task_id t)),
      (''description'', PStr (at_description t)),
      (''task_type'', PStr (at_task_type t)),
      (''files'', strs (at_files t)),
      (''params'', PDict (at_params t)),
      (''correlation_id'', PStr (at_correlation_id t))]"

definition validate_agent_task :: "agent_task \<Rightarrow> string list" where
  "validate_agent_task t =
     (if strip (at_description t) = [] then [''description is required''] else []) @
     (if at_task_id t = [] then [''task_id is required''] else [])"

section \<open>Errors\<close>

record agent_error =
  err_code :: string
  err_message :: string
  err_transient :: bool

definition retryable :: "agent_error \<Rightarrow> bool" where
  "retryable e = err_transient e"

definition agent_error_to_dict :: "agent_error \<Rightarrow> pydict" where
  "agent_error_to_dict e =
     [(''code'', PStr (err_code e)), (''message'', PStr (err_message e)),
      (''transient'', PBool (err_transient e)), (''retryable'', PBool (retryable e))]"

fun error_from_exception :: "exn \<Rightarrow> agent_error" where
  "error_from_exception (Exn AgentValidationError m) =
     \<lparr>err_code = VALIDATION_ERROR, err_message = m, err_transient = False\<rparr>"
| "error_from_exception (Exn PermissionError m) =
     \<lparr>err_code = PERMISSION_DENIED, err_message = m, err_transient = False\<rparr>"
| "error_from_exception (Exn TimeoutError m) =
     \<lparr>err_code = TIMEOUT, err_message = m, err_transient = True\<rparr>"
| "error_from_exception (Exn _ m) =
     \<lparr>err_code = RUNTIME_ERROR, err_message = m, err_transient = True\<rparr>"

section \<open>Capabilities, retry policy, metadata\<close>

record agent_capabilities =
  permissions :: "string list"

text \<open>\<open>dict.fromkeys\<close>: the first occurrence of each key, in order.\<close>

fun from_keys :: "'a list \<Rightarrow> 'a list" where
  "from_keys [] = []"
| "from_keys (x # xs) = x # filter (\<lambda>y. y \<noteq> x) (from_keys xs)"

definition capabilities_from_list :: "string list \<Rightarrow> agent_capabilities" where
  "capabilities_from_list ps = \<lparr>permissions = from_keys ps\<rparr>"

definition has_permission :: "agent_capabilities \<Rightarrow> string \<Rightarrow> bool" where
  "has_permission c p = (p \<in> set (permissions c))"

definition is_read_only :: "agent_capabilities \<Rightarrow> bool" where
  "is_read_only c =
     (\<not> list_ex (\<lambda>p. p \<in> set (permissions c)) [FILESYSTEM_WRITE, SHELL, GIT, INTERNET])"

record retry_policy =
  max_attempts :: int
  base_delay :: rat
  retryable_codes :: "string list"

definition RetryPolicy_default :: retry_policy where
  "RetryPolicy_default =
     \<lparr>max_attempts = 1, base_delay = 1 / 2, retryable_codes = [RUNTIME_ERROR, TIMEOUT]\<rparr>"

definition retry_enabled :: "retry_policy \<Rightarrow> bool" where
  "retry_enabled p = (max_attempts p > 1)"

record agent_metadata =
  meta_name :: string
  meta_version :: string
  meta_timeout :: "rat option"
  meta_retry_policy :: "retry_policy option"
  allow_timeout_override :: bool
  allow_retry_override :: bool

lemma set_from_keys [simp]: "set (from_keys xs) = set xs"
  by (induction xs) auto

lemma distinct_from_keys [simp]: "distinct (from_keys xs)"
  by (induction xs) auto

section \<open>Event payloads\<close>

record agent_execution_event =
  xe_event_id :: string
  xe_execution_id :: string
  xe_agent :: string
  xe_task_id :: string
  xe_correlation_id :: string
  xe_executor_id :: string
  xe_sequence :: int
  xe_status :: string
  xe_duration_ms :: "rat option"
  xe_error_code :: "string option"
  xe_attempt :: int
  xe_message :: string
  xe_usage :: "pyval option"
  xe_observability :: "pyval option"

definition execution_event_to_dict :: "agent_execution_event \<Rightarrow> pydict" where
  "execution_event_to_dict e =
     [(''event_id'', PStr (xe_event_id e)),
      (''execution_id'', PStr (xe_execution_id e)),
      (''agent'', PStr (xe_agent e)),
      (''task_id'', PStr (xe_task_id e)),
      (''correlation_id'', PStr (xe_correlation_id e)),
      (''executor_id'', PStr (xe_executor_id e)),
      (''sequence'', PInt (xe_sequence e)),
      (''status'', PStr (xe_status e)),
      (''duration_ms'', (case xe_duration_ms e of None \<Rightarrow> PNone | Some d \<Rightarrow> PFloat d)),
      (''error_code'', opt_str (xe_error_code e)),
      (''attempt'', PInt (xe_attempt e)),
      (''message'', PStr (xe_message e)),
      (''usage'', opt_val (xe_usage e)),
      (''observability'', opt_val (xe_observability e))]"

record agent_lifecycle_event =
  le_event_id :: string
  le_execution_id :: string
  le_agent :: string
  le_task_id :: string
  le_correlation_id :: string
  le_executor_id :: string
  le_sequence :: int
  le_status :: string
  le_previous_state :: string
  le_current_state :: string

definition lifecycle_event_to_dict :: "agent_lifecycle_event \<Rightarrow> pydict" where
  "lifecycle_event_to_dict e =
     [(''event_id'', PStr (le_event_id e)),
      (''execution_id'', PStr (le_execution_id e)),
      (''agent'', PStr (le_agent e)),
      (''task_id'', PStr (le_task_id e)),
      (''correlation_id'', PStr (le_correlation_id e)),
      (''executor_id'', PStr (le_executor_id e)),
      (''sequence'', PInt (le_sequence e)),
      (''status'', PStr (le_status e)),
      (''previous_state'', PStr (le_previous_state e)),
      (''current_state'', PStr (le_current_state e))]"

section \<open>Results\<close>

record agent_result =
  res_success :: bool
  res_output :: string
  res_errors :: "string list"
  res_error :: "agent_error option"
  res_duration_ms :: rat
  res_status :: string
  res_error_code :: "string option"
  res_agent :: string
  res_task_id :: string
  res_correlation_id :: string
  res_usage :: "pyval option"
  res_tool_calls :: int
  res_tool_names :: "string list"
  res_tool_durations_ms :: "rat list"
  res_llm_turns :: int
  res_total_cost :: rat
  res_tokens :: pydict
  res_model :: string
  res_provider :: string
  res_fallback_used :: bool
  res_steps_used :: int
  res_repeated_tool_calls :: int
  res_turn_sequence :: "string list"
  res_exit_reason :: string

definition AgentResult_default :: agent_result where
  "AgentResult_default =
     \<lparr>res_success = True, res_output = '''', res_errors = [], res_error = None, res_duration_ms = 0,
      res_status = ''succeeded'', res_error_code = None, res_agent = '''', res_task_id = '''',
      res_correlation_id = '''', res_usage = None, res_tool_calls = 0, res_tool_names = [],
      res_tool_durations_ms = [], res_llm_turns = 0, res_total_cost = 0, res_tokens = [], res_model = '''',
      res_provider = '''', res_fallback_used = False, res_steps_used = 0, res_repeated_tool_calls = 0,
      res_turn_sequence = [], res_exit_reason = ''stop''\<rparr>"

text \<open>\<open>BaseAgent._failure\<close>: the result an agent returns for an error of its own.\<close>

definition base_failure :: "string \<Rightarrow> string \<Rightarrow> agent_result" where
  "base_failure msg c = AgentResult_default
     \<lparr>res_success := False, res_errors := [msg],
      res_error := Some \<lparr>err_code = c, err_message = msg, err_transient = False\<rparr>, res_error_code := Some c\<rparr>"

section \<open>Life cycle\<close>

datatype agent_state =
    Created | Validated | Queued | Running | Succeeded | Failed | TimedOut | Cancelled

fun state_name :: "agent_state \<Rightarrow> string" where
  "state_name Created = ''created''"
| "state_name Validated = ''validated''"
| "state_name Queued = ''queued''"
| "state_name Running = ''running''"
| "state_name Succeeded = ''succeeded''"
| "state_name Failed = ''failed''"
| "state_name TimedOut = ''timed_out''"
| "state_name Cancelled = ''cancelled''"

definition TERMINAL_STATES :: "agent_state list" where
  "TERMINAL_STATES = [Succeeded, Failed, TimedOut, Cancelled]"

fun TRANSITIONS :: "agent_state \<Rightarrow> agent_state list" where
  "TRANSITIONS Created = [Validated, Failed, Cancelled]"
| "TRANSITIONS Validated = [Queued, Failed, Cancelled]"
| "TRANSITIONS Queued = [Running, Failed, Cancelled]"
| "TRANSITIONS Running = [Succeeded, Failed, TimedOut, Cancelled, Running]"
| "TRANSITIONS Succeeded = []"
| "TRANSITIONS Failed = []"
| "TRANSITIONS TimedOut = []"
| "TRANSITIONS Cancelled = []"

record agent_lifecycle =
  lc_state :: agent_state
  started_at :: "rat option"
  finished_at :: "rat option"

definition AgentLifecycle_init :: agent_lifecycle where
  "AgentLifecycle_init = \<lparr>lc_state = Created, started_at = None, finished_at = None\<rparr>"

text \<open>\<open>AgentLifecycle.transition\<close>; \<open>now\<close> is the reading of the monotonic clock.\<close>

definition transition ::
  "rat \<Rightarrow> agent_lifecycle \<Rightarrow> agent_state \<Rightarrow> exn + agent_lifecycle" where
  "transition now lc next_state =
     (if next_state \<notin> set (TRANSITIONS (lc_state lc))
      then Inl (Exn LifecycleError
        (''Invalid transition: '' @ state_name (lc_state lc) @ '' -> '' @ state_name next_state))
      else
        let lc1 = lc\<lparr>lc_state := next_state\<rparr>;
            lc2 = (if next_state = Running \<and> started_at lc1 = None
                   then lc1\<lparr>started_at := Some now\<rparr> else lc1);
            lc3 = (if next_state \<in> set TERMINAL_STATES
                   then lc2\<lparr>finished_at := Some now\<rparr> else lc2)
        in Inr lc3)"

text \<open>\<open>self.finished_at or time.monotonic()\<close> also reads the clock when the value is 0.\<close>

definition lifecycle_duration_ms :: "rat \<Rightarrow> agent_lifecycle \<Rightarrow> rat option" where
  "lifecycle_duration_ms now lc =
     (case started_at lc of
        None \<Rightarrow> None
      | Some st \<Rightarrow>
          let fin = (case finished_at lc of None \<Rightarrow> now | Some f \<Rightarrow> if f = 0 then now else f)
          in Some ((fin - st) * 1000))"

inductive lifecycle_step :: "agent_state \<Rightarrow> agent_state \<Rightarrow> bool" where
  step: "b \<in> set (TRANSITIONS a) \<Longrightarrow> lifecycle_step a b"

inductive_simps lifecycle_step_iff: "lifecycle_step a b"

inductive_cases from_terminal: "lifecycle_step Succeeded b"

lemma terminal_no_step: "a \<in> set TERMINAL_STATES \<Longrightarrow> \<not> lifecycle_step a b"
  by (auto simp: TERMINAL_STATES_def lifecycle_step_iff)

lemma step_or_terminal: "a \<in> set TERMINAL_STATES \<or> (\<exists>b. lifecycle_step a b)"
  by (cases a) (auto simp: TERMINAL_STATES_def lifecycle_step_iff)

lemma transition_Inr_iff:
  "(\<exists>lc'. transition now lc b = Inr lc') \<longleftrightarrow> lifecycle_step (lc_state lc) b"
  by (simp add: transition_def lifecycle_step_iff Let_def)

lemma transition_state: "transition now lc b = Inr lc' \<Longrightarrow> lc_state lc' = b"
  by (auto simp: transition_def Let_def split: if_splits)

lemma state_name_inject [simp]: "state_name a = state_name b \<longleftrightarrow> a = b"
  by (cases a; cases b) simp_all

text \<open>A run of transitions with the clock reading of each, stopping at the first invalid one.\<close>

fun transitions :: "agent_lifecycle \<Rightarrow> (rat \<times> agent_state) list \<Rightarrow> exn + agent_lifecycle" where
  "transitions lc [] = Inr lc"
| "transitions lc ((now, b) # bs) =
     (case transition now lc b of Inl e \<Rightarrow> Inl e | Inr lc' \<Rightarrow> transitions lc' bs)"

text \<open>
  What a valid life cycle keeps: the clock is stamped exactly when the running state has been
  entered, and the end exactly in a terminal state.
\<close>

definition lifecycle_inv :: "agent_lifecycle \<Rightarrow> bool" where
  "lifecycle_inv lc \<longleftrightarrow>
     (finished_at lc \<noteq> None \<longleftrightarrow> lc_state lc \<in> set TERMINAL_STATES) \<and>
     (lc_state lc \<in> {Created, Validated, Queued} \<longrightarrow> started_at lc = None) \<and>
     (lc_state lc \<in> {Running, Succeeded, TimedOut} \<longrightarrow> started_at lc \<noteq> None)"

lemma lifecycle_inv_init: "lifecycle_inv AgentLifecycle_init"
  by (simp add: lifecycle_inv_def AgentLifecycle_init_def TERMINAL_STATES_def)

lemma lifecycle_inv_transition:
  assumes "lifecycle_inv lc" and "transition now lc b = Inr lc'"
  shows "lifecycle_inv lc'"
  using assms
  by (cases "lc_state lc"; cases b)
     (auto simp: lifecycle_inv_def transition_def TERMINAL_STATES_def Let_def split: if_splits)

lemma lifecycle_inv_transitions:
  "lifecycle_inv lc \<Longrightarrow> transitions lc bs = Inr lc' \<Longrightarrow> lifecycle_inv lc'"
  by (induction lc bs rule: transitions.induct)
     (auto split: sum.splits dest: lifecycle_inv_transition)

section \<open>Properties\<close>

text \<open>C15: a life cycle that has accepted any sequence of transitions has its end stamped exactly
  when it is in a terminal state, and a life cycle in a terminal state refuses every further
  transition.\<close>

theorem lifecycle_terminal_immutable:
  assumes "transitions AgentLifecycle_init bs = Inr lc"
  shows "(finished_at lc \<noteq> None \<longleftrightarrow> lc_state lc \<in> set TERMINAL_STATES)
     \<and> (lc_state lc \<in> set TERMINAL_STATES \<longrightarrow>
          transition now lc b = Inl (Exn LifecycleError
            (''Invalid transition: '' @ state_name (lc_state lc) @ '' -> '' @ state_name b)))"
proof -
  have "lifecycle_inv lc" using lifecycle_inv_init assms by (rule lifecycle_inv_transitions)
  then show ?thesis
    by (auto simp: lifecycle_inv_def transition_def TERMINAL_STATES_def)
qed

theorem lifecycle_terminal_immutable_witness:
  "transition 9 \<lparr>lc_state = Succeeded, started_at = Some 7, finished_at = Some 8\<rparr> Running =
     Inl (Exn LifecycleError ''Invalid transition: succeeded -> running'')"
  using lifecycle_terminal_immutable
      [of "[(5, Validated), (6, Queued), (7, Running), (8, Succeeded)]"
          "\<lparr>lc_state = Succeeded, started_at = Some 7, finished_at = Some 8\<rparr>" 9 Running]
  by (simp add: transition_def AgentLifecycle_init_def TERMINAL_STATES_def Let_def)

text \<open>Every exception an agent can raise maps to one of the published error codes, and the
  only ones marked retryable are time-outs and unclassified runtime errors.\<close>

theorem error_mapping_classified:
  "err_code (error_from_exception e) \<in> set ERROR_CODES
   \<and> err_message (error_from_exception e) = exn_message e
   \<and> (retryable (error_from_exception e) \<longleftrightarrow>
        exn_kind e \<noteq> AgentValidationError \<and> exn_kind e \<noteq> PermissionError)"
  by (cases e rule: error_from_exception.cases)
     (simp_all add: ERROR_CODES_def retryable_def)

end
