(* ===== verification/Security.thy ===== *)
theory Security
  imports Agents
begin

text \<open>
  The security domain: the granular action vocabulary and its expansion from coarse
  capabilities (\<open>security/actions.py\<close>), intents and verdicts (\<open>security/contracts.py\<close>), the
  canonical capability policy (\<open>security/capabilities.py\<close>), the effective-permission resolver
  (\<open>security/resolver.py\<close>) and the intent check (\<open>security/intent_validator.py\<close>). Sets of
  strings stay sets; where the code sorts one, the model sorts it by code point.
\<close>

section \<open>Actions\<close>

abbreviation FILESYSTEM_READ_ACTION :: string where "FILESYSTEM_READ_ACTION \<equiv> ''filesystem.read''"
abbreviation FILESYSTEM_WRITE_ACTION :: string
  where "FILESYSTEM_WRITE_ACTION \<equiv> ''filesystem.write''"
abbreviation FILESYSTEM_DELETE :: string where "FILESYSTEM_DELETE \<equiv> ''filesystem.delete''"
abbreviation SHELL_EXECUTE :: string where "SHELL_EXECUTE \<equiv> ''shell.execute''"
abbreviation GIT_BRANCH :: string where "GIT_BRANCH \<equiv> ''git.branch''"
abbreviation GIT_COMMIT :: string where "GIT_COMMIT \<equiv> ''git.commit''"
abbreviation GIT_PUSH :: string where "GIT_PUSH \<equiv> ''git.push''"
abbreviation GIT_TAG :: string where "GIT_TAG \<equiv> ''git.tag''"
abbreviation NETWORK_ACCESS :: string where "NETWORK_ACCESS \<equiv> ''network.access''"
abbreviation ASK_USER_ACTION :: string where "ASK_USER_ACTION \<equiv> ''ask_user''"
abbreviation RELEASE_PUBLISH :: string where "RELEASE_PUBLISH \<equiv> ''release.publish''"

definition CAPABILITY_ACTIONS :: "(string \<times> string set) list" where
  "CAPABILITY_ACTIONS =
     [(FILESYSTEM_READ, {FILESYSTEM_READ_ACTION}),
      (FILESYSTEM_WRITE, {FILESYSTEM_WRITE_ACTION}),
      (SHELL, {SHELL_EXECUTE}),
      (GIT, {GIT_BRANCH, GIT_COMMIT}),
      (INTERNET, {NETWORK_ACCESS}),
      (ASK_USER, {ASK_USER_ACTION})]"

datatype capability_arg =
  CapObject agent_capabilities | CapList "string list" | CapName string

fun capability_names :: "capability_arg \<Rightarrow> string list" where
  "capability_names (CapObject c) = permissions c"
| "capability_names (CapName s) = [s]"
| "capability_names (CapList xs) = xs"

definition expand :: "capability_arg \<Rightarrow> string set" where
  "expand c = foldl (\<lambda>granted cap. granted \<union> dict_get CAPABILITY_ACTIONS cap {}) {}
     (capability_names c)"

section \<open>Intents and verdicts\<close>

record intent_policy =
  actions :: "string set"
  deny :: "string set"
  ip_name :: string
  ip_source :: string

definition intent_to_dict :: "intent_policy \<Rightarrow> pydict" where
  "intent_to_dict i =
     [(''name'', PStr (ip_name i)), (''source'', PStr (ip_source i)),
      (''actions'', strs (sorted_list_of_set (actions i))),
      (''deny'', strs (sorted_list_of_set (deny i)))]"

record security_decision =
  sd_action :: string
  sd_allowed :: bool
  sd_reason :: string
  sd_violations :: "string list"
  sd_effective :: "string set"

definition security_decision_to_dict :: "security_decision \<Rightarrow> pydict" where
  "security_decision_to_dict d =
     [(''action'', PStr (sd_action d)), (''allowed'', PBool (sd_allowed d)),
      (''reason'', PStr (sd_reason d)), (''violations'', strs (sd_violations d)),
      (''effective_permissions'',
         PDict [(''allowed'', strs (sorted_list_of_set (sd_effective d)))])]"

definition mk_intent :: "string \<Rightarrow> string set \<Rightarrow> intent_policy" where
  "mk_intent n a = \<lparr>actions = a, deny = {}, ip_name = n, ip_source = ''default''\<rparr>"

definition DEFAULT_INTENTS :: "(string \<times> intent_policy) list" where
  "DEFAULT_INTENTS =
     [(''plan'', mk_intent ''plan'' {FILESYSTEM_READ_ACTION, ASK_USER_ACTION}),
      (''review'', mk_intent ''review'' {FILESYSTEM_READ_ACTION}),
      (''research'', mk_intent ''research'' {FILESYSTEM_READ_ACTION}),
      (''develop'', mk_intent ''develop''
         {FILESYSTEM_READ_ACTION, FILESYSTEM_WRITE_ACTION, SHELL_EXECUTE, GIT_BRANCH,
          GIT_COMMIT}),
      (''test'', mk_intent ''test'' {FILESYSTEM_READ_ACTION, SHELL_EXECUTE})]"

definition WORKFLOW_INTENT :: intent_policy where
  "WORKFLOW_INTENT =
     (let develop = the (map_of DEFAULT_INTENTS ''develop'') in
      \<lparr>actions = actions develop \<union> {ASK_USER_ACTION}, deny = {},
       ip_name = ip_name develop, ip_source = ip_source develop\<rparr>)"

section \<open>Resolution\<close>

definition effective_permissions :: "intent_policy \<Rightarrow> capability_arg \<Rightarrow> string set" where
  "effective_permissions intent caps = (actions intent - deny intent) \<inter> expand caps"

definition decide :: "string \<Rightarrow> intent_policy \<Rightarrow> capability_arg \<Rightarrow> security_decision" where
  "decide action intent caps =
     (let effective = effective_permissions intent caps; allowed = (action \<in> effective) in
      \<lparr>sd_action = action, sd_allowed = allowed,
       sd_reason = (if allowed then action @ '' granted by intent and capabilities''
         else action @
           '' denied: not in intent, explicitly denied, or not granted by capabilities''),
       sd_violations = (if allowed then [] else [action]),
       sd_effective = effective\<rparr>)"

text \<open>\<open>intent.name or "unknown"\<close>\<close>

definition intent_label :: "intent_policy \<Rightarrow> string" where
  "intent_label intent = (if ip_name intent = [] then ''unknown'' else ip_name intent)"

definition validate_intent :: "intent_policy \<Rightarrow> capability_arg \<Rightarrow> security_decision" where
  "validate_intent intent caps =
     (let granted = expand caps;
          effective = (actions intent - deny intent) \<inter> granted;
          intent_name = intent_label intent
      in if effective = {}
         then \<lparr>sd_action = intent_name, sd_allowed = False,
               sd_reason = ''intent '' @ [CHR 0x27] @ intent_name @ [CHR 0x27] @
                 '' grants no action'',
               sd_violations = sorted_list_of_set granted, sd_effective = {}\<rparr>
         else \<lparr>sd_action = intent_name, sd_allowed = True,
               sd_reason = ''intent '' @ [CHR 0x27] @ intent_name @ [CHR 0x27] @
                 '' grants actions'',
               sd_violations = [], sd_effective = effective\<rparr>)"

section \<open>The canonical capability policy\<close>

definition CANONICAL_CAPABILITIES :: "(string \<times> string list) list" where
  "CANONICAL_CAPABILITIES =
     [(''planner'', [FILESYSTEM_READ, ''ask_user'']),
      (''research'', [FILESYSTEM_READ]),
      (''developer'', [FILESYSTEM_READ, FILESYSTEM_WRITE, SHELL]),
      (''reviewer'', [FILESYSTEM_READ]),
      (''tester'', [FILESYSTEM_READ, SHELL]),
      (''documentation'', [FILESYSTEM_READ, FILESYSTEM_WRITE]),
      (''git'', [GIT])]"

type_synonym capability_policy = "(string \<times> string list) list"

text \<open>\<open>policy or CANONICAL_CAPABILITIES\<close>: an empty policy means the canonical one.\<close>

definition CapabilityEnforcer_init :: "capability_policy option \<Rightarrow> capability_policy" where
  "CapabilityEnforcer_init policy =
     (case policy of None \<Rightarrow> CANONICAL_CAPABILITIES
      | Some p \<Rightarrow> if p = [] then CANONICAL_CAPABILITIES else p)"

text \<open>\<open>f"{sorted(extra)}"\<close>: the display of a list of strings without quotes in them.\<close>

definition show_str_list :: "string list \<Rightarrow> string" where
  "show_str_list xs =
     ''['' @ join '', '' (map (\<lambda>x. [CHR 0x27] @ x @ [CHR 0x27]) xs) @ '']''"

definition capability_extra :: "capability_policy \<Rightarrow> string \<Rightarrow> string list \<Rightarrow> string set" where
  "capability_extra policy agent declared = set declared - set (dict_get policy agent [])"

definition validate_agent ::
  "capability_policy \<Rightarrow> string \<Rightarrow> string list \<Rightarrow> exn + unit" where
  "validate_agent policy agent declared =
     (let extra = capability_extra policy agent declared in
      if extra \<noteq> {}
      then Inl (Exn PermissionError (''agent '' @ [CHR 0x27] @ agent @ [CHR 0x27] @
             '' declares capabilities not granted by policy: '' @
             show_str_list (sorted_list_of_set extra)))
      else Inr ())"

text \<open>\<open>CapabilityEnforcer.validate\<close> on an agent object.\<close>

definition enforcer_validate ::
  "capability_policy \<Rightarrow> string \<Rightarrow> agent_capabilities \<Rightarrow> exn + unit" where
  "enforcer_validate policy agent caps = validate_agent policy agent (permissions caps)"

section \<open>Expansion\<close>

lemma foldl_union: "foldl (\<lambda>g c. g \<union> f c) G cs = G \<union> (\<Union>c \<in> set cs. f c)"
  by (induction cs arbitrary: G) auto

lemma expand_eq: "expand c = (\<Union>cap \<in> set (capability_names c). dict_get CAPABILITY_ACTIONS cap {})"
  by (simp add: expand_def foldl_union)

lemma finite_capability_actions: "finite (dict_get CAPABILITY_ACTIONS cap {})"
  by (auto simp: dict_get_def CAPABILITY_ACTIONS_def split: option.splits)

lemma finite_expand [simp]: "finite (expand c)"
  by (simp add: expand_eq finite_capability_actions)

lemma expand_mono:
  "set (capability_names c) \<subseteq> set (capability_names d) \<Longrightarrow> expand c \<subseteq> expand d"
  by (auto simp: expand_eq)

lemma effective_le_expand: "effective_permissions intent caps \<subseteq> expand caps"
  by (auto simp: effective_permissions_def)

lemma capability_action_cases:
  "a \<in> dict_get CAPABILITY_ACTIONS cap {} \<longleftrightarrow>
     (cap, a) \<in> {(FILESYSTEM_READ, FILESYSTEM_READ_ACTION),
       (FILESYSTEM_WRITE, FILESYSTEM_WRITE_ACTION), (SHELL, SHELL_EXECUTE),
       (GIT, GIT_BRANCH), (GIT, GIT_COMMIT), (INTERNET, NETWORK_ACCESS),
       (ASK_USER, ASK_USER_ACTION)}"
  by (auto simp: dict_get_def CAPABILITY_ACTIONS_def split: if_splits)

lemma in_expand_iff:
  "a \<in> expand c \<longleftrightarrow> (\<exists>cap \<in> set (capability_names c). a \<in> dict_get CAPABILITY_ACTIONS cap {})"
  by (simp add: expand_eq)

lemma validate_agent_ok_iff:
  "validate_agent policy agent declared = Inr () \<longleftrightarrow>
     set declared \<subseteq> set (dict_get policy agent [])"
  by (auto simp: validate_agent_def capability_extra_def)

lemma canonical_grants:
  "cap \<in> set (dict_get CANONICAL_CAPABILITIES agent []) \<Longrightarrow>
     (agent, cap) \<in> {(''planner'', FILESYSTEM_READ), (''planner'', ASK_USER),
       (''research'', FILESYSTEM_READ), (''developer'', FILESYSTEM_READ),
       (''developer'', FILESYSTEM_WRITE), (''developer'', SHELL),
       (''reviewer'', FILESYSTEM_READ), (''tester'', FILESYSTEM_READ), (''tester'', SHELL),
       (''documentation'', FILESYSTEM_READ), (''documentation'', FILESYSTEM_WRITE),
       (''git'', GIT)}"
  by (auto simp: dict_get_def CANONICAL_CAPABILITIES_def split: if_splits)

lemma validate_intent_allowed:
  "sd_allowed (validate_intent intent caps) \<longleftrightarrow> effective_permissions intent caps \<noteq> {}"
  by (simp add: validate_intent_def effective_permissions_def Let_def)

lemma validate_intent_effective:
  "sd_effective (validate_intent intent caps) = effective_permissions intent caps"
  by (simp add: validate_intent_def effective_permissions_def Let_def)

lemma decide_allowed: "sd_allowed (decide a intent caps) \<longleftrightarrow> a \<in> effective_permissions intent caps"
  by (simp add: decide_def Let_def)

lemma in_effective_iff:
  "a \<in> effective_permissions intent caps \<longleftrightarrow> a \<in> actions intent \<and> a \<notin> deny intent \<and>
     (\<exists>cap \<in> set (capability_names caps). a \<in> dict_get CAPABILITY_ACTIONS cap {})"
  by (auto simp: effective_permissions_def in_expand_iff)

section \<open>Properties\<close>

text \<open>C29: an action is allowed exactly when the intent requests it, the intent does not deny it
  and some declared capability grants it; the verdict of the resolver, the effective set and the
  intent check agree on this, and the audit lists an action as a violation exactly when it is
  refused.\<close>

theorem decide_sound_complete:
  "(sd_allowed (decide a intent caps) \<longleftrightarrow>
      a \<in> actions intent \<and> a \<notin> deny intent \<and>
      (\<exists>cap \<in> set (capability_names caps). a \<in> dict_get CAPABILITY_ACTIONS cap {}))
   \<and> sd_violations (decide a intent caps) =
       (if sd_allowed (decide a intent caps) then [] else [a])
   \<and> sd_effective (decide a intent caps) = effective_permissions intent caps
   \<and> (sd_allowed (validate_intent intent caps) \<longleftrightarrow>
        (\<exists>b. sd_allowed (decide b intent caps)))
   \<and> sd_effective (validate_intent intent caps) = effective_permissions intent caps"
proof -
  have "sd_violations (decide a intent caps) = (if sd_allowed (decide a intent caps) then [] else [a])"
    and "sd_effective (decide a intent caps) = effective_permissions intent caps"
    by (simp_all add: decide_def Let_def)
  moreover have "sd_allowed (validate_intent intent caps) \<longleftrightarrow> (\<exists>b. sd_allowed (decide b intent caps))"
    by (simp add: validate_intent_allowed decide_allowed ex_in_conv)
  ultimately show ?thesis
    by (simp add: decide_allowed in_effective_iff validate_intent_effective)
qed

text \<open>C18: an agent that passes the canonical policy under the workflow intent can never push, tag,
  publish a release, delete files or reach the network, and only the developer and the
  documentation agent can write files.\<close>

theorem canonical_agents_confined:
  assumes "enforcer_validate (CapabilityEnforcer_init None) agent caps = Inr ()"
    and "a \<in> effective_permissions WORKFLOW_INTENT (CapObject caps)"
  shows "a \<notin> {GIT_PUSH, GIT_TAG, RELEASE_PUBLISH, FILESYSTEM_DELETE, NETWORK_ACCESS}
     \<and> (a = FILESYSTEM_WRITE_ACTION \<longrightarrow> agent \<in> {''developer'', ''documentation''})"
proof -
  from assms(2) obtain cap where cap: "cap \<in> set (permissions caps)"
    and a: "a \<in> dict_get CAPABILITY_ACTIONS cap {}"
    by (auto simp: effective_permissions_def in_expand_iff)
  from assms(1) cap have "cap \<in> set (dict_get CANONICAL_CAPABILITIES agent [])"
    by (auto simp: enforcer_validate_def validate_agent_ok_iff CapabilityEnforcer_init_def)
  then show ?thesis
    using a by (auto dest!: canonical_grants simp: capability_action_cases)
qed

theorem canonical_agents_confined_witness:
  "SHELL_EXECUTE \<notin> {GIT_PUSH, GIT_TAG, RELEASE_PUBLISH, FILESYSTEM_DELETE, NETWORK_ACCESS}
   \<and> SHELL_EXECUTE \<in> effective_permissions WORKFLOW_INTENT
       (CapObject \<lparr>permissions = [SHELL]\<rparr>)"
proof -
  have ok: "enforcer_validate (CapabilityEnforcer_init None) ''tester'' \<lparr>permissions = [SHELL]\<rparr>
      = Inr ()"
    by (simp add: enforcer_validate_def validate_agent_ok_iff CapabilityEnforcer_init_def
        CANONICAL_CAPABILITIES_def dict_get_def)
  have eff: "SHELL_EXECUTE \<in> effective_permissions WORKFLOW_INTENT
      (CapObject \<lparr>permissions = [SHELL]\<rparr>)"
    by (simp add: effective_permissions_def in_expand_iff CAPABILITY_ACTIONS_def dict_get_def
        WORKFLOW_INTENT_def DEFAULT_INTENTS_def mk_intent_def Let_def)
  show ?thesis using canonical_agents_confined [OF ok eff] eff by simp
qed

end
