(* ===== verification/Table.thy ===== *)
theory Table
  imports Prelude
begin

text \<open>
  A table of the embedded SQLite database with an \<open>INTEGER PRIMARY KEY AUTOINCREMENT\<close> column:
  the rows by ascending identifier and the largest identifier ever given out. The stores of the
  scheduler, the memory and the learning engine keep their rows in such tables; what they rely
  on is the locale \<open>autoincrement\<close>.
\<close>

section \<open>Operations\<close>

record 'r table =
  table_rows :: "(int \<times> 'r) list"
  last_id :: int

definition empty_table :: "'r table" where
  "empty_table = \<lparr>table_rows = [], last_id = 0\<rparr>"

text \<open>\<open>INSERT\<close>; the answer is \<open>cursor.lastrowid\<close>.\<close>

definition insert_row :: "'r \<Rightarrow> 'r table \<Rightarrow> int \<times> 'r table" where
  "insert_row r t = (last_id t + 1,
     \<lparr>table_rows = table_rows t @ [(last_id t + 1, r)], last_id = last_id t + 1\<rparr>)"

text \<open>\<open>SELECT ... WHERE id = i\<close>\<close>

definition row_of :: "'r table \<Rightarrow> int \<Rightarrow> 'r option" where
  "row_of t i = map_of (table_rows t) i"

text \<open>\<open>UPDATE ... SET ... WHERE id = i\<close>; no row, no effect.\<close>

definition update_row :: "int \<Rightarrow> ('r \<Rightarrow> 'r) \<Rightarrow> 'r table \<Rightarrow> 'r table" where
  "update_row i f t = t\<lparr>table_rows := map (\<lambda>(j, r). (j, if j = i then f r else r)) (table_rows t)\<rparr>"

text \<open>\<open>SELECT ... WHERE P ORDER BY id ASC\<close>\<close>

definition select_rows :: "(int \<Rightarrow> 'r \<Rightarrow> bool) \<Rightarrow> 'r table \<Rightarrow> (int \<times> 'r) list" where
  "select_rows P t = filter (\<lambda>(i, r). P i r) (table_rows t)"

definition delete_rows :: "(int \<Rightarrow> 'r \<Rightarrow> bool) \<Rightarrow> 'r table \<Rightarrow> 'r table" where
  "delete_rows P t = t\<lparr>table_rows := filter (\<lambda>(i, r). \<not> P i r) (table_rows t)\<rparr>"

definition table_ids :: "'r table \<Rightarrow> int list" where
  "table_ids t = map fst (table_rows t)"

text \<open>Identifiers ascend and none exceeds the largest given out.\<close>

definition table_inv :: "'r table \<Rightarrow> bool" where
  "table_inv t \<longleftrightarrow> sorted_wrt (<) (table_ids t) \<and> (\<forall>i \<in> set (table_ids t). 0 < i \<and> i \<le> last_id t) \<and>
     0 \<le> last_id t"

section \<open>Laws\<close>

lemma table_inv_empty [simp]: "table_inv empty_table"
  by (simp add: table_inv_def empty_table_def table_ids_def)

lemma row_of_empty [simp]: "row_of empty_table i = None"
  by (simp add: row_of_def empty_table_def)

lemma row_of_None_iff: "row_of t i = None \<longleftrightarrow> i \<notin> set (table_ids t)"
  by (simp add: row_of_def table_ids_def map_of_eq_None_iff)

lemma table_inv_insert: "table_inv t \<Longrightarrow> table_inv (snd (insert_row r t))"
  by (auto simp: table_inv_def insert_row_def table_ids_def sorted_wrt_append)

lemma row_of_insert:
  assumes "table_inv t"
  shows "row_of (snd (insert_row r t)) i = (if i = fst (insert_row r t) then Some r else row_of t i)"
proof -
  have "row_of t (last_id t + 1) = None"
    using assms by (auto simp: row_of_None_iff table_inv_def)
  then show ?thesis
    by (auto simp: row_of_def insert_row_def map_add_def split: option.splits)
qed

lemma ids_update [simp]: "table_ids (update_row i f t) = table_ids t"
  by (simp add: table_ids_def update_row_def case_prod_unfold comp_def)

lemma last_id_update [simp]: "last_id (update_row i f t) = last_id t"
  by (simp add: update_row_def)

lemma table_inv_update [simp]: "table_inv (update_row i f t) = table_inv t"
  by (simp add: table_inv_def)

lemma row_of_update:
  "row_of (update_row i f t) j = (if j = i then map_option f (row_of t j) else row_of t j)"
proof -
  have "map_of (map (\<lambda>(k, r). (k, if k = i then f r else r)) xs) j =
      (if j = i then map_option f (map_of xs j) else map_of xs j)" for xs
    by (induction xs) auto
  then show ?thesis by (simp add: row_of_def update_row_def)
qed

lemma sorted_ids_filter: "sorted_wrt (<) (map fst xs) \<Longrightarrow> sorted_wrt (<) (map fst (filter P xs))"
  by (induction xs) auto

lemma table_inv_delete: "table_inv t \<Longrightarrow> table_inv (delete_rows P t)"
  by (auto simp: table_inv_def delete_rows_def table_ids_def sorted_ids_filter)

lemma table_inv_distinct: "table_inv t \<Longrightarrow> distinct (table_ids t)"
  by (simp add: table_inv_def strict_sorted_iff)

lemma row_of_mem: "table_inv t \<Longrightarrow> row_of t i = Some r \<longleftrightarrow> (i, r) \<in> set (table_rows t)"
  unfolding row_of_def using table_inv_distinct [of t]
  by (auto simp: table_ids_def dest: map_of_SomeD)

lemma select_rows_mem:
  "table_inv t \<Longrightarrow> (i, r) \<in> set (select_rows P t) \<longleftrightarrow> row_of t i = Some r \<and> P i r"
  by (auto simp: select_rows_def row_of_mem)

lemma delete_rows_mem:
  "(i, r) \<in> set (table_rows (delete_rows P t)) \<longleftrightarrow> (i, r) \<in> set (table_rows t) \<and> \<not> P i r"
  by (auto simp: delete_rows_def)

lemma row_of_delete:
  assumes "table_inv t"
  shows "row_of (delete_rows P t) i =
    (case row_of t i of None \<Rightarrow> None | Some r \<Rightarrow> if P i r then None else Some r)"
proof (cases "row_of t i")
  case None
  then have "row_of (delete_rows P t) i = None"
    by (auto simp: row_of_None_iff table_ids_def delete_rows_def)
  with None show ?thesis by simp
next
  case (Some r)
  have inv: "table_inv (delete_rows P t)" using assms by (rule table_inv_delete)
  have eq: "row_of (delete_rows P t) i = Some r' \<longleftrightarrow> row_of t i = Some r' \<and> \<not> P i r'" for r'
    by (simp add: row_of_mem [OF inv] row_of_mem [OF assms] delete_rows_mem)
  show ?thesis
  proof (cases "row_of (delete_rows P t) i")
    case None
    then show ?thesis using eq [of r] Some by simp
  next
    case (Some r')
    then show ?thesis using eq [of r'] \<open>row_of t i = Some r\<close> by simp
  qed
qed

section \<open>The interface\<close>

text \<open>
  What a store relies on: an inserted row is found under the identifier it was given, which is
  new, and changes no other row; updating changes the addressed row only; both keep the
  invariant.
\<close>

locale autoincrement =
  fixes ins :: "'r \<Rightarrow> 't \<Rightarrow> int \<times> 't"
    and get :: "'t \<Rightarrow> int \<Rightarrow> 'r option"
    and upd :: "int \<Rightarrow> ('r \<Rightarrow> 'r) \<Rightarrow> 't \<Rightarrow> 't"
    and inv :: "'t \<Rightarrow> bool"
  assumes inv_ins: "inv t \<Longrightarrow> inv (snd (ins r t))"
    and get_ins: "inv t \<Longrightarrow>
      get (snd (ins r t)) i = (if i = fst (ins r t) then Some r else get t i)"
    and ins_fresh: "inv t \<Longrightarrow> get t (fst (ins r t)) = None"
    and inv_upd: "inv t \<Longrightarrow> inv (upd i f t)"
    and get_upd: "get (upd i f t) j = (if j = i then map_option f (get t j) else get t j)"
begin

definition all_rows :: "('r \<Rightarrow> bool) \<Rightarrow> 't \<Rightarrow> bool" where
  "all_rows P t \<longleftrightarrow> (\<forall>i r. get t i = Some r \<longrightarrow> P r)"

lemma all_rows_ins: "inv t \<Longrightarrow> all_rows P t \<Longrightarrow> P r \<Longrightarrow> all_rows P (snd (ins r t))"
  by (auto simp: all_rows_def get_ins split: if_splits)

lemma all_rows_upd:
  "all_rows P t \<Longrightarrow> (\<And>r. get t i = Some r \<Longrightarrow> P r \<Longrightarrow> P (f r)) \<Longrightarrow> all_rows P (upd i f t)"
  by (auto simp: all_rows_def get_upd split: if_splits)

lemma get_ins_same: "inv t \<Longrightarrow> get (snd (ins r t)) (fst (ins r t)) = Some r"
  by (simp add: get_ins)

lemma get_ins_kept: "inv t \<Longrightarrow> get t i = Some r' \<Longrightarrow> get (snd (ins r t)) i = Some r'"
  using ins_fresh [of t r] by (auto simp: get_ins)

lemma two_inserts_differ:
  assumes "inv t"
  shows "fst (ins r' (snd (ins r t))) \<noteq> fst (ins r t)"
  using ins_fresh [OF inv_ins [OF assms, of r], of r'] get_ins_same [OF assms, of r] by auto

end

interpretation sqlite: autoincrement insert_row row_of update_row table_inv
proof unfold_locales
  fix t :: "'a table" and r
  assume "table_inv t"
  then show "row_of t (fst (insert_row r t)) = None"
    by (auto simp: row_of_None_iff table_inv_def insert_row_def)
qed (simp_all add: table_inv_insert row_of_insert row_of_update)

end
