(* ===== verification/Memory.thy ===== *)
theory Memory
  imports Table PyStr
begin

text \<open>
  Project memory (\<open>memory/models.py\<close>, \<open>memory/store.py\<close>, \<open>memory/engine.py\<close>) and its commands
  (\<open>cli/commands/memory.py\<close>): conventions, decisions, patterns and mistakes in four tables of the
  project database. The state is the tables, whether the store is open, how many rows the
  connection has changed since it was opened, and how often the clock was read. The project and
  the clock are parameters. Rows with equal keys of an \<open>ORDER BY\<close> come in the order of the table.
\<close>

section \<open>Data\<close>

record convention =
  cv_category :: string
  cv_rule :: string
  cv_source :: string
  cv_project :: string
  cv_created :: string
  cv_seen :: string

record decision =
  de_title :: string
  de_context :: string
  de_decision :: string
  de_consequences :: string
  de_status :: string
  de_project :: string
  de_created :: string

record pattern =
  pa_name :: string
  pa_description :: string
  pa_usage :: int
  pa_project :: string
  pa_created :: string

record mistake =
  mi_description :: string
  mi_category :: string
  mi_severity :: string
  mi_project :: string
  mi_resolved :: "string option"
  mi_created :: string

record project_knowledge =
  pk_conventions :: "(int \<times> convention) list"
  pk_decisions :: "(int \<times> decision) list"
  pk_patterns :: "(int \<times> pattern) list"
  pk_mistakes :: "(int \<times> mistake) list"

definition is_empty_knowledge :: "project_knowledge \<Rightarrow> bool" where
  "is_empty_knowledge k \<longleftrightarrow>
     pk_conventions k = [] \<and> pk_decisions k = [] \<and> pk_patterns k = [] \<and> pk_mistakes k = []"

definition convention_to_dict :: "convention \<Rightarrow> pydict" where
  "convention_to_dict c = [(''category'', PStr (cv_category c)), (''rule'', PStr (cv_rule c)),
     (''source'', PStr (cv_source c))]"

definition decision_to_dict :: "decision \<Rightarrow> pydict" where
  "decision_to_dict d = [(''title'', PStr (de_title d)), (''context'', PStr (de_context d)),
     (''decision'', PStr (de_decision d)), (''status'', PStr (de_status d))]"

definition pattern_to_dict :: "pattern \<Rightarrow> pydict" where
  "pattern_to_dict p = [(''name'', PStr (pa_name p)), (''description'', PStr (pa_description p)),
     (''usage_count'', PInt (pa_usage p))]"

definition mistake_to_dict :: "mistake \<Rightarrow> pydict" where
  "mistake_to_dict m = [(''description'', PStr (mi_description m)),
     (''category'', PStr (mi_category m)), (''severity'', PStr (mi_severity m))]"

definition knowledge_to_dict :: "project_knowledge \<Rightarrow> pydict" where
  "knowledge_to_dict k =
     [(''conventions'', PList (map (PDict \<circ> convention_to_dict \<circ> snd) (pk_conventions k))),
      (''decisions'', PList (map (PDict \<circ> decision_to_dict \<circ> snd) (pk_decisions k))),
      (''patterns'', PList (map (PDict \<circ> pattern_to_dict \<circ> snd) (pk_patterns k))),
      (''mistakes'', PList (map (PDict \<circ> mistake_to_dict \<circ> snd) (pk_mistakes k)))]"

record memory_state =
  m_open :: bool
  m_conventions :: "convention table"
  m_decisions :: "decision table"
  m_patterns :: "pattern table"
  m_mistakes :: "mistake table"
  m_changes :: nat
  m_tick :: nat

record memory_env =
  m_project :: string
  m_clock :: "nat \<Rightarrow> string"

definition empty_memory :: memory_state where
  "empty_memory = \<lparr>m_open = True, m_conventions = empty_table, m_decisions = empty_table,
     m_patterns = empty_table, m_mistakes = empty_table, m_changes = 0, m_tick = 0\<rparr>"

section \<open>The store\<close>

definition tick :: "memory_state \<Rightarrow> memory_state" where
  "tick s = s\<lparr>m_tick := m_tick s + 1\<rparr>"

definition changed :: "nat \<Rightarrow> memory_state \<Rightarrow> memory_state" where
  "changed n s = s\<lparr>m_changes := m_changes s + n\<rparr>"

definition get_conventions :: "memory_env \<Rightarrow> memory_state \<Rightarrow> (int \<times> convention) list" where
  "get_conventions E s = (if \<not> m_open s then [] else sort_desc (\<lambda>(i, r). cv_seen r)
     (select_rows (\<lambda>i r. cv_project r = m_project E) (m_conventions s)))"

definition get_decisions :: "memory_env \<Rightarrow> string \<Rightarrow> memory_state \<Rightarrow> (int \<times> decision) list" where
  "get_decisions E status s = (if \<not> m_open s then [] else sort_desc (\<lambda>(i, r). de_created r)
     (select_rows (\<lambda>i r. de_project r = m_project E \<and> de_status r = status) (m_decisions s)))"

definition get_patterns :: "memory_env \<Rightarrow> memory_state \<Rightarrow> (int \<times> pattern) list" where
  "get_patterns E s = (if \<not> m_open s then [] else sort_desc (\<lambda>(i, r). pa_usage r)
     (select_rows (\<lambda>i r. pa_project r = m_project E) (m_patterns s)))"

definition get_mistakes :: "memory_env \<Rightarrow> bool \<Rightarrow> memory_state \<Rightarrow> (int \<times> mistake) list" where
  "get_mistakes E resolved s = (if \<not> m_open s then [] else sort_desc (\<lambda>(i, r). mi_created r)
     (select_rows (\<lambda>i r. mi_project r = m_project E \<and> (mi_resolved r \<noteq> None) = resolved)
        (m_mistakes s)))"

text \<open>The first row of a query without \<open>ORDER BY\<close>.\<close>

definition first_row :: "(int \<Rightarrow> 'r \<Rightarrow> bool) \<Rightarrow> 'r table \<Rightarrow> (int \<times> 'r) option" where
  "first_row P t = (case select_rows P t of [] \<Rightarrow> None | x # _ \<Rightarrow> Some x)"

definition upsert_convention ::
  "memory_env \<Rightarrow> string \<Rightarrow> string \<Rightarrow> string \<Rightarrow> memory_state \<Rightarrow> memory_state" where
  "upsert_convention E rule category source s0 =
     (let now = m_clock E (m_tick s0); s = tick s0 in
      if \<not> m_open s then s
      else case first_row (\<lambda>i r. cv_rule r = rule \<and> cv_project r = m_project E) (m_conventions s) of
        Some (i, _) \<Rightarrow> changed 1 (s\<lparr>m_conventions := update_row i
          (\<lambda>r. r\<lparr>cv_seen := now, cv_category := category, cv_source := source\<rparr>) (m_conventions s)\<rparr>)
      | None \<Rightarrow> changed 1 (s\<lparr>m_conventions := snd (insert_row
          \<lparr>cv_category = category, cv_rule = rule, cv_source = source, cv_project = m_project E,
           cv_created = now, cv_seen = now\<rparr> (m_conventions s))\<rparr>))"

definition add_decision ::
  "memory_env \<Rightarrow> string \<Rightarrow> string \<Rightarrow> string \<Rightarrow> string \<Rightarrow> memory_state \<Rightarrow> memory_state" where
  "add_decision E title ctxt dec consequences s0 =
     (let now = m_clock E (m_tick s0); s = tick s0 in
      if \<not> m_open s then s
      else changed 1 (s\<lparr>m_decisions := snd (insert_row
        \<lparr>de_title = title, de_context = ctxt, de_decision = dec, de_consequences = consequences,
         de_status = ''active'', de_project = m_project E, de_created = now\<rparr> (m_decisions s))\<rparr>))"

definition add_pattern :: "memory_env \<Rightarrow> string \<Rightarrow> string \<Rightarrow> memory_state \<Rightarrow> memory_state" where
  "add_pattern E name description s0 =
     (let now = m_clock E (m_tick s0); s = tick s0 in
      if \<not> m_open s then s
      else case first_row (\<lambda>i r. pa_name r = name \<and> pa_project r = m_project E) (m_patterns s) of
        Some (i, _) \<Rightarrow> changed 1 (s\<lparr>m_patterns := update_row i
          (\<lambda>r. r\<lparr>pa_usage := pa_usage r + 1\<rparr>) (m_patterns s)\<rparr>)
      | None \<Rightarrow> changed 1 (s\<lparr>m_patterns := snd (insert_row
          \<lparr>pa_name = name, pa_description = description, pa_usage = 1, pa_project = m_project E,
           pa_created = now\<rparr> (m_patterns s))\<rparr>))"

definition add_mistake ::
  "memory_env \<Rightarrow> string \<Rightarrow> string \<Rightarrow> string \<Rightarrow> memory_state \<Rightarrow> memory_state" where
  "add_mistake E description category severity s0 =
     (let now = m_clock E (m_tick s0); s = tick s0 in
      if \<not> m_open s then s
      else changed 1 (s\<lparr>m_mistakes := snd (insert_row
        \<lparr>mi_description = description, mi_category = category, mi_severity = severity,
         mi_project = m_project E, mi_resolved = None, mi_created = now\<rparr> (m_mistakes s))\<rparr>))"

text \<open>A deletion answers whether the connection has ever changed a row.\<close>

definition deleted_answer :: "memory_state \<Rightarrow> bool \<times> memory_state" where
  "deleted_answer s = (m_open s \<and> 0 < m_changes s, s)"

definition delete_convention :: "memory_env \<Rightarrow> string \<Rightarrow> memory_state \<Rightarrow> bool \<times> memory_state" where
  "delete_convention E rule s =
     (let P = (\<lambda>i r. cv_rule r = rule \<and> cv_project r = m_project E) in
      deleted_answer (if \<not> m_open s then s
        else changed (length (select_rows P (m_conventions s)))
          (s\<lparr>m_conventions := delete_rows P (m_conventions s)\<rparr>)))"

definition delete_decision :: "memory_env \<Rightarrow> string \<Rightarrow> memory_state \<Rightarrow> bool \<times> memory_state" where
  "delete_decision E title s =
     (let P = (\<lambda>i r. de_title r = title \<and> de_project r = m_project E) in
      deleted_answer (if \<not> m_open s then s
        else changed (length (select_rows P (m_decisions s)))
          (s\<lparr>m_decisions := delete_rows P (m_decisions s)\<rparr>)))"

definition delete_pattern :: "memory_env \<Rightarrow> string \<Rightarrow> memory_state \<Rightarrow> bool \<times> memory_state" where
  "delete_pattern E name s =
     (let P = (\<lambda>i r. pa_name r = name \<and> pa_project r = m_project E) in
      deleted_answer (if \<not> m_open s then s
        else changed (length (select_rows P (m_patterns s)))
          (s\<lparr>m_patterns := delete_rows P (m_patterns s)\<rparr>)))"

definition delete_mistake :: "memory_env \<Rightarrow> string \<Rightarrow> memory_state \<Rightarrow> bool \<times> memory_state" where
  "delete_mistake E description s =
     (let P = (\<lambda>i r. mi_description r = description \<and> mi_project r = m_project E) in
      deleted_answer (if \<not> m_open s then s
        else changed (length (select_rows P (m_mistakes s)))
          (s\<lparr>m_mistakes := delete_rows P (m_mistakes s)\<rparr>)))"

text \<open>
  SQLite's \<open>LIKE\<close>: \<open>%\<close> matches any sequence, \<open>_\<close> any one character, another character itself
  without regard to the case of ASCII letters.
\<close>

definition lower_ascii :: "char \<Rightarrow> char" where
  "lower_ascii c = (if is_upper_ascii c then char_of (code c + 32) else c)"

fun like :: "string \<Rightarrow> string \<Rightarrow> bool" where
  "like [] t = (t = [])"
| "like (CHR ''%'' # p) [] = like p []"
| "like (CHR ''%'' # p) (c # t) = (like p (c # t) \<or> like (CHR ''%'' # p) t)"
| "like (d # p) [] = False"
| "like (d # p) (c # t) =
     ((d = CHR ''_'' \<or> lower_ascii d = lower_ascii c) \<and> like p t)"

text \<open>The \<open>UNION ALL\<close> of the four queries.\<close>

definition search_union :: "memory_env \<Rightarrow> string \<Rightarrow> memory_state \<Rightarrow> (string \<times> string) list" where
  "search_union E pat s =
     map (\<lambda>(i, r). (''convention'', cv_rule r))
       (select_rows (\<lambda>i r. cv_project r = m_project E \<and> like pat (cv_rule r)) (m_conventions s)) @
     map (\<lambda>(i, r). (''decision'', de_title r))
       (select_rows (\<lambda>i r. de_project r = m_project E \<and> like pat (de_title r)) (m_decisions s)) @
     map (\<lambda>(i, r). (''pattern'', pa_name r))
       (select_rows (\<lambda>i r. pa_project r = m_project E \<and> like pat (pa_name r)) (m_patterns s)) @
     map (\<lambda>(i, r). (''mistake'', mi_description r))
       (select_rows (\<lambda>i r. mi_project r = m_project E \<and> like pat (mi_description r)) (m_mistakes s))"

definition search_memory :: "memory_env \<Rightarrow> string \<Rightarrow> memory_state \<Rightarrow> (string \<times> string) list" where
  "search_memory E query s =
     (if \<not> m_open s then [] else take 20 (search_union E (''%'' @ query @ ''%'') s))"

section \<open>The engine\<close>

text \<open>The engine holds a store between \<open>initialize\<close> and \<open>shutdown\<close>; without one every call is
  silent and the knowledge is empty.\<close>

type_synonym memory = "memory_state option"

definition recall :: "memory_env \<Rightarrow> memory \<Rightarrow> project_knowledge" where
  "recall E m = (case m of
     None \<Rightarrow> \<lparr>pk_conventions = [], pk_decisions = [], pk_patterns = [], pk_mistakes = []\<rparr>
   | Some s \<Rightarrow> \<lparr>pk_conventions = get_conventions E s, pk_decisions = get_decisions E ''active'' s,
       pk_patterns = get_patterns E s, pk_mistakes = get_mistakes E False s\<rparr>)"

definition remember_convention :: "memory_env \<Rightarrow> string \<Rightarrow> string \<Rightarrow> string \<Rightarrow> memory \<Rightarrow> memory" where
  "remember_convention E rule category source = map_option (upsert_convention E rule category source)"

definition remember_decision ::
  "memory_env \<Rightarrow> string \<Rightarrow> string \<Rightarrow> string \<Rightarrow> string \<Rightarrow> memory \<Rightarrow> memory" where
  "remember_decision E title ctxt dec consequences =
     map_option (add_decision E title ctxt dec consequences)"

definition remember_pattern :: "memory_env \<Rightarrow> string \<Rightarrow> string \<Rightarrow> memory \<Rightarrow> memory" where
  "remember_pattern E name description = map_option (add_pattern E name description)"

definition remember_mistake :: "memory_env \<Rightarrow> string \<Rightarrow> string \<Rightarrow> string \<Rightarrow> memory \<Rightarrow> memory" where
  "remember_mistake E description category severity =
     map_option (add_mistake E description category severity)"

definition memory_health :: "memory \<Rightarrow> bool" where
  "memory_health m = (case m of None \<Rightarrow> True | Some s \<Rightarrow> m_open s)"

section \<open>The commands\<close>

text \<open>\<open>aios memory ...\<close>: a command prints lines and may change the memory. \<open>None\<close> is a kernel
  without a memory engine.\<close>

definition ENTRY_TYPES :: "string list" where
  "ENTRY_TYPES = [''convention'', ''decision'', ''pattern'', ''mistake'']"

definition capitalize :: "string \<Rightarrow> string" where
  "capitalize s = (case s of [] \<Rightarrow> [] | c # t \<Rightarrow> upper_char c # lower t)"

definition nth_or :: "'a list \<Rightarrow> nat \<Rightarrow> 'a \<Rightarrow> 'a" where
  "nth_or xs n d = (if n < length xs then xs ! n else d)"

definition cmd_memory_list :: "memory_env \<Rightarrow> memory option \<Rightarrow> string list" where
  "cmd_memory_list E mem = (case mem of
     None \<Rightarrow> [''Memory engine not available.'']
   | Some m \<Rightarrow>
       let k = recall E m in
       if is_empty_knowledge k then [''No knowledge stored for this project.'']
       else
         (if pk_conventions k = [] then [] else (newline # ''Conventions:'') #
            map (\<lambda>(i, c). ''  ['' @ cv_category c @ ''] '' @ cv_rule c) (pk_conventions k)) @
         (if pk_decisions k = [] then [] else (newline # ''Decisions:'') #
            concat (map (\<lambda>(i, d). (''  '' @ de_title d) #
              (if de_decision d = [] then [] else [''    '' @ de_decision d])) (pk_decisions k))) @
         (if pk_patterns k = [] then [] else (newline # ''Patterns:'') #
            map (\<lambda>(i, p). ''  '' @ pa_name p) (pk_patterns k)) @
         (if pk_mistakes k = [] then [] else (newline # ''Mistakes to avoid:'') #
            map (\<lambda>(i, x). ''  ['' @ mi_severity x @ ''] '' @ mi_description x) (pk_mistakes k)))"

definition cmd_memory_add ::
  "memory_env \<Rightarrow> string list \<Rightarrow> memory option \<Rightarrow> string list \<times> memory option" where
  "cmd_memory_add E args mem =
     (if length args < 2
      then ([''Usage: aios memory add <convention|decision|pattern|mistake> <text>''], mem)
      else
        let entry_type = args ! 0; value = args ! 1 in
        if entry_type \<notin> set ENTRY_TYPES
        then ([''Unknown type: '' @ entry_type @ ''. Use convention, decision, pattern, or mistake.''], mem)
        else case mem of
          None \<Rightarrow> ([''Memory engine not available.''], mem)
        | Some m \<Rightarrow>
            ([capitalize entry_type @ '' saved: '' @ value],
             Some (if entry_type = ''convention'' then remember_convention E value (nth_or args 2 '''') '''' m
              else if entry_type = ''decision'' then remember_decision E value '''' '''' '''' m
              else if entry_type = ''pattern'' then remember_pattern E value '''' m
              else remember_mistake E value '''' (nth_or args 2 ''warning'') m)))"

definition cmd_memory_forget ::
  "memory_env \<Rightarrow> string list \<Rightarrow> memory option \<Rightarrow> string list \<times> memory option" where
  "cmd_memory_forget E args mem =
     (if length args < 2
      then ([''Usage: aios memory forget <convention|decision|pattern|mistake> <text>''], mem)
      else
        let entry_type = args ! 0; value = args ! 1 in
        if entry_type \<notin> set ENTRY_TYPES
        then ([''Unknown type: '' @ entry_type @ ''. Use convention, decision, pattern, or mistake.''], mem)
        else case mem of
          None \<Rightarrow> ([''Memory engine not available.''], mem)
        | Some None \<Rightarrow> ([''Memory store not available.''], mem)
        | Some (Some s) \<Rightarrow>
            let (removed, t) =
              (if entry_type = ''convention'' then delete_convention E value s
               else if entry_type = ''decision'' then delete_decision E value s
               else if entry_type = ''pattern'' then delete_pattern E value s
               else delete_mistake E value s)
            in ([(if removed then ''Removed: '' else ''Not found: '') @ value], Some (Some t)))"

definition cmd_memory_search :: "memory_env \<Rightarrow> string list \<Rightarrow> memory option \<Rightarrow> string list" where
  "cmd_memory_search E args mem =
     (case args of
        [] \<Rightarrow> [''Usage: aios memory search <query>'']
      | query # _ \<Rightarrow>
         (case mem of
            None \<Rightarrow> [''Memory engine not available.'']
          | Some None \<Rightarrow> [''Memory store not available.'']
          | Some (Some s) \<Rightarrow>
              let results = search_memory E query s in
              if results = [] then [''No results for: '' @ query]
              else map (\<lambda>(kind, t). ''  ['' @ kind @ ''] '' @ t) results))"

section \<open>The invariant of the tables\<close>

definition unique_on :: "('r \<Rightarrow> 'k) \<Rightarrow> 'r table \<Rightarrow> bool" where
  "unique_on key t \<longleftrightarrow> distinct (map (key \<circ> snd) (table_rows t))"

definition memory_inv :: "memory_state \<Rightarrow> bool" where
  "memory_inv s \<longleftrightarrow>
     table_inv (m_conventions s) \<and> table_inv (m_decisions s) \<and> table_inv (m_patterns s) \<and>
     table_inv (m_mistakes s) \<and>
     unique_on (\<lambda>r. (cv_project r, cv_rule r)) (m_conventions s) \<and>
     unique_on (\<lambda>r. (pa_project r, pa_name r)) (m_patterns s) \<and>
     list_all (\<lambda>(i, r). 1 \<le> pa_usage r) (table_rows (m_patterns s))"

lemma first_row_None:
  "first_row P t = None \<longleftrightarrow> (\<forall>(i, r) \<in> set (table_rows t). \<not> P i r)"
proof -
  have "first_row P t = None \<longleftrightarrow> select_rows P t = []" by (simp add: first_row_def split: list.split)
  then show ?thesis by (auto simp: select_rows_def filter_empty_conv)
qed

lemma first_row_Some:
  assumes "first_row P t = Some (i, r)"
  shows "(i, r) \<in> set (table_rows t) \<and> P i r"
proof -
  have "(i, r) \<in> set (select_rows P t)"
    using assms by (auto simp: first_row_def split: list.splits)
  then show ?thesis by (simp add: select_rows_def)
qed

lemma unique_insert:
  "unique_on key t \<Longrightarrow> (\<And>i r'. (i, r') \<in> set (table_rows t) \<Longrightarrow> key r' \<noteq> key r) \<Longrightarrow>
   unique_on key (snd (insert_row r t))"
  by (auto simp: unique_on_def insert_row_def) (metis)

lemma unique_update: "(\<And>r. key (f r) = key r) \<Longrightarrow> unique_on key (update_row i f t) = unique_on key t"
  by (simp add: unique_on_def update_row_def comp_def case_prod_unfold if_distrib cong: if_cong)

lemma unique_delete: "unique_on key t \<Longrightarrow> unique_on key (delete_rows P t)"
proof -
  have "distinct (map f xs) \<Longrightarrow> distinct (map f (filter Q xs))" for f :: "int \<times> 'a \<Rightarrow> 'b" and xs Q
    by (induction xs) auto
  then show "unique_on key t \<Longrightarrow> unique_on key (delete_rows P t)"
    by (simp add: unique_on_def delete_rows_def)
qed

text \<open>Calls of the engine and deletions of the commands.\<close>

datatype memory_op =
    RememberConvention string string string
  | RememberDecision string string string string
  | RememberPattern string string
  | RememberMistake string string string
  | DeleteConvention string | DeleteDecision string | DeletePattern string | DeleteMistake string

fun memory_call :: "memory_env \<Rightarrow> memory_op \<Rightarrow> memory_state \<Rightarrow> memory_state" where
  "memory_call E (RememberConvention r c s) = upsert_convention E r c s"
| "memory_call E (RememberDecision t c d q) = add_decision E t c d q"
| "memory_call E (RememberPattern n d) = add_pattern E n d"
| "memory_call E (RememberMistake d c v) = add_mistake E d c v"
| "memory_call E (DeleteConvention r) = (\<lambda>s. snd (delete_convention E r s))"
| "memory_call E (DeleteDecision t) = (\<lambda>s. snd (delete_decision E t s))"
| "memory_call E (DeletePattern n) = (\<lambda>s. snd (delete_pattern E n s))"
| "memory_call E (DeleteMistake d) = (\<lambda>s. snd (delete_mistake E d s))"

lemma memory_inv_empty: "memory_inv empty_memory"
  by (simp add: memory_inv_def empty_memory_def unique_on_def empty_table_def table_inv_def table_ids_def)

lemma memory_inv_frame [simp]:
  "memory_inv (s\<lparr>m_tick := n\<rparr>) = memory_inv s" "memory_inv (s\<lparr>m_changes := k\<rparr>) = memory_inv s"
  by (simp_all add: memory_inv_def)

lemma upsert_convention_inv: "memory_inv s \<Longrightarrow> memory_inv (upsert_convention E r c src s)"
  unfolding upsert_convention_def Let_def tick_def changed_def
  by (auto simp: memory_inv_def first_row_None table_inv_insert unique_update
      intro!: unique_insert split: option.splits)

lemma usage_update:
  "list_all (\<lambda>(i, r). 1 \<le> pa_usage r) xs \<Longrightarrow>
   list_all (\<lambda>(i, r). 1 \<le> pa_usage r) (map (\<lambda>(j, r). (j, if j = i then r\<lparr>pa_usage := pa_usage r + 1\<rparr> else r)) xs)"
  by (induction xs) auto

lemma add_pattern_inv: "memory_inv s \<Longrightarrow> memory_inv (add_pattern E n d s)"
  unfolding add_pattern_def Let_def tick_def changed_def
  by (auto simp: memory_inv_def first_row_None table_inv_insert unique_update
      update_row_def [of _ _ "m_patterns _", THEN arg_cong [of _ _ table_rows]] usage_update
      insert_row_def [THEN arg_cong [of _ _ "\<lambda>p. table_rows (snd p)"]]
      intro!: unique_insert split: option.splits)

lemma add_decision_inv: "memory_inv s \<Longrightarrow> memory_inv (add_decision E t c d q s)"
  by (simp add: add_decision_def Let_def tick_def changed_def memory_inv_def table_inv_insert)

lemma add_mistake_inv: "memory_inv s \<Longrightarrow> memory_inv (add_mistake E d c v s)"
  by (simp add: add_mistake_def Let_def tick_def changed_def memory_inv_def table_inv_insert)

lemma delete_inv:
  assumes "memory_inv s"
  shows "memory_inv (snd (delete_convention E x s))" "memory_inv (snd (delete_decision E x s))"
    "memory_inv (snd (delete_pattern E x s))" "memory_inv (snd (delete_mistake E x s))"
  using assms
  by (auto simp: delete_convention_def delete_decision_def delete_pattern_def delete_mistake_def
      deleted_answer_def changed_def Let_def memory_inv_def table_inv_delete unique_delete)
     (auto simp: delete_rows_def list_all_iff)

lemma memory_call_inv: "memory_inv s \<Longrightarrow> memory_inv (memory_call E c s)"
  by (cases c) (simp_all add: upsert_convention_inv add_pattern_inv add_decision_inv add_mistake_inv
      delete_inv)

lemma memory_calls_inv: "memory_inv s \<Longrightarrow> memory_inv (fold (memory_call E) cs s)"
  by (induction cs arbitrary: s) (simp_all add: memory_call_inv)

section \<open>Properties\<close>

lemma unique_select:
  assumes "unique_on key t"
  shows "distinct (map (key \<circ> snd) (select_rows P t))"
proof -
  have "distinct (map f xs) \<Longrightarrow> distinct (map f (filter Q xs))" for f :: "int \<times> 'a \<Rightarrow> 'b" and xs Q
    by (induction xs) auto
  then show ?thesis using assms by (simp add: unique_on_def select_rows_def)
qed

lemma distinct_fixed_key:
  "distinct (map (\<lambda>x. (p x, k x)) xs) \<Longrightarrow> (\<And>x. x \<in> set xs \<Longrightarrow> p x = c) \<Longrightarrow> distinct (map k xs)"
  by (induction xs) auto

lemma conventions_distinct:
  assumes "memory_inv s" shows "distinct (map (cv_rule \<circ> snd) (get_conventions E s))"
proof -
  let ?xs = "select_rows (\<lambda>i r. cv_project r = m_project E) (m_conventions s)"
  have "distinct (map (\<lambda>x. (cv_project (snd x), cv_rule (snd x))) ?xs)"
    using assms by (auto simp: memory_inv_def comp_def dest: unique_select)
  then have "distinct (map (\<lambda>x. cv_rule (snd x)) ?xs)"
    by (rule distinct_fixed_key [where c = "m_project E"]) (auto simp: select_rows_def)
  then show ?thesis by (simp add: get_conventions_def distinct_sort_desc comp_def)
qed

lemma patterns_distinct:
  assumes "memory_inv s" shows "distinct (map (pa_name \<circ> snd) (get_patterns E s))"
proof -
  let ?xs = "select_rows (\<lambda>i r. pa_project r = m_project E) (m_patterns s)"
  have "distinct (map (\<lambda>x. (pa_project (snd x), pa_name (snd x))) ?xs)"
    using assms by (auto simp: memory_inv_def comp_def dest: unique_select)
  then have "distinct (map (\<lambda>x. pa_name (snd x)) ?xs)"
    by (rule distinct_fixed_key [where c = "m_project E"]) (auto simp: select_rows_def)
  then show ?thesis by (simp add: get_patterns_def distinct_sort_desc comp_def)
qed

lemma patterns_used:
  assumes "memory_inv s" shows "list_all (\<lambda>(i, p). 1 \<le> pa_usage p) (get_patterns E s)"
  using assms by (auto simp: memory_inv_def get_patterns_def list_all_iff select_rows_def)

text \<open>After any calls, in any order and for any projects that share the database, what a
  project recalls names every convention and every pattern once, every pattern with a use count of
  at least one.\<close>

theorem recall_without_duplicates:
  "let s = fold (\<lambda>(E, c). memory_call E c) calls empty_memory; k = recall E (Some s) in
     distinct (map (cv_rule \<circ> snd) (pk_conventions k)) \<and> distinct (map (pa_name \<circ> snd) (pk_patterns k))
     \<and> list_all (\<lambda>(i, p). 1 \<le> pa_usage p) (pk_patterns k)"
proof -
  have "memory_inv s \<Longrightarrow> memory_inv (fold (\<lambda>(E, c). memory_call E c) cs s)" for cs s
    by (induction cs arbitrary: s) (auto simp: memory_call_inv)
  from this [OF memory_inv_empty] show ?thesis
    using conventions_distinct patterns_distinct patterns_used by (simp add: recall_def Let_def)
qed

lemma row_unique:
  assumes "unique_on key t" and "(i, r) \<in> set (table_rows t)" and "(j, q) \<in> set (table_rows t)"
    and "key r = key q"
  shows "(i, r) = (j, q)"
  using assms unfolding unique_on_def distinct_map inj_on_def by fastforce

lemma filter_conventions:
  "filter (\<lambda>(i, c). cv_rule c = r) (get_conventions E s) =
     (if \<not> m_open s then [] else sort_desc (\<lambda>(i, r). cv_seen r)
        (select_rows (\<lambda>i c. cv_project c = m_project E \<and> cv_rule c = r) (m_conventions s)))"
proof -
  have "filter P (sort_key f xs) = sort_key f (filter P xs)" for P and f :: "'a \<Rightarrow> 'b :: linorder" and xs
    by (rule filter_sort)
  then show ?thesis
    by (simp add: get_conventions_def sort_desc_def select_rows_def filter_sort flip: rev_filter)
       (simp add: conj_commute case_prod_unfold)
qed

lemma filter_single:
  assumes "distinct xs" and "x \<in> set xs" and "P x"
    and "\<And>y. y \<in> set xs \<Longrightarrow> P y \<Longrightarrow> y = x"
  shows "filter P xs = [x]"
proof -
  obtain us vs where xs: "xs = us @ x # vs" using split_list [OF assms(2)] by blast
  have "\<not> P y" if "y \<in> set us \<union> set vs" for y
  proof
    assume "P y"
    then have "y = x" using that by (intro assms(4)) (auto simp: xs)
    then show False using that assms(1) by (auto simp: xs)
  qed
  then have "filter P us = []" and "filter P vs = []" by (simp_all add: filter_empty_conv)
  then show ?thesis using assms(3) by (simp add: xs)
qed

lemma select_single:
  assumes "unique_on key t" and "(i, r) \<in> set (table_rows t)" and "P i r"
    and "\<And>j q. (j, q) \<in> set (table_rows t) \<Longrightarrow> P j q \<Longrightarrow> key q = key r"
  shows "select_rows P t = [(i, r)]"
  unfolding select_rows_def
proof (rule filter_single)
  show "distinct (table_rows t)" using assms(1) by (simp add: unique_on_def distinct_map)
  show "(i, r) \<in> set (table_rows t)" by (rule assms(2))
  show "case (i, r) of (x, xa) \<Rightarrow> P x xa" using assms(3) by simp
  fix y assume y: "y \<in> set (table_rows t)" "case y of (x, xa) \<Rightarrow> P x xa"
  obtain j q where jq: "y = (j, q)" by (cases y)
  show "y = (i, r)"
    using row_unique [OF assms(1) _ assms(2), of j q] assms(4) y by (simp add: jq)
qed

lemma filter_map_same:
  "(\<And>x. x \<in> set xs \<Longrightarrow> g x = x \<or> \<not> P x \<and> \<not> P (g x)) \<Longrightarrow> filter P (map g xs) = filter P xs"
proof (induction xs)
  case (Cons a xs)
  then have "filter P (map g xs) = filter P xs" by simp
  with Cons.prems [of a] show ?case by auto
qed simp

lemma select_insert:
  "select_rows P (snd (insert_row r t)) =
     select_rows P t @ (if P (last_id t + 1) r then [(last_id t + 1, r)] else [])"
  by (simp add: select_rows_def insert_row_def)

lemma select_delete: "select_rows P (delete_rows Q t) = select_rows (\<lambda>i r. P i r \<and> \<not> Q i r) t"
  by (simp add: select_rows_def delete_rows_def case_prod_unfold conj_commute)

abbreviation rule_rows :: "memory_env \<Rightarrow> string \<Rightarrow> convention table \<Rightarrow> (int \<times> convention) list" where
  "rule_rows E r \<equiv> select_rows (\<lambda>i c. cv_project c = m_project E \<and> cv_rule c = r)"

abbreviation other_rows :: "memory_env \<Rightarrow> string \<Rightarrow> convention table \<Rightarrow> (int \<times> convention) list" where
  "other_rows E r \<equiv> select_rows (\<lambda>i c. cv_project c = m_project E \<and> cv_rule c \<noteq> r)"

lemma filter_others:
  "filter (\<lambda>(i, c). cv_rule c \<noteq> r) (get_conventions E s) =
     (if \<not> m_open s then [] else sort_desc (\<lambda>(i, r). cv_seen r) (other_rows E r (m_conventions s)))"
  by (simp add: get_conventions_def sort_desc_def select_rows_def filter_sort flip: rev_filter)
     (simp add: conj_commute case_prod_unfold)

lemma upsert_rows:
  fixes E :: memory_env and r cat src :: string
  assumes "memory_inv s" and "m_open s"
  defines "t \<equiv> upsert_convention E r cat src s"
  shows "\<exists>i c. rule_rows E r (m_conventions t) = [(i, c)] \<and> cv_category c = cat \<and> cv_source c = src
      \<and> cv_seen c = m_clock E (m_tick s)"
    and "other_rows E r (m_conventions t) = other_rows E r (m_conventions s)" and "m_open t"
proof -
  let ?P = "\<lambda>(i :: int) c. cv_rule c = r \<and> cv_project c = m_project E"
  let ?T = "m_conventions s" and ?now = "m_clock E (m_tick s)"
  have u: "unique_on (\<lambda>c. (cv_project c, cv_rule c)) ?T" using assms(1) by (simp add: memory_inv_def)
  have u': "unique_on (\<lambda>c. (cv_project c, cv_rule c)) (m_conventions t)"
    using upsert_convention_inv [OF assms(1)] by (simp add: memory_inv_def t_def)
  show "m_open t"
    using assms(2) by (simp add: t_def upsert_convention_def Let_def tick_def changed_def split: option.split)
  show "\<exists>i c. rule_rows E r (m_conventions t) = [(i, c)] \<and> cv_category c = cat \<and> cv_source c = src
      \<and> cv_seen c = ?now"
  proof (cases "first_row ?P ?T")
    case None
    let ?c = "\<lparr>cv_category = cat, cv_rule = r, cv_source = src, cv_project = m_project E,
      cv_created = ?now, cv_seen = ?now\<rparr>"
    have "m_conventions t = snd (insert_row ?c ?T)"
      using None assms(2) by (simp add: t_def upsert_convention_def Let_def tick_def changed_def)
    moreover have "rule_rows E r ?T = []"
      using None by (auto simp: first_row_None select_rows_def filter_empty_conv)
    ultimately show ?thesis by (simp add: select_insert)
  next
    case (Some p)
    obtain i c where p: "p = (i, c)" by (cases p)
    let ?f = "\<lambda>c. c\<lparr>cv_seen := ?now, cv_category := cat, cv_source := src\<rparr>"
    have t: "m_conventions t = update_row i ?f ?T"
      using Some p assms(2) by (simp add: t_def upsert_convention_def Let_def tick_def changed_def)
    from first_row_Some [OF Some [unfolded p]]
    have c: "(i, c) \<in> set (table_rows ?T)" "cv_rule c = r" "cv_project c = m_project E" by auto
    then have "(i, ?f c) \<in> set (table_rows (m_conventions t))"
      unfolding t update_row_def by (force simp: image_iff)
    from select_single [OF u' this] c show ?thesis by fastforce
  qed
  show "other_rows E r (m_conventions t) = other_rows E r ?T"
  proof (cases "first_row ?P ?T")
    case None
    then show ?thesis
      using assms(2) by (simp add: t_def upsert_convention_def Let_def tick_def changed_def select_insert)
  next
    case (Some p)
    obtain i c where p: "p = (i, c)" by (cases p)
    from first_row_Some [OF Some [unfolded p]]
    have c: "(i, c) \<in> set (table_rows ?T)" "cv_rule c = r" by auto
    have "table_inv ?T" using assms(1) by (simp add: memory_inv_def)
    then have "q = c" if "(i, q) \<in> set (table_rows ?T)" for q
      using that c(1) row_of_mem [OF \<open>table_inv ?T\<close>, of i] by (metis option.inject)
    then have "select_rows (\<lambda>i c. cv_project c = m_project E \<and> cv_rule c \<noteq> r) (update_row i f ?T) =
        other_rows E r ?T" if "\<And>c. cv_rule (f c) = cv_rule c" for f
      unfolding select_rows_def update_row_def using that c(2)
      by (simp, intro filter_map_same) auto
    then show ?thesis
      using Some p assms(2)
      by (simp add: t_def upsert_convention_def Let_def tick_def changed_def)
  qed
qed

text \<open>What is remembered is recalled, and what is forgotten is not. Remembering a convention
  leaves exactly one convention of that rule, with the category and source given last, whether it
  was new or known before; deleting it again leaves none; and neither touches the order or the
  content of the other conventions.\<close>

theorem remembered_is_recalled:
  assumes "memory_inv s" and "m_open s"
  shows "let t = upsert_convention E r cat src s; u = snd (delete_convention E r t) in
      (\<exists>i c. filter (\<lambda>(i, c). cv_rule c = r) (get_conventions E t) = [(i, c)]
         \<and> cv_category c = cat \<and> cv_source c = src)
    \<and> filter (\<lambda>(i, c). cv_rule c \<noteq> r) (get_conventions E t) =
        filter (\<lambda>(i, c). cv_rule c \<noteq> r) (get_conventions E s)
    \<and> get_conventions E u = filter (\<lambda>(i, c). cv_rule c \<noteq> r) (get_conventions E s)"
proof -
  define t where "t = upsert_convention E r cat src s"
  define u where "u = snd (delete_convention E r t)"
  note rows = upsert_rows [OF assms, of E r cat src, folded t_def]
  have "m_open u" and u: "select_rows (\<lambda>i c. cv_project c = m_project E) (m_conventions u) =
      other_rows E r (m_conventions t)"
    using rows(3) by (auto simp: u_def delete_convention_def deleted_answer_def changed_def Let_def
        select_delete intro!: arg_cong2 [of _ _ _ _ select_rows])
  then have "get_conventions E u = filter (\<lambda>(i, c). cv_rule c \<noteq> r) (get_conventions E s)"
    using rows(2,3) assms(2) by (simp add: filter_others get_conventions_def [of E u])
  moreover obtain i c where "rule_rows E r (m_conventions t) = [(i, c)]" "cv_category c = cat" "cv_source c = src"
    using rows(1) by blast
  then have "filter (\<lambda>(i, c). cv_rule c = r) (get_conventions E t) = [(i, c)]"
    using rows(3) by (simp add: filter_conventions sort_desc_def)
  ultimately show ?thesis
    using rows(2,3) assms(2) \<open>cv_category c = cat\<close> \<open>cv_source c = src\<close>
    by (simp add: Let_def filter_others flip: t_def u_def)
qed

definition demo_memory :: memory_env where
  "demo_memory = \<lparr>m_project = ''/p'', m_clock = digits\<rparr>"

theorem remembered_is_recalled_witness:
  "\<exists>i c. filter (\<lambda>(i, c). cv_rule c = ''use tabs'')
     (get_conventions demo_memory (upsert_convention demo_memory ''use tabs'' ''style'' ''cli'' empty_memory))
     = [(i, c)] \<and> cv_category c = ''style''"
  using remembered_is_recalled [OF memory_inv_empty, of demo_memory "''use tabs''" "''style''" "''cli''"]
  by (simp add: Let_def empty_memory_def) blast

section \<open>Search\<close>

definition no_wildcard :: "string \<Rightarrow> bool" where
  "no_wildcard q \<longleftrightarrow> CHR ''%'' \<notin> set q \<and> CHR ''_'' \<notin> set q"

definition contains_ci :: "string \<Rightarrow> string \<Rightarrow> bool" where
  "contains_ci q t \<longleftrightarrow> (\<exists>a m b. t = a @ m @ b \<and> map lower_ascii m = map lower_ascii q)"

lemma like_percent: "like (CHR ''%'' # p) t \<longleftrightarrow> (\<exists>a b. t = a @ b \<and> like p b)"
proof (induction t)
  case (Cons c t)
  have "(\<exists>a b. c # t = a @ b \<and> like p b) \<longleftrightarrow> like p (c # t) \<or> (\<exists>a b. t = a @ b \<and> like p b)"
    by (metis append_Cons append_Nil list.inject neq_Nil_conv)
  then show ?case using Cons.IH by simp
qed simp

lemma like_any: "like ''%'' t"
  by (simp add: like_percent)

lemma like_Cons_plain:
  assumes "d \<noteq> CHR ''%''" and "d \<noteq> CHR ''_''"
  shows "like (d # p) t \<longleftrightarrow> (\<exists>c t'. t = c # t' \<and> lower_ascii d = lower_ascii c \<and> like p t')"
proof (cases t)
  case Nil
  have "\<not> like (d # p) []" using assms(1) by (cases "(d # p, [] :: string)" rule: like.cases) auto
  with Nil show ?thesis by simp
next
  case (Cons c t')
  have "like (d # p) (c # t') \<longleftrightarrow> (d = CHR ''_'' \<or> lower_ascii d = lower_ascii c) \<and> like p t'"
    using assms(1) by (cases "(d # p, c # t')" rule: like.cases) auto
  with Cons assms(2) show ?thesis by simp
qed

lemma like_literal:
  "no_wildcard q \<Longrightarrow>
   like (q @ p) t \<longleftrightarrow> (\<exists>m b. t = m @ b \<and> map lower_ascii m = map lower_ascii q \<and> like p b)"
proof (induction q arbitrary: t)
  case (Cons d q)
  then have d: "d \<noteq> CHR ''%''" "d \<noteq> CHR ''_''" "no_wildcard q" by (auto simp: no_wildcard_def)
  have "like ((d # q) @ p) t \<longleftrightarrow> (\<exists>c m b. t = c # m @ b \<and> lower_ascii d = lower_ascii c
      \<and> map lower_ascii m = map lower_ascii q \<and> like p b)"
    using like_Cons_plain [OF d(1,2), of "q @ p" t] Cons.IH [OF d(3)] by auto
  also have "\<dots> \<longleftrightarrow> (\<exists>m b. t = m @ b \<and> map lower_ascii m = map lower_ascii (d # q) \<and> like p b)"
  proof
    assume "\<exists>c m b. t = c # m @ b \<and> lower_ascii d = lower_ascii c
      \<and> map lower_ascii m = map lower_ascii q \<and> like p b"
    then obtain c m b where "t = (c # m) @ b" "map lower_ascii (c # m) = map lower_ascii (d # q)" "like p b"
      by auto
    then show "\<exists>m b. t = m @ b \<and> map lower_ascii m = map lower_ascii (d # q) \<and> like p b" by blast
  next
    assume "\<exists>m b. t = m @ b \<and> map lower_ascii m = map lower_ascii (d # q) \<and> like p b"
    then obtain m b where m: "t = m @ b" "map lower_ascii m = map lower_ascii (d # q)" "like p b" by blast
    then obtain c m' where "m = c # m'" by (cases m) auto
    with m show "\<exists>c m b. t = c # m @ b \<and> lower_ascii d = lower_ascii c
      \<and> map lower_ascii m = map lower_ascii q \<and> like p b" by auto
  qed
  finally show ?case .
qed simp

lemma like_contains: "no_wildcard q \<Longrightarrow> like (''%'' @ q @ ''%'') t \<longleftrightarrow> contains_ci q t"
proof -
  assume "no_wildcard q"
  then have "like (q @ ''%'') b \<longleftrightarrow> (\<exists>m c. b = m @ c \<and> map lower_ascii m = map lower_ascii q)" for b
    using like_literal [of q "''%''" b] like_any by simp
  then show ?thesis using like_percent [of "q @ ''%''" t] by (auto simp: contains_ci_def)
qed

lemma search_union_contains:
  assumes "no_wildcard q"
  shows "list_all (\<lambda>(kind, t). contains_ci q t) (search_union E (''%'' @ q @ ''%'') s)"
  using like_contains [OF assms] by (auto simp: search_union_def list_all_iff select_rows_def)

lemma search_union_conventions:
  assumes "no_wildcard q"
  shows "filter (\<lambda>(kind, t). kind = ''convention'') (search_union E (''%'' @ q @ ''%'') s) =
    map (\<lambda>(i, r). (''convention'', cv_rule r))
      (select_rows (\<lambda>i r. cv_project r = m_project E \<and> contains_ci q (cv_rule r)) (m_conventions s))"
  by (simp only: search_union_def like_contains [OF assms])
     (simp add: filter_map comp_def case_prod_unfold)

text \<open>A search without the characters \<open>%\<close> and \<open>_\<close> answers at most 20 entries, each containing
  the query up to the case of ASCII letters; when it answers fewer than 20 it has answered every
  convention of the project that contains the query. The two characters are wildcards, though: the
  query \<open>_\<close> answers a convention without an underscore.\<close>

theorem search_is_containment:
  assumes "no_wildcard q" and "m_open s"
  shows "length (search_memory E q s) \<le> 20
    \<and> list_all (\<lambda>(kind, t). contains_ci q t) (search_memory E q s)
    \<and> (length (search_memory E q s) < 20 \<longrightarrow>
        filter (\<lambda>(kind, t). kind = ''convention'') (search_memory E q s) =
        map (\<lambda>(i, r). (''convention'', cv_rule r))
          (select_rows (\<lambda>i r. cv_project r = m_project E \<and> contains_ci q (cv_rule r)) (m_conventions s)))
    \<and> search_memory E ''_'' (upsert_convention E ''tabs'' '''' '''' empty_memory) = [(''convention'', ''tabs'')]"
proof (intro conjI impI)
  show "length (search_memory E q s) \<le> 20" by (simp add: search_memory_def)
  show "list_all (\<lambda>(kind, t). contains_ci q t) (search_memory E q s)"
    using search_union_contains [OF assms(1), of E s]
    by (auto simp: search_memory_def list_all_iff dest: in_set_takeD)
  show "search_memory E ''_'' (upsert_convention E ''tabs'' '''' '''' empty_memory) = [(''convention'', ''tabs'')]"
    by (simp add: search_memory_def search_union_def upsert_convention_def Let_def tick_def changed_def
        empty_memory_def first_row_def select_rows_def insert_row_def empty_table_def)
  assume "length (search_memory E q s) < 20"
  then have "search_memory E q s = search_union E (''%'' @ q @ ''%'') s"
    using assms(2) by (simp add: search_memory_def)
  then show "filter (\<lambda>(kind, t). kind = ''convention'') (search_memory E q s) =
      map (\<lambda>(i, r). (''convention'', cv_rule r))
        (select_rows (\<lambda>i r. cv_project r = m_project E \<and> contains_ci q (cv_rule r)) (m_conventions s))"
    by (simp only: search_union_conventions [OF assms(1)])
qed

theorem search_is_containment_witness:
  "list_all (\<lambda>(kind, t). contains_ci ''TAB'' t)
     (search_memory demo_memory ''TAB'' (upsert_convention demo_memory ''use tabs'' '''' '''' empty_memory))
   \<and> search_memory demo_memory ''TAB'' (upsert_convention demo_memory ''use tabs'' '''' '''' empty_memory)
     = [(''convention'', ''use tabs'')]"
proof -
  let ?s = "upsert_convention demo_memory ''use tabs'' '''' '''' empty_memory"
  have "no_wildcard ''TAB''" by (simp add: no_wildcard_def)
  moreover have "m_open ?s" by code_simp
  moreover have "search_memory demo_memory ''TAB'' ?s = [(''convention'', ''use tabs'')]" by code_simp
  ultimately show ?thesis using search_is_containment [of "''TAB''" ?s demo_memory] by metis
qed

lemma fresh_pattern:
  "add_pattern E ''a'' '''' empty_memory = empty_memory\<lparr>m_tick := 1, m_changes := 1,
     m_patterns := snd (insert_row \<lparr>pa_name = ''a'', pa_description = '''', pa_usage = 1,
       pa_project = m_project E, pa_created = m_clock E 0\<rparr> empty_table)\<rparr>"
  by (simp add: add_pattern_def Let_def tick_def changed_def first_row_def select_rows_def
      empty_memory_def empty_table_def)

lemma delete_pattern_answer:
  "fst (delete_pattern E n s) = (m_open s \<and>
     0 < m_changes s + length (select_rows (\<lambda>i r. pa_name r = n \<and> pa_project r = m_project E) (m_patterns s)))"
  by (simp add: delete_pattern_def deleted_answer_def changed_def Let_def)

text \<open>A deletion answers that something was removed whenever the connection has changed any row
  before, also when nothing matched: forgetting an unknown pattern right after another one was
  remembered reports its removal.\<close>

theorem forgetting_nothing_reports_removal:
  "fst (cmd_memory_forget E [''pattern'', ''b''] (Some (remember_pattern E ''a'' '''' (Some empty_memory))))
     = [''Removed: b'']
   \<and> fst (delete_pattern E n s) = (m_open s \<and>
       0 < m_changes s + length (select_rows (\<lambda>i r. pa_name r = n \<and> pa_project r = m_project E) (m_patterns s)))"
proof
  have "fst (delete_pattern E ''b'' (add_pattern E ''a'' '''' empty_memory))"
    unfolding delete_pattern_answer fresh_pattern by (simp add: empty_memory_def)
  then show "fst (cmd_memory_forget E [''pattern'', ''b''] (Some (remember_pattern E ''a'' '''' (Some empty_memory))))
     = [''Removed: b'']"
    by (simp add: cmd_memory_forget_def remember_pattern_def ENTRY_TYPES_def Let_def case_prod_unfold)
qed (rule delete_pattern_answer)

end
