(* ===== verification/Packet.thy ===== *)
theory Packet
  imports PyStr Memory
begin

text \<open>
  The context engine's packet (\<open>context/packet.py\<close>, \<open>context/__init__.py\<close>) and its detectors
  (\<open>context/collectors\<close>). The file system of the project is a tree, its entries in the order the
  system lists them; the commands the detectors run are parameters of the host: what \<open>which\<close> finds, what
  a git command prints, nothing when it cannot be run, whether \<open>docker info\<close> succeeds, and the JSON reader.
\<close>

section \<open>The packet\<close>

record git_info =
  gi_branch :: string
  gi_status :: string
  gi_remote :: string
  gi_commit :: string
  gi_message :: string

record docker_info =
  dk_installed :: bool
  dk_running :: bool
  dk_compose :: "string list"

record tools_info =
  tl_manager :: string
  tl_linter :: string
  tl_formatter :: string
  tl_runner :: string

record runtime_info =
  ru_opencode :: bool
  ru_jail :: bool

record structure_info =
  st_readme :: bool
  st_license :: bool
  st_tests :: bool
  st_docs :: bool

record project_info =
  pj_name :: string
  pj_root :: string
  pj_language :: string

record context_packet =
  cp_project :: project_info
  cp_tools :: tools_info
  cp_git :: git_info
  cp_docker :: docker_info
  cp_runtime :: runtime_info
  cp_structure :: structure_info
  cp_skills :: "string list"
  cp_memory :: "project_knowledge option"
  cp_research :: "pydict option"
  cp_timestamp :: string

definition no_git :: git_info where
  "no_git = \<lparr>gi_branch = '''', gi_status = ''unknown'', gi_remote = '''', gi_commit = '''', gi_message = ''''\<rparr>"

definition no_tools :: tools_info where
  "no_tools = \<lparr>tl_manager = '''', tl_linter = '''', tl_formatter = '''', tl_runner = ''''\<rparr>"

definition packet_to_dict :: "context_packet \<Rightarrow> pydict" where
  "packet_to_dict p =
     [(''project'', PDict [(''name'', PStr (pj_name (cp_project p))), (''root'', PStr (pj_root (cp_project p))),
        (''language'', PStr (pj_language (cp_project p)))]),
      (''tools'', PDict [(''dependency_manager'', PStr (tl_manager (cp_tools p))),
        (''linter'', PStr (tl_linter (cp_tools p))), (''formatter'', PStr (tl_formatter (cp_tools p))),
        (''test_runner'', PStr (tl_runner (cp_tools p)))]),
      (''git'', PDict [(''branch'', PStr (gi_branch (cp_git p))), (''status'', PStr (gi_status (cp_git p))),
        (''remote'', PStr (gi_remote (cp_git p))), (''last_commit'', PStr (gi_commit (cp_git p))),
        (''last_commit_message'', PStr (gi_message (cp_git p)))]),
      (''docker'', PDict [(''installed'', PBool (dk_installed (cp_docker p))),
        (''running'', PBool (dk_running (cp_docker p))), (''compose_files'', strs (dk_compose (cp_docker p)))]),
      (''runtime'', PDict [(''opencode'', PBool (ru_opencode (cp_runtime p))),
        (''ai_jail'', PBool (ru_jail (cp_runtime p)))]),
      (''structure'', PDict [(''has_readme'', PBool (st_readme (cp_structure p))),
        (''has_license'', PBool (st_license (cp_structure p))),
        (''has_tests_dir'', PBool (st_tests (cp_structure p))),
        (''has_docs_dir'', PBool (st_docs (cp_structure p)))]),
      (''skills'', strs (cp_skills p)),
      (''memory'', PDict (case cp_memory p of None \<Rightarrow> [] | Some k \<Rightarrow> knowledge_to_dict k)),
      (''research'', (case cp_research p of None \<Rightarrow> PNone | Some d \<Rightarrow> PDict d)),
      (''timestamp'', PStr (cp_timestamp p))]"

section \<open>The host\<close>

datatype node = File string | Dir "(string \<times> node) list"

record host =
  ho_which :: "string \<Rightarrow> bool"
  ho_git :: "string list \<Rightarrow> string option"
  ho_docker :: "int option"
  ho_json :: "string \<Rightarrow> pyval option"

type_synonym tree = "(string \<times> node) list"

definition exists_at :: "tree \<Rightarrow> string \<Rightarrow> bool" where
  "exists_at t name \<longleftrightarrow> map_of t name \<noteq> None"

definition dir_at :: "tree \<Rightarrow> string \<Rightarrow> bool" where
  "dir_at t name \<longleftrightarrow> (case map_of t name of Some (Dir _) \<Rightarrow> True | _ \<Rightarrow> False)"

section \<open>Git, docker, runtime and structure\<close>

definition git_output :: "host \<Rightarrow> string list \<Rightarrow> string" where
  "git_output H args = (case ho_git H args of None \<Rightarrow> '''' | Some s \<Rightarrow> strip s)"

definition detect_git :: "host \<Rightarrow> tree \<Rightarrow> git_info" where
  "detect_git H t =
     (if \<not> exists_at t ''.git'' then no_git
      else \<lparr>gi_branch = git_output H [''rev-parse'', ''--abbrev-ref'', ''HEAD''],
            gi_status = (if git_output H [''status'', ''--porcelain''] = [] then ''clean'' else ''dirty''),
            gi_remote = git_output H [''remote'', ''get-url'', ''origin''],
            gi_commit = git_output H [''rev-parse'', ''--short'', ''HEAD''],
            gi_message = git_output H [''log'', ''-1'', ''--format=%s'']\<rparr>)"

definition detect_docker :: "host \<Rightarrow> tree \<Rightarrow> docker_info" where
  "detect_docker H t =
     (let installed = ho_which H ''docker'' in
      \<lparr>dk_installed = installed, dk_running = (installed \<and> ho_docker H = Some 0),
       dk_compose = filter (exists_at t)
         [''docker-compose.yml'', ''docker-compose.yaml'', ''compose.yml'', ''compose.yaml'']\<rparr>)"

definition detect_runtime :: "host \<Rightarrow> runtime_info" where
  "detect_runtime H = \<lparr>ru_opencode = ho_which H ''opencode'', ru_jail = ho_which H ''ai-jail''\<rparr>"

definition detect_structure :: "tree \<Rightarrow> structure_info" where
  "detect_structure t =
     \<lparr>st_readme = exists_at t ''README.md'', st_license = exists_at t ''LICENSE'',
      st_tests = (dir_at t ''tests'' \<or> dir_at t ''test''), st_docs = dir_at t ''docs''\<rparr>"

section \<open>Python projects\<close>

definition SKIP_DIRS :: "string list" where
  "SKIP_DIRS = [''venv'', ''.venv'', ''__pycache__'', ''node_modules'', ''.git'', ''.tox'', ''env'']"

definition WALK_DEPTH :: nat where
  "WALK_DEPTH = 3"

definition skipped_dir :: "string \<Rightarrow> bool" where
  "skipped_dir name \<longleftrightarrow> name \<in> set SKIP_DIRS \<or> startswith name ''.''"

text \<open>\<open>item.suffix == ".py"\<close>: a leading dot starts no suffix.\<close>

definition is_python_file :: "string \<Rightarrow> bool" where
  "is_python_file name \<longleftrightarrow> endswith name ''.py'' \<and> 3 < length name"

text \<open>Whether there is Python code, and the configuration file.\<close>

fun walk_items :: "nat \<Rightarrow> tree \<Rightarrow> bool \<times> node option \<Rightarrow> bool \<times> node option" where
  "walk_items k [] r = r"
| "walk_items k ((name, Dir t) # items) (py, cfg) =
     (if skipped_dir name then walk_items k items (py, cfg)
      else case (case k of 0 \<Rightarrow> (False, None) | Suc j \<Rightarrow> walk_items j t (False, None)) of
        (py', cfg') \<Rightarrow> walk_items k items (py \<or> py', if cfg = None then cfg' else cfg))"
| "walk_items k ((name, File c) # items) (py, cfg) =
     (if is_python_file name then walk_items k items (True, cfg)
      else if name \<in> {''pyproject.toml'', ''requirements.txt'', ''setup.py''}
      then walk_items k items (py, Some (File c))
      else walk_items k items (py, cfg))"

text \<open>\<open>_walk\<close> with the levels that are left.\<close>

definition walk :: "nat \<Rightarrow> tree \<Rightarrow> bool \<times> node option" where
  "walk left t = (case left of 0 \<Rightarrow> (False, None) | Suc k \<Rightarrow> walk_items k t (False, None))"

fun search_subdirs :: "tree \<Rightarrow> bool \<times> node option \<Rightarrow> bool \<times> node option" where
  "search_subdirs [] r = r"
| "search_subdirs ((name, File c) # items) r = search_subdirs items r"
| "search_subdirs ((name, Dir t) # items) (py, cfg) =
     (if skipped_dir name then search_subdirs items (py, cfg)
      else case walk WALK_DEPTH t of
        (py', cfg') \<Rightarrow> search_subdirs items (py \<or> py', if cfg = None then cfg' else cfg))"

definition config_at_root :: "tree \<Rightarrow> node option" where
  "config_at_root t = (case filter (exists_at t) [''pyproject.toml'', ''setup.py'', ''requirements.txt''] of
     [] \<Rightarrow> None | name # _ \<Rightarrow> map_of t name)"

definition python_manager :: "string \<Rightarrow> string" where
  "python_manager c = (if contains c ''[tool.uv]'' then ''uv'' else if contains c ''[tool.poetry]'' then ''poetry''
     else ''pip'')"

definition python_linter :: "string \<Rightarrow> string" where
  "python_linter c = (if contains c ''ruff'' then ''ruff'' else if contains c ''flake8'' then ''flake8'' else ''ruff'')"

definition python_formatter :: "string \<Rightarrow> string" where
  "python_formatter c = (if contains c ''black'' then ''black'' else if contains c ''ruff'' then ''ruff'' else ''black'')"

definition python_runner :: "string \<Rightarrow> string" where
  "python_runner c = ''pytest''"

text \<open>Reading a directory raises.\<close>

definition IS_A_DIRECTORY :: exn where
  "IS_A_DIRECTORY = Exn OtherException ''Is a directory''"

definition language_project :: "string \<Rightarrow> string \<Rightarrow> project_info" where
  "language_project lang path = \<lparr>pj_name = '''', pj_root = path, pj_language = lang\<rparr>"

definition build_python :: "string \<Rightarrow> node option \<Rightarrow> exn + project_info \<times> tools_info" where
  "build_python path cfg = (case cfg of
     None \<Rightarrow> Inr (language_project ''python'' path, no_tools)
   | Some (Dir _) \<Rightarrow> Inl IS_A_DIRECTORY
   | Some (File c) \<Rightarrow> Inr (language_project ''python'' path,
       \<lparr>tl_manager = python_manager c, tl_linter = python_linter c, tl_formatter = python_formatter c,
        tl_runner = python_runner c\<rparr>))"

definition detect_python :: "string \<Rightarrow> tree \<Rightarrow> exn + (project_info \<times> tools_info) option" where
  "detect_python path t = (case config_at_root t of
     Some f \<Rightarrow> map_sum id Some (build_python path (Some f))
   | None \<Rightarrow> (case search_subdirs t (False, None) of (py, cfg) \<Rightarrow>
       if \<not> py then Inr None else map_sum id Some (build_python path cfg)))"

section \<open>JavaScript and shell projects\<close>

text \<open>\<open>k in v\<close>\<close>

fun py_in :: "string \<Rightarrow> pyval \<Rightarrow> exn + bool" where
  "py_in k (PDict d) = Inr (k \<in> fst ` set d)"
| "py_in k (PStr s) = Inr (contains s k)"
| "py_in k (PList xs) = Inr (PStr k \<in> set xs)"
| "py_in k _ = Inl (Exn TypeError ''argument is not iterable'')"

fun first_in :: "pyval \<Rightarrow> string list \<Rightarrow> string \<Rightarrow> exn + string" where
  "first_in deps [] dflt = Inr dflt"
| "first_in deps (k # ks) dflt = (case py_in k deps of
     Inl e \<Rightarrow> Inl e | Inr b \<Rightarrow> if b then Inr k else first_in deps ks dflt)"

definition js_manager :: "tree \<Rightarrow> string" where
  "js_manager t = (if exists_at t ''pnpm-lock.yaml'' then ''pnpm'' else if exists_at t ''yarn.lock'' then ''yarn''
     else if exists_at t ''bun.lockb'' then ''bun'' else ''npm'')"

definition js_tools :: "tree \<Rightarrow> pyval \<Rightarrow> exn + tools_info" where
  "js_tools t data = (case data of
     PDict d \<Rightarrow> let deps = dict_get d ''devDependencies'' (PDict []) in
       (case first_in deps [''eslint'', ''biome''] ''eslint'' of Inl e \<Rightarrow> Inl e
        | Inr l \<Rightarrow> (case first_in deps [''prettier'', ''biome''] ''prettier'' of Inl e \<Rightarrow> Inl e
        | Inr f \<Rightarrow> (case first_in deps [''vitest'', ''jest''] ''vitest'' of Inl e \<Rightarrow> Inl e
        | Inr r \<Rightarrow> Inr \<lparr>tl_manager = js_manager t, tl_linter = l, tl_formatter = f, tl_runner = r\<rparr>)))
   | _ \<Rightarrow> Inl (Exn AttributeError ''object has no attribute get''))"

definition detect_javascript :: "host \<Rightarrow> string \<Rightarrow> tree \<Rightarrow> exn + (project_info \<times> tools_info) option" where
  "detect_javascript H path t = (case map_of t ''package.json'' of
     None \<Rightarrow> Inr None
   | Some f \<Rightarrow>
       let project = language_project (if exists_at t ''tsconfig.json'' then ''typescript'' else ''javascript'') path in
       (case (case f of File c \<Rightarrow> ho_json H c | Dir _ \<Rightarrow> None) of
          None \<Rightarrow> Inr (Some (project, no_tools))
        | Some data \<Rightarrow> map_sum id (\<lambda>tools. Some (project, tools)) (js_tools t data)))"

definition is_shell_file :: "string \<Rightarrow> bool" where
  "is_shell_file name \<longleftrightarrow> endswith name ''.sh''"

definition detect_shell :: "string \<Rightarrow> tree \<Rightarrow> (project_info \<times> tools_info) option" where
  "detect_shell path t =
     (if \<not> list_ex (is_shell_file \<circ> fst) t
         \<and> \<not> (case map_of t ''src'' of Some (Dir u) \<Rightarrow> list_ex (is_shell_file \<circ> fst) u | _ \<Rightarrow> False)
         \<and> \<not> exists_at t ''Makefile''
      then None
      else Some (language_project ''shell'' path,
        \<lparr>tl_manager = ''none'', tl_linter = ''shellcheck'', tl_formatter = ''shfmt'', tl_runner = ''bats''\<rparr>))"

section \<open>The engine\<close>

text \<open>The first detector that answers; what one raises escapes.\<close>

definition detect_language :: "host \<Rightarrow> string \<Rightarrow> tree \<Rightarrow> exn + (project_info \<times> tools_info) option" where
  "detect_language H path t = (case detect_python path t of
     Inl e \<Rightarrow> Inl e | Inr (Some r) \<Rightarrow> Inr (Some r)
   | Inr None \<Rightarrow> (case detect_javascript H path t of
       Inl e \<Rightarrow> Inl e | Inr (Some r) \<Rightarrow> Inr (Some r)
     | Inr None \<Rightarrow> Inr (detect_shell path t)))"

definition detect_context :: "host \<Rightarrow> string \<Rightarrow> string \<Rightarrow> string \<Rightarrow> tree \<Rightarrow> exn + context_packet" where
  "detect_context H path name now t =
     (let blank = \<lparr>pj_name = name, pj_root = path, pj_language = ''unknown''\<rparr> in
      case detect_language H path t of
        Inl e \<Rightarrow> Inl e
      | Inr found \<Rightarrow> Inr
          \<lparr>cp_project = (case found of None \<Rightarrow> blank | Some r \<Rightarrow> fst r),
           cp_tools = (case found of None \<Rightarrow> no_tools | Some r \<Rightarrow> snd r),
           cp_git = detect_git H t, cp_docker = detect_docker H t, cp_runtime = detect_runtime H,
           cp_structure = detect_structure t, cp_skills = [], cp_memory = None, cp_research = None,
           cp_timestamp = now\<rparr>)"

section \<open>The name of the project\<close>

lemma build_python_facts:
  "build_python path cfg = Inr (p, q) \<Longrightarrow> pj_name p = [] \<and> pj_language p = ''python'' \<and> pj_root p = path"
  by (auto simp: build_python_def language_project_def split: option.splits node.splits)

lemma detect_python_facts:
  "detect_python path t = Inr (Some (p, q)) \<Longrightarrow> pj_name p = [] \<and> pj_language p = ''python'' \<and> pj_root p = path"
  by (cases "config_at_root t"; cases "search_subdirs t (False, None)";
      cases "build_python path (config_at_root t)"; cases "build_python path (snd (search_subdirs t (False, None)))")
     (auto simp: detect_python_def split: if_splits dest: build_python_facts)

lemma map_sum_Some: "map_sum id (\<lambda>x. Some (c, x)) m = Inr (Some (p, q)) \<Longrightarrow> p = c"
  by (cases m) auto

lemma detect_javascript_facts:
  "detect_javascript H path t = Inr (Some (p, q)) \<Longrightarrow>
   pj_name p = [] \<and> pj_language p \<in> {''typescript'', ''javascript''} \<and> pj_root p = path"
  by (cases "map_of t ''package.json''"; cases "the (map_of t ''package.json'')")
     (auto simp: detect_javascript_def language_project_def Let_def split: option.splits if_splits dest!: map_sum_Some)

lemma detect_shell_facts:
  "detect_shell path t = Some (p, q) \<Longrightarrow> pj_name p = [] \<and> pj_language p = ''shell'' \<and> pj_root p = path"
  unfolding detect_shell_def by (simp only: split: if_splits) (auto simp: language_project_def)

lemma detect_language_facts:
  assumes "detect_language H path t = Inr (Some (p, q))"
  shows "pj_name p = [] \<and> pj_root p = path \<and> pj_language p \<in> {''python'', ''typescript'', ''javascript'', ''shell''}"
proof -
  consider "detect_python path t = Inr (Some (p, q))" | "detect_javascript H path t = Inr (Some (p, q))"
    | "detect_shell path t = Some (p, q)"
    using assms unfolding detect_language_def by (fastforce split: sum.splits option.splits)
  then show ?thesis
    using detect_python_facts [of path t p q] detect_javascript_facts [of H path t p q] detect_shell_facts [of path t p q]
    by cases auto
qed

text \<open>The packet has the name of the project precisely when no language was detected: a detector's project
  has none and replaces the one the engine filled in.\<close>

theorem detected_project_nameless:
  "detect_context H path name now t = Inr p \<Longrightarrow>
   pj_root (cp_project p) = path \<and>
   (if pj_language (cp_project p) = ''unknown'' then pj_name (cp_project p) = name
    else pj_name (cp_project p) = '''' \<and>
      pj_language (cp_project p) \<in> {''python'', ''typescript'', ''javascript'', ''shell''})"
  by (auto simp: detect_context_def Let_def split: sum.splits option.splits dest: detect_language_facts)

end
