(* ===== verification/PyText.thy ===== *)
theory PyText
  imports PyStr
begin

text \<open>More of Python's strings: \<open>repr\<close>, \<open>str\<close> of lists, and searching.\<close>

section \<open>\<open>repr\<close>\<close>

definition QUOTE1 :: char where "QUOTE1 = CHR 0x27"

definition QUOTE2 :: char where "QUOTE2 = CHR 0x22"

definition BACKSLASH :: char where "BACKSLASH = CHR 0x5C"

definition hex_nibble :: "nat \<Rightarrow> char" where
  "hex_nibble n = (if n < 10 then char_of (48 + n) else char_of (87 + n))"

text \<open>The printable characters among the first 256 code points.\<close>

definition is_printable :: "char \<Rightarrow> bool" where
  "is_printable c = (let n = code c in 32 \<le> n \<and> n < 127 \<or> 160 < n \<and> n \<noteq> 173)"

definition repr_char :: "char \<Rightarrow> char \<Rightarrow> string" where
  "repr_char q c =
     (if c = q \<or> c = BACKSLASH then [BACKSLASH, c]
      else if code c = 10 then BACKSLASH # ''n'' else if code c = 13 then BACKSLASH # ''r''
      else if code c = 9 then BACKSLASH # ''t''
      else if is_printable c then [c]
      else BACKSLASH # CHR ''x'' # [hex_nibble (code c div 16), hex_nibble (code c mod 16)])"

definition py_repr :: "string \<Rightarrow> string" where
  "py_repr s = (let q = (if QUOTE1 \<in> set s \<and> QUOTE2 \<notin> set s then QUOTE2 else QUOTE1) in
     q # concat (map (repr_char q) s) @ [q])"

text \<open>\<open>str\<close> of a list of strings.\<close>

definition str_of_list :: "string list \<Rightarrow> string" where
  "str_of_list xs = ''['' @ join '', '' (map py_repr xs) @ '']''"

section \<open>Searching\<close>

text \<open>\<open>s.find(p)\<close> and \<open>s.find(p, k)\<close>: the first position, if any.\<close>

fun find_sub :: "string \<Rightarrow> string \<Rightarrow> nat option" where
  "find_sub p s = (if startswith s p then Some 0
     else case s of [] \<Rightarrow> None | _ # t \<Rightarrow> map_option Suc (find_sub p t))"

declare find_sub.simps [simp del]

definition find_from :: "string \<Rightarrow> nat \<Rightarrow> string \<Rightarrow> nat option" where
  "find_from p k s = (if length s < k then None else map_option (\<lambda>i. k + i) (find_sub p (drop k s)))"

text \<open>Rounding to decimals.\<close>

definition round_to :: "nat \<Rightarrow> rat \<Rightarrow> rat" where
  "round_to n r = of_int (round_half_even (r * 10 ^ n)) / 10 ^ n"

lemma round_half_even_mono:
  assumes "a \<le> b"
  shows "round_half_even a \<le> round_half_even b"
proof -
  have fl: "\<lfloor>a\<rfloor> \<le> \<lfloor>b\<rfloor>" using assms by (rule floor_mono)
  have ra: "round_half_even a \<le> \<lfloor>a\<rfloor> + 1" and rb: "\<lfloor>b\<rfloor> \<le> round_half_even b"
    by (auto simp: round_half_even_def Let_def)
  show ?thesis
  proof (cases "\<lfloor>a\<rfloor> = \<lfloor>b\<rfloor>")
    case True
    then have "a - of_int \<lfloor>a\<rfloor> \<le> b - of_int \<lfloor>b\<rfloor>" using assms by simp
    then show ?thesis using True by (auto simp: round_half_even_def Let_def)
  next
    case False
    then show ?thesis using fl ra rb by linarith
  qed
qed

lemma round_half_even_int [simp]: "round_half_even (of_int i) = i"
  by (simp add: round_half_even_def)

lemma round_to_mono: "a \<le> b \<Longrightarrow> round_to n a \<le> round_to n b"
  unfolding round_to_def by (intro divide_right_mono) (simp_all add: round_half_even_mono mult_right_mono)

lemma round_to_int [simp]: "round_to n (of_int i) = of_int i"
proof -
  have "of_int i * (10::rat) ^ n = of_int (i * 10 ^ n)" by simp
  then show ?thesis unfolding round_to_def by (simp only: round_half_even_int) simp
qed

lemma round_to_0 [simp]: "round_to n 0 = 0" and round_to_1 [simp]: "round_to n 1 = 1"
  using round_to_int [of n 0] round_to_int [of n 1] by simp_all

end
