(* ===== verification/Sha256.thy ===== *)
theory Sha256
  imports PyStr "HOL-Library.Word"
begin

unbundle bit_operations_syntax

text \<open>
  \<open>hashlib.sha256(s.encode("utf-8")).hexdigest()\<close>, which names the sources, the chunks and the
  contents of the knowledge store: SHA-256 on 32-bit words, with the wrap-around of its additions.
\<close>

section \<open>UTF-8\<close>

text \<open>The code points of the model take one or two bytes.\<close>

definition utf8_char :: "char \<Rightarrow> 8 word list" where
  "utf8_char c = (let n = code c in
     if n < 128 then [of_nat n] else [of_nat (192 + n div 64), of_nat (128 + n mod 64)])"

definition utf8 :: "string \<Rightarrow> 8 word list" where
  "utf8 s = concat (map utf8_char s)"

section \<open>Padding\<close>

text \<open>A one bit, zeros up to 56 modulo 64 bytes and the length in bits in eight bytes.\<close>

definition bytes_of_length :: "nat \<Rightarrow> 8 word list" where
  "bytes_of_length n = map (\<lambda>i. of_nat (n div 256 ^ (7 - i))) [0..<8]"

definition sha_pad :: "8 word list \<Rightarrow> 8 word list" where
  "sha_pad m = m @ [0x80] @ replicate ((119 - length m mod 64) mod 64) 0 @ bytes_of_length (8 * length m)"

definition big_endian :: "8 word list \<Rightarrow> 32 word" where
  "big_endian bs = foldl (\<lambda>w b. push_bit 8 w OR ucast b) 0 bs"

function groups :: "nat \<Rightarrow> 'a list \<Rightarrow> 'a list list" where
  "groups n xs = (if n = 0 \<or> xs = [] then [] else take n xs # groups n (drop n xs))"
  by auto
termination by (relation "measure (\<lambda>(n, xs). length xs)") auto

declare groups.simps [simp del]

section \<open>Compression\<close>

text \<open>The first 32 bits of the fractional parts of the cube roots of the first 64 primes, and of the square roots
  of the first eight, in decimal.\<close>

definition sha_K :: "32 word list" where
  "sha_K =
     [1116352408, 1899447441, 3049323471, 3921009573, 961987163, 1508970993, 2453635748, 2870763221,
      3624381080, 310598401, 607225278, 1426881987, 1925078388, 2162078206, 2614888103, 3248222580,
      3835390401, 4022224774, 264347078, 604807628, 770255983, 1249150122, 1555081692, 1996064986,
      2554220882, 2821834349, 2952996808, 3210313671, 3336571891, 3584528711, 113926993, 338241895,
      666307205, 773529912, 1294757372, 1396182291, 1695183700, 1986661051, 2177026350, 2456956037,
      2730485921, 2820302411, 3259730800, 3345764771, 3516065817, 3600352804, 4094571909, 275423344,
      430227734, 506948616, 659060556, 883997877, 958139571, 1322822218, 1537002063, 1747873779,
      1955562222, 2024104815, 2227730452, 2361852424, 2428436474, 2756734187, 3204031479, 3329325298]"

definition sha_H :: "32 word list" where
  "sha_H = [1779033703, 3144134277, 1013904242, 2773480762, 1359893119, 2600822924, 528734635, 1541459225]"

definition small_sigma :: "nat \<Rightarrow> nat \<Rightarrow> nat \<Rightarrow> 32 word \<Rightarrow> 32 word" where
  "small_sigma a b c x = word_rotr a x XOR word_rotr b x XOR drop_bit c x"

definition big_sigma :: "nat \<Rightarrow> nat \<Rightarrow> nat \<Rightarrow> 32 word \<Rightarrow> 32 word" where
  "big_sigma a b c x = word_rotr a x XOR word_rotr b x XOR word_rotr c x"

text \<open>The message schedule: the sixteen words of a block and forty-eight more.\<close>

fun schedule :: "nat \<Rightarrow> 32 word list \<Rightarrow> 32 word list" where
  "schedule 0 w = w"
| "schedule (Suc n) w = schedule n (w @ (let i = length w in
     [small_sigma 17 19 10 (w ! (i - 2)) + w ! (i - 7) + small_sigma 7 18 3 (w ! (i - 15)) + w ! (i - 16)]))"

fun sha_round :: "32 word list \<Rightarrow> 32 word \<times> 32 word \<Rightarrow> 32 word list" where
  "sha_round [a, b, c, d, e, f, g, h] (k, w) =
     (let t1 = h + big_sigma 6 11 25 e + ((e AND f) XOR (NOT e AND g)) + k + w;
          t2 = big_sigma 2 13 22 a + ((a AND b) XOR (a AND c) XOR (b AND c))
      in [t1 + t2, a, b, c, d + t1, e, f, g])"
| "sha_round s _ = s"

definition sha_block :: "32 word list \<Rightarrow> 8 word list \<Rightarrow> 32 word list" where
  "sha_block s block =
     map2 (+) s (foldl sha_round s (zip sha_K (schedule 48 (map big_endian (groups 4 block)))))"

definition sha256 :: "8 word list \<Rightarrow> 32 word list" where
  "sha256 m = foldl sha_block sha_H (groups 64 (sha_pad m))"

section \<open>The digest\<close>

definition hex_digit :: "nat \<Rightarrow> char" where
  "hex_digit n = char_of (if n < 10 then 48 + n else 87 + n)"

definition hex_word :: "32 word \<Rightarrow> string" where
  "hex_word w = map (\<lambda>i. hex_digit (unat (drop_bit (4 * (7 - i)) w AND 15))) [0..<8]"

definition sha256_hex :: "string \<Rightarrow> string" where
  "sha256_hex s = concat (map hex_word (sha256 (utf8 s)))"

text \<open>A digest is always 64 characters long.\<close>

lemma length_sha_round: "length s = 8 \<Longrightarrow> length (sha_round s kw) = 8"
  by (cases "(s, kw)" rule: sha_round.cases) (auto simp: Let_def)

lemma length_sha_rounds: "length s = 8 \<Longrightarrow> length (foldl sha_round s kws) = 8"
  by (induction kws arbitrary: s) (simp_all add: length_sha_round)

lemma length_sha_blocks: "length s = 8 \<Longrightarrow> length (foldl sha_block s bs) = 8"
  by (induction bs arbitrary: s) (simp_all add: sha_block_def length_sha_rounds)

lemma length_sha256_hex: "length (sha256_hex s) = 64"
proof -
  have "length (concat (map hex_word ws)) = 8 * length ws" for ws
    by (induction ws) (simp_all add: hex_word_def)
  moreover have "length (sha256 m) = 8" for m
    unfolding sha256_def by (rule length_sha_blocks) (simp add: sha_H_def)
  ultimately show ?thesis by (simp add: sha256_hex_def)
qed

end
