(* ===== verification/Chunking.thy ===== *)
theory Chunking
  imports Sha256
begin

text \<open>
  Chunking and hashing of the knowledge store (\<open>knowledge/chunking.py\<close>): documents are split at
  their headings or at their top-level symbols, what is too long by size with an overlap, and every
  chunk is normalised, hashed and numbered.

  The loop of \<open>_chunk_by_size\<close> moves its start back by the overlap, so it is a partial function on
  any sizes; that it ends on the sizes the code uses is a theorem.
\<close>

section \<open>Slices\<close>

text \<open>The bounds of \<open>s[a:b]\<close>: a negative one counts from the end.\<close>

definition py_index :: "nat \<Rightarrow> int \<Rightarrow> nat" where
  "py_index n i = nat (min (int n) (if i < 0 then max 0 (i + int n) else i))"

definition text_span :: "'a list \<Rightarrow> nat \<Rightarrow> nat \<Rightarrow> 'a list" where
  "text_span s a b = take (b - a) (drop a s)"

definition py_slice :: "'a list \<Rightarrow> int \<Rightarrow> int \<Rightarrow> 'a list" where
  "py_slice s a b = text_span s (py_index (length s) a) (py_index (length s) b)"

definition rfind :: "string \<Rightarrow> string \<Rightarrow> int \<Rightarrow> int \<Rightarrow> int" where
  "rfind s sub a b =
     (let hits = filter (\<lambda>k. take (length sub) (drop k s) = sub)
            [py_index (length s) a ..< py_index (length s) b + 1 - length sub]
      in if hits = [] then -1 else int (last hits))"

section \<open>Normalisation and hashes\<close>

definition MAX_CHUNK_CHARS :: int where
  "MAX_CHUNK_CHARS = 4096"

definition OVERLAP_CHARS :: int where
  "OVERLAP_CHARS = 200"

definition MAX_BLANK_RUN :: nat where
  "MAX_BLANK_RUN = 2"

text \<open>The loop over the lines; \<open>k\<close> is \<open>blank_run\<close>.\<close>

fun limit_blanks :: "nat \<Rightarrow> string list \<Rightarrow> string list" where
  "limit_blanks k [] = []"
| "limit_blanks k (l # ls) =
     (if l = [] then (if k + 1 \<le> MAX_BLANK_RUN then l # limit_blanks (k + 1) ls else limit_blanks (k + 1) ls)
      else l # limit_blanks 0 ls)"

definition collapse_blank_lines :: "string \<Rightarrow> string" where
  "collapse_blank_lines text =
     (let ls = map rstrip (split_char newline text);
          ls = rev (dropWhile (\<lambda>l. l = []) (rev ls))
      in join [newline] (dropWhile (\<lambda>l. l = []) (limit_blanks 0 ls)))"

fun replace_crlf :: "string \<Rightarrow> string" where
  "replace_crlf [] = []"
| "replace_crlf (c # s) =
     (case s of [] \<Rightarrow> [c]
      | d # t \<Rightarrow> if code c = 13 \<and> d = newline then newline # replace_crlf t else c # replace_crlf s)"

definition replace_cr :: "string \<Rightarrow> string" where
  "replace_cr s = map (\<lambda>c. if code c = 13 then newline else c) s"

definition normalize_content :: "string \<Rightarrow> string" where
  "normalize_content text = collapse_blank_lines
     (join [newline] (map (\<lambda>l. replace_cr (replace_crlf (rstrip l))) (splitlines text)))"

definition content_hash :: "string \<Rightarrow> string" where
  "content_hash text = sha256_hex (normalize_content text)"

definition token_estimate :: "string \<Rightarrow> nat" where
  "token_estimate text = length (split_ws text)"

definition deterministic_chunk_id :: "string \<Rightarrow> nat \<Rightarrow> string" where
  "deterministic_chunk_id source_id pos = sha256_hex (source_id @ '':'' @ digits pos)"

section \<open>Chunks by size\<close>

definition chunk_end :: "string \<Rightarrow> int \<Rightarrow> int \<Rightarrow> int \<Rightarrow> int" where
  "chunk_end text overlap start e =
     (let a = max start (e - overlap);
          found = rfind text [newline, newline] a e;
          found = (if found = -1 then rfind text [newline] a e else found);
          found = (if found = -1 then rfind text ''. '' a e else found)
      in if found > start then found + 1 else e)"

partial_function (option) size_loop ::
  "string \<Rightarrow> int \<Rightarrow> int \<Rightarrow> int \<Rightarrow> string list option" where
  "size_loop text max_chars overlap start =
     (if start < int (length text)
      then let e0 = min (start + max_chars) (int (length text));
               e = (if e0 < int (length text) then chunk_end text overlap start e0 else e0);
               chunk = strip (py_slice text start e)
           in Option.bind (size_loop text max_chars overlap (if e < int (length text) then e - overlap else e))
                (\<lambda>cs. Some (if chunk = [] then cs else chunk # cs))
      else Some [])"

definition chunk_by_size :: "string \<Rightarrow> int \<Rightarrow> int \<Rightarrow> string list option" where
  "chunk_by_size text max_chars overlap =
     (if text = [] \<or> strip text = [] then Some []
      else if int (length text) \<le> max_chars then Some [strip text]
      else size_loop text max_chars overlap 0)"

section \<open>Chunks by structure\<close>

text \<open>
  \<open>finditer\<close> with a pattern that begins with \<open>^\<close> under \<open>MULTILINE\<close>: the matches by position and
  length. The pattern answers the length of its match at the start of a line.
\<close>

fun find_lines :: "(string \<Rightarrow> nat option) \<Rightarrow> nat \<Rightarrow> bool \<Rightarrow> string \<Rightarrow> (nat \<times> nat) list" where
  "find_lines p pos bol [] = []"
| "find_lines p pos bol (c # s) =
     (case (if bol then p (c # s) else None) of
        None \<Rightarrow> find_lines p (pos + 1) (c = newline) s
      | Some n \<Rightarrow> (pos, n) # find_lines p (pos + n) ((c # s) ! (n - 1) = newline) (drop (n - 1) s))"

text \<open>
  \<open>^(#{1,6})\s+(.+)\<close>: the white space is taken greedily, over line ends too, and gives back its last
  characters when nothing else is left for \<open>.+\<close>, which no newline matches.
\<close>

definition heading_at :: "string \<Rightarrow> nat option" where
  "heading_at s =
     (let n = length (takeWhile (\<lambda>c. c = CHR ''#'') s); r = drop n s;
          ws = takeWhile is_space r; rest = dropWhile is_space r
      in if n = 0 \<or> 6 < n \<or> ws = [] then None
         else if rest \<noteq> [] then Some (n + length ws + length (takeWhile (\<lambda>c. c \<noteq> newline) rest))
         else case filter (\<lambda>k. ws ! k \<noteq> newline) [1..<length ws] of
                [] \<Rightarrow> None
              | ks \<Rightarrow> Some (n + last ks + 1))"

definition symbol_at :: "string \<Rightarrow> nat option" where
  "symbol_at s =
     (if startswith s ''class '' then Some 6 else if startswith s ''def '' then Some 4
      else if startswith s ''async def '' then Some 10 else None)"

text \<open>The sections: start, length of the match and end.\<close>

fun sections :: "nat \<Rightarrow> (nat \<times> nat) list \<Rightarrow> (nat \<times> nat \<times> nat) list" where
  "sections n [] = []"
| "sections n ((a, l) # ms) = (a, l, case ms of [] \<Rightarrow> n | (b, _) # _ \<Rightarrow> b) # sections n ms"

fun concat_some :: "'a list option list \<Rightarrow> 'a list option" where
  "concat_some [] = Some []"
| "concat_some (x # xs) = Option.bind x (\<lambda>a. Option.bind (concat_some xs) (\<lambda>b. Some (a @ b)))"

definition section_chunks :: "string \<Rightarrow> nat \<times> nat \<times> nat \<Rightarrow> string list option" where
  "section_chunks text m = (case m of (a, l, b) \<Rightarrow>
     let s = strip (text_span text a b) in
     if int (length s) > MAX_CHUNK_CHARS
     then Option.bind (chunk_by_size (strip (text_span text (a + l) b)) MAX_CHUNK_CHARS OVERLAP_CHARS)
            (\<lambda>cs. Some (strip (text_span text a (a + l)) # cs))
     else Some [s])"

definition not_blank :: "string list \<Rightarrow> string list" where
  "not_blank cs = filter (\<lambda>c. strip c \<noteq> []) cs"

definition chunk_markdown :: "string \<Rightarrow> string list option" where
  "chunk_markdown text =
     (case find_lines heading_at 0 True text of
        [] \<Rightarrow> chunk_by_size text MAX_CHUNK_CHARS OVERLAP_CHARS
      | (a, l) # ms \<Rightarrow>
          let preamble = strip (text_span text 0 a) in
          map_option not_blank (concat_some
            ((if 0 < a \<and> preamble \<noteq> [] then chunk_by_size preamble MAX_CHUNK_CHARS OVERLAP_CHARS else Some [])
             # map (section_chunks text) (sections (length text) ((a, l) # ms)))))"

definition chunk_code :: "string \<Rightarrow> string list option" where
  "chunk_code text =
     (case find_lines symbol_at 0 True text of
        [] \<Rightarrow> chunk_by_size text MAX_CHUNK_CHARS OVERLAP_CHARS
      | (a, l) # ms \<Rightarrow>
          let preamble = strip (text_span text 0 a) in
          map_option not_blank (concat_some
            (Some (if 0 < a \<and> preamble \<noteq> [] then [preamble] else [])
             # map (section_chunks text) (sections (length text) ((a, l) # ms)))))"

section \<open>Chunks of a document\<close>

record chunk_dict =
  ck_id :: string
  ck_content :: string
  ck_hash :: string
  ck_position :: nat
  ck_tokens :: nat
  ck_metadata :: pydict

definition make_chunk :: "string \<Rightarrow> pydict \<Rightarrow> nat \<times> string \<Rightarrow> chunk_dict" where
  "make_chunk source_id meta c = (case c of (pos, content) \<Rightarrow>
     let norm = normalize_content content in
     \<lparr>ck_id = deterministic_chunk_id source_id pos, ck_content = norm, ck_hash = sha256_hex norm,
      ck_position = pos, ck_tokens = token_estimate norm,
      ck_metadata = dict_set ''position'' (PInt (int pos)) meta\<rparr>)"

definition chunk_text :: "string \<Rightarrow> string \<Rightarrow> string \<Rightarrow> pydict \<Rightarrow> chunk_dict list option" where
  "chunk_text content source_type source_id meta =
     map_option (\<lambda>raw. map (make_chunk source_id meta) (enumerate 0 raw))
       (if source_type = ''code'' then chunk_code content else chunk_markdown content)"

end
