(* ===== verification/KnowledgeStore.thy ===== *)
theory KnowledgeStore
  imports Chunking Table Memory
begin

text \<open>
  The knowledge store (\<open>knowledge/store.py\<close>, \<open>knowledge/models.py\<close>): sources, documents, their
  chunks and embeddings, the runs of the indexer and the full-text index, scoped by project.

  A column that holds JSON keeps the value it encodes. The full-text engine of the database is the
  parameter \<open>kv_match\<close>: what it answers for an expression on the indexed rows, chunk identifiers by
  rank, or nothing when it raises; \<open>kv_changes\<close> is the connection's \<open>total_changes\<close>.
\<close>

section \<open>Data\<close>

definition VALID_SOURCE_TYPES :: "string list" where
  "VALID_SOURCE_TYPES = [''skill'', ''documentation'', ''adr'', ''code'', ''research'', ''memory'', ''project_dna'']"

record source_row =
  so_source :: string
  so_type :: string
  so_path :: string
  so_hash :: string
  so_version :: string
  so_metadata :: pydict
  so_indexed :: string
  so_status :: string
  so_project :: string

record document_row =
  dc_document :: string
  dc_source :: string
  dc_title :: string
  dc_path :: string
  dc_hash :: string
  dc_metadata :: pydict
  dc_indexed :: string
  dc_project :: string

record chunk_row =
  cu_chunk :: string
  cu_source :: string
  cu_document :: string
  cu_content :: string
  cu_metadata :: pydict
  cu_hash :: string
  cu_position :: nat
  cu_tokens :: nat
  cu_project :: string

record embedding_row =
  eb_chunk :: string
  eb_provider :: string
  eb_model :: string
  eb_dim :: int
  eb_blob :: string
  eb_hash :: string
  eb_created :: string
  eb_project :: string

record run_row =
  ir_run :: string
  ir_started :: string
  ir_finished :: string
  ir_scanned :: nat
  ir_skipped :: nat
  ir_reindexed :: nat
  ir_created :: nat
  ir_deleted :: nat
  ir_status :: string
  ir_project :: string

record fts_row =
  ft_chunk :: string
  ft_source :: string
  ft_document :: string
  ft_content :: string
  ft_project :: string

record knowledge_state =
  kw_open :: bool
  kw_fts :: bool
  kw_sources :: "source_row table"
  kw_documents :: "document_row table"
  kw_chunks :: "chunk_row table"
  kw_embeddings :: "embedding_row table"
  kw_runs :: "run_row list"
  kw_index :: "fts_row list"
  kw_tick :: nat

record knowledge_env =
  kv_project :: string
  kv_clock :: "nat \<Rightarrow> string"
  kv_match :: "string \<Rightarrow> fts_row list \<Rightarrow> string list option"
  kv_changes :: "knowledge_state \<Rightarrow> nat"

type_synonym 'a knowledge = "(knowledge_state, 'a) py"

record knowledge_document =
  kd_document :: string
  kd_title :: string
  kd_path :: string
  kd_content :: string
  kd_type :: string
  kd_version :: string
  kd_metadata :: pydict

record knowledge_query =
  kq_text :: string
  kq_limit :: int
  kq_types :: "string list"

record knowledge_result =
  kr_chunk :: string
  kr_source :: string
  kr_type :: string
  kr_path :: string
  kr_document :: string
  kr_content :: string
  kr_position :: nat
  kr_hash :: string
  kr_tokens :: nat
  kr_metadata :: pydict

record index_answer =
  ia_action :: string
  ia_created :: nat
  ia_deleted :: nat
  ia_source :: string

section \<open>Statements\<close>

text \<open>Without a connection a statement does nothing and a query answers nothing.\<close>

definition sql_exec :: "(knowledge_state \<Rightarrow> knowledge_state) \<Rightarrow> unit knowledge" where
  "sql_exec f = modify (\<lambda>s. if kw_open s then f s else s)"

definition sql_rows :: "(knowledge_state \<Rightarrow> 'a list) \<Rightarrow> 'a list knowledge" where
  "sql_rows f = gets (\<lambda>s. if kw_open s then f s else [])"

definition knowledge_now :: "knowledge_env \<Rightarrow> string knowledge" where
  "knowledge_now E = (\<lambda>s. (Inr (kv_clock E (kw_tick s)), s\<lparr>kw_tick := kw_tick s + 1\<rparr>))"

text \<open>\<open>INSERT OR REPLACE\<close>: the rows in conflict go, the new one gets a new identifier.\<close>

definition replace_row :: "('r \<Rightarrow> bool) \<Rightarrow> 'r \<Rightarrow> 'r table \<Rightarrow> 'r table" where
  "replace_row same r t = snd (insert_row r (delete_rows (\<lambda>_ x. same x) t))"

definition update_where :: "('r \<Rightarrow> bool) \<Rightarrow> ('r \<Rightarrow> 'r) \<Rightarrow> 'r table \<Rightarrow> 'r table" where
  "update_where P f t = t\<lparr>table_rows := map (\<lambda>(i, r). (i, if P r then f r else r)) (table_rows t)\<rparr>"

definition rows_where :: "('r \<Rightarrow> bool) \<Rightarrow> 'r table \<Rightarrow> 'r list" where
  "rows_where P t = map snd (select_rows (\<lambda>_. P) t)"

text \<open>\<open>LIMIT\<close>: a negative one is none.\<close>

definition sql_limit :: "int \<Rightarrow> 'a list \<Rightarrow> 'a list" where
  "sql_limit n xs = (if n < 0 then xs else take (nat n) xs)"

section \<open>Sources\<close>

definition deterministic_source_id :: "string \<Rightarrow> string \<Rightarrow> string" where
  "deterministic_source_id ty path = sha256_hex (ty @ ''|'' @ path)"

text \<open>\<open>upsert_source\<close> reads \<open>self.self\<close>, which no store has.\<close>

definition upsert_source :: "string \<Rightarrow> unit knowledge" where
  "upsert_source ty =
     (if ty \<notin> set VALID_SOURCE_TYPES then raise (Exn KnowledgeError (''Invalid source type: '' @ ty))
      else raise (Exn AttributeError (CHR 0x27 # ''SQLiteKnowledgeStore'' @ [CHR 0x27] @ '' object has no attribute '' @
        [CHR 0x27] @ ''self'' @ [CHR 0x27])))"

definition list_sources :: "knowledge_env \<Rightarrow> string option \<Rightarrow> source_row list knowledge" where
  "list_sources E ty =
     (let wanted = (\<lambda>r. case ty of None \<Rightarrow> True | Some t \<Rightarrow> t = [] \<or> so_type r = t) in
      if (case ty of None \<Rightarrow> False | Some t \<Rightarrow> t \<noteq> [] \<and> t \<notin> set VALID_SOURCE_TYPES) then ret []
      else sql_rows (\<lambda>s. sort_key so_type (sort_key so_path
        (rows_where (\<lambda>r. so_project r = kv_project E \<and> wanted r) (kw_sources s)))))"

definition upsert_source_metadata :: "knowledge_env \<Rightarrow> string \<Rightarrow> pydict \<Rightarrow> unit knowledge" where
  "upsert_source_metadata E sid meta = sql_exec (\<lambda>s. s\<lparr>kw_sources :=
     update_where (\<lambda>r. so_source r = sid \<and> so_project r = kv_project E) (\<lambda>r. r\<lparr>so_metadata := meta\<rparr>)
       (kw_sources s)\<rparr>)"

definition source_rows :: "knowledge_env \<Rightarrow> string \<Rightarrow> knowledge_state \<Rightarrow> source_row list" where
  "source_rows E sid s = rows_where (\<lambda>r. so_source r = sid \<and> so_project r = kv_project E) (kw_sources s)"

definition ensure_source :: "knowledge_env \<Rightarrow> string \<Rightarrow> string \<Rightarrow> string \<Rightarrow> string \<Rightarrow> unit knowledge" where
  "ensure_source E sid ty path version =
     bnd (sql_rows (source_rows E sid)) (\<lambda>rows.
     if rows \<noteq> [] then ret ()
     else sql_exec (\<lambda>s. s\<lparr>kw_sources := snd (insert_row
       \<lparr>so_source = sid, so_type = ty, so_path = path, so_hash = '''', so_version = version,
        so_metadata = [], so_indexed = '''', so_status = ''active'', so_project = kv_project E\<rparr>
       (kw_sources s))\<rparr>))"

section \<open>Embeddings\<close>

definition save_embedding :: "knowledge_env \<Rightarrow> string \<Rightarrow> string \<Rightarrow> string \<Rightarrow> int \<Rightarrow> string \<Rightarrow> string \<Rightarrow> unit knowledge" where
  "save_embedding E chunk provider model d blob hash =
     bnd (knowledge_now E) (\<lambda>now. sql_exec (\<lambda>s. s\<lparr>kw_embeddings :=
       replace_row (\<lambda>r. eb_chunk r = chunk \<and> eb_project r = kv_project E)
         \<lparr>eb_chunk = chunk, eb_provider = provider, eb_model = model, eb_dim = d, eb_blob = blob,
          eb_hash = hash, eb_created = now, eb_project = kv_project E\<rparr> (kw_embeddings s)\<rparr>))"

definition get_embeddings_by_chunk_ids :: "knowledge_env \<Rightarrow> string list \<Rightarrow> embedding_row list knowledge" where
  "get_embeddings_by_chunk_ids E ids =
     (if ids = [] then ret []
      else sql_rows (\<lambda>s. sort_key eb_chunk
        (rows_where (\<lambda>r. eb_chunk r \<in> set ids \<and> eb_project r = kv_project E) (kw_embeddings s))))"

definition find_unembedded_chunk_ids :: "knowledge_env \<Rightarrow> string list \<Rightarrow> string list knowledge" where
  "find_unembedded_chunk_ids E ids =
     (if ids = [] then ret []
      else bnd (sql_rows (\<lambda>s. rows_where (\<lambda>r. eb_chunk r \<in> set ids \<and> eb_project r = kv_project E) (kw_embeddings s)))
        (\<lambda>rows. ret (filter (\<lambda>i. i \<notin> eb_chunk ` set rows) ids)))"

definition chunk_rows_of :: "knowledge_env \<Rightarrow> string \<Rightarrow> knowledge_state \<Rightarrow> chunk_row list" where
  "chunk_rows_of E sid s = rows_where (\<lambda>r. cu_source r = sid \<and> cu_project r = kv_project E) (kw_chunks s)"

text \<open>The embeddings of the chunks go in every project: the outer query has no project.\<close>

definition delete_embeddings_for_source :: "knowledge_env \<Rightarrow> string \<Rightarrow> unit knowledge" where
  "delete_embeddings_for_source E sid = sql_exec (\<lambda>s. s\<lparr>kw_embeddings :=
     delete_rows (\<lambda>_ r. eb_chunk r \<in> set (map cu_chunk (chunk_rows_of E sid s))) (kw_embeddings s)\<rparr>)"

section \<open>Documents and chunks\<close>

definition path_parts :: "string \<Rightarrow> string list" where
  "path_parts p = filter (\<lambda>x. x \<noteq> [] \<and> x \<noteq> ''.'') (split_char (CHR ''/'') p)"

definition path_name :: "string \<Rightarrow> string" where
  "path_name p = (if path_parts p = [] then [] else last (path_parts p))"

definition delete_chunks_for_source :: "knowledge_env \<Rightarrow> string \<Rightarrow> unit knowledge" where
  "delete_chunks_for_source E sid =
     seq (sql_exec (\<lambda>s. if kw_fts s then s\<lparr>kw_index := filter (\<lambda>r. ft_source r \<noteq> sid) (kw_index s)\<rparr> else s))
    (seq (delete_embeddings_for_source E sid)
     (sql_exec (\<lambda>s. s\<lparr>kw_chunks :=
       delete_rows (\<lambda>_ r. cu_source r = sid \<and> cu_project r = kv_project E) (kw_chunks s)\<rparr>)))"

definition chunk_to_row :: "knowledge_env \<Rightarrow> string \<Rightarrow> string \<Rightarrow> chunk_dict \<Rightarrow> chunk_row" where
  "chunk_to_row E sid did c =
     \<lparr>cu_chunk = ck_id c, cu_source = sid, cu_document = did, cu_content = ck_content c,
      cu_metadata = ck_metadata c, cu_hash = ck_hash c, cu_position = ck_position c,
      cu_tokens = ck_tokens c, cu_project = kv_project E\<rparr>"

definition insert_chunk :: "knowledge_env \<Rightarrow> string \<Rightarrow> string \<Rightarrow> chunk_dict \<Rightarrow> unit knowledge" where
  "insert_chunk E sid did c =
     seq (sql_exec (\<lambda>s. s\<lparr>kw_chunks :=
       replace_row (\<lambda>r. cu_chunk r = ck_id c \<and> cu_project r = kv_project E) (chunk_to_row E sid did c) (kw_chunks s)\<rparr>))
     (sql_exec (\<lambda>s. if kw_fts s then s\<lparr>kw_index := kw_index s @
       [\<lparr>ft_chunk = ck_id c, ft_source = sid, ft_document = did, ft_content = ck_content c,
         ft_project = kv_project E\<rparr>]\<rparr> else s))"

fun insert_chunks :: "knowledge_env \<Rightarrow> string \<Rightarrow> string \<Rightarrow> chunk_dict list \<Rightarrow> unit knowledge" where
  "insert_chunks E sid did [] = ret ()"
| "insert_chunks E sid did (c # cs) = seq (insert_chunk E sid did c) (insert_chunks E sid did cs)"

text \<open>The chunks of a document. That chunking always answers is a theorem about it.\<close>

definition document_id :: "knowledge_document \<Rightarrow> string" where
  "document_id d = (let sid = deterministic_source_id (kd_type d) (kd_path d) in
     if kd_document d = [] then sha256_hex (sid @ ''|'' @ kd_path d) else kd_document d)"

definition document_title :: "knowledge_document \<Rightarrow> string" where
  "document_title d = (if kd_title d = [] then path_name (kd_path d) else kd_title d)"

definition document_chunks :: "knowledge_document \<Rightarrow> chunk_dict list" where
  "document_chunks d = (case chunk_text (kd_content d) (kd_type d) (deterministic_source_id (kd_type d) (kd_path d))
       (foldl (\<lambda>m (k, v). dict_set k v m)
          [(''title'', PStr (document_title d)), (''path'', PStr (kd_path d)), (''type'', PStr (kd_type d)),
           (''version'', PStr (kd_version d))] (kd_metadata d)) of
     Some cs \<Rightarrow> cs | None \<Rightarrow> [])"

definition store_document :: "knowledge_env \<Rightarrow> knowledge_document \<Rightarrow> string \<Rightarrow> nat \<Rightarrow> index_answer knowledge" where
  "store_document E d action deleted =
     (let sid = deterministic_source_id (kd_type d) (kd_path d); did = document_id d;
          h = content_hash (kd_content d); cs = document_chunks d in
      seq (insert_chunks E sid did cs)
     (bnd (knowledge_now E) (\<lambda>now.
      seq (sql_exec (\<lambda>s. s\<lparr>kw_documents :=
        replace_row (\<lambda>r. dc_document r = did \<and> dc_project r = kv_project E)
          \<lparr>dc_document = did, dc_source = sid, dc_title = document_title d, dc_path = kd_path d, dc_hash = h,
           dc_metadata = kd_metadata d, dc_indexed = now, dc_project = kv_project E\<rparr> (kw_documents s)\<rparr>))
     (seq (sql_exec (\<lambda>s. s\<lparr>kw_sources :=
        update_where (\<lambda>r. so_source r = sid \<and> so_project r = kv_project E)
          (\<lambda>r. r\<lparr>so_hash := h, so_indexed := now, so_status := ''active''\<rparr>) (kw_sources s)\<rparr>))
      (ret \<lparr>ia_action = action, ia_created = length cs, ia_deleted = deleted, ia_source = sid\<rparr>)))))"

definition document_rows :: "knowledge_env \<Rightarrow> string \<Rightarrow> knowledge_state \<Rightarrow> document_row list" where
  "document_rows E did s = rows_where (\<lambda>r. dc_document r = did \<and> dc_project r = kv_project E) (kw_documents s)"

definition index_document :: "knowledge_env \<Rightarrow> knowledge_document \<Rightarrow> index_answer knowledge" where
  "index_document E d =
     (if kd_type d \<notin> set VALID_SOURCE_TYPES
      then raise (Exn KnowledgeError (''Invalid document type: '' @ kd_type d))
      else let sid = deterministic_source_id (kd_type d) (kd_path d); did = document_id d;
               h = content_hash (kd_content d) in
        seq (ensure_source E sid (kd_type d) (kd_path d) (kd_version d))
       (bnd (sql_rows (document_rows E did)) (\<lambda>existing. case existing of
          [] \<Rightarrow> store_document E d ''indexed'' 0
        | old # _ \<Rightarrow>
            if dc_hash old = h
            then ret \<lparr>ia_action = ''skipped'', ia_created = 0, ia_deleted = 0, ia_source = sid\<rparr>
            else seq (delete_chunks_for_source E sid)
                (bnd (gets (\<lambda>s. if kw_open s then kv_changes E s else 0)) (\<lambda>deleted.
                 seq (sql_exec (\<lambda>s. s\<lparr>kw_documents :=
                   delete_rows (\<lambda>_ r. dc_document r = did \<and> dc_project r = kv_project E) (kw_documents s)\<rparr>))
                  (store_document E d ''reindexed'' deleted))))))"

definition get_source_chunks :: "knowledge_env \<Rightarrow> string \<Rightarrow> chunk_row list knowledge" where
  "get_source_chunks E sid = sql_rows (\<lambda>s. sort_key cu_position (chunk_rows_of E sid s))"

section \<open>Runs of the indexer\<close>

definition start_run :: "knowledge_env \<Rightarrow> string \<Rightarrow> unit knowledge" where
  "start_run E run = bnd (knowledge_now E) (\<lambda>now s.
     if kw_open s \<and> run \<in> ir_run ` set (kw_runs s)
     then (Inl (Exn OtherException ''UNIQUE constraint failed: knowledge_index_runs.run_id''), s)
     else sql_exec (\<lambda>s. s\<lparr>kw_runs := kw_runs s @
       [\<lparr>ir_run = run, ir_started = now, ir_finished = '''', ir_scanned = 0, ir_skipped = 0,
         ir_reindexed = 0, ir_created = 0, ir_deleted = 0, ir_status = ''running'',
         ir_project = kv_project E\<rparr>]\<rparr>) s)"

definition finish_run :: "knowledge_env \<Rightarrow> string \<Rightarrow> nat \<Rightarrow> nat \<Rightarrow> nat \<Rightarrow> nat \<Rightarrow> nat \<Rightarrow> unit knowledge" where
  "finish_run E run scanned skipped reindexed created deleted = bnd (knowledge_now E) (\<lambda>now.
     sql_exec (\<lambda>s. s\<lparr>kw_runs := map (\<lambda>r. if ir_run r = run \<and> ir_project r = kv_project E
       then r\<lparr>ir_finished := now, ir_scanned := scanned, ir_skipped := skipped, ir_reindexed := reindexed,
              ir_created := created, ir_deleted := deleted, ir_status := ''completed''\<rparr>
       else r) (kw_runs s)\<rparr>))"

definition get_last_run :: "knowledge_env \<Rightarrow> run_row option knowledge" where
  "get_last_run E = bnd (sql_rows (\<lambda>s. sort_desc ir_started (filter (\<lambda>r. ir_project r = kv_project E) (kw_runs s))))
     (\<lambda>rows. ret (case rows of [] \<Rightarrow> None | r # _ \<Rightarrow> Some r))"

section \<open>Search\<close>

definition row_to_result :: "knowledge_env \<Rightarrow> knowledge_state \<Rightarrow> chunk_row \<Rightarrow> knowledge_result" where
  "row_to_result E s r =
     (let src = (case source_rows E (cu_source r) s of [] \<Rightarrow> None | x # _ \<Rightarrow> Some x) in
      \<lparr>kr_chunk = cu_chunk r, kr_source = cu_source r,
       kr_type = (case src of None \<Rightarrow> '''' | Some x \<Rightarrow> so_type x),
       kr_path = (case src of None \<Rightarrow> '''' | Some x \<Rightarrow> so_path x),
       kr_document = cu_document r, kr_content = cu_content r, kr_position = cu_position r,
       kr_hash = cu_hash r, kr_tokens = cu_tokens r, kr_metadata = cu_metadata r\<rparr>)"

text \<open>A chunk joins the sources with its identifier and project, filtered by their type; one row for
  each of them.\<close>

definition joined :: "knowledge_env \<Rightarrow> string list \<Rightarrow> knowledge_state \<Rightarrow> chunk_row \<Rightarrow> chunk_row list" where
  "joined E types s r = map (\<lambda>_. r)
     (rows_where (\<lambda>x. so_source x = cu_source r \<and> so_project x = cu_project r \<and> (types = [] \<or> so_type x \<in> set types))
       (kw_sources s))"

definition search_like :: "knowledge_env \<Rightarrow> knowledge_query \<Rightarrow> knowledge_state \<Rightarrow> knowledge_result list" where
  "search_like E q s = map (row_to_result E s) (sql_limit (kq_limit q) (sort_key (\<lambda>r. length (cu_content r))
     (concat (map (joined E (kq_types q) s)
       (rows_where (\<lambda>r. like (''%'' @ kq_text q @ ''%'') (cu_content r) \<and> cu_project r = kv_project E) (kw_chunks s))))))"

definition DQUOTE :: char where
  "DQUOTE = CHR 0x22"

definition escape_fts_token :: "string \<Rightarrow> string" where
  "escape_fts_token t = DQUOTE # concat (map (\<lambda>c. if c = DQUOTE then [DQUOTE, DQUOTE] else [c]) t) @ [DQUOTE]"

definition fts_expr :: "string \<Rightarrow> string" where
  "fts_expr text = join '' OR '' (map (\<lambda>t. ''('' @ escape_fts_token t @ '')'') (split_ws (strip text)))"

definition search_fts :: "knowledge_env \<Rightarrow> knowledge_query \<Rightarrow> knowledge_state \<Rightarrow> knowledge_result list" where
  "search_fts E q s =
     (if fts_expr (kq_text q) = [] then []
      else case kv_match E (fts_expr (kq_text q)) (kw_index s) of
        None \<Rightarrow> search_like E q s
      | Some ids \<Rightarrow> map (row_to_result E s) (sql_limit (kq_limit q)
          (concat (map (\<lambda>i. concat (map (joined E (kq_types q) s)
            (rows_where (\<lambda>r. cu_chunk r = i \<and> cu_project r = kv_project E) (kw_chunks s)))) ids))))"

definition knowledge_search :: "knowledge_env \<Rightarrow> knowledge_query \<Rightarrow> knowledge_result list knowledge" where
  "knowledge_search E q =
     (if strip (kq_text q) = [] then ret []
      else sql_rows (\<lambda>s. if kw_fts s then search_fts E q s else search_like E q s))"

end
