(* ===== verification/Retrieval.thy ===== *)
theory Retrieval
  imports KnowledgeStore
begin

text \<open>
  Retrieval (\<open>retrieval/retrievers.py\<close>, \<open>retrieval/selector.py\<close>): the keyword and the vector
  retriever over the knowledge store, and the selector that ranks what they find and fits it to the
  token budget of an agent.

  Scores are exact rationals. The embedding provider is a parameter; so are the parsed content of a
  vector column (\<open>vector\<close>) and the square root of the floats (\<open>sqr\<close>).
\<close>

section \<open>Scored results\<close>

record scored_result =
  sr_result :: knowledge_result
  sr_score :: rat
  sr_note :: string

definition scored :: "knowledge_result \<Rightarrow> rat \<Rightarrow> scored_result" where
  "scored r x = \<lparr>sr_result = r, sr_score = x, sr_note = ''''\<rparr>"

section \<open>Keywords\<close>

definition STOPWORDS :: "string list" where
  "STOPWORDS = [''a'', ''an'', ''and'', ''are'', ''as'', ''at'', ''be'', ''by'', ''does'', ''for'', ''from'',
     ''how'', ''in'', ''into'', ''is'', ''it'', ''of'', ''on'', ''or'', ''that'', ''the'', ''this'', ''to'',
     ''was'', ''what'', ''when'', ''where'', ''which'', ''with'', ''do'', ''should'', ''we'', ''you'', ''i'',
     ''me'', ''my'']"

definition is_query_char :: "char \<Rightarrow> bool" where
  "is_query_char c = (is_lower_ascii c \<or> is_upper_ascii c \<or> is_digit c \<or> c = CHR ''_'')"

text \<open>The maximal runs of characters that satisfy a predicate.\<close>

function runs :: "(char \<Rightarrow> bool) \<Rightarrow> string \<Rightarrow> string list" where
  "runs P s =
     (let t = dropWhile (\<lambda>c. \<not> P c) s in
      if t = [] then [] else takeWhile P t # runs P (dropWhile P t))"
  by auto
termination
proof (relation "measure (length \<circ> snd)", simp)
  fix P :: "char \<Rightarrow> bool" and s t :: string
  assume t: "t = dropWhile (\<lambda>c. \<not> P c) s" and ne: "t \<noteq> []"
  have "P (hd t)" using t ne hd_dropWhile [of "\<lambda>c. \<not> P c" s] by simp
  with ne have "length (dropWhile P t) < length t"
    by (cases t) (auto simp: le_imp_less_Suc length_dropWhile_le)
  also have "\<dots> \<le> length s" by (simp add: t length_dropWhile_le)
  finally show "((P, dropWhile P t), (P, s)) \<in> measure (length \<circ> snd)" by simp
qed

declare runs.simps [simp del]

text \<open>\<open>findall\<close> of \<open>[a-zA-Z0-9_]{2,}\<close>\<close>

definition query_tokens :: "string \<Rightarrow> string list" where
  "query_tokens s = filter (\<lambda>t. t \<notin> set STOPWORDS)
     (map lower (filter (\<lambda>t. 2 \<le> length t) (runs is_query_char s)))"

definition lexical_score :: "string list \<Rightarrow> string \<Rightarrow> rat" where
  "lexical_score tokens content =
     (if tokens = [] then 0
      else of_nat (length (filter (\<lambda>t. contains (lower content) t) tokens)) / of_nat (length tokens))"

text \<open>\<open>xs[:k]\<close>\<close>

definition slice_to :: "int \<Rightarrow> 'a list \<Rightarrow> 'a list" where
  "slice_to k xs = take (py_index (length xs) k) xs"

definition keyword_retrieve :: "knowledge_env \<Rightarrow> string \<Rightarrow> int \<Rightarrow> string list \<Rightarrow> scored_result list knowledge" where
  "keyword_retrieve E query k types =
     (let txt = strip query in
      if txt = [] then ret []
      else bnd (knowledge_search E \<lparr>kq_text = txt, kq_limit = max k 20, kq_types = types\<rparr>) (\<lambda>rs.
        ret (slice_to k (sort_desc sr_score
          (filter (\<lambda>x. 0 < sr_score x) (map (\<lambda>r. scored r (lexical_score (query_tokens txt) (kr_content r))) rs))))))"

section \<open>Vectors\<close>

record provider =
  pv_available :: bool
  pv_name :: string
  pv_model :: string
  pv_dims :: int
  pv_embed :: "string list \<Rightarrow> exn + rat list list"

definition cosine :: "(rat \<Rightarrow> rat) \<Rightarrow> rat list \<Rightarrow> rat list \<Rightarrow> rat" where
  "cosine sqr a b =
     (if length a \<noteq> length b \<or> a = [] then 0
      else let na = sqr (sum_list (map (\<lambda>x. x * x) a)); nb = sqr (sum_list (map (\<lambda>x. x * x) b)) in
        if na = 0 \<or> nb = 0 then 0
        else max (-1) (min 1 (sum_list (map2 (*) a b) / (na * nb))))"

text \<open>\<open>vector\<close> answers the numbers of a JSON list of numbers, and nothing for anything else.\<close>

definition parse_vector_blob :: "(string \<Rightarrow> rat list option) \<Rightarrow> string \<Rightarrow> int \<Rightarrow> rat list option" where
  "parse_vector_blob vector blob d = (case vector blob of
     None \<Rightarrow> None | Some v \<Rightarrow> if int (length v) = d then Some v else None)"

text \<open>The map of vectors: those of the dimension of the first embedding that can be parsed.\<close>

definition embedding_map :: "(string \<Rightarrow> rat list option) \<Rightarrow> embedding_row list \<Rightarrow> (string \<times> rat list) list" where
  "embedding_map vector es = (case es of
     [] \<Rightarrow> []
   | e0 # _ \<Rightarrow> fold (\<lambda>e m. if eb_dim e \<noteq> eb_dim e0 then m
       else case parse_vector_blob vector (eb_blob e) (eb_dim e0) of
         None \<Rightarrow> m | Some v \<Rightarrow> dict_set (eb_chunk e) v m) es [])"

definition vector_retrieve ::
  "knowledge_env \<Rightarrow> (string \<Rightarrow> rat list option) \<Rightarrow> (rat \<Rightarrow> rat) \<Rightarrow> provider \<Rightarrow> string \<Rightarrow> int \<Rightarrow> string list \<Rightarrow>
   scored_result list knowledge" where
  "vector_retrieve E vector sqr P query k types =
     (let txt = strip query in
      if txt = [] then ret []
      else bnd (knowledge_search E \<lparr>kq_text = txt, kq_limit = max k 20, kq_types = types\<rparr>) (\<lambda>rs.
        if rs = [] then ret []
        else bnd (get_embeddings_by_chunk_ids E (map kr_chunk rs)) (\<lambda>es.
          let m = embedding_map vector es in
          if m = [] then ret []
          else case pv_embed P [query] of
            Inl _ \<Rightarrow> ret []
          | Inr [] \<Rightarrow> ret []
          | Inr (v # _) \<Rightarrow> ret (slice_to k (sort_desc sr_score (filter (\<lambda>x. 0 < sr_score x)
              (concat (map (\<lambda>r. case map_of m (kr_chunk r) of
                 None \<Rightarrow> [] | Some w \<Rightarrow> [scored r (cosine sqr v w)]) rs))))))))"

section \<open>Budgets\<close>

definition DEFAULT_BUDGETS :: "(string \<times> int) list" where
  "DEFAULT_BUDGETS = [(''planner'', 3000), (''research'', 5000), (''reviewer'', 2000)]"

definition FALLBACK_DEFAULT :: int where
  "FALLBACK_DEFAULT = 3000"

text \<open>A budget is its dictionary.\<close>

definition context_budget :: "(string \<times> int) list \<Rightarrow> (string \<times> int) list" where
  "context_budget overrides = foldl (\<lambda>m (a, n). dict_set a n m) DEFAULT_BUDGETS overrides"

definition for_agent :: "(string \<times> int) list \<Rightarrow> string \<Rightarrow> int" where
  "for_agent budgets agent = dict_get budgets agent FALLBACK_DEFAULT"

section \<open>Selection\<close>

record selection_result =
  sl_chunks :: "scored_result list"
  sl_prompt :: string
  sl_selected :: nat
  sl_retrieved :: nat
  sl_before :: int
  sl_after :: int
  sl_compression :: rat
  sl_latency :: rat

definition empty_selection :: selection_result where
  "empty_selection = \<lparr>sl_chunks = [], sl_prompt = '''', sl_selected = 0, sl_retrieved = 0,
     sl_before = 0, sl_after = 0, sl_compression = 0, sl_latency = 0\<rparr>"

definition SOURCE_BOOST :: "(string \<times> rat) list" where
  "SOURCE_BOOST = [(''project_dna'', 12 / 100), (''code'', 10 / 100), (''adr'', 8 / 100),
     (''documentation'', 5 / 100), (''research'', 6 / 100), (''skill'', 7 / 100), (''memory'', 4 / 100)]"

definition rank :: "scored_result list \<Rightarrow> scored_result list" where
  "rank xs = sort_desc sr_score
     (map (\<lambda>x. x\<lparr>sr_score := min 1 (sr_score x + dict_get SOURCE_BOOST (kr_type (sr_result x)) 0)\<rparr>) xs)"

fun dedupe_by :: "('a \<Rightarrow> 'k) \<Rightarrow> 'k list \<Rightarrow> 'a list \<Rightarrow> 'a list" where
  "dedupe_by key seen [] = []"
| "dedupe_by key seen (x # xs) =
     (if key x \<in> set seen then dedupe_by key seen xs else x # dedupe_by key (key x # seen) xs)"

definition dedupe_sources :: "scored_result list \<Rightarrow> scored_result list" where
  "dedupe_sources xs = dedupe_by (\<lambda>x. kr_source (sr_result x)) [] xs"

definition truncate_to_tokens :: "string \<Rightarrow> int \<Rightarrow> string" where
  "truncate_to_tokens content m =
     (if m \<le> 0 then ''''
      else if int (length (split_ws content)) \<le> m then content
      else join '' '' (take (nat m) (split_ws content)))"

definition truncate_result :: "int \<Rightarrow> scored_result \<Rightarrow> scored_result" where
  "truncate_result limit x = (let t = truncate_to_tokens (kr_content (sr_result x)) limit in
     x\<lparr>sr_result := (sr_result x)\<lparr>kr_content := t, kr_tokens := token_estimate t\<rparr>\<rparr>)"

text \<open>The loop of \<open>_greedy_select\<close>. The justification of a dropped chunk is never seen again.\<close>

fun greedy_loop :: "int \<Rightarrow> int \<Rightarrow> scored_result list \<Rightarrow> scored_result list \<times> int" where
  "greedy_loop limit used [] = ([], used)"
| "greedy_loop limit used (x # xs) =
     (let est = int (kr_tokens (sr_result x)) in
      if used + est \<le> limit then (case greedy_loop limit (used + est) xs of (ys, u) \<Rightarrow> (x # ys, u))
      else if limit < est \<and> used = 0 then ([truncate_result limit x], limit)
      else greedy_loop limit used xs)"

definition source_label :: "knowledge_result \<Rightarrow> string" where
  "source_label r = kr_type r @ ''/'' @ kr_path r"

definition justify :: "scored_result \<Rightarrow> scored_result" where
  "justify x = x\<lparr>sr_note := ''selected: score='' @ fixed 3 (sr_score x) @ ''; source='' @
     source_label (sr_result x) @ ''; tokens='' @ digits (kr_tokens (sr_result x))\<rparr>"

definition greedy_select :: "scored_result list \<Rightarrow> int \<Rightarrow> scored_result list \<times> int" where
  "greedy_select xs limit = (case greedy_loop limit 0 xs of (ys, used) \<Rightarrow> (map justify ys, used))"

definition prompt_lines :: "nat \<times> scored_result \<Rightarrow> string list" where
  "prompt_lines c = (case c of (i, x) \<Rightarrow>
     [''['' @ digits i @ ''] source='' @ source_label (sr_result x) @ '' (score='' @ fixed 2 (sr_score x) @
        '') [pos='' @ digits (kr_position (sr_result x)) @ '']'', kr_content (sr_result x), ''''])"

definition build_prompt_context :: "scored_result list \<Rightarrow> string" where
  "build_prompt_context xs = (if xs = [] then ''''
     else join [newline] (''[Knowledge]'' # concat (map prompt_lines (enumerate 1 xs))))"

definition token_sum :: "scored_result list \<Rightarrow> int" where
  "token_sum xs = int (sum_list (map (\<lambda>x. kr_tokens (sr_result x)) xs))"

text \<open>\<open>select\<close> on the candidates, with the readings of the clock in seconds.\<close>

definition select_candidates :: "scored_result list \<Rightarrow> int \<Rightarrow> rat \<Rightarrow> rat \<Rightarrow> selection_result" where
  "select_candidates candidates limit t0 t1 =
     (let total = token_sum candidates in
      case greedy_select (dedupe_sources (rank candidates)) limit of (chosen, after) \<Rightarrow>
        \<lparr>sl_chunks = chosen, sl_prompt = build_prompt_context chosen, sl_selected = length chosen,
         sl_retrieved = length candidates, sl_before = total, sl_after = after,
         sl_compression = (if 0 < total \<and> 0 < after then 1 - of_int after / of_int total else 0),
         sl_latency = (t1 - t0) * 1000\<rparr>)"

definition selector_select ::
  "(string \<Rightarrow> int \<Rightarrow> scored_result list knowledge) \<Rightarrow> (string \<Rightarrow> int \<Rightarrow> scored_result list knowledge) option \<Rightarrow>
   (string \<times> int) list \<Rightarrow> rat \<times> rat \<Rightarrow> string \<Rightarrow> string \<Rightarrow> int \<Rightarrow> selection_result knowledge" where
  "selector_select retrieve fallback budgets clock query agent k =
     bnd (retrieve query k) (\<lambda>found.
     bnd (case fallback of None \<Rightarrow> ret found | Some f \<Rightarrow> if found = [] then f query k else ret found) (\<lambda>candidates.
     ret (select_candidates candidates (for_agent budgets agent) (fst clock) (snd clock))))"

end
