(* ===== verification/KnowledgeEngine.thy ===== *)
theory KnowledgeEngine
  imports Retrieval
begin

text \<open>
  The knowledge engine (\<open>knowledge/engine.py\<close>): indexing the sources of a project, embedding the
  chunks in batches, retrieving and searching. Discovery and the file system are parameters: the
  candidates in order and the text of each, or nothing when it cannot be read. The store of the
  engine is there or not (\<open>None\<close>).
\<close>

section \<open>Indexing\<close>

record source_candidate =
  cn_type :: string
  cn_path :: string
  cn_version :: string
  cn_metadata :: pydict

record index_summary =
  is_run :: string
  is_scanned :: nat
  is_skipped :: nat
  is_reindexed :: nat
  is_created :: nat
  is_deleted :: nat

definition candidate_document :: "source_candidate \<Rightarrow> string \<Rightarrow> knowledge_document" where
  "candidate_document c content =
     \<lparr>kd_document = '''', kd_title = '''', kd_path = cn_path c, kd_content = content, kd_type = cn_type c,
      kd_version = cn_version c, kd_metadata = cn_metadata c\<rparr>"

definition count_answer :: "index_answer \<Rightarrow> index_summary \<Rightarrow> index_summary" where
  "count_answer a u =
     (if ia_action a = ''skipped'' then u\<lparr>is_skipped := is_skipped u + 1\<rparr> else u\<lparr>is_reindexed := is_reindexed u + 1\<rparr>)
       \<lparr>is_created := is_created u + ia_created a, is_deleted := is_deleted u + ia_deleted a\<rparr>"

text \<open>The body of the loop; only a \<open>KnowledgeError\<close> is caught.\<close>

definition index_candidate ::
  "knowledge_env \<Rightarrow> (string \<Rightarrow> string option) \<Rightarrow> source_candidate \<Rightarrow> index_summary \<Rightarrow> index_summary knowledge" where
  "index_candidate E read c u0 =
     (let u = u0\<lparr>is_scanned := is_scanned u0 + 1\<rparr> in
      case read (cn_path c) of
        None \<Rightarrow> ret u
      | Some content \<Rightarrow> try_except
          (bnd (index_document E (candidate_document c content)) (\<lambda>a.
           seq (if cn_metadata c = [] then ret () else upsert_source_metadata E (ia_source a) (cn_metadata c))
             (ret (count_answer a u))))
          (\<lambda>e. if exn_kind e = KnowledgeError then ret u else raise e))"

fun index_candidates ::
  "knowledge_env \<Rightarrow> (string \<Rightarrow> string option) \<Rightarrow> source_candidate list \<Rightarrow> index_summary \<Rightarrow> index_summary knowledge" where
  "index_candidates E read [] u = ret u"
| "index_candidates E read (c # cs) u = bnd (index_candidate E read c u) (index_candidates E read cs)"

definition NOT_INITIALIZED :: exn where
  "NOT_INITIALIZED = Exn KnowledgeError ''Store not initialized''"

definition knowledge_index ::
  "knowledge_env option \<Rightarrow> (string \<Rightarrow> string option) \<Rightarrow> source_candidate list \<Rightarrow> string \<Rightarrow> index_summary knowledge" where
  "knowledge_index store read candidates run = (case store of
     None \<Rightarrow> raise NOT_INITIALIZED
   | Some E \<Rightarrow>
       seq (start_run E run)
      (bnd (index_candidates E read candidates
          \<lparr>is_run = run, is_scanned = 0, is_skipped = 0, is_reindexed = 0, is_created = 0, is_deleted = 0\<rparr>) (\<lambda>u.
       seq (finish_run E run (is_scanned u) (is_skipped u) (is_reindexed u) (is_created u) (is_deleted u))
         (ret u))))"

section \<open>Embedding\<close>

record embed_answer =
  ea_embedded :: nat
  ea_skipped :: nat
  ea_status :: string

definition answer_only :: "string \<Rightarrow> nat \<Rightarrow> embed_answer" where
  "answer_only st n = \<lparr>ea_embedded = 0, ea_skipped = n, ea_status = st\<rparr>"

fun all_source_chunks :: "knowledge_env \<Rightarrow> source_row list \<Rightarrow> chunk_row list knowledge" where
  "all_source_chunks E [] = ret []"
| "all_source_chunks E (x # xs) =
     bnd (get_source_chunks E (so_source x)) (\<lambda>cs. bnd (all_source_chunks E xs) (\<lambda>ds. ret (cs @ ds)))"

text \<open>The vectors of a batch are stored in order, as many as there are; \<open>dumps\<close> encodes one.\<close>

fun save_batch ::
  "knowledge_env \<Rightarrow> (rat list \<Rightarrow> string) \<Rightarrow> provider \<Rightarrow> string \<Rightarrow> (string \<times> string \<times> string) list \<Rightarrow> rat list list \<Rightarrow>
   nat knowledge" where
  "save_batch E dumps P model ((cid, content, h) # bs) (v # vs) =
     seq (save_embedding E cid (pv_name P) model (pv_dims P) (dumps v)
           (sha256_hex (h @ ''|'' @ pv_name P @ ''|'' @ model)))
       (bnd (save_batch E dumps P model bs vs) (\<lambda>n. ret (n + 1)))"
| "save_batch E dumps P model _ _ = ret 0"

text \<open>A batch that fails ends the loop.\<close>

fun embed_batches ::
  "knowledge_env \<Rightarrow> (rat list \<Rightarrow> string) \<Rightarrow> provider \<Rightarrow> string \<Rightarrow> (string \<times> string \<times> string) list list \<Rightarrow> nat knowledge" where
  "embed_batches E dumps P model [] = ret 0"
| "embed_batches E dumps P model (b # bs) = (case pv_embed P (map (fst \<circ> snd) b) of
     Inl _ \<Rightarrow> ret 0
   | Inr vectors \<Rightarrow> bnd (save_batch E dumps P model b vectors) (\<lambda>n.
       bnd (embed_batches E dumps P model bs) (\<lambda>m. ret (n + m))))"

definition chunks_to_embed :: "string list \<Rightarrow> chunk_row list \<Rightarrow> (string \<times> string \<times> string) list" where
  "chunks_to_embed ids cs =
     (let m = foldl (\<lambda>m c. if cu_chunk c \<in> set ids then dict_set (cu_chunk c) (cu_content c, cu_hash c) m else m) [] cs
      in concat (map (\<lambda>i. case map_of m i of None \<Rightarrow> [] | Some (t, h) \<Rightarrow> [(i, t, h)]) ids))"

definition embed_indexed ::
  "knowledge_env option \<Rightarrow> (rat list \<Rightarrow> string) \<Rightarrow> provider option \<Rightarrow> string \<Rightarrow> embed_answer knowledge" where
  "embed_indexed store dumps provider model = (case (provider, store) of
     (Some P, Some E) \<Rightarrow>
       if \<not> pv_available P then ret (answer_only ''provider_unavailable'' 0)
       else bnd (list_sources E None) (\<lambda>sources.
         bnd (all_source_chunks E sources) (\<lambda>cs.
         if cs = [] then ret (answer_only ''no_chunks'' 0)
         else bnd (find_unembedded_chunk_ids E (map cu_chunk cs)) (\<lambda>ids.
           if ids = [] then ret (answer_only ''up_to_date'' (length cs))
           else bnd (all_source_chunks E sources) (\<lambda>again.
             let todo = chunks_to_embed ids again;
                 name = (if model \<noteq> [] then model else if pv_model P \<noteq> [] then pv_model P else ''<unknown>'') in
             bnd (embed_batches E dumps P name (groups (min 32 (max 1 (length todo))) todo)) (\<lambda>n.
             ret \<lparr>ea_embedded = n, ea_skipped = 0, ea_status = ''ok''\<rparr>)))))
   | _ \<Rightarrow> ret (answer_only ''no_provider'' 0))"

section \<open>Retrieval and search\<close>

definition retrieve_raw :: "knowledge_env option \<Rightarrow> string \<Rightarrow> int \<Rightarrow> string list \<Rightarrow> scored_result list knowledge" where
  "retrieve_raw store query limit types = (case store of
     None \<Rightarrow> ret [] | Some E \<Rightarrow> keyword_retrieve E query limit types)"

record retrieve_args =
  ra_vector :: "string \<Rightarrow> rat list option"
  ra_sqrt :: "rat \<Rightarrow> rat"
  ra_provider :: "provider option"
  ra_clock :: "rat \<times> rat"

definition knowledge_retrieve ::
  "knowledge_env option \<Rightarrow> retrieve_args \<Rightarrow> string \<Rightarrow> string \<Rightarrow> int \<Rightarrow> bool \<Rightarrow> (string \<times> int) list \<Rightarrow>
   selection_result knowledge" where
  "knowledge_retrieve store A query agent limit use_vector overrides = (case store of
     None \<Rightarrow> ret empty_selection
   | Some E \<Rightarrow>
       let kw = (\<lambda>q k. keyword_retrieve E q k []) in
       case (if use_vector then ra_provider A else None) of
         None \<Rightarrow> selector_select kw None (context_budget overrides) (ra_clock A) query agent limit
       | Some P \<Rightarrow>
           if pv_available P
           then selector_select (\<lambda>q k. vector_retrieve E (ra_vector A) (ra_sqrt A) P q k []) (Some kw)
             (context_budget overrides) (ra_clock A) query agent limit
           else selector_select kw None (context_budget overrides) (ra_clock A) query agent limit)"

definition engine_search :: "knowledge_env option \<Rightarrow> string \<Rightarrow> int \<Rightarrow> string list \<Rightarrow> knowledge_result list knowledge" where
  "engine_search store txt limit types = (case store of
     None \<Rightarrow> ret [] | Some E \<Rightarrow> knowledge_search E \<lparr>kq_text = txt, kq_limit = limit, kq_types = types\<rparr>)"

definition engine_list_sources :: "knowledge_env option \<Rightarrow> string option \<Rightarrow> source_row list knowledge" where
  "engine_list_sources store ty = (case store of None \<Rightarrow> ret [] | Some E \<Rightarrow> list_sources E ty)"

definition knowledge_health :: "knowledge_env option \<Rightarrow> bool knowledge" where
  "knowledge_health store = (case store of None \<Rightarrow> ret True | Some _ \<Rightarrow> gets kw_open)"

end
