(* ===== verification/Skills.thy ===== *)
theory Skills
  imports Packet PyText KnowledgeEngine
begin

text \<open>
  The skills of a project (\<open>skills\<close>): the metadata in the front matter of their files, the
  registry, discovery by intent and context, retrieval of their chunks within the budget of an agent, the
  assembler around both and the recorder of usage. The directory of skills is a tree of files.
\<close>

section \<open>Front matter\<close>

datatype fm_value = FStr string | FList "string list"

type_synonym fm_dict = "(string \<times> fm_value) list"

definition quoted_by :: "char \<Rightarrow> string \<Rightarrow> bool" where
  "quoted_by q v \<longleftrightarrow> 2 \<le> length v \<and> hd v = q \<and> last v = q"

text \<open>An empty quotation is not a match of its own: \<open>match.group(1) or match.group(2) or value\<close>.\<close>

definition strip_quotes :: "string \<Rightarrow> string" where
  "strip_quotes v =
     (if (quoted_by QUOTE2 v \<or> quoted_by QUOTE1 v) \<and> 2 < length v then strip (butlast (tl v)) else strip v)"

definition raw_value :: "string \<Rightarrow> string" where
  "raw_value raw = strip_quotes (strip raw)"

text \<open>\<open>key: - item\<close> on one line.\<close>

definition inline_item :: "string \<Rightarrow> string option" where
  "inline_item rest = (case rest of
     c # d # t \<Rightarrow> if c = CHR ''-'' \<and> is_space d \<and> dropWhile is_space (d # t) \<noteq> []
       then Some (dropWhile is_space (d # t)) else None
   | _ \<Rightarrow> None)"

text \<open>One line: the dictionary so far and the key the next items go to.\<close>

definition fm_line :: "string \<Rightarrow> fm_dict \<times> string option \<Rightarrow> fm_dict \<times> string option" where
  "fm_line raw st = (case st of (result, key_stack) \<Rightarrow>
     let line = rstrip raw in
     if line = [] \<or> startswith (lstrip line) ''#'' then st
     else if CHR '':'' \<in> set line then
       let key = strip (takeWhile (\<lambda>c. c \<noteq> CHR '':'') line);
           rest = strip (tl (dropWhile (\<lambda>c. c \<noteq> CHR '':'') line)) in
       if rest = [] \<or> rest = ''|'' then (result, Some key)
       else if startswith key ''- '' then st
       else (case inline_item rest of
         Some item \<Rightarrow> if key = [] then st else (dict_set key (FList [raw_value item]) result, Some key)
       | None \<Rightarrow> (dict_set key (FStr (raw_value rest)) result, Some key))
     else if startswith (strip line) ''- '' then
       (case key_stack of
          None \<Rightarrow> st
        | Some key \<Rightarrow>
            let item = raw_value (strip (drop 2 (strip line))) in
            (case map_of result key of
               Some (FList xs) \<Rightarrow> (dict_set key (FList (xs @ [item])) result, key_stack)
             | _ \<Rightarrow> (dict_set key (FList [item]) result, key_stack)))
     else st)"

definition parse_frontmatter :: "string \<Rightarrow> fm_dict" where
  "parse_frontmatter text =
     (if \<not> startswith text ''---'' then []
      else case find_from ''---'' 3 text of
        None \<Rightarrow> []
      | Some e \<Rightarrow> fst (fold fm_line (splitlines (drop 3 (take e text))) ([], None)))"

section \<open>Metadata\<close>

definition SKILL_SCHEMA_VERSION :: string where
  "SKILL_SCHEMA_VERSION = ''1''"

definition VALID_STATUS :: "string list" where
  "VALID_STATUS = [''active'', ''deprecated'']"

record skill_metadata =
  sk_name :: string
  sk_description :: string
  sk_triggers :: "string list"
  sk_scope :: "string list"
  sk_dependencies :: "string list"
  sk_priority :: int
  sk_version :: string
  sk_owner :: string
  sk_updated :: string
  sk_status :: string
  sk_schema :: string

definition is_slug :: "string \<Rightarrow> bool" where
  "is_slug s \<longleftrightarrow> s \<noteq> [] \<and> is_lower_ascii (hd s) \<and>
     list_all (\<lambda>c. is_lower_ascii c \<or> is_digit c \<or> c = CHR ''-'') s"

text \<open>\<open>$\<close> also matches before a newline at the end.\<close>

definition name_matches :: "string \<Rightarrow> bool" where
  "name_matches s \<longleftrightarrow> is_slug s \<or> (s \<noteq> [] \<and> last s = newline \<and> is_slug (butlast s))"

fun first_blank :: "nat \<Rightarrow> string list \<Rightarrow> nat option" where
  "first_blank i [] = None"
| "first_blank i (x # xs) = (if strip x = [] then Some i else first_blank (i + 1) xs)"

definition skill_error :: "string \<Rightarrow> exn + 'a" where
  "skill_error msg = Inl (Exn SkillMetadataError msg)"

definition skill_of :: "skill_metadata \<Rightarrow> string" where
  "skill_of m = ''Skill '' @ [QUOTE1] @ sk_name m @ [QUOTE1] @ '': ''"

definition blank_item :: "skill_metadata \<Rightarrow> string \<Rightarrow> nat \<Rightarrow> string" where
  "blank_item m what i = skill_of m @ what @ '' at index '' @ digits i @ '' must be a non-empty string''"

definition skill_validate :: "skill_metadata \<Rightarrow> exn + skill_metadata" where
  "skill_validate m =
     (if sk_name m = [] then skill_error ''Skill name is required''
      else if \<not> name_matches (sk_name m)
      then skill_error (''Skill name must be a lowercase slug (a-z, 0-9, hyphens): '' @ py_repr (sk_name m))
      else if sk_description m = [] then skill_error (skill_of m @ ''description is required'')
      else if sk_status m \<notin> set VALID_STATUS
      then skill_error (skill_of m @ ''status must be one of '' @ str_of_list VALID_STATUS @ '', got '' @
        py_repr (sk_status m))
      else if sk_priority m < 0
      then skill_error (skill_of m @ ''priority must be a non-negative integer, got '' @ str_of_int (sk_priority m))
      else case first_blank 0 (sk_triggers m) of
        Some i \<Rightarrow> skill_error (blank_item m ''trigger'' i)
      | None \<Rightarrow> (case first_blank 0 (sk_scope m) of
          Some i \<Rightarrow> skill_error (blank_item m ''scope'' i)
        | None \<Rightarrow> (case first_blank 0 (sk_dependencies m) of
            Some i \<Rightarrow> skill_error (blank_item m ''dependency'' i)
          | None \<Rightarrow>
              if sk_schema m \<noteq> SKILL_SCHEMA_VERSION
              then skill_error (skill_of m @ ''unsupported schema version '' @ py_repr (sk_schema m) @
                '', expected '' @ py_repr SKILL_SCHEMA_VERSION)
              else Inr m)))"

fun fm_str :: "fm_value \<Rightarrow> string" where
  "fm_str (FStr s) = s"
| "fm_str (FList xs) = str_of_list xs"

fun as_str_list :: "fm_value \<Rightarrow> string list" where
  "as_str_list (FList xs) = xs"
| "as_str_list _ = []"

fun coerce_int :: "fm_value \<Rightarrow> int" where
  "coerce_int (FStr s) = (case int_literal s of Some i \<Rightarrow> i | None \<Rightarrow> 0)"
| "coerce_int (FList _) = 0"

definition from_frontmatter :: "string \<Rightarrow> exn + skill_metadata" where
  "from_frontmatter text =
     (let data = parse_frontmatter text; get = (\<lambda>k d. dict_get data k d) in
      if get ''name'' (FStr '''') \<in> {FStr '''', FList []}
      then skill_error (''Skill metadata missing required field '' @ [QUOTE1] @ ''name'' @ [QUOTE1])
      else skill_validate
        \<lparr>sk_name = fm_str (get ''name'' (FStr '''')), sk_description = fm_str (get ''description'' (FStr '''')),
         sk_triggers = as_str_list (get ''triggers'' (FList [])), sk_scope = as_str_list (get ''scope'' (FList [])),
         sk_dependencies = as_str_list (get ''dependencies'' (FList [])),
         sk_priority = coerce_int (get ''priority'' (FStr ''0'')), sk_version = fm_str (get ''version'' (FStr ''1'')),
         sk_owner = fm_str (get ''owner'' (FStr '''')), sk_updated = fm_str (get ''updated_at'' (FStr '''')),
         sk_status = fm_str (get ''status'' (FStr ''active'')),
         sk_schema = fm_str (get ''schema_version'' (FStr SKILL_SCHEMA_VERSION))\<rparr>)"

definition skill_to_dict :: "skill_metadata \<Rightarrow> pydict" where
  "skill_to_dict m =
     [(''name'', PStr (sk_name m)), (''description'', PStr (sk_description m)), (''triggers'', strs (sk_triggers m)),
      (''scope'', strs (sk_scope m)), (''dependencies'', strs (sk_dependencies m)), (''priority'', PInt (sk_priority m)),
      (''version'', PStr (sk_version m)), (''owner'', PStr (sk_owner m)), (''updated_at'', PStr (sk_updated m)),
      (''status'', PStr (sk_status m)), (''schema_version'', PStr (sk_schema m))]"

section \<open>The registry\<close>

type_synonym skill_dict = "(string \<times> skill_metadata) list"

text \<open>The directory of skills when it is there; \<open>readable\<close> tells the files that can be read.\<close>

record skill_dir =
  sd_entries :: "tree option"
  sd_readable :: "string \<Rightarrow> bool"

definition load_entry :: "bool \<Rightarrow> (string \<Rightarrow> bool) \<Rightarrow> string \<times> node \<Rightarrow> skill_dict \<Rightarrow> skill_dict" where
  "load_entry deprecated readable x skills = (case x of
     (name, Dir t) \<Rightarrow> (case map_of t ''SKILL.md'' of
        Some (File text) \<Rightarrow>
          if \<not> readable name then skills
          else (case from_frontmatter text of
            Inl _ \<Rightarrow> skills
          | Inr m \<Rightarrow> if \<not> deprecated \<and> sk_status m = ''deprecated'' then skills else dict_set (sk_name m) m skills)
      | _ \<Rightarrow> skills)
   | _ \<Rightarrow> skills)"

definition registry_load :: "bool \<Rightarrow> skill_dir \<Rightarrow> skill_dict" where
  "registry_load deprecated D = (case sd_entries D of
     None \<Rightarrow> []
   | Some entries \<Rightarrow> fold (load_entry deprecated (sd_readable D)) (sort_key fst entries) [])"

text \<open>What the registry holds is loaded when it holds nothing.\<close>

definition registry_dict :: "skill_dir \<Rightarrow> skill_dict \<Rightarrow> skill_dict" where
  "registry_dict D held = (if held = [] then registry_load False D else held)"

definition registry_skills :: "skill_dir \<Rightarrow> skill_dict \<Rightarrow> skill_metadata list" where
  "registry_skills D held = map snd (registry_dict D held)"

definition registry_get :: "skill_dir \<Rightarrow> skill_dict \<Rightarrow> string \<Rightarrow> skill_metadata option" where
  "registry_get D held name = map_of (registry_dict D held) name"

section \<open>Discovery\<close>

record scored_skill =
  ss_skill :: skill_metadata
  ss_score :: rat
  ss_triggers :: "string list"
  ss_scope :: "string list"
  ss_priority :: rat

definition match_parts :: "string list \<Rightarrow> string \<Rightarrow> string list" where
  "match_parts declared s = filter (\<lambda>t. contains s (lower t)) declared"

definition match_triggers :: "string list \<Rightarrow> string \<Rightarrow> string list" where
  "match_triggers triggers intent = match_parts triggers intent"

definition match_scope :: "string list \<Rightarrow> string \<Rightarrow> string list" where
  "match_scope scope ctx = (if ctx = [] then [] else match_parts scope ctx)"

definition ratio :: "string list \<Rightarrow> string list \<Rightarrow> rat" where
  "ratio matched declared = (if declared = [] then 0 else of_nat (length matched) / of_nat (length declared))"

definition build_context_text :: "context_packet option \<Rightarrow> string" where
  "build_context_text ctx = (case ctx of None \<Rightarrow> '''' | Some p \<Rightarrow>
     lower (join '' ''
       ((if pj_language (cp_project p) \<notin> {'''', ''unknown''} then [pj_language (cp_project p)] else []) @
        (if pj_name (cp_project p) \<noteq> [] then [pj_name (cp_project p)] else []) @
        filter (\<lambda>v. v \<noteq> []) [tl_linter (cp_tools p), tl_formatter (cp_tools p), tl_runner (cp_tools p),
          tl_manager (cp_tools p)])))"

definition skill_total :: "string \<Rightarrow> string \<Rightarrow> skill_metadata \<Rightarrow> rat" where
  "skill_total intent ctx m =
     1 / 2 * ratio (match_triggers (sk_triggers m) intent) (sk_triggers m)
     + 3 / 10 * ratio (match_scope (sk_scope m) ctx) (sk_scope m)
     + 1 / 5 * (of_int (min (sk_priority m) 10) / 10)"

definition score_skill :: "string \<Rightarrow> string \<Rightarrow> skill_metadata \<Rightarrow> scored_skill" where
  "score_skill intent ctx m =
     \<lparr>ss_skill = m, ss_score = round_to 4 (skill_total intent ctx m),
      ss_triggers = match_triggers (sk_triggers m) intent, ss_scope = match_scope (sk_scope m) ctx,
      ss_priority = round_to 4 (of_int (min (sk_priority m) 10) / 10)\<rparr>"

definition discover :: "rat \<Rightarrow> int \<Rightarrow> skill_metadata list \<Rightarrow> string \<Rightarrow> context_packet option \<Rightarrow> scored_skill list" where
  "discover min_score top_k skills intent ctx =
     (let i = strip (lower intent); c = build_context_text ctx in
      if skills = [] \<or> i = [] then []
      else slice_to top_k (sort_key (\<lambda>s. - ss_score s) (sort_key (\<lambda>s. sk_name (ss_skill s))
        (map (score_skill i c) (filter (\<lambda>m. \<not> skill_total i c m < min_score) skills)))))"

section \<open>Retrieval\<close>

definition SKILL_SOURCE_TYPES :: "string list" where
  "SKILL_SOURCE_TYPES = [''skill'', ''project_dna'']"

record skill_context =
  sx_skill :: scored_skill
  sx_chunks :: "scored_result list"
  sx_prompt :: string
  sx_tokens :: nat
  sx_relevance :: rat

definition extract_skill_name :: "string \<Rightarrow> string option" where
  "extract_skill_name path = (case dropWhile (\<lambda>p. p \<noteq> ''skills'') (path_parts path) of
     _ # name # _ \<Rightarrow> Some name | _ \<Rightarrow> None)"

definition format_skill_header :: "scored_skill \<Rightarrow> string" where
  "format_skill_header s = join [newline]
     ((''- **'' @ sk_name (ss_skill s) @ ''** (score='' @ fixed 2 (ss_score s) @ '')'' @
        (if ss_triggers s = [] then '''' else '' [triggers: '' @ join '', '' (ss_triggers s) @ '']'') @
        (if ss_scope s = [] then '''' else '' [scope: '' @ join '', '' (ss_scope s) @ '']'')) #
      (if sk_description (ss_skill s) = [] then [] else [''  '' @ sk_description (ss_skill s)]))"

definition format_skill_section :: "scored_skill \<Rightarrow> scored_result list \<Rightarrow> string" where
  "format_skill_section s chunks = join [newline]
     (''## Relevant Skills'' # format_skill_header s #
      concat (map (\<lambda>c. ['''', kr_content (sr_result c)]) chunks))"

text \<open>The scored skills by name: a later one replaces an earlier one in place.\<close>

definition scored_by_name :: "scored_skill list \<Rightarrow> (string \<times> scored_skill) list" where
  "scored_by_name found = foldl (\<lambda>m s. dict_set (sk_name (ss_skill s)) s m) [] found"

definition chunks_by_skill ::
  "(string \<times> scored_skill) list \<Rightarrow> scored_result list \<Rightarrow> (string \<times> scored_result list) list" where
  "chunks_by_skill named raw = foldl (\<lambda>m r. case extract_skill_name (kr_path (sr_result r)) of
     None \<Rightarrow> m
   | Some name \<Rightarrow> if name = [] \<or> map_of named name = None then m
       else dict_set name (dict_get m name [] @ [r]) m) [] raw"

text \<open>The chunks of one skill: those that fit, up to the first that does not.\<close>

fun take_chunks :: "int \<Rightarrow> int \<Rightarrow> scored_result list \<Rightarrow> scored_result list" where
  "take_chunks limit spent [] = []"
| "take_chunks limit spent (c # cs) =
     (let est = int (kr_tokens (sr_result c)) in
      if limit < spent + est then [] else c # take_chunks limit (spent + est) cs)"

fun skill_loop ::
  "int \<Rightarrow> int \<Rightarrow> (string \<times> scored_skill) list \<Rightarrow> (string \<times> scored_result list) list \<Rightarrow> int \<Rightarrow>
   (string \<times> rat) list \<Rightarrow> skill_context list" where
  "skill_loop limit k named chunks spent [] = []"
| "skill_loop limit k named chunks spent ((name, relevance) # rest) =
     (if limit \<le> spent then []
      else let chosen = take_chunks limit spent (slice_to k (sort_desc sr_score (dict_get chunks name [])));
               used = sum_list (map (\<lambda>c. kr_tokens (sr_result c)) chosen) in
        (if chosen = [] then []
         else [\<lparr>sx_skill = the (map_of named name), sx_chunks = chosen,
                sx_prompt = format_skill_section (the (map_of named name)) chosen,
                sx_tokens = used, sx_relevance = relevance\<rparr>]) @
        skill_loop limit k named chunks (spent + int used) rest)"

definition skill_contexts :: "int \<Rightarrow> int \<Rightarrow> scored_skill list \<Rightarrow> scored_result list \<Rightarrow> skill_context list" where
  "skill_contexts limit k found raw =
     (let named = scored_by_name found; chunks = chunks_by_skill named raw;
          order = sort_desc snd (map (\<lambda>(name, _). (name, ss_score (the (map_of named name)))) chunks) in
      skill_loop limit k named chunks 0 order)"

definition skill_retrieve ::
  "knowledge_env option \<Rightarrow> (string \<times> int) list \<Rightarrow> scored_skill list \<Rightarrow> string \<Rightarrow> string \<Rightarrow> int \<Rightarrow>
   skill_context list knowledge" where
  "skill_retrieve store budgets found intent agent k =
     (if found = [] then ret []
      else bnd (retrieve_raw store intent 50 SKILL_SOURCE_TYPES) (\<lambda>raw.
        ret (skill_contexts (for_agent budgets agent) k found raw)))"

section \<open>Usage and assembly\<close>

definition skill_usage :: "string \<Rightarrow> string \<Rightarrow> string \<Rightarrow> string \<Rightarrow> skill_context list \<Rightarrow> scored_skill \<Rightarrow> pydict" where
  "skill_usage execution correlation intent agent contexts s =
     (let name = sk_name (ss_skill s);
          tokens = foldl (\<lambda>m c. dict_set (sk_name (ss_skill (sx_skill c))) (sx_tokens c) m) [] contexts in
      [(''execution_id'', PStr execution), (''correlation_id'', PStr correlation), (''skill_name'', PStr name),
       (''skill_version'', PStr (sk_version (ss_skill s))), (''intent'', PStr intent), (''agent'', PStr agent),
       (''considered'', PInt 1), (''selected'', PInt 1),
       (''used'', PInt (if name \<in> (\<lambda>c. sk_name (ss_skill (sx_skill c))) ` set contexts then 1 else 0)),
       (''relevance_score'', PFloat (ss_score s)),
       (''tokens_contributed'', PInt (int (dict_get tokens name 0))), (''downstream_success'', PNone)])"

definition record_pipeline ::
  "string \<Rightarrow> string \<Rightarrow> string \<Rightarrow> string \<Rightarrow> skill_context list \<Rightarrow> scored_skill list \<Rightarrow> pydict list" where
  "record_pipeline execution correlation intent agent contexts considered =
     map (skill_usage execution correlation intent agent contexts) considered"

text \<open>The assembler: what discovery answers or raises and the retrieval service are arguments; the
  recorder answers or raises and is not guarded.\<close>

definition skill_assemble ::
  "(exn + scored_skill list) option \<Rightarrow> (scored_skill list \<Rightarrow> skill_context list knowledge) option \<Rightarrow>
   (skill_context list \<Rightarrow> scored_skill list \<Rightarrow> exn + unit) option \<Rightarrow> skill_context list knowledge" where
  "skill_assemble discovery retrieval recorder = (case (discovery, retrieval) of
     (Some d, Some r) \<Rightarrow> (case d of
        Inl _ \<Rightarrow> ret []
      | Inr considered \<Rightarrow>
          if considered = [] then ret []
          else bnd (try_except (bnd (r considered) (\<lambda>cs. ret (Some cs))) (\<lambda>_. ret None)) (\<lambda>found. case found of
            None \<Rightarrow> ret []
          | Some contexts \<Rightarrow> (case recorder of
              None \<Rightarrow> ret contexts
            | Some rec \<Rightarrow> seq (of_sum (rec contexts considered)) (ret contexts))))
   | _ \<Rightarrow> ret [])"

end
