(* ===== verification/Context.thy ===== *)
theory Context
  imports Skills Agents
begin

text \<open>
  The layers of context (\<open>context/layers.py\<close>), their assembly within a token budget
  (\<open>context/assembly.py\<close>) and the assembler that collects them (\<open>context/assembler.py\<close>).
\<close>

section \<open>Layers\<close>

datatype layer_type = GLOBAL | USER | PROJECT | TASK | RESEARCH | RETRIEVED

fun layer_value :: "layer_type \<Rightarrow> string" where
  "layer_value GLOBAL = ''global''"
| "layer_value USER = ''user''"
| "layer_value PROJECT = ''project''"
| "layer_value TASK = ''task''"
| "layer_value RESEARCH = ''research''"
| "layer_value RETRIEVED = ''retrieved''"

fun LAYER_PRECEDENCE :: "layer_type \<Rightarrow> nat" where
  "LAYER_PRECEDENCE RETRIEVED = 0"
| "LAYER_PRECEDENCE RESEARCH = 1"
| "LAYER_PRECEDENCE GLOBAL = 2"
| "LAYER_PRECEDENCE PROJECT = 3"
| "LAYER_PRECEDENCE USER = 4"
| "LAYER_PRECEDENCE TASK = 5"

definition GUARDRAIL_LAYERS :: "layer_type list" where
  "GUARDRAIL_LAYERS = [TASK]"

record layer =
  la_type :: layer_type
  la_content :: string
  la_source :: string
  la_guardrail :: bool
  la_tokens :: nat
  la_trace :: "pydict option"
  la_priority :: int

definition is_guardrail :: "layer \<Rightarrow> bool" where
  "is_guardrail l \<longleftrightarrow> la_guardrail l \<or> la_type l \<in> set GUARDRAIL_LAYERS"

definition layer_to_dict :: "layer \<Rightarrow> pydict" where
  "layer_to_dict l =
     [(''type'', PStr (layer_value (la_type l))), (''source'', PStr (la_source l)),
      (''guardrail'', PBool (is_guardrail l)), (''tokens'', PInt (int (la_tokens l))),
      (''trace'', (case la_trace l of None \<Rightarrow> PNone | Some d \<Rightarrow> PDict d)), (''priority'', PInt (la_priority l)),
      (''content'', PStr (la_content l))]"

definition layer_tokens :: "layer list \<Rightarrow> nat" where
  "layer_tokens ls = sum_list (map la_tokens ls)"

definition layers_to_dict :: "layer list \<Rightarrow> pydict" where
  "layers_to_dict ls = [(''total_tokens'', PInt (int (layer_tokens ls))),
     (''layers'', PList (map (PDict \<circ> layer_to_dict) ls))]"

definition layers_of_type :: "layer_type \<Rightarrow> layer list \<Rightarrow> layer list" where
  "layers_of_type t ls = filter (\<lambda>l. la_type l = t) ls"

section \<open>Assembly\<close>

fun DEFAULT_LAYER_CAPS :: "layer_type \<Rightarrow> nat" where
  "DEFAULT_LAYER_CAPS RETRIEVED = 0"
| "DEFAULT_LAYER_CAPS RESEARCH = 1500"
| "DEFAULT_LAYER_CAPS GLOBAL = 4000"
| "DEFAULT_LAYER_CAPS PROJECT = 4000"
| "DEFAULT_LAYER_CAPS USER = 4000"
| "DEFAULT_LAYER_CAPS TASK = 0"

definition order_layers :: "layer list \<Rightarrow> layer list" where
  "order_layers ls = sort_desc (\<lambda>l. LAYER_PRECEDENCE (la_type l)) ls"

definition content_digest :: "string \<Rightarrow> string" where
  "content_digest content = sha256_hex (lower (join '' '' (split_ws content)))"

record audit_entry =
  ae_action :: string
  ae_type :: layer_type
  ae_source :: string
  ae_before :: nat
  ae_after :: nat
  ae_reason :: string

definition audit_entry :: "string \<Rightarrow> layer \<Rightarrow> nat \<Rightarrow> nat \<Rightarrow> string \<Rightarrow> audit_entry" where
  "audit_entry action l x y reason = \<lparr>ae_action = action, ae_type = la_type l, ae_source = la_source l,
     ae_before = x, ae_after = y, ae_reason = reason\<rparr>"

text \<open>Layers kept and the audit of the dropped ones, from the digests seen.\<close>

fun dedupe_loop :: "(string \<Rightarrow> string) \<Rightarrow> string list \<Rightarrow> layer list \<Rightarrow> layer list \<times> audit_entry list" where
  "dedupe_loop dig seen [] = ([], [])"
| "dedupe_loop dig seen (l # ls) =
     (if dig (la_content l) \<in> set seen
      then (case dedupe_loop dig seen ls of (kept, audit) \<Rightarrow>
        (kept, audit_entry ''dropped_duplicate'' l (la_tokens l) 0
           ''duplicate content; higher precedence wins'' # audit))
      else (case dedupe_loop dig (dig (la_content l) # seen) ls of (kept, audit) \<Rightarrow> (l # kept, audit)))"

definition dedupe_layers :: "layer list \<Rightarrow> layer list \<times> nat \<times> audit_entry list" where
  "dedupe_layers ordered = (case dedupe_loop content_digest [] ordered of (kept, audit) \<Rightarrow>
     (kept, length ordered - length kept, audit))"

definition cut_layer :: "layer \<Rightarrow> nat \<Rightarrow> layer" where
  "cut_layer l n = (let c = truncate_to_tokens (la_content l) (int n) in
     l\<lparr>la_content := c, la_tokens := length (split_ws c)\<rparr>)"

definition cap_layer :: "(layer_type \<Rightarrow> nat) \<Rightarrow> layer \<Rightarrow> layer \<times> audit_entry list" where
  "cap_layer caps l = (let cap = caps (la_type l) in
     if cap \<noteq> 0 \<and> \<not> is_guardrail l \<and> cap < la_tokens l
     then (cut_layer l cap, [audit_entry ''truncated'' l (la_tokens l) (la_tokens (cut_layer l cap))
       (''layer cap '' @ digits cap @ '' tokens'')])
     else (l, []))"

fun fit_layers :: "nat \<Rightarrow> layer list \<Rightarrow> layer list \<times> bool \<times> audit_entry list" where
  "fit_layers left [] = ([], False, [])"
| "fit_layers left (l # ls) =
     (if is_guardrail l then (case fit_layers left ls of (kept, short, audit) \<Rightarrow> (l # kept, short, audit))
      else if la_tokens l \<le> left
      then (case fit_layers (left - la_tokens l) ls of (kept, short, audit) \<Rightarrow> (l # kept, short, audit))
      else if 0 < left
      then (case fit_layers 0 ls of (kept, short, audit) \<Rightarrow>
        (cut_layer l left # kept, True, audit_entry ''truncated'' l (la_tokens l) (la_tokens (cut_layer l left))
          (''over budget; truncated to '' @ digits left @ '' tokens'') # audit))
      else (case fit_layers left ls of (kept, short, audit) \<Rightarrow>
        (kept, True, audit_entry ''dropped'' l (la_tokens l) 0 ''over budget; dropped'' # audit)))"

definition guardrail_tokens :: "layer list \<Rightarrow> nat" where
  "guardrail_tokens ls = layer_tokens (filter is_guardrail ls)"

definition truncate_layers ::
  "(layer_type \<Rightarrow> nat) \<Rightarrow> int \<Rightarrow> layer list \<Rightarrow> layer list \<times> bool \<times> audit_entry list" where
  "truncate_layers caps budget ls =
     (let capped = map (cap_layer caps) (order_layers ls); ordered = map fst capped; audit = concat (map snd capped) in
      case fit_layers (nat (budget - int (guardrail_tokens ordered))) ordered of (kept, short, later) \<Rightarrow>
        (kept, short \<or> audit \<noteq> [], audit @ later))"

record assembly_result =
  as_layers :: "layer list"
  as_tokens :: nat
  as_budget :: int
  as_truncated :: bool
  as_dropped :: nat
  as_audit :: "audit_entry list"

definition assemble_layers :: "(layer_type \<Rightarrow> nat) \<Rightarrow> int \<Rightarrow> layer list \<Rightarrow> assembly_result" where
  "assemble_layers caps budget ls =
     (case dedupe_layers (order_layers ls) of (kept, dropped, audit) \<Rightarrow>
        let added = map (\<lambda>l. audit_entry ''added'' l (la_tokens l) (la_tokens l) ''retained'') kept in
        (case truncate_layers caps budget kept of (final, short, later) \<Rightarrow>
          \<lparr>as_layers = final, as_tokens = layer_tokens final, as_budget = budget, as_truncated = short,
           as_dropped = dropped, as_audit = audit @ added @ later\<rparr>))"

section \<open>The assembler\<close>

definition plain_layer :: "layer_type \<Rightarrow> string \<Rightarrow> string \<Rightarrow> bool \<Rightarrow> nat \<Rightarrow> pydict option \<Rightarrow> layer" where
  "plain_layer t content src guard tokens trace =
     \<lparr>la_type = t, la_content = content, la_source = src, la_guardrail = guard, la_tokens = tokens,
      la_trace = trace, la_priority = 0\<rparr>"

definition or_else :: "string \<Rightarrow> string \<Rightarrow> string" where
  "or_else s d = (if s = [] then d else s)"

definition project_layers :: "context_packet option \<Rightarrow> layer list" where
  "project_layers ctx = (case ctx of None \<Rightarrow> [] | Some p \<Rightarrow>
     let content = join [newline]
       ([''Language: '' @ pj_language (cp_project p), ''Root: '' @ pj_root (cp_project p),
         ''Name: '' @ pj_name (cp_project p), ''Linter: '' @ or_else (tl_linter (cp_tools p)) ''none'',
         ''Formatter: '' @ or_else (tl_formatter (cp_tools p)) ''none'',
         ''Test runner: '' @ or_else (tl_runner (cp_tools p)) ''none'',
         ''Git branch: '' @ or_else (gi_branch (cp_git p)) ''unknown'', ''Git status: '' @ gi_status (cp_git p)] @
        (if cp_skills p = [] then [] else [''Skills: '' @ join '', '' (cp_skills p)]))
     in [plain_layer PROJECT content ''packet'' False (length (split_ws content)) None])"

definition task_layers :: "string \<Rightarrow> layer list" where
  "task_layers description = (let content = strip description in
     if content = [] then [] else [plain_layer TASK content ''task'' True (length (split_ws content)) None])"

text \<open>A summary that is not a string raises, so it gives no layer.\<close>

definition research_layers :: "context_packet option \<Rightarrow> layer list" where
  "research_layers ctx = (case ctx of None \<Rightarrow> [] | Some p \<Rightarrow>
     (case cp_research p of
        None \<Rightarrow> []
      | Some d \<Rightarrow> (case dict_get d ''summary_short'' (PStr '''') of
          PStr s \<Rightarrow> if s = [] then [] else [plain_layer RESEARCH s ''packet.research'' False (length (split_ws s)) None]
        | _ \<Rightarrow> [])))"

definition retrieved_layer :: "scored_result \<Rightarrow> layer" where
  "retrieved_layer x = (let r = sr_result x in
     plain_layer RETRIEVED (kr_content r) ''selector'' False (kr_tokens r)
       (Some [(''source_id'', PStr (kr_source r)), (''source_path'', PStr (kr_path r)),
          (''score'', PFloat (round_to 3 (sr_score x))), (''position'', PInt (int (kr_position r)))]))"

definition retrieved_layers :: "selection_result \<Rightarrow> layer list" where
  "retrieved_layers sel = map retrieved_layer
     (filter (\<lambda>x. kr_type (sr_result x) \<notin> set SKILL_SOURCE_TYPES) (sl_chunks sel))"

text \<open>The selection is what the knowledge engine's retrieval answers or raises, when there is an engine;
  a collector that raises gives no layers.\<close>

definition context_assemble ::
  "(string \<times> int) list \<Rightarrow> (string \<Rightarrow> string \<Rightarrow> exn + selection_result) option \<Rightarrow> string \<Rightarrow> context_packet option \<Rightarrow>
   string \<Rightarrow> assembly_result" where
  "context_assemble budgets knowledge description ctx agent =
     assemble_layers DEFAULT_LAYER_CAPS (for_agent budgets agent)
       (project_layers ctx @ task_layers description @ research_layers ctx @
        (case knowledge of None \<Rightarrow> [] | Some retrieve \<Rightarrow>
           (case retrieve description agent of Inl _ \<Rightarrow> [] | Inr sel \<Rightarrow> retrieved_layers sel)))"

end
