(* ===== verification/Prompts.thy ===== *)
theory Prompts
  imports Context
begin

text \<open>
  The prompt of an agent (\<open>prompts/builder.py\<close>, \<open>prompts/layered.py\<close>): sections of the task, the
  packet, the memory, the layers and the skills. \<open>show\<close> displays floats.
\<close>

section \<open>Layered sections\<close>

text \<open>A layered context is a plain container or the result of an assembly.\<close>

datatype layered = Container "layer list" | Assembled assembly_result

fun layered_layers :: "layered \<Rightarrow> layer list" where
  "layered_layers (Container ls) = ls"
| "layered_layers (Assembled r) = as_layers r"

fun layered_total :: "layered \<Rightarrow> nat" where
  "layered_total (Container ls) = layer_tokens ls"
| "layered_total (Assembled r) = as_tokens r"

text \<open>The first layer of a type.\<close>

definition by_type :: "layered \<Rightarrow> layer_type \<Rightarrow> layer option" where
  "by_type L t = find (\<lambda>l. la_type l = t) (layered_layers L)"

definition titled :: "string \<Rightarrow> string \<Rightarrow> string" where
  "titled heading body = ''## '' @ heading @ [newline] @ body"

definition layer_section :: "string \<Rightarrow> layer_type \<Rightarrow> layered \<Rightarrow> string" where
  "layer_section heading t L = (case by_type L t of None \<Rightarrow> '''' | Some l \<Rightarrow> titled heading (la_content l))"

definition layered_task :: "layered \<Rightarrow> string" where
  "layered_task = layer_section ''Task'' TASK"

definition layered_project :: "layered \<Rightarrow> string" where
  "layered_project = layer_section ''Project Context'' PROJECT"

definition layered_research :: "layered \<Rightarrow> string" where
  "layered_research = layer_section ''Research'' RESEARCH"

definition knowledge_lines :: "(pyval \<Rightarrow> string) \<Rightarrow> nat \<times> layer \<Rightarrow> string list" where
  "knowledge_lines show x = (case x of (i, l) \<Rightarrow>
     let trace = (case la_trace l of None \<Rightarrow> [] | Some d \<Rightarrow> d); get = (\<lambda>k. dict_get trace k (PStr ''''));
         src = (if truthy (get ''source_path'') then ''retrieved/'' @ py_str show (get ''source_path'') else ''retrieved'');
         meta = (if truthy (get ''score'') then ''(score='' @ py_str show (get ''score'') @ '') [pos='' @
           py_str show (get ''position'') @ '']'' else '''')
     in [''['' @ digits i @ ''] source='' @ src @ '' '' @ meta, la_content l, ''''])"

definition knowledge_section :: "(pyval \<Rightarrow> string) \<Rightarrow> layered \<Rightarrow> string" where
  "knowledge_section show L =
     (let ls = filter (\<lambda>l. la_type l = RETRIEVED \<and> la_content l \<noteq> []) (layered_layers L) in
      if ls = [] then ''''
      else join [newline] (''[Knowledge]'' # concat (map (knowledge_lines show) (enumerate 1 ls))))"

definition str_of_bool :: "bool \<Rightarrow> string" where
  "str_of_bool b = (if b then ''True'' else ''False'')"

definition audit_line :: "layer \<Rightarrow> string" where
  "audit_line l = ''- '' @ layer_value (la_type l) @ '' (source='' @ la_source l @ '') tokens='' @ digits (la_tokens l) @
     (if is_guardrail l then '' [guardrail]'' else '''')"

definition audit_section :: "layered \<Rightarrow> string" where
  "audit_section L = join [newline]
     (''[Audit]'' # map audit_line (layered_layers L) @ [''- total: '' @ digits (layered_total L) @ '' tokens''] @
      (case L of Container _ \<Rightarrow> [] | Assembled r \<Rightarrow>
        [''- budget: '' @ str_of_int (as_budget r) @ '' tokens'', ''- truncated: '' @ str_of_bool (as_truncated r),
         ''- dropped_duplicates: '' @ digits (as_dropped r)]))"

section \<open>Sections of the packet\<close>

definition context_section :: "context_packet \<Rightarrow> string" where
  "context_section p = join [newline]
     [''## Project Context'', ''- Language: '' @ pj_language (cp_project p),
      ''- Linter: '' @ or_else (tl_linter (cp_tools p)) ''none'',
      ''- Formatter: '' @ or_else (tl_formatter (cp_tools p)) ''none'',
      ''- Test runner: '' @ or_else (tl_runner (cp_tools p)) ''none'']"

definition git_section :: "context_packet \<Rightarrow> string" where
  "git_section p = join [newline]
     (if gi_branch (cp_git p) = [] then [''## Git Status'', ''- Status: unknown'']
      else [''## Git Status'', ''- Branch: '' @ gi_branch (cp_git p), ''- Status: '' @ gi_status (cp_git p)])"

definition research_section :: "(pyval \<Rightarrow> string) \<Rightarrow> context_packet \<Rightarrow> string" where
  "research_section show p = (case cp_research p of None \<Rightarrow> '''' | Some d \<Rightarrow>
     (let summary = dict_get d ''summary_short'' (PStr '''') in
      if d = [] \<or> \<not> truthy summary then '''' else titled ''Research'' (py_str show summary)))"

definition bullets :: "string \<Rightarrow> string list \<Rightarrow> string list" where
  "bullets heading xs = (if xs = [] then [] else heading # map (\<lambda>x. ''- '' @ x) xs)"

definition memory_section :: "context_packet \<Rightarrow> string" where
  "memory_section p = (case cp_memory p of None \<Rightarrow> '''' | Some k \<Rightarrow>
     if is_empty_knowledge k then ''''
     else join [newline] (''## Memory'' #
       bullets ''Conventions:'' (map (cv_rule \<circ> snd) (pk_conventions k)) @
       bullets ''Decisions:'' (map (de_title \<circ> snd) (pk_decisions k)) @
       bullets ''Patterns:'' (map (pa_name \<circ> snd) (pk_patterns k)) @
       bullets ''Mistakes to avoid:'' (map (mi_description \<circ> snd) (pk_mistakes k))))"

definition skills_section :: "context_packet \<Rightarrow> string" where
  "skills_section p = join [newline] (bullets ''## Skills Loaded'' (cp_skills p))"

definition smart_skills_section :: "skill_context list \<Rightarrow> string" where
  "smart_skills_section cs =
     (let tokens = digits (sum_list (map sx_tokens cs)) in join [newline]
     (''## Relevant Skills'' # map (format_skill_header \<circ> sx_skill) cs @ [''''] @
      concat (map (\<lambda>c. map (\<lambda>x. kr_content (sr_result x)) (sx_chunks c)) cs) @ ['''', ''[Audit]'',
      ''- selected: '' @ join '', '' (map (\<lambda>c. sk_name (ss_skill (sx_skill c)) @ '' ('' @ fixed 2 (sx_relevance c) @ '')'') cs),
      ''- tokens used: '' @ tokens, ''- budget: '' @ tokens @ '' tokens'']))"

section \<open>The prompt\<close>

definition sections :: "string list \<Rightarrow> string" where
  "sections xs = join [newline, newline] (filter (\<lambda>s. s \<noteq> []) xs)"

definition any_skills_section :: "context_packet \<Rightarrow> skill_context list \<Rightarrow> string" where
  "any_skills_section p skills = (if skills = [] then skills_section p else smart_skills_section skills)"

definition build_default :: "(pyval \<Rightarrow> string) \<Rightarrow> string \<Rightarrow> context_packet \<Rightarrow> skill_context list \<Rightarrow> string" where
  "build_default show description p skills = sections
     [titled ''Task'' description, context_section p, git_section p, research_section show p, memory_section p,
      any_skills_section p skills]"

definition build_layered :: "(pyval \<Rightarrow> string) \<Rightarrow> context_packet \<Rightarrow> layered \<Rightarrow> skill_context list \<Rightarrow> string" where
  "build_layered show p L skills = sections
     [layered_task L, layered_project L, memory_section p, layered_research L, knowledge_section show L,
      any_skills_section p skills, audit_section L]"

definition build_prompt ::
  "(pyval \<Rightarrow> string) \<Rightarrow> string \<Rightarrow> context_packet \<Rightarrow> skill_context list \<Rightarrow> layered option \<Rightarrow> string" where
  "build_prompt show description p skills lay = (case lay of
     None \<Rightarrow> build_default show description p skills
   | Some L \<Rightarrow> if layered_layers L = [] then build_default show description p skills
       else build_layered show p L skills)"

end
