(* ===== verification/StrProps.thy ===== *)
theory StrProps
  imports PyStr
begin

text \<open>Laws of the string methods that the proofs about texts share: stripping, lines and their joins.\<close>

section \<open>Stripping\<close>

lemma dropWhile_rev_prefix: "\<exists>p. s = rev (dropWhile P (rev s)) @ p"
proof -
  have "s = rev (takeWhile P (rev s) @ dropWhile P (rev s))" by simp
  then show ?thesis by (metis rev_append)
qed

lemma takeWhile_app: "list_all P xs \<Longrightarrow> (ys = [] \<or> \<not> P (hd ys)) \<Longrightarrow> takeWhile P (xs @ ys) = xs"
  by (induction xs) (cases ys; auto)+

lemma dropWhile_app: "list_all P xs \<Longrightarrow> (ys = [] \<or> \<not> P (hd ys)) \<Longrightarrow> dropWhile P (xs @ ys) = ys"
  by (induction xs) (cases ys; auto)+

lemma word_not_space: "is_word c \<Longrightarrow> \<not> is_space c"
  by (auto simp: is_word_def is_space_def Let_def is_digit_def is_upper_ascii_def is_lower_ascii_def)

lemma strip_id: "s = [] \<or> \<not> is_space (hd s) \<and> \<not> is_space (last s) \<Longrightarrow> strip s = s"
proof (elim disjE conjE)
  have id: "dropWhile is_space t = t" if "t = [] \<or> \<not> is_space (hd t)" for t using that by (cases t) auto
  assume "\<not> is_space (hd s)" "\<not> is_space (last s)"
  then show ?thesis by (simp add: strip_def lstrip_def rstrip_def id hd_rev)
qed simp

lemma strip_ends: "strip s \<noteq> [] \<Longrightarrow> \<not> is_space (hd (strip s)) \<and> \<not> is_space (last (strip s))"
proof -
  assume ne: "strip s \<noteq> []"
  let ?t = "dropWhile is_space s"
  have r: "strip s = rev (dropWhile is_space (rev ?t))" by (simp add: strip_def lstrip_def rstrip_def)
  have "\<not> is_space (last (strip s))"
    using ne hd_dropWhile [of is_space "rev ?t"] unfolding r by (simp add: last_rev)
  moreover have "?t \<noteq> []" using ne unfolding r by (metis dropWhile.simps(1) rev.simps(1))
  then have "\<not> is_space (hd ?t)" by (rule hd_dropWhile)
  moreover obtain p where "?t = strip s @ p" unfolding r using dropWhile_rev_prefix by blast
  then have "hd ?t = hd (strip s)" using ne by simp
  ultimately show ?thesis by simp
qed

lemma strip_sandwich:
  assumes "list_all is_space a" and "list_all is_space b"
    and core: "core \<noteq> []" "\<not> is_space (hd core)" "\<not> is_space (last core)"
  shows "strip (a @ core @ b) = core"
proof -
  have "lstrip (a @ core @ b) = core @ b"
    unfolding lstrip_def using dropWhile_app [OF assms(1), of "core @ b"] core by simp
  moreover have "list_all is_space (rev b)" using assms(2) by (simp add: list_all_iff)
  then have "dropWhile is_space (rev b @ rev core) = rev core"
    using dropWhile_app [of is_space "rev b" "rev core"] core by (simp add: hd_rev)
  ultimately show ?thesis by (simp add: strip_def rstrip_def)
qed

lemma strip_parts:
  "\<exists>a b. s = a @ strip s @ b \<and> list_all is_space a \<and> list_all is_space b"
proof -
  let ?t = "dropWhile is_space s"
  have "s = takeWhile is_space s @ ?t" by simp
  moreover have "?t = strip s @ rev (takeWhile is_space (rev ?t))"
    unfolding strip_def lstrip_def rstrip_def by (metis rev_append rev_rev_ident takeWhile_dropWhile_id)
  ultimately have "s = takeWhile is_space s @ strip s @ rev (takeWhile is_space (rev ?t))" by metis
  moreover have "list_all is_space (takeWhile is_space s)" "list_all is_space (rev (takeWhile is_space (rev ?t)))"
    by (auto simp: list_all_iff dest: set_takeWhileD)
  ultimately show ?thesis by blast
qed

section \<open>Lines\<close>

definition one_line :: "string \<Rightarrow> bool" where
  "one_line s \<longleftrightarrow> list_all (\<lambda>c. \<not> is_line_end c) s"

lemma splitlines_line: "one_line l \<Longrightarrow> l \<noteq> [] \<Longrightarrow> splitlines l = [l]"
proof (induction l)
  case (Cons c l)
  then show ?case by (cases "l = []") (auto simp: one_line_def)
qed simp

lemma splitlines_first: "one_line l \<Longrightarrow> splitlines (l @ newline # s) = l # splitlines s"
proof (induction l)
  case Nil
  have "is_line_end newline" "code newline \<noteq> 13" by (simp_all add: is_line_end_def newline_def)
  then show ?case by simp
qed (auto simp: one_line_def)

lemma splitlines_join:
  "list_all one_line ls \<Longrightarrow> ls = [] \<or> last ls \<noteq> [] \<Longrightarrow> splitlines (join [newline] ls) = ls"
  by (induction ls rule: induct_list012) (auto simp: splitlines_line splitlines_first)

lemma digits_one_line: "one_line (digits n)"
  by (auto simp: one_line_def list_all_iff is_line_end_def Let_def dest!: digits_are_digits) (simp_all add: is_digit_def Let_def)

lemma one_line_append [simp]: "one_line (a @ b) \<longleftrightarrow> one_line a \<and> one_line b"
  by (simp add: one_line_def)

end
