(* ===== verification/GitAgent.thy ===== *)
theory GitAgent
  imports Agents StrProps
begin

text \<open>
  The git agent (\<open>agents/git.py\<close>). The process it starts is a parameter \<open>run\<close> on the world: what the
  operating system answers for a command. The world is kept with the log of the commands that were started.
\<close>

section \<open>Operations\<close>

datatype process =
    Completed string string int
  | NotFound string
  | OsError string
  | Raised exn

record 'w git_world =
  gw_world :: 'w
  gw_log :: "string list list"

type_synonym 'w runner = "string list \<Rightarrow> 'w \<Rightarrow> process \<times> 'w"

type_synonym ('w, 'a) git = "('w git_world, 'a) py"

record git_operation =
  go_command :: "string list"
  go_executed :: bool
  go_stdout :: string
  go_stderr :: string
  go_code :: int

definition git_operation_to_dict :: "git_operation \<Rightarrow> pydict" where
  "git_operation_to_dict g = [(''command'', strs (go_command g)), (''executed'', PBool (go_executed g)),
     (''stdout'', PStr (go_stdout g)), (''stderr'', PStr (go_stderr g)), (''returncode'', PInt (go_code g))]"

definition git_run :: "'w runner \<Rightarrow> string list \<Rightarrow> ('w, git_operation) git" where
  "git_run run cmd = (\<lambda>s. case run cmd (gw_world s) of (p, w) \<Rightarrow>
     let t = s\<lparr>gw_world := w, gw_log := gw_log s @ [cmd]\<rparr>;
         failed = (\<lambda>msg. \<lparr>go_command = cmd, go_executed = True, go_stdout = '''', go_stderr = msg, go_code = -1\<rparr>) in
     case p of
       Completed out err rc \<Rightarrow>
         (Inr \<lparr>go_command = cmd, go_executed = True, go_stdout = out, go_stderr = err, go_code = rc\<rparr>, t)
     | NotFound msg \<Rightarrow> (Inr (failed (''git not available: '' @ msg)), t)
     | OsError msg \<Rightarrow> (Inr (failed msg), t)
     | Raised e \<Rightarrow> (Inl e, t))"

text \<open>What \<open>command.extend\<close> adds and what a process accepts as an argument.\<close>

fun as_arg :: "pyval \<Rightarrow> exn + string" where
  "as_arg (PStr s) = Inr s"
| "as_arg _ = Inl (Exn TypeError ''expected str, bytes or os.PathLike object'')"

fun as_args :: "pyval list \<Rightarrow> exn + string list" where
  "as_args [] = Inr []"
| "as_args (v # vs) = (case as_arg v of Inl e \<Rightarrow> Inl e | Inr s \<Rightarrow>
     (case as_args vs of Inl e \<Rightarrow> Inl e | Inr ss \<Rightarrow> Inr (s # ss)))"

fun extend_args :: "pyval \<Rightarrow> exn + string list" where
  "extend_args (PList xs) = as_args xs"
| "extend_args (PStr s) = Inr (map (\<lambda>c. [c]) s)"
| "extend_args (PDict d) = Inr (map fst d)"
| "extend_args _ = Inl (Exn TypeError ''object is not iterable'')"

definition git_stage :: "'w runner \<Rightarrow> pyval \<Rightarrow> ('w, git_operation) git" where
  "git_stage run paths = bnd (of_sum (if truthy paths then extend_args paths else Inr [''.'']))
     (\<lambda>args. git_run run ([''git'', ''add''] @ args))"

definition git_commit :: "'w runner \<Rightarrow> pyval \<Rightarrow> ('w, git_operation) git" where
  "git_commit run msg = bnd (of_sum (as_arg msg)) (\<lambda>m. git_run run [''git'', ''commit'', ''-m'', m])"

definition git_create_branch :: "'w runner \<Rightarrow> pyval \<Rightarrow> ('w, git_operation) git" where
  "git_create_branch run name = bnd (of_sum (as_arg name)) (\<lambda>n. git_run run [''git'', ''checkout'', ''-b'', n])"

definition git_create_tag :: "'w runner \<Rightarrow> pyval \<Rightarrow> ('w, git_operation) git" where
  "git_create_tag run name = bnd (of_sum (as_arg name)) (\<lambda>n. git_run run [''git'', ''tag'', n])"

definition git_push :: "'w runner \<Rightarrow> pyval \<Rightarrow> ('w, git_operation) git" where
  "git_push run approved =
     (if \<not> truthy approved
      then ret \<lparr>go_command = [''git'', ''push''], go_executed = False, go_stdout = '''', go_stderr = '''', go_code = 0\<rparr>
      else git_run run [''git'', ''push''])"

definition git_status :: "'w runner \<Rightarrow> ('w, git_operation) git" where
  "git_status run = git_run run [''git'', ''status'', ''--porcelain=v1'', ''-z'']"

text \<open>\<open>params[k]\<close>\<close>

definition need_param :: "pydict \<Rightarrow> string \<Rightarrow> exn + pyval" where
  "need_param params k = (case map_of params k of None \<Rightarrow> Inl (Exn KeyError (CHR 0x27 # k @ [CHR 0x27])) | Some v \<Rightarrow> Inr v)"

definition git_dispatch :: "(pyval \<Rightarrow> string) \<Rightarrow> 'w runner \<Rightarrow> pyval \<Rightarrow> pydict \<Rightarrow> ('w, git_operation) git" where
  "git_dispatch show run op params =
     (if op = PStr ''stage'' then git_stage run (dict_get params ''paths'' PNone)
      else if op = PStr ''commit'' then bnd (of_sum (need_param params ''message'')) (git_commit run)
      else if op = PStr ''create_branch'' then bnd (of_sum (need_param params ''name'')) (git_create_branch run)
      else if op = PStr ''create_tag'' then bnd (of_sum (need_param params ''name'')) (git_create_tag run)
      else if op = PStr ''push'' then git_push run (dict_get params ''approved'' (PBool False))
      else raise (Exn ValueError (''unknown git operation: '' @ py_str show op)))"

text \<open>A result an agent fills in with the task it is about.\<close>

definition agent_answer :: "string \<Rightarrow> agent_task \<Rightarrow> agent_result \<Rightarrow> agent_result" where
  "agent_answer name t r = r\<lparr>res_agent := name, res_task_id := at_task_id t, res_correlation_id := at_correlation_id t\<rparr>"

definition agent_failure :: "string \<Rightarrow> agent_task \<Rightarrow> string \<Rightarrow> string list \<Rightarrow> agent_result" where
  "agent_failure name t msg errors = agent_answer name t (AgentResult_default
     \<lparr>res_success := False, res_errors := errors,
      res_error := Some \<lparr>err_code = RUNTIME_ERROR, err_message = msg, err_transient = False\<rparr>,
      res_error_code := Some RUNTIME_ERROR\<rparr>)"

definition git_execute ::
  "(pyval \<Rightarrow> string) \<Rightarrow> (pyval \<Rightarrow> string) \<Rightarrow> 'w runner \<Rightarrow> agent_task \<Rightarrow> ('w, agent_result) git" where
  "git_execute dumps show run t =
     (let wanted = dict_get (at_params t) ''operation'' PNone;
          op = (if truthy wanted then wanted else PStr (at_task_type t)) in
      try_except
        (bnd (git_dispatch show run op (at_params t)) (\<lambda>g.
          ret (agent_answer ''git'' t (AgentResult_default
            \<lparr>res_success := (go_code g = 0), res_output := dumps (PDict (git_operation_to_dict g))\<rparr>))))
        (\<lambda>e. if exn_kind e = KeyError \<or> exn_kind e = ValueError
          then ret (agent_failure ''git'' t (exn_message e) [exn_message e]) else raise e))"

section \<open>Changed files\<close>

definition NUL :: char where
  "NUL = CHR 0x00"

text \<open>The loop over the records, with \<open>skip_next\<close>.\<close>

fun porcelain_loop :: "bool \<Rightarrow> string list \<Rightarrow> string list" where
  "porcelain_loop skip [] = []"
| "porcelain_loop skip (r # rs) =
     (if skip then porcelain_loop False rs
      else if length r < 3 then porcelain_loop False rs
      else let path = drop 3 r in
        if r ! 0 \<in> {CHR ''R'', CHR ''C''} then (if path = [] then [] else [path]) @ porcelain_loop True rs
        else if CHR ''D'' \<in> set (take 2 r) then porcelain_loop False rs
        else (if path = [] then [] else [path]) @ porcelain_loop False rs)"

definition parse_porcelain :: "string \<Rightarrow> string list" where
  "parse_porcelain raw = porcelain_loop False (filter (\<lambda>r. r \<noteq> []) (split_char NUL raw))"

definition git_changed_files :: "'w runner \<Rightarrow> ('w, string list) git" where
  "git_changed_files run = bnd (git_status run) (\<lambda>g. ret (parse_porcelain (go_stdout g)))"

section \<open>What the agent may run\<close>

text \<open>The commands the agent is there for; a push needs the approval.\<close>

definition git_allowed :: "bool \<Rightarrow> string list \<Rightarrow> bool" where
  "git_allowed approved cmd \<longleftrightarrow> take 2 cmd = [''git'', ''add''] \<or> take 3 cmd = [''git'', ''commit'', ''-m'']
     \<or> take 3 cmd = [''git'', ''checkout'', ''-b''] \<or> take 2 cmd = [''git'', ''tag''] \<or> approved \<and> cmd = [''git'', ''push'']"

definition git_step :: "(string list \<Rightarrow> bool) \<Rightarrow> 'w git_world \<Rightarrow> 'w git_world \<Rightarrow> bool" where
  "git_step P s t \<longleftrightarrow> t = s \<or> (\<exists>cmd. gw_log t = gw_log s @ [cmd] \<and> P cmd)"

lemma git_run_step: "P cmd \<Longrightarrow> git_step P s (snd (git_run run cmd s))"
  by (auto simp: git_step_def git_run_def Let_def split: prod.split process.split)

lemma git_step_refl: "git_step P s s"
  by (simp add: git_step_def)

lemma of_sum_step: "(\<And>x. git_step P s (snd (f x s))) \<Longrightarrow> git_step P s (snd (bnd (of_sum r) f s))"
  by (cases r) (auto simp: py_run git_step_refl)

lemma if_step: "git_step P s (snd (f s)) \<Longrightarrow> git_step P s (snd (g s)) \<Longrightarrow> git_step P s (snd ((if b then f else g) s))"
  by simp

lemma git_push_step: "git_step (git_allowed (truthy a)) s (snd (git_push run a s))"
  by (simp add: git_push_def py_run git_step_refl git_run_step git_allowed_def)

lemma git_calls_step:
  "git_step (git_allowed b) s (snd (git_stage run v s))" "git_step (git_allowed b) s (snd (git_commit run v s))"
  "git_step (git_allowed b) s (snd (git_create_branch run v s))" "git_step (git_allowed b) s (snd (git_create_tag run v s))"
  unfolding git_stage_def git_commit_def git_create_branch_def git_create_tag_def
  by (intro of_sum_step git_run_step; simp add: git_allowed_def)+

lemma git_dispatch_step: "git_step (git_allowed (truthy (dict_get params ''approved'' (PBool False)))) s
    (snd (git_dispatch show run op params s))"
  unfolding git_dispatch_def
  by (intro if_step of_sum_step git_push_step git_calls_step) (simp add: py_run git_step_refl)


section \<open>Reading the status\<close>

record status_entry =
  se_x :: char
  se_y :: char
  se_path :: string
  se_source :: string

text \<open>A record of \<open>git status --porcelain=v1 -z\<close>: a rename or copy in the index is followed by its source.\<close>

definition entry_text :: "status_entry \<Rightarrow> string" where
  "entry_text e = [se_x e, se_y e, CHR '' ''] @ se_path e @ [NUL] @
     (if se_x e \<in> {CHR ''R'', CHR ''C''} then se_source e @ [NUL] else [])"

definition entry_ok :: "status_entry \<Rightarrow> bool" where
  "entry_ok e \<longleftrightarrow> NUL \<notin> set (se_x e # se_y e # se_path e @ se_source e) \<and> se_path e \<noteq> [] \<and> se_source e \<noteq> []"

definition entry_changed :: "status_entry \<Rightarrow> bool" where
  "entry_changed e \<longleftrightarrow> se_x e \<in> {CHR ''R'', CHR ''C''} \<or> CHR ''D'' \<notin> {se_x e, se_y e}"

lemma split_char_word: "c \<notin> set w \<Longrightarrow> split_char c (w @ c # s) = w # split_char c s"
  by (induction w) (auto split: list.split)

lemma entry_records:
  "entry_ok e \<Longrightarrow> filter (\<lambda>r. r \<noteq> []) (split_char NUL (entry_text e @ s)) =
     ([se_x e, se_y e, CHR '' ''] @ se_path e) # (if se_x e \<in> {CHR ''R'', CHR ''C''} then [se_source e] else []) @
     filter (\<lambda>r. r \<noteq> []) (split_char NUL s)"
  using split_char_word [of NUL "[se_x e, se_y e, CHR '' ''] @ se_path e"] split_char_word [of NUL "se_source e" s]
  by (auto simp: entry_text_def entry_ok_def NUL_def)

lemma entry_parsed:
  "entry_ok e \<Longrightarrow> parse_porcelain (entry_text e @ s) = (if entry_changed e then [se_path e] else []) @ parse_porcelain s"
  unfolding parse_porcelain_def entry_records by (auto simp: entry_changed_def entry_ok_def Let_def)

lemma parse_entries:
  "list_all entry_ok es \<Longrightarrow> parse_porcelain (concat (map entry_text es)) = map se_path (filter entry_changed es)"
  by (induction es) (simp_all add: entry_parsed, simp add: parse_porcelain_def)

text \<open>The changed files of a status that git reports are exactly the paths of its entries in order, without
  the deleted ones, and a rename or copy in the index counts with its new path only.\<close>

theorem changed_files_roundtrip:
  assumes "list_all entry_ok es" and "run [''git'', ''status'', ''--porcelain=v1'', ''-z''] (gw_world s) =
      (Completed (concat (map entry_text es)) err 0, w)"
  shows "fst (git_changed_files run s) = Inr (map se_path (filter entry_changed es))"
  using assms parse_entries [OF assms(1)]
  by (simp add: git_changed_files_def git_status_def git_run_def py_run Let_def)

definition demo_entries :: "status_entry list" where
  "demo_entries = [\<lparr>se_x = CHR ''R'', se_y = CHR '' '', se_path = ''b c.py'', se_source = ''a.py''\<rparr>,
     \<lparr>se_x = CHR '' '', se_y = CHR ''D'', se_path = ''gone.py'', se_source = ''x''\<rparr>,
     \<lparr>se_x = CHR ''?'', se_y = CHR ''?'', se_path = ''new.py'', se_source = ''x''\<rparr>]"

theorem changed_files_roundtrip_witness:
  "fst (git_changed_files (\<lambda>_ w. (Completed (concat (map entry_text demo_entries)) '''' 0, w))
     \<lparr>gw_world = (), gw_log = []\<rparr>) = Inr [''b c.py'', ''new.py'']"
proof -
  have "list_all entry_ok demo_entries" and "map se_path (filter entry_changed demo_entries) = [''b c.py'', ''new.py'']"
    by code_simp+
  then show ?thesis
    using changed_files_roundtrip [of demo_entries "\<lambda>_ w. (Completed (concat (map entry_text demo_entries)) '''' 0, w)"
      "\<lparr>gw_world = (), gw_log = []\<rparr>" "''''" "()"] by simp
qed

text \<open>A rename that only the work tree column tells is read with its source as a path of its own, without its
  first three characters.\<close>

lemma worktree_rename_misread:
  "parse_porcelain ('' R new.py'' @ [NUL] @ ''old.py'' @ [NUL]) = [''new.py'', ''.py'']"
  by code_simp

end
