(* ===== verification/Detectors.thy ===== *)
theory Detectors
  imports PyStr
begin

text \<open>
  The deterministic review detectors (\<open>agents/detectors.py\<close>). Each regular expression of the code
  is a function that sees the character prev a position and the rest of the text; for the
  patterns used here a greedy match never has to backtrack, because the character class of every
  repetition excludes what may follow it.
\<close>

section \<open>Items\<close>

record review_item =
  it_rule :: string
  it_severity :: string
  it_file :: string
  it_line :: nat
  it_message :: string
  it_suggestion :: string

definition SUGGESTIONS :: "(string \<times> string) list" where
  "SUGGESTIONS =
     [(''todo-detection'', ''Replace the TODO with a tracked issue reference (text only)''),
      (''missing-module-docstring'', ''Add a module-level docstring describing its purpose''),
      (''long-function'', ''Extract smaller, focused functions from the body''),
      (''hardcoded-secret'', ''Move the secret to an environment variable or Secret Manager''),
      (''unsafe-eval'', ''Use json.loads / ast.literal_eval instead of eval/exec'')]"

definition mk_item :: "string \<Rightarrow> string \<Rightarrow> string \<Rightarrow> nat \<Rightarrow> string \<Rightarrow> review_item" where
  "mk_item rule sev file line msg =
     \<lparr>it_rule = rule, it_severity = sev, it_file = file, it_line = line, it_message = msg,
      it_suggestion = dict_get SUGGESTIONS rule ''''\<rparr>"

section \<open>Patterns\<close>

definition skip_space :: "string \<Rightarrow> string" where
  "skip_space s = dropWhile is_space s"

text \<open>\<open>(?i)#\s*(todo|fixme|hack|xxx)\b\<close>; the answer is the word as written.\<close>

definition todo_at :: "char option \<Rightarrow> string \<Rightarrow> string option" where
  "todo_at prev s =
     (if take 1 s \<noteq> ''#'' then None
      else let t = skip_space (drop 1 s) in
        case find (\<lambda>w. startswith (lower t) w \<and> word_end (drop (length w) t))
               [''todo'', ''fixme'', ''hack'', ''xxx''] of
          None \<Rightarrow> None | Some w \<Rightarrow> Some (take (length w) t))"

definition SECRET_WORDS :: "string list" where
  "SECRET_WORDS = [''password'', ''passwd'', ''apikey'', ''api_key'', ''api-key'', ''secret'',
     ''accesstoken'', ''access_token'', ''access-token'', ''authtoken'', ''auth_token'',
     ''auth-token'']"

definition is_quote :: "char \<Rightarrow> bool" where
  "is_quote c = (c = CHR 0x22 \<or> c = CHR 0x27)"

text \<open>\<open>["'][^"'\s]+["']\<close>\<close>

definition quoted_word :: "string \<Rightarrow> bool" where
  "quoted_word s =
     (case s of [] \<Rightarrow> False
      | q # t \<Rightarrow> is_quote q \<and>
          (let body = takeWhile (\<lambda>c. \<not> is_quote c \<and> \<not> is_space c) t;
               rest = dropWhile (\<lambda>c. \<not> is_quote c \<and> \<not> is_space c) t
           in body \<noteq> [] \<and> (case rest of [] \<Rightarrow> False | c # _ \<Rightarrow> is_quote c)))"

definition secret_at :: "char option \<Rightarrow> string \<Rightarrow> unit option" where
  "secret_at prev s =
     (if word_start prev \<and>
         list_ex (\<lambda>w. startswith (lower s) w \<and>
           (let r = drop (length w) s; t = skip_space r in
            word_end r \<and> (take 1 t = '':'' \<or> take 1 t = ''='') \<and>
            quoted_word (skip_space (drop 1 t)))) SECRET_WORDS
      then Some () else None)"

text \<open>\<open>\b(?:eval|exec)\s*\(\<close>\<close>

definition unsafe_at :: "char option \<Rightarrow> string \<Rightarrow> unit option" where
  "unsafe_at prev s =
     (if word_start prev \<and>
         list_ex (\<lambda>w. startswith s w \<and> take 1 (skip_space (drop 4 s)) = ''('') [''eval'', ''exec'']
      then Some () else None)"

text \<open>\<open>\s*def\s+\w+\s*\(\<close> at the start of the line\<close>

definition func_def_line :: "string \<Rightarrow> bool" where
  "func_def_line line =
     (let s = skip_space line in
      startswith s ''def'' \<and>
      (let t = drop 3 s; u = skip_space t in
       u \<noteq> t \<and> takeWhile is_word u \<noteq> [] \<and> take 1 (skip_space (dropWhile is_word u)) = ''(''))"

section \<open>Scans\<close>

definition scan_todos :: "string \<Rightarrow> string \<Rightarrow> review_item list" where
  "scan_todos text rel = concat (map (\<lambda>(i, line).
     (case search todo_at None line of
        None \<Rightarrow> []
      | Some w \<Rightarrow> [mk_item ''todo-detection'' ''info'' rel i
          (''TODO/FIXME comment: '' @ map upper_char w)]))
     (enumerate 1 (splitlines text)))"

definition starts_docstring :: "string \<Rightarrow> bool" where
  "starts_docstring s =
     (startswith s [CHR 0x22, CHR 0x22, CHR 0x22] \<or> startswith s [CHR 0x27, CHR 0x27, CHR 0x27])"

definition scan_docstrings :: "string \<Rightarrow> string \<Rightarrow> review_item list" where
  "scan_docstrings text rel =
     (let stripped = lstrip text in
      if starts_docstring stripped then []
      else case find (\<lambda>ln. strip ln \<noteq> [] \<and> \<not> startswith (lstrip ln) ''#'') (splitlines stripped) of
        None \<Rightarrow> []
      | Some _ \<Rightarrow> [mk_item ''missing-module-docstring'' ''warning'' rel 1
          ''Module missing a docstring''])"

definition indent_of :: "string \<Rightarrow> nat" where
  "indent_of line = length line - length (lstrip line)"

text \<open>The first line from \<open>start\<close> on that is code and not indented deeper.\<close>

definition find_function_end :: "string list \<Rightarrow> nat \<Rightarrow> nat \<Rightarrow> nat" where
  "find_function_end lines start indent =
     start + length (takeWhile
       (\<lambda>line. strip line = [] \<or> startswith (strip line) ''#'' \<or> indent_of line > indent)
       (drop start lines))"

text \<open>\<open>line.strip().split("(", 1)[0].split()[-1]\<close>\<close>

definition function_name :: "string \<Rightarrow> string" where
  "function_name line = last (split_ws (takeWhile (\<lambda>c. c \<noteq> CHR ''('') (strip line)))"

definition scan_long_functions :: "string \<Rightarrow> string \<Rightarrow> review_item list" where
  "scan_long_functions text rel =
     (let lines = splitlines text in
      concat (map (\<lambda>(i, line).
        if \<not> func_def_line line then []
        else let len = find_function_end lines (i + 1) (indent_of line) - i in
          if len > 60
          then [mk_item ''long-function'' ''info'' rel (i + 1)
            (''Function '' @ function_name line @ '' is '' @ digits len @ '' lines long'')]
          else []) (enumerate 0 lines)))"

definition scan_secrets :: "string \<Rightarrow> string \<Rightarrow> review_item list" where
  "scan_secrets text rel = concat (map (\<lambda>(i, line).
     if search secret_at None line \<noteq> None
     then [mk_item ''hardcoded-secret'' ''error'' rel i ''Potential hardcoded secret''] else [])
     (enumerate 1 (splitlines text)))"

definition scan_unsafe :: "string \<Rightarrow> string \<Rightarrow> review_item list" where
  "scan_unsafe text rel = concat (map (\<lambda>(i, line).
     if search unsafe_at None line \<noteq> None
     then [mk_item ''unsafe-eval'' ''warning'' rel i ''Use of eval/exec is discouraged''] else [])
     (enumerate 1 (splitlines text)))"

section \<open>Statistics\<close>

record review_stats =
  st_errors :: nat
  st_warnings :: nat
  st_infos :: nat

definition count_item :: "review_item \<Rightarrow> review_stats \<Rightarrow> review_stats" where
  "count_item it st =
     (if it_severity it = ''error'' then st\<lparr>st_errors := st_errors st + 1\<rparr>
      else if it_severity it = ''warning'' then st\<lparr>st_warnings := st_warnings st + 1\<rparr>
      else st\<lparr>st_infos := st_infos st + 1\<rparr>)"

definition compute_stats :: "review_item list \<Rightarrow> review_stats" where
  "compute_stats items = fold count_item items \<lparr>st_errors = 0, st_warnings = 0, st_infos = 0\<rparr>"

definition build_summary :: "review_item list \<Rightarrow> review_stats \<Rightarrow> string" where
  "build_summary items st =
     ''Found '' @ digits (length items) @ '' item(s): '' @ digits (st_errors st) @ '' error(s), '' @
     digits (st_warnings st) @ '' warning(s), '' @ digits (st_infos st) @ '' info(s)''"

section \<open>Facts\<close>

lemma search_iff:
  "search p b s \<noteq> None \<longleftrightarrow>
     (\<exists>pre post. s = pre @ post \<and> p (if pre = [] then b else Some (last pre)) post \<noteq> None)"
proof (induction s arbitrary: b)
  case (Cons c s)
  have "search p b (c # s) \<noteq> None \<longleftrightarrow> p b (c # s) \<noteq> None \<or> search p (Some c) s \<noteq> None"
    by (cases "p b (c # s)") auto
  also have "\<dots> \<longleftrightarrow> p b (c # s) \<noteq> None \<or>
      (\<exists>pre post. s = pre @ post \<and> p (if pre = [] then Some c else Some (last pre)) post \<noteq> None)"
    by (simp only: Cons.IH)
  also have "\<dots> \<longleftrightarrow> (\<exists>pre post. c # s = pre @ post \<and>
      p (if pre = [] then b else Some (last pre)) post \<noteq> None)"
  proof
    assume "p b (c # s) \<noteq> None \<or>
      (\<exists>pre post. s = pre @ post \<and> p (if pre = [] then Some c else Some (last pre)) post \<noteq> None)"
    then consider "p b (c # s) \<noteq> None"
      | pre post where "s = pre @ post" "p (if pre = [] then Some c else Some (last pre)) post \<noteq> None"
      by blast
    then show "\<exists>pre post. c # s = pre @ post \<and>
        p (if pre = [] then b else Some (last pre)) post \<noteq> None"
    proof cases
      case 1
      then show ?thesis by (intro exI [of _ "[]"] exI [of _ "c # s"]) simp
    next
      case 2
      then show ?thesis by (intro exI [of _ "c # pre"] exI [of _ post]) auto
    qed
  next
    assume "\<exists>pre post. c # s = pre @ post \<and> p (if pre = [] then b else Some (last pre)) post \<noteq> None"
    then obtain pre post where pp: "c # s = pre @ post"
      "p (if pre = [] then b else Some (last pre)) post \<noteq> None" by blast
    show "p b (c # s) \<noteq> None \<or>
      (\<exists>pre post. s = pre @ post \<and> p (if pre = [] then Some c else Some (last pre)) post \<noteq> None)"
    proof (cases pre)
      case Nil
      then show ?thesis using pp by simp
    next
      case (Cons d pre')
      then have "s = pre' @ post" "p (if pre' = [] then Some c else Some (last pre')) post \<noteq> None"
        using pp by (auto split: if_splits)
      then show ?thesis by blast
    qed
  qed
  finally show ?case .
qed simp

lemma compute_stats_fold:
  "fold count_item items st =
     \<lparr>st_errors = st_errors st + length (filter (\<lambda>i. it_severity i = ''error'') items),
      st_warnings = st_warnings st + length (filter (\<lambda>i. it_severity i = ''warning'') items),
      st_infos = st_infos st + length (filter (\<lambda>i. it_severity i \<notin> {''error'', ''warning''}) items)\<rparr>"
  by (induction items arbitrary: st) (auto simp: count_item_def)

lemma enumerate_mem: "(i, x) \<in> set (enumerate n xs) \<longleftrightarrow> n \<le> i \<and> i < n + length xs \<and> x = xs ! (i - n)"
  by (auto simp: in_set_enumerate_eq)

lemma line_items_iff:
  "it \<in> set (concat (map (\<lambda>(i, line). if search p None line \<noteq> None then [f i] else [])
      (enumerate 1 lines))) \<longleftrightarrow>
   (\<exists>i. i < length lines \<and> search p None (lines ! i) \<noteq> None \<and> it = f (i + 1))"
proof
  assume "it \<in> set (concat (map (\<lambda>(i, line). if search p None line \<noteq> None then [f i] else [])
      (enumerate 1 lines)))"
  then obtain k line where "(k, line) \<in> set (enumerate 1 lines)" "search p None line \<noteq> None" "it = f k"
    by (auto split: if_splits)
  then show "\<exists>i. i < length lines \<and> search p None (lines ! i) \<noteq> None \<and> it = f (i + 1)"
    unfolding enumerate_mem by (intro exI [of _ "k - 1"]) auto
next
  assume "\<exists>i. i < length lines \<and> search p None (lines ! i) \<noteq> None \<and> it = f (i + 1)"
  then obtain i where i: "i < length lines" "search p None (lines ! i) \<noteq> None" "it = f (i + 1)"
    by blast
  then have "(i + 1, lines ! i) \<in> set (enumerate 1 lines)" unfolding enumerate_mem by simp
  with i show "it \<in> set (concat (map (\<lambda>(i, line). if search p None line \<noteq> None then [f i] else [])
      (enumerate 1 lines)))" by force
qed

section \<open>Properties\<close>

text \<open>The secret and the unsafe scan report exactly the lines, numbered from 1, in which their
  pattern matches at some position; every secret is an error and every unsafe call a warning.\<close>

theorem scans_sound_complete:
  "(it \<in> set (scan_secrets text rel) \<longleftrightarrow>
      (\<exists>i pre post. i < length (splitlines text) \<and> splitlines text ! i = pre @ post \<and>
         secret_at (if pre = [] then None else Some (last pre)) post \<noteq> None \<and>
         it = mk_item ''hardcoded-secret'' ''error'' rel (i + 1) ''Potential hardcoded secret''))
   \<and> (it \<in> set (scan_unsafe text rel) \<longleftrightarrow>
      (\<exists>i pre post. i < length (splitlines text) \<and> splitlines text ! i = pre @ post \<and>
         unsafe_at (if pre = [] then None else Some (last pre)) post \<noteq> None \<and>
         it = mk_item ''unsafe-eval'' ''warning'' rel (i + 1) ''Use of eval/exec is discouraged''))"
  unfolding scan_secrets_def scan_unsafe_def line_items_iff unfolding search_iff by blast

text \<open>The statistics count every item once, by its severity.\<close>

theorem stats_partition:
  "st_errors (compute_stats items) + st_warnings (compute_stats items) + st_infos (compute_stats items)
     = length items
   \<and> st_errors (compute_stats items) = length (filter (\<lambda>i. it_severity i = ''error'') items)"
  unfolding compute_stats_def compute_stats_fold
  by (induction items) auto

end
