(* ===== verification/Discovery.thy ===== *)
theory Discovery
  imports Skills
begin

text \<open>
  Discovery of the knowledge sources (\<open>knowledge/discovery.py\<close>) in the tree of the project: skills,
  decisions, reports, documentation and code. Paths are lists of names below the project; nothing is a
  symbolic link.
\<close>

section \<open>Paths\<close>

text \<open>Everything below a directory, files and directories alike.\<close>

fun below :: "node \<Rightarrow> string list list" and below_items :: "tree \<Rightarrow> string list list" where
  "below (File _) = []"
| "below (Dir t) = below_items t"
| "below_items [] = []"
| "below_items ((name, n) # items) = [name] # map ((#) name) (below n) @ below_items items"

fun node_at :: "node \<Rightarrow> string list \<Rightarrow> node option" where
  "node_at n [] = Some n"
| "node_at (File _) (p # ps) = None"
| "node_at (Dir t) (p # ps) = (case map_of t p of None \<Rightarrow> None | Some m \<Rightarrow> node_at m ps)"

definition dir_items :: "node \<Rightarrow> string list \<Rightarrow> tree option" where
  "dir_items proj ps = (case node_at proj ps of Some (Dir t) \<Rightarrow> Some t | _ \<Rightarrow> None)"

definition named_like :: "string \<Rightarrow> string list \<Rightarrow> bool" where
  "named_like ext p \<longleftrightarrow> p \<noteq> [] \<and> endswith (last p) ext"

text \<open>\<open>sorted(dir.rglob("*" + ext))\<close> and \<open>sorted(dir.glob("*" + ext))\<close>, below the directory.\<close>

definition rglob :: "string \<Rightarrow> tree \<Rightarrow> string list list" where
  "rglob ext t = sort (filter (named_like ext) (below (Dir t)))"

definition glob_dir :: "string \<Rightarrow> tree \<Rightarrow> string list list" where
  "glob_dir ext t = sort (filter (named_like ext) (map (\<lambda>x. [fst x]) t))"

definition path_str :: "string list \<Rightarrow> string" where
  "path_str ps = (if ps = [] then ''.'' else join ''/'' ps)"

definition source :: "string \<Rightarrow> pydict \<Rightarrow> string list \<Rightarrow> source_candidate" where
  "source ty meta p = \<lparr>cn_type = ty, cn_path = path_str p, cn_version = ''1'', cn_metadata = meta\<rparr>"

section \<open>The sources\<close>

definition skills_path :: "string list" where
  "skills_path = [''.opencode'', ''skills'']"

definition discover_skill :: "node \<Rightarrow> skill_metadata \<Rightarrow> source_candidate list" where
  "discover_skill proj m =
     (let ty = (if sk_name m = ''project-dna'' then ''project_dna'' else ''skill'');
          dir = skills_path @ [sk_name m] in
      source ty (skill_to_dict m) (dir @ [''SKILL.md'']) #
      map (\<lambda>p. source ty [] (dir @ p))
        (filter (\<lambda>p. last p \<noteq> ''SKILL.md'')
          (case dir_items proj dir of None \<Rightarrow> [] | Some t \<Rightarrow> rglob ''.md'' t)))"

definition discover_skills :: "node \<Rightarrow> (string \<Rightarrow> bool) \<Rightarrow> source_candidate list" where
  "discover_skills proj readable = concat (map (discover_skill proj \<circ> snd)
     (registry_load True \<lparr>sd_entries = dir_items proj skills_path, sd_readable = readable\<rparr>))"

definition discover_flat :: "string \<Rightarrow> string list \<Rightarrow> node \<Rightarrow> source_candidate list" where
  "discover_flat ty dir proj = (case dir_items proj dir of
     None \<Rightarrow> [] | Some t \<Rightarrow> map (\<lambda>p. source ty [] (dir @ p)) (glob_dir ''.md'' t))"

definition discover_adrs :: "node \<Rightarrow> source_candidate list" where
  "discover_adrs = discover_flat ''adr'' [''docs'', ''decisions'']"

definition discover_research :: "node \<Rightarrow> source_candidate list" where
  "discover_research = discover_flat ''research'' [''docs'', ''reports'']"

text \<open>A file with the directory of decisions or of reports among its parents is left to them.\<close>

definition discover_documentation :: "node \<Rightarrow> source_candidate list" where
  "discover_documentation proj = (case dir_items proj [''docs''] of
     None \<Rightarrow> []
   | Some t \<Rightarrow> map (\<lambda>p. source ''documentation'' [] (''docs'' # p))
       (filter (\<lambda>p. \<not> (1 < length p \<and> hd p \<in> {''decisions'', ''reports''})) (rglob ''.md'' t)))"

text \<open>\<open>base\<close> are the parts of the project's own path, which count as well.\<close>

definition discover_code :: "string list \<Rightarrow> node \<Rightarrow> source_candidate list" where
  "discover_code base proj = (case dir_items proj [''src''] of
     None \<Rightarrow> []
   | Some t \<Rightarrow> map (\<lambda>p. source ''code'' [] (''src'' # p))
       (filter (\<lambda>p. ''__pycache__'' \<notin> set (base @ ''src'' # p)) (rglob ''.py'' t)))"

definition discover_sources :: "string list \<Rightarrow> node \<Rightarrow> (string \<Rightarrow> bool) \<Rightarrow> source_candidate list" where
  "discover_sources base proj readable = sort_key cn_type (sort_key cn_path
     (discover_skills proj readable @ discover_adrs proj @ discover_research proj @ discover_documentation proj @
      discover_code base proj))"

end
