(* ===== verification/LocalAgents.thy ===== *)
theory LocalAgents
  imports GitAgent Detectors Discovery Context
begin

text \<open>
  The agents that work on the project without a model: the tester (\<open>agents/tester.py\<close>), the
  documentation agent (\<open>agents/documentation.py\<close>) and the reviewer (\<open>agents/reviewer.py\<close>). Processes and
  files are parameters, as for the git agent; \<open>dumps\<close> is \<open>json.dumps\<close>.
\<close>

section \<open>Tester\<close>

text \<open>\<open>(\d+)\s+label\<close> at a position, and \<open>collected\s+(\d+)\s+item\<close>.\<close>

definition count_at :: "string \<Rightarrow> char option \<Rightarrow> string \<Rightarrow> int option" where
  "count_at label prev s =
     (let ds = takeWhile is_digit s; rest = dropWhile is_digit s in
      if ds \<noteq> [] \<and> rest \<noteq> [] \<and> is_space (hd rest) \<and> startswith (dropWhile is_space rest) label
      then Some (int (nat_of_digits ds)) else None)"

definition collected_at :: "char option \<Rightarrow> string \<Rightarrow> int option" where
  "collected_at prev s =
     (if startswith s ''collected'' \<and> drop 9 s \<noteq> [] \<and> is_space (hd (drop 9 s))
      then count_at ''item'' None (dropWhile is_space (drop 9 s)) else None)"

definition parse_count :: "string \<Rightarrow> string \<Rightarrow> int" where
  "parse_count out label = (case search (count_at label) None out of None \<Rightarrow> 0 | Some n \<Rightarrow> n)"

definition parse_collected :: "string \<Rightarrow> int" where
  "parse_collected out = (case search collected_at None out of None \<Rightarrow> 0 | Some n \<Rightarrow> n)"

record test_report =
  tp_target :: string
  tp_dry :: pyval
  tp_status :: string
  tp_code :: "int option"
  tp_collected :: int
  tp_passed :: int
  tp_failed :: int
  tp_errors :: "string list"

definition test_report_to_dict :: "test_report \<Rightarrow> pydict" where
  "test_report_to_dict r =
     [(''target'', PStr (tp_target r)), (''dry_run'', tp_dry r), (''status'', PStr (tp_status r)),
      (''returncode'', (case tp_code r of None \<Rightarrow> PNone | Some n \<Rightarrow> PInt n)), (''collected'', PInt (tp_collected r)),
      (''passed'', PInt (tp_passed r)), (''failed'', PInt (tp_failed r)), (''errors'', strs (tp_errors r))]"

definition error_report :: "string \<Rightarrow> pyval \<Rightarrow> string \<Rightarrow> test_report" where
  "error_report target dry msg = \<lparr>tp_target = target, tp_dry = dry, tp_status = ''error'', tp_code = None,
     tp_collected = 0, tp_passed = 0, tp_failed = 0, tp_errors = [msg]\<rparr>"

text \<open>A process whose start and end are all that is seen of it.\<close>

definition start_process :: "'w runner \<Rightarrow> string list \<Rightarrow> ('w, process) git" where
  "start_process run cmd = (\<lambda>s. case run cmd (gw_world s) of (p, w) \<Rightarrow>
     (case p of Raised e \<Rightarrow> Inl e | _ \<Rightarrow> Inr p, s\<lparr>gw_world := w, gw_log := gw_log s @ [cmd]\<rparr>))"

definition collect_count :: "'w runner \<Rightarrow> string \<Rightarrow> string \<Rightarrow> ('w, int) git" where
  "collect_count run python target =
     bnd (start_process run [python, ''-m'', ''pytest'', ''-p'', ''no:cacheprovider'', ''--collect-only'', target]) (\<lambda>p.
     ret (case p of Completed out err rc \<Rightarrow> parse_collected (out @ err) | _ \<Rightarrow> 0))"

text \<open>\<open>exists\<close> tells which targets are there.\<close>

definition tester_run ::
  "'w runner \<Rightarrow> (string \<Rightarrow> bool) \<Rightarrow> string \<Rightarrow> string \<Rightarrow> pyval \<Rightarrow> ('w, test_report) git" where
  "tester_run run there python target dry =
     (if \<not> there target then ret (error_report target dry (''target not found: '' @ target))
      else bnd (collect_count run python target) (\<lambda>n.
        if truthy dry
        then ret \<lparr>tp_target = target, tp_dry = PBool True, tp_status = ''ok'', tp_code = Some 0, tp_collected = n,
          tp_passed = 0, tp_failed = 0, tp_errors = []\<rparr>
        else bnd (start_process run [python, ''-m'', ''pytest'', ''-p'', ''no:cacheprovider'', ''-q'', target]) (\<lambda>p.
          ret (case p of
            Completed out err rc \<Rightarrow>
              \<lparr>tp_target = target, tp_dry = PBool False, tp_status = (if rc = 0 then ''ok'' else ''failed''),
               tp_code = Some rc, tp_collected = n, tp_passed = parse_count (out @ err) ''passed'',
               tp_failed = parse_count (out @ err) ''failed'',
               tp_errors = (if rc = 0 then [] else filter (\<lambda>l. strip l \<noteq> []) (splitlines (out @ err)))\<rparr>
          | NotFound msg \<Rightarrow> error_report target dry msg
          | OsError msg \<Rightarrow> error_report target dry msg
          | Raised e \<Rightarrow> error_report target dry (exn_message e)))))"

definition failed_answer :: "string \<Rightarrow> agent_task \<Rightarrow> string \<Rightarrow> string list \<Rightarrow> agent_result" where
  "failed_answer name t msg errors = (agent_failure name t msg errors)\<lparr>res_status := state_name Failed\<rparr>"

definition success_answer :: "string \<Rightarrow> agent_task \<Rightarrow> string \<Rightarrow> agent_result" where
  "success_answer name t out = agent_answer name t (AgentResult_default\<lparr>res_output := out\<rparr>)"

text \<open>A target that is not a string is no path.\<close>

definition tester_execute ::
  "(pyval \<Rightarrow> string) \<Rightarrow> 'w runner \<Rightarrow> (string \<Rightarrow> bool) \<Rightarrow> string \<Rightarrow> agent_task \<Rightarrow> ('w, agent_result) git" where
  "tester_execute dumps run there python t =
     (let given = dict_get (at_params t) ''target'' PNone;
          target = (if given = PNone \<and> at_files t \<noteq> [] then PStr (hd (at_files t)) else given) in
      if target = PNone then ret (failed_answer ''tester'' t ''target is required'' [''target is required''])
      else bnd (of_sum (as_arg target)) (\<lambda>path.
        bnd (tester_run run there python path (dict_get (at_params t) ''dry_run'' (PBool True))) (\<lambda>r.
        ret (if tp_status r = ''error''
          then failed_answer ''tester'' t (or_else (join ''; '' (tp_errors r)) ''Test run failed'') (tp_errors r)
          else success_answer ''tester'' t (dumps (PDict (test_report_to_dict r)))))))"

section \<open>Documentation\<close>

text \<open>The files the agent has written; the clock gives the time stamp.\<close>

record docs_state =
  dw_files :: "(string \<times> string) list"

record docs_env =
  de_dir :: string
  de_stamp :: string
  de_dash :: string
  de_fails :: "exn option"

definition py_items :: "pyval \<Rightarrow> exn + pydict" where
  "py_items v = (case v of PDict d \<Rightarrow> Inr d | _ \<Rightarrow> Inl (Exn AttributeError ''object has no attribute items''))"

definition py_list :: "pyval \<Rightarrow> exn + pyval list" where
  "py_list v = (case v of PList xs \<Rightarrow> Inr xs | PDict d \<Rightarrow> Inr (map (PStr \<circ> fst) d) | PStr s \<Rightarrow> Inr (map (\<lambda>c. PStr [c]) s)
     | _ \<Rightarrow> Inl (Exn TypeError ''object is not iterable''))"

definition item_line :: "(pyval \<Rightarrow> string) \<Rightarrow> string \<Rightarrow> pyval \<Rightarrow> exn + string" where
  "item_line show dash item = (case item of
     PDict d \<Rightarrow>
       let str = py_str show; location = str (dict_get d ''file'' (PStr ''unknown''));
           line = dict_get d ''line'' PNone;
           place = (if truthy line then location @ '':'' @ str line else location) in
       Inr (''- **'' @ str (dict_get d ''severity'' (PStr ''info'')) @ ''** `'' @ place @ ''` '' @ dash @ '' '' @
         str (dict_get d ''message'' (PStr '''')))
   | _ \<Rightarrow> Inl (Exn AttributeError ''object has no attribute get''))"

fun item_lines :: "(pyval \<Rightarrow> string) \<Rightarrow> string \<Rightarrow> pyval list \<Rightarrow> exn + string list" where
  "item_lines show dash [] = Inr []"
| "item_lines show dash (v # vs) = (case item_line show dash v of Inl e \<Rightarrow> Inl e | Inr l \<Rightarrow>
     (case item_lines show dash vs of Inl e \<Rightarrow> Inl e | Inr ls \<Rightarrow> Inr (l # ls)))"

definition build_fragment :: "(pyval \<Rightarrow> string) \<Rightarrow> string \<Rightarrow> pydict \<Rightarrow> exn + string" where
  "build_fragment show dash report =
     (case py_items (dict_get report ''summary'' (PDict [])) of Inl e \<Rightarrow> Inl e | Inr summary \<Rightarrow>
      (let head = [''# Changelog Fragment'', '''', ''## Summary'', ''''] @
             map (\<lambda>(k, v). ''- '' @ k @ '': '' @ py_str show v) summary;
           items = dict_get report ''items'' (PList []) in
       (case (if truthy items then map_sum id (\<lambda>xs. Some xs) (py_list items) else Inr None) of
          Inl e \<Rightarrow> Inl e
        | Inr None \<Rightarrow> Inr (rstrip (join [newline] head) @ [newline])
        | Inr (Some xs) \<Rightarrow> (case item_lines show dash xs of Inl e \<Rightarrow> Inl e | Inr ls \<Rightarrow>
            Inr (rstrip (join [newline] (head @ ['''', ''## Items'', ''''] @ ls)) @ [newline])))))"

record fragment =
  cf_path :: string
  cf_written :: bool
  cf_preview :: string

definition fragment_path :: "docs_env \<Rightarrow> string" where
  "fragment_path E = de_dir E @ ''/changelog-fragment-'' @ de_stamp E @ ''.md''"

definition generate_fragment ::
  "(pyval \<Rightarrow> string) \<Rightarrow> docs_env \<Rightarrow> pydict \<Rightarrow> pyval \<Rightarrow> (docs_state, fragment) py" where
  "generate_fragment show E report dry =
     bnd (of_sum (build_fragment show (de_dash E) report)) (\<lambda>preview.
     if truthy dry then ret \<lparr>cf_path = fragment_path E, cf_written = False, cf_preview = preview\<rparr>
     else (case de_fails E of
       Some e \<Rightarrow> raise e
     | None \<Rightarrow> seq (modify (\<lambda>s. s\<lparr>dw_files := dw_files s @ [(fragment_path E, preview)]\<rparr>))
         (ret \<lparr>cf_path = fragment_path E, cf_written = True, cf_preview = preview\<rparr>)))"

definition documentation_execute ::
  "(pyval \<Rightarrow> string) \<Rightarrow> (pyval \<Rightarrow> string) \<Rightarrow> docs_env \<Rightarrow> agent_task \<Rightarrow> (docs_state, agent_result) py" where
  "documentation_execute dumps show E t = (case dict_get (at_params t) ''report'' PNone of
     PDict report \<Rightarrow>
       bnd (generate_fragment show E report (dict_get (at_params t) ''dry_run'' (PBool True))) (\<lambda>f.
       ret (success_answer ''documentation'' t (dumps (PDict [(''path'', PStr (cf_path f)),
         (''written'', PBool (cf_written f)), (''preview'', PStr (cf_preview f))]))))
   | _ \<Rightarrow> ret (failed_answer ''documentation'' t ''report is required'' [''report is required'']))"

section \<open>Reviewer\<close>

definition VALID_LEVELS :: "string list" where
  "VALID_LEVELS = [''architecture'', ''conventions'', ''security'']"

definition DEFAULT_LEVEL :: string where
  "DEFAULT_LEVEL = ''conventions''"

definition REVIEW_SKIP_DIRS :: "string list" where
  "REVIEW_SKIP_DIRS = [''.git'', ''.venv'', ''venv'', ''__pycache__'', ''dist'', ''build'', ''node_modules'', ''site-packages'']"

definition review_skips :: "string \<Rightarrow> bool" where
  "review_skips d \<longleftrightarrow> d \<in> set REVIEW_SKIP_DIRS \<or> startswith d ''.''"

definition is_py :: "string \<Rightarrow> bool" where
  "is_py name \<longleftrightarrow> endswith name ''.py'' \<or> endswith name ''.pyw''"

text \<open>The Python files below a directory with their text: \<open>os.walk\<close> with the skipped directories cut off.\<close>

fun discover_python :: "tree \<Rightarrow> (string list \<times> string) list" where
  "discover_python [] = []"
| "discover_python ((name, File c) # items) = (if is_py name then [([name], c)] else []) @ discover_python items"
| "discover_python ((name, Dir t) # items) =
     (if review_skips name then [] else map (\<lambda>(p, c). (name # p, c)) (discover_python t)) @ discover_python items"

definition scan_file :: "string \<Rightarrow> string list \<times> string \<Rightarrow> review_item list" where
  "scan_file level f = (case f of (p, text) \<Rightarrow>
     let rel = path_str p in
     if \<not> is_py (last p) then []
     else (if level \<in> {''conventions'', ''security''} then scan_todos text rel else []) @
       (if level = ''conventions'' then scan_docstrings text rel @ scan_long_functions text rel else []) @
       (if level = ''security'' then scan_secrets text rel @ scan_unsafe text rel else []))"

definition ARCH_SUGGESTIONS :: "(string \<times> string) list" where
  "ARCH_SUGGESTIONS =
     [(''missing-package-init'', ''Add an __init__.py to declare this directory a package''),
      (''init-missing-docstring'', ''Document the package purpose in __init__.py'')]"

definition arch_item :: "string \<Rightarrow> string \<Rightarrow> nat \<Rightarrow> string \<Rightarrow> review_item" where
  "arch_item rule file line msg = \<lparr>it_rule = rule,
     it_severity = (if rule = ''missing-package-init'' then ''warning'' else ''info''), it_file = file, it_line = line,
     it_message = msg, it_suggestion = dict_get ARCH_SUGGESTIONS rule ''''\<rparr>"

text \<open>One package; an \<open>__init__.py\<close> that is a directory cannot be read.\<close>

definition scan_package :: "string \<Rightarrow> tree \<Rightarrow> exn + review_item list" where
  "scan_package name t =
     (if review_skips name \<or> \<not> list_ex (is_py \<circ> fst) t then Inr []
      else (case map_of t ''__init__.py'' of
        None \<Rightarrow> Inr [arch_item ''missing-package-init'' name 0 (''Package '' @ name @ '' is missing __init__.py'')]
      | Some (Dir _) \<Rightarrow> Inl IS_A_DIRECTORY
      | Some (File c) \<Rightarrow> Inr (if strip c \<noteq> [] \<and> \<not> starts_docstring (lstrip c)
          then [arch_item ''init-missing-docstring'' name 1 (''Package '' @ name @ '' __init__.py missing docstring'')]
          else [])))"

fun scan_packages :: "(string \<times> node) list \<Rightarrow> exn + review_item list" where
  "scan_packages [] = Inr []"
| "scan_packages ((name, File c) # items) = scan_packages items"
| "scan_packages ((name, Dir t) # items) = (case scan_package name t of Inl e \<Rightarrow> Inl e | Inr xs \<Rightarrow>
     (case scan_packages items of Inl e \<Rightarrow> Inl e | Inr ys \<Rightarrow> Inr (xs @ ys)))"

record review_report =
  rv_items :: "(string \<times> review_item) list"
  rv_stats :: review_stats
  rv_summary :: string

text \<open>\<open>f"R{index + 1:03d}"\<close>\<close>

definition review_id :: "nat \<Rightarrow> string" where
  "review_id n = CHR ''R'' # replicate (3 - length (digits n)) (CHR ''0'') @ digits n"

definition review_report_of :: "review_item list \<Rightarrow> review_report" where
  "review_report_of items = \<lparr>rv_items = map (\<lambda>(i, x). (review_id i, x)) (enumerate 1 items),
     rv_stats = compute_stats items, rv_summary = build_summary items (compute_stats items)\<rparr>"

definition no_target_report :: "string \<Rightarrow> review_report" where
  "no_target_report msg = \<lparr>rv_items = [], rv_stats = \<lparr>st_errors = 0, st_warnings = 0, st_infos = 0\<rparr>, rv_summary = msg\<rparr>"

text \<open>What is at the target, and the name of the target itself.\<close>

definition review :: "(string \<Rightarrow> node option) \<Rightarrow> string \<Rightarrow> string option \<Rightarrow> string \<Rightarrow> exn + review_report" where
  "review fs dflt lvl target =
     (let level = (case lvl of Some l \<Rightarrow> if l \<in> set VALID_LEVELS then l else dflt | None \<Rightarrow> dflt) in
      case fs target of
        None \<Rightarrow> Inr (no_target_report (''target not found: '' @ target))
      | Some (File c) \<Rightarrow> Inr (review_report_of (scan_file level ([path_name target], c)))
      | Some (Dir t) \<Rightarrow>
          let scanned = concat (map (scan_file level) (sort_key fst (discover_python t))) in
          if level = ''architecture''
          then map_sum id (\<lambda>xs. review_report_of (scanned @ xs)) (scan_packages (sort_key fst t))
          else Inr (review_report_of scanned))"

definition review_item_to_dict :: "string \<times> review_item \<Rightarrow> pydict" where
  "review_item_to_dict x = (case x of (i, it) \<Rightarrow>
     [(''id'', PStr i), (''rule'', PStr (it_rule it)), (''severity'', PStr (it_severity it)),
      (''file'', PStr (it_file it)), (''line'', PInt (int (it_line it))), (''message'', PStr (it_message it)),
      (''suggestion'', PStr (it_suggestion it))])"

definition review_to_dict :: "review_report \<Rightarrow> pydict" where
  "review_to_dict r = [(''items'', PList (map (PDict \<circ> review_item_to_dict) (rv_items r))),
     (''stats'', PDict [(''errors'', PInt (int (st_errors (rv_stats r)))),
        (''warnings'', PInt (int (st_warnings (rv_stats r)))), (''infos'', PInt (int (st_infos (rv_stats r))))]),
     (''summary'', PStr (rv_summary r))]"

definition reviewer_execute ::
  "(pyval \<Rightarrow> string) \<Rightarrow> (string \<Rightarrow> node option) \<Rightarrow> string \<Rightarrow> string \<Rightarrow> agent_task \<Rightarrow> exn + agent_result" where
  "reviewer_execute dumps fs dflt cwd t =
     (let given = dict_get (at_params t) ''target'' PNone;
          target = (if truthy given then given else if at_files t \<noteq> [] then PStr (hd (at_files t)) else PStr cwd);
          lvl = (case dict_get (at_params t) ''level'' PNone of
            PStr l \<Rightarrow> if l \<in> set VALID_LEVELS then Some l
              else if at_task_type t \<in> set VALID_LEVELS then Some (at_task_type t) else None
          | _ \<Rightarrow> if at_task_type t \<in> set VALID_LEVELS then Some (at_task_type t) else None) in
      case as_arg target of Inl e \<Rightarrow> Inl e | Inr path \<Rightarrow>
        (case review fs dflt lvl path of Inl e \<Rightarrow> Inl e | Inr r \<Rightarrow>
          Inr (if contains (rv_summary r) ''target not found''
            then failed_answer ''reviewer'' t (rv_summary r) [rv_summary r]
            else success_answer ''reviewer'' t (dumps (PDict (review_to_dict r))))))"

section \<open>Dry by default\<close>

lemma start_process_step: "P cmd \<Longrightarrow> git_step P s (snd (start_process run cmd s))"
  by (auto simp: git_step_def start_process_def split: prod.split)

lemma bnd_ret_step: "git_step P s (snd (m s)) \<Longrightarrow> (\<And>x t. snd (f x t) = t) \<Longrightarrow> git_step P s (snd (bnd m f s))"
  by (auto simp: py_run split: prod.split sum.split)

lemma tester_run_dry:
  assumes "truthy dry"
  shows "git_step (\<lambda>cmd. ''--collect-only'' \<in> set cmd) s (snd (tester_run run there python target dry s))"
proof -
  have "git_step (\<lambda>cmd. ''--collect-only'' \<in> set cmd) s (snd (collect_count run python target s))"
    unfolding collect_count_def by (rule bnd_ret_step [OF start_process_step]) (simp_all add: py_run)
  then show ?thesis
    unfolding tester_run_def by (intro if_step bnd_ret_step) (simp_all add: assms ret_run git_step_refl)
qed

lemma undry: "map_of (AList.delete k d) k = None"
  by (simp add: delete_conv')

text \<open>A task that does not ask for it changes nothing: the tester only collects the tests, starting at most one
  process, and the documentation agent writes no file; one that asks the documentation agent to write gets at most
  one file, under the directory of the documentation, with exactly the preview.\<close>

theorem dry_by_default:
  "let dry = t\<lparr>at_params := AList.delete ''dry_run'' (at_params t)\<rparr> in
     git_step (\<lambda>cmd. ''--collect-only'' \<in> set cmd) s (snd (tester_execute dumps run there python dry s))
     \<and> snd (documentation_execute dumps show E dry d) = d
     \<and> (snd (documentation_execute dumps show E t d) = d \<or>
        (\<exists>preview name. snd (documentation_execute dumps show E t d) =
           d\<lparr>dw_files := dw_files d @ [(de_dir E @ ''/'' @ name, preview)]\<rparr>))"
proof -
  let ?dry = "t\<lparr>at_params := AList.delete ''dry_run'' (at_params t)\<rparr>"
  have none: "dict_get (at_params ?dry) ''dry_run'' (PBool True) = PBool True" by (simp add: dict_get_def undry)
  have path: "fragment_path E = de_dir E @ ''/'' @ (''changelog-fragment-'' @ de_stamp E @ ''.md'')"
    by (simp add: fragment_path_def)
  have "git_step (\<lambda>cmd. ''--collect-only'' \<in> set cmd) s (snd (tester_execute dumps run there python ?dry s))"
    unfolding tester_execute_def Let_def none
    by (intro if_step of_sum_step bnd_ret_step tester_run_dry) (simp_all add: ret_run git_step_refl)
  moreover have "snd (documentation_execute dumps show E ?dry d) = d"
    unfolding documentation_execute_def generate_fragment_def none
    by (auto simp: py_run split: pyval.split sum.split)
  moreover have "snd (documentation_execute dumps show E t d) = d \<or>
      (\<exists>preview name. snd (documentation_execute dumps show E t d) =
         d\<lparr>dw_files := dw_files d @ [(de_dir E @ ''/'' @ name, preview)]\<rparr>)"
    unfolding documentation_execute_def generate_fragment_def path
    by (auto simp: py_run split: pyval.split sum.split option.split)
  ultimately show ?thesis by (simp only: Let_def)
qed

section \<open>The report of a review\<close>

lemma scan_file_file: "x \<in> set (scan_file level f) \<Longrightarrow> it_file x = path_str (fst f) \<and> is_py (last (fst f))"
  by (cases f) (auto simp: scan_file_def Let_def scan_todos_def scan_docstrings_def scan_long_functions_def scan_secrets_def
      scan_unsafe_def mk_item_def split: if_splits option.splits)

lemma discover_python_paths:
  "(p, c) \<in> set (discover_python t) \<Longrightarrow> p \<noteq> [] \<and> is_py (last p) \<and> list_all (\<lambda>d. \<not> review_skips d) (butlast p)"
  by (induction t arbitrary: p c rule: discover_python.induct) (fastforce split: if_splits)+

text \<open>Where a finding may be: a Python file outside the skipped directories, or a package that is not one.\<close>

definition review_place :: "string \<Rightarrow> bool" where
  "review_place file \<longleftrightarrow> (\<exists>p. file = path_str p \<and> p \<noteq> [] \<and> list_all (\<lambda>d. \<not> review_skips d) (butlast p) \<and>
     (is_py (last p) \<or> \<not> review_skips (last p)))"

lemma scanned_places:
  "x \<in> set (concat (map (scan_file level) (sort_key fst (discover_python t)))) \<Longrightarrow> review_place (it_file x)"
  by (fastforce simp: review_place_def dest: scan_file_file discover_python_paths)

lemma scan_package_facts: "case scan_package name t of Inl e \<Rightarrow> e = IS_A_DIRECTORY | Inr xs \<Rightarrow>
    list_all (\<lambda>x. it_file x = path_str [name] \<and> \<not> review_skips name) xs"
  by (auto simp: scan_package_def arch_item_def path_str_def split: option.split node.split)

lemma scan_packages_facts: "case scan_packages items of Inl e \<Rightarrow> e = IS_A_DIRECTORY | Inr xs \<Rightarrow>
    list_all (\<lambda>x. review_place (it_file x)) xs"
proof (induction items rule: scan_packages.induct)
  case (3 name t items)
  have place: "\<not> review_skips name \<Longrightarrow> review_place (path_str [name])"
    unfolding review_place_def by (intro exI [of _ "[name]"]) simp
  show ?case using 3 scan_package_facts [of name t] place
    by (auto simp: list_all_iff split: sum.splits)
qed simp_all

lemma report_facts:
  "map fst (rv_items (review_report_of xs)) = map review_id [1..<1 + length xs]" "map snd (rv_items (review_report_of xs)) = xs"
proof -
  have "map fst (rv_items (review_report_of xs)) = map review_id (map fst (enumerate 1 xs))"
    by (simp add: review_report_of_def comp_def case_prod_unfold del: map_fst_enumerate upt_Suc)
  also have "map fst (enumerate 1 xs) = [1..<1 + length xs]" by (rule map_fst_enumerate)
  finally show "map fst (rv_items (review_report_of xs)) = map review_id [1..<1 + length xs]" .
  have "map snd (rv_items (review_report_of xs)) = map snd (enumerate 1 xs)"
    by (simp add: review_report_of_def comp_def case_prod_unfold)
  then show "map snd (rv_items (review_report_of xs)) = xs" by simp
qed

definition sound_report :: "review_report \<Rightarrow> bool" where
  "sound_report r \<longleftrightarrow> map fst (rv_items r) = map review_id [1..<1 + length (rv_items r)] \<and>
     length (rv_items r) = st_errors (rv_stats r) + st_warnings (rv_stats r) + st_infos (rv_stats r) \<and>
     list_all (\<lambda>x. review_place (it_file (snd x))) (rv_items r)"

lemma sound_report_of: "list_all (\<lambda>x. review_place (it_file x)) xs \<Longrightarrow> sound_report (review_report_of xs)"
proof -
  assume xs: "list_all (\<lambda>x. review_place (it_file x)) xs"
  have len: "length (rv_items (review_report_of xs)) = length xs" by (simp add: review_report_of_def)
  have "list_all (\<lambda>x. review_place (it_file x)) (map snd (rv_items (review_report_of xs)))"
    unfolding report_facts by (rule xs)
  moreover have "rv_stats (review_report_of xs) = compute_stats xs" by (simp add: review_report_of_def)
  ultimately show ?thesis using stats_partition [of xs] report_facts(1) [of xs]
    by (simp add: sound_report_def len list.pred_map comp_def)
qed

text \<open>A review of any target at any level answers a report or fails to read an \<open>__init__.py\<close> that is a
  directory; the findings of a report are numbered R001, R002 and so on, its statistics count each exactly once, and
  each is in a Python file outside the skipped directories or in a package that is not skipped.\<close>

theorem review_reports_sound:
  "case review fs dflt lvl target of Inl e \<Rightarrow> e = IS_A_DIRECTORY | Inr r \<Rightarrow> sound_report r"
proof (cases "fs target")
  case None
  then show ?thesis by (simp add: review_def Let_def sound_report_def no_target_report_def)
next
  case (Some n)
  show ?thesis
  proof (cases n)
    case (File c)
    have "x \<in> set (scan_file l ([path_name target], c)) \<Longrightarrow> review_place (it_file x)" for l x
      by (drule scan_file_file) (auto simp: review_place_def intro!: exI [of _ "[path_name target]"])
    then show ?thesis using Some File by (auto simp: review_def Let_def list_all_iff intro!: sound_report_of)
  next
    case (Dir t)
    have "sound_report (review_report_of (concat (map (scan_file l) (sort_key fst (discover_python t))) @ xs))"
      if "list_all (\<lambda>x. review_place (it_file x)) xs" for l xs
      by (rule sound_report_of) (use that scanned_places in \<open>auto simp: list_all_iff simp del: set_concat\<close>)
    note sound = this this [of "[]", simplified]
    show ?thesis using Some Dir sound scan_packages_facts [of "sort_key fst t"]
      by (auto simp: review_def Let_def split: sum.splits)
  qed
qed

end
