(* ===== verification/RuntimeAgents.thy ===== *)
theory RuntimeAgents
  imports Security Prompts LocalAgents
begin

text \<open>
  The agents that ask a model: the planner (\<open>agents/planner.py\<close>) and the developer
  (\<open>agents/developer.py\<close>). What the runtime answers to a call, what the user answers to a question
  (\<open>tools.py\<close>), \<open>json.loads\<close> and \<open>json.dumps\<close> are parameters; the calls and the questions are
  logged.
\<close>

section \<open>The surroundings of an agent\<close>

record model_call =
  mc_prompt :: string
  mc_skills :: "string list"
  mc_capabilities :: "string list"
  mc_permissions :: "string set option"
  mc_agent :: string
  mc_task_type :: string
  mc_complexity :: pyval
  mc_context_size :: nat
  mc_max_steps :: int
  mc_project :: string

record 'w model_state =
  ms_world :: 'w
  ms_calls :: "model_call list"
  ms_asked :: "string list"

record 'w model_env =
  me_runtime :: "model_call \<Rightarrow> 'w \<Rightarrow> (exn + agent_result) \<times> 'w"
  me_input :: "string \<Rightarrow> 'w \<Rightarrow> (exn + string) \<times> 'w"
  me_loads :: "string \<Rightarrow> string + pyval"
  me_dumps :: "pyval \<Rightarrow> string"
  me_show :: "pyval \<Rightarrow> string"
  me_skills :: "agent_task \<Rightarrow> skill_context list"
  me_layers :: "agent_task \<Rightarrow> layered option"

type_synonym ('w, 'a) asking = "('w model_state, 'a) py"

definition call_model :: "'w model_env \<Rightarrow> model_call \<Rightarrow> ('w, agent_result) asking" where
  "call_model E c = (\<lambda>s. case me_runtime E c (ms_world s) of (r, w) \<Rightarrow>
     (r, s\<lparr>ms_world := w, ms_calls := ms_calls s @ [c]\<rparr>))"

definition ask_user :: "'w model_env \<Rightarrow> string \<Rightarrow> ('w, string) asking" where
  "ask_user E txt = (\<lambda>s. case me_input E txt (ms_world s) of (r, w) \<Rightarrow>
     (r, s\<lparr>ms_world := w, ms_asked := ms_asked s @ [txt]\<rparr>))"

definition permitted :: "intent_policy option \<Rightarrow> string list \<Rightarrow> string set option" where
  "permitted intent caps =
     map_option (\<lambda>i. effective_permissions i (CapObject (capabilities_from_list caps))) intent"

section \<open>Planner\<close>

definition PLANNER_CAPABILITIES :: "string list" where
  "PLANNER_CAPABILITIES = [FILESYSTEM_READ, ASK_USER]"

definition REQUIRED_SKILLS :: "string list" where
  "REQUIRED_SKILLS = [''project-dna'', ''coding-style'']"

definition max_iterations :: nat where
  "max_iterations = 3"

definition para :: "string list \<Rightarrow> string" where
  "para xs = join [newline, newline] xs"

definition in_quotes :: "string \<Rightarrow> string" where
  "in_quotes s = CHR 0x22 # s @ [CHR 0x22]"

definition planning_prompt :: "'w model_env \<Rightarrow> agent_task \<Rightarrow> context_packet \<Rightarrow> string" where
  "planning_prompt E t p =
     para [''## Role: Task Planner'',
       ''You are a software architecture planner. Given a high-level goal and project context, '' @
         ''decompose it into ordered subtasks with dependencies.'',
       ''Goal: '' @ at_description t,
       join [newline] [''Output a JSON object with these fields:'',
         ''- '' @ in_quotes ''goal'' @ '': the original goal'',
         ''- '' @ in_quotes ''subtasks'' @ '': array of objects with:'',
         ''    id (string), type (code|test|documentation),'', ''    description (string),'',
         ''    priority (high|medium|low),'', ''    dependencies (array of task ids),'',
         ''    estimated_complexity (low|medium|high)'',
         ''- '' @ in_quotes ''risks'' @ '': array of strings'',
         ''- '' @ in_quotes ''unknowns'' @ '': array of strings''],
       ''Return ONLY the JSON object. No markdown, no explanation.'', ''---'', ''## Project Context'',
       build_prompt (me_show E) (at_description t) p (me_skills E t) (me_layers E t)]"

text \<open>\<open>ask_user\(\s*(['"])(.*?)\1\s*\)\<close>: the shortest body on one line up to its quote and the parenthesis.\<close>

fun lazy_body :: "char \<Rightarrow> string \<Rightarrow> string option" where
  "lazy_body q [] = None"
| "lazy_body q (c # s) =
     (if c = q \<and> take 1 (dropWhile is_space s) = '')'' then Some []
      else if c = newline then None
      else map_option ((#) c) (lazy_body q s))"

definition tool_call_at :: "char option \<Rightarrow> string \<Rightarrow> string option" where
  "tool_call_at prev s =
     (if \<not> startswith s ''ask_user('' then None
      else case dropWhile is_space (drop 9 s) of
        [] \<Rightarrow> None
      | q # t \<Rightarrow> if is_quote q then lazy_body q t else None)"

definition tool_call :: "string \<Rightarrow> string option" where
  "tool_call out = search tool_call_at None out"

definition extract_json :: "string \<Rightarrow> string" where
  "extract_json s =
     (if CHR ''{'' \<notin> set s \<or> CHR ''}'' \<notin> set s then ''''
      else let start = length (takeWhile (\<lambda>c. c \<noteq> CHR ''{'') s);
               stop = length s - 1 - length (takeWhile (\<lambda>c. c \<noteq> CHR ''}'') (rev s))
        in if stop \<le> start then '''' else drop start (take (stop + 1) s))"

definition plan_failure :: "string \<Rightarrow> agent_result" where
  "plan_failure msg = AgentResult_default\<lparr>res_success := False, res_errors := [msg],
     res_error := Some \<lparr>err_code = RUNTIME_ERROR, err_message = msg, err_transient = False\<rparr>,
     res_error_code := Some RUNTIME_ERROR\<rparr>"

definition parse_plan :: "'w model_env \<Rightarrow> string \<Rightarrow> agent_result" where
  "parse_plan E out =
     (if extract_json out = [] then plan_failure ''Model output contains no JSON object''
      else case me_loads E (extract_json out) of
        Inl msg \<Rightarrow> plan_failure (''Model returned invalid JSON: '' @ msg)
      | Inr plan \<Rightarrow> (case plan of
          PDict d \<Rightarrow> if ''subtasks'' \<in> fst ` set d then AgentResult_default\<lparr>res_output := me_dumps E plan\<rparr>
            else plan_failure (''Model output missing required field: '' @ in_quotes ''subtasks'')
        | _ \<Rightarrow> plan_failure (''Model output missing required field: '' @ in_quotes ''subtasks'')))"

definition planner_call :: "agent_task \<Rightarrow> intent_policy option \<Rightarrow> string \<Rightarrow> model_call" where
  "planner_call t intent prompt =
     \<lparr>mc_prompt = prompt, mc_skills = REQUIRED_SKILLS, mc_capabilities = PLANNER_CAPABILITIES,
      mc_permissions = permitted intent PLANNER_CAPABILITIES, mc_agent = ''planner'',
      mc_task_type = at_task_type t, mc_complexity = dict_get (at_params t) ''complexity'' (PStr ''medium''),
      mc_context_size = length (split_ws prompt), mc_max_steps = 0, mc_project = ''''\<rparr>"

text \<open>The loop with the iterations that are left, the transcript and the last error.\<close>

fun plan_loop ::
  "'w model_env \<Rightarrow> agent_task \<Rightarrow> intent_policy option \<Rightarrow> nat \<Rightarrow> string list \<Rightarrow> string \<Rightarrow> ('w, agent_result) asking" where
  "plan_loop E t intent 0 transcript last_error =
     ret (failed_answer ''planner'' t (''Exceeded max iterations: '' @ last_error)
       [''Exceeded max iterations: '' @ last_error])"
| "plan_loop E t intent (Suc k) transcript last_error =
     bnd (call_model E (planner_call t intent (para transcript))) (\<lambda>r.
     let out = res_output r in
     case tool_call out of
       Some q \<Rightarrow> bnd (ask_user E q) (\<lambda>a.
         plan_loop E t intent k (transcript @ [''[Assistant]: '' @ out, ''[Tool ask_user]: '' @ a]) last_error)
     | None \<Rightarrow>
         let plan = parse_plan E out in
         if res_success plan then ret (agent_answer ''planner'' t plan)
         else plan_loop E t intent k (transcript @ [''[Assistant]: '' @ out,
             ''[System]: Error: Invalid format. '' @ hd (res_errors plan) @ '' Please return strictly valid JSON.''])
           (hd (res_errors plan)))"

definition planner_execute ::
  "'w model_env \<Rightarrow> intent_policy option \<Rightarrow> agent_task \<Rightarrow> context_packet \<Rightarrow> ('w, agent_result) asking" where
  "planner_execute E intent t p =
     plan_loop E t intent max_iterations [planning_prompt E t p] ''Model failed to produce a valid plan''"

section \<open>Developer\<close>

definition DEVELOPER_CAPABILITIES :: "string list" where
  "DEVELOPER_CAPABILITIES = [FILESYSTEM_READ, FILESYSTEM_WRITE, SHELL]"

definition developer_execute ::
  "'w model_env \<Rightarrow> intent_policy option \<Rightarrow> int \<Rightarrow> string \<Rightarrow> agent_task \<Rightarrow> context_packet \<Rightarrow>
   ('w, agent_result) asking" where
  "developer_execute E intent max_steps project t p =
     (let prompt = build_prompt (me_show E) (at_description t) p (me_skills E t) (me_layers E t) in
      bnd (call_model E
        \<lparr>mc_prompt = prompt, mc_skills = REQUIRED_SKILLS, mc_capabilities = DEVELOPER_CAPABILITIES,
         mc_permissions = permitted intent DEVELOPER_CAPABILITIES, mc_agent = ''developer'',
         mc_task_type = at_task_type t, mc_complexity = dict_get (at_params t) ''complexity'' (PStr ''medium''),
         mc_context_size = length (split_ws prompt), mc_max_steps = max_steps, mc_project = project\<rparr>) (\<lambda>r.
      ret (agent_answer ''developer'' t (AgentResult_default
        \<lparr>res_output := res_output r, res_tool_calls := res_tool_calls r, res_tool_names := res_tool_names r,
         res_tool_durations_ms := res_tool_durations_ms r, res_llm_turns := res_llm_turns r,
         res_total_cost := res_total_cost r, res_tokens := res_tokens r, res_model := res_model r,
         res_provider := res_provider r, res_fallback_used := res_fallback_used r, res_steps_used := res_steps_used r,
         res_repeated_tool_calls := res_repeated_tool_calls r, res_turn_sequence := res_turn_sequence r,
         res_exit_reason := res_exit_reason r\<rparr>))))"

section \<open>What the agents may ask for\<close>

text \<open>The actions capabilities give at most.\<close>

definition within_capabilities :: "string list \<Rightarrow> model_call \<Rightarrow> bool" where
  "within_capabilities caps c \<longleftrightarrow> mc_capabilities c = caps \<and>
     (case mc_permissions c of None \<Rightarrow> True
      | Some acts \<Rightarrow> acts \<subseteq> expand (CapObject (capabilities_from_list caps)))"

lemma permitted_within: "case permitted intent caps of None \<Rightarrow> True
    | Some acts \<Rightarrow> acts \<subseteq> expand (CapObject (capabilities_from_list caps))"
  using effective_le_expand by (auto simp: permitted_def split: option.split)

lemma planner_call_within: "within_capabilities PLANNER_CAPABILITIES (planner_call t intent prompt)"
  using permitted_within by (simp add: within_capabilities_def planner_call_def)

text \<open>What a plan is: the answer to a call whose JSON is an object with subtasks.\<close>

definition is_plan :: "'w model_env \<Rightarrow> string \<Rightarrow> bool" where
  "is_plan E out \<longleftrightarrow> (\<exists>src d. me_loads E src = Inr (PDict d) \<and> ''subtasks'' \<in> fst ` set d \<and> out = me_dumps E (PDict d))"

lemma parse_plan_facts:
  "if res_success (parse_plan E out) then is_plan E (res_output (parse_plan E out))
   else res_errors (parse_plan E out) \<noteq> [] \<and> res_error_code (parse_plan E out) = Some RUNTIME_ERROR"
  by (auto simp: parse_plan_def plan_failure_def is_plan_def AgentResult_default_def split: sum.split pyval.split)

definition planned :: "'w model_env \<Rightarrow> agent_task \<Rightarrow> nat \<Rightarrow> 'w model_state \<Rightarrow> exn + agent_result \<Rightarrow> 'w model_state \<Rightarrow> bool" where
  "planned E t k s r u \<longleftrightarrow>
     (\<exists>new. ms_calls u = ms_calls s @ new \<and> length new \<le> k \<and> list_all (within_capabilities PLANNER_CAPABILITIES) new
       \<and> length (ms_asked u) + length (ms_calls s) \<le> length (ms_asked s) + length (ms_calls u))
     \<and> (case r of Inl _ \<Rightarrow> True | Inr a \<Rightarrow> res_agent a = ''planner'' \<and> res_task_id a = at_task_id t \<and>
         (if res_success a then is_plan E (res_output a) else res_error_code a = Some RUNTIME_ERROR))"

lemma planned_end:
  assumes "res_agent a = ''planner''" and "res_task_id a = at_task_id t"
    and "if res_success a then is_plan E (res_output a) else res_error_code a = Some RUNTIME_ERROR"
  shows "planned E t k s (Inr a) s"
  using assms unfolding planned_def by (intro conjI exI [of _ "[]"]) simp_all

lemma planned_more:
  assumes "ms_calls v = ms_calls s @ [c]" and "within_capabilities PLANNER_CAPABILITIES c"
    and "length (ms_asked v) \<le> length (ms_asked s) + 1" and "planned E t k v r u"
  shows "planned E t (Suc k) s r u"
proof -
  obtain new where new: "ms_calls u = ms_calls v @ new" "length new \<le> k"
      "list_all (within_capabilities PLANNER_CAPABILITIES) new"
      "length (ms_asked u) + length (ms_calls v) \<le> length (ms_asked v) + length (ms_calls u)"
    using assms(4) by (auto simp: planned_def)
  show ?thesis unfolding planned_def
    by (intro conjI exI [of _ "c # new"]) (use new assms in \<open>auto simp: planned_def\<close>)
qed

lemma planned_raise: "planned E t k s (Inl e) s"
  unfolding planned_def by (intro conjI exI [of _ "[]"]) simp_all

lemma call_model_state:
  "call_model E c s = (r, v) \<Longrightarrow> ms_calls v = ms_calls s @ [c] \<and> ms_asked v = ms_asked s"
  by (auto simp: call_model_def split: prod.splits)

lemma ask_user_state: "ask_user E q s = (r, v) \<Longrightarrow> ms_calls v = ms_calls s \<and> length (ms_asked v) = length (ms_asked s) + 1"
  by (auto simp: ask_user_def split: prod.splits)

lemma failed_answer_facts:
  "res_agent (failed_answer n t m es) = n" "res_task_id (failed_answer n t m es) = at_task_id t"
  "\<not> res_success (failed_answer n t m es)" "res_error_code (failed_answer n t m es) = Some RUNTIME_ERROR"
  by (simp_all add: failed_answer_def agent_failure_def agent_answer_def)

lemma plan_loop_planned: "case plan_loop E t intent k tr err s of (r, u) \<Rightarrow> planned E t k s r u"
proof (induction k arbitrary: tr err s)
  case 0
  then show ?case by (simp add: py_run planned_end failed_answer_facts)
next
  case (Suc k)
  let ?c = "planner_call t intent (para tr)"
  obtain r v where call: "call_model E ?c s = (r, v)" by (cases "call_model E ?c s")
  note v = call_model_state [OF call]
  have more: "planned E t (Suc k) s r' u" if "planned E t k v' r' u" "ms_calls v' = ms_calls v"
      "length (ms_asked v') \<le> length (ms_asked s) + 1" for v' r' u
    by (rule planned_more [OF _ planner_call_within that(3,1)]) (simp add: v that(2))
  show ?case
  proof (cases r)
    case (Inl e)
    then show ?thesis using call more [OF planned_raise, of v] v by (simp add: py_run)
  next
    case (Inr a)
    show ?thesis
    proof (cases "tool_call (res_output a)")
      case (Some q)
      obtain r2 w where ask: "ask_user E q v = (r2, w)" by (cases "ask_user E q v")
      note w = ask_user_state [OF ask]
      show ?thesis
      proof (cases r2)
        case (Inl e)
        then show ?thesis using call Inr Some ask more [OF planned_raise, of w] v w by (simp add: py_run Let_def)
      next
        case (Inr b)
        let ?tr = "tr @ [''[Assistant]: '' @ res_output a, ''[Tool ask_user]: '' @ b]"
        obtain r3 u where run: "plan_loop E t intent k ?tr err w = (r3, u)" by (cases "plan_loop E t intent k ?tr err w")
        then have "planned E t k w r3 u" using Suc.IH [of w ?tr err] by simp
        then show ?thesis using call \<open>r = Inr a\<close> Some ask Inr run more [of w r3 u] v w by (simp add: py_run Let_def)
      qed
    next
      case None
      let ?plan = "parse_plan E (res_output a)"
      show ?thesis
      proof (cases "res_success ?plan")
        case True
        have "planned E t k v (Inr (agent_answer ''planner'' t ?plan)) v"
          by (rule planned_end) (use True parse_plan_facts [of E "res_output a"] in \<open>simp_all add: agent_answer_def\<close>)
        then show ?thesis using call Inr None True more [of v] v by (simp add: py_run Let_def)
      next
        case False
        let ?tr = "tr @ [''[Assistant]: '' @ res_output a,
             ''[System]: Error: Invalid format. '' @ hd (res_errors ?plan) @ '' Please return strictly valid JSON.'']"
        obtain r3 u where run: "plan_loop E t intent k ?tr (hd (res_errors ?plan)) v = (r3, u)"
          by (cases "plan_loop E t intent k ?tr (hd (res_errors ?plan)) v")
        then have "planned E t k v r3 u" using Suc.IH [of v ?tr "hd (res_errors ?plan)"] by simp
        then show ?thesis using call Inr None False run more [of v r3 u] v by (simp add: py_run Let_def)
      qed
    qed
  qed
qed

text \<open>C37: Whatever the model and the user answer, the planner calls the model at most three times and asks at most
  one question per call, never with a permission beyond reading and asking; a result it returns is the plan of an
  answer, a JSON object with subtasks, or a runtime error. The developer calls the model exactly once, with the
  prompt of the builder and never with a permission beyond reading, writing and the shell.\<close>

theorem model_agents_bounded:
  "(case planner_execute E intent t p s of (r, u) \<Rightarrow> planned E t 3 s r u)
   \<and> (case developer_execute E intent steps project t p s of (r, u) \<Rightarrow>
        \<exists>c. ms_calls u = ms_calls s @ [c] \<and> within_capabilities DEVELOPER_CAPABILITIES c
          \<and> mc_prompt c = build_prompt (me_show E) (at_description t) p (me_skills E t) (me_layers E t)
          \<and> ms_asked u = ms_asked s)"
proof
  show "case planner_execute E intent t p s of (r, u) \<Rightarrow> planned E t 3 s r u"
    unfolding planner_execute_def using plan_loop_planned [where k = max_iterations] by (simp add: max_iterations_def)
  show "case developer_execute E intent steps project t p s of (r, u) \<Rightarrow>
        \<exists>c. ms_calls u = ms_calls s @ [c] \<and> within_capabilities DEVELOPER_CAPABILITIES c
          \<and> mc_prompt c = build_prompt (me_show E) (at_description t) p (me_skills E t) (me_layers E t)
          \<and> ms_asked u = ms_asked s"
    using permitted_within [where intent = intent and caps = DEVELOPER_CAPABILITIES]
    by (auto simp: developer_execute_def call_model_def py_run Let_def within_capabilities_def split: prod.split sum.split)
qed

end
