(* ===== verification/Research.thy ===== *)
theory Research
  imports LocalAgents
begin

text \<open>
  Research: the contract (\<open>research/models.py\<close>, \<open>research/schema.py\<close>) and the agent
  (\<open>agents/research.py\<close>). The fetcher, the synthesizer, the tree of files at a path and the clock are
  parameters.
\<close>

section \<open>The contract\<close>

definition VALID_SCOPES :: "string list" where
  "VALID_SCOPES = [''repo'', ''docs'', ''web'', ''mixed'']"

definition RESEARCH_SOURCE_TYPES :: "string list" where
  "RESEARCH_SOURCE_TYPES = [''doc'', ''spec'', ''api'', ''blog'', ''adr'', ''code'']"

definition VALID_STATUSES :: "string list" where
  "VALID_STATUSES = [''ok'', ''partial'', ''source_unavailable'', ''error'']"

definition VALID_PRIORITIES :: "string list" where
  "VALID_PRIORITIES = [''high'', ''medium'', ''low'']"

definition VALID_CANDIDATE_KINDS :: "string list" where
  "VALID_CANDIDATE_KINDS = [''convention'', ''decision'', ''pattern'', ''mistake'', ''dependency-note'']"

record research_task =
  rk_question :: string
  rk_scope :: string
  rk_constraints :: pydict
  rk_packet :: pydict

record research_source =
  rs_id :: string
  rs_title :: string
  rs_url :: string
  rs_type :: string
  rs_retrieved :: string
  rs_trust :: rat
  rs_snippet :: string
  rs_tags :: "string list"

record finding =
  fd_id :: string
  fd_claim :: string
  fd_evidence :: "string list"
  fd_confidence :: rat
  fd_applies :: string
  fd_tags :: "string list"

record recommendation =
  rm_action :: string
  rm_rationale :: string
  rm_risk :: string
  rm_priority :: string
  rm_sources :: "string list"

record memory_candidate =
  mk_kind :: string
  mk_content :: string
  mk_reason :: string
  mk_confidence :: rat
  mk_tags :: "string list"

record research_result =
  rr_task :: research_task
  rr_status :: string
  rr_summary :: string
  rr_sources :: "research_source list"
  rr_findings :: "finding list"
  rr_confidence :: rat
  rr_recommendations :: "recommendation list"
  rr_candidates :: "memory_candidate list"
  rr_error :: string

section \<open>Validation\<close>

definition SUMMARY_LIMIT :: nat where
  "SUMMARY_LIMIT = 140"

definition listed :: "string list \<Rightarrow> string" where
  "listed xs = join '', '' xs"

definition check :: "bool \<Rightarrow> string \<Rightarrow> string list" where
  "check ok msg = (if ok then [] else [msg])"

definition unit_range :: "rat \<Rightarrow> bool" where
  "unit_range x \<longleftrightarrow> 0 \<le> x \<and> x \<le> 1"

definition validate_research_task :: "research_task \<Rightarrow> string list" where
  "validate_research_task t =
     check (strip (rk_question t) \<noteq> []) ''question is required'' @
     check (rk_scope t \<in> set VALID_SCOPES) (''scope must be one of '' @ listed VALID_SCOPES)"

fun validate_sources :: "string list \<Rightarrow> research_source list \<Rightarrow> string list" where
  "validate_sources seen [] = []"
| "validate_sources seen (s # ss) =
     check (rs_id s \<notin> set seen) (''duplicate source id: '' @ rs_id s) @
     check (strip (rs_url s) \<noteq> []) (''source '' @ rs_id s @ '': url is required'') @
     check (rs_type s \<in> set RESEARCH_SOURCE_TYPES)
       (''source '' @ rs_id s @ '': type must be one of '' @ listed RESEARCH_SOURCE_TYPES) @
     check (unit_range (rs_trust s)) (''source '' @ rs_id s @ '': trust_score must be between 0.0 and 1.0'') @
     validate_sources (rs_id s # seen) ss"

fun validate_findings :: "string list \<Rightarrow> string list \<Rightarrow> finding list \<Rightarrow> string list" where
  "validate_findings ids seen [] = []"
| "validate_findings ids seen (f # fs) =
     (let this = ''finding '' @ fd_id f in
     check (fd_id f \<notin> set seen) (''duplicate finding id: '' @ fd_id f) @
     check (strip (fd_claim f) \<noteq> []) (this @ '': claim is required'') @
     check (fd_evidence f \<noteq> []) (this @ '': requires at least one evidence source'') @
     concat (map (\<lambda>i. check (i \<in> set ids) (this @ '': unknown evidence source id: '' @ i)) (fd_evidence f)) @
     check (unit_range (fd_confidence f)) (this @ '': confidence must be between 0.0 and 1.0'')) @
     validate_findings ids (fd_id f # seen) fs"

definition quoted :: "string \<Rightarrow> string" where
  "quoted s = CHR 0x27 # s @ [CHR 0x27]"

definition validate_recommendation :: "string list \<Rightarrow> recommendation \<Rightarrow> string list" where
  "validate_recommendation ids r =
     (let this = ''recommendation '' @ quoted (rm_action r) in
      check (strip (rm_action r) \<noteq> []) ''recommendation: action is required'' @
      check (strip (rm_rationale r) \<noteq> []) (this @ '': rationale is required'') @
      check (rm_priority r \<in> set VALID_PRIORITIES) (this @ '': priority must be one of '' @ listed VALID_PRIORITIES) @
      concat (map (\<lambda>i. check (i \<in> set ids) (this @ '': unknown source id: '' @ i)) (rm_sources r)))"

definition validate_candidate :: "memory_candidate \<Rightarrow> string list" where
  "validate_candidate c =
     (let this = ''memory candidate '' @ quoted (mk_content c) in
      check (mk_kind c \<in> set VALID_CANDIDATE_KINDS) (this @ '': kind must be one of '' @ listed VALID_CANDIDATE_KINDS) @
      check (strip (mk_content c) \<noteq> []) ''memory candidate: content is required'' @
      check (unit_range (mk_confidence c)) (this @ '': confidence must be between 0.0 and 1.0''))"

definition validate_research_result :: "research_result \<Rightarrow> string list" where
  "validate_research_result r =
     (let ids = map rs_id (rr_sources r) in
      validate_research_task (rr_task r) @
      check (rr_status r \<in> set VALID_STATUSES) (''status must be one of '' @ listed VALID_STATUSES) @
      check (length (rr_summary r) \<le> SUMMARY_LIMIT) (''summary_short exceeds '' @ digits SUMMARY_LIMIT @ '' characters'') @
      check (unit_range (rr_confidence r)) ''confidence_overall must be between 0.0 and 1.0'' @
      validate_sources [] (rr_sources r) @ validate_findings ids [] (rr_findings r) @
      concat (map (validate_recommendation ids) (rr_recommendations r)) @
      concat (map validate_candidate (rr_candidates r)))"

section \<open>Dictionaries\<close>

definition task_to_dict :: "research_task \<Rightarrow> pydict" where
  "task_to_dict t = [(''question'', PStr (rk_question t)), (''scope'', PStr (rk_scope t)),
     (''constraints'', PDict (rk_constraints t)), (''context_packet'', PDict (rk_packet t))]"

definition source_to_dict :: "research_source \<Rightarrow> pydict" where
  "source_to_dict s = [(''id'', PStr (rs_id s)), (''title'', PStr (rs_title s)), (''url'', PStr (rs_url s)),
     (''type'', PStr (rs_type s)), (''retrieved_at'', PStr (rs_retrieved s)), (''trust_score'', PFloat (rs_trust s)),
     (''snippet'', PStr (rs_snippet s)), (''tags'', strs (rs_tags s))]"

definition finding_to_dict :: "finding \<Rightarrow> pydict" where
  "finding_to_dict f = [(''id'', PStr (fd_id f)), (''claim'', PStr (fd_claim f)),
     (''evidence_source_ids'', strs (fd_evidence f)), (''confidence'', PFloat (fd_confidence f)),
     (''applies_to'', PStr (fd_applies f)), (''tags'', strs (fd_tags f))]"

definition recommendation_to_dict :: "recommendation \<Rightarrow> pydict" where
  "recommendation_to_dict r = [(''action'', PStr (rm_action r)), (''rationale'', PStr (rm_rationale r)),
     (''risk'', PStr (rm_risk r)), (''priority'', PStr (rm_priority r)), (''source_ids'', strs (rm_sources r))]"

definition candidate_to_dict :: "memory_candidate \<Rightarrow> pydict" where
  "candidate_to_dict c = [(''kind'', PStr (mk_kind c)), (''content'', PStr (mk_content c)), (''reason'', PStr (mk_reason c)),
     (''confidence'', PFloat (mk_confidence c)), (''tags'', strs (mk_tags c))]"

definition result_to_dict :: "research_result \<Rightarrow> pydict" where
  "result_to_dict r =
     [(''task'', PDict (task_to_dict (rr_task r))), (''status'', PStr (rr_status r)),
      (''summary_short'', PStr (rr_summary r)), (''sources'', PList (map (PDict \<circ> source_to_dict) (rr_sources r))),
      (''findings'', PList (map (PDict \<circ> finding_to_dict) (rr_findings r))),
      (''confidence_overall'', PFloat (rr_confidence r)),
      (''recommendations'', PList (map (PDict \<circ> recommendation_to_dict) (rr_recommendations r))),
      (''memory_candidates'', PList (map (PDict \<circ> candidate_to_dict) (rr_candidates r))),
      (''error'', PStr (rr_error r))]"

text \<open>Reading a dictionary: a value, a key that is needed and lacking, or a value of a type the field of the
  record does not have, which Python would store all the same and which is outside the model.\<close>

datatype 'a decoded = Decoded 'a | Lacks string | Foreign

fun dec_bind :: "'a decoded \<Rightarrow> ('a \<Rightarrow> 'b decoded) \<Rightarrow> 'b decoded" where
  "dec_bind (Decoded x) f = f x"
| "dec_bind (Lacks k) f = Lacks k"
| "dec_bind Foreign f = Foreign"

fun dec_str :: "pyval \<Rightarrow> string decoded" where
  "dec_str (PStr s) = Decoded s"
| "dec_str _ = Foreign"

fun dec_num :: "pyval \<Rightarrow> rat decoded" where
  "dec_num (PFloat x) = Decoded x"
| "dec_num (PInt i) = Decoded (of_int i)"
| "dec_num _ = Foreign"

fun dec_dict :: "pyval \<Rightarrow> pydict decoded" where
  "dec_dict (PDict d) = Decoded d"
| "dec_dict _ = Foreign"

fun dec_all :: "(pyval \<Rightarrow> 'a decoded) \<Rightarrow> pyval list \<Rightarrow> 'a list decoded" where
  "dec_all f [] = Decoded []"
| "dec_all f (v # vs) = dec_bind (f v) (\<lambda>x. dec_bind (dec_all f vs) (\<lambda>xs. Decoded (x # xs)))"

definition dec_list :: "(pyval \<Rightarrow> 'a decoded) \<Rightarrow> pyval \<Rightarrow> 'a list decoded" where
  "dec_list f v = (case v of PList vs \<Rightarrow> dec_all f vs | _ \<Rightarrow> Foreign)"

text \<open>\<open>d[k]\<close> and \<open>d.get(k, default)\<close>.\<close>

definition field :: "(pyval \<Rightarrow> 'a decoded) \<Rightarrow> pydict \<Rightarrow> string \<Rightarrow> 'a decoded" where
  "field f d k = (case map_of d k of None \<Rightarrow> Lacks k | Some v \<Rightarrow> f v)"

definition opt_field :: "(pyval \<Rightarrow> 'a decoded) \<Rightarrow> pydict \<Rightarrow> string \<Rightarrow> 'a \<Rightarrow> 'a decoded" where
  "opt_field f d k dflt = (case map_of d k of None \<Rightarrow> Decoded dflt | Some v \<Rightarrow> f v)"

definition task_from_dict :: "pydict \<Rightarrow> research_task decoded" where
  "task_from_dict d =
     dec_bind (opt_field dec_str d ''question'' '''') (\<lambda>q.
     dec_bind (opt_field dec_str d ''scope'' ''mixed'') (\<lambda>s.
     dec_bind (opt_field dec_dict d ''constraints'' []) (\<lambda>c.
     dec_bind (opt_field dec_dict d ''context_packet'' []) (\<lambda>p.
     Decoded \<lparr>rk_question = q, rk_scope = s, rk_constraints = c, rk_packet = p\<rparr>))))"

definition source_from_dict :: "pydict \<Rightarrow> research_source decoded" where
  "source_from_dict d =
     dec_bind (field dec_str d ''id'') (\<lambda>i. dec_bind (opt_field dec_str d ''title'' '''') (\<lambda>t.
     dec_bind (field dec_str d ''url'') (\<lambda>u. dec_bind (opt_field dec_str d ''type'' ''doc'') (\<lambda>ty.
     dec_bind (opt_field dec_str d ''retrieved_at'' '''') (\<lambda>r.
     dec_bind (opt_field dec_num d ''trust_score'' (1 / 2)) (\<lambda>x.
     dec_bind (opt_field dec_str d ''snippet'' '''') (\<lambda>sn.
     dec_bind (opt_field (dec_list dec_str) d ''tags'' []) (\<lambda>tags.
     Decoded \<lparr>rs_id = i, rs_title = t, rs_url = u, rs_type = ty, rs_retrieved = r, rs_trust = x, rs_snippet = sn,
       rs_tags = tags\<rparr>))))))))"

definition finding_from_dict :: "pydict \<Rightarrow> finding decoded" where
  "finding_from_dict d =
     dec_bind (field dec_str d ''id'') (\<lambda>i. dec_bind (opt_field dec_str d ''claim'' '''') (\<lambda>c.
     dec_bind (opt_field (dec_list dec_str) d ''evidence_source_ids'' []) (\<lambda>e.
     dec_bind (opt_field dec_num d ''confidence'' (1 / 2)) (\<lambda>x.
     dec_bind (opt_field dec_str d ''applies_to'' '''') (\<lambda>a.
     dec_bind (opt_field (dec_list dec_str) d ''tags'' []) (\<lambda>tags.
     Decoded \<lparr>fd_id = i, fd_claim = c, fd_evidence = e, fd_confidence = x, fd_applies = a, fd_tags = tags\<rparr>))))))"

definition recommendation_from_dict :: "pydict \<Rightarrow> recommendation decoded" where
  "recommendation_from_dict d =
     dec_bind (opt_field dec_str d ''action'' '''') (\<lambda>a. dec_bind (opt_field dec_str d ''rationale'' '''') (\<lambda>r.
     dec_bind (opt_field dec_str d ''risk'' ''low'') (\<lambda>k. dec_bind (opt_field dec_str d ''priority'' ''medium'') (\<lambda>p.
     dec_bind (opt_field (dec_list dec_str) d ''source_ids'' []) (\<lambda>ids.
     Decoded \<lparr>rm_action = a, rm_rationale = r, rm_risk = k, rm_priority = p, rm_sources = ids\<rparr>)))))"

definition candidate_from_dict :: "pydict \<Rightarrow> memory_candidate decoded" where
  "candidate_from_dict d =
     dec_bind (opt_field dec_str d ''kind'' ''convention'') (\<lambda>k. dec_bind (opt_field dec_str d ''content'' '''') (\<lambda>c.
     dec_bind (opt_field dec_str d ''reason'' '''') (\<lambda>r.
     dec_bind (opt_field dec_num d ''confidence'' (1 / 2)) (\<lambda>x.
     dec_bind (opt_field (dec_list dec_str) d ''tags'' []) (\<lambda>tags.
     Decoded \<lparr>mk_kind = k, mk_content = c, mk_reason = r, mk_confidence = x, mk_tags = tags\<rparr>)))))"

definition dec_object :: "(pydict \<Rightarrow> 'a decoded) \<Rightarrow> pyval \<Rightarrow> 'a decoded" where
  "dec_object f v = dec_bind (dec_dict v) f"

definition result_from_dict :: "pydict \<Rightarrow> research_result decoded" where
  "result_from_dict d =
     dec_bind (dec_bind (opt_field dec_dict d ''task'' []) task_from_dict) (\<lambda>t.
     dec_bind (opt_field (dec_list (dec_object source_from_dict)) d ''sources'' []) (\<lambda>ss.
     dec_bind (opt_field (dec_list (dec_object finding_from_dict)) d ''findings'' []) (\<lambda>fs.
     dec_bind (opt_field (dec_list (dec_object recommendation_from_dict)) d ''recommendations'' []) (\<lambda>rs.
     dec_bind (opt_field (dec_list (dec_object candidate_from_dict)) d ''memory_candidates'' []) (\<lambda>cs.
     dec_bind (opt_field dec_str d ''status'' ''ok'') (\<lambda>st.
     dec_bind (opt_field dec_str d ''summary_short'' '''') (\<lambda>su.
     dec_bind (opt_field dec_num d ''confidence_overall'' 0) (\<lambda>x.
     dec_bind (opt_field dec_str d ''error'' '''') (\<lambda>e.
     Decoded \<lparr>rr_task = t, rr_status = st, rr_summary = su, rr_sources = ss, rr_findings = fs, rr_confidence = x,
       rr_recommendations = rs, rr_candidates = cs, rr_error = e\<rparr>)))))))))"

end
