(* ===== verification/ResearchAgent.thy ===== *)
theory ResearchAgent
  imports Research
begin

text \<open>
  The research agent (\<open>agents/research.py\<close>): collecting local sources and those of a fetcher, deduplicating them,
  synthesizing findings and validating the result. A source tree is the tree of the files below a path.
\<close>

section \<open>Local sources\<close>

definition RESEARCH_SKIP_DIRS :: "string list" where
  "RESEARCH_SKIP_DIRS = [''.git'', ''.venv'', ''venv'', ''__pycache__'', ''dist'', ''build'', ''node_modules'',
     ''site-packages'', ''.aios'']"

definition TEXT_EXTENSIONS :: "string list" where
  "TEXT_EXTENSIONS = [''.py'', ''.md'', ''.rst'', ''.txt'', ''.toml'', ''.yaml'', ''.yml'', ''.json'', ''.cfg'', ''.ini'',
     ''.html'', ''.sh'', ''.js'', ''.ts'', ''.tsx'', ''.jsx'', ''.go'', ''.rs'', ''.c'', ''.h'', ''.cpp'', ''.java'']"

definition RESEARCH_STOPWORDS :: "string list" where
  "RESEARCH_STOPWORDS = [''a'', ''an'', ''and'', ''are'', ''as'', ''at'', ''be'', ''by'', ''does'', ''for'', ''from'',
     ''how'', ''in'', ''into'', ''is'', ''it'', ''of'', ''on'', ''or'', ''that'', ''the'', ''this'', ''to'', ''was'',
     ''what'', ''when'', ''where'', ''which'', ''with'', ''do'', ''should'', ''we'', ''you'', ''your'', ''i'', ''me'', ''my'']"

text \<open>Letters among the first 256 code points.\<close>

definition is_alpha :: "char \<Rightarrow> bool" where
  "is_alpha c = (let n = code c in is_lower_ascii c \<or> is_upper_ascii c \<or> n \<in> {170, 181, 186} \<or>
     192 \<le> n \<and> n \<noteq> 215 \<and> n \<noteq> 247)"

definition question_words :: "string \<Rightarrow> string list" where
  "question_words question = take 5 (filter (\<lambda>w. 3 \<le> length w \<and> w \<notin> set RESEARCH_STOPWORDS \<and> list_all is_alpha w)
     (split_ws (lower question)))"

definition text_file :: "string \<Rightarrow> bool" where
  "text_file name \<longleftrightarrow> list_ex (endswith name) TEXT_EXTENSIONS"

text \<open>The files of a directory by name, then those of its directories as the system lists them.\<close>

definition files_of :: "tree \<Rightarrow> (string list \<times> string) list" where
  "files_of t = concat (map (\<lambda>(name, n). case n of File c \<Rightarrow> if text_file name then [([name], c)] else [] | Dir _ \<Rightarrow> [])
     (sort_key fst t))"

definition research_skips :: "string \<Rightarrow> bool" where
  "research_skips d \<longleftrightarrow> d \<in> set RESEARCH_SKIP_DIRS \<or> startswith d ''.''"

fun files_in_dirs :: "tree \<Rightarrow> (string list \<times> string) list" where
  "files_in_dirs [] = []"
| "files_in_dirs ((name, File c) # items) = files_in_dirs items"
| "files_in_dirs ((name, Dir t) # items) =
     (if research_skips name then [] else map (\<lambda>(p, c). (name # p, c)) (files_of t @ files_in_dirs t)) @
     files_in_dirs items"

definition text_files :: "tree \<Rightarrow> (string list \<times> string) list" where
  "text_files t = files_of t @ files_in_dirs t"

definition snippet :: "string \<Rightarrow> string list \<Rightarrow> string" where
  "snippet text kws =
     (let positions = concat (map (\<lambda>k. case find_sub k (lower text) of None \<Rightarrow> [] | Some i \<Rightarrow> [i]) kws) in
      if positions = [] then take 160 text
      else strip (take 160 (drop (Min (set positions) - 80) text)))"

definition mentions :: "string list \<Rightarrow> string list \<times> string \<Rightarrow> bool" where
  "mentions kws f \<longleftrightarrow> list_ex (contains (lower (path_str (fst f) @ '' '' @ snd f))) kws"

definition local_source :: "string \<Rightarrow> string list \<Rightarrow> nat \<Rightarrow> string list \<times> string \<Rightarrow> research_source" where
  "local_source now kws i f =
     \<lparr>rs_id = ''local-'' @ digits i, rs_title = path_str (fst f), rs_url = ''file://'' @ path_str (fst f),
      rs_type = (if list_ex (\<lambda>p. p \<in> {''docs'', ''doc'', ''documentation''}) (fst f) then ''doc'' else ''code''),
      rs_retrieved = now, rs_trust = 7 / 10, rs_snippet = snippet (snd f) kws, rs_tags = [''local'']\<rparr>"

definition MAX_LOCAL_SOURCES :: nat where
  "MAX_LOCAL_SOURCES = 10"

definition collect_local :: "string \<Rightarrow> tree \<Rightarrow> string \<Rightarrow> research_source list" where
  "collect_local now t question =
     (let kws = question_words question in
      if kws = [] then []
      else map (\<lambda>(i, f). local_source now kws i f)
        (enumerate 1 (take MAX_LOCAL_SOURCES (filter (mentions kws) (text_files t)))))"

section \<open>The pipeline\<close>

record research_env =
  re_now :: string
  re_tree :: "string option \<Rightarrow> tree"
  re_fetcher :: "(research_task \<Rightarrow> exn + research_source list) option"
  re_synthesizer ::
    "(research_task \<Rightarrow> research_source list \<Rightarrow> exn + finding list \<times> recommendation list \<times> memory_candidate list) option"
  re_dumps :: "pyval \<Rightarrow> string"

definition WEB_UNAVAILABLE :: recommendation where
  "WEB_UNAVAILABLE = \<lparr>rm_action = ''Configure a web source fetcher before requesting web research'',
     rm_rationale = ''Web collection is unavailable: no fetcher/provider is injected. '' @
       ''This result contains no research claims about external sources.'',
     rm_risk = ''high'', rm_priority = ''low'', rm_sources = []\<rparr>"

text \<open>The root in the packet: that of the project, that of the packet, or the current directory.\<close>

definition project_root :: "pydict \<Rightarrow> exn + string option" where
  "project_root p =
     (let pr = dict_get p ''project'' (PDict []);
          answer = (\<lambda>d. let r = dict_get d ''root'' PNone; root = (if truthy r then r else dict_get p ''root'' PNone) in
            if \<not> truthy root then Inr None else (case as_arg root of Inl e \<Rightarrow> Inl e | Inr s \<Rightarrow> Inr (Some s))) in
      if \<not> truthy pr then answer []
      else case pr of PDict d \<Rightarrow> answer d | _ \<Rightarrow> Inl (Exn AttributeError ''object has no attribute get''))"

definition web_unavailable :: "research_env \<Rightarrow> research_task \<Rightarrow> bool" where
  "web_unavailable E t \<longleftrightarrow> rk_scope t \<in> {''web'', ''mixed''} \<and> re_fetcher E = None"

definition fetch :: "research_env \<Rightarrow> research_task \<Rightarrow> research_source list" where
  "fetch E t = (case re_fetcher E of None \<Rightarrow> [] | Some f \<Rightarrow> (case f t of Inl _ \<Rightarrow> [] | Inr ss \<Rightarrow> ss))"

definition collect :: "research_env \<Rightarrow> research_task \<Rightarrow> exn + research_source list" where
  "collect E t =
     (case (if rk_scope t \<in> {''repo'', ''docs'', ''mixed''}
            then map_sum id (\<lambda>r. collect_local (re_now E) (re_tree E r) (rk_question t)) (project_root (rk_packet t))
            else Inr []) of
        Inl e \<Rightarrow> Inl e
      | Inr ss \<Rightarrow> Inr (ss @ (if rk_scope t \<in> {''web'', ''mixed''} then fetch E t else [])))"

fun dedupe_urls :: "string list \<Rightarrow> research_source list \<Rightarrow> research_source list" where
  "dedupe_urls seen [] = []"
| "dedupe_urls seen (s # ss) =
     (let key = strip (rs_url s) in
      if key = [] \<or> key \<in> set seen then dedupe_urls seen ss else s # dedupe_urls (key # seen) ss)"

definition overall_confidence :: "research_source list \<Rightarrow> rat" where
  "overall_confidence ss =
     (if ss = [] then 0 else round_to 2 (sum_list (map rs_trust ss) / of_nat (length ss)))"

definition research_summary :: "research_source list \<Rightarrow> finding list \<Rightarrow> rat \<Rightarrow> string" where
  "research_summary ss fs x = ''Collected '' @ digits (length ss) @ '' source(s), '' @ digits (length fs) @
     '' finding(s), confidence '' @ fixed 2 x @ ''.''"

definition heuristic_finding :: "nat \<times> research_source \<Rightarrow> finding" where
  "heuristic_finding x = (case x of (i, s) \<Rightarrow>
     \<lparr>fd_id = CHR ''F'' # digits i, fd_claim = take 200 (if rs_snippet s = [] then rs_title s else rs_snippet s),
      fd_evidence = [rs_id s], fd_confidence = rs_trust s, fd_applies = '''', fd_tags = rs_tags s\<rparr>)"

definition candidate_kind :: "string list \<Rightarrow> string option" where
  "candidate_kind tags = find (\<lambda>t. t \<in> set VALID_CANDIDATE_KINDS) tags"

definition heuristic_candidates :: "finding \<Rightarrow> memory_candidate list" where
  "heuristic_candidates f =
     (if fd_confidence f < 7 / 10 then []
      else case candidate_kind (fd_tags f) of
        None \<Rightarrow> []
      | Some k \<Rightarrow> [\<lparr>mk_kind = k, mk_content = fd_claim f,
          mk_reason = ''High-confidence finding derived from a collected source'', mk_confidence = fd_confidence f,
          mk_tags = fd_tags f\<rparr>])"

definition heuristic_synthesize ::
  "research_source list \<Rightarrow> finding list \<times> recommendation list \<times> memory_candidate list" where
  "heuristic_synthesize ss = (let fs = map heuristic_finding (enumerate 1 ss) in
     (fs, [], concat (map heuristic_candidates fs)))"

definition synthesize ::
  "research_env \<Rightarrow> research_task \<Rightarrow> research_source list \<Rightarrow>
   exn + finding list \<times> recommendation list \<times> memory_candidate list" where
  "synthesize E t ss =
     (case (case re_synthesizer E of None \<Rightarrow> Inr (heuristic_synthesize ss) | Some f \<Rightarrow> f t ss) of
        Inl e \<Rightarrow> Inl e
      | Inr (fs, rs, cs) \<Rightarrow> Inr (fs, if web_unavailable E t then rs @ [WEB_UNAVAILABLE] else rs, cs))"

definition empty_result :: "research_task \<Rightarrow> bool \<Rightarrow> research_result" where
  "empty_result t unavailable =
     \<lparr>rr_task = t, rr_status = (if unavailable then ''source_unavailable'' else ''ok''),
      rr_summary = (if unavailable
        then ''Web collection unavailable: configure a fetcher/provider to research external sources.''
        else ''No sources matched the research question.''),
      rr_sources = [], rr_findings = [], rr_confidence = 0,
      rr_recommendations = (if unavailable then [WEB_UNAVAILABLE] else []), rr_candidates = [], rr_error = ''''\<rparr>"

definition validated :: "research_result \<Rightarrow> exn + research_result" where
  "validated r = (case validate_research_result r of
     [] \<Rightarrow> Inr r | errors \<Rightarrow> Inl (Exn ResearchError (join ''; '' errors)))"

definition research :: "research_env \<Rightarrow> research_task \<Rightarrow> exn + research_result" where
  "research E t =
     (case collect E t of
        Inl e \<Rightarrow> Inl e
      | Inr found \<Rightarrow>
          let ss = dedupe_urls [] found in
          if ss = [] then Inr (empty_result t (web_unavailable E t))
          else (case synthesize E t ss of
            Inl e \<Rightarrow> Inl e
          | Inr (fs, rs, cs) \<Rightarrow> validated
              \<lparr>rr_task = t, rr_status = (if web_unavailable E t then ''partial'' else ''ok''),
               rr_summary = research_summary ss fs (overall_confidence ss), rr_sources = ss, rr_findings = fs,
               rr_confidence = overall_confidence ss, rr_recommendations = rs, rr_candidates = cs, rr_error = ''''\<rparr>))"

text \<open>The task of the agent: the packet in the parameters, or that of the context. Constraints or a packet that
  are no dictionaries raise, at the latest when the result is written.\<close>

definition dict_or_raise :: "pyval \<Rightarrow> exn + pydict" where
  "dict_or_raise v = (case v of PDict d \<Rightarrow> Inr d | _ \<Rightarrow>
     if truthy v then Inl (Exn TypeError ''object is not a mapping'') else Inr [])"

definition research_task_of :: "agent_task \<Rightarrow> pydict option \<Rightarrow> exn + research_task" where
  "research_task_of t ctx =
     (let p = at_params t; scope = dict_get p ''scope'' (PStr ''mixed'');
          given = dict_get p ''context_packet'' PNone;
          packet = (if given = PNone then (case ctx of None \<Rightarrow> PNone | Some d \<Rightarrow> PDict d) else given) in
      case dict_or_raise (dict_get p ''constraints'' (PDict [])) of Inl e \<Rightarrow> Inl e | Inr c \<Rightarrow>
        (case dict_or_raise packet of Inl e \<Rightarrow> Inl e | Inr d \<Rightarrow>
          Inr \<lparr>rk_question = at_description t,
            rk_scope = (case scope of PStr s \<Rightarrow> if s \<in> set VALID_SCOPES then s else ''mixed'' | _ \<Rightarrow> ''mixed''),
            rk_constraints = c, rk_packet = d\<rparr>))"

definition research_execute :: "research_env \<Rightarrow> agent_task \<Rightarrow> pydict option \<Rightarrow> exn + agent_result" where
  "research_execute E t ctx =
     (case research_task_of t ctx of
        Inl e \<Rightarrow> Inl e
      | Inr rt \<Rightarrow> (case research E rt of
          Inl e \<Rightarrow> if exn_kind e = ResearchError then Inr (failed_answer ''research'' t (exn_message e) [exn_message e])
            else Inl e
        | Inr r \<Rightarrow> Inr ((success_answer ''research'' t (re_dumps E (PDict (result_to_dict r))))
            \<lparr>res_success := (rr_status r \<noteq> ''error'')\<rparr>)))"

section \<open>Dictionaries\<close>

lemma dec_all_map: "(\<And>x. f (g x) = Decoded x) \<Longrightarrow> dec_all f (map g xs) = Decoded xs"
  by (induction xs) simp_all

lemma dec_strs: "dec_list dec_str (strs xs) = Decoded xs"
  by (simp add: dec_list_def strs_def dec_all_map)

text \<open>While a value is read, what is done with it stays untouched.\<close>

lemma dec_bind_weak: "m = n \<Longrightarrow> dec_bind m f = dec_bind n f"
  by simp

lemmas decode_defs = field_def opt_field_def dec_object_def dec_strs

lemma task_decoded: "task_from_dict (task_to_dict t) = Decoded t"
  by (simp add: task_from_dict_def task_to_dict_def decode_defs cong: dec_bind_weak)

lemma source_decoded: "source_from_dict (source_to_dict s) = Decoded s"
  by (simp add: source_from_dict_def source_to_dict_def decode_defs cong: dec_bind_weak)

lemma finding_decoded: "finding_from_dict (finding_to_dict s) = Decoded s"
  by (simp add: finding_from_dict_def finding_to_dict_def decode_defs cong: dec_bind_weak)

lemma recommendation_decoded: "recommendation_from_dict (recommendation_to_dict s) = Decoded s"
  by (simp add: recommendation_from_dict_def recommendation_to_dict_def decode_defs cong: dec_bind_weak)

lemma candidate_decoded: "candidate_from_dict (candidate_to_dict s) = Decoded s"
  by (simp add: candidate_from_dict_def candidate_to_dict_def decode_defs cong: dec_bind_weak)

lemma objects_decoded: "(\<And>x. f (g x) = Decoded x) \<Longrightarrow> dec_list (dec_object f) (PList (map (PDict \<circ> g) xs)) = Decoded xs"
  by (simp add: dec_list_def dec_object_def dec_all_map)

text \<open>Reading the dictionary of a research result answers the result, every field of its task, sources,
  findings, recommendations and candidates.\<close>

theorem research_result_roundtrip: "result_from_dict (result_to_dict r) = Decoded r"
  by (simp add: result_from_dict_def result_to_dict_def decode_defs task_decoded
      objects_decoded [OF source_decoded] objects_decoded [OF finding_decoded]
      objects_decoded [OF recommendation_decoded] objects_decoded [OF candidate_decoded] cong: dec_bind_weak)

section \<open>What research answers\<close>

lemma check_Nil: "check ok m = [] \<longleftrightarrow> ok"
  by (simp add: check_def)

lemma validate_findings_evidence:
  "validate_findings ids seen fs = [] \<Longrightarrow> f \<in> set fs \<Longrightarrow>
     strip (fd_claim f) \<noteq> [] \<and> fd_evidence f \<noteq> [] \<and> set (fd_evidence f) \<subseteq> set ids"
  by (induction fs arbitrary: seen) (auto simp: check_Nil Let_def)

lemma validated_Inr: "validated x = Inr r \<longleftrightarrow> x = r \<and> validate_research_result r = []"
  by (auto simp: validated_def split: list.splits)

lemma dedupe_urls_distinct:
  "distinct (map (strip \<circ> rs_url) (dedupe_urls seen ss)) \<and>
   set (map (strip \<circ> rs_url) (dedupe_urls seen ss)) \<inter> set seen = {}"
proof (induction ss arbitrary: seen)
  case (Cons s ss)
  show ?case
  proof (cases "strip (rs_url s) = [] \<or> strip (rs_url s) \<in> set seen")
    case True
    then show ?thesis using Cons.IH [of seen] by (simp add: Let_def)
  next
    case False
    then show ?thesis using Cons.IH [of "strip (rs_url s) # seen"] by (auto simp: Let_def)
  qed
qed simp

lemma synthesize_recommendations:
  "synthesize E t ss = Inr (fs, rs, cs) \<Longrightarrow> web_unavailable E t \<Longrightarrow> WEB_UNAVAILABLE \<in> set rs"
  by (auto simp: synthesize_def split: sum.splits option.splits prod.splits)

definition grounded :: "research_result \<Rightarrow> bool" where
  "grounded r \<longleftrightarrow> (\<forall>f \<in> set (rr_findings r). strip (fd_claim f) \<noteq> [] \<and> fd_evidence f \<noteq> [] \<and>
     set (fd_evidence f) \<subseteq> rs_id ` set (rr_sources r)) \<and>
     distinct (map (strip \<circ> rs_url) (rr_sources r))"

lemma valid_findings_grounded:
  assumes "validate_research_result r = []" "distinct (map (strip \<circ> rs_url) (rr_sources r))"
  shows "grounded r"
proof -
  from assms(1) have "validate_findings (map rs_id (rr_sources r)) [] (rr_findings r) = []"
    by (simp add: validate_research_result_def Let_def)
  from validate_findings_evidence [OF this] assms(2) show ?thesis
    by (auto simp: grounded_def)
qed

lemma empty_grounded: "grounded (empty_result t b)"
  by (simp add: grounded_def empty_result_def)

definition honest :: "research_env \<Rightarrow> research_task \<Rightarrow> research_result \<Rightarrow> bool" where
  "honest E t r \<longleftrightarrow> rr_task r = t \<and> grounded r \<and>
     (rr_sources r = [] \<longrightarrow> r = empty_result t (web_unavailable E t)) \<and>
     (rr_sources r \<noteq> [] \<longrightarrow> validate_research_result r = [] \<and>
        rr_status r = (if web_unavailable E t then ''partial'' else ''ok'')) \<and>
     (web_unavailable E t \<longrightarrow> WEB_UNAVAILABLE \<in> set (rr_recommendations r))"

lemma research_answers_honest:
  assumes "research E t = Inr r"
  shows "honest E t r"
proof -
  from assms obtain found where found: "collect E t = Inr found"
    by (cases "collect E t") (simp_all add: research_def)
  define ss where "ss = dedupe_urls [] found"
  show ?thesis
  proof (cases "ss = []")
    case True
    with assms found have "r = empty_result t (web_unavailable E t)" by (simp add: research_def ss_def)
    then show ?thesis using empty_grounded by (simp add: honest_def empty_result_def)
  next
    case False
    with assms found obtain fs rs cs where syn: "synthesize E t ss = Inr (fs, rs, cs)"
      by (cases "synthesize E t ss") (auto simp: research_def ss_def Let_def)
    from assms found False syn have r: "r = \<lparr>rr_task = t, rr_status = (if web_unavailable E t then ''partial'' else ''ok''),
        rr_summary = research_summary ss fs (overall_confidence ss), rr_sources = ss, rr_findings = fs,
        rr_confidence = overall_confidence ss, rr_recommendations = rs, rr_candidates = cs, rr_error = ''''\<rparr>"
      and valid: "validate_research_result r = []"
      by (simp_all add: research_def ss_def [symmetric] validated_Inr Let_def)
    have "distinct (map (strip \<circ> rs_url) (rr_sources r))"
      using dedupe_urls_distinct [of "[]" found] by (simp add: r ss_def)
    with valid have "grounded r" by (rule valid_findings_grounded)
    with valid False synthesize_recommendations [OF syn] show ?thesis
      by (simp add: honest_def r)
  qed
qed

lemma web_only_without_fetcher:
  assumes "rk_scope t = ''web''" "re_fetcher E = None"
  shows "research E t = Inr (empty_result t True)"
  using assms by (simp add: research_def collect_def fetch_def web_unavailable_def)

text \<open>Whatever the fetcher and the synthesizer answer, a result of research is about the task; every finding
  makes a claim and names sources of the result, which are distinct by address; a result with sources passed the
  validation and says \<open>partial\<close> exactly where the web could not be asked; one without sources makes no claim; and where
  the web could not be asked the result says so. A web task without a fetcher answers at once that no source is available.\<close>

theorem research_never_fabricates:
  "(\<forall>r. research E t = Inr r \<longrightarrow> honest E t r) \<and>
   (rk_scope t = ''web'' \<longrightarrow> re_fetcher E = None \<longrightarrow>
      research E t = Inr (empty_result t True) \<and> rr_findings (empty_result t True) = [] \<and>
      rr_status (empty_result t True) = ''source_unavailable'')"
  using research_answers_honest web_only_without_fetcher by (auto simp: empty_result_def)

text \<open>A file of blanks whose path matches a word of the question fails the whole research: the snippet is not
  stripped when no word is found in the text, and the finding made of it claims nothing.\<close>

definition local_env :: "tree \<Rightarrow> research_env" where
  "local_env t = \<lparr>re_now = ''now'', re_tree = (\<lambda>_. t), re_fetcher = None, re_synthesizer = None, re_dumps = (\<lambda>_. [])\<rparr>"

definition cache_task :: research_task where
  "cache_task = \<lparr>rk_question = ''how does cache work'', rk_scope = ''repo'', rk_constraints = [], rk_packet = []\<rparr>"

lemma blank_file_fails_research:
  "research (local_env [(''a.py'', File ''the cache''), (''cache.md'', File ''   '')]) cache_task =
     Inl (Exn ResearchError ''finding F2: claim is required'')"
  by code_simp

definition scoped_task :: "string \<Rightarrow> research_task" where
  "scoped_task s = cache_task\<lparr>rk_scope := s\<rparr>"

lemma local_example:
  "map_sum id (\<lambda>r. (rr_status r, map fd_claim (rr_findings r)))
     (research (local_env [(''a.py'', File ''the cache'')]) (scoped_task ''mixed'')) = Inr (''partial'', [''the cache''])"
  by code_simp

lemma map_sum_all: "map_sum id f x = Inr y \<Longrightarrow> \<forall>r. x = Inr r \<longrightarrow> P r \<Longrightarrow> \<exists>r. x = Inr r \<and> P r \<and> f r = y"
  by (cases x) simp_all

lemma web_alone: "rk_scope (scoped_task ''web'') = ''web''" "re_fetcher (local_env []) = None"
  by (simp_all add: scoped_task_def local_env_def)

theorem research_never_fabricates_witness:
  "(\<exists>r. research (local_env [(''a.py'', File ''the cache'')]) (scoped_task ''mixed'') = Inr r \<and>
      honest (local_env [(''a.py'', File ''the cache'')]) (scoped_task ''mixed'') r \<and>
      (rr_status r, map fd_claim (rr_findings r)) = (''partial'', [''the cache''])) \<and>
   research (local_env []) (scoped_task ''web'') = Inr (empty_result (scoped_task ''web'') True)"
  by (rule conjI [OF map_sum_all [OF local_example conjunct1 [OF research_never_fabricates]]
        conjunct1 [OF mp [OF mp [OF conjunct2 [OF research_never_fabricates] web_alone(1)] web_alone(2)]]])

end
