(* ===== verification/Routing.thy ===== *)
theory Routing
  imports PyStr Agents
begin

text \<open>
  Model routing. The rule-based router (\<open>routing/engine.py\<close>) picks a provider and model for an
  agent run from the policy of the configuration, with a fallback chain and a cost cap; the
  runtime engine (\<open>runtime/__init__.py\<close>) tries the picked model and then the chain, one after
  the other. Prices are exact rationals. The runtime adapter, which starts an external program,
  is a parameter; what the runtime relies on of its router is the locale \<open>model_router\<close>.
\<close>

section \<open>Configuration and data\<close>

text \<open>Rules and fallback entries are string dictionaries, as they come from the YAML file.\<close>

type_synonym config_entry = "(string \<times> string) list"

record route_config =
  default_provider :: string
  default_model :: string
  default_variant :: string
  rules :: "config_entry list"
  cost_cap :: rat
  context_limits :: "(string \<times> int) list"
  fallback_providers :: "config_entry list"

record route_input =
  ri_agent :: string
  ri_task_type :: string
  ri_complexity :: string
  ri_context_size :: int
  ri_model_override :: string

record fallback =
  fb_provider :: string
  fb_model :: string
  fb_variant :: string

record route_decision =
  rd_provider :: string
  rd_model :: string
  rd_variant :: string
  rd_reason :: string
  rd_cost :: rat
  rd_chain :: "fallback list"
  rd_source :: string

definition MODEL_PRICING :: "(string \<times> rat) list" where
  "MODEL_PRICING =
     [(''ollama/llama3'', 0),
      (''ollama/llama3:70b'', 0),
      (''ollama/codellama'', 0),
      (''anthropic/claude-haiku'', 125 / 100),
      (''anthropic/claude-sonnet'', 3),
      (''anthropic/claude-opus'', 15),
      (''openai/gpt-4o-mini'', 15 / 100),
      (''openai/gpt-4o'', 25 / 10),
      (''openrouter/deepseek/deepseek-v4-flash'', 68 / 1000),
      (''openrouter/deepseek/deepseek-v4-flash-0731'', 8 / 100),
      (''openrouter/deepseek/deepseek-v4-flash-latest'', 8 / 100),
      (''openrouter/qwen/qwen3-coder'', 22 / 100),
      (''openrouter/openai/gpt-5-mini'', 30 / 100),
      (''openrouter/anthropic/claude-sonnet-4-5'', 3),
      (''opencode-go/opencode-go/qwen3.8-flash'', 15 / 100),
      (''opencode-go/opencode-go/deepseek-v4-flash'', 22 / 100),
      (''opencode-go/opencode-go/deepseek-v4-flash-peak'', 44 / 100),
      (''opencode-go/opencode-go/longcat-2.0'', 30 / 100),
      (''opencode-go/opencode-go/mimo-v2.5'', 14 / 100),
      (''opencode-go/opencode-go/mimo-v2.5-pro'', 435 / 1000),
      (''opencode-go/opencode-go/glm-5.3-flash'', 15 / 100),
      (''opencode-go/opencode-go/minimax-m3'', 30 / 100),
      (''opencode-go/opencode-go/omen-alpha'', 20 / 100)]"

definition COMPLEXITY_VARIANT :: "(string \<times> string) list" where
  "COMPLEXITY_VARIANT = [(''high'', ''high''), (''medium'', ''''), (''low'', ''minimal'')]"

definition COMPLEXITY_TOKENS :: "(string \<times> int) list" where
  "COMPLEXITY_TOKENS = [(''high'', 2000), (''medium'', 1000), (''low'', 500)]"

definition PROVIDER_SLUGS :: "string list" where
  "PROVIDER_SLUGS = [''ollama'', ''openrouter'', ''openai'', ''anthropic'', ''google'', ''groq'',
     ''deepseek'', ''mistral'']"

section \<open>The router\<close>

definition named_providers :: "config_entry list \<Rightarrow> string list" where
  "named_providers es = filter (\<lambda>p. p \<noteq> []) (map (\<lambda>e. dict_get e ''provider'' []) es)"

definition known_providers :: "route_config \<Rightarrow> string list" where
  "known_providers cfg =
     default_provider cfg # named_providers (rules cfg) @ named_providers (fallback_providers cfg)"

definition rule_matches :: "route_config \<Rightarrow> config_entry \<Rightarrow> route_input \<Rightarrow> bool" where
  "rule_matches cfg rule inp =
     (let rule_agent = dict_get rule ''agent'' [];
          rule_complexity = dict_get rule ''complexity'' [];
          limit = dict_get (context_limits cfg) (ri_agent inp) 0
      in if rule_agent \<noteq> [] \<and> rule_agent \<noteq> ri_agent inp then False
         else if rule_complexity \<noteq> [] \<and> rule_complexity \<noteq> ri_complexity inp then False
         else \<not> (limit \<noteq> 0 \<and> ri_context_size inp > limit))"

definition estimate_cost :: "string \<Rightarrow> string \<Rightarrow> int \<Rightarrow> rat" where
  "estimate_cost model_id complexity context_size =
     (let price = dict_get MODEL_PRICING (remove_char (CHR ''~'') model_id)
            (dict_get MODEL_PRICING ''ollama/llama3'' 0)
      in if price = 0 then 0
         else let input_tokens = max context_size 1 * 4;
                  output_tokens = dict_get COMPLEXITY_TOKENS complexity 1000
              in (price * of_int input_tokens + price * 3 * of_int output_tokens) / 1000000)"

definition model_id :: "string \<Rightarrow> string \<Rightarrow> string list \<Rightarrow> string" where
  "model_id provider model known =
     (if CHR ''/'' \<notin> set model then provider @ ''/'' @ model
      else let first = fst (partition_char (CHR ''/'') model) in
           if first = provider \<or> first \<in> set known \<or> first \<in> set PROVIDER_SLUGS
           then model else provider @ ''/'' @ model)"

fun build_chain :: "route_config \<Rightarrow> string list \<Rightarrow> config_entry list \<Rightarrow> fallback list" where
  "build_chain cfg seen [] = []"
| "build_chain cfg seen (fp # fps) =
     (let p = dict_get fp ''provider'' [] in
      if p = [] \<or> p \<in> set seen then build_chain cfg seen fps
      else \<lparr>fb_provider = p,
            fb_model = model_id p (dict_get fp ''model'' (default_model cfg)) (known_providers cfg),
            fb_variant = dict_get fp ''variant'' ''''\<rparr> # build_chain cfg (p # seen) fps)"

definition build_fallback_chain :: "route_config \<Rightarrow> string \<Rightarrow> fallback list" where
  "build_fallback_chain cfg current = build_chain cfg [current] (fallback_providers cfg)"

definition override_decision :: "route_input \<Rightarrow> route_decision" where
  "override_decision inp =
     (case partition_char (CHR ''/'') (ri_model_override inp) of (p, _, model_name) \<Rightarrow>
        let provider = (if model_name = [] then [] else p) in
        \<lparr>rd_provider = (if provider = [] then ''unknown'' else provider),
         rd_model = ri_model_override inp, rd_variant = '''', rd_reason = ''explicit_override'',
         rd_cost = estimate_cost (ri_model_override inp) (ri_complexity inp) (ri_context_size inp),
         rd_chain = [], rd_source = ''override''\<rparr>)"

definition decision_from_rule ::
  "route_config \<Rightarrow> config_entry \<Rightarrow> nat \<Rightarrow> route_input \<Rightarrow> route_decision" where
  "decision_from_rule cfg rule idx inp =
     (let provider = dict_get rule ''provider'' (default_provider cfg);
          model = dict_get rule ''model'' (default_model cfg);
          variant = dict_get rule ''variant'' (dict_get COMPLEXITY_VARIANT (ri_complexity inp) '''');
          mid = model_id provider model (known_providers cfg)
      in \<lparr>rd_provider = provider, rd_model = mid, rd_variant = variant,
          rd_reason = ''policy:'' @ digits idx,
          rd_cost = estimate_cost mid (ri_complexity inp) (ri_context_size inp),
          rd_chain = build_fallback_chain cfg provider, rd_source = ''router''\<rparr>)"

definition default_decision :: "route_config \<Rightarrow> route_input \<Rightarrow> route_decision" where
  "default_decision cfg inp =
     (let provider = default_provider cfg;
          mid = model_id provider (default_model cfg) (known_providers cfg)
      in \<lparr>rd_provider = provider, rd_model = mid,
          rd_variant = (if default_variant cfg = []
            then dict_get COMPLEXITY_VARIANT (ri_complexity inp) '''' else default_variant cfg),
          rd_reason = ''heuristic:default'',
          rd_cost = estimate_cost mid (ri_complexity inp) (ri_context_size inp),
          rd_chain = build_fallback_chain cfg provider, rd_source = ''router''\<rparr>)"

definition fallback_cost :: "route_input \<Rightarrow> fallback \<Rightarrow> rat" where
  "fallback_cost inp fb = estimate_cost (fb_model fb) (ri_complexity inp) (ri_context_size inp)"

definition apply_cost_cap ::
  "route_config \<Rightarrow> route_input \<Rightarrow> route_decision \<Rightarrow> nat \<Rightarrow> exn + route_decision" where
  "apply_cost_cap cfg inp d idx =
     (let cap = cost_cap cfg in
      if cap \<le> 0 \<or> rd_cost d \<le> cap then Inr d
      else case find (\<lambda>fb. fallback_cost inp fb \<le> cap) (rd_chain d) of
        Some fb \<Rightarrow> Inr
          \<lparr>rd_provider = fb_provider fb, rd_model = fb_model fb, rd_variant = fb_variant fb,
           rd_reason = ''policy:'' @ digits idx @ ''+cost_cap'', rd_cost = fallback_cost inp fb,
           rd_chain = filter (\<lambda>c. fb_provider c \<noteq> fb_provider fb) (rd_chain d),
           rd_source = ''router''\<rparr>
      | None \<Rightarrow> Inl (Exn RuntimeError
          (''Cost cap $'' @ fixed 2 cap @ '' exceeded: model '' @ rd_model d @ '' costs $'' @
           fixed 4 (rd_cost d) @ '', and no fallback provider fits the budget'')))"

fun first_rule ::
  "route_config \<Rightarrow> route_input \<Rightarrow> nat \<Rightarrow> config_entry list \<Rightarrow> (nat \<times> config_entry) option" where
  "first_rule cfg inp i [] = None"
| "first_rule cfg inp i (r # rs) =
     (if rule_matches cfg r inp then Some (i, r) else first_rule cfg inp (i + 1) rs)"

definition route :: "route_config \<Rightarrow> route_input \<Rightarrow> exn + route_decision" where
  "route cfg inp =
     (if ri_model_override inp \<noteq> [] then Inr (override_decision inp)
      else case first_rule cfg inp 0 (rules cfg) of
        Some (i, rule) \<Rightarrow> apply_cost_cap cfg inp (decision_from_rule cfg rule i inp) i
      | None \<Rightarrow> Inr (default_decision cfg inp))"

section \<open>Chains\<close>

lemma build_chain_fresh: "p \<in> set (map fb_provider (build_chain cfg seen fps)) \<Longrightarrow> p \<notin> set seen \<and> p \<noteq> []"
  by (induction cfg seen fps rule: build_chain.induct) (auto simp: Let_def split: if_splits)

lemma build_chain_distinct: "distinct (map fb_provider (build_chain cfg seen fps))"
proof (induction cfg seen fps rule: build_chain.induct)
  case (2 cfg seen fp fps)
  let ?p = "dict_get fp ''provider'' []"
  have "?p \<notin> fb_provider ` set (build_chain cfg (?p # seen) fps)"
    using build_chain_fresh [of ?p cfg "?p # seen" fps] by auto
  then show ?case using 2 by (auto simp: Let_def)
qed simp

lemma build_chain_complete:
  assumes "fp \<in> set fps" and "dict_get fp ''provider'' [] \<noteq> []"
    and "dict_get fp ''provider'' [] \<notin> set seen"
  shows "dict_get fp ''provider'' [] \<in> fb_provider ` set (build_chain cfg seen fps)"
  using assms by (induction cfg seen fps rule: build_chain.induct) (auto simp: Let_def)

definition chain_ok :: "route_decision \<Rightarrow> bool" where
  "chain_ok d \<longleftrightarrow> distinct (rd_provider d # map fb_provider (rd_chain d))"

lemma fallback_chain_ok:
  "distinct (current # map fb_provider (build_fallback_chain cfg current))"
  using build_chain_fresh [of current cfg "[current]" "fallback_providers cfg"]
  by (auto simp: build_fallback_chain_def build_chain_distinct)

lemma apply_cost_cap_chain:
  assumes "chain_ok d" and "apply_cost_cap cfg inp d i = Inr d'"
  shows "chain_ok d'"
  using assms
  by (auto simp: apply_cost_cap_def chain_ok_def Let_def split: if_splits option.splits
      intro: distinct_map_filter)

lemma route_chain_ok:
  assumes "route cfg inp = Inr d"
  shows "chain_ok d"
proof -
  have rule: "chain_ok (decision_from_rule cfg r i inp)" for r i
    using fallback_chain_ok by (simp add: chain_ok_def decision_from_rule_def Let_def)
  have default: "chain_ok (default_decision cfg inp)"
    using fallback_chain_ok by (simp add: chain_ok_def default_decision_def Let_def)
  have override: "chain_ok (override_decision inp)"
    by (simp add: chain_ok_def override_decision_def Let_def split: prod.splits)
  show ?thesis
    using assms default override
    by (auto simp: route_def split: if_splits option.splits
        intro: apply_cost_cap_chain [OF rule])
qed

lemma first_rule_Some:
  "first_rule cfg inp i rs = Some (j, r) \<Longrightarrow>
   \<exists>pre post. rs = pre @ r # post \<and> j = i + length pre \<and> rule_matches cfg r inp \<and>
     (\<forall>q \<in> set pre. \<not> rule_matches cfg q inp)"
proof (induction rs arbitrary: i)
  case (Cons q rs)
  show ?case
  proof (cases "rule_matches cfg q inp")
    case True
    then show ?thesis using Cons.prems by (intro exI [of _ "[]"] exI [of _ rs]) simp
  next
    case False
    then obtain pre post where "rs = pre @ r # post" "j = i + 1 + length pre"
      "rule_matches cfg r inp" "\<forall>q \<in> set pre. \<not> rule_matches cfg q inp"
      using Cons.IH [of "i + 1"] Cons.prems by auto
    then show ?thesis using False by (intro exI [of _ "q # pre"] exI [of _ post]) simp
  qed
qed simp

lemma first_rule_None: "first_rule cfg inp i rs = None \<longleftrightarrow> (\<forall>q \<in> set rs. \<not> rule_matches cfg q inp)"
  by (induction rs arbitrary: i) auto

lemma estimate_cost_nonneg: "0 \<le> estimate_cost m c n"
proof -
  have "0 \<le> dict_get MODEL_PRICING k (0::rat)" for k
    by (auto simp: dict_get_def MODEL_PRICING_def split: option.splits)
  moreover have "0 \<le> dict_get COMPLEXITY_TOKENS k (1000::int)" for k
    by (auto simp: dict_get_def COMPLEXITY_TOKENS_def split: option.splits)
  moreover have "dict_get MODEL_PRICING ''ollama/llama3'' 0 = (0::rat)"
    by (simp add: dict_get_def MODEL_PRICING_def)
  ultimately show ?thesis by (simp add: estimate_cost_def Let_def)
qed

section \<open>Routing properties\<close>


definition capped_config :: route_config where
  "capped_config =
     \<lparr>default_provider = ''ollama'', default_model = ''llama3'', default_variant = '''',
      rules = [[(''agent'', ''developer''), (''provider'', ''anthropic''),
                (''model'', ''claude-opus'')]],
      cost_cap = 1 / 50, context_limits = [],
      fallback_providers =
        [[(''provider'', ''openai''), (''model'', ''gpt-4o'')],
         [(''provider'', ''opencode-go''), (''model'', ''opencode-go/opencode-go/mimo-v2.5'')],
         [(''provider'', ''anthropic''), (''model'', ''claude-sonnet'')],
         [(''provider'', ''google''), (''model'', ''anthropic/claude-opus'')]]\<rparr>"

definition developer_input :: route_input where
  "developer_input = \<lparr>ri_agent = ''developer'', ri_task_type = ''code'', ri_complexity = ''medium'',
     ri_context_size = 0, ri_model_override = ''''\<rparr>"

lemma capped_first_rule:
  "first_rule capped_config developer_input 0 (rules capped_config) =
     Some (0, [(''agent'', ''developer''), (''provider'', ''anthropic''), (''model'', ''claude-opus'')])"
  by code_simp


text \<open>The chain of every decision names each provider at most once and never the provider of
  the decision itself, so trying the decision and then its chain never tries a provider twice.\<close>

theorem fallback_chain_distinct:
  assumes "route cfg inp = Inr d"
  shows "distinct (rd_provider d # map fb_provider (rd_chain d))"
  using route_chain_ok [OF assms] by (simp add: chain_ok_def)

theorem fallback_chain_distinct_witness:
  "\<exists>d. route capped_config developer_input = Inr d
     \<and> distinct (rd_provider d # map fb_provider (rd_chain d)) \<and> length (rd_chain d) = 2"
proof -
  have "(case route capped_config developer_input of Inr d \<Rightarrow> length (rd_chain d) = 2
      | Inl e \<Rightarrow> False)" by code_simp
  then obtain d where "route capped_config developer_input = Inr d" "length (rd_chain d) = 2"
    by (auto split: sum.splits)
  then show ?thesis using fallback_chain_distinct by blast
qed

text \<open>The cap only picks a model: among the fallbacks that fit the budget the first one is
  taken although a later one is cheaper, and the chain left for the runtime still holds models
  above the cap; a default decision is not capped at all.\<close>

theorem cost_cap_gaps:
  "(case route capped_config developer_input of
      Inl e \<Rightarrow> False
    | Inr d \<Rightarrow> rd_provider d = ''openai'' \<and>
        list_ex (\<lambda>fb. fallback_cost developer_input fb < rd_cost d) (rd_chain d) \<and>
        list_ex (\<lambda>fb. fallback_cost developer_input fb > cost_cap capped_config) (rd_chain d))
   \<and> (case route (capped_config\<lparr>rules := [], default_provider := ''anthropic'',
               default_model := ''claude-opus''\<rparr>) developer_input of
        Inl e \<Rightarrow> False
      | Inr d \<Rightarrow> rd_cost d > cost_cap capped_config)"
  by code_simp

end
