(* ===== verification/Runtime.thy ===== *)
theory Runtime
  imports Routing
begin

text \<open>
  The runtime engine (\<open>runtime/__init__.py\<close>): resolve a model through the router, then try it
  and its fallback chain on the adapter until one answers. The adapter is a parameter: a call
  with a model and a variant (the prompt, skills, permissions and step budget are passed on
  unchanged and are part of it) answers raw text or a result, or raises. The state is the
  outside world and the list of route events handed to the bus.
\<close>

section \<open>Data\<close>

datatype raw_answer = RawText string | RawResult agent_result

record 'w rt_state =
  rt_world :: 'w
  rt_log :: "(string \<times> pydict) list"

record 'w runtime_engine =
  rt_adapter :: "string \<Rightarrow> string \<Rightarrow> 'w \<Rightarrow> (exn + raw_answer) \<times> 'w"
  rt_router :: "(route_input \<Rightarrow> exn + route_decision) option"
  rt_bus :: bool

record run_args =
  ra_agent :: string
  ra_task_type :: string
  ra_complexity :: string
  ra_context_size :: int
  ra_model :: string

record attempt =
  am_model :: string
  am_variant :: string
  am_provider :: string
  am_reason :: string

section \<open>Choosing the models\<close>

definition args_input :: "run_args \<Rightarrow> route_input" where
  "args_input a =
     \<lparr>ri_agent = ra_agent a,
      ri_task_type = (if ra_task_type a = [] then ''code'' else ra_task_type a),
      ri_complexity = (if ra_complexity a = [] then ''medium'' else ra_complexity a),
      ri_context_size = ra_context_size a, ri_model_override = ''''\<rparr>"

definition fallback_attempt :: "fallback \<Rightarrow> attempt" where
  "fallback_attempt fb = \<lparr>am_model = fb_model fb, am_variant = fb_variant fb,
     am_provider = fb_provider fb, am_reason = ''''\<rparr>"

text \<open>The models to try, in order, and the source of the decision.\<close>

definition models_to_try ::
  "'w runtime_engine \<Rightarrow> run_args \<Rightarrow> exn + (attempt list \<times> string)" where
  "models_to_try R a =
     (if ra_model a \<noteq> []
      then Inr ([\<lparr>am_model = ra_model a, am_variant = '''', am_provider = '''',
                  am_reason = ''explicit_override''\<rparr>], ''override'')
      else case rt_router R of
        None \<Rightarrow> Inr ([\<lparr>am_model = '''', am_variant = '''', am_provider = '''', am_reason = ''''\<rparr>],
                  ''legacy'')
      | Some router \<Rightarrow>
          (case router (args_input a) of
             Inl e \<Rightarrow> Inl e
           | Inr d \<Rightarrow> Inr (\<lparr>am_model = rd_model d, am_variant = rd_variant d,
                            am_provider = rd_provider d, am_reason = rd_reason d\<rparr> #
                          map fallback_attempt (rd_chain d), rd_source d)))"

section \<open>Trying them\<close>

definition fallback_reason :: "exn option \<Rightarrow> string" where
  "fallback_reason err =
     (case err of
        None \<Rightarrow> ''''
      | Some e \<Rightarrow>
          if exn_kind e = TimeoutError then ''timeout''
          else if contains (lower (exn_message e)) ''budget'' then ''budget_exceeded''
          else ''unavailable'')"

definition emit_route_event ::
  "'w runtime_engine \<Rightarrow> run_args \<Rightarrow> string \<Rightarrow> attempt \<Rightarrow> bool \<Rightarrow> string \<Rightarrow>
   ('w rt_state, unit) py" where
  "emit_route_event R a source m used reason =
     (if \<not> rt_bus R then ret ()
      else modify (\<lambda>s. s\<lparr>rt_log := rt_log s @ [(''runtime.route_selected'',
        [(''agent'', PStr (ra_agent a)),
         (''task_type'', PStr (ra_task_type a)),
         (''complexity'', PStr (ra_complexity a)),
         (''provider'', PStr (am_provider m)),
         (''model'', PStr (am_model m)),
         (''variant'', PStr (am_variant m)),
         (''reason'', PStr (am_reason m)),
         (''context_size'', PInt (ra_context_size a)),
         (''source'', PStr source),
         (''fallback_used'', PBool used),
         (''fallback_reason'', PStr reason)])]\<rparr>))"

fun raw_result :: "raw_answer \<Rightarrow> agent_result" where
  "raw_result (RawText t) = AgentResult_default\<lparr>res_output := t\<rparr>"
| "raw_result (RawResult r) = r"

definition stamp_route :: "attempt \<Rightarrow> bool \<Rightarrow> raw_answer \<Rightarrow> agent_result" where
  "stamp_route m is_fallback raw =
     (let r = (raw_result raw)\<lparr>res_model := am_model m, res_provider := am_provider m\<rparr>
      in if is_fallback then r\<lparr>res_fallback_used := True\<rparr> else r)"

text \<open>\<open>except (RuntimeError, TimeoutError)\<close>\<close>

definition tries_next :: "exn \<Rightarrow> bool" where
  "tries_next e = (exn_kind e \<in> {RuntimeError, RouteFallbackExhausted, TimeoutError})"

fun try_models ::
  "'w runtime_engine \<Rightarrow> run_args \<Rightarrow> string \<Rightarrow> bool \<Rightarrow> exn option \<Rightarrow> attempt list \<Rightarrow>
   ('w rt_state, agent_result) py" where
  "try_models R a source is_fallback last_error [] =
     raise (Exn RouteFallbackExhausted
       (''All models exhausted for agent '' @ [CHR 0x27] @ ra_agent a @ [CHR 0x27] @
        ''. Last error: '' @ (case last_error of None \<Rightarrow> ''None'' | Some e \<Rightarrow> exn_message e)))"
| "try_models R a source is_fallback last_error (m # ms) = (\<lambda>s.
     case rt_adapter R (am_model m) (am_variant m) (rt_world s) of
       (Inr raw, w) \<Rightarrow>
         seq (emit_route_event R a source m is_fallback (fallback_reason last_error))
           (ret (stamp_route m is_fallback raw)) (s\<lparr>rt_world := w\<rparr>)
     | (Inl e, w) \<Rightarrow>
         if tries_next e
         then try_models R a source True (Some e) ms (s\<lparr>rt_world := w\<rparr>)
         else (Inl e, s\<lparr>rt_world := w\<rparr>))"

definition runtime_execute ::
  "'w runtime_engine \<Rightarrow> run_args \<Rightarrow> ('w rt_state, agent_result) py" where
  "runtime_execute R a =
     bnd (of_sum (models_to_try R a)) (\<lambda>(ms, source). try_models R a source False None ms)"

section \<open>What the engine needs of its router\<close>

locale model_router =
  fixes route_op :: "route_input \<Rightarrow> exn + route_decision"
  assumes route_distinct: "route_op inp = Inr d \<Longrightarrow>
    distinct (rd_provider d # map fb_provider (rd_chain d))"
begin

lemma attempts_distinct:
  assumes "rt_router R = Some route_op" and "models_to_try R a = Inr (ms, source)"
  shows "distinct (map am_provider ms)"
proof (cases "ra_model a = []")
  case True
  with assms obtain d where d: "route_op (args_input a) = Inr d"
    and ms: "map am_provider ms = rd_provider d # map fb_provider (rd_chain d)"
    by (auto simp: models_to_try_def fallback_attempt_def comp_def split: sum.splits)
  show ?thesis unfolding ms by (rule route_distinct [OF d])
qed (use assms in \<open>auto simp: models_to_try_def\<close>)

end

interpretation rule_router: model_router "route cfg"
  by unfold_locales (use route_chain_ok in \<open>auto simp: chain_ok_def\<close>)

section \<open>The loop\<close>

text \<open>The world after every one of these models has failed in a way the loop goes on from.\<close>

fun all_fail :: "'w runtime_engine \<Rightarrow> attempt list \<Rightarrow> 'w \<Rightarrow> 'w option" where
  "all_fail R [] w = Some w"
| "all_fail R (m # ms) w =
     (case rt_adapter R (am_model m) (am_variant m) w of
        (Inl e, w') \<Rightarrow> if tries_next e then all_fail R ms w' else None
      | (Inr raw, w') \<Rightarrow> None)"

text \<open>How a list of models ends: with the answer of the first that does not fail, with the first
  exception that is not caught, or exhausted.\<close>

definition loop_outcome ::
  "'w runtime_engine \<Rightarrow> attempt list \<Rightarrow> bool \<Rightarrow> 'w rt_state \<Rightarrow> (exn + agent_result) \<Rightarrow> 'w rt_state \<Rightarrow> bool"
where
  "loop_outcome R ms fb s ans t \<longleftrightarrow>
     (case ans of
        Inr r \<Rightarrow> \<exists>pre m post w raw w'. ms = pre @ m # post \<and> all_fail R pre (rt_world s) = Some w \<and>
          rt_adapter R (am_model m) (am_variant m) w = (Inr raw, w') \<and>
          r = stamp_route m (fb \<or> pre \<noteq> []) raw \<and> rt_world t = w' \<and>
          length (rt_log t) = length (rt_log s) + (if rt_bus R then 1 else 0)
      | Inl e \<Rightarrow> rt_log t = rt_log s \<and>
          (all_fail R ms (rt_world s) = Some (rt_world t) \<and> exn_kind e = RouteFallbackExhausted \<or>
           (\<exists>pre m post w. ms = pre @ m # post \<and> all_fail R pre (rt_world s) = Some w \<and>
              rt_adapter R (am_model m) (am_variant m) w = (Inl e, rt_world t) \<and> \<not> tries_next e)))"

lemma loop_outcome_later:
  assumes step: "rt_adapter R (am_model m) (am_variant m) (rt_world s) = (Inl e, w)"
    and "tries_next e" and rest: "loop_outcome R ms True (s\<lparr>rt_world := w\<rparr>) ans t"
  shows "loop_outcome R (m # ms) fb s ans t"
proof (cases ans)
  case (Inr r)
  with rest obtain pre n post v raw v' where n: "ms = pre @ n # post" "all_fail R pre w = Some v"
    "rt_adapter R (am_model n) (am_variant n) v = (Inr raw, v')" "r = stamp_route n True raw"
    "rt_world t = v'" "length (rt_log t) = length (rt_log s) + (if rt_bus R then 1 else 0)"
    by (fastforce simp: loop_outcome_def)
  have "\<exists>pre' n' post' v1 raw' v2. m # ms = pre' @ n' # post' \<and>
      all_fail R pre' (rt_world s) = Some v1 \<and>
      rt_adapter R (am_model n') (am_variant n') v1 = (Inr raw', v2) \<and>
      r = stamp_route n' (fb \<or> pre' \<noteq> []) raw' \<and> rt_world t = v2"
    by (rule exI [of _ "m # pre"], rule exI [of _ n], rule exI [of _ post], rule exI [of _ v],
        rule exI [of _ raw], rule exI [of _ v']) (use n step assms(2) in simp)
  with Inr n(6) show ?thesis by (simp add: loop_outcome_def)
next
  case (Inl x)
  with rest have log: "rt_log t = rt_log s"
    and "all_fail R ms w = Some (rt_world t) \<and> exn_kind x = RouteFallbackExhausted \<or>
      (\<exists>pre n post v. ms = pre @ n # post \<and> all_fail R pre w = Some v \<and>
        rt_adapter R (am_model n) (am_variant n) v = (Inl x, rt_world t) \<and> \<not> tries_next x)"
    by (simp_all add: loop_outcome_def)
  then consider (all) "all_fail R ms w = Some (rt_world t)" "exn_kind x = RouteFallbackExhausted"
    | (one) pre n post v where "ms = pre @ n # post" "all_fail R pre w = Some v"
        "rt_adapter R (am_model n) (am_variant n) v = (Inl x, rt_world t)" "\<not> tries_next x"
    by blast
  then show ?thesis
  proof cases
    case all
    then show ?thesis using Inl log step assms(2) by (simp add: loop_outcome_def)
  next
    case one
    have "\<exists>pre' n' post' v'. m # ms = pre' @ n' # post' \<and>
        all_fail R pre' (rt_world s) = Some v' \<and>
        rt_adapter R (am_model n') (am_variant n') v' = (Inl x, rt_world t) \<and> \<not> tries_next x"
      by (rule exI [of _ "m # pre"], rule exI [of _ n], rule exI [of _ post], rule exI [of _ v])
         (use one step assms(2) in simp)
    then show ?thesis using Inl log by (simp add: loop_outcome_def)
  qed
qed

lemma try_models_outcome:
  "try_models R a source fb le ms s = (ans, t) \<Longrightarrow> loop_outcome R ms fb s ans t"
proof (induction ms arbitrary: fb le s)
  case Nil
  then show ?case by (auto simp: loop_outcome_def raise_run)
next
  case (Cons m ms)
  obtain x w where call: "rt_adapter R (am_model m) (am_variant m) (rt_world s) = (x, w)" by fastforce
  show ?case
  proof (cases x)
    case (Inr raw)
    have ans: "ans = Inr (stamp_route m fb raw)" "rt_world t = w"
      "length (rt_log t) = length (rt_log s) + (if rt_bus R then 1 else 0)"
      using Cons.prems call Inr by (cases "rt_bus R"; auto simp: emit_route_event_def py_run)+
    have "\<exists>pre n post v raw' v'. m # ms = pre @ n # post \<and> all_fail R pre (rt_world s) = Some v \<and>
        rt_adapter R (am_model n) (am_variant n) v = (Inr raw', v') \<and>
        stamp_route m fb raw = stamp_route n (fb \<or> pre \<noteq> []) raw' \<and> rt_world t = v'"
      by (rule exI [of _ "[]"], rule exI [of _ m], rule exI [of _ ms],
          rule exI [of _ "rt_world s"], rule exI [of _ raw], rule exI [of _ w])
         (use ans call Inr in simp)
    then show ?thesis using ans(1,3) by (simp add: loop_outcome_def)
  next
    case (Inl e)
    show ?thesis
    proof (cases "tries_next e")
      case True
      have "loop_outcome R ms True (s\<lparr>rt_world := w\<rparr>) ans t"
        by (rule Cons.IH) (use Cons.prems call Inl True in simp)
      then show ?thesis using loop_outcome_later [of R m s e w] call Inl True by simp
    next
      case False
      then have ans: "ans = Inl e" "t = s\<lparr>rt_world := w\<rparr>" using Cons.prems call Inl by auto
      have "\<exists>pre n post v. m # ms = pre @ n # post \<and> all_fail R pre (rt_world s) = Some v \<and>
          rt_adapter R (am_model n) (am_variant n) v = (Inl e, rt_world t) \<and> \<not> tries_next e"
        by (rule exI [of _ "[]"], rule exI [of _ m], rule exI [of _ ms],
            rule exI [of _ "rt_world s"]) (use ans call Inl False in simp)
      then show ?thesis using ans by (simp add: loop_outcome_def)
    qed
  qed
qed

section \<open>Properties\<close>

text \<open>C10: running a model raises the router's exception without touching the adapter when routing
  fails. Otherwise the run answers with the first model of the list (decision, then chain) that
  does not fail with a runtime error or a time-out, stamped with that model, marked as a fallback
  when it is not the first and announced by exactly one route event; or it passes on the first
  other exception; or, when every model has failed, it raises \<open>RouteFallbackExhausted\<close>.\<close>

theorem runtime_tries_in_order:
  "case models_to_try R a of
     Inl e \<Rightarrow> runtime_execute R a s = (Inl e, s)
   | Inr (ms, source) \<Rightarrow> ms \<noteq> [] \<and>
       (case runtime_execute R a s of (ans, t) \<Rightarrow> loop_outcome R ms False s ans t)"
proof (cases "models_to_try R a")
  case (Inl e)
  then show ?thesis by (simp add: runtime_execute_def py_run)
next
  case (Inr p)
  obtain ms source where p: "p = (ms, source)" by (cases p)
  have "ms \<noteq> []"
    using Inr p by (auto simp: models_to_try_def split: if_splits option.splits sum.splits)
  moreover have "runtime_execute R a s = try_models R a source False None ms s"
    using Inr p by (simp add: runtime_execute_def py_run)
  ultimately show ?thesis
    using Inr p try_models_outcome [of R a source False None ms s]
    by (cases "try_models R a source False None ms s") simp
qed

text \<open>With the rule-based router the models a run tries all belong to different providers.\<close>

theorem runtime_providers_distinct:
  assumes "rt_router R = Some (route cfg)" and "models_to_try R a = Inr (ms, source)"
  shows "distinct (map am_provider ms)"
  using assms by (rule rule_router.attempts_distinct)

theorem runtime_providers_distinct_witness:
  "distinct [''openai'', ''opencode-go'', ''google'']
   \<and> (case models_to_try \<lparr>rt_adapter = (\<lambda>m v (w::nat). (Inr (RawText m), w)),
          rt_router = Some (route capped_config), rt_bus = True\<rparr>
        \<lparr>ra_agent = ''developer'', ra_task_type = '''', ra_complexity = '''', ra_context_size = 0,
         ra_model = ''''\<rparr> of
       Inl e \<Rightarrow> False
     | Inr (ms, source) \<Rightarrow> map am_provider ms = [''openai'', ''opencode-go'', ''google''])"
proof -
  let ?R = "\<lparr>rt_adapter = (\<lambda>m v (w::nat). (Inr (RawText m), w)),
      rt_router = Some (route capped_config), rt_bus = True\<rparr>"
  let ?a = "\<lparr>ra_agent = ''developer'', ra_task_type = '''', ra_complexity = '''',
      ra_context_size = 0, ra_model = ''''\<rparr>"
  have ev: "case models_to_try ?R ?a of Inl e \<Rightarrow> False
      | Inr (ms, source) \<Rightarrow> map am_provider ms = [''openai'', ''opencode-go'', ''google'']"
    by code_simp
  then obtain ms source where "models_to_try ?R ?a = Inr (ms, source)"
    "map am_provider ms = [''openai'', ''opencode-go'', ''google'']"
    by (auto split: sum.splits prod.splits)
  then show ?thesis
    using runtime_providers_distinct [of ?R capped_config ?a ms source] ev by simp
qed

end
