(* ===== verification/OpenCodeOutput.thy ===== *)
theory OpenCodeOutput
  imports Runtime PyText
begin

text \<open>
  The parser of OpenCode's output (\<open>_parse_jsonl\<close> in \<open>runtime/opencode.py\<close>): one JSON event per line, folded
  into the text, the metrics and the turns. Parsing is \<open>None\<close> where the code raises. \<open>loads\<close> reads a
  line, \<open>None\<close> when it is no JSON; \<open>dumps\<close> writes the input of a tool with its keys sorted; \<open>show\<close> displays
  a scalar where the code keeps one that is no string in a list of strings.
\<close>

section \<open>Values\<close>

fun num :: "pyval \<Rightarrow> rat option" where
  "num (PInt i) = Some (of_int i)"
| "num (PFloat r) = Some r"
| "num (PBool b) = Some (if b then 1 else 0)"
| "num _ = None"

definition bind_opt :: "'a option \<Rightarrow> ('a \<Rightarrow> 'b option) \<Rightarrow> 'b option" where
  "bind_opt x f = (case x of None \<Rightarrow> None | Some a \<Rightarrow> f a)"

lemma bind_opt_Some: "bind_opt x f = Some y \<longleftrightarrow> (\<exists>a. x = Some a \<and> f a = Some y)"
  by (cases x) (simp_all add: bind_opt_def)

text \<open>\<open>v.get(k, default)\<close> on any value, and a value as the key of a dictionary.\<close>

definition pget :: "pyval \<Rightarrow> string \<Rightarrow> pyval \<Rightarrow> pyval option" where
  "pget v k dflt = (case v of PDict d \<Rightarrow> Some (dict_get d k dflt) | _ \<Rightarrow> None)"

definition as_key :: "(pyval \<Rightarrow> string) \<Rightarrow> pyval \<Rightarrow> string option" where
  "as_key show v = (case v of PList _ \<Rightarrow> None | PDict _ \<Rightarrow> None | _ \<Rightarrow> Some (py_str show v))"

section \<open>Turns and metrics\<close>

record turn_event =
  te_index :: int
  te_kind :: string
  te_tool :: "string option"
  te_duration :: rat
  te_in :: pyval
  te_out :: pyval
  te_cost :: rat

record agent_metrics =
  mt_tool_calls :: nat
  mt_tool_names :: "string list"
  mt_durations :: "rat list"
  mt_llm_turns :: nat
  mt_cost :: rat
  mt_tokens :: pydict
  mt_turns :: "turn_event list"
  mt_repeated :: nat
  mt_exit :: string

definition no_metrics :: agent_metrics where
  "no_metrics = \<lparr>mt_tool_calls = 0, mt_tool_names = [], mt_durations = [], mt_llm_turns = 0, mt_cost = 0, mt_tokens = [],
     mt_turns = [], mt_repeated = 0, mt_exit = ''stop''\<rparr>"

record parse_state =
  ps_text :: "pyval list"
  ps_durations :: "(string \<times> rat) list"
  ps_counts :: "(string \<times> nat) list"
  ps_turns :: "turn_event list"
  ps_index :: int
  ps_start :: pyval
  ps_kind :: string
  ps_tool :: "string option"
  ps_in :: pyval
  ps_out :: pyval
  ps_turn_cost :: rat
  ps_prev :: "(string \<times> string) option"
  ps_repeated :: nat
  ps_tokens :: pydict
  ps_cost :: rat
  ps_exit :: string

definition parse_init :: parse_state where
  "parse_init = \<lparr>ps_text = [], ps_durations = [], ps_counts = [], ps_turns = [], ps_index = -1, ps_start = PInt 0,
     ps_kind = ''unknown'', ps_tool = None, ps_in = PInt 0, ps_out = PInt 0, ps_turn_cost = 0, ps_prev = None,
     ps_repeated = 0, ps_tokens = [], ps_cost = 0, ps_exit = ''stop''\<rparr>"

text \<open>The end of the current turn, if there is one; a start that is no number cannot be compared.\<close>

definition finalize_turn :: "parse_state \<Rightarrow> parse_state option" where
  "finalize_turn s =
     (if ps_index s < 0 then Some s
      else bind_opt (num (ps_start s)) (\<lambda>_. Some (s\<lparr>
        ps_turns := ps_turns s @ [\<lparr>te_index = ps_index s, te_kind = ps_kind s, te_tool = ps_tool s, te_duration = 0,
          te_in = ps_in s, te_out = ps_out s, te_cost = ps_turn_cost s\<rparr>],
        ps_kind := ''unknown'', ps_tool := None, ps_in := PInt 0, ps_out := PInt 0, ps_turn_cost := 0\<rparr>)))"

section \<open>Events\<close>

definition step_start :: "pyval \<Rightarrow> parse_state \<Rightarrow> parse_state option" where
  "step_start ts s = bind_opt (finalize_turn s) (\<lambda>u. Some (u\<lparr>ps_index := ps_index u + 1, ps_start := ts\<rparr>))"

definition text_event :: "pyval \<Rightarrow> parse_state \<Rightarrow> parse_state option" where
  "text_event part s = bind_opt (pget part ''text'' (PStr '''')) (\<lambda>t.
     Some (s\<lparr>ps_text := (if truthy t then ps_text s @ [t] else ps_text s),
       ps_kind := (if ps_kind s = ''tool'' then ''tool'' else ''text'')\<rparr>))"

definition reasoning_event :: "parse_state \<Rightarrow> parse_state" where
  "reasoning_event s = (if ps_kind s = ''unknown'' then s\<lparr>ps_kind := ''reasoning''\<rparr> else s)"

definition prolong_last :: "rat \<Rightarrow> turn_event list \<Rightarrow> turn_event list" where
  "prolong_last d ts = (if ts = [] then [] else butlast ts @ [last ts\<lparr>te_duration := te_duration (last ts) + d\<rparr>])"

text \<open>The duration of a tool goes to its name and to the last turn that was ended.\<close>

definition tool_timing :: "string \<Rightarrow> pyval \<Rightarrow> parse_state \<Rightarrow> parse_state option" where
  "tool_timing name timing s =
     bind_opt (pget timing ''start'' (PInt 0)) (\<lambda>a. bind_opt (pget timing ''end'' (PInt 0)) (\<lambda>z.
       if truthy a \<and> truthy z then
         bind_opt (num a) (\<lambda>x. bind_opt (num z) (\<lambda>y. Some (s\<lparr>
           ps_durations := dict_set name (dict_get (ps_durations s) name 0 + (y - x)) (ps_durations s),
           ps_turns := (if 0 \<le> ps_index s then prolong_last (y - x) (ps_turns s) else ps_turns s)\<rparr>)))
       else Some s))"

definition tool_repeat :: "string \<Rightarrow> string \<Rightarrow> parse_state \<Rightarrow> parse_state" where
  "tool_repeat name summary s = s\<lparr>
     ps_repeated := (if ps_prev s = Some (name, summary) then ps_repeated s + 1 else ps_repeated s),
     ps_prev := Some (name, summary)\<rparr>"

definition tool_event :: "(pyval \<Rightarrow> string) \<Rightarrow> (pyval \<Rightarrow> string) \<Rightarrow> pyval \<Rightarrow> parse_state \<Rightarrow> parse_state option" where
  "tool_event show dumps part s =
     bind_opt (pget part ''tool'' (PStr '''')) (\<lambda>tool. bind_opt (pget part ''state'' (PDict [])) (\<lambda>st.
     bind_opt (pget st ''status'' PNone) (\<lambda>status.
       if status \<noteq> PStr ''completed'' then Some s
       else bind_opt (as_key show tool) (\<lambda>name. bind_opt (pget st ''time'' (PDict [])) (\<lambda>timing.
         bind_opt (tool_timing name timing (s\<lparr>
           ps_counts := dict_set name (dict_get (ps_counts s) name 0 + 1) (ps_counts s), ps_kind := ''tool'',
           ps_tool := (if truthy tool then Some name else None)\<rparr>)) (\<lambda>u.
         bind_opt (pget st ''input'' (PDict [])) (\<lambda>inp.
           Some (tool_repeat name (take 200 (dumps inp)) u))))))))"

definition step_tokens :: "pyval \<Rightarrow> parse_state \<Rightarrow> parse_state option" where
  "step_tokens tokens s =
     (if \<not> truthy tokens then Some s
      else bind_opt (pget tokens ''input'' (PInt 0)) (\<lambda>i. bind_opt (pget tokens ''output'' (PInt 0)) (\<lambda>out.
        bind_opt (pget tokens ''reasoning'' (PInt 0)) (\<lambda>r. bind_opt (pget tokens ''cache'' (PDict [])) (\<lambda>cache.
        bind_opt (pget cache ''read'' (PInt 0)) (\<lambda>cr. bind_opt (pget cache ''write'' (PInt 0)) (\<lambda>cw.
          Some (s\<lparr>ps_tokens := [(''input'', i), (''output'', out), (''reasoning'', r), (''cache_read'', cr),
            (''cache_write'', cw)], ps_in := i, ps_out := out\<rparr>))))))))"

definition step_finish :: "(pyval \<Rightarrow> string) \<Rightarrow> pyval \<Rightarrow> parse_state \<Rightarrow> parse_state option" where
  "step_finish show part s =
     bind_opt (pget part ''tokens'' (PDict [])) (\<lambda>tokens. bind_opt (step_tokens tokens s) (\<lambda>u.
     bind_opt (pget part ''cost'' (PFloat 0)) (\<lambda>cost. bind_opt (num cost) (\<lambda>c.
     bind_opt (pget part ''reason'' (PStr '''')) (\<lambda>reason.
       Some (u\<lparr>ps_cost := ps_cost u + c, ps_turn_cost := c,
         ps_exit := (if truthy reason \<and> reason \<noteq> PStr ''tool-calls'' then py_str show reason else ps_exit u)\<rparr>))))))"

definition parse_event :: "(pyval \<Rightarrow> string) \<Rightarrow> (pyval \<Rightarrow> string) \<Rightarrow> pydict \<Rightarrow> parse_state \<Rightarrow> parse_state option" where
  "parse_event show dumps event s =
     (let ty = dict_get event ''type'' (PStr ''''); part = dict_get event ''part'' (PDict []) in
      if ty = PStr ''step_start'' then step_start (dict_get event ''timestamp'' (PInt 0)) s
      else if ty = PStr ''text'' then text_event part s
      else if ty = PStr ''reasoning'' then Some (reasoning_event s)
      else if ty = PStr ''tool_use'' then tool_event show dumps part s
      else if ty = PStr ''step_finish'' then step_finish show part s
      else Some s)"

fun parse_events :: "(pyval \<Rightarrow> string) \<Rightarrow> (pyval \<Rightarrow> string) \<Rightarrow> pyval list \<Rightarrow> parse_state \<Rightarrow> parse_state option" where
  "parse_events show dumps [] s = Some s"
| "parse_events show dumps (v # vs) s =
     (case v of PDict event \<Rightarrow> bind_opt (parse_event show dumps event s) (parse_events show dumps vs) | _ \<Rightarrow> None)"

section \<open>The output\<close>

text \<open>The events: lines that start like an object and are JSON.\<close>

definition event_line :: "(string \<Rightarrow> pyval option) \<Rightarrow> string \<Rightarrow> pyval list" where
  "event_line loads raw = (let line = strip raw in
     if \<not> startswith line ''{'' then [] else case loads line of None \<Rightarrow> [] | Some v \<Rightarrow> [v])"

definition output_events :: "(string \<Rightarrow> pyval option) \<Rightarrow> string \<Rightarrow> pyval list" where
  "output_events loads out = concat (map (event_line loads) (splitlines out))"

fun strings :: "pyval list \<Rightarrow> string list option" where
  "strings [] = Some []"
| "strings (PStr s # vs) = map_option ((#) s) (strings vs)"
| "strings _ = None"

definition metrics_of :: "parse_state \<Rightarrow> agent_metrics" where
  "metrics_of s = (let names = map fst (sort_desc snd (ps_counts s)) in
     \<lparr>mt_tool_calls = sum_list (map snd (ps_counts s)), mt_tool_names = names,
      mt_durations = map (\<lambda>n. dict_get (ps_durations s) n 0) names, mt_llm_turns = length (ps_turns s),
      mt_cost = ps_cost s, mt_tokens = ps_tokens s, mt_turns = ps_turns s, mt_repeated = ps_repeated s,
      mt_exit = ps_exit s\<rparr>)"

definition parse_jsonl ::
  "(string \<Rightarrow> pyval option) \<Rightarrow> (pyval \<Rightarrow> string) \<Rightarrow> (pyval \<Rightarrow> string) \<Rightarrow> string \<Rightarrow> (string \<times> agent_metrics) option" where
  "parse_jsonl loads show dumps out =
     bind_opt (parse_events show dumps (output_events loads out) parse_init) (\<lambda>s.
     bind_opt (finalize_turn s) (\<lambda>u. bind_opt (strings (ps_text u)) (\<lambda>ts.
       Some (join [newline] ts, metrics_of u))))"

section \<open>What the metrics count\<close>

definition is_step :: "pydict \<Rightarrow> bool" where
  "is_step e \<longleftrightarrow> dict_get e ''type'' (PStr '''') = PStr ''step_start''"

text \<open>A tool call that was completed.\<close>

definition is_call :: "pydict \<Rightarrow> bool" where
  "is_call e \<longleftrightarrow> dict_get e ''type'' (PStr '''') = PStr ''tool_use'' \<and>
     (\<exists>p st. dict_get e ''part'' (PDict []) = PDict p \<and> dict_get p ''state'' (PDict []) = PDict st \<and>
       dict_get st ''status'' PNone = PStr ''completed'')"

definition step_cost :: "pydict \<Rightarrow> rat" where
  "step_cost e = (if dict_get e ''type'' (PStr '''') = PStr ''step_finish''
     then (case dict_get e ''part'' (PDict []) of
         PDict p \<Rightarrow> (case num (dict_get p ''cost'' (PFloat 0)) of Some c \<Rightarrow> c | None \<Rightarrow> 0) | _ \<Rightarrow> 0)
     else 0)"

definition calls :: "parse_state \<Rightarrow> nat" where
  "calls s = sum_list (map snd (ps_counts s))"

text \<open>The turns are numbered from zero, one for each step but the current; a repetition follows a call.\<close>

definition turns_ok :: "parse_state \<Rightarrow> bool" where
  "turns_ok s \<longleftrightarrow> -1 \<le> ps_index s \<and> length (ps_turns s) = nat (ps_index s) \<and>
     map te_index (ps_turns s) = map int [0..<length (ps_turns s)] \<and>
     (if ps_prev s = None then ps_repeated s = 0 else ps_repeated s < calls s) \<and> distinct (map fst (ps_counts s))"

definition steps :: "parse_state \<Rightarrow> bool \<Rightarrow> bool \<Rightarrow> rat \<Rightarrow> parse_state \<Rightarrow> bool" where
  "steps s a b c u \<longleftrightarrow> ps_index u = ps_index s + of_bool a \<and> calls u = calls s + of_bool b \<and>
     ps_cost u = ps_cost s + c \<and> (turns_ok s \<longrightarrow> turns_ok u)"

lemma count_one_more: "sum_list (map snd (dict_set n (dict_get c n 0 + 1) c)) = sum_list (map snd c) + (1::nat)"
  by (induction c) (auto simp: dict_set_def dict_get_def)

lemma prolong_last_facts [simp]: "map te_index (prolong_last d ts) = map te_index ts" "length (prolong_last d ts) = length ts"
  by (cases ts rule: rev_cases; simp add: prolong_last_def)+

lemma finalize_turn_Some:
  assumes "finalize_turn s = Some u"
  shows "ps_index u = ps_index s" "ps_counts u = ps_counts s" "ps_cost u = ps_cost s" "ps_prev u = ps_prev s"
    "ps_repeated u = ps_repeated s" "ps_text u = ps_text s" "ps_durations u = ps_durations s"
    "map te_index (ps_turns u) = map te_index (ps_turns s) @ (if ps_index s < 0 then [] else [ps_index s])"
    "length (ps_turns u) = length (ps_turns s) + (if ps_index s < 0 then 0 else 1)"
  using assms by (auto simp: finalize_turn_def bind_opt_Some split: if_splits)

lemma step_start_steps: "step_start ts s = Some u \<Longrightarrow> steps s True False 0 u"
  unfolding step_start_def bind_opt_Some steps_def
  by (elim exE conjE, drule sym, frule finalize_turn_Some(1), frule finalize_turn_Some(2), frule finalize_turn_Some(3),
      frule finalize_turn_Some(4), frule finalize_turn_Some(5), frule finalize_turn_Some(8), frule finalize_turn_Some(9))
     (auto simp: turns_ok_def calls_def nat_add_distrib)

lemma text_event_steps: "text_event part s = Some u \<Longrightarrow> steps s False False 0 u"
  by (auto simp: text_event_def bind_opt_Some steps_def turns_ok_def calls_def)

lemma reasoning_event_steps: "steps s False False 0 (reasoning_event s)"
  by (simp add: reasoning_event_def steps_def turns_ok_def calls_def)

lemma tool_timing_Some:
  assumes "tool_timing n t s = Some u"
  shows "ps_index u = ps_index s" "ps_counts u = ps_counts s" "ps_cost u = ps_cost s" "ps_prev u = ps_prev s"
    "ps_repeated u = ps_repeated s" "map te_index (ps_turns u) = map te_index (ps_turns s)"
    "length (ps_turns u) = length (ps_turns s)"
  using assms by (auto simp: tool_timing_def bind_opt_Some split: if_splits)

lemma tool_event_steps:
  assumes "tool_event show dumps part s = Some u"
  shows "steps s False (\<exists>p st. part = PDict p \<and> dict_get p ''state'' (PDict []) = PDict st \<and>
    dict_get st ''status'' PNone = PStr ''completed'') 0 u"
proof -
  obtain tool st where st: "pget part ''state'' (PDict []) = Some st" "pget part ''tool'' (PStr '''') = Some tool"
    using assms by (auto simp: tool_event_def bind_opt_Some)
  obtain status where status: "pget st ''status'' PNone = Some status"
    using assms st by (auto simp: tool_event_def bind_opt_Some)
  have iff: "(\<exists>p st. part = PDict p \<and> dict_get p ''state'' (PDict []) = PDict st \<and>
      dict_get st ''status'' PNone = PStr ''completed'') = (status = PStr ''completed'')"
    using st status by (auto simp: pget_def split: pyval.splits)
  show ?thesis
  proof (cases "status = PStr ''completed''")
    case False
    then have "u = s" using assms st status by (simp add: tool_event_def bind_opt_def)
    then show ?thesis unfolding iff using False by (simp add: steps_def)
  next
    case True
    from assms st status True obtain name timing v inp where
      timed: "tool_timing name timing (s\<lparr>ps_counts := dict_set name (dict_get (ps_counts s) name 0 + 1) (ps_counts s),
         ps_kind := ''tool'', ps_tool := (if truthy tool then Some name else None)\<rparr>) = Some v"
      and u: "u = tool_repeat name (take 200 (dumps inp)) v"
      by (auto simp: tool_event_def bind_opt_Some)
    note v = tool_timing_Some [OF timed]
    have "calls v = calls s + 1" using v(2) count_one_more [of name "ps_counts s"] by (simp add: calls_def)
    with v u show ?thesis unfolding iff
      by (auto simp: True steps_def turns_ok_def calls_def tool_repeat_def distinct_dict_set)
  qed
qed

lemma step_tokens_Some:
  assumes "step_tokens t s = Some u"
  shows "ps_index u = ps_index s" "ps_counts u = ps_counts s" "ps_cost u = ps_cost s" "ps_prev u = ps_prev s"
    "ps_repeated u = ps_repeated s" "ps_turns u = ps_turns s"
  using assms by (auto simp: step_tokens_def bind_opt_Some split: if_splits)

lemma step_finish_steps:
  assumes "step_finish show part s = Some u"
  shows "steps s False False (case part of PDict p \<Rightarrow>
    (case num (dict_get p ''cost'' (PFloat 0)) of Some c \<Rightarrow> c | None \<Rightarrow> 0) | _ \<Rightarrow> 0) u"
proof -
  from assms obtain tokens v cost c where v: "step_tokens tokens s = Some v"
    and cost: "pget part ''cost'' (PFloat 0) = Some cost" "num cost = Some c"
    and u: "ps_index u = ps_index v" "ps_counts u = ps_counts v" "ps_cost u = ps_cost v + c" "ps_prev u = ps_prev v"
      "ps_repeated u = ps_repeated v" "ps_turns u = ps_turns v"
    by (auto simp: step_finish_def bind_opt_Some)
  obtain p where "part = PDict p" "dict_get p ''cost'' (PFloat 0) = cost"
    using cost by (auto simp: pget_def split: pyval.splits)
  with cost u step_tokens_Some [OF v] show ?thesis by (simp add: steps_def turns_ok_def calls_def)
qed

lemma parse_event_steps:
  assumes "parse_event show dumps e s = Some u"
  shows "steps s (is_step e) (is_call e) (step_cost e) u"
proof -
  let ?ty = "dict_get e ''type'' (PStr '''')"
  consider "?ty = PStr ''step_start''" | "?ty = PStr ''text''" | "?ty = PStr ''reasoning''" | "?ty = PStr ''tool_use''"
    | "?ty = PStr ''step_finish''"
    | "?ty \<notin> {PStr ''step_start'', PStr ''text'', PStr ''reasoning'', PStr ''tool_use'', PStr ''step_finish''}"
    by auto
  then show ?thesis
  proof cases
    case 1 then show ?thesis using assms step_start_steps
      by (simp add: parse_event_def Let_def is_step_def is_call_def step_cost_def)
  next
    case 2 then show ?thesis using assms text_event_steps
      by (simp add: parse_event_def Let_def is_step_def is_call_def step_cost_def)
  next
    case 3 then show ?thesis using assms reasoning_event_steps [of s]
      by (simp add: parse_event_def Let_def is_step_def is_call_def step_cost_def)
  next
    case 4 then show ?thesis using assms tool_event_steps [of "show" dumps _ s u]
      by (simp add: parse_event_def Let_def is_step_def is_call_def step_cost_def)
  next
    case 5 then show ?thesis using assms step_finish_steps [of "show" _ s u]
      by (simp add: parse_event_def Let_def is_step_def is_call_def step_cost_def)
  next
    case 6 then show ?thesis using assms
      by (simp add: parse_event_def Let_def is_step_def is_call_def step_cost_def steps_def)
  qed
qed

fun event_of :: "pyval \<Rightarrow> pydict" where
  "event_of (PDict e) = e"
| "event_of _ = []"

definition count_events :: "(pydict \<Rightarrow> bool) \<Rightarrow> pyval list \<Rightarrow> nat" where
  "count_events P vs = length (filter P (map event_of vs))"

definition events_cost :: "pyval list \<Rightarrow> rat" where
  "events_cost vs = sum_list (map (step_cost \<circ> event_of) vs)"

lemma parse_events_steps:
  assumes "parse_events show dumps vs s = Some u" "turns_ok s"
  shows "turns_ok u \<and> ps_index u = ps_index s + int (count_events is_step vs) \<and>
    calls u = calls s + count_events is_call vs \<and> ps_cost u = ps_cost s + events_cost vs"
  using assms
proof (induction vs arbitrary: s)
  case Nil
  then show ?case by (simp add: count_events_def events_cost_def)
next
  case (Cons v vs)
  then obtain e w where e: "v = PDict e" "parse_event show dumps e s = Some w" "parse_events show dumps vs w = Some u"
    by (auto simp: bind_opt_Some split: pyval.splits)
  note one = parse_event_steps [OF e(2), unfolded steps_def]
  show ?case using Cons.IH [OF e(3)] one Cons.prems(2) by (simp add: e(1) count_events_def events_cost_def)
qed

lemma parse_init_ok: "turns_ok parse_init" "calls parse_init = 0" "ps_cost parse_init = 0" "ps_index parse_init = -1"
  by (simp_all add: parse_init_def turns_ok_def calls_def)

definition metrics_exact :: "pyval list \<Rightarrow> agent_metrics \<Rightarrow> bool" where
  "metrics_exact vs mt \<longleftrightarrow> mt_llm_turns mt = count_events is_step vs \<and> mt_tool_calls mt = count_events is_call vs \<and>
     mt_cost mt = events_cost vs \<and> map te_index (mt_turns mt) = map int [0..<count_events is_step vs] \<and>
     mt_repeated mt \<le> mt_tool_calls mt - 1 \<and>
     distinct (mt_tool_names mt) \<and> length (mt_durations mt) = length (mt_tool_names mt)"

lemma parse_jsonl_exact:
  assumes "parse_jsonl loads show dumps out = Some (txt, mt)"
  shows "metrics_exact (output_events loads out) mt"
proof -
  from assms obtain s u where s: "parse_events show dumps (output_events loads out) parse_init = Some s"
    and u: "finalize_turn s = Some u" and mt: "mt = metrics_of u"
    by (auto simp: parse_jsonl_def bind_opt_Some)
  note fold = parse_events_steps [OF s parse_init_ok(1), unfolded parse_init_ok]
  note last = finalize_turn_Some [OF u]
  have ok: "turns_ok s" using fold by simp
  have turns: "length (ps_turns u) = count_events is_step (output_events loads out)"
    using fold last ok by (auto simp: turns_ok_def)
  have "map te_index (ps_turns u) = map int [0..<length (ps_turns u)]"
    using last ok by (auto simp: turns_ok_def)
  moreover have "ps_repeated u \<le> calls u - 1"
    using last ok by (auto simp: turns_ok_def calls_def split: if_splits)
  ultimately show ?thesis
    using fold last ok turns by (simp add: mt metrics_of_def Let_def metrics_exact_def calls_def turns_ok_def distinct_sort_desc)
qed


section \<open>Examples\<close>

definition call_event :: "string \<Rightarrow> int \<Rightarrow> int \<Rightarrow> pyval" where
  "call_event tool a z = PDict [(''type'', PStr ''tool_use''), (''part'', PDict [(''tool'', PStr tool),
     (''state'', PDict [(''status'', PStr ''completed''), (''time'', PDict [(''start'', PInt a), (''end'', PInt z)])])])]"

definition plain_event :: "string \<Rightarrow> pydict \<Rightarrow> pyval" where
  "plain_event ty part = PDict [(''type'', PStr ty), (''timestamp'', PInt 1), (''part'', PDict part)]"

text \<open>The reader of the sample: a start, a call of \<open>bash\<close> (5 ms), a call of \<open>read\<close> (7 ms) and an end of a step.\<close>

definition sample_loads :: "string \<Rightarrow> pyval option" where
  "sample_loads = map_of [(''{s'', plain_event ''step_start'' []), (''{b'', call_event ''bash'' 10 15),
     (''{r'', call_event ''read'' 20 27), (''{t'', plain_event ''text'' [(''text'', PStr ''done'')]),
     (''{f'', plain_event ''step_finish'' [(''cost'', PInt 2), (''tokens'', PDict [(''input'', PInt 9)])])]"

definition sample_output :: string where
  "sample_output = join [newline] [''noise'', ''{s'', ''{b'', ''{f'', ''{x'', ''{s'', ''{r'', ''{f'', ''{s'', ''{t'', ''{f'']"

definition sample_parsed :: "(string \<times> agent_metrics) option" where
  "sample_parsed = parse_jsonl sample_loads (\<lambda>_. []) (\<lambda>_. []) sample_output"

lemma sample_text: "map_option fst sample_parsed = Some ''done''"
  by code_simp

text \<open>The time of a tool is charged to the turn before the one that called it, and that of the first turn is lost: the
  turns that called \<open>bash\<close> and \<open>read\<close> for 5 and 7 milliseconds are recorded with 7 and 0. The tokens are those of the
  last step, not of the run, unlike the cost.\<close>

lemma tool_time_charged_to_previous_turn:
  "map_option (\<lambda>(t, m). (map te_tool (mt_turns m), map te_duration (mt_turns m), mt_durations m)) sample_parsed =
     Some ([Some ''bash'', Some ''read'', None], [7, 0, 0], [5, 7])"
  by code_simp

lemma tokens_of_last_step:
  "map_option (\<lambda>(t, m). (mt_cost m, dict_get (mt_tokens m) ''input'' PNone)) sample_parsed = Some (6, PInt 9)"
  by code_simp

lemma map_option_fst: "map_option fst x = Some a \<Longrightarrow> \<exists>b. x = Some (a, b)"
  by (cases x) auto


end
