(* ===== verification/OpenCode.thy ===== *)
theory OpenCode
  imports OpenCodeOutput Security "HOL-Library.Sublist"
begin

text \<open>
  The OpenCode adapter (\<open>runtime/opencode.py\<close>) and its diagnostics (\<open>runtime/diagnostics.py\<close>): resolving the command,
  the permissions it hands to OpenCode and their cache, the sandboxed run with its temporary configuration, and the
  preflight check. The process, the temporary directories and the JSON reader and writers are parameters; what was
  done to the system is logged.
\<close>

section \<open>Data\<close>

text \<open>What the caller grants: nothing resolved, resolved permissions, a plain set of actions, a list of capabilities.\<close>

datatype grant = NoGrant | Effective "string list" | Frozen "string list" | Coarse "string list"

datatype proc = Exited string string int | TimedOut string | NoCommand string | OsFailure string | Broke exn

datatype act = MadeTemp string | WroteTemp string string | Started "string list" "string option" | RemovedTemp string

record opencode =
  oa_installed :: bool
  oa_jail :: bool
  oa_init :: bool
  oa_command :: string
  oa_cache :: "(string list \<times> string) list"

record 'w oc_state =
  oc_self :: opencode
  oc_world :: 'w
  oc_log :: "act list"

text \<open>Making a temporary directory below the project and writing a configuration into one may fail with an
  \<open>OSError\<close>.\<close>

record 'w oc_env =
  oe_run :: "string list \<Rightarrow> string option \<Rightarrow> 'w \<Rightarrow> proc \<times> 'w"
  oe_mkdtemp :: "string \<Rightarrow> 'w \<Rightarrow> string option \<times> 'w"
  oe_write :: "string \<Rightarrow> string \<Rightarrow> 'w \<Rightarrow> bool \<times> 'w"
  oe_remove :: "string \<Rightarrow> 'w \<Rightarrow> 'w"
  oe_dumps :: "pyval \<Rightarrow> string"
  oe_sorted :: "pyval \<Rightarrow> string"
  oe_loads :: "string \<Rightarrow> pyval option"
  oe_show :: "pyval \<Rightarrow> string"

type_synonym ('w, 'a) oc = "('w oc_state, 'a) py"

record oc_call =
  oc_prompt :: string
  oc_caps :: "string list option"
  oc_grant :: grant
  oc_model :: string
  oc_variant :: string
  oc_steps :: int
  oc_project :: string

section \<open>The command\<close>

definition opencode_new :: opencode where
  "opencode_new = \<lparr>oa_installed = False, oa_jail = False, oa_init = False, oa_command = ''opencode'', oa_cache = []\<rparr>"

definition resolve_command :: "opencode \<Rightarrow> string" where
  "resolve_command a = (if \<not> oa_installed a then ''opencode (not found)''
     else if oa_jail a then ''ai-jail opencode'' else ''ai-jail opencode (not found)'')"

definition opencode_initialize :: "(string \<Rightarrow> bool) \<Rightarrow> opencode \<Rightarrow> opencode" where
  "opencode_initialize which a =
     (let b = a\<lparr>oa_installed := which ''opencode'', oa_jail := which ''ai-jail''\<rparr> in
      b\<lparr>oa_command := resolve_command b, oa_init := True\<rparr>)"

definition opencode_health_check :: "opencode \<Rightarrow> bool" where
  "opencode_health_check a = oa_installed a"

definition has_sandbox :: "opencode \<Rightarrow> bool" where
  "has_sandbox a = oa_jail a"

section \<open>Permissions\<close>

definition BASH_RULES :: pydict where
  "BASH_RULES = map (\<lambda>(k, v). (k, PStr v))
     [(''*'', ''deny''), (''git push *'', ''deny''), (''git tag *'', ''deny''), (''rm -rf *'', ''deny''),
      (''curl *'', ''deny''), (''wget *'', ''deny''), (''git branch *'', ''allow''), (''git commit *'', ''allow''),
      (''grep *'', ''allow''), (''ruff *'', ''allow''), (''python *'', ''allow''), (''pytest *'', ''allow'')]"

definition WRITE_AGENT :: string where
  "WRITE_AGENT = ''build''"

definition caps_or_none :: "string list option \<Rightarrow> string list" where
  "caps_or_none caps = (case caps of None \<Rightarrow> [] | Some cs \<Rightarrow> cs)"

definition may_write :: "string list \<Rightarrow> bool" where
  "may_write caps \<longleftrightarrow> ''filesystem_write'' \<in> set caps \<or> ''shell'' \<in> set caps"

definition is_write_capable :: "grant \<Rightarrow> string list option \<Rightarrow> bool" where
  "is_write_capable g caps = (case g of
     Effective allowed \<Rightarrow> FILESYSTEM_WRITE_ACTION \<in> set allowed \<or> SHELL_EXECUTE \<in> set allowed
   | Frozen allowed \<Rightarrow> FILESYSTEM_WRITE_ACTION \<in> set allowed \<or> SHELL_EXECUTE \<in> set allowed
   | Coarse cs \<Rightarrow> may_write cs
   | NoGrant \<Rightarrow> may_write (caps_or_none caps))"

definition legacy_permissions :: "string list \<Rightarrow> pydict" where
  "legacy_permissions caps = (''question'', PStr ''deny'') #
     (if may_write caps then [] else [(''edit'', PStr ''deny''), (''bash'', PStr ''deny'')])"

definition allow_if :: "bool \<Rightarrow> pyval" where
  "allow_if b = PStr (if b then ''allow'' else ''deny'')"

definition granular_permissions :: "string list \<Rightarrow> pydict" where
  "granular_permissions allowed =
     (let has = (\<lambda>a. a \<in> set allowed); read = allow_if (has FILESYSTEM_READ_ACTION) in
      [(''question'', PStr ''deny''), (''read'', read), (''glob'', read), (''grep'', read),
       (''edit'', allow_if (has FILESYSTEM_WRITE_ACTION)), (''webfetch'', allow_if (has NETWORK_ACCESS)),
       (''websearch'', allow_if (has NETWORK_ACCESS)),
       (''bash'', if has SHELL_EXECUTE then PDict BASH_RULES else PStr ''deny'')])"

text \<open>A cached text for a key, or the new one, which is kept.\<close>

definition cached :: "string list \<Rightarrow> string \<Rightarrow> ('w, string) oc" where
  "cached key fresh = (\<lambda>s. case map_of (oa_cache (oc_self s)) key of
     Some j \<Rightarrow> (Inr j, s)
   | None \<Rightarrow> (Inr fresh, s\<lparr>oc_self := (oc_self s)\<lparr>oa_cache := dict_set key fresh (oa_cache (oc_self s))\<rparr>\<rparr>))"

definition build_legacy_permissions :: "'w oc_env \<Rightarrow> string list \<Rightarrow> ('w, string) oc" where
  "build_legacy_permissions E caps =
     cached (''legacy'' # sort caps) (oe_dumps E (PDict (legacy_permissions caps)))"

definition build_effective_permissions :: "'w oc_env \<Rightarrow> string list \<Rightarrow> ('w, string) oc" where
  "build_effective_permissions E allowed =
     cached (''effective'' # sort (remdups allowed)) (oe_dumps E (PDict (granular_permissions allowed)))"

definition build_permissions :: "'w oc_env \<Rightarrow> grant \<Rightarrow> string list option \<Rightarrow> ('w, string) oc" where
  "build_permissions E g caps = (case g of
     Effective allowed \<Rightarrow> build_effective_permissions E allowed
   | Frozen allowed \<Rightarrow> build_effective_permissions E allowed
   | Coarse cs \<Rightarrow> build_legacy_permissions E cs
   | NoGrant \<Rightarrow> build_legacy_permissions E (caps_or_none caps))"

section \<open>The run\<close>

definition SECRET_MARKERS :: "string list" where
  "SECRET_MARKERS = [''token'', ''api_key'', ''apikey'', ''password'', ''secret'', ''authorization'']"

definition names_secret :: "string \<Rightarrow> bool" where
  "names_secret line \<longleftrightarrow> list_ex (contains (lower line)) SECRET_MARKERS"

definition redact_detail :: "string \<Rightarrow> string" where
  "redact_detail detail =
     (let safe = strip (join [newline] (filter (\<lambda>l. \<not> names_secret l) (splitlines detail))) in
      if safe = [] then ''provider returned an error'' else safe)"

definition opencode_args :: "opencode \<Rightarrow> oc_call \<Rightarrow> string list" where
  "opencode_args a c = split_ws (oa_command a) @ [''run'', oc_prompt c, ''--format'', ''json''] @
     (if oc_model c = [] then [] else [''-m'', oc_model c]) @
     (if oc_variant c = [] then [] else [''--variant'', oc_variant c]) @
     (if is_write_capable (oc_grant c) (oc_caps c) then [''--agent'', WRITE_AGENT] else []) @ [''--auto'']"

definition steps_config :: "int \<Rightarrow> pyval" where
  "steps_config n = PDict [(''agent'', PDict [(''build'', PDict [(''steps'', PInt n)])])]"

text \<open>The directory with the step budget; one whose configuration cannot be written is forgotten.\<close>

definition temp_config :: "'w oc_env \<Rightarrow> oc_call \<Rightarrow> ('w, string option) oc" where
  "temp_config E c = (\<lambda>s.
     if \<not> (0 < oc_steps c \<and> oc_project c \<noteq> []) then (Inr None, s)
     else (case oe_mkdtemp E (oc_project c) (oc_world s) of
       (None, w) \<Rightarrow> (Inr None, s\<lparr>oc_world := w\<rparr>)
     | (Some dir, w) \<Rightarrow> (case oe_write E dir (oe_dumps E (steps_config (oc_steps c))) w of
         (False, w') \<Rightarrow> (Inr None, s\<lparr>oc_world := w', oc_log := oc_log s @ [MadeTemp dir]\<rparr>)
       | (True, w') \<Rightarrow> (Inr (Some dir), s\<lparr>oc_world := w', oc_log := oc_log s @
           [MadeTemp dir, WroteTemp dir (oe_dumps E (steps_config (oc_steps c)))]\<rparr>))))"

text \<open>The process, and the directory removed after it, however it ends.\<close>

definition run_process :: "'w oc_env \<Rightarrow> string list \<Rightarrow> string option \<Rightarrow> string option \<Rightarrow> ('w, proc) oc" where
  "run_process E args perm dir = (\<lambda>s. case oe_run E args perm (oc_world s) of (p, w) \<Rightarrow>
     (Inr p, (case dir of
        None \<Rightarrow> s\<lparr>oc_world := w, oc_log := oc_log s @ [Started args perm]\<rparr>
      | Some d \<Rightarrow> s\<lparr>oc_world := oe_remove E d w, oc_log := oc_log s @ [Started args perm, RemovedTemp d]\<rparr>)))"

definition runtime_error :: "string \<Rightarrow> exn" where
  "runtime_error msg = Exn RuntimeError msg"

definition result_of_output :: "'w oc_env \<Rightarrow> string \<Rightarrow> string \<Rightarrow> agent_result" where
  "result_of_output E model stdout =
     (case (case parse_jsonl (oe_loads E) (oe_show E) (oe_sorted E) stdout of
          None \<Rightarrow> (stdout, no_metrics) | Some r \<Rightarrow> r) of (txt, m) \<Rightarrow>
      AgentResult_default\<lparr>res_output := txt, res_tool_calls := int (mt_tool_calls m), res_tool_names := mt_tool_names m,
        res_tool_durations_ms := mt_durations m, res_llm_turns := int (mt_llm_turns m), res_total_cost := mt_cost m,
        res_tokens := mt_tokens m, res_model := model, res_steps_used := int (mt_llm_turns m),
        res_repeated_tool_calls := int (mt_repeated m),
        res_turn_sequence := map (\<lambda>t. case te_tool t of Some n \<Rightarrow> if n = [] then te_kind t else n | None \<Rightarrow> te_kind t)
          (mt_turns m),
        res_exit_reason := mt_exit m\<rparr>)"

definition process_answer :: "'w oc_env \<Rightarrow> opencode \<Rightarrow> string \<Rightarrow> proc \<Rightarrow> exn + agent_result" where
  "process_answer E a model p = (case p of
     TimedOut _ \<Rightarrow> Inl (runtime_error ''Runtime execution timed out after 600s'')
   | NoCommand _ \<Rightarrow> Inl (runtime_error (''Runtime command not found: '' @ oa_command a))
   | OsFailure msg \<Rightarrow> Inl (Exn OtherException msg)
   | Broke e \<Rightarrow> Inl e
   | Exited out err rc \<Rightarrow>
       if rc \<noteq> 0
       then Inl (runtime_error (''Runtime exited with code '' @ str_of_int rc @ '': '' @
         (if err = [] then ''unknown error'' else redact_detail (strip err))))
       else Inr (result_of_output E model (strip out)))"

definition opencode_execute :: "'w oc_env \<Rightarrow> oc_call \<Rightarrow> ('w, agent_result) oc" where
  "opencode_execute E c =
     bnd (gets oc_self) (\<lambda>a.
     if \<not> oa_installed a then raise (runtime_error (''Runtime not available: '' @ oa_command a))
     else if oa_init a \<and> \<not> oa_jail a then raise (runtime_error ''Runtime requires ai-jail (sandbox is mandatory)'')
     else bnd (build_permissions E (oc_grant c) (oc_caps c)) (\<lambda>perm.
       bnd (temp_config E c) (\<lambda>dir.
       bnd (run_process E (opencode_args a c @ (case dir of None \<Rightarrow> [] | Some d \<Rightarrow> [''--dir'', d])) (Some perm) dir) (\<lambda>p.
       of_sum (process_answer E a (oc_model c) p)))))"

section \<open>The preflight check\<close>

record runtime_diagnostic =
  dg_healthy :: bool
  dg_code :: string
  dg_message :: string
  dg_source :: string
  dg_provider :: string
  dg_model :: string
  dg_checks :: "(string \<times> bool) list"
  dg_suggestions :: "string list"

definition diagnostic_to_dict :: "runtime_diagnostic \<Rightarrow> pydict" where
  "diagnostic_to_dict d =
     [(''healthy'', PBool (dg_healthy d)), (''status'', PStr (if dg_healthy d then ''healthy'' else ''unhealthy'')),
      (''code'', PStr (dg_code d)), (''message'', PStr (dg_message d)), (''source'', PStr (dg_source d)),
      (''provider'', PStr (dg_provider d)), (''model'', PStr (dg_model d)),
      (''checks'', PDict (map (\<lambda>(k, b). (k, PBool b)) (dg_checks d))), (''suggestions'', strs (dg_suggestions d))]"

definition quoted1 :: "string \<Rightarrow> string" where
  "quoted1 s = [QUOTE1] @ s @ [QUOTE1]"

text \<open>What keeps the check from asking the provider at all.\<close>

definition diagnose_missing :: "opencode \<Rightarrow> string \<Rightarrow> string \<Rightarrow> (string \<times> string \<times> string) option" where
  "diagnose_missing a provider model =
     (if \<not> oa_installed a then Some (''opencode_missing'', ''OpenCode executable was not found.'',
        ''Install OpenCode and ensure it is available on PATH.'')
      else if \<not> oa_jail a then Some (''ai_jail_missing'', ''ai-jail is required to run OpenCode safely.'',
        ''Install ai-jail; OpenCode will not run without the sandbox.'')
      else if provider = [] then Some (''provider_missing'', ''No provider was resolved for the runtime.'',
        ''Configure routing.default_provider.'')
      else if model = [] \<or> rev (dropWhile (\<lambda>c. c = CHR ''/'') (rev model)) = provider
      then Some (''model_missing'', ''No model was resolved for provider '' @ quoted1 provider @ ''.'',
        ''Configure routing.default_model or run opencode models '' @ provider @ ''.'')
      else None)"

definition diagnose_answer :: "string \<Rightarrow> string \<Rightarrow> proc \<Rightarrow> exn + (bool \<times> string \<times> string \<times> string list)" where
  "diagnose_answer provider model p =
     (let check = ''Check the '' @ provider @ '' endpoint and run opencode models '' @ provider @ ''.'';
          unasked = (\<lambda>msg. Inr (False, ''endpoint_unreachable'', ''Could not query provider '' @ quoted1 provider @
            '' from inside ai-jail: '' @ msg, [check])) in
      case p of
        TimedOut msg \<Rightarrow> unasked msg
      | NoCommand msg \<Rightarrow> unasked msg
      | OsFailure msg \<Rightarrow> unasked msg
      | Broke e \<Rightarrow> Inl e
      | Exited out err rc \<Rightarrow>
          if rc \<noteq> 0
          then Inr (False, ''endpoint_unreachable'', ''Provider '' @ quoted1 provider @
            '' is not reachable from inside ai-jail: '' @ redact_detail (if err = [] then ''unknown error'' else err), [check])
          else let listing = out @ [newline] @ err;
                   name = (if CHR ''/'' \<in> set model then snd (snd (partition_char (CHR ''/'') model)) else model) in
            if \<not> contains listing name \<and> \<not> contains listing model
            then Inr (False, ''model_unavailable'', ''Model '' @ quoted1 model @ '' was not reported by provider '' @
              quoted1 provider @ ''.'', [''Run opencode models '' @ provider @ '' and configure an available model.''])
            else Inr (True, ''ok'', ''OpenCode provider '' @ quoted1 provider @ '' and model '' @ quoted1 model @
              '' are available.'', []))"

definition opencode_diagnose ::
  "'w oc_env \<Rightarrow> string \<Rightarrow> string \<Rightarrow> string \<Rightarrow> ('w, runtime_diagnostic) oc" where
  "opencode_diagnose E provider model src =
     bnd (gets oc_self) (\<lambda>a.
     let checks = [(''opencode'', oa_installed a), (''ai_jail'', oa_jail a)];
         diag = (\<lambda>ok kind msg cs hints. \<lparr>dg_healthy = ok, dg_code = kind, dg_message = msg, dg_source = src,
           dg_provider = provider, dg_model = model, dg_checks = cs, dg_suggestions = hints\<rparr>) in
     case diagnose_missing a provider model of
       Some (kind, msg, hint) \<Rightarrow> ret (diag False kind msg checks [hint])
     | None \<Rightarrow> bnd (run_process E [''ai-jail'', ''opencode'', ''models'', provider] None None) (\<lambda>p.
         bnd (of_sum (diagnose_answer provider model p)) (\<lambda>(ok, kind, msg, hints).
         ret (diag ok kind msg (checks @ [(''endpoint'', ok), (''model'', ok)]) hints))))"

section \<open>Reachable adapters\<close>

datatype oc_op = Initialize "string \<Rightarrow> bool" | Execute oc_call | Diagnose string string string

definition oc_step :: "'w oc_env \<Rightarrow> oc_op \<Rightarrow> 'w oc_state \<Rightarrow> 'w oc_state" where
  "oc_step E oper s = (case oper of
     Initialize which \<Rightarrow> s\<lparr>oc_self := opencode_initialize which (oc_self s)\<rparr>
   | Execute c \<Rightarrow> snd (opencode_execute E c s)
   | Diagnose p m src \<Rightarrow> snd (opencode_diagnose E p m src s))"

definition oc_start :: "'w \<Rightarrow> 'w oc_state" where
  "oc_start w = \<lparr>oc_self = opencode_new, oc_world = w, oc_log = []\<rparr>"

definition oc_run :: "'w oc_env \<Rightarrow> oc_op list \<Rightarrow> 'w oc_state \<Rightarrow> 'w oc_state" where
  "oc_run E opers s = fold (oc_step E) opers s"

text \<open>The permissions of a call as they are when nothing is cached, and the key they are kept under.\<close>

fun fresh_permissions :: "grant \<Rightarrow> string list option \<Rightarrow> pydict" where
  "fresh_permissions (Effective a) caps = granular_permissions a"
| "fresh_permissions (Frozen a) caps = granular_permissions a"
| "fresh_permissions (Coarse cs) caps = legacy_permissions cs"
| "fresh_permissions NoGrant caps = legacy_permissions (caps_or_none caps)"

fun grant_key :: "grant \<Rightarrow> string list option \<Rightarrow> string list" where
  "grant_key (Effective a) caps = ''effective'' # sort (remdups a)"
| "grant_key (Frozen a) caps = ''effective'' # sort (remdups a)"
| "grant_key (Coarse cs) caps = ''legacy'' # sort cs"
| "grant_key NoGrant caps = ''legacy'' # sort (caps_or_none caps)"

lemma sort_eq_set: "sort xs = sort ys \<Longrightarrow> set xs = set ys"
  by (metis set_sort)

lemma granular_cong: "set a = set b \<Longrightarrow> granular_permissions a = granular_permissions b"
  by (simp add: granular_permissions_def)

lemma legacy_cong: "set a = set b \<Longrightarrow> legacy_permissions a = legacy_permissions b"
  by (simp add: legacy_permissions_def may_write_def)

lemma key_determines: "grant_key g caps = grant_key g' caps' \<Longrightarrow> fresh_permissions g caps = fresh_permissions g' caps'"
  by (cases g; cases g') (auto dest!: sort_eq_set intro: granular_cong legacy_cong)

definition cache_ok :: "'w oc_env \<Rightarrow> opencode \<Rightarrow> bool" where
  "cache_ok E a \<longleftrightarrow> (\<forall>g caps j. map_of (oa_cache a) (grant_key g caps) = Some j \<longrightarrow>
     j = oe_dumps E (PDict (fresh_permissions g caps)))"

definition adapter_ok :: "'w oc_env \<Rightarrow> opencode \<Rightarrow> bool" where
  "adapter_ok E a \<longleftrightarrow> (oa_installed a \<longrightarrow> oa_init a \<and> oa_command a = resolve_command a) \<and> cache_ok E a"

lemma build_permissions_cached:
  "build_permissions E g caps = cached (grant_key g caps) (oe_dumps E (PDict (fresh_permissions g caps)))"
  by (cases g) (simp_all add: build_permissions_def build_effective_permissions_def build_legacy_permissions_def)

text \<open>The cache is transparent: it answers what would be built, and keeps doing so.\<close>

lemma build_permissions_run:
  assumes "adapter_ok E (oc_self s)"
  obtains u where "build_permissions E g caps s = (Inr (oe_dumps E (PDict (fresh_permissions g caps))), u)"
    and "adapter_ok E (oc_self u)" and "oc_log u = oc_log s" and "oc_world u = oc_world s"
proof (cases "map_of (oa_cache (oc_self s)) (grant_key g caps)")
  case (Some j)
  with assms have "j = oe_dumps E (PDict (fresh_permissions g caps))" by (auto simp: adapter_ok_def cache_ok_def)
  with Some assms that show ?thesis by (simp add: build_permissions_cached cached_def)
next
  case None
  let ?u = "s\<lparr>oc_self := (oc_self s)\<lparr>oa_cache := dict_set (grant_key g caps)
    (oe_dumps E (PDict (fresh_permissions g caps))) (oa_cache (oc_self s))\<rparr>\<rparr>"
  have "adapter_ok E (oc_self ?u)"
    using assms by (auto simp: adapter_ok_def cache_ok_def resolve_command_def dest: key_determines split: if_splits)
  with None that show ?thesis by (simp add: build_permissions_cached cached_def)
qed

section \<open>Nothing runs outside the sandbox\<close>

text \<open>The command of a call in the sandbox, its permissions, and what is logged for a budget directory.\<close>

definition sandbox_line :: "oc_call \<Rightarrow> string list" where
  "sandbox_line c = [''ai-jail'', ''opencode'', ''run'', oc_prompt c, ''--format'', ''json''] @
     (if oc_model c = [] then [] else [''-m'', oc_model c]) @
     (if oc_variant c = [] then [] else [''--variant'', oc_variant c]) @
     (if is_write_capable (oc_grant c) (oc_caps c) then [''--agent'', ''build''] else []) @ [''--auto'']"

definition call_permission :: "'w oc_env \<Rightarrow> oc_call \<Rightarrow> string" where
  "call_permission E c = oe_dumps E (PDict (fresh_permissions (oc_grant c) (oc_caps c)))"

definition run_log :: "'w oc_env \<Rightarrow> oc_call \<Rightarrow> act list \<Rightarrow> bool" where
  "run_log E c new \<longleftrightarrow>
     new = [Started (sandbox_line c) (Some (call_permission E c))]
     \<or> (\<exists>d. 0 < oc_steps c \<and> new = [MadeTemp d, Started (sandbox_line c) (Some (call_permission E c))])
     \<or> (\<exists>d. 0 < oc_steps c \<and> new = [MadeTemp d, WroteTemp d (oe_dumps E (steps_config (oc_steps c))),
          Started (sandbox_line c @ [''--dir'', d]) (Some (call_permission E c)), RemovedTemp d])"

definition ready :: "opencode \<Rightarrow> bool" where
  "ready a \<longleftrightarrow> oa_installed a \<and> oa_jail a"

lemma split_jail: "split_ws ''ai-jail opencode'' = [''ai-jail'', ''opencode'']"
  by code_simp

lemma args_in_sandbox: "adapter_ok E a \<Longrightarrow> ready a \<Longrightarrow> opencode_args a c = sandbox_line c"
  by (simp add: opencode_args_def sandbox_line_def adapter_ok_def ready_def resolve_command_def split_jail WRITE_AGENT_def)

lemma temp_config_run:
  assumes "temp_config E c s = (r, u)"
  shows "oc_self u = oc_self s \<and> (r = Inr None \<and> oc_log u = oc_log s
    \<or> r = Inr None \<and> 0 < oc_steps c \<and> (\<exists>d. oc_log u = oc_log s @ [MadeTemp d])
    \<or> (\<exists>d. r = Inr (Some d) \<and> 0 < oc_steps c \<and>
        oc_log u = oc_log s @ [MadeTemp d, WroteTemp d (oe_dumps E (steps_config (oc_steps c)))]))"
  using assms by (auto simp: temp_config_def split: if_splits prod.splits option.splits bool.splits)

lemma execute_not_ready:
  assumes "adapter_ok E (oc_self s)" "\<not> ready (oc_self s)"
  shows "\<exists>msg. opencode_execute E c s = (Inl (runtime_error msg), s)"
  using assms by (auto simp: opencode_execute_def py_run ready_def adapter_ok_def)

lemma execute_ready:
  assumes ok: "adapter_ok E (oc_self s)" and ready: "ready (oc_self s)" and run: "opencode_execute E c s = (r, u)"
  shows "adapter_ok E (oc_self u) \<and> (\<exists>new. oc_log u = oc_log s @ new \<and> run_log E c new)"
proof -
  obtain v where v: "build_permissions E (oc_grant c) (oc_caps c) s = (Inr (call_permission E c), v)"
      "adapter_ok E (oc_self v)" "oc_log v = oc_log s"
    using build_permissions_run [OF ok] unfolding call_permission_def by metis
  obtain x w where temp: "temp_config E c v = (x, w)" by (cases "temp_config E c v")
  note facts = temp_config_run [OF temp]
  from facts obtain dir where x: "x = Inr dir" by auto
  let ?args = "opencode_args (oc_self s) c @ (case dir of None \<Rightarrow> [] | Some d \<Rightarrow> [''--dir'', d])"
  obtain p y where proc: "oe_run E ?args (Some (call_permission E c)) (oc_world w) = (p, y)"
    by (cases "oe_run E ?args (Some (call_permission E c)) (oc_world w)")
  have "u = snd (run_process E ?args (Some (call_permission E c)) dir w)"
    using run ready ok v(1) temp x
    by (simp add: opencode_execute_def py_run ready_def adapter_ok_def run_process_def proc)
  then have u: "oc_self u = oc_self w"
      "oc_log u = oc_log w @ (case dir of None \<Rightarrow> [Started ?args (Some (call_permission E c))]
        | Some d \<Rightarrow> [Started ?args (Some (call_permission E c)), RemovedTemp d])"
    by (simp_all add: run_process_def proc split: option.split)
  show ?thesis
    using facts v u x unfolding run_log_def args_in_sandbox [OF ok ready] by auto
qed

fun in_sandbox :: "act \<Rightarrow> bool" where
  "in_sandbox (Started args perm) = (take 2 args = [''ai-jail'', ''opencode''])"
| "in_sandbox _ = True"

lemma run_log_in_sandbox: "run_log E c new \<Longrightarrow> list_all in_sandbox new"
  by (auto simp: run_log_def sandbox_line_def)

lemma diagnose_in_sandbox:
  "case opencode_diagnose E p m src s of (r, u) \<Rightarrow> oc_self u = oc_self s \<and>
     (\<exists>new. oc_log u = oc_log s @ new \<and> list_all in_sandbox new)"
  by (auto simp: opencode_diagnose_def py_run Let_def run_process_def split: option.split prod.split sum.split)

lemma initialize_ok: "adapter_ok E a \<Longrightarrow> adapter_ok E (opencode_initialize which a)"
  by (simp add: adapter_ok_def cache_ok_def opencode_initialize_def Let_def resolve_command_def)

lemma oc_step_ok:
  assumes "adapter_ok E (oc_self s) \<and> list_all in_sandbox (oc_log s)"
  shows "adapter_ok E (oc_self (oc_step E oper s)) \<and> list_all in_sandbox (oc_log (oc_step E oper s))"
proof (cases oper)
  case (Initialize which)
  then show ?thesis using assms by (simp add: oc_step_def initialize_ok)
next
  case (Execute c)
  obtain r u where run: "opencode_execute E c s = (r, u)" by (cases "opencode_execute E c s")
  show ?thesis
  proof (cases "ready (oc_self s)")
    case True
    then show ?thesis using execute_ready [OF _ True run] assms run_log_in_sandbox Execute run
      by (auto simp: oc_step_def)
  next
    case False
    then show ?thesis using execute_not_ready [where E = E and s = s and c = c] False assms Execute run by (auto simp: oc_step_def)
  qed
next
  case (Diagnose p m src)
  then show ?thesis using diagnose_in_sandbox [where E = E and p = p and m = m and src = src and s = s] assms
    by (auto simp: oc_step_def split: prod.splits)
qed

lemma oc_run_ok: "adapter_ok E (oc_self (oc_run E opers (oc_start w))) \<and> list_all in_sandbox (oc_log (oc_run E opers (oc_start w)))"
proof -
  have "adapter_ok E (oc_self s) \<and> list_all in_sandbox (oc_log s) \<Longrightarrow>
    adapter_ok E (oc_self (fold (oc_step E) opers s)) \<and> list_all in_sandbox (oc_log (fold (oc_step E) opers s))" for s
    by (induction opers arbitrary: s) (simp_all add: oc_step_ok)
  moreover have "adapter_ok E (oc_self (oc_start w)) \<and> list_all in_sandbox (oc_log (oc_start w))"
    by (simp add: oc_start_def opencode_new_def adapter_ok_def cache_ok_def)
  ultimately show ?thesis by (simp add: oc_run_def)
qed

text \<open>C9: Whatever was initialised, run and checked before on whatever host, every process was started in the sandbox. A
  further run is refused with a runtime error, nothing started and no permission built, unless OpenCode and the sandbox
  were both found; otherwise it starts exactly one process, with exactly the command of the call, the writing agent
  precisely for a call that may write, and the permissions of this call, cached or not; a budget directory is
  removed after the process unless its configuration could not be written.\<close>

theorem opencode_always_sandboxed:
  "let s = oc_run E opers (oc_start w) in list_all in_sandbox (oc_log s) \<and>
     (case opencode_execute E c s of (r, u) \<Rightarrow>
        if ready (oc_self s) then \<exists>new. oc_log u = oc_log s @ new \<and> run_log E c new
        else u = s \<and> (\<exists>msg. r = Inl (runtime_error msg)))"
  using oc_run_ok [of E opers w] execute_ready [where E = E and s = "oc_run E opers (oc_start w)" and c = c]
    execute_not_ready [where E = E and s = "oc_run E opers (oc_start w)" and c = c]
  by (auto simp: Let_def split: prod.split)

section \<open>Secrets\<close>

lemma startswith_prefix: "startswith s p \<longleftrightarrow> prefix p s"
  by (auto simp: startswith_def prefix_def) (metis append_take_drop_id)

lemma contains_sublist: "contains s p \<longleftrightarrow> sublist p s"
proof (induction s)
  case Nil
  then show ?case by (auto simp: contains.simps [of "[]"] startswith_prefix)
next
  case (Cons c s)
  then show ?case by (simp add: contains.simps [of "c # s"] sublist_Cons_right startswith_prefix)
qed

lemma sublist_of_line: "c \<notin> set p \<Longrightarrow> sublist p (a @ c # b) \<Longrightarrow> sublist p a \<or> sublist p b"
  unfolding sublist_append sublist_Cons_right prefix_Cons by (auto simp: suffix_imp_sublist)

lemma sublist_join: "newline \<notin> set p \<Longrightarrow> sublist p (join [newline] ls) \<Longrightarrow> p = [] \<or> (\<exists>l \<in> set ls. sublist p l)"
  by (induction "[newline]" ls rule: join.induct) (auto dest: sublist_of_line)

lemma sublist_strip: "sublist (strip s) s"
proof -
  have "suffix (lstrip s) s" by (simp add: lstrip_def suffix_dropWhile)
  moreover have "prefix (rstrip t) t" for t
    by (simp add: rstrip_def) (metis rev_rev_ident suffix_dropWhile suffix_to_prefix)
  ultimately show ?thesis unfolding strip_def by (meson prefix_imp_sublist sublist_order.order.trans suffix_imp_sublist)
qed

lemma lower_newline: "lower_char newline = newline"
  by code_simp

lemma sublist_lower: "sublist p s \<Longrightarrow> sublist (lower p) (lower s)"
  unfolding sublist_def lower_def by (metis map_append)

lemma lower_join: "lower (join [newline] ls) = join [newline] (map lower ls)"
  by (induction "[newline]" ls rule: join.induct) (simp_all add: lower_def lower_newline)

lemma markers_on_one_line: "m \<in> set SECRET_MARKERS \<Longrightarrow> m \<noteq> [] \<and> newline \<notin> set m"
proof -
  have "list_all (\<lambda>m. m \<noteq> [] \<and> newline \<notin> set m) SECRET_MARKERS" by code_simp
  then show "m \<in> set SECRET_MARKERS \<Longrightarrow> m \<noteq> [] \<and> newline \<notin> set m" by (auto simp: list_all_iff)
qed

lemma default_detail_safe: "\<not> names_secret ''provider returned an error''"
  by code_simp

lemma redacted_safe: "\<not> names_secret (redact_detail detail)"
proof -
  let ?ls = "filter (\<lambda>l. \<not> names_secret l) (splitlines detail)"
  have "\<not> contains (lower (strip (join [newline] ?ls))) m" if m: "m \<in> set SECRET_MARKERS" for m
  proof
    assume "contains (lower (strip (join [newline] ?ls))) m"
    then have "sublist m (join [newline] (map lower ?ls))"
      unfolding contains_sublist lower_join [symmetric]
      by (meson sublist_lower sublist_order.order.trans sublist_strip)
    then obtain l where "l \<in> set ?ls" "sublist m (lower l)"
      using sublist_join markers_on_one_line [OF m] by fastforce
    then show False using m by (auto simp: names_secret_def list_ex_iff contains_sublist)
  qed
  then have "\<not> names_secret (strip (join [newline] ?ls))" by (auto simp: names_secret_def list_ex_iff)
  then show ?thesis using default_detail_safe by (simp add: redact_detail_def Let_def)
qed

text \<open>Neither an error of a run that ended badly nor the diagnosis of a provider that cannot be reached quotes a
  word that names a secret: what it says about the process is redacted text, in which no marker occurs in any case.\<close>

theorem opencode_errors_redacted:
  "rc \<noteq> 0 \<Longrightarrow> \<exists>detail. \<not> names_secret detail \<and>
     process_answer E a model (Exited out err rc) =
       Inl (runtime_error (''Runtime exited with code '' @ str_of_int rc @ '': '' @ detail)) \<and>
     (\<exists>safe. \<not> names_secret safe \<and> map_sum id (\<lambda>(ok, kind, msg, hints). (ok, msg)) (diagnose_answer p model (Exited out err rc)) =
       Inr (False, ''Provider '' @ quoted1 p @ '' is not reachable from inside ai-jail: '' @ safe))"
proof -
  assume rc: "rc \<noteq> 0"
  have unknown: "\<not> names_secret ''unknown error''" by code_simp
  show ?thesis
    by (rule exI [of _ "if err = [] then ''unknown error'' else redact_detail (strip err)"])
       (use rc unknown redacted_safe in \<open>auto simp: process_answer_def diagnose_answer_def Let_def\<close>)
qed

section \<open>Examples\<close>

text \<open>A host where everything is installed, no configuration can be written and every run fails with an error that
  quotes a key.\<close>

definition failing_env :: "unit oc_env" where
  "failing_env = \<lparr>oe_run = (\<lambda>args perm w. (Exited '''' (''boom'' @ [newline] @ ''API_KEY=abc'') 3, w)),
     oe_mkdtemp = (\<lambda>p w. (Some (p @ ''/.aios/.tmp/oc_1''), w)), oe_write = (\<lambda>d c w. (False, w)), oe_remove = (\<lambda>d w. w),
     oe_dumps = (\<lambda>_. ''{}''), oe_sorted = (\<lambda>_. ''{}''), oe_loads = (\<lambda>_. None), oe_show = (\<lambda>_. [])\<rparr>"

definition budget_call :: oc_call where
  "budget_call = \<lparr>oc_prompt = ''fix it'', oc_caps = None, oc_grant = Effective [''filesystem.read''], oc_model = '''',
     oc_variant = '''', oc_steps = 5, oc_project = ''/p''\<rparr>"

definition failing_run :: "unit oc_state" where
  "failing_run = oc_run failing_env [Initialize (\<lambda>_. True), Execute budget_call] (oc_start ())"

text \<open>The directory whose configuration could not be written stays: it is made and never removed.\<close>

lemma unwritten_directory_stays:
  "oc_log failing_run = [MadeTemp ''/p/.aios/.tmp/oc_1'',
     Started [''ai-jail'', ''opencode'', ''run'', ''fix it'', ''--format'', ''json'', ''--auto''] (Some ''{}'')]"
  by code_simp

lemma key_line_dropped: "redact_detail (strip (''boom'' @ [newline] @ ''API_KEY=abc'')) = ''boom''"
  by code_simp

lemma ex_first: "\<exists>x. A x \<and> B x \<and> C x \<Longrightarrow> \<exists>x. A x \<and> B x"
  by blast

theorem opencode_errors_redacted_witness:
  "\<exists>detail. \<not> names_secret detail \<and>
     process_answer failing_env opencode_new ''m'' (Exited '''' (''boom'' @ [newline] @ ''API_KEY=abc'') 3) =
       Inl (runtime_error (''Runtime exited with code '' @ str_of_int 3 @ '': '' @ detail))"
proof -
  have "(3::int) \<noteq> 0" by simp
  from opencode_errors_redacted [OF this, of failing_env opencode_new "''m''" "''''"
      "''boom'' @ [newline] @ ''API_KEY=abc''" "''p''"]
  show ?thesis by (rule ex_first)
qed

text \<open>Coarse capabilities are laxer than resolved ones: writing alone leaves the shell open.\<close>

lemma coarse_write_leaves_shell:
  "dict_get (legacy_permissions [''filesystem_write'']) ''bash'' PNone = PNone"
  "dict_get (granular_permissions [FILESYSTEM_WRITE_ACTION]) ''bash'' PNone = PStr ''deny''"
  by code_simp+

end
