(* ===== verification/Ollama.thy ===== *)
theory Ollama
  imports OpenCode
begin

text \<open>
  The Ollama adapter (\<open>runtime/ollama.py\<close>) and the contract of the adapters (\<open>runtime/base.py\<close>): a locale that says
  what the runtime relies on - no process outside the sandbox, none at all while it is missing - interpreted by both
  adapters. The process in the sandbox, the JSON reader and writer and the display of a value are parameters.
\<close>

section \<open>The adapter\<close>

definition DEFAULT_HOST :: string where
  "DEFAULT_HOST = ''http://localhost:11434''"

definition DEFAULT_MODEL :: string where
  "DEFAULT_MODEL = ''llama3''"

definition NUM_CTX :: int where
  "NUM_CTX = 16384"

record ollama =
  ol_host :: string
  ol_model :: string
  ol_jail :: bool
  ol_command :: string

record 'w ol_state =
  ol_self :: ollama
  ol_world :: 'w
  ol_log :: "(string list \<times> string) list"

record 'w ol_env =
  ol_run :: "string list \<Rightarrow> string \<Rightarrow> 'w \<Rightarrow> proc \<times> 'w"
  ol_dumps :: "pyval \<Rightarrow> string"
  ol_loads :: "string \<Rightarrow> pyval option"
  ol_show :: "pyval \<Rightarrow> string"
  ol_script :: string

type_synonym ('w, 'a) ol = "('w ol_state, 'a) py"

text \<open>\<open>host or os.environ.get(...)\<close>: the argument, the variable, the default.\<close>

definition ollama_new :: "string option \<Rightarrow> string option \<Rightarrow> (string \<Rightarrow> string option) \<Rightarrow> ollama" where
  "ollama_new host model env =
     (let pick = (\<lambda>arg var dflt. case arg of Some (c # s) \<Rightarrow> c # s | _ \<Rightarrow> (case env var of None \<Rightarrow> dflt | Some v \<Rightarrow> v)) in
      \<lparr>ol_host = pick host ''AIOS_OLLAMA_HOST'' DEFAULT_HOST, ol_model = pick model ''AIOS_OLLAMA_MODEL'' DEFAULT_MODEL,
       ol_jail = False, ol_command = ''ai-jail python3''\<rparr>)"

definition ollama_initialize :: "(string \<Rightarrow> bool) \<Rightarrow> ollama \<Rightarrow> ollama" where
  "ollama_initialize which a = (let b = a\<lparr>ol_jail := which ''ai-jail''\<rparr> in
     if ol_jail b then b else b\<lparr>ol_command := ''python3 (not found)''\<rparr>)"

definition ollama_has_sandbox :: "ollama \<Rightarrow> bool" where
  "ollama_has_sandbox a = ol_jail a"

definition model_from :: "ollama \<Rightarrow> string \<Rightarrow> string" where
  "model_from a model = (if model = [] then ol_model a
     else case partition_char (CHR ''/'') model of (_, sep, name) \<Rightarrow> if sep \<noteq> [] \<and> name \<noteq> [] then name else model)"

definition sandbox_args :: "'w ol_env \<Rightarrow> string list" where
  "sandbox_args E = [''ai-jail'', ''--'', ''python3'', ''-c'', ol_script E]"

text \<open>The kinds of failure \<open>execute\<close> turns into a runtime error: its own, of the JSON reader, and a time-out. An
  \<open>OSError\<close> - no such command - is none of them.\<close>

datatype sandbox_failure = Wrapped string | Escaped exn

definition run_sandboxed :: "'w ol_env \<Rightarrow> pyval \<Rightarrow> 'w ol_state \<Rightarrow> (sandbox_failure + string) \<times> 'w ol_state" where
  "run_sandboxed E payload = (\<lambda>s. case ol_run E (sandbox_args E) (ol_dumps E payload) (ol_world s) of (p, w) \<Rightarrow>
     let t = s\<lparr>ol_world := w, ol_log := ol_log s @ [(sandbox_args E, ol_dumps E payload)]\<rparr> in
     case p of
       TimedOut msg \<Rightarrow> (Inl (Wrapped msg), t)
     | NoCommand msg \<Rightarrow> (Inl (Escaped (Exn FileNotFoundError msg)), t)
     | OsFailure msg \<Rightarrow> (Inl (Escaped (Exn OtherException msg)), t)
     | Broke e \<Rightarrow> (Inl (Escaped e), t)
     | Exited out err rc \<Rightarrow>
         if rc \<noteq> 0 then (Inl (Wrapped (''Ollama sandbox exited with code '' @ str_of_int rc @ '': '' @
            (if err = [] then ''unknown error'' else strip err))), t)
         else (Inr (strip out), t))"

definition request :: "ollama \<Rightarrow> string \<Rightarrow> pyval \<Rightarrow> pyval" where
  "request a path body = PDict [(''url'', PStr (ol_host a @ path)), (''body'', body)]"

definition ollama_health_check :: "'w ol_env \<Rightarrow> ('w, bool) ol" where
  "ollama_health_check E = (\<lambda>s.
     if \<not> ol_jail (ol_self s) then (Inr False, s)
     else case run_sandboxed E (request (ol_self s) ''/api/tags'' PNone) s of
       (Inl (Wrapped _), t) \<Rightarrow> (Inr False, t)
     | (Inl (Escaped e), t) \<Rightarrow> (Inl e, t)
     | (Inr out, t) \<Rightarrow> (Inr (case ol_loads E out of Some (PDict d) \<Rightarrow> map_of d ''models'' \<noteq> None | _ \<Rightarrow> False), t))"

definition chat_body :: "ollama \<Rightarrow> string \<Rightarrow> string \<Rightarrow> pyval" where
  "chat_body a prompt model = PDict
     [(''model'', PStr (model_from a model)),
      (''messages'', PList [PDict [(''role'', PStr ''user''), (''content'', PStr prompt)]]),
      (''stream'', PBool False), (''format'', PStr ''json''), (''options'', PDict [(''num_ctx'', PInt NUM_CTX)])]"

definition message_content :: "'w ol_env \<Rightarrow> pyval \<Rightarrow> exn + string" where
  "message_content E data = (case data of
     PDict d \<Rightarrow> (case dict_get d ''message'' (PDict []) of
       PDict m \<Rightarrow> (case dict_get m ''content'' PNone of
         PStr s \<Rightarrow> Inr s
       | _ \<Rightarrow> Inl (runtime_error (''Ollama response missing message.content: '' @ ol_show E data)))
     | _ \<Rightarrow> Inl (Exn AttributeError ''object has no attribute get''))
   | _ \<Rightarrow> Inl (Exn AttributeError ''object has no attribute get''))"

definition request_failed :: "string \<Rightarrow> exn" where
  "request_failed msg = runtime_error (''Ollama request failed: '' @ msg)"

definition ollama_execute :: "'w ol_env \<Rightarrow> string \<Rightarrow> string \<Rightarrow> ('w, string) ol" where
  "ollama_execute E prompt model = (\<lambda>s.
     if \<not> ol_jail (ol_self s) then (Inl (runtime_error ''OllamaAdapter requires ai-jail (sandbox is mandatory)''), s)
     else case run_sandboxed E (request (ol_self s) ''/api/chat'' (chat_body (ol_self s) prompt model)) s of
       (Inl (Wrapped msg), t) \<Rightarrow> (Inl (request_failed msg), t)
     | (Inl (Escaped e), t) \<Rightarrow> (Inl e, t)
     | (Inr out, t) \<Rightarrow> (case ol_loads E out of
         None \<Rightarrow> (Inl (request_failed ''not valid JSON''), t)
       | Some data \<Rightarrow> (message_content E data, t)))"

section \<open>The contract of an adapter\<close>

text \<open>
  What the runtime relies on: a call leaves the adapter sound and starts at most one process, in the sandbox, and none
  while the sandbox is missing. \<open>ok\<close> is the invariant of the adapter, \<open>started\<close> its processes so far.
\<close>

definition jailed :: "string list \<Rightarrow> bool" where
  "jailed args \<longleftrightarrow> args \<noteq> [] \<and> hd args = ''ai-jail''"

locale sandboxed_adapter =
  fixes exec :: "'c \<Rightarrow> 's \<Rightarrow> (exn + 'r) \<times> 's"
    and started :: "'s \<Rightarrow> string list list"
    and sandbox :: "'s \<Rightarrow> bool"
    and ok :: "'s \<Rightarrow> bool"
  assumes exec_ok: "ok s \<Longrightarrow> ok (snd (exec c s))"
    and exec_keeps_sandbox: "ok s \<Longrightarrow> sandbox (snd (exec c s)) = sandbox s"
    and exec_started: "ok s \<Longrightarrow> \<exists>new. started (snd (exec c s)) = started s @ new \<and> length new \<le> 1 \<and> list_all jailed new"
    and exec_unsandboxed: "ok s \<Longrightarrow> \<not> sandbox s \<Longrightarrow> (\<exists>e. fst (exec c s) = Inl e) \<and> started (snd (exec c s)) = started s"
begin

primrec exec_all :: "'c list \<Rightarrow> 's \<Rightarrow> 's" where
  "exec_all [] s = s"
| "exec_all (c # cs) s = exec_all cs (snd (exec c s))"

lemma exec_all_ok: "ok s \<Longrightarrow> ok (exec_all cs s)"
  by (induction cs arbitrary: s) (simp_all add: exec_ok)

lemma exec_all_started:
  "ok s \<Longrightarrow> \<exists>new. started (exec_all cs s) = started s @ new \<and> length new \<le> length cs \<and> list_all jailed new"
proof (induction cs arbitrary: s)
  case Nil
  then show ?case by simp
next
  case (Cons c cs)
  obtain a where a: "started (snd (exec c s)) = started s @ a" "length a \<le> 1" "list_all jailed a"
    using exec_started [OF Cons.prems] by blast
  obtain b where b: "started (exec_all cs (snd (exec c s))) = started (snd (exec c s)) @ b" "length b \<le> length cs" "list_all jailed b"
    using Cons.IH [OF exec_ok [OF Cons.prems]] by blast
  show ?case by (rule exI [of _ "a @ b"]) (use a b in simp)
qed

lemma exec_all_unsandboxed: "ok s \<Longrightarrow> \<not> sandbox s \<Longrightarrow> started (exec_all cs s) = started s"
  by (induction cs arbitrary: s) (simp_all add: exec_unsandboxed exec_keeps_sandbox exec_ok)

end

lemma run_sandboxed_log:
  "ol_log (snd (run_sandboxed E payload s)) = ol_log s @ [(sandbox_args E, ol_dumps E payload)]"
  "ol_self (snd (run_sandboxed E payload s)) = ol_self s"
  by (simp_all add: run_sandboxed_def Let_def split: prod.split proc.split)

lemma ollama_execute_state:
  "snd (ollama_execute E prompt model s) = (if ol_jail (ol_self s)
     then snd (run_sandboxed E (request (ol_self s) ''/api/chat'' (chat_body (ol_self s) prompt model)) s) else s)"
  by (simp add: ollama_execute_def split: prod.split sum.split sandbox_failure.split option.split)

definition ollama_call :: "'w ol_env \<Rightarrow> string \<times> string \<Rightarrow> ('w, string) ol" where
  "ollama_call E c = ollama_execute E (fst c) (snd c)"

interpretation ollama_adapter: sandboxed_adapter "ollama_call E" "map fst \<circ> ol_log" "ol_jail \<circ> ol_self" "\<lambda>s. True"
proof unfold_locales
  fix s :: "'a ol_state" and c
  show "(ol_jail \<circ> ol_self) (snd (ollama_call E c s)) = (ol_jail \<circ> ol_self) s"
    by (simp add: ollama_call_def ollama_execute_state run_sandboxed_log)
  show "\<exists>new. (map fst \<circ> ol_log) (snd (ollama_call E c s)) = (map fst \<circ> ol_log) s @ new \<and> length new \<le> 1 \<and> list_all jailed new"
  proof (cases "ol_jail (ol_self s)")
    case True
    then show ?thesis
      by (intro exI [of _ "[sandbox_args E]"])
         (simp add: ollama_call_def ollama_execute_state run_sandboxed_log jailed_def sandbox_args_def)
  qed (simp add: ollama_call_def ollama_execute_state)
  show "(\<exists>e. fst (ollama_call E c s) = Inl e) \<and> (map fst \<circ> ol_log) (snd (ollama_call E c s)) = (map fst \<circ> ol_log) s"
    if "\<not> (ol_jail \<circ> ol_self) s"
    using that by (simp add: ollama_call_def ollama_execute_def)
qed simp


section \<open>The OpenCode adapter keeps it\<close>

fun started_args :: "act \<Rightarrow> string list list" where
  "started_args (Started args perm) = [args]"
| "started_args _ = []"

definition opencode_started :: "'w oc_state \<Rightarrow> string list list" where
  "opencode_started s = concat (map started_args (oc_log s))"

lemma run_log_started:
  "run_log E c new \<Longrightarrow> length (concat (map started_args new)) \<le> 1 \<and> list_all jailed (concat (map started_args new))"
  by (auto simp: run_log_def sandbox_line_def jailed_def)

lemma build_permissions_jail:
  "\<exists>j t. build_permissions E g caps s = (Inr j, t) \<and> oa_jail (oc_self t) = oa_jail (oc_self s)"
  by (auto simp: build_permissions_def build_legacy_permissions_def build_effective_permissions_def cached_def
      split: grant.split option.split)

lemma opencode_jail: "oa_jail (oc_self (snd (opencode_execute E c s))) = oa_jail (oc_self s)"
proof -
  obtain j t where t: "build_permissions E (oc_grant c) (oc_caps c) s = (Inr j, t)" "oa_jail (oc_self t) = oa_jail (oc_self s)"
    using build_permissions_jail by blast
  obtain x u where u: "temp_config E c t = (x, u)" by (cases "temp_config E c t")
  have same: "oc_self u = oc_self t" using temp_config_run [OF u] by simp
  have "oc_self (snd (run_process E args perm dir u)) = oc_self u" for args perm dir
    by (simp add: run_process_def split: prod.split option.split)
  then show ?thesis using t same
    by (cases x) (auto simp: opencode_execute_def py_run u split: prod.split sum.split, (metis snd_conv)+)
qed

interpretation opencode_adapter: sandboxed_adapter "opencode_execute E" opencode_started "oa_jail \<circ> oc_self"
  "\<lambda>s. adapter_ok E (oc_self s)"
proof unfold_locales
  fix s :: "'a oc_state" and c
  assume ok: "adapter_ok E (oc_self s)"
  obtain r u where run: "opencode_execute E c s = (r, u)" by (cases "opencode_execute E c s")
  note ready = execute_ready [OF ok _ run] and refused = execute_not_ready [OF ok, of c]
  show "adapter_ok E (oc_self (snd (opencode_execute E c s)))"
    using ready refused ok run by (cases "ready (oc_self s)") auto
  show "(oa_jail \<circ> oc_self) (snd (opencode_execute E c s)) = (oa_jail \<circ> oc_self) s"
    by (simp add: opencode_jail)
  show "\<exists>new. opencode_started (snd (opencode_execute E c s)) = opencode_started s @ new \<and> length new \<le> 1 \<and> list_all jailed new"
  proof (cases "ready (oc_self s)")
    case True
    then obtain new where "oc_log u = oc_log s @ new" "run_log E c new" using ready by blast
    then show ?thesis using run_log_started [of E c new] run by (simp add: opencode_started_def)
  next
    case False
    then show ?thesis using refused by auto
  qed
  show "(\<exists>e. fst (opencode_execute E c s) = Inl e) \<and> opencode_started (snd (opencode_execute E c s)) = opencode_started s"
    if "\<not> (oa_jail \<circ> oc_self) s"
    using refused that by (auto simp: ready_def)
qed

text \<open>C12: Whichever adapter is used and whatever it is asked, a run of calls starts at most one process a call, each in the
  sandbox, and nothing at all while the sandbox is missing.\<close>

theorem adapters_always_sandboxed:
  "(\<exists>new. map fst (ol_log (ollama_adapter.exec_all E asks s)) = map fst (ol_log s) @ new \<and> length new \<le> length asks \<and>
       list_all jailed new \<and> (ol_jail (ol_self s) \<or> new = [])) \<and>
   (\<exists>new. opencode_started (opencode_adapter.exec_all F runs (oc_run F opers (oc_start w))) =
         opencode_started (oc_run F opers (oc_start w)) @ new \<and> length new \<le> length runs \<and> list_all jailed new \<and>
       (oa_jail (oc_self (oc_run F opers (oc_start w))) \<or> new = []))"
proof
  show "\<exists>new. map fst (ol_log (ollama_adapter.exec_all E asks s)) = map fst (ol_log s) @ new \<and> length new \<le> length asks \<and>
       list_all jailed new \<and> (ol_jail (ol_self s) \<or> new = [])"
    using ollama_adapter.exec_all_started [where s = s and E = E and cs = asks] ollama_adapter.exec_all_unsandboxed [where s = s and E = E and cs = asks]
    by (cases "ol_jail (ol_self s)") auto
  let ?s = "oc_run F opers (oc_start w)"
  have ok: "adapter_ok F (oc_self ?s)" by (rule conjunct1 [OF oc_run_ok])
  show "\<exists>new. opencode_started (opencode_adapter.exec_all F runs ?s) = opencode_started ?s @ new \<and> length new \<le> length runs \<and>
      list_all jailed new \<and> (oa_jail (oc_self ?s) \<or> new = [])"
    using opencode_adapter.exec_all_started [OF ok, of runs] opencode_adapter.exec_all_unsandboxed [OF ok, of runs]
    by (cases "oa_jail (oc_self ?s)") auto
qed

section \<open>Answers\<close>

definition answering :: "string \<Rightarrow> pyval option \<Rightarrow> unit ol_env" where
  "answering out v = \<lparr>ol_run = (\<lambda>args inp w. (Exited out '''' 0, w)), ol_dumps = (\<lambda>_. ''{}''), ol_loads = (\<lambda>_. v),
     ol_show = (\<lambda>_. ''?''), ol_script = ''s''\<rparr>"

definition sample_ollama :: "unit ol_state" where
  "sample_ollama = \<lparr>ol_self = ollama_initialize (\<lambda>_. True) (ollama_new None None (\<lambda>_. None)), ol_world = (), ol_log = []\<rparr>"

text \<open>An answer that is JSON but no object escapes as an \<open>AttributeError\<close>, where every other bad answer is a runtime error.\<close>

lemma list_answer_escapes:
  "fst (ollama_execute (answering ''[]'' (Some (PList []))) ''p'' '''' sample_ollama) = Inl (Exn AttributeError ''object has no attribute get'')"
  "fst (ollama_execute (answering ''x'' None) ''p'' '''' sample_ollama) = Inl (request_failed ''not valid JSON'')"
  by code_simp+

end
