(* ===== verification/Config.thy ===== *)
theory Config
  imports PyStr
begin

text \<open>
  The configuration (\<open>config/schema.py\<close>, \<open>config/loader.py\<close>, \<open>config/__init__.py\<close>): the defaults and what the
  environment, the user's file, the project's manifest and the detection set over them, with the source of each value.
  A configuration is a dictionary from the path of a field to its value, since the loader sets fields by their path
  with whatever the files hold. The environment, the files and the reading of a float are parameters; a float is a
  rational.
\<close>

section \<open>Fields\<close>

definition DEFAULTS :: pydict where
  "DEFAULTS =
     [(''runtime.adapter'', PStr ''opencode''), (''runtime.sandbox'', PStr ''ai-jail''),
      (''runtime.command'', PStr ''ai-jail opencode''),
      (''model.default'', PStr ''ollama''), (''model.ollama_model'', PStr ''llama3''),
      (''model.ollama_host'', PStr ''http://localhost:11434''),
      (''memory.enabled'', PBool True), (''memory.path'', PStr ''.aios/memory.db''),
      (''security.enabled'', PBool True), (''security.policies_dir'', PStr ''aios/policies''),
      (''quality.enabled'', PBool True), (''quality.auto_detect'', PBool True), (''quality.environment'', PStr ''dev''),
      (''quality.policy'', PDict []), (''quality.overrides'', PList []),
      (''logging.level'', PStr ''INFO''), (''logging.audit_path'', PStr ''~/.local/share/aiosdeck/audit.log''),
      (''ui.theme'', PStr ''ocean''), (''ui.accent_intensity'', PFloat (8 / 10)), (''ui.compact'', PBool False),
      (''ui.refresh_interval'', PFloat 2), (''ui.backlog_mode'', PStr ''text''),
      (''project.name'', PStr ''''), (''project.directory'', PStr ''~/projects''), (''project.skills'', PList []),
      (''learning.enabled'', PBool True), (''learning.auto_capture'', PBool True),
      (''learning.confidence_threshold'', PFloat (1 / 2)), (''learning.min_evidence'', PInt 1),
      (''learning.recurrence_threshold'', PInt 2), (''learning.policy'', PDict []),
      (''routing.enabled'', PBool True), (''routing.default_provider'', PStr ''ollama''),
      (''routing.default_model'', PStr ''llama3''), (''routing.default_variant'', PStr ''''), (''routing.rules'', PList []),
      (''routing.cost_cap'', PFloat 0), (''routing.context_limits'', PDict []), (''routing.fallback_providers'', PList []),
      (''agent_budget.max_steps'', PInt 0)]"

record conf_state =
  cs_fields :: pydict
  cs_sources :: "(string \<times> string) list"

type_synonym 'a conf = "(conf_state, 'a) py"

definition conf_init :: conf_state where
  "conf_init = \<lparr>cs_fields = DEFAULTS, cs_sources = []\<rparr>"

definition set_field :: "string \<Rightarrow> pyval \<Rightarrow> string \<Rightarrow> unit conf" where
  "set_field path v source = modify (\<lambda>s.
     if map_of (cs_fields s) path = None then s
     else s\<lparr>cs_fields := dict_set path v (cs_fields s), cs_sources := dict_set path source (cs_sources s)\<rparr>)"

primrec for_each :: "('a \<Rightarrow> unit conf) \<Rightarrow> 'a list \<Rightarrow> unit conf" where
  "for_each f [] = ret ()"
| "for_each f (x # xs) = seq (f x) (for_each f xs)"

section \<open>Sources\<close>

datatype yaml_file = NoFile | Unreadable | Malformed exn | Document pyval

record conf_host =
  ch_env :: "string \<Rightarrow> string option"
  ch_float :: "string \<Rightarrow> rat option"
  ch_file :: "string \<Rightarrow> yaml_file"
  ch_yaml :: bool
  ch_home :: string
  ch_project :: string
  ch_project_name :: string

definition ENV_MAP :: "(string \<times> string) list" where
  "ENV_MAP =
     [(''AIOS_RUNTIME_ADAPTER'', ''runtime.adapter''), (''AIOS_SANDBOX'', ''runtime.sandbox''),
      (''AIOS_RUNTIME_COMMAND'', ''runtime.command''), (''AIOS_DEFAULT_MODEL'', ''model.default''),
      (''AIOS_OLLAMA_MODEL'', ''model.ollama_model''), (''AIOS_OLLAMA_HOST'', ''model.ollama_host''),
      (''AIOS_MEMORY_ENABLED'', ''memory.enabled''), (''AIOS_MEMORY_PATH'', ''memory.path''),
      (''AIOS_SECURITY_ENABLED'', ''security.enabled''), (''AIOS_LOG_LEVEL'', ''logging.level''),
      (''AIOS_AUDIT_PATH'', ''logging.audit_path''), (''AIOS_LEARNING_ENABLED'', ''learning.enabled''),
      (''AIOS_PROJECT_NAME'', ''project.name''), (''AIOS_PROJECTS_DIR'', ''project.directory''),
      (''AIOS_ROUTING_ENABLED'', ''routing.enabled''), (''AIOS_ROUTING_COST_CAP'', ''routing.cost_cap''),
      (''AIOS_UI_THEME'', ''ui.theme''), (''AIOS_UI_ACCENT_INTENSITY'', ''ui.accent_intensity''),
      (''AIOS_UI_COMPACT'', ''ui.compact''), (''AIOS_UI_REFRESH_INTERVAL'', ''ui.refresh_interval'')]"

definition ends_with_any :: "string \<Rightarrow> string list \<Rightarrow> bool" where
  "ends_with_any path suffixes \<longleftrightarrow> list_ex (endswith path) suffixes"

definition coerce :: "conf_host \<Rightarrow> string \<Rightarrow> string \<Rightarrow> exn + pyval" where
  "coerce H v path =
     (if ends_with_any path [''.enabled'', ''.compact''] then Inr (PBool (lower v \<in> set [''true'', ''1'', ''yes'']))
      else if ends_with_any path [''.cost_cap'', ''.accent_intensity'', ''.refresh_interval'']
      then (case ch_float H v of None \<Rightarrow> Inl (Exn ValueError ''could not convert string to float'') | Some r \<Rightarrow> Inr (PFloat r))
      else Inr (PStr v))"

definition apply_env :: "conf_host \<Rightarrow> unit conf" where
  "apply_env H = for_each (\<lambda>(var, path). case ch_env H var of
     None \<Rightarrow> ret ()
   | Some v \<Rightarrow> bnd (of_sum (coerce H v path)) (\<lambda>x. set_field path x (''env:'' @ var))) ENV_MAP"

text \<open>A file that cannot be read is ignored; a malformed one raises.\<close>

definition load_yaml :: "conf_host \<Rightarrow> string \<Rightarrow> pyval option conf" where
  "load_yaml H path =
     (if \<not> ch_yaml H then ret None
      else case ch_file H path of
        NoFile \<Rightarrow> ret None
      | Unreadable \<Rightarrow> ret None
      | Malformed e \<Rightarrow> raise e
      | Document v \<Rightarrow> ret (Some (if truthy v then v else PDict [])))"

definition data_get :: "pyval \<Rightarrow> string \<Rightarrow> pyval conf" where
  "data_get data k = (case data of PDict d \<Rightarrow> ret (dict_get d k PNone)
     | _ \<Rightarrow> raise (Exn AttributeError ''object has no attribute get''))"

definition set_present :: "string \<Rightarrow> pyval \<Rightarrow> string \<Rightarrow> unit conf" where
  "set_present path v source = (if v = PNone then ret () else set_field path v source)"

definition apply_mapped :: "pyval \<Rightarrow> (string \<times> (string \<times> string) list) list \<Rightarrow> string \<Rightarrow> unit conf" where
  "apply_mapped data mapping source = for_each (\<lambda>(top_key, fields). bnd (data_get data top_key) (\<lambda>v. case v of
     PDict section \<Rightarrow> for_each (\<lambda>(k, path). set_present path (dict_get section k PNone) source) fields
   | _ \<Rightarrow> ret ())) mapping"

text \<open>A section of the user's file whose keys are the names of its fields.\<close>

definition fields_of :: "string \<Rightarrow> string list \<Rightarrow> string \<times> (string \<times> string) list" where
  "fields_of section ks = (section, map (\<lambda>k. (k, section @ ''.'' @ k)) ks)"

definition ROUTING_KEYS :: "string list" where
  "ROUTING_KEYS = [''enabled'', ''default_provider'', ''default_model'', ''default_variant'', ''rules'', ''cost_cap'',
     ''context_limits'', ''fallback_providers'']"

definition USER_MAP :: "(string \<times> (string \<times> string) list) list" where
  "USER_MAP =
     [fields_of ''runtime'' [''adapter'', ''sandbox'', ''command''],
      fields_of ''model'' [''default'', ''ollama_model'', ''ollama_host''],
      fields_of ''memory'' [''enabled'', ''path''], fields_of ''security'' [''enabled'', ''policies_dir''],
      fields_of ''quality'' [''enabled'', ''auto_detect'', ''environment'', ''policy'', ''overrides''],
      fields_of ''logging'' [''level'', ''audit_path''],
      fields_of ''learning'' [''enabled'', ''auto_capture'', ''confidence_threshold'', ''min_evidence'',
        ''recurrence_threshold'', ''policy''],
      fields_of ''routing'' ROUTING_KEYS, fields_of ''project'' [''name'', ''directory''],
      fields_of ''ui'' [''theme'', ''accent_intensity'', ''compact'', ''refresh_interval'']]"

definition user_path :: "conf_host \<Rightarrow> string" where
  "user_path H = ch_home H @ ''/.config/aiosdeck/config.yaml''"

definition apply_user_config :: "conf_host \<Rightarrow> unit conf" where
  "apply_user_config H = (if ch_file H (user_path H) = NoFile then ret ()
     else bnd (load_yaml H (user_path H)) (\<lambda>data. case data of
       None \<Rightarrow> ret () | Some d \<Rightarrow> apply_mapped d USER_MAP (user_path H)))"

definition manifest_path :: "conf_host \<Rightarrow> string" where
  "manifest_path H = ch_project H @ ''/.aios/project.yaml''"

definition MANIFEST_MAP :: "(string \<times> string) list" where
  "MANIFEST_MAP = [(''name'', ''project.name''), (''runtime'', ''runtime.adapter''), (''sandbox'', ''runtime.sandbox'')]"

definition manifest_steps :: "pyval \<Rightarrow> string \<Rightarrow> unit conf" where
  "manifest_steps agents source = (case agents of
     PDict a \<Rightarrow> (case dict_get a ''developer'' PNone of
       PDict dev \<Rightarrow> (case dict_get dev ''max_steps'' PNone of
         PInt n \<Rightarrow> set_field ''agent_budget.max_steps'' (PInt n) source
       | PBool b \<Rightarrow> set_field ''agent_budget.max_steps'' (PBool b) source
       | _ \<Rightarrow> ret ())
     | _ \<Rightarrow> ret ())
   | _ \<Rightarrow> ret ())"

definition apply_manifest_data :: "pyval \<Rightarrow> string \<Rightarrow> unit conf" where
  "apply_manifest_data d source =
     seq (for_each (\<lambda>(k, path). bnd (data_get d k) (\<lambda>v. set_present path v source)) MANIFEST_MAP)
    (seq (bnd (data_get d ''skills'') (\<lambda>v. case v of
           PList xs \<Rightarrow> set_field ''project.skills'' (PList xs) source | _ \<Rightarrow> ret ()))
    (seq (bnd (data_get d ''routing'') (\<lambda>v. case v of
           PDict r \<Rightarrow> for_each (\<lambda>k. set_present (''routing.'' @ k) (dict_get r k PNone) source) ROUTING_KEYS | _ \<Rightarrow> ret ()))
         (bnd (data_get d ''agents'') (\<lambda>v. manifest_steps v source))))"

definition apply_project_manifest :: "conf_host \<Rightarrow> unit conf" where
  "apply_project_manifest H = (if ch_file H (manifest_path H) = NoFile then ret ()
     else bnd (load_yaml H (manifest_path H)) (\<lambda>data. case data of
       None \<Rightarrow> ret () | Some d \<Rightarrow> apply_manifest_data d (manifest_path H)))"

definition apply_detection :: "conf_host \<Rightarrow> unit conf" where
  "apply_detection H = bnd (gets cs_fields) (\<lambda>f.
     if truthy (dict_get f ''project.name'' PNone) then ret ()
     else set_field ''project.name'' (PStr (ch_project_name H)) ''detection'')"

definition load_config :: "conf_host \<Rightarrow> exn + conf_state" where
  "load_config H =
     (case seq (apply_env H) (seq (apply_user_config H) (seq (apply_project_manifest H) (apply_detection H))) conf_init of
        (Inl e, s) \<Rightarrow> Inl e | (Inr (), s) \<Rightarrow> Inr s)"

section \<open>The engine\<close>

type_synonym config_engine = "conf_state option"

definition config_initialize :: "conf_host \<Rightarrow> config_engine \<Rightarrow> exn + config_engine" where
  "config_initialize H c = map_sum id Some (load_config H)"

definition config_health_check :: "config_engine \<Rightarrow> bool" where
  "config_health_check c = (c \<noteq> None)"

definition config_shutdown :: "config_engine \<Rightarrow> config_engine" where
  "config_shutdown c = None"

text \<open>Every path the loader sets is a field, so none of its settings is dropped silently.\<close>

lemma paths_known:
  "list_all (\<lambda>p. map_of DEFAULTS p \<noteq> None) (map snd ENV_MAP @ concat (map (map snd \<circ> snd) USER_MAP) @ map snd MANIFEST_MAP @
     map (\<lambda>k. ''routing.'' @ k) ROUTING_KEYS @ [''project.skills'', ''agent_budget.max_steps''])"
  by code_simp


section \<open>Precedence\<close>

text \<open>A setting: the path of a field, its value and its source. The settings of each source, in order.\<close>

type_synonym setting = "string \<times> pyval \<times> string"

definition mapped_setting :: "pydict \<Rightarrow> string \<Rightarrow> string \<times> string \<Rightarrow> setting list" where
  "mapped_setting d source m = (case m of (k, path) \<Rightarrow>
     let v = dict_get d k PNone in if v = PNone then [] else [(path, v, source)])"

definition section_settings :: "pydict \<Rightarrow> string \<Rightarrow> string \<times> (string \<times> string) list \<Rightarrow> setting list" where
  "section_settings d source m = (case dict_get d (fst m) PNone of
     PDict s \<Rightarrow> concat (map (mapped_setting s source) (snd m)) | _ \<Rightarrow> [])"

definition env_settings :: "conf_host \<Rightarrow> setting list" where
  "env_settings H = concat (map (\<lambda>(var, path). case ch_env H var of None \<Rightarrow> []
     | Some v \<Rightarrow> (case coerce H v path of Inl e \<Rightarrow> [] | Inr x \<Rightarrow> [(path, x, ''env:'' @ var)])) ENV_MAP)"

fun document :: "yaml_file \<Rightarrow> pydict" where
  "document (Document (PDict d)) = d"
| "document _ = []"

definition user_settings :: "conf_host \<Rightarrow> setting list" where
  "user_settings H = (if ch_yaml H then
     concat (map (section_settings (document (ch_file H (user_path H))) (user_path H)) USER_MAP) else [])"

definition list_setting :: "pydict \<Rightarrow> string \<Rightarrow> setting list" where
  "list_setting d source = (case dict_get d ''skills'' PNone of PList xs \<Rightarrow> [(''project.skills'', PList xs, source)] | _ \<Rightarrow> [])"

definition steps_setting :: "pydict \<Rightarrow> string \<Rightarrow> setting list" where
  "steps_setting d source = (case dict_get d ''agents'' PNone of
     PDict a \<Rightarrow> (case dict_get a ''developer'' PNone of
       PDict dev \<Rightarrow> (case dict_get dev ''max_steps'' PNone of
         PInt n \<Rightarrow> [(''agent_budget.max_steps'', PInt n, source)]
       | PBool b \<Rightarrow> [(''agent_budget.max_steps'', PBool b, source)] | _ \<Rightarrow> [])
     | _ \<Rightarrow> []) | _ \<Rightarrow> [])"

definition manifest_settings :: "conf_host \<Rightarrow> setting list" where
  "manifest_settings H = (if ch_yaml H then
     (let d = document (ch_file H (manifest_path H)); source = manifest_path H in
      concat (map (mapped_setting d source) MANIFEST_MAP) @ list_setting d source @
      section_settings d source (fields_of ''routing'' ROUTING_KEYS) @ steps_setting d source) else [])"

definition write_setting :: "setting \<Rightarrow> conf_state \<Rightarrow> conf_state" where
  "write_setting t s = (case t of (path, v, source) \<Rightarrow> snd (set_field path v source s))"

text \<open>A computation that, unless it raises, writes exactly these settings.\<close>

definition writes :: "setting list \<Rightarrow> unit conf \<Rightarrow> bool" where
  "writes ss m \<longleftrightarrow> (\<forall>s t. m s = (Inr (), t) \<longrightarrow> t = fold write_setting ss s)"

lemma writes_ret: "writes [] (ret ())"
  by (simp add: writes_def py_run)

lemma writes_raise: "writes ss (raise e)"
  by (simp add: writes_def py_run)

lemma writes_seq: "writes a m \<Longrightarrow> writes b n \<Longrightarrow> writes (a @ b) (seq m n)"
  by (auto simp: writes_def py_run split: prod.splits sum.splits)

lemma writes_field: "writes [(path, v, source)] (set_field path v source)"
  by (simp add: writes_def write_setting_def)

lemma writes_present: "writes (if v = PNone then [] else [(path, v, source)]) (set_present path v source)"
  by (simp add: set_present_def writes_ret writes_field)

lemma writes_each: "(\<And>x. writes (f x) (g x)) \<Longrightarrow> writes (concat (map f xs)) (for_each g xs)"
  by (induction xs) (simp_all add: writes_ret writes_seq)

lemma writes_mapped_key: "writes (mapped_setting d source m) (case m of (k, path) \<Rightarrow> set_present path (dict_get d k PNone) source)"
  by (cases m) (simp add: mapped_setting_def Let_def writes_present)

lemma data_get_run: "bnd (data_get (PDict d) k) g = g (dict_get d k PNone)"
  by (simp add: data_get_def fun_eq_iff py_run)

lemma writes_env: "writes (env_settings H) (apply_env H)"
  unfolding env_settings_def apply_env_def
proof (rule writes_each)
  fix x :: "string \<times> string"
  show "writes (case x of (var, path) \<Rightarrow> case ch_env H var of None \<Rightarrow> []
        | Some v \<Rightarrow> (case coerce H v path of Inl e \<Rightarrow> [] | Inr y \<Rightarrow> [(path, y, ''env:'' @ var)]))
     (case x of (var, path) \<Rightarrow> case ch_env H var of None \<Rightarrow> ret ()
        | Some v \<Rightarrow> bnd (of_sum (coerce H v path)) (\<lambda>y. set_field path y (''env:'' @ var)))"
    by (cases x) (auto simp: writes_def py_run write_setting_def split: option.splits sum.splits)
qed

lemma writes_section:
  "writes (section_settings d source m) (case dict_get d (fst m) PNone of
     PDict section \<Rightarrow> for_each (\<lambda>(k, path). set_present path (dict_get section k PNone) source) (snd m) | _ \<Rightarrow> ret ())"
  unfolding section_settings_def
  by (auto intro: writes_ret writes_each writes_mapped_key split: pyval.split)


lemma writes_mapped:
  assumes "ms \<noteq> []"
  shows "writes (case data of PDict d \<Rightarrow> concat (map (section_settings d source) ms) | _ \<Rightarrow> []) (apply_mapped data ms source)"
proof (cases "\<exists>d. data = PDict d")
  case True
  then obtain d where d: "data = PDict d" by blast
  have "writes (section_settings d source m) (case m of (top_key, fs) \<Rightarrow> bnd (data_get data top_key) (\<lambda>v. case v of
     PDict section \<Rightarrow> for_each (\<lambda>(k, path). set_present path (dict_get section k PNone) source) fs
   | _ \<Rightarrow> ret ()))" for m
  proof (cases m)
    case (Pair a b)
    show ?thesis using writes_section [of d source "(a, b)"] unfolding Pair fst_conv snd_conv d prod.case data_get_run .
  qed
  then show ?thesis unfolding apply_mapped_def d by (simp add: writes_each)
next
  case False
  then have "data_get data k = raise (Exn AttributeError ''object has no attribute get'')" for k
    by (cases data) (simp_all add: data_get_def)
  moreover have "bnd (raise e) g = raise e" "seq (raise e) m = raise e" for e and g :: "pyval \<Rightarrow> unit conf" and m :: "unit conf"
    by (simp_all add: fun_eq_iff py_run)
  ultimately have "apply_mapped data ms source = raise (Exn AttributeError ''object has no attribute get'')"
    using assms by (cases ms) (simp_all add: apply_mapped_def split: prod.split)
  then show ?thesis by (simp add: writes_raise)
qed

lemma load_yaml_run:
  "load_yaml H path s = (case (ch_yaml H, ch_file H path) of
     (True, Document v) \<Rightarrow> (Inr (Some (if truthy v then v else PDict [])), s)
   | (True, Malformed e) \<Rightarrow> (Inl e, s) | _ \<Rightarrow> (Inr None, s))"
  by (auto simp: load_yaml_def py_run split: yaml_file.split)

text \<open>What an optional file writes, from what its document writes.\<close>

lemma writes_file:
  assumes "\<And>d. writes (case d of PDict d \<Rightarrow> f d | _ \<Rightarrow> []) (g d)" "f [] = []"
  shows "writes (if ch_yaml H then f (document (ch_file H path)) else [])
    (if ch_file H path = NoFile then ret () else bnd (load_yaml H path) (\<lambda>data. case data of None \<Rightarrow> ret () | Some d \<Rightarrow> g d))"
proof (cases "ch_file H path")
  case (Document v)
  have doc: "(case (if truthy v then v else PDict []) of PDict d \<Rightarrow> f d | _ \<Rightarrow> []) = f (document (Document v))"
    using assms(2) by (cases v) auto
  show ?thesis
    using assms(1) [of "if truthy v then v else PDict []"] unfolding doc
    by (auto simp: Document writes_def load_yaml_run bnd_run py_run)
qed (auto simp: writes_def load_yaml_run bnd_run py_run assms(2))

lemma user_map_known: "USER_MAP \<noteq> []"
  by (simp add: USER_MAP_def)

lemma writes_user: "writes (user_settings H) (apply_user_config H)"
  unfolding user_settings_def apply_user_config_def
  by (rule writes_file [where f = "\<lambda>d. concat (map (section_settings d (user_path H)) USER_MAP)", OF writes_mapped [OF user_map_known]])
     (simp add: section_settings_def)

lemma writes_steps: "writes (steps_setting d source) (manifest_steps (dict_get d ''agents'' PNone) source)"
  unfolding steps_setting_def manifest_steps_def by (auto intro: writes_ret writes_field split: pyval.split)

lemma writes_manifest_data:
  "writes (case data of PDict d \<Rightarrow> concat (map (mapped_setting d source) MANIFEST_MAP) @ list_setting d source @
      section_settings d source (fields_of ''routing'' ROUTING_KEYS) @ steps_setting d source | _ \<Rightarrow> [])
    (apply_manifest_data data source)"
proof (cases "\<exists>d. data = PDict d")
  case True
  then obtain d where d: "data = PDict d" by blast
  have routing: "writes (section_settings d source (fields_of ''routing'' ROUTING_KEYS))
    (case dict_get d ''routing'' PNone of PDict r \<Rightarrow> for_each (\<lambda>k. set_present (''routing.'' @ k) (dict_get r k PNone) source) ROUTING_KEYS
     | _ \<Rightarrow> ret ())"
  proof -
    have each: "for_each (\<lambda>(k, path). g k path) (map (\<lambda>k. (k, ''routing'' @ ''.'' @ k)) ks) = for_each (\<lambda>k. g k (''routing.'' @ k)) ks"
      for g :: "string \<Rightarrow> string \<Rightarrow> unit conf" and ks by (induction ks) simp_all
    show ?thesis using writes_section [of d source "fields_of ''routing'' ROUTING_KEYS"]
      unfolding fields_of_def fst_conv snd_conv each .
  qed
  have skills: "writes (list_setting d source) (case dict_get d ''skills'' PNone of
      PList xs \<Rightarrow> set_field ''project.skills'' (PList xs) source | _ \<Rightarrow> ret ())"
    unfolding list_setting_def by (auto intro: writes_ret writes_field split: pyval.split)
  have names: "writes (concat (map (mapped_setting d source) MANIFEST_MAP))
      (for_each (\<lambda>(k, path). set_present path (dict_get d k PNone) source) MANIFEST_MAP)"
    by (rule writes_each) (rule writes_mapped_key)
  show ?thesis unfolding apply_manifest_data_def d data_get_run
    by simp (intro writes_seq names skills routing writes_steps)
next
  case False
  then show ?thesis
    by (cases data) (auto simp: writes_def apply_manifest_data_def MANIFEST_MAP_def data_get_def py_run)
qed

lemma writes_manifest: "writes (manifest_settings H) (apply_project_manifest H)"
  unfolding manifest_settings_def apply_project_manifest_def Let_def
  by (rule writes_file [OF writes_manifest_data])
     (simp add: section_settings_def list_setting_def steps_setting_def mapped_setting_def MANIFEST_MAP_def)

definition field_and_source :: "conf_state \<Rightarrow> string \<Rightarrow> pyval \<times> string option" where
  "field_and_source s path = (dict_get (cs_fields s) path PNone, map_of (cs_sources s) path)"

definition last_setting :: "setting list \<Rightarrow> string \<Rightarrow> (pyval \<times> string) option" where
  "last_setting ss path = map_of (rev ss) path"

definition knows :: "conf_state \<Rightarrow> string \<Rightarrow> bool" where
  "knows s path \<longleftrightarrow> map_of (cs_fields s) path \<noteq> None"

lemma write_one:
  "knows s path \<Longrightarrow> knows (write_setting (q, v, source) s) path \<and>
     field_and_source (write_setting (q, v, source) s) path = (if q = path then (v, Some source) else field_and_source s path)"
  by (auto simp: write_setting_def set_field_def py_run knows_def field_and_source_def dict_get_def)

lemma fold_settings:
  "knows s path \<Longrightarrow> knows (fold write_setting ss s) path \<and>
     field_and_source (fold write_setting ss s) path =
       (case last_setting ss path of None \<Rightarrow> field_and_source s path | Some (v, source) \<Rightarrow> (v, Some source))"
proof (induction ss rule: rev_induct)
  case Nil
  then show ?case by (simp add: last_setting_def)
next
  case (snoc t ss)
  obtain q v source where t: "t = (q, v, source)" by (cases t)
  show ?case using snoc write_one [of "fold write_setting ss s" path q v source] by (auto simp: t last_setting_def)
qed


text \<open>The settings that are not detected, in the order in which they are written, and what they make of a field.\<close>

definition all_settings :: "conf_host \<Rightarrow> setting list" where
  "all_settings H = env_settings H @ user_settings H @ manifest_settings H"

definition configured :: "conf_host \<Rightarrow> string \<Rightarrow> pyval \<times> string option" where
  "configured H path = (case last_setting (all_settings H) path of
     None \<Rightarrow> (dict_get DEFAULTS path PNone, None) | Some (v, source) \<Rightarrow> (v, Some source))"

lemma last_of_four:
  fixes a b c d :: "('s, unit) py"
  assumes "(case seq a (seq b (seq c d)) s of (Inl e, t) \<Rightarrow> Inl e | (Inr (), t) \<Rightarrow> Inr t) = Inr r"
  shows "\<exists>u. seq a (seq b c) s = (Inr (), u) \<and> r = snd (d u)"
  using assms by (auto simp: seq_run split: prod.splits sum.splits unit.splits)

lemma load_config_writes:
  assumes "load_config H = Inr cfg"
  shows "cfg = snd (apply_detection H (fold write_setting (all_settings H) conf_init))"
proof -
  let ?m = "seq (apply_env H) (seq (apply_user_config H) (apply_project_manifest H))"
  have writes: "writes (all_settings H) ?m"
    unfolding all_settings_def by (intro writes_seq writes_env writes_user writes_manifest)
  obtain s where s: "?m conf_init = (Inr (), s)" "cfg = snd (apply_detection H s)"
    using last_of_four [OF assms [unfolded load_config_def]] by blast
  then have "s = fold write_setting (all_settings H) conf_init" using writes by (simp add: writes_def)
  with s show ?thesis by simp
qed

lemma configured_fields:
  assumes "load_config H = Inr cfg" "map_of DEFAULTS path \<noteq> None"
  shows "field_and_source cfg path =
    (if path = ''project.name'' \<and> \<not> truthy (fst (configured H path)) then (PStr (ch_project_name H), Some ''detection'')
     else configured H path)"
proof -
  let ?s = "fold write_setting (all_settings H) conf_init"
  have init: "knows conf_init p \<longleftrightarrow> map_of DEFAULTS p \<noteq> None"
      "field_and_source conf_init p = (dict_get DEFAULTS p PNone, None)" for p
    by (simp_all add: knows_def conf_init_def field_and_source_def)
  have known: "knows ?s p \<and> field_and_source ?s p = configured H p" if "map_of DEFAULTS p \<noteq> None" for p
    using fold_settings [of conf_init p "all_settings H"] that by (auto simp: init configured_def split: option.split)
  have name: "map_of DEFAULTS ''project.name'' \<noteq> None" by (simp add: DEFAULTS_def)
  have current: "dict_get (cs_fields ?s) ''project.name'' PNone = fst (configured H ''project.name'')"
    using known [OF name] by (simp add: field_and_source_def prod_eq_iff)
  have cfg: "cfg = (if truthy (fst (configured H ''project.name'')) then ?s
      else write_setting (''project.name'', PStr (ch_project_name H), ''detection'') ?s)"
    unfolding load_config_writes [OF assms(1)] by (simp add: apply_detection_def py_run current write_setting_def)
  show ?thesis using known [OF assms(2)] write_one [of ?s path] unfolding cfg by auto
qed


definition sample_conf :: conf_host where
  "sample_conf = \<lparr>ch_env = (\<lambda>v. if v = ''AIOS_OLLAMA_MODEL'' then Some ''qwen'' else None), ch_float = (\<lambda>_. None),
     ch_file = (\<lambda>p. if p = ''/h/.config/aiosdeck/config.yaml''
       then Document (PDict [(''model'', PDict [(''ollama_model'', PStr ''mistral'')])]) else NoFile),
     ch_yaml = True, ch_home = ''/h'', ch_project = ''/p'', ch_project_name = ''p''\<rparr>"

lemma sample_conf_loads: "\<exists>cfg. load_config sample_conf = Inr cfg \<and> map_of DEFAULTS ''model.ollama_model'' \<noteq> None \<and>
    configured sample_conf ''model.ollama_model'' = (PStr ''mistral'', Some ''/h/.config/aiosdeck/config.yaml'')"
proof -
  have "(case load_config sample_conf of Inl e \<Rightarrow> False | Inr cfg \<Rightarrow> True) \<and> map_of DEFAULTS ''model.ollama_model'' \<noteq> None \<and>
    configured sample_conf ''model.ollama_model'' = (PStr ''mistral'', Some ''/h/.config/aiosdeck/config.yaml'')"
    by code_simp
  then show ?thesis by (auto split: sum.splits)
qed


text \<open>A file that is a list, and one that is no YAML, end the loading with an exception; without a YAML library both are
  ignored.\<close>

lemma list_file_raises:
  "load_config (sample_conf\<lparr>ch_file := (\<lambda>_. Document (PList [PNone]))\<rparr>) = Inl (Exn AttributeError ''object has no attribute get'')"
  by code_simp

lemma malformed_file_raises: "load_config (sample_conf\<lparr>ch_file := (\<lambda>_. Malformed (Exn OtherException ''yaml''))\<rparr>) = Inl (Exn OtherException ''yaml'')"
  by code_simp

end
