(* ===== verification/Benchmark.thy ===== *)
theory Benchmark
  imports OpenCodeOutput
begin

text \<open>
  Benchmark reports: the schema and its validator (\<open>telemetry/schema.py\<close>), percentiles and summaries
  (\<open>telemetry/benchmark.py\<close>) and the comparison of two reports (\<open>telemetry/compare.py\<close>). A report is a dictionary
  read from JSON; the display of a value is a parameter, floats are rationals, and the name of a target has to be a
  string, as in every report the tool writes.
\<close>

section \<open>The schema\<close>

definition SCHEMA_VERSION :: string where
  "SCHEMA_VERSION = ''1.1''"

definition SUPPORTED_VERSIONS :: "string list" where
  "SUPPORTED_VERSIONS = [''1.0'', ''1.1'']"

definition REQUIRED_KEYS :: "string list" where
  "REQUIRED_KEYS = [''schema_version'', ''aiosdeck_version'', ''git_commit'', ''timestamp'', ''system_info'', ''results'']"

definition METRICS :: "string list" where
  "METRICS = [''wall_time_ms'', ''cpu_user_ms'', ''cpu_system_ms'', ''peak_memory_kb'']"

definition GROUPS :: "string list" where
  "GROUPS = [''phases'', ''commands'', ''startup'']"

definition RUN_EXTRAS :: "string list" where
  "RUN_EXTRAS = [''error'', ''timings'', ''warning'', ''observability'']"

definition has_key :: "pydict \<Rightarrow> string \<Rightarrow> bool" where
  "has_key d k \<longleftrightarrow> map_of d k \<noteq> None"

definition is_text_in :: "pyval \<Rightarrow> string list \<Rightarrow> bool" where
  "is_text_in v ss = (case v of PStr s \<Rightarrow> s \<in> set ss | _ \<Rightarrow> False)"

definition validate_run :: "string \<Rightarrow> pyval \<Rightarrow> string list" where
  "validate_run label run = (case run of
     PDict r \<Rightarrow>
       map (\<lambda>m. label @ '' missing metric '' @ m) (filter (\<lambda>m. \<not> has_key r m) METRICS) @
       map (\<lambda>k. label @ '' unknown key '' @ py_repr k) (filter (\<lambda>k. k \<notin> set METRICS \<and> k \<notin> set RUN_EXTRAS) (map fst r)) @
       (case dict_get r ''timings'' PNone of PNone \<Rightarrow> [] | PDict _ \<Rightarrow> [] | _ \<Rightarrow> [label @ '' timings must be an object''])
   | _ \<Rightarrow> [label @ '' must be an object''])"

definition validate_runs :: "string \<Rightarrow> pydict \<Rightarrow> string list" where
  "validate_runs label r = (case dict_get r ''runs'' PNone of
     PList (x # xs) \<Rightarrow>
       (if has_key r ''summaries'' then [] else [label @ '' missing summaries'']) @
       concat (map (\<lambda>(j, run). validate_run (label @ ''.runs['' @ digits j @ '']'') run) (enumerate 0 (x # xs)))
   | _ \<Rightarrow> [label @ '' must have a non-empty runs list''])"

definition validate_result :: "nat \<times> pyval \<Rightarrow> string list" where
  "validate_result x = (case x of (i, result) \<Rightarrow> let label = ''results['' @ digits i @ '']'' in
     case result of
       PDict r \<Rightarrow>
         (if is_text_in (dict_get r ''group'' PNone) GROUPS then [] else [label @ '' group must be one of '' @ join '', '' GROUPS]) @
         (if has_key r ''target'' then [] else [label @ '' missing target'']) @
         (if truthy (dict_get r ''skipped'' PNone)
          then if truthy (dict_get r ''reason'' PNone) then [] else [label @ '' skipped result missing reason'']
          else validate_runs label r)
     | _ \<Rightarrow> [label @ '' must be an object''])"

definition validate_report :: "(pyval \<Rightarrow> string) \<Rightarrow> pydict \<Rightarrow> string list" where
  "validate_report show report =
     map (\<lambda>k. ''missing top-level key: '' @ k) (filter (\<lambda>k. \<not> has_key report k) REQUIRED_KEYS) @
     (if has_key report ''schema_version'' \<and> \<not> is_text_in (dict_get report ''schema_version'' PNone) SUPPORTED_VERSIONS
      then [''schema_version '' @ show (dict_get report ''schema_version'' PNone) @ '' != expected '' @ py_repr SCHEMA_VERSION]
      else []) @
     (case map_of report ''results'' of
        None \<Rightarrow> []
      | Some (PList rs) \<Rightarrow> concat (map validate_result (enumerate 0 rs))
      | Some _ \<Rightarrow> [''results must be a list''])"

section \<open>Percentiles\<close>

text \<open>The percentile of a sorted list by linear interpolation between the two nearest ranks.\<close>

definition percentile :: "rat list \<Rightarrow> rat \<Rightarrow> rat" where
  "percentile xs q =
     (if xs = [] then 0
      else if length xs = 1 then hd xs
      else let k = of_nat (length xs - 1) * (q / 100); lo = \<lfloor>k\<rfloor>; hi = \<lceil>k\<rceil> in
        if lo = hi then xs ! nat lo
        else xs ! nat lo * (of_int hi - k) + xs ! nat hi * (k - of_int lo))"

record summary =
  sm_count :: nat
  sm_min :: "rat option"
  sm_max :: "rat option"
  sm_mean :: "rat option"
  sm_p50 :: "rat option"
  sm_p95 :: "rat option"
  sm_p99 :: "rat option"
  sm_samples :: "rat list"

definition summarize :: "rat list \<Rightarrow> summary" where
  "summarize samples =
     (if samples = [] then \<lparr>sm_count = 0, sm_min = None, sm_max = None, sm_mean = None, sm_p50 = None, sm_p95 = None,
        sm_p99 = None, sm_samples = []\<rparr>
      else let ordered = sort samples in
        \<lparr>sm_count = length ordered, sm_min = Some (hd ordered), sm_max = Some (last ordered),
         sm_mean = Some (sum_list ordered / of_nat (length ordered)), sm_p50 = Some (percentile ordered 50),
         sm_p95 = Some (percentile ordered 95), sm_p99 = Some (percentile ordered 99), sm_samples = samples\<rparr>)"

definition opt_float :: "rat option \<Rightarrow> pyval" where
  "opt_float x = (case x of None \<Rightarrow> PNone | Some r \<Rightarrow> PFloat r)"

definition summary_dict :: "summary \<Rightarrow> pyval" where
  "summary_dict s = PDict [(''count'', PInt (int (sm_count s))), (''min'', opt_float (sm_min s)), (''max'', opt_float (sm_max s)),
     (''mean'', opt_float (sm_mean s)), (''p50'', opt_float (sm_p50 s)), (''p95'', opt_float (sm_p95 s)),
     (''p99'', opt_float (sm_p99 s)), (''samples'', PList (map PFloat (sm_samples s)))]"

text \<open>The samples of a metric; what is no number cannot be sorted among numbers.\<close>

fun metric_samples :: "string \<Rightarrow> pyval list \<Rightarrow> exn + rat list" where
  "metric_samples m [] = Inr []"
| "metric_samples m (PDict r # runs) =
     (let v = dict_get r m PNone in
      if v = PNone then metric_samples m runs
      else case num v of
        None \<Rightarrow> Inl (Exn TypeError ''not a number'')
      | Some x \<Rightarrow> sum_bind (metric_samples m runs) (\<lambda>xs. Inr (x # xs)))"
| "metric_samples m (_ # runs) = Inl (Exn AttributeError ''object has no attribute get'')"

fun summarize_metrics :: "string list \<Rightarrow> pyval list \<Rightarrow> exn + pydict" where
  "summarize_metrics [] runs = Inr []"
| "summarize_metrics (m # ms) runs = sum_bind (metric_samples m runs) (\<lambda>xs.
     sum_bind (summarize_metrics ms runs) (\<lambda>d. Inr ((m, summary_dict (summarize xs)) # d)))"

definition summarize_runs :: "pyval list \<Rightarrow> exn + pydict" where
  "summarize_runs runs = summarize_metrics METRICS runs"

section \<open>Comparison\<close>

definition RUNTIME_DEPENDENT :: "(string \<times> string) list" where
  "RUNTIME_DEPENDENT = [(''phases'', ''plan''), (''phases'', ''agent_exec''), (''commands'', ''plan''), (''commands'', ''backlog'')]"

definition ENV_KEYS :: "string list" where
  "ENV_KEYS = [''cpu'', ''cpu_count'', ''distro'', ''kernel'', ''python'']"

definition RUNTIME_KEYS :: "string list" where
  "RUNTIME_KEYS = [''provider'', ''model'', ''host'']"

definition category_for :: "string \<Rightarrow> string \<Rightarrow> string" where
  "category_for g target = (if (g, target) \<in> set RUNTIME_DEPENDENT then ''runtime'' else ''core'')"

text \<open>\<open>x or {}\<close>, then \<open>.get\<close>; and equality, where numbers of all types compare.\<close>

definition dict_or_empty :: "pyval \<Rightarrow> exn + pydict" where
  "dict_or_empty v = (if \<not> truthy v then Inr [] else case v of
     PDict d \<Rightarrow> Inr d | _ \<Rightarrow> Inl (Exn AttributeError ''object has no attribute get''))"

definition py_same :: "pyval \<Rightarrow> pyval \<Rightarrow> bool" where
  "py_same a b = (case (num a, num b) of (Some x, Some y) \<Rightarrow> x = y | _ \<Rightarrow> a = b)"

definition differ :: "pyval \<Rightarrow> pyval \<Rightarrow> string list \<Rightarrow> exn + string list" where
  "differ l r ks = sum_bind (dict_or_empty l) (\<lambda>a. sum_bind (dict_or_empty r) (\<lambda>b.
     Inr (sort (filter (\<lambda>k. \<not> py_same (dict_get a k PNone) (dict_get b k PNone)) ks))))"

definition env_divergence :: "pydict \<Rightarrow> pydict \<Rightarrow> exn + string list" where
  "env_divergence baseline current =
     differ (dict_get baseline ''system_info'' PNone) (dict_get current ''system_info'' PNone) ENV_KEYS"

definition runtime_divergence :: "pydict \<Rightarrow> pydict \<Rightarrow> exn + string list" where
  "runtime_divergence baseline current =
     differ (dict_get baseline ''runtime_info'' PNone) (dict_get current ''runtime_info'' PNone) RUNTIME_KEYS"

definition wall_p50 :: "pydict option \<Rightarrow> exn + rat option" where
  "wall_p50 result = (case result of
     None \<Rightarrow> Inr None
   | Some r \<Rightarrow> if truthy (dict_get r ''skipped'' PNone) then Inr None
       else sum_bind (dict_or_empty (dict_get r ''summaries'' PNone)) (\<lambda>s.
         let w = dict_get s ''wall_time_ms'' PNone in
         if \<not> truthy w then Inr None
         else case w of
           PDict d \<Rightarrow> Inr (num (dict_get d ''p50'' PNone))
         | _ \<Rightarrow> Inl (Exn AttributeError ''object has no attribute get'')))"

text \<open>\<open>{(r["group"], r["target"]): r for r in report.get("results", [])}\<close>\<close>

definition text_item :: "string \<Rightarrow> pydict \<Rightarrow> exn + string" where
  "text_item k r = (case map_of r k of
     None \<Rightarrow> Inl (Exn KeyError k) | Some (PStr s) \<Rightarrow> Inr s | Some _ \<Rightarrow> Inl (Exn TypeError ''not a string''))"

type_synonym target = "string \<times> string"

fun by_target :: "pyval list \<Rightarrow> (target \<times> pydict) list \<Rightarrow> exn + (target \<times> pydict) list" where
  "by_target [] m = Inr m"
| "by_target (PDict r # rs) m = sum_bind (text_item ''group'' r) (\<lambda>g. sum_bind (text_item ''target'' r) (\<lambda>t.
     by_target rs (dict_set (g, t) r m)))"
| "by_target (_ # rs) m = Inl (Exn TypeError ''object is not subscriptable'')"

definition results_of :: "pydict \<Rightarrow> exn + (target \<times> pydict) list" where
  "results_of report = (case dict_get report ''results'' (PList []) of
     PList rs \<Rightarrow> by_target rs [] | _ \<Rightarrow> Inl (Exn TypeError ''object is not iterable''))"

datatype verdict = Skipped string | Compared string rat rat rat pydict

definition all_targets :: "(target \<times> pydict) list \<Rightarrow> (target \<times> pydict) list \<Rightarrow> target list" where
  "all_targets a b = sort_key fst (sort_key snd (remdups (map fst a @ map fst b)))"

text \<open>One target: skipped where it was not measured on a side, else judged by the change of its median.\<close>

definition verdict_of :: "rat \<Rightarrow> string \<Rightarrow> rat \<Rightarrow> rat \<Rightarrow> exn + string \<times> rat" where
  "verdict_of threshold category b c =
     (if b = 0 then Inl (Exn OtherException ''division by zero'')
      else let delta = (c - b) / b * 100 in
        Inr (if delta > threshold then if category = ''core'' then ''regression'' else ''warning'' else ''ok'', delta))"

definition compare_target ::
  "rat \<Rightarrow> (target \<times> pydict) list \<Rightarrow> (target \<times> pydict) list \<Rightarrow> target \<Rightarrow> exn + verdict" where
  "compare_target threshold bs cs k =
     sum_bind (wall_p50 (map_of bs k)) (\<lambda>b. sum_bind (wall_p50 (map_of cs k)) (\<lambda>c.
     case (b, c, map_of cs k) of
       (Some x, Some y, Some r) \<Rightarrow>
         sum_bind (verdict_of threshold (category_for (fst k) (snd k)) x y) (\<lambda>(v, delta). Inr (Compared v x y delta r))
     | _ \<Rightarrow> Inr (Skipped (if c \<noteq> None then ''not measured in baseline'' else ''not measured in current''))))"

definition verdict_result :: "target \<Rightarrow> verdict \<Rightarrow> exn + pyval" where
  "verdict_result k v =
     (let common = [(''group'', PStr (fst k)), (''target'', PStr (snd k)), (''category'', PStr (category_for (fst k) (snd k)))] in
      case v of
        Skipped reason \<Rightarrow> Inr (PDict (common @ [(''verdict'', PStr ''skipped''), (''skipped'', PBool True), (''reason'', PStr reason)]))
      | Compared word b c delta r \<Rightarrow>
          (let runs = dict_get r ''runs'' (PList []); given = dict_get r ''summaries'' PNone in
           sum_bind (if truthy given then Inr given else case runs of
               PList xs \<Rightarrow> map_sum id PDict (summarize_runs xs) | _ \<Rightarrow> Inl (Exn TypeError ''object is not iterable'')) (\<lambda>summaries.
             Inr (PDict (common @ [(''verdict'', PStr word), (''baseline_p50_ms'', PFloat b), (''current_p50_ms'', PFloat c),
               (''delta_pct'', PFloat delta), (''runs'', runs), (''summaries'', summaries)])))))"

fun compare_targets :: "(target \<Rightarrow> exn + verdict) \<Rightarrow> target list \<Rightarrow> exn + (target \<times> verdict \<times> pyval) list" where
  "compare_targets judge [] = Inr []"
| "compare_targets judge (k # ks) = sum_bind (judge k) (\<lambda>v. sum_bind (verdict_result k v) (\<lambda>r.
     sum_bind (compare_targets judge ks) (\<lambda>xs. Inr ((k, v, r) # xs))))"

definition change :: "string \<Rightarrow> target \<times> verdict \<times> pyval \<Rightarrow> pyval list" where
  "change word x = (case x of (k, Compared w b c delta r, _) \<Rightarrow>
       if w = word then [PDict [(''group'', PStr (fst k)), (''target'', PStr (snd k)), (''delta_pct'', PFloat delta)]] else []
   | _ \<Rightarrow> [])"

definition skipped_of :: "target \<times> verdict \<times> pyval \<Rightarrow> pyval list" where
  "skipped_of x = (case x of (k, Skipped reason, _) \<Rightarrow>
       [PDict [(''group'', PStr (fst k)), (''target'', PStr (snd k)), (''reason'', PStr reason)]] | _ \<Rightarrow> [])"

definition exit_code :: "string list \<Rightarrow> string list \<Rightarrow> pyval list \<Rightarrow> int" where
  "exit_code env_div runtime_div regressions =
     (if env_div \<noteq> [] \<or> runtime_div \<noteq> [] then 2 else if regressions \<noteq> [] then 1 else 0)"

definition origin :: "pydict \<Rightarrow> pyval" where
  "origin report = PDict (map (\<lambda>k. (k, dict_get report k PNone)) [''git_commit'', ''aiosdeck_version''])"

definition compare_reports :: "pydict \<Rightarrow> pydict \<Rightarrow> rat \<Rightarrow> bool \<Rightarrow> exn + pydict" where
  "compare_reports baseline current threshold live =
     sum_bind (results_of baseline) (\<lambda>bs. sum_bind (results_of current) (\<lambda>cs.
     sum_bind (compare_targets (compare_target threshold bs cs) (all_targets bs cs)) (\<lambda>xs.
     sum_bind (env_divergence baseline current) (\<lambda>env_div. sum_bind (runtime_divergence baseline current) (\<lambda>runtime_div.
       let regressions = concat (map (change ''regression'') xs) in
       Inr (dict_set ''compare'' (PDict
         [(''baseline'', origin baseline), (''current'', origin current), (''threshold_pct'', PFloat threshold),
          (''live_run'', PBool live), (''exit_code'', PInt (exit_code env_div runtime_div regressions)),
          (''env_divergence'', strs env_div), (''runtime_divergence'', strs runtime_div),
          (''core_regressions'', PList regressions), (''runtime_warnings'', PList (concat (map (change ''warning'') xs))),
          (''skipped'', PList (concat (map skipped_of xs)))])
         (dict_set ''results'' (PList (map (\<lambda>(k, v, r). r) xs)) current)))))))"


section \<open>Percentiles are ordered\<close>

definition between_ranks :: "rat list \<Rightarrow> rat \<Rightarrow> rat" where
  "between_ranks xs k = xs ! nat \<lfloor>k\<rfloor> + (k - of_int \<lfloor>k\<rfloor>) * (xs ! nat \<lceil>k\<rceil> - xs ! nat \<lfloor>k\<rfloor>)"

definition in_ranks :: "rat list \<Rightarrow> rat \<Rightarrow> bool" where
  "in_ranks xs k \<longleftrightarrow> sorted xs \<and> 0 \<le> k \<and> k \<le> of_nat (length xs - 1) \<and> xs \<noteq> []"

lemma rank_bounds:
  assumes "in_ranks xs k"
  shows "0 \<le> \<lfloor>k\<rfloor>" "\<lfloor>k\<rfloor> \<le> \<lceil>k\<rceil>" "nat \<lceil>k\<rceil> < length xs" "\<lceil>k\<rceil> \<le> \<lfloor>k\<rfloor> + 1" "xs ! nat \<lfloor>k\<rfloor> \<le> xs ! nat \<lceil>k\<rceil>"
proof -
  have k: "0 \<le> k" "k \<le> of_nat (length xs - 1)" and xs: "sorted xs" "xs \<noteq> []" using assms by (simp_all add: in_ranks_def)
  show "0 \<le> \<lfloor>k\<rfloor>" "\<lfloor>k\<rfloor> \<le> \<lceil>k\<rceil>" "\<lceil>k\<rceil> \<le> \<lfloor>k\<rfloor> + 1" using k(1) by linarith+
  have "\<lceil>k\<rceil> \<le> int (length xs - 1)" using k(2) by (simp add: ceiling_le_iff)
  then show "nat \<lceil>k\<rceil> < length xs" using xs(2) by (cases xs) auto
  then show "xs ! nat \<lfloor>k\<rfloor> \<le> xs ! nat \<lceil>k\<rceil>" using xs(1) by (intro sorted_nth_mono) linarith+
qed

lemma between_ranks_bounds:
  assumes "in_ranks xs k"
  shows "xs ! nat \<lfloor>k\<rfloor> \<le> between_ranks xs k" "between_ranks xs k \<le> xs ! nat \<lceil>k\<rceil>"
proof -
  have frac: "0 \<le> k - of_int \<lfloor>k\<rfloor>" "k - of_int \<lfloor>k\<rfloor> \<le> 1" by linarith+
  have step: "0 \<le> xs ! nat \<lceil>k\<rceil> - xs ! nat \<lfloor>k\<rfloor>" using rank_bounds(5) [OF assms] by simp
  show "xs ! nat \<lfloor>k\<rfloor> \<le> between_ranks xs k" using mult_nonneg_nonneg [OF frac(1) step] by (simp add: between_ranks_def)
  show "between_ranks xs k \<le> xs ! nat \<lceil>k\<rceil>" using mult_right_mono [OF frac(2) step] by (simp add: between_ranks_def)
qed

lemma between_ranks_mono:
  assumes "in_ranks xs j" "in_ranks xs k" "j \<le> k"
  shows "between_ranks xs j \<le> between_ranks xs k"
proof (cases "\<lfloor>j\<rfloor> = \<lfloor>k\<rfloor>")
  case False
  then have "\<lceil>j\<rceil> \<le> \<lfloor>k\<rfloor>" using floor_mono [OF assms(3)] rank_bounds(4) [OF assms(1)] by linarith
  then have "xs ! nat \<lceil>j\<rceil> \<le> xs ! nat \<lfloor>k\<rfloor>"
    using assms(2) nat_mono [OF rank_bounds(2) [OF assms(2)]] rank_bounds(3) [OF assms(2)]
    by (intro sorted_nth_mono nat_mono) (simp_all add: in_ranks_def)
  then show ?thesis using between_ranks_bounds(2) [OF assms(1)] between_ranks_bounds(1) [OF assms(2)] by linarith
next
  case True
  show ?thesis
  proof (cases "j = of_int \<lfloor>j\<rfloor>")
    case integral: True
    then have "between_ranks xs j = xs ! nat \<lfloor>k\<rfloor>" using True by (simp add: between_ranks_def)
    then show ?thesis using between_ranks_bounds(1) [OF assms(2)] by simp
  next
    case False
    have "k \<noteq> of_int \<lfloor>k\<rfloor>"
    proof
      assume k: "k = of_int \<lfloor>k\<rfloor>"
      have "of_int \<lfloor>k\<rfloor> \<le> j" using of_int_floor_le [of j] unfolding True .
      then have "j = of_int \<lfloor>k\<rfloor>" using assms(3) k by linarith
      then show False using False unfolding True by simp
    qed
    then have "\<lceil>k\<rceil> = \<lfloor>k\<rfloor> + 1" by (auto simp: ceiling_altdef)
    moreover have "\<lceil>j\<rceil> = \<lfloor>j\<rfloor> + 1" using False by (auto simp: ceiling_altdef)
    ultimately have "\<lceil>j\<rceil> = \<lceil>k\<rceil>" unfolding True by simp
    then show ?thesis
      using True assms(3) rank_bounds(5) [OF assms(2)] by (simp add: between_ranks_def mult_right_mono)
  qed
qed

lemma interpolation:
  "(if \<lfloor>k\<rfloor> = \<lceil>k\<rceil> then a else a * (of_int \<lceil>k\<rceil> - k) + b * (k - of_int \<lfloor>k\<rfloor>)) =
     a + (k - of_int \<lfloor>k\<rfloor>) * ((if \<lfloor>k\<rfloor> = \<lceil>k\<rceil> then a else b) - (a :: rat))"
proof (cases "\<lfloor>k\<rfloor> = \<lceil>k\<rceil>")
  case False
  then have up: "of_int \<lceil>k\<rceil> = (of_int \<lfloor>k\<rfloor> + 1 :: rat)" by (auto simp: ceiling_altdef split: if_splits)
  show ?thesis using False by (simp add: up algebra_simps)
qed simp

lemma percentile_ranks:
  assumes "sorted xs" "xs \<noteq> []" "0 \<le> q" "q \<le> 100"
  shows "percentile xs q = between_ranks xs (of_nat (length xs - 1) * (q / 100))" "in_ranks xs (of_nat (length xs - 1) * (q / 100))"
proof -
  let ?k = "of_nat (length xs - 1) * (q / 100) :: rat"
  have le: "?k \<le> of_nat (length xs - 1)" using assms(4) by (intro mult_left_le) simp_all
  show "in_ranks xs ?k" using assms le by (simp add: in_ranks_def)
  show "percentile xs q = between_ranks xs ?k"
  proof (cases "length xs = 1")
    case True
    then show ?thesis by (cases xs) (simp_all add: percentile_def between_ranks_def)
  next
    case False
    then have "percentile xs q = (if \<lfloor>?k\<rfloor> = \<lceil>?k\<rceil> then xs ! nat \<lfloor>?k\<rfloor>
        else xs ! nat \<lfloor>?k\<rfloor> * (of_int \<lceil>?k\<rceil> - ?k) + xs ! nat \<lceil>?k\<rceil> * (?k - of_int \<lfloor>?k\<rfloor>))"
      using assms(2) unfolding percentile_def Let_def by (simp only: if_False)
    also have "\<dots> = between_ranks xs ?k"
      unfolding interpolation between_ranks_def by (cases "\<lfloor>?k\<rfloor> = \<lceil>?k\<rceil>") (simp_all only: if_True if_False simp_thms)
    finally show ?thesis .
  qed
qed

lemma percentile_mono:
  assumes "sorted xs" "xs \<noteq> []" "0 \<le> p" "p \<le> q" "q \<le> 100"
  shows "percentile xs p \<le> percentile xs q"
proof -
  have "of_nat (length xs - 1) * (p / 100) \<le> (of_nat (length xs - 1) * (q / 100) :: rat)"
    using assms(4) by (intro mult_left_mono) simp_all
  then show ?thesis using assms percentile_ranks [OF assms(1,2)] between_ranks_mono by simp
qed

lemma percentile_ends:
  assumes "sorted xs" "xs \<noteq> []"
  shows "percentile xs 0 = hd xs" "percentile xs 100 = last xs"
  using percentile_ranks [OF assms] assms(2) by (simp_all add: between_ranks_def hd_conv_nth last_conv_nth)


lemma sorted_ends: "sorted xs \<Longrightarrow> x \<in> set xs \<Longrightarrow> hd xs \<le> x \<and> x \<le> last xs"
proof
  assume xs: "sorted xs" "x \<in> set xs"
  show "hd xs \<le> x" using xs by (cases xs) auto
  show "x \<le> last xs" using xs by (cases xs rule: rev_cases) (auto simp: sorted_append)
qed

lemma mean_bounds:
  assumes "sorted xs" "xs \<noteq> []"
  shows "hd xs \<le> sum_list xs / of_nat (length xs)" "sum_list xs / of_nat (length xs) \<le> (last xs :: rat)"
proof -
  have pos: "(0::rat) < of_nat (length xs)" using assms(2) by simp
  have "sum_list (map (\<lambda>x. hd xs) xs) \<le> sum_list (map (\<lambda>x. x) xs)" "sum_list (map (\<lambda>x. x) xs) \<le> sum_list (map (\<lambda>x. last xs) xs)"
    using sorted_ends [OF assms(1)] by (intro sum_list_mono; simp)+
  then have "of_nat (length xs) * hd xs \<le> sum_list xs" "sum_list xs \<le> of_nat (length xs) * last xs"
    by (simp_all add: sum_list_triv)
  then show "hd xs \<le> sum_list xs / of_nat (length xs)" "sum_list xs / of_nat (length xs) \<le> last xs"
    using pos by (simp_all add: pos_le_divide_eq pos_divide_le_eq mult.commute)
qed

definition ordered_summary :: "rat list \<Rightarrow> summary \<Rightarrow> bool" where
  "ordered_summary xs s \<longleftrightarrow> (\<exists>lo mean p50 p95 p99 hi.
     sm_min s = Some lo \<and> sm_mean s = Some mean \<and> sm_p50 s = Some p50 \<and> sm_p95 s = Some p95 \<and> sm_p99 s = Some p99 \<and>
     sm_max s = Some hi \<and> lo \<le> p50 \<and> p50 \<le> p95 \<and> p95 \<le> p99 \<and> p99 \<le> hi \<and> lo \<le> mean \<and> mean \<le> hi \<and>
     lo \<in> set xs \<and> hi \<in> set xs \<and> sm_count s = length xs \<and> sm_samples s = xs)"

text \<open>The summary of any samples is ordered: minimum, median, the two high percentiles, maximum; the extremes are
  samples, and the samples are kept.\<close>

lemma summarize_ordered:
  assumes "xs \<noteq> []"
  shows "ordered_summary xs (summarize xs)"
proof -
  let ?o = "sort xs"
  have o: "sorted ?o" "?o \<noteq> []" "set ?o = set xs" using assms by (simp_all flip: set_empty)
  have "hd ?o \<in> set xs" "last ?o \<in> set xs" using o by (metis hd_in_set, metis last_in_set)
  moreover have "hd ?o \<le> percentile ?o 50" "percentile ?o 99 \<le> last ?o"
    using percentile_mono [OF o(1,2), of 0 50] percentile_mono [OF o(1,2), of 99 100] percentile_ends [OF o(1,2)] by simp_all
  moreover have "percentile ?o 50 \<le> percentile ?o 95" "percentile ?o 95 \<le> percentile ?o 99"
    using percentile_mono [OF o(1,2)] by simp_all
  ultimately show ?thesis
    using assms mean_bounds [OF o(1,2)] by (simp add: ordered_summary_def summarize_def Let_def)
qed

section \<open>The exit code\<close>

lemma compare_targets_all:
  "compare_targets judge ks = Inr xs \<Longrightarrow> map fst xs = ks \<and> list_all (\<lambda>(k, v, r). judge k = Inr v \<and> verdict_result k v = Inr r) xs"
  by (induction ks arbitrary: xs) (auto simp: sum_bind_Inr)

text \<open>A core target measured on both sides whose median grew by more than the threshold.\<close>

definition regressed :: "rat \<Rightarrow> (target \<times> pydict) list \<Rightarrow> (target \<times> pydict) list \<Rightarrow> target \<Rightarrow> bool" where
  "regressed threshold bs cs k \<longleftrightarrow> category_for (fst k) (snd k) = ''core'' \<and>
     (\<exists>x y. wall_p50 (map_of bs k) = Inr (Some x) \<and> wall_p50 (map_of cs k) = Inr (Some y) \<and> threshold < (y - x) / x * 100)"

lemma measured: "wall_p50 z = Inr (Some y) \<Longrightarrow> \<exists>r. z = Some r"
  by (cases z) (simp_all add: wall_p50_def)

lemma compare_target_cases:
  assumes "compare_target threshold bs cs k = Inr v"
  obtains (skip) b c reason where "wall_p50 (map_of bs k) = Inr b" "wall_p50 (map_of cs k) = Inr c" "b = None \<or> c = None"
      "v = Skipped reason" "reason \<noteq> []"
  | (compared) x y r word delta where "wall_p50 (map_of bs k) = Inr (Some x)" "wall_p50 (map_of cs k) = Inr (Some y)"
      "map_of cs k = Some r" "verdict_of threshold (category_for (fst k) (snd k)) x y = Inr (word, delta)"
      "v = Compared word x y delta r"
proof -
  obtain b c where bc: "wall_p50 (map_of bs k) = Inr b" "wall_p50 (map_of cs k) = Inr c"
    using assms by (auto simp: compare_target_def sum_bind_Inr)
  show ?thesis
  proof (cases "b = None \<or> c = None")
    case True
    have "v = Skipped (if c \<noteq> None then ''not measured in baseline'' else ''not measured in current'')"
      using assms bc True by (auto simp: compare_target_def sum_bind_def split: option.splits)
    then show ?thesis by (rule skip [OF bc True]) simp
  next
    case False
    then obtain x y where xy: "b = Some x" "c = Some y" by auto
    then obtain r where r: "map_of cs k = Some r" using measured bc(2) by blast
    from assms obtain word delta where "verdict_of threshold (category_for (fst k) (snd k)) x y = Inr (word, delta)"
        "v = Compared word x y delta r"
      using bc(2) [unfolded r] unfolding compare_target_def r
      by (auto simp: bc(1) xy sum_bind_def split: sum.splits)
    then show ?thesis using compared [OF bc(1) [unfolded xy] bc(2) [unfolded xy] r] by blast
  qed
qed

lemma change_regressed:
  assumes "judge = compare_target threshold bs cs" "list_all (\<lambda>(k, v, r). judge k = Inr v \<and> P k v r) xs"
  shows "concat (map (change ''regression'') xs) \<noteq> [] \<longleftrightarrow> (\<exists>k \<in> set (map fst xs). regressed threshold bs cs k)"
proof -
  have "change ''regression'' x \<noteq> [] \<longleftrightarrow> regressed threshold bs cs (fst x)" if "x \<in> set xs" for x
  proof -
    obtain k v r where x: "x = (k, v, r)" by (cases x)
    have judged: "compare_target threshold bs cs k = Inr v" using assms that by (auto simp: x list_all_iff)
    from judged show ?thesis
    proof (cases rule: compare_target_cases)
      case (skip b c reason)
      then show ?thesis by (auto simp: x change_def regressed_def)
    next
      case (compared a b e word delta)
      then show ?thesis by (auto simp: x change_def regressed_def verdict_of_def Let_def split: if_splits)
    qed
  qed
  then show ?thesis by auto
qed

definition report_exit :: "pydict \<Rightarrow> pyval" where
  "report_exit report = (case dict_get report ''compare'' PNone of PDict d \<Rightarrow> dict_get d ''exit_code'' PNone | _ \<Rightarrow> PNone)"

lemma exit_contract:
  assumes "compare_reports baseline current threshold live = Inr report"
    "results_of baseline = Inr bs" "results_of current = Inr cs"
  shows "report_exit report = PInt
    (if env_divergence baseline current \<noteq> Inr [] \<or> runtime_divergence baseline current \<noteq> Inr [] then 2
     else if \<exists>k \<in> fst ` set bs \<union> fst ` set cs. regressed threshold bs cs k then 1 else 0)"
proof -
  obtain xs e d where xs: "compare_targets (compare_target threshold bs cs) (all_targets bs cs) = Inr xs"
      and ed: "env_divergence baseline current = Inr e" "runtime_divergence baseline current = Inr d"
      and exit: "report_exit report = PInt (exit_code e d (concat (map (change ''regression'') xs)))"
    using assms by (auto simp: compare_reports_def sum_bind_Inr Let_def report_exit_def dict_get_def)
  have "set (map fst xs) = fst ` set bs \<union> fst ` set cs"
    using conjunct1 [OF compare_targets_all [OF xs]] by (simp add: all_targets_def)
  then have "concat (map (change ''regression'') xs) \<noteq> [] \<longleftrightarrow> (\<exists>k \<in> fst ` set bs \<union> fst ` set cs. regressed threshold bs cs k)"
    using change_regressed [OF refl conjunct2 [OF compare_targets_all [OF xs]]] by simp
  then show ?thesis using exit ed by (simp add: exit_code_def)
qed


section \<open>A comparison is a valid report\<close>

definition run_ok :: "pyval \<Rightarrow> bool" where
  "run_ok run \<longleftrightarrow> (case run of
     PDict r \<Rightarrow> list_all (has_key r) METRICS \<and> list_all (\<lambda>k. k \<in> set METRICS \<or> k \<in> set RUN_EXTRAS) (map fst r) \<and>
       (case dict_get r ''timings'' PNone of PNone \<Rightarrow> True | PDict _ \<Rightarrow> True | _ \<Rightarrow> False)
   | _ \<Rightarrow> False)"

definition runs_ok :: "pydict \<Rightarrow> bool" where
  "runs_ok r \<longleftrightarrow> has_key r ''summaries'' \<and>
     (case dict_get r ''runs'' PNone of PList xs \<Rightarrow> xs \<noteq> [] \<and> list_all run_ok xs | _ \<Rightarrow> False)"

definition result_ok :: "pyval \<Rightarrow> bool" where
  "result_ok result \<longleftrightarrow> (case result of
     PDict r \<Rightarrow> is_text_in (dict_get r ''group'' PNone) GROUPS \<and> has_key r ''target'' \<and>
       (if truthy (dict_get r ''skipped'' PNone) then truthy (dict_get r ''reason'' PNone) else runs_ok r)
   | _ \<Rightarrow> False)"

lemma validate_run_ok: "validate_run label run = [] \<longleftrightarrow> run_ok run"
  by (cases run) (auto simp: validate_run_def run_ok_def filter_empty_conv list_all_iff split: pyval.split)

lemma concat_enumerate_empty: "concat (map f (enumerate n xs)) = [] \<longleftrightarrow> (\<forall>i < length xs. f (n + i, xs ! i) = [])"
  by (induction xs arbitrary: n) (simp_all add: All_less_Suc2)

lemma validate_runs_ok: "validate_runs label r = [] \<longleftrightarrow> runs_ok r"
  by (cases "dict_get r ''runs'' PNone")
     (auto simp: validate_runs_def runs_ok_def concat_enumerate_empty validate_run_ok list_all_length
       simp del: concat_eq_Nil_conv enumerate_simps split: list.split)

lemma validate_result_ok: "validate_result (i, x) = [] \<longleftrightarrow> result_ok x"
  by (cases x) (auto simp: validate_result_def result_ok_def Let_def validate_runs_ok)

lemma validate_report_ok:
  "validate_report show report = [] \<longleftrightarrow> list_all (has_key report) REQUIRED_KEYS \<and>
     is_text_in (dict_get report ''schema_version'' PNone) SUPPORTED_VERSIONS \<and>
     (\<exists>rs. map_of report ''results'' = Some (PList rs) \<and> list_all result_ok rs)"
proof -
  have keys: "has_key report ''schema_version'' \<and> has_key report ''results''" if "list_all (has_key report) REQUIRED_KEYS"
    using that by (simp add: REQUIRED_KEYS_def)
  have rs: "(case map_of report ''results'' of None \<Rightarrow> [] | Some (PList rs) \<Rightarrow> concat (map validate_result (enumerate 0 rs))
      | Some _ \<Rightarrow> [''results must be a list'']) = [] \<longleftrightarrow>
    (\<exists>rs. map_of report ''results'' = Some (PList rs) \<and> list_all result_ok rs)" if "has_key report ''results''"
    using that by (cases "map_of report ''results''")
      (auto simp: has_key_def concat_enumerate_empty validate_result_ok list_all_length simp del: concat_eq_Nil_conv split: pyval.split)
  show ?thesis
  proof (cases "list_all (has_key report) REQUIRED_KEYS")
    case True
    have none: "filter (\<lambda>k. \<not> has_key report k) REQUIRED_KEYS = []" using True by (auto simp: filter_empty_conv list_all_iff)
    show ?thesis using True keys [OF True] rs by (simp add: validate_report_def none)
  next
    case False
    then have "filter (\<lambda>k. \<not> has_key report k) REQUIRED_KEYS \<noteq> []" by (auto simp: filter_empty_conv list_all_iff)
    then show ?thesis using False by (simp add: validate_report_def)
  qed
qed

lemma by_target_sound:
  assumes "by_target rs m = Inr bs" "(k, r) \<in> set bs"
  shows "(k, r) \<in> set m \<or> (PDict r \<in> set rs \<and> map_of r ''group'' = Some (PStr (fst k)) \<and> map_of r ''target'' = Some (PStr (snd k)))"
  using assms
proof (induction rs m arbitrary: bs rule: by_target.induct)
  case (2 d rs m)
  from "2.prems"(1) obtain g t where gt: "text_item ''group'' d = Inr g" "text_item ''target'' d = Inr t"
      and rest: "by_target rs (dict_set (g, t) d m) = Inr bs"
    by (auto simp: sum_bind_Inr)
  have keys: "map_of d ''group'' = Some (PStr g)" "map_of d ''target'' = Some (PStr t)"
    using gt by (auto simp: text_item_def split: option.splits pyval.splits)
  have "(k, r) \<in> set (dict_set (g, t) d m) \<or> (PDict r \<in> set rs \<and> map_of r ''group'' = Some (PStr (fst k)) \<and> map_of r ''target'' = Some (PStr (snd k)))"
    using "2.IH" [OF rest "2.prems"(2)] .
  moreover have "(k, r) \<in> set (dict_set (g, t) d m) \<Longrightarrow> (k, r) \<in> set m \<or> k = (g, t) \<and> r = d"
    unfolding dict_set_def by (induction m) (auto split: if_splits)
  ultimately show ?case using keys by auto
qed auto

lemma results_of_ok:
  assumes "validate_report show report = []" "results_of report = Inr bs" "(k, r) \<in> set bs"
  shows "result_ok (PDict r)" "fst k \<in> set GROUPS"
proof -
  obtain rs where rs: "map_of report ''results'' = Some (PList rs)" "list_all result_ok rs"
    using assms(1) by (auto simp: validate_report_ok)
  have "by_target rs [] = Inr bs" using assms(2) rs(1) by (simp add: results_of_def dict_get_def)
  then have in_rs: "PDict r \<in> set rs" "map_of r ''group'' = Some (PStr (fst k))" using by_target_sound assms(3) by fastforce+
  then show ok: "result_ok (PDict r)" using rs(2) by (simp add: list_all_iff)
  then show "fst k \<in> set GROUPS" using in_rs(2) by (simp add: result_ok_def is_text_in_def dict_get_def)
qed

lemma verdict_result_ok:
  assumes valid: "\<And>k r. (k, r) \<in> set cs \<Longrightarrow> result_ok (PDict r)"
    and k: "fst k \<in> set GROUPS"
    and judged: "compare_target threshold bs cs k = Inr v" and result: "verdict_result k v = Inr x"
  shows "result_ok x"
  using judged
proof (cases rule: compare_target_cases)
  case (skip b c reason)
  then show ?thesis using k result by (auto simp: verdict_result_def result_ok_def is_text_in_def has_key_def dict_get_def)
next
  case (compared a b r word delta)
  have "(k, r) \<in> set cs" using compared(3) by (rule map_of_SomeD)
  then have ok: "result_ok (PDict r)" by (rule valid)
  have "\<not> truthy (dict_get r ''skipped'' PNone)" using compared(2,3) by (auto simp: wall_p50_def)
  then obtain runs where runs: "dict_get r ''runs'' PNone = PList runs" "runs \<noteq> []" "list_all run_ok runs"
    using ok by (auto simp: result_ok_def runs_ok_def split: pyval.splits)
  then have "dict_get r ''runs'' (PList []) = PList runs" by (auto simp: dict_get_def split: option.splits)
  then show ?thesis using compared(5) result k runs(2,3)
    by (auto simp: verdict_result_def Let_def sum_bind_Inr result_ok_def is_text_in_def has_key_def dict_get_def runs_ok_def)
qed


lemma has_key_set: "has_key (dict_set k v d) j \<longleftrightarrow> j = k \<or> has_key d j"
  by (simp add: has_key_def)

lemma compare_valid:
  assumes "validate_report show baseline = []" "validate_report show current = []"
    and compare: "compare_reports baseline current threshold live = Inr report"
  shows "validate_report show report = []"
proof -
  obtain bs cs xs where r: "results_of baseline = Inr bs" "results_of current = Inr cs"
      and xs: "compare_targets (compare_target threshold bs cs) (all_targets bs cs) = Inr xs"
      and rep: "\<exists>d. report = dict_set ''compare'' d (dict_set ''results'' (PList (map (\<lambda>(k, v, r). r) xs)) current)"
    using compare by (auto simp: compare_reports_def sum_bind_Inr Let_def)
  note xs_facts = compare_targets_all [OF xs]
  have group: "fst k \<in> set GROUPS" if "k \<in> set (all_targets bs cs)" for k
    using that results_of_ok(2) [OF assms(1) r(1)] results_of_ok(2) [OF assms(2) r(2)] by (fastforce simp: all_targets_def)
  have "result_ok x" if "(k, v, x) \<in> set xs" for k v x
  proof -
    have "k \<in> set (map fst xs)" using that by force
    then have "k \<in> set (all_targets bs cs)" using xs_facts by simp
    moreover have "compare_target threshold bs cs k = Inr v" "verdict_result k v = Inr x"
      using that xs_facts by (auto simp: list_all_iff)
    ultimately show ?thesis using verdict_result_ok results_of_ok(1) [OF assms(2) r(2)] group by metis
  qed
  then have "list_all result_ok (map (\<lambda>(k, v, r). r) xs)" by (auto simp: list_all_iff)
  moreover have "list_all (has_key report) REQUIRED_KEYS"
    using rep assms(2) by (auto simp: validate_report_ok list_all_iff has_key_set)
  moreover have "dict_get report ''schema_version'' PNone = dict_get current ''schema_version'' PNone" using rep by auto
  moreover have "map_of report ''results'' = Some (PList (map (\<lambda>(k, v, r). r) xs))" using rep by auto
  ultimately show ?thesis using assms(2) by (simp add: validate_report_ok)
qed

text \<open>C35: The comparison of two valid reports is a valid report, and its exit code keeps the contract: 2 when the environment
  or the runtime differ, else 1 when the median of some core target measured on both sides grew beyond the threshold,
  else 0.\<close>

theorem comparison_contract:
  "validate_report show baseline = [] \<Longrightarrow> validate_report show current = [] \<Longrightarrow>
     compare_reports baseline current threshold live = Inr report \<Longrightarrow>
     results_of baseline = Inr bs \<Longrightarrow> results_of current = Inr cs \<Longrightarrow>
     validate_report show report = [] \<and>
     report_exit report = PInt
       (if env_divergence baseline current \<noteq> Inr [] \<or> runtime_divergence baseline current \<noteq> Inr [] then 2
        else if \<exists>k \<in> fst ` set bs \<union> fst ` set cs. regressed threshold bs cs k then 1 else 0)"
  by (intro conjI exit_contract) (rule compare_valid)

definition sample_report :: "rat \<Rightarrow> pydict" where
  "sample_report p50 = [(''schema_version'', PStr ''1.1''), (''aiosdeck_version'', PStr ''1''), (''git_commit'', PStr ''c''),
     (''timestamp'', PStr ''t''), (''system_info'', PDict [(''cpu'', PStr ''x'')]),
     (''results'', PList [PDict [(''group'', PStr ''startup''), (''target'', PStr ''process''),
       (''runs'', PList [PDict (map (\<lambda>m. (m, PFloat p50)) METRICS)]),
       (''summaries'', PDict [(''wall_time_ms'', PDict [(''p50'', PFloat p50)])])]])]"

definition sample_comparison :: "exn + pydict" where
  "sample_comparison = compare_reports (sample_report 10) (sample_report 20) 10 False"

lemma sample_compared:
  "\<exists>report bs cs. validate_report (\<lambda>_. []) (sample_report 10) = [] \<and> validate_report (\<lambda>_. []) (sample_report 20) = [] \<and>
     sample_comparison = Inr report \<and> results_of (sample_report 10) = Inr bs \<and> results_of (sample_report 20) = Inr cs"
proof -
  have "validate_report (\<lambda>_. []) (sample_report 10) = [] \<and> validate_report (\<lambda>_. []) (sample_report 20) = [] \<and>
    (case sample_comparison of Inl e \<Rightarrow> False | Inr r \<Rightarrow> True) \<and>
    (case results_of (sample_report 10) of Inl e \<Rightarrow> False | Inr r \<Rightarrow> True) \<and>
    (case results_of (sample_report 20) of Inl e \<Rightarrow> False | Inr r \<Rightarrow> True)"
    by code_simp
  then show ?thesis by (auto split: sum.splits)
qed

theorem comparison_contract_witness: "\<exists>report. sample_comparison = Inr report \<and> validate_report (\<lambda>_. []) report = []"
proof -
  obtain report bs cs where facts: "validate_report (\<lambda>_. []) (sample_report 10) = []" "validate_report (\<lambda>_. []) (sample_report 20) = []"
      "sample_comparison = Inr report" "results_of (sample_report 10) = Inr bs" "results_of (sample_report 20) = Inr cs"
    using sample_compared by blast
  show ?thesis
    using comparison_contract [OF facts(1,2) facts(3) [unfolded sample_comparison_def] facts(4,5)] facts(3) by blast
qed

text \<open>A baseline with a median of zero cannot be compared, though it is valid.\<close>

lemma zero_baseline_raises:
  "compare_reports (sample_report 0) (sample_report 1) 10 False = Inl (Exn OtherException ''division by zero'') \<and>
     validate_report (\<lambda>_. []) (sample_report 0) = []"
  by code_simp

end
