(* ===== verification/TelemetryStore.thy ===== *)
theory TelemetryStore
  imports OpenCodeOutput Table
begin

text \<open>
  The telemetry store (\<open>telemetry/store.py\<close>): nine tables, the rows built from records, what SQLite refuses of
  them, the single and the batched insertion, and the queries. A row is a dictionary of its columns. The clock, the
  JSON writer and reader are parameters; rows of equal order keep their order, and groups come in the order of
  their key. Filters that are absent or empty are the empty string.
\<close>

section \<open>Tables and rows\<close>

datatype tele_table = TExecutions | TUsage | TCosts | TRetrieval | TSkills | TGates | TSecurity | TRouting | TBacklog

definition TABLE_KEYS :: "(string \<times> tele_table) list" where
  "TABLE_KEYS = [(''executions'', TExecutions), (''usage'', TUsage), (''costs'', TCosts), (''retrieval'', TRetrieval),
     (''skills'', TSkills), (''gates'', TGates), (''security'', TSecurity), (''routing'', TRouting),
     (''backlog'', TBacklog)]"

record tele_env =
  ne_now :: string
  ne_dumps :: "pyval \<Rightarrow> string"
  ne_loads :: "string \<Rightarrow> pyval option"
  ne_project :: string

definition col :: "pydict \<Rightarrow> string \<times> pyval \<Rightarrow> string \<times> pyval" where
  "col r c = (fst c, dict_get r (fst c) (snd c))"

definition flag :: "pydict \<Rightarrow> string \<Rightarrow> string \<times> pyval" where
  "flag r c = (c, PInt (if truthy (dict_get r c PNone) then 1 else 0))"

definition texts :: "string list \<Rightarrow> (string \<times> pyval) list" where
  "texts cs = map (\<lambda>c. (c, PStr '''')) cs"

definition nulls :: "string list \<Rightarrow> (string \<times> pyval) list" where
  "nulls cs = map (\<lambda>c. (c, PNone)) cs"

definition zeros :: "string list \<Rightarrow> (string \<times> pyval) list" where
  "zeros cs = map (\<lambda>c. (c, PInt 0)) cs"

definition stamp_cols :: "tele_env \<Rightarrow> string \<Rightarrow> pydict \<Rightarrow> (string \<times> pyval) list" where
  "stamp_cols E c r = [col r (c, PStr (ne_now E)), (''project_id'', PStr (ne_project E))]"

definition row_execution :: "tele_env \<Rightarrow> pydict \<Rightarrow> pydict" where
  "row_execution E r = map (col r) (texts [''execution_id'', ''event_id'', ''correlation_id'', ''task_id''] @
     nulls [''workflow_id''] @ texts [''agent''] @ nulls [''model'', ''provider'', ''runtime''] @
     [(''attempt'', PInt 1), (''status'', PStr ''''), (''duration_ms'', PNone)] @ zeros [''tool_calls'', ''llm_turns''] @
     [(''total_cost'', PFloat 0)]) @ stamp_cols E ''timestamp'' r"

definition row_usage :: "tele_env \<Rightarrow> pydict \<Rightarrow> pydict" where
  "row_usage E r = map (col r) (texts [''execution_id'', ''agent'', ''model'', ''provider''] @
     nulls [''input_tokens'', ''output_tokens'', ''total_tokens'', ''cached_tokens'', ''reasoning_tokens'', ''context_tokens'']) @
     [(''provider_raw'', let v = dict_get r ''provider_raw'' PNone in if truthy v then PStr (ne_dumps E v) else PNone)] @
     stamp_cols E ''timestamp'' r"

definition row_cost :: "tele_env \<Rightarrow> pydict \<Rightarrow> pydict" where
  "row_cost E r = map (col r) (texts [''execution_id'', ''pricing_version''] @ [(''pricing_source'', PStr ''builtin''),
     (''input_cost'', PFloat 0), (''output_cost'', PFloat 0)] @ nulls [''cached_cost'', ''reasoning_cost''] @
     [(''total_cost'', PFloat 0), (''currency'', PStr ''USD''), (''status'', PStr ''unpriced'')]) @
     stamp_cols E ''calculated_at'' r"

definition row_retrieval :: "tele_env \<Rightarrow> pydict \<Rightarrow> pydict" where
  "row_retrieval E r = map (col r) (texts [''agent'', ''query''] @
     zeros [''chunks_retrieved'', ''chunks_selected'', ''tokens_before'', ''tokens_after''] @
     [(''compression_ratio'', PFloat 0), (''retrieval_latency_ms'', PFloat 0), (''retriever'', PStr '''')]) @
     stamp_cols E ''timestamp'' r"

definition row_skill :: "tele_env \<Rightarrow> pydict \<Rightarrow> pydict" where
  "row_skill E r = map (col r) (texts [''execution_id'', ''correlation_id'', ''skill_name''] @
     [(''skill_version'', PStr ''1'')] @ texts [''intent'', ''agent''] @ zeros [''considered'', ''selected'', ''used''] @
     [(''relevance_score'', PFloat 0), (''tokens_contributed'', PInt 0), (''downstream_success'', PNone)]) @
     stamp_cols E ''timestamp'' r"

definition row_gate :: "tele_env \<Rightarrow> pydict \<Rightarrow> pydict" where
  "row_gate E r = map (col r) (texts [''gate'', ''status'', ''correlation_id''] @ nulls [''duration_ms''] @
     zeros [''findings_low'', ''findings_medium'', ''findings_high'', ''findings_critical'']) @
     [flag r ''blocked'', flag r ''overridden''] @ stamp_cols E ''timestamp'' r"

text \<open>\<open>json.dumps(list(violations))\<close> unless it is a string; a number cannot be listed.\<close>

definition violations_col :: "tele_env \<Rightarrow> pydict \<Rightarrow> exn + pyval" where
  "violations_col E r =
     (let v = dict_get r ''violations'' PNone in
      if \<not> truthy v then Inr (PStr (ne_dumps E (PList [])))
      else case v of
        PStr s \<Rightarrow> Inr (PStr s)
      | PList xs \<Rightarrow> Inr (PStr (ne_dumps E (PList xs)))
      | PDict d \<Rightarrow> Inr (PStr (ne_dumps E (strs (map fst d))))
      | _ \<Rightarrow> Inl (Exn TypeError ''object is not iterable''))"

definition row_security :: "tele_env \<Rightarrow> pydict \<Rightarrow> exn + pydict" where
  "row_security E r = (case violations_col E r of Inl e \<Rightarrow> Inl e | Inr v \<Rightarrow>
     Inr (map (col r) (texts [''decision'', ''agent'', ''action'']) @ [flag r ''allowed''] @ [col r (''reason'', PStr '''')] @
       [(''violations'', v)] @ map (col r) (texts [''intent_source'', ''correlation_id'']) @ stamp_cols E ''timestamp'' r))"

definition row_routing :: "tele_env \<Rightarrow> pydict \<Rightarrow> pydict" where
  "row_routing E r = map (col r) (texts [''agent'', ''task_type'', ''complexity'', ''provider'', ''model'', ''variant'', ''reason''] @
     [(''estimated_cost'', PFloat 0), (''context_size'', PInt 0), (''source'', PStr '''')]) @ [flag r ''fallback_used''] @
     map (col r) (texts [''fallback_reason'', ''correlation_id'']) @ stamp_cols E ''timestamp'' r"

definition row_backlog :: "tele_env \<Rightarrow> pydict \<Rightarrow> pydict" where
  "row_backlog E r = map (col r) (texts [''run_id''] @ zeros [''task_index''] @
     texts [''task_title'', ''task_type'', ''task_scope'', ''status'', ''commit_sha''] @ nulls [''duration_ms''] @
     texts [''error'', ''source'']) @ stamp_cols E ''timestamp'' r"

fun build_row :: "tele_env \<Rightarrow> tele_table \<Rightarrow> pydict \<Rightarrow> exn + pydict" where
  "build_row E TExecutions r = Inr (row_execution E r)"
| "build_row E TUsage r = Inr (row_usage E r)"
| "build_row E TCosts r = Inr (row_cost E r)"
| "build_row E TRetrieval r = Inr (row_retrieval E r)"
| "build_row E TSkills r = Inr (row_skill E r)"
| "build_row E TGates r = Inr (row_gate E r)"
| "build_row E TSecurity r = row_security E r"
| "build_row E TRouting r = Inr (row_routing E r)"
| "build_row E TBacklog r = Inr (row_backlog E r)"

section \<open>What SQLite accepts\<close>

text \<open>The columns that must not be \<open>NULL\<close>.\<close>

fun NOT_NULL :: "tele_table \<Rightarrow> string list" where
  "NOT_NULL TExecutions = [''execution_id'', ''event_id'', ''correlation_id'', ''task_id'', ''agent'', ''attempt'', ''status'',
     ''timestamp'', ''project_id'']"
| "NOT_NULL TUsage = [''execution_id'', ''agent'', ''model'', ''provider'', ''timestamp'', ''project_id'']"
| "NOT_NULL TCosts = [''execution_id'', ''pricing_version'', ''pricing_source'', ''input_cost'', ''output_cost'', ''total_cost'',
     ''currency'', ''status'', ''calculated_at'', ''project_id'']"
| "NOT_NULL TRetrieval = [''agent'', ''query'', ''chunks_retrieved'', ''chunks_selected'', ''tokens_before'', ''tokens_after'',
     ''compression_ratio'', ''retrieval_latency_ms'', ''retriever'', ''timestamp'', ''project_id'']"
| "NOT_NULL TSkills = [''skill_name'', ''timestamp'', ''project_id'']"
| "NOT_NULL TGates = [''gate'', ''status'', ''correlation_id'', ''findings_low'', ''findings_medium'', ''findings_high'',
     ''findings_critical'', ''blocked'', ''overridden'', ''timestamp'', ''project_id'']"
| "NOT_NULL TSecurity = [''decision'', ''agent'', ''action'', ''allowed'', ''reason'', ''violations'', ''intent_source'',
     ''correlation_id'', ''timestamp'', ''project_id'']"
| "NOT_NULL TRouting = [''agent'', ''task_type'', ''complexity'', ''provider'', ''model'', ''variant'', ''reason'',
     ''estimated_cost'', ''context_size'', ''source'', ''fallback_used'', ''fallback_reason'', ''correlation_id'', ''timestamp'',
     ''project_id'']"
| "NOT_NULL TBacklog = [''run_id'', ''task_index'', ''task_title'', ''task_type'', ''task_scope'', ''status'', ''commit_sha'',
     ''error'', ''source'', ''timestamp'', ''project_id'']"

datatype store_error = SqlError string | ClosedError string | PyError exn

text \<open>A value of a structured type cannot be bound; an integer beyond 64 bits raises an \<open>OverflowError\<close>, which is
  no database error.\<close>

fun bind_error :: "pyval \<Rightarrow> store_error option" where
  "bind_error (PList _) = Some (SqlError ''type is not supported'')"
| "bind_error (PDict _) = Some (SqlError ''type is not supported'')"
| "bind_error (PInt i) = (if - (2 ^ 63) \<le> i \<and> i < 2 ^ 63 then None
     else Some (PyError (Exn OtherException ''Python int too large to convert to SQLite INTEGER'')))"
| "bind_error _ = None"

fun first_error :: "pyval list \<Rightarrow> store_error option" where
  "first_error [] = None"
| "first_error (v # vs) = (case bind_error v of None \<Rightarrow> first_error vs | Some e \<Rightarrow> Some e)"

type_synonym tele_db = "tele_table \<Rightarrow> pydict table"

definition missing_column :: "tele_table \<Rightarrow> pydict \<Rightarrow> bool" where
  "missing_column t row \<longleftrightarrow> list_ex (\<lambda>c. dict_get row c PNone = PNone) (NOT_NULL t)"

definition known_event :: "tele_db \<Rightarrow> pydict \<Rightarrow> bool" where
  "known_event db row \<longleftrightarrow> dict_get row ''event_id'' PNone \<in>
     (\<lambda>(i, r). dict_get r ''event_id'' PNone) ` set (table_rows (db TExecutions))"

text \<open>One \<open>INSERT\<close>; that of an execution is \<open>OR IGNORE\<close>.\<close>

definition sql_insert :: "tele_table \<Rightarrow> pydict \<Rightarrow> tele_db \<Rightarrow> store_error + tele_db" where
  "sql_insert t row db =
     (case first_error (map snd row) of
        Some e \<Rightarrow> Inl e
      | None \<Rightarrow>
          if missing_column t row
          then if t = TExecutions then Inr db else Inl (SqlError ''NOT NULL constraint failed'')
          else if t = TExecutions \<and> known_event db row then Inr db
          else Inr (db(t := snd (insert_row row (db t)))))"

fun sql_inserts :: "tele_table \<Rightarrow> pydict list \<Rightarrow> tele_db \<Rightarrow> store_error + tele_db" where
  "sql_inserts t [] db = Inr db"
| "sql_inserts t (row # rows) db = (case sql_insert t row db of Inl e \<Rightarrow> Inl e | Inr db' \<Rightarrow> sql_inserts t rows db')"

section \<open>The two write paths\<close>

fun build_rows :: "tele_env \<Rightarrow> tele_table \<Rightarrow> pydict list \<Rightarrow> exn + pydict list" where
  "build_rows E t [] = Inr []"
| "build_rows E t (r # rs) = (case build_row E t r of Inl e \<Rightarrow> Inl e | Inr row \<Rightarrow>
     (case build_rows E t rs of Inl e \<Rightarrow> Inl e | Inr rows \<Rightarrow> Inr (row # rows)))"

text \<open>\<open>insert_many\<close> on an open store; it raises what it meets.\<close>

definition insert_many :: "tele_env \<Rightarrow> string \<Rightarrow> pydict list \<Rightarrow> tele_db \<Rightarrow> store_error + tele_db" where
  "insert_many E key records db =
     (case map_of TABLE_KEYS key of
        None \<Rightarrow> Inl (ClosedError (''unknown telemetry table: '' @ key))
      | Some t \<Rightarrow> (case build_rows E t records of
          Inl e \<Rightarrow> Inl (PyError e)
        | Inr rows \<Rightarrow> sql_inserts t rows db))"

text \<open>The single insertion: a database error is logged, anything else escapes.\<close>

definition insert_one :: "tele_env \<Rightarrow> tele_table \<Rightarrow> pydict \<Rightarrow> tele_db \<Rightarrow> exn + tele_db" where
  "insert_one E t r db =
     (case build_row E t r of
        Inl e \<Rightarrow> Inl e
      | Inr row \<Rightarrow> (case sql_insert t row db of
          Inr db' \<Rightarrow> Inr db'
        | Inl (PyError e) \<Rightarrow> Inl e
        | Inl _ \<Rightarrow> Inr db))"

text \<open>A batch in one transaction: its records by table, the tables in the order they first appear.\<close>

definition grouped :: "(string \<times> pydict) list \<Rightarrow> (string \<times> pydict list) list" where
  "grouped batch = foldl (\<lambda>g (k, r). dict_set k (dict_get g k [] @ [r]) g) [] batch"

fun insert_groups :: "tele_env \<Rightarrow> (string \<times> pydict list) list \<Rightarrow> tele_db \<Rightarrow> store_error + tele_db" where
  "insert_groups E [] db = Inr db"
| "insert_groups E ((k, rs) # gs) db = (case insert_many E k rs db of Inl e \<Rightarrow> Inl e | Inr db' \<Rightarrow> insert_groups E gs db')"

definition write_batch :: "tele_env \<Rightarrow> (string \<times> pydict) list \<Rightarrow> tele_db \<Rightarrow> store_error + tele_db" where
  "write_batch E batch db = insert_groups E (grouped batch) db"

section \<open>Queries\<close>

text \<open>The filters of a query; each applies when it is not empty.\<close>

record tele_filter =
  nf_agent :: string
  nf_model :: string
  nf_workflow :: string
  nf_from :: string
  nf_to :: string

definition text_of :: "pyval \<Rightarrow> string" where
  "text_of v = (case v of PStr s \<Rightarrow> s | _ \<Rightarrow> [])"

definition is_col :: "string \<Rightarrow> string \<Rightarrow> pydict \<Rightarrow> bool" where
  "is_col c v row \<longleftrightarrow> v = [] \<or> dict_get row c PNone = PStr v"

definition between :: "string \<Rightarrow> string \<Rightarrow> string \<Rightarrow> pydict \<Rightarrow> bool" where
  "between c a z row \<longleftrightarrow> (a = [] \<or> a \<le> text_of (dict_get row c PNone)) \<and> (z = [] \<or> text_of (dict_get row c PNone) \<le> z)"

definition own :: "tele_env \<Rightarrow> pydict \<Rightarrow> bool" where
  "own E row \<longleftrightarrow> dict_get row ''project_id'' PNone = PStr (ne_project E)"

text \<open>\<open>SELECT ... WHERE\<close> with the identifiers, \<open>ORDER BY ... DESC\<close> and \<open>LIMIT\<close>: a negative limit is none.\<close>

definition select_own :: "tele_env \<Rightarrow> tele_table \<Rightarrow> (pydict \<Rightarrow> bool) \<Rightarrow> tele_db \<Rightarrow> (int \<times> pydict) list" where
  "select_own E t P db = filter (\<lambda>(i, row). own E row \<and> P row) (table_rows (db t))"

definition newest_first :: "string \<Rightarrow> (int \<times> pydict) list \<Rightarrow> (int \<times> pydict) list" where
  "newest_first c rows = sort_desc (\<lambda>(i, row). text_of (dict_get row c PNone)) rows"

definition at_most :: "int \<Rightarrow> 'a list \<Rightarrow> 'a list" where
  "at_most limit xs = (if limit < 0 then xs else take (nat limit) xs)"

definition pick :: "string list \<Rightarrow> pydict \<Rightarrow> pydict" where
  "pick cs row = map (\<lambda>c. (c, dict_get row c PNone)) cs"

text \<open>The executions of a workflow, of any project.\<close>

definition in_workflow :: "string \<Rightarrow> tele_db \<Rightarrow> pydict \<Rightarrow> bool" where
  "in_workflow w db row \<longleftrightarrow> w = [] \<or> dict_get row ''execution_id'' PNone \<in>
     (\<lambda>(i, r). dict_get r ''execution_id'' PNone) `
       set (filter (\<lambda>(i, r). dict_get r ''workflow_id'' PNone = PStr w) (table_rows (db TExecutions)))"

definition used_by :: "string \<Rightarrow> string \<Rightarrow> tele_db \<Rightarrow> pydict \<Rightarrow> bool" where
  "used_by c v db row \<longleftrightarrow> v = [] \<or> dict_get row ''execution_id'' PNone \<in>
     (\<lambda>(i, r). dict_get r ''execution_id'' PNone) `
       set (filter (\<lambda>(i, r). dict_get r c PNone = PStr v) (table_rows (db TUsage)))"

definition usage_matches :: "tele_filter \<Rightarrow> tele_db \<Rightarrow> pydict \<Rightarrow> bool" where
  "usage_matches f db row \<longleftrightarrow> is_col ''agent'' (nf_agent f) row \<and> is_col ''model'' (nf_model f) row \<and>
     in_workflow (nf_workflow f) db row \<and> between ''timestamp'' (nf_from f) (nf_to f) row"

definition USAGE_COLUMNS :: "string list" where
  "USAGE_COLUMNS = [''execution_id'', ''agent'', ''model'', ''provider'', ''input_tokens'', ''output_tokens'', ''total_tokens'',
     ''cached_tokens'', ''reasoning_tokens'', ''context_tokens'', ''provider_raw'', ''timestamp'']"

definition query_usage :: "tele_env \<Rightarrow> tele_filter \<Rightarrow> int \<Rightarrow> tele_db \<Rightarrow> pydict list" where
  "query_usage E f limit db = map (pick USAGE_COLUMNS \<circ> snd)
     (at_most limit (newest_first ''timestamp'' (select_own E TUsage (usage_matches f db) db)))"

definition COST_COLUMNS :: "string list" where
  "COST_COLUMNS = [''execution_id'', ''pricing_version'', ''pricing_source'', ''input_cost'', ''output_cost'', ''cached_cost'',
     ''reasoning_cost'', ''total_cost'', ''currency'', ''status'', ''calculated_at'']"

definition cost_matches :: "tele_filter \<Rightarrow> tele_db \<Rightarrow> pydict \<Rightarrow> bool" where
  "cost_matches f db row \<longleftrightarrow> used_by ''agent'' (nf_agent f) db row \<and> used_by ''model'' (nf_model f) db row \<and>
     in_workflow (nf_workflow f) db row \<and> between ''calculated_at'' (nf_from f) (nf_to f) row"

definition query_costs :: "tele_env \<Rightarrow> tele_filter \<Rightarrow> int \<Rightarrow> tele_db \<Rightarrow> pydict list" where
  "query_costs E f limit db = map (pick COST_COLUMNS \<circ> snd)
     (at_most limit (newest_first ''calculated_at'' (select_own E TCosts (cost_matches f db) db)))"

definition EXECUTION_COLUMNS :: "string list" where
  "EXECUTION_COLUMNS = [''execution_id'', ''event_id'', ''correlation_id'', ''task_id'', ''workflow_id'', ''agent'', ''model'',
     ''provider'', ''runtime'', ''attempt'', ''status'', ''duration_ms'', ''timestamp'']"

definition execution_matches :: "tele_filter \<Rightarrow> pydict \<Rightarrow> bool" where
  "execution_matches f row \<longleftrightarrow> is_col ''agent'' (nf_agent f) row \<and> is_col ''workflow_id'' (nf_workflow f) row \<and>
     between ''timestamp'' (nf_from f) (nf_to f) row"

definition query_executions :: "tele_env \<Rightarrow> tele_filter \<Rightarrow> int \<Rightarrow> tele_db \<Rightarrow> pydict list" where
  "query_executions E f limit db = map (pick EXECUTION_COLUMNS \<circ> snd)
     (at_most limit (newest_first ''timestamp'' (select_own E TExecutions (execution_matches f) db)))"

section \<open>Aggregation\<close>

text \<open>\<open>r[c] or 0\<close> as a number; adding text raises.\<close>

definition amount :: "string \<Rightarrow> pydict \<Rightarrow> rat option" where
  "amount c row = (let v = dict_get row c PNone in if truthy v then num v else Some 0)"

fun amounts :: "string \<Rightarrow> pydict list \<Rightarrow> rat option" where
  "amounts c [] = Some 0"
| "amounts c (r # rs) = bind_opt (amount c r) (\<lambda>x. bind_opt (amounts c rs) (\<lambda>y. Some (x + y)))"

record usage_sums =
  us_input :: rat
  us_output :: rat
  us_total :: rat
  us_count :: nat

definition no_usage :: usage_sums where
  "no_usage = \<lparr>us_input = 0, us_output = 0, us_total = 0, us_count = 0\<rparr>"

definition add_usage :: "pydict \<Rightarrow> usage_sums \<Rightarrow> usage_sums option" where
  "add_usage r u = bind_opt (amount ''input_tokens'' r) (\<lambda>i. bind_opt (amount ''output_tokens'' r) (\<lambda>out.
     bind_opt (amount ''total_tokens'' r) (\<lambda>t.
       Some \<lparr>us_input = us_input u + i, us_output = us_output u + out, us_total = us_total u + t,
         us_count = us_count u + 1\<rparr>)))"

text \<open>\<open>r[c] or "unknown"\<close> as the key.\<close>

definition usage_key :: "string \<Rightarrow> pydict \<Rightarrow> string" where
  "usage_key c row = (let s = text_of (dict_get row c PNone) in if s = [] then ''unknown'' else s)"

fun usage_by :: "string \<Rightarrow> pydict list \<Rightarrow> (string \<times> usage_sums) list \<Rightarrow> (string \<times> usage_sums) list option" where
  "usage_by c [] g = Some g"
| "usage_by c (r # rs) g =
     (let k = usage_key c r in bind_opt (add_usage r (dict_get g k no_usage)) (\<lambda>u. usage_by c rs (dict_set k u g)))"

record usage_report =
  ur_input :: rat
  ur_output :: rat
  ur_total :: rat
  ur_cost :: rat
  ur_by_agent :: "(string \<times> usage_sums) list"
  ur_by_model :: "(string \<times> usage_sums) list"
  ur_records :: "pydict list"
  ur_costs :: "pydict list"
  ur_executions :: "pydict list"
  ur_record_count :: nat
  ur_execution_count :: nat

definition add_type_error :: "'a option \<Rightarrow> exn + 'a" where
  "add_type_error x = (case x of None \<Rightarrow> Inl (Exn TypeError ''unsupported operand'') | Some a \<Rightarrow> Inr a)"

definition aggregate_usage :: "tele_env \<Rightarrow> tele_filter \<Rightarrow> int \<Rightarrow> tele_db \<Rightarrow> exn + usage_report" where
  "aggregate_usage E f limit db =
     (let usage = query_usage E f limit db; costs = query_costs E f limit db; execs = query_executions E f limit db in
      add_type_error
       (bind_opt (amounts ''input_tokens'' usage) (\<lambda>i. bind_opt (amounts ''output_tokens'' usage) (\<lambda>out.
        bind_opt (amounts ''total_tokens'' usage) (\<lambda>t. bind_opt (amounts ''total_cost'' costs) (\<lambda>c.
        bind_opt (usage_by ''agent'' usage []) (\<lambda>agents. bind_opt (usage_by ''model'' usage []) (\<lambda>models.
          Some \<lparr>ur_input = i, ur_output = out, ur_total = (if t = 0 then i + out else t), ur_cost = round_to 4 c,
            ur_by_agent = agents, ur_by_model = models, ur_records = usage, ur_costs = costs, ur_executions = execs,
            ur_record_count = length (select_own E TUsage (usage_matches f db) db),
            ur_execution_count = length (select_own E TExecutions (execution_matches f) db)\<rparr>))))))))"

section \<open>Records and statistics\<close>

definition query_retrieval :: "tele_env \<Rightarrow> string \<Rightarrow> int \<Rightarrow> tele_db \<Rightarrow> (int \<times> pydict) list" where
  "query_retrieval E agent limit db = map (\<lambda>(i, r). (i, pick [''agent'', ''query'', ''chunks_retrieved'', ''chunks_selected'',
       ''tokens_before'', ''tokens_after'', ''compression_ratio'', ''retrieval_latency_ms'', ''retriever'', ''timestamp''] r))
     (at_most limit (newest_first ''timestamp'' (select_own E TRetrieval (is_col ''agent'' agent) db)))"

text \<open>\<open>GROUP BY\<close> columns, \<open>SUM\<close> and \<open>AVG\<close>: nothing but \<open>NULL\<close> sums to \<open>NULL\<close>.\<close>

definition group_key :: "string list \<Rightarrow> pydict \<Rightarrow> string list" where
  "group_key cs row = map (\<lambda>c. text_of (dict_get row c PNone)) cs"

definition group_by :: "string list \<Rightarrow> pydict list \<Rightarrow> pydict list list" where
  "group_by cs rows = map (\<lambda>k. filter (\<lambda>r. group_key cs r = k) rows) (sort (remdups (map (group_key cs) rows)))"

definition present :: "string \<Rightarrow> pydict list \<Rightarrow> rat list" where
  "present c rows = map (\<lambda>v. case num v of Some x \<Rightarrow> x | None \<Rightarrow> 0)
     (filter (\<lambda>v. v \<noteq> PNone) (map (\<lambda>r. dict_get r c PNone) rows))"

definition sum_of :: "string \<Rightarrow> pydict list \<Rightarrow> rat option" where
  "sum_of c rows = (if present c rows = [] then None else Some (sum_list (present c rows)))"

definition avg_of :: "rat list \<Rightarrow> rat option" where
  "avg_of xs = (if xs = [] then None else Some (sum_list xs / of_nat (length xs)))"

definition sum_or_zero :: "string \<Rightarrow> pydict list \<Rightarrow> rat" where
  "sum_or_zero c rows = sum_list (present c rows)"

definition count_where :: "string \<Rightarrow> pyval \<Rightarrow> pydict list \<Rightarrow> nat" where
  "count_where c v rows = length (filter (\<lambda>r. dict_get r c PNone = v) rows)"

definition first_text :: "string \<Rightarrow> pydict list \<Rightarrow> string" where
  "first_text c rows = (case rows of [] \<Rightarrow> [] | r # _ \<Rightarrow> text_of (dict_get r c PNone))"

record skill_stats =
  sq_skill :: string
  sq_records :: nat
  sq_considered :: "rat option"
  sq_selected :: "rat option"
  sq_used :: "rat option"
  sq_relevance :: "rat option"
  sq_tokens :: "rat option"

definition skill_stats_of :: "pydict list \<Rightarrow> skill_stats" where
  "skill_stats_of rows = \<lparr>sq_skill = first_text ''skill_name'' rows, sq_records = length rows,
     sq_considered = sum_of ''considered'' rows, sq_selected = sum_of ''selected'' rows, sq_used = sum_of ''used'' rows,
     sq_relevance = avg_of (filter (\<lambda>x. 0 < x) (present ''relevance_score'' rows)),
     sq_tokens = sum_of ''tokens_contributed'' rows\<rparr>"

text \<open>\<open>ORDER BY ... DESC\<close>: \<open>NULL\<close> comes last.\<close>

definition null_desc :: "('a \<Rightarrow> rat option) \<Rightarrow> 'a list \<Rightarrow> 'a list" where
  "null_desc key xs = filter (\<lambda>x. key x \<noteq> None) (sort_desc (\<lambda>x. case key x of None \<Rightarrow> 0 | Some r \<Rightarrow> r) xs) @
     filter (\<lambda>x. key x = None) xs"

definition skill_rows :: "tele_env \<Rightarrow> string \<Rightarrow> string \<Rightarrow> string \<Rightarrow> string \<Rightarrow> tele_db \<Rightarrow> pydict list" where
  "skill_rows E skill agent a z db = map snd (select_own E TSkills
     (\<lambda>r. is_col ''skill_name'' skill r \<and> is_col ''agent'' agent r \<and> between ''timestamp'' a z r) db)"

definition query_skill_stats ::
  "tele_env \<Rightarrow> string \<Rightarrow> string \<Rightarrow> string \<Rightarrow> string \<Rightarrow> int \<Rightarrow> tele_db \<Rightarrow> skill_stats list" where
  "query_skill_stats E skill agent a z limit db = at_most limit
     (null_desc sq_used (null_desc sq_selected
       (map skill_stats_of (group_by [''skill_name''] (skill_rows E skill agent a z db)))))"

record gate_stats =
  gq_gate :: string
  gq_runs :: nat
  gq_passed :: nat
  gq_failed :: nat
  gq_skipped :: nat
  gq_errored :: nat
  gq_blocked :: rat
  gq_overridden :: rat
  gq_duration :: "rat option"
  gq_low :: rat
  gq_medium :: rat
  gq_high :: rat
  gq_critical :: rat

definition gate_stats_of :: "pydict list \<Rightarrow> gate_stats" where
  "gate_stats_of rows = \<lparr>gq_gate = first_text ''gate'' rows, gq_runs = length rows,
     gq_passed = count_where ''status'' (PStr ''passed'') rows, gq_failed = count_where ''status'' (PStr ''failed'') rows,
     gq_skipped = count_where ''status'' (PStr ''skipped'') rows, gq_errored = count_where ''status'' (PStr ''error'') rows,
     gq_blocked = sum_or_zero ''blocked'' rows, gq_overridden = sum_or_zero ''overridden'' rows,
     gq_duration = avg_of (present ''duration_ms'' rows), gq_low = sum_or_zero ''findings_low'' rows,
     gq_medium = sum_or_zero ''findings_medium'' rows, gq_high = sum_or_zero ''findings_high'' rows,
     gq_critical = sum_or_zero ''findings_critical'' rows\<rparr>"

definition gate_rows :: "tele_env \<Rightarrow> string \<Rightarrow> string \<Rightarrow> string \<Rightarrow> string \<Rightarrow> tele_db \<Rightarrow> (int \<times> pydict) list" where
  "gate_rows E gate status a z db = select_own E TGates
     (\<lambda>r. is_col ''gate'' gate r \<and> is_col ''status'' status r \<and> between ''timestamp'' a z r) db"

definition query_gate_stats ::
  "tele_env \<Rightarrow> string \<Rightarrow> string \<Rightarrow> string \<Rightarrow> string \<Rightarrow> int \<Rightarrow> tele_db \<Rightarrow> gate_stats list" where
  "query_gate_stats E gate status a z limit db = at_most limit (sort_desc gq_runs
     (map gate_stats_of (group_by [''gate''] (map snd (gate_rows E gate status a z db)))))"

definition query_gate_records ::
  "tele_env \<Rightarrow> string \<Rightarrow> string \<Rightarrow> string \<Rightarrow> string \<Rightarrow> int \<Rightarrow> tele_db \<Rightarrow> (int \<times> pydict) list" where
  "query_gate_records E gate status a z limit db = map (\<lambda>(i, r). (i, pick [''gate'', ''status'', ''correlation_id'',
       ''duration_ms'', ''findings_low'', ''findings_medium'', ''findings_high'', ''findings_critical'', ''blocked'',
       ''overridden'', ''timestamp''] r))
     (at_most limit (newest_first ''timestamp'' (gate_rows E gate status a z db)))"

record security_stats =
  xq_decision :: string
  xq_runs :: nat
  xq_allowed :: nat
  xq_denied :: nat

definition security_stats_of :: "pydict list \<Rightarrow> security_stats" where
  "security_stats_of rows = \<lparr>xq_decision = first_text ''decision'' rows, xq_runs = length rows,
     xq_allowed = count_where ''allowed'' (PInt 1) rows, xq_denied = count_where ''allowed'' (PInt 0) rows\<rparr>"

definition security_rows ::
  "tele_env \<Rightarrow> string \<Rightarrow> string \<Rightarrow> bool option \<Rightarrow> string \<Rightarrow> string \<Rightarrow> tele_db \<Rightarrow> (int \<times> pydict) list" where
  "security_rows E decision agent allowed a z db = select_own E TSecurity
     (\<lambda>r. is_col ''decision'' decision r \<and> is_col ''agent'' agent r \<and>
        (case allowed of None \<Rightarrow> True | Some b \<Rightarrow> dict_get r ''allowed'' PNone = PInt (if b then 1 else 0)) \<and>
        between ''timestamp'' a z r) db"

definition query_security_stats ::
  "tele_env \<Rightarrow> string \<Rightarrow> string \<Rightarrow> string \<Rightarrow> string \<Rightarrow> int \<Rightarrow> tele_db \<Rightarrow> security_stats list" where
  "query_security_stats E decision agent a z limit db = at_most limit (sort_desc xq_runs
     (map security_stats_of (group_by [''decision''] (map snd (security_rows E decision agent None a z db)))))"

text \<open>The violations are read back as JSON; text that is none raises.\<close>

definition read_violations :: "tele_env \<Rightarrow> int \<times> pydict \<Rightarrow> exn + int \<times> pydict" where
  "read_violations E x = (case x of (i, r) \<Rightarrow>
     let s = text_of (dict_get r ''violations'' PNone);
         answer = (\<lambda>v. Inr (i, pick [''decision'', ''agent'', ''action'', ''allowed'', ''reason''] r @ [(''violations'', v)] @
           pick [''intent_source'', ''correlation_id'', ''timestamp''] r)) in
     if s = [] then answer (PList [])
     else case ne_loads E s of None \<Rightarrow> Inl (Exn JSONDecodeError s) | Some v \<Rightarrow> answer v)"

fun all_ok :: "('a \<Rightarrow> exn + 'b) \<Rightarrow> 'a list \<Rightarrow> exn + 'b list" where
  "all_ok f [] = Inr []"
| "all_ok f (x # xs) = (case f x of Inl e \<Rightarrow> Inl e | Inr y \<Rightarrow> (case all_ok f xs of Inl e \<Rightarrow> Inl e | Inr ys \<Rightarrow> Inr (y # ys)))"

definition query_security_records ::
  "tele_env \<Rightarrow> string \<Rightarrow> string \<Rightarrow> bool option \<Rightarrow> string \<Rightarrow> string \<Rightarrow> int \<Rightarrow> tele_db \<Rightarrow> exn + (int \<times> pydict) list" where
  "query_security_records E decision agent allowed a z limit db = all_ok (read_violations E)
     (at_most limit (newest_first ''timestamp'' (security_rows E decision agent allowed a z db)))"

record routing_stats =
  oq_agent :: string
  oq_model :: string
  oq_provider :: string
  oq_routes :: nat
  oq_fallbacks :: nat
  oq_cost :: "rat option"
  oq_context :: "rat option"

text \<open>The provider of a group is that of one of its rows, the first here.\<close>

definition routing_stats_of :: "pydict list \<Rightarrow> routing_stats" where
  "routing_stats_of rows = \<lparr>oq_agent = first_text ''agent'' rows, oq_model = first_text ''model'' rows,
     oq_provider = first_text ''provider'' rows, oq_routes = length rows,
     oq_fallbacks = count_where ''fallback_used'' (PInt 1) rows,
     oq_cost = map_option (round_to 6) (avg_of (present ''estimated_cost'' rows)),
     oq_context = map_option (round_to 0) (avg_of (present ''context_size'' rows))\<rparr>"

definition routing_rows :: "tele_env \<Rightarrow> string \<Rightarrow> string \<Rightarrow> string \<Rightarrow> string \<Rightarrow> tele_db \<Rightarrow> (int \<times> pydict) list" where
  "routing_rows E agent model a z db = select_own E TRouting
     (\<lambda>r. is_col ''agent'' agent r \<and> is_col ''model'' model r \<and> between ''timestamp'' a z r) db"

definition query_routing_stats ::
  "tele_env \<Rightarrow> string \<Rightarrow> string \<Rightarrow> string \<Rightarrow> string \<Rightarrow> int \<Rightarrow> tele_db \<Rightarrow> routing_stats list" where
  "query_routing_stats E agent model a z limit db = at_most limit (sort_desc oq_routes
     (map routing_stats_of (group_by [''agent'', ''model''] (map snd (routing_rows E agent model a z db)))))"

definition query_routing_records ::
  "tele_env \<Rightarrow> string \<Rightarrow> string \<Rightarrow> string \<Rightarrow> string \<Rightarrow> int \<Rightarrow> tele_db \<Rightarrow> pydict list" where
  "query_routing_records E agent model a z limit db = map (\<lambda>(i, r). pick [''agent'', ''task_type'', ''complexity'', ''provider'',
       ''model'', ''variant'', ''reason'', ''estimated_cost'', ''context_size'', ''source''] r @
       [(''fallback_used'', PBool (truthy (dict_get r ''fallback_used'' PNone)))] @
       pick [''fallback_reason'', ''correlation_id'', ''timestamp''] r)
     (at_most limit (newest_first ''timestamp'' (routing_rows E agent model a z db)))"

text \<open>The join of a route with the executions of its correlation and model and with their costs, of all projects.\<close>

definition same_col :: "string \<Rightarrow> string \<Rightarrow> pydict \<Rightarrow> pydict \<Rightarrow> bool" where
  "same_col c d r s \<longleftrightarrow> dict_get r c PNone \<noteq> PNone \<and> dict_get r c PNone = dict_get s d PNone"

definition route_costs :: "tele_db \<Rightarrow> pydict \<Rightarrow> pydict list" where
  "route_costs db r = concat (map (\<lambda>(i, x). filter (\<lambda>c. dict_get c ''total_cost'' PNone \<noteq> PNone)
       (map snd (filter (\<lambda>(j, c). same_col ''execution_id'' ''execution_id'' x c) (table_rows (db TCosts)))))
     (filter (\<lambda>(i, x). same_col ''correlation_id'' ''correlation_id'' r x \<and> same_col ''model'' ''model'' r x)
       (table_rows (db TExecutions))))"

record route_accuracy =
  aq_agent :: pyval
  aq_model :: pyval
  aq_estimated :: pyval
  aq_actual :: pyval
  aq_delta :: rat
  aq_correlation :: pyval
  aq_timestamp :: pyval

definition number_or_zero :: "pyval \<Rightarrow> rat" where
  "number_or_zero v = (case num v of Some x \<Rightarrow> x | None \<Rightarrow> 0)"

definition route_accuracy_of :: "pydict \<Rightarrow> pydict \<Rightarrow> route_accuracy" where
  "route_accuracy_of r c =
     \<lparr>aq_agent = dict_get r ''agent'' PNone, aq_model = dict_get r ''model'' PNone,
      aq_estimated = dict_get r ''estimated_cost'' PNone, aq_actual = dict_get c ''total_cost'' PNone,
      aq_delta = round_to 6 (number_or_zero (dict_get c ''total_cost'' PNone) - number_or_zero (dict_get r ''estimated_cost'' PNone)),
      aq_correlation = dict_get r ''correlation_id'' PNone, aq_timestamp = dict_get r ''timestamp'' PNone\<rparr>"

definition query_route_accuracy :: "int \<Rightarrow> tele_db \<Rightarrow> route_accuracy list" where
  "query_route_accuracy limit db = at_most limit (concat (map (\<lambda>(i, r). map (route_accuracy_of r) (route_costs db r))
     (newest_first ''timestamp'' (table_rows (db TRouting)))))"

definition query_backlog_stats ::
  "tele_env \<Rightarrow> string \<Rightarrow> string \<Rightarrow> string \<Rightarrow> string \<Rightarrow> int \<Rightarrow> tele_db \<Rightarrow> pydict list" where
  "query_backlog_stats E run status a z limit db = map (pick [''run_id'', ''task_index'', ''task_title'', ''task_type'',
       ''task_scope'', ''status'', ''commit_sha'', ''duration_ms'', ''error'', ''source'', ''timestamp''] \<circ> snd)
     (at_most limit (newest_first ''timestamp'' (select_own E TBacklog
       (\<lambda>r. is_col ''run_id'' run r \<and> is_col ''status'' status r \<and> between ''timestamp'' a z r) db)))"

end
