(* ===== verification/Pricing.thy ===== *)
theory Pricing
  imports OpenCodeOutput TelemetryStore
begin

text \<open>
  The pricing of recorded usage (\<open>telemetry/pricing.py\<close>): the versioned table, the key of a provider and a model with
  its normalisation, and the cost of a call. Prices and costs are exact rationals, rounded as the code rounds them.
\<close>

section \<open>The table\<close>

definition PRICING_V1 :: "((string \<times> string) \<times> (rat \<times> rat)) list" where
  "PRICING_V1 =
     [((''openai'', ''gpt-4o''), (5, 15)), ((''openai'', ''gpt-4o-mini''), (15 / 100, 60 / 100)),
      ((''openai'', ''gpt-4.1''), (2, 8)), ((''openai'', ''gpt-4.1-mini''), (40 / 100, 160 / 100)),
      ((''openai'', ''gpt-4.1-nano''), (10 / 100, 40 / 100)),
      ((''anthropic'', ''claude-sonnet-4-20250514''), (3, 15)), ((''anthropic'', ''claude-opus-4-20250514''), (15, 75)),
      ((''anthropic'', ''claude-haiku-3-5''), (80 / 100, 4)),
      ((''deepseek'', ''deepseek-chat''), (27 / 100, 110 / 100)), ((''deepseek'', ''deepseek-reasoner''), (55 / 100, 219 / 100)),
      ((''openrouter'', ''deepseek-v4-flash-0731''), (8 / 100, 252 / 1000)),
      ((''openrouter'', ''deepseek-v4-flash-latest''), (8 / 100, 252 / 1000)),
      ((''google'', ''gemini-2.5-flash''), (15 / 100, 60 / 100)), ((''google'', ''gemini-2.5-pro''), (125 / 100, 10)),
      ((''opencode-go'', ''qwen3.8-flash''), (15 / 100, 47 / 100)),
      ((''opencode-go'', ''deepseek-v4-flash''), (22 / 100, 66 / 100)),
      ((''opencode-go'', ''deepseek-v4-flash-peak''), (44 / 100, 132 / 100)),
      ((''opencode-go'', ''longcat-2.0''), (30 / 100, 120 / 100)), ((''opencode-go'', ''mimo-v2.5''), (14 / 100, 28 / 100)),
      ((''opencode-go'', ''mimo-v2.5-pro''), (435 / 1000, 87 / 100)),
      ((''opencode-go'', ''glm-5.3-flash''), (15 / 100, 50 / 100)), ((''opencode-go'', ''minimax-m3''), (30 / 100, 120 / 100)),
      ((''opencode-go'', ''omen-alpha''), (20 / 100, 66 / 100))]"

section \<open>The key\<close>

text \<open>\<open>x.strip().lower() if x else ""\<close>\<close>

definition key_part :: "pyval \<Rightarrow> exn + string" where
  "key_part v = (if \<not> truthy v then Inr '''' else case v of
     PStr s \<Rightarrow> Inr (lower (strip s)) | _ \<Rightarrow> Inl (Exn AttributeError ''object has no attribute strip''))"

definition without_tilde :: "string \<Rightarrow> string" where
  "without_tilde s = strip (filter (\<lambda>c. c \<noteq> CHR ''~'') s)"

text \<open>\<open>model.rsplit("/", 1)[-1]\<close>\<close>

definition after_slashes :: "string \<Rightarrow> string" where
  "after_slashes s = rev (takeWhile (\<lambda>c. c \<noteq> CHR ''/'') (rev s))"

definition normalize_key :: "string \<times> string \<Rightarrow> string \<times> string" where
  "normalize_key key = (case key of (provider, model) \<Rightarrow>
     (without_tilde provider, after_slashes (without_tilde model)))"

definition price_of :: "string \<times> string \<Rightarrow> (rat \<times> rat) option" where
  "price_of key = (case map_of PRICING_V1 key of Some p \<Rightarrow> Some p | None \<Rightarrow> map_of PRICING_V1 (normalize_key key))"

section \<open>The cost\<close>

definition cost_record :: "tele_env \<Rightarrow> string \<Rightarrow> rat \<Rightarrow> rat \<Rightarrow> rat \<Rightarrow> pydict" where
  "cost_record E status i out t =
     [(''input_cost'', PFloat i), (''output_cost'', PFloat out), (''total_cost'', PFloat t), (''currency'', PStr ''USD''),
      (''status'', PStr status), (''pricing_version'', PStr ''v1''), (''pricing_source'', PStr ''builtin''),
      (''calculated_at'', PStr (ne_now E))]"

definition token_cost :: "rat \<Rightarrow> rat \<Rightarrow> rat" where
  "token_cost tokens per_million = tokens / 1000000 * per_million"

definition tokens_of :: "pyval \<Rightarrow> exn + rat" where
  "tokens_of v = (case num v of Some x \<Rightarrow> Inr x | None \<Rightarrow> Inl (Exn TypeError ''unsupported operand''))"

definition price_usage :: "tele_env \<Rightarrow> pyval \<Rightarrow> pyval \<Rightarrow> pyval \<Rightarrow> pyval \<Rightarrow> exn + pydict" where
  "price_usage E provider model input_tokens output_tokens =
     sum_bind (key_part provider) (\<lambda>p. sum_bind (key_part model) (\<lambda>m.
     case price_of (p, m) of
       None \<Rightarrow> Inr (cost_record E ''unpriced'' 0 0 0)
     | Some (per_in, per_out) \<Rightarrow>
         if input_tokens = PNone \<or> output_tokens = PNone then Inr (cost_record E ''unpriced'' 0 0 0)
         else sum_bind (tokens_of input_tokens) (\<lambda>x. sum_bind (tokens_of output_tokens) (\<lambda>y.
           let i = token_cost x per_in; out = token_cost y per_out in
           Inr (cost_record E ''priced'' (round_to 6 i) (round_to 6 out) (round_to 6 (i + out)))))))"

section \<open>Rounding\<close>

lemma round_half_even_near: "\<bar>of_int (round_half_even r) - r\<bar> \<le> 1 / 2"
proof -
  have "of_int \<lfloor>r\<rfloor> \<le> r" "r < of_int \<lfloor>r\<rfloor> + 1" by linarith+
  then show ?thesis by (auto simp: round_half_even_def Let_def abs_le_iff)
qed

lemma round_to_near: "\<bar>round_to n r - r\<bar> \<le> 1 / (2 * 10 ^ n)"
proof -
  have pos: "(0::rat) < 10 ^ n" by simp
  have "round_to n r - r = (of_int (round_half_even (r * 10 ^ n)) - r * 10 ^ n) / 10 ^ n"
    using pos by (simp add: round_to_def field_simps)
  then have "\<bar>round_to n r - r\<bar> = \<bar>of_int (round_half_even (r * 10 ^ n)) - r * 10 ^ n\<bar> / 10 ^ n" by (simp add: abs_divide)
  also have "\<dots> \<le> 1 / 2 / 10 ^ n" using round_half_even_near pos by (intro divide_right_mono) simp_all
  finally show ?thesis by simp
qed


section \<open>What a cost says\<close>

definition cost_field :: "string \<Rightarrow> pydict \<Rightarrow> rat" where
  "cost_field k c = (case dict_get c k PNone of PFloat r \<Rightarrow> r | _ \<Rightarrow> 0)"

text \<open>A cost is within half a micro-dollar of what its tokens cost.\<close>

definition costs_about :: "rat \<Rightarrow> rat \<Rightarrow> rat \<times> rat \<Rightarrow> pydict \<Rightarrow> bool" where
  "costs_about x y price c \<longleftrightarrow>
     \<bar>cost_field ''input_cost'' c - x * fst price / 1000000\<bar> \<le> 1 / 2000000 \<and>
     \<bar>cost_field ''output_cost'' c - y * snd price / 1000000\<bar> \<le> 1 / 2000000 \<and>
     \<bar>cost_field ''total_cost'' c - (x * fst price + y * snd price) / 1000000\<bar> \<le> 1 / 2000000"

definition free :: "pydict \<Rightarrow> bool" where
  "free c \<longleftrightarrow> cost_field ''input_cost'' c = 0 \<and> cost_field ''output_cost'' c = 0 \<and> cost_field ''total_cost'' c = 0"

lemma cost_record_fields:
  "dict_get (cost_record E st i out t) ''status'' PNone = PStr st"
  "cost_field ''input_cost'' (cost_record E st i out t) = i"
  "cost_field ''output_cost'' (cost_record E st i out t) = out"
  "cost_field ''total_cost'' (cost_record E st i out t) = t"
  by (simp_all add: cost_record_def cost_field_def dict_get_def)

lemma token_cost_near: "\<bar>round_to 6 (token_cost x p) - x * p / 1000000\<bar> \<le> 1 / 2000000"
  using round_to_near [of 6 "token_cost x p"] by (simp add: token_cost_def)

lemma total_cost_near:
  "\<bar>round_to 6 (token_cost x p + token_cost y q) - (x * p + y * q) / 1000000\<bar> \<le> 1 / 2000000"
  using round_to_near [of 6 "token_cost x p + token_cost y q"] by (simp add: token_cost_def add_divide_distrib)

definition known_price :: "string \<Rightarrow> string \<Rightarrow> (rat \<times> rat) option" where
  "known_price provider model = price_of (lower (strip provider), lower (strip model))"

lemma lower_strip_empty: "lower (strip []) = []"
  by code_simp

lemma key_part_text: "key_part (PStr s) = Inr (lower (strip s))"
  using lower_strip_empty by (cases "s = []") (simp_all add: key_part_def)

lemma price_usage_cases:
  "price_usage E (PStr p) (PStr m) (PInt x) (PInt y) =
     (case known_price p m of
        None \<Rightarrow> Inr (cost_record E ''unpriced'' 0 0 0)
      | Some (a, b) \<Rightarrow> Inr (cost_record E ''priced'' (round_to 6 (token_cost (of_int x) a))
          (round_to 6 (token_cost (of_int y) b)) (round_to 6 (token_cost (of_int x) a + token_cost (of_int y) b))))"
  by (simp add: price_usage_def key_part_text known_price_def sum_bind_def tokens_of_def Let_def
      split: option.split)

text \<open>Counts of tokens are always priced or marked: a known model costs what its tokens cost, rounded to the
  micro-dollar, and an unknown one nothing, with a status that says which.\<close>

theorem costs_exact_or_unpriced:
  "\<exists>c. price_usage E (PStr p) (PStr m) (PInt x) (PInt y) = Inr c \<and>
     (case known_price p m of
        None \<Rightarrow> dict_get c ''status'' PNone = PStr ''unpriced'' \<and> free c
      | Some price \<Rightarrow> dict_get c ''status'' PNone = PStr ''priced'' \<and> costs_about (of_int x) (of_int y) price c)"
proof (cases "known_price p m")
  case None
  then show ?thesis by (simp add: price_usage_cases cost_record_fields free_def)
next
  case (Some price)
  then show ?thesis
    unfolding price_usage_cases costs_about_def using token_cost_near total_cost_near
    by (cases price) (simp only: option.case prod.case cost_record_fields fst_conv snd_conv ex_simps simp_thms sum.inject)
qed

section \<open>Routed model names\<close>

lemma after_slashes_append: "CHR ''/'' \<notin> set m \<Longrightarrow> after_slashes (a @ CHR ''/'' # m) = m"
proof -
  assume "CHR ''/'' \<notin> set m"
  then have "takeWhile (\<lambda>c. c \<noteq> CHR ''/'') (rev m @ CHR ''/'' # rev a) = rev m"
    by (subst takeWhile_append2) auto
  then show ?thesis by (simp add: after_slashes_def)
qed

text \<open>What the keys of the table look like: no slash, no tilde, nothing to strip, nothing to lower.\<close>

definition plain_name :: "string \<Rightarrow> bool" where
  "plain_name s \<longleftrightarrow> s \<noteq> [] \<and> CHR ''/'' \<notin> set s \<and> CHR ''~'' \<notin> set s \<and> list_all (\<lambda>c. \<not> is_space c) s"

definition NAME_CHARS :: string where
  "NAME_CHARS = ''abcdefghijklmnopqrstuvwxyz0123456789-.''"

lemma name_chars_plain: "s \<noteq> [] \<Longrightarrow> list_all (\<lambda>c. c \<in> set NAME_CHARS) s \<Longrightarrow> plain_name s"
proof -
  have chars: "list_all (\<lambda>c. \<not> is_space c \<and> c \<noteq> CHR ''/'' \<and> c \<noteq> CHR ''~'') NAME_CHARS" by code_simp
  then show "s \<noteq> [] \<Longrightarrow> list_all (\<lambda>c. c \<in> set NAME_CHARS) s \<Longrightarrow> plain_name s"
    by (auto simp: plain_name_def list_all_iff)
qed

lemma table_keys_plain: "((p, m), price) \<in> set PRICING_V1 \<Longrightarrow> plain_name p \<and> plain_name m"
proof -
  have "list_all (\<lambda>((p, m), price). plain_name p \<and> plain_name m) PRICING_V1"
    unfolding PRICING_V1_def list.pred_inject prod.case
    by (intro conjI TrueI name_chars_plain) (simp_all add: NAME_CHARS_def)
  then have plain: "\<forall>((p, m), price) \<in> set PRICING_V1. plain_name p \<and> plain_name m"
    unfolding list_all_iff .
  show "((p, m), price) \<in> set PRICING_V1 \<Longrightarrow> plain_name p \<and> plain_name m" by (drule bspec [OF plain]) simp
qed

lemma strip_plain: "plain_name s \<Longrightarrow> strip s = s"
proof -
  assume plain: "plain_name s"
  then have "dropWhile is_space s = s" by (cases s) (simp_all add: plain_name_def)
  moreover have "dropWhile is_space (rev s) = rev s"
    using plain by (cases s rule: rev_cases) (simp_all add: plain_name_def)
  ultimately show ?thesis by (simp add: strip_def lstrip_def rstrip_def)
qed

lemma filter_plain: "plain_name s \<Longrightarrow> filter (\<lambda>c. c \<noteq> CHR ''~'') s = s"
  by (auto simp: plain_name_def intro: filter_True)

lemma strip_after_slash:
  assumes "plain_name m"
  shows "\<exists>b. strip (a @ CHR ''/'' # m) = b @ CHR ''/'' # m"
proof -
  have slash: "\<not> is_space (CHR ''/'')" by code_simp
  have l: "lstrip (a @ CHR ''/'' # m) = dropWhile is_space a @ CHR ''/'' # m"
    using slash by (simp add: lstrip_def dropWhile_append3 dropWhile_append)
  obtain c n where m: "m = n @ [c]" "\<not> is_space c" using assms by (cases m rule: rev_cases) (auto simp: plain_name_def)
  have "rstrip (x @ CHR ''/'' # m) = x @ CHR ''/'' # m" for x using m by (simp add: rstrip_def)
  then show ?thesis unfolding strip_def l by blast
qed

text \<open>A routed identifier, its path and fallback marker removed, has the price of its bare model.\<close>

lemma routed_name_priced:
  assumes "((p, m), price) \<in> set PRICING_V1"
  shows "price_of (p, path @ CHR ''/'' # m) = map_of PRICING_V1 (p, m)"
proof -
  have plain: "plain_name p" "plain_name m" using table_keys_plain [OF assms] by simp_all
  have "((p, path @ CHR ''/'' # m), q) \<notin> set PRICING_V1" for q
    using table_keys_plain [of p "path @ CHR ''/'' # m" q] by (auto simp: plain_name_def)
  then have "map_of PRICING_V1 (p, path @ CHR ''/'' # m) = None" unfolding map_of_eq_None_iff by fastforce
  moreover obtain b where "strip (filter (\<lambda>c. c \<noteq> CHR ''~'') path @ CHR ''/'' # m) = b @ CHR ''/'' # m"
    using strip_after_slash [OF plain(2)] by blast
  then have "normalize_key (p, path @ CHR ''/'' # m) = (p, m)"
    using plain by (simp add: normalize_key_def without_tilde_def filter_plain strip_plain after_slashes_append plain_name_def)
  ultimately show ?thesis by (simp add: price_of_def)
qed

end
