(* ===== verification/TelemetryWriter.thy ===== *)
theory TelemetryWriter
  imports TelemetryStore "HOL-Library.Sublist"
begin

text \<open>
  The batch writer of the telemetry (\<open>telemetry/writer.py\<close>) as a state machine: a handler enqueues at any moment, one
  flush at a time (\<open>flush_lock\<close>) drains the buffer, writes it, and on a locked database puts it back and tries
  again. A step is what one thread does under the buffer's lock, so a run is any interleaving of enqueuers and
  flushers. Whether the database is locked is chosen by the run. The history of what was enqueued, what was
  stored and what was lost uncounted is kept beside the code's own counters.
\<close>

section \<open>State\<close>

type_synonym entry = "string \<times> pydict"

text \<open>Where the flush in progress is: nowhere, about to write a batch, or waiting to try again.\<close>

datatype phase = Idle | Writing nat "entry list" | Waiting nat

record writer_config =
  wc_capacity :: nat
  wc_batch_size :: nat
  wc_retries :: nat

definition DEFAULT_CONFIG :: writer_config where
  "DEFAULT_CONFIG = \<lparr>wc_capacity = 10000, wc_batch_size = 50, wc_retries = 3\<rparr>"

record writer =
  wt_buffer :: "entry list"
  wt_phase :: phase
  wt_wake :: bool
  wt_flushes :: nat
  wt_flushed :: nat
  wt_dropped :: nat
  wt_db :: tele_db
  wt_history :: "entry list"
  wt_stored :: "entry list"
  wt_lost :: nat

definition writer_start :: "tele_db \<Rightarrow> writer" where
  "writer_start db = \<lparr>wt_buffer = [], wt_phase = Idle, wt_wake = False, wt_flushes = 0, wt_flushed = 0, wt_dropped = 0,
     wt_db = db, wt_history = [], wt_stored = [], wt_lost = 0\<rparr>"

section \<open>Steps\<close>

text \<open>A bounded deque drops its oldest entry for a new one.\<close>

definition enqueue :: "writer_config \<Rightarrow> entry \<Rightarrow> writer \<Rightarrow> writer" where
  "enqueue C x w =
     (let full = (length (wt_buffer w) = wc_capacity C);
          buf = (if full then tl (wt_buffer w @ [x]) else wt_buffer w @ [x]) in
      w\<lparr>wt_dropped := (if full then wt_dropped w + 1 else wt_dropped w), wt_buffer := buf,
        wt_wake := (wt_wake w \<or> wc_batch_size C \<le> length buf), wt_history := wt_history w @ [x]\<rparr>)"

definition drain :: "nat \<Rightarrow> writer \<Rightarrow> writer" where
  "drain n w = (if wt_buffer w = [] then w\<lparr>wt_phase := Idle\<rparr>
     else w\<lparr>wt_buffer := [], wt_phase := Writing n (wt_buffer w)\<rparr>)"

text \<open>\<open>extendleft(reversed(batch))\<close>: what does not fit falls off the right end.\<close>

definition requeue :: "writer_config \<Rightarrow> entry list \<Rightarrow> writer \<Rightarrow> writer" where
  "requeue C batch w = w\<lparr>
     wt_dropped := wt_dropped w + (length batch - (wc_capacity C - length (wt_buffer w))),
     wt_buffer := take (wc_capacity C) (batch @ wt_buffer w)\<rparr>"

definition drop_batch :: "entry list \<Rightarrow> writer \<Rightarrow> writer" where
  "drop_batch batch w = w\<lparr>wt_dropped := wt_dropped w + length batch, wt_phase := Idle\<rparr>"

text \<open>A write that meets a locked database is tried again while tries are left; another database error and a closed
  store drop the batch; any other exception ends the flush with the batch in no counter.\<close>

definition write_step :: "tele_env \<Rightarrow> writer_config \<Rightarrow> bool \<Rightarrow> nat \<Rightarrow> entry list \<Rightarrow> writer \<Rightarrow> writer" where
  "write_step E C locked n batch w =
     (if locked then
        if n < wc_retries C then (requeue C batch w)\<lparr>wt_phase := Waiting n\<rparr> else drop_batch batch w
      else case write_batch E batch (wt_db w) of
        Inr db \<Rightarrow> w\<lparr>wt_db := db, wt_phase := Idle, wt_flushes := wt_flushes w + 1,
          wt_flushed := wt_flushed w + length batch, wt_stored := wt_stored w @ batch\<rparr>
      | Inl (PyError e) \<Rightarrow> w\<lparr>wt_phase := Idle, wt_lost := wt_lost w + length batch\<rparr>
      | Inl _ \<Rightarrow> drop_batch batch w)"

datatype writer_act = Enqueue entry | Begin | Write bool | Retry

definition writer_step :: "tele_env \<Rightarrow> writer_config \<Rightarrow> writer_act \<Rightarrow> writer \<Rightarrow> writer option" where
  "writer_step E C a w = (case a of
     Enqueue x \<Rightarrow> Some (enqueue C x w)
   | Begin \<Rightarrow> if wt_phase w = Idle then Some (drain 0 w) else None
   | Write locked \<Rightarrow> (case wt_phase w of Writing n batch \<Rightarrow> Some (write_step E C locked n batch w) | _ \<Rightarrow> None)
   | Retry \<Rightarrow> (case wt_phase w of Waiting n \<Rightarrow> Some (drain (n + 1) w) | _ \<Rightarrow> None))"

fun writer_run :: "tele_env \<Rightarrow> writer_config \<Rightarrow> writer_act list \<Rightarrow> writer \<Rightarrow> writer option" where
  "writer_run E C [] w = Some w"
| "writer_run E C (a # acts) w = bind_opt (writer_step E C a w) (writer_run E C acts)"

text \<open>A flush with nothing beside it, as a reader makes it: \<open>locks\<close> are the answers of the database, one for each
  write; no answer left is an unlocked database.\<close>

fun flush_loop :: "tele_env \<Rightarrow> writer_config \<Rightarrow> nat \<Rightarrow> bool list \<Rightarrow> writer \<Rightarrow> writer" where
  "flush_loop E C 0 locks w = w"
| "flush_loop E C (Suc k) locks w = (case wt_phase w of
     Writing n batch \<Rightarrow> flush_loop E C k (tl locks) (write_step E C (locks \<noteq> [] \<and> hd locks) n batch w)
   | Waiting n \<Rightarrow> flush_loop E C k locks (drain (n + 1) w)
   | Idle \<Rightarrow> w)"

definition flush :: "tele_env \<Rightarrow> writer_config \<Rightarrow> bool list \<Rightarrow> writer \<Rightarrow> writer" where
  "flush E C locks w = flush_loop E C (2 * (wc_retries C + 2)) locks (drain 0 w)"

section \<open>Nothing is stored twice, out of order or forgotten\<close>

fun in_flight :: "phase \<Rightarrow> entry list" where
  "in_flight (Writing n batch) = batch"
| "in_flight _ = []"

fun attempts_ok :: "writer_config \<Rightarrow> phase \<Rightarrow> bool" where
  "attempts_ok C Idle = True"
| "attempts_ok C (Writing n batch) = (n \<le> wc_retries C \<and> batch \<noteq> [] \<and> length batch \<le> wc_capacity C)"
| "attempts_ok C (Waiting n) = (n < wc_retries C)"

definition writer_ok :: "writer_config \<Rightarrow> writer \<Rightarrow> bool" where
  "writer_ok C w \<longleftrightarrow>
     length (wt_history w) = wt_flushed w + wt_dropped w + wt_lost w + length (wt_buffer w) + length (in_flight (wt_phase w)) \<and>
     length (wt_buffer w) \<le> wc_capacity C \<and> wt_flushed w = length (wt_stored w) \<and>
     subseq (wt_stored w @ in_flight (wt_phase w) @ wt_buffer w) (wt_history w) \<and> attempts_ok C (wt_phase w)"

lemma subseq_drop_middle: "subseq (a @ b @ c) xs \<Longrightarrow> subseq (a @ c) xs"
proof -
  have "subseq (a @ c) (a @ b @ c)" by (subst subseq_append') (rule list_emb_append2, rule subseq_order.order_refl)
  then show "subseq (a @ b @ c) xs \<Longrightarrow> subseq (a @ c) xs" by (rule subseq_order.order_trans)
qed

lemma subseq_snoc: "subseq ys xs \<Longrightarrow> subseq (ys @ [x]) (xs @ [x])"
  by simp

lemma enqueue_ok: "0 < wc_capacity C \<Longrightarrow> writer_ok C w \<Longrightarrow> writer_ok C (enqueue C x w)"
proof -
  assume C: "0 < wc_capacity C" and ok: "writer_ok C w"
  let ?pre = "wt_stored w @ in_flight (wt_phase w)"
  have sub: "subseq ((?pre @ wt_buffer w) @ [x]) (wt_history w @ [x])"
    using ok subseq_snoc [of "?pre @ wt_buffer w"] by (simp add: writer_ok_def)
  show ?thesis
  proof (cases "length (wt_buffer w) = wc_capacity C")
    case True
    then obtain y ys where buf: "wt_buffer w = y # ys" using C by (cases "wt_buffer w") auto
    have "subseq (?pre @ ys @ [x]) (wt_history w @ [x])"
      using sub subseq_drop_middle [of ?pre "[y]" "ys @ [x]"] by (simp add: buf)
    then show ?thesis using ok True buf by (simp add: writer_ok_def enqueue_def Let_def)
  next
    case False
    then show ?thesis using ok sub by (auto simp: writer_ok_def enqueue_def Let_def)
  qed
qed

lemma drain_ok:
  assumes "writer_ok C w" "in_flight (wt_phase w) = []" "n \<le> wc_retries C"
  shows "writer_ok C (drain n w)"
  using assms by (auto simp: writer_ok_def drain_def)

lemma drop_batch_ok: "writer_ok C w \<Longrightarrow> in_flight (wt_phase w) = batch \<Longrightarrow> writer_ok C (drop_batch batch w)"
  using subseq_drop_middle by (auto simp: writer_ok_def drop_batch_def)

lemma requeue_ok:
  assumes ok: "writer_ok C w" and phase: "wt_phase w = Writing n batch" and n: "n < wc_retries C"
  shows "writer_ok C ((requeue C batch w)\<lparr>wt_phase := Waiting n\<rparr>)"
proof -
  have "prefix (take (wc_capacity C) (batch @ wt_buffer w)) (batch @ wt_buffer w)" by (rule take_is_prefix)
  then have "subseq (wt_stored w @ take (wc_capacity C) (batch @ wt_buffer w)) (wt_stored w @ batch @ wt_buffer w)"
    by (simp add: prefix_imp_subseq del: take_append)
  then have "subseq (wt_stored w @ take (wc_capacity C) (batch @ wt_buffer w)) (wt_history w)"
    using ok phase by (auto simp: writer_ok_def simp del: take_append intro: subseq_order.order_trans)
  then show ?thesis using ok phase n by (auto simp: writer_ok_def requeue_def simp del: take_append)
qed

lemma write_step_ok:
  assumes ok: "writer_ok C w" and phase: "wt_phase w = Writing n batch"
  shows "writer_ok C (write_step E C locked n batch w)"
proof (cases locked)
  case True
  then show ?thesis using requeue_ok [OF ok phase] drop_batch_ok [OF ok, of batch] phase by (simp add: write_step_def)
next
  case False
  have gone: "writer_ok C (w\<lparr>wt_phase := Idle, wt_lost := wt_lost w + length batch\<rparr>)"
    using ok phase subseq_drop_middle by (auto simp: writer_ok_def)
  show ?thesis
    using False ok phase gone drop_batch_ok [OF ok, of batch]
    by (auto simp: write_step_def writer_ok_def split: sum.split store_error.split)
qed

lemma writer_step_ok:
  assumes "0 < wc_capacity C" "writer_ok C w" "writer_step E C a w = Some u"
  shows "writer_ok C u"
proof (cases a)
  case (Enqueue x)
  then show ?thesis using assms enqueue_ok [OF assms(1,2), of x] by (simp add: writer_step_def)
next
  case Begin
  then show ?thesis using assms drain_ok [OF assms(2), of 0] by (auto simp: writer_step_def split: if_splits)
next
  case (Write locked)
  then show ?thesis using assms write_step_ok [OF assms(2)] by (auto simp: writer_step_def split: phase.splits)
next
  case Retry
  then obtain n where n: "wt_phase w = Waiting n" "u = drain (n + 1) w"
    using assms by (auto simp: writer_step_def split: phase.splits)
  moreover have "n + 1 \<le> wc_retries C" using assms(2) n by (simp add: writer_ok_def)
  ultimately show ?thesis using drain_ok [OF assms(2)] by simp
qed

lemma writer_run_ok: "0 < wc_capacity C \<Longrightarrow> writer_ok C w \<Longrightarrow> writer_run E C acts w = Some u \<Longrightarrow> writer_ok C u"
  by (induction acts arbitrary: w) (auto simp: bind_opt_Some dest: writer_step_ok)

lemma writer_start_ok: "writer_ok C (writer_start db)"
  by (simp add: writer_ok_def writer_start_def)

text \<open>C17: In every interleaving of enqueuers and flushers, with the database locked whenever it likes, every record
  enqueued is counted exactly once: flushed, dropped, still buffered or in flight, or in a batch that ended with an
  exception other than a database error; the buffer stays within its bound, no batch is tried more often than the
  back-off allows, and what is stored is in the order it was enqueued, nothing twice.\<close>

theorem writer_conserves_records:
  "0 < wc_capacity C \<Longrightarrow> writer_run E C acts (writer_start db) = Some w \<Longrightarrow> writer_ok C w"
  using writer_run_ok [OF _ writer_start_ok] by blast

section \<open>A flush ends, and reads see what was written\<close>

lemma flush_loop_idle: "wt_phase w = Idle \<Longrightarrow> flush_loop E C k locks w = w"
  by (cases k) simp_all

lemma flush_alone:
  assumes "write_batch E (wt_buffer w) (wt_db w) = Inr db"
  shows "let u = flush E C [] w in wt_phase u = Idle \<and> wt_buffer u = [] \<and>
    (if wt_buffer w = [] then u = w\<lparr>wt_phase := Idle\<rparr> else wt_db u = db \<and> wt_stored u = wt_stored w @ wt_buffer w)"
proof (cases "wt_buffer w = []")
  case True
  then show ?thesis by (simp add: flush_def drain_def flush_loop_idle)
next
  case False
  then show ?thesis using assms
    by (simp add: flush_def drain_def write_step_def flush_loop_idle numeral_2_eq_2)
qed

fun rounds :: "writer_config \<Rightarrow> phase \<Rightarrow> nat" where
  "rounds C Idle = 0"
| "rounds C (Writing n batch) = 2 * (wc_retries C - n) + 1"
| "rounds C (Waiting n) = 2 * (wc_retries C - n)"

lemma write_step_rounds:
  "n \<le> wc_retries C \<Longrightarrow> rounds C (wt_phase (write_step E C locked n batch w)) < rounds C (Writing n batch)"
  by (auto simp: write_step_def drop_batch_def split: sum.split store_error.split)

lemma drain_rounds: "n < wc_retries C \<Longrightarrow> rounds C (wt_phase (drain (n + 1) w)) < rounds C (Waiting n)"
  by (auto simp: drain_def)

lemma flush_loop_ends:
  "writer_ok C w \<Longrightarrow> rounds C (wt_phase w) \<le> k \<Longrightarrow> wt_phase (flush_loop E C k locks w) = Idle"
proof (induction k arbitrary: locks w)
  case 0
  then show ?case by (cases "wt_phase w") (auto simp: writer_ok_def)
next
  case (Suc k)
  show ?case
  proof (cases "wt_phase w")
    case Idle
    then show ?thesis by simp
  next
    case (Writing n batch)
    let ?u = "write_step E C (locks \<noteq> [] \<and> hd locks) n batch w"
    have "n \<le> wc_retries C" using Suc.prems(1) Writing by (simp add: writer_ok_def)
    then have "rounds C (wt_phase ?u) < rounds C (Writing n batch)" by (rule write_step_rounds)
    with Suc.prems(2) Writing have "rounds C (wt_phase ?u) \<le> k" by simp
    then show ?thesis using Suc.IH [OF write_step_ok [OF Suc.prems(1) Writing]] Writing by simp
  next
    case (Waiting n)
    have "n < wc_retries C" using Suc.prems(1) Waiting by (simp add: writer_ok_def)
    then have "rounds C (wt_phase (drain (n + 1) w)) \<le> k" "writer_ok C (drain (n + 1) w)"
      using drain_rounds [of n C w] Suc.prems drain_ok [OF Suc.prems(1), of "n + 1"] Waiting by simp_all
    then show ?thesis using Suc.IH Waiting by simp
  qed
qed

lemma flush_starts: "writer_ok C w \<Longrightarrow> wt_phase w = Idle \<Longrightarrow> writer_ok C (drain 0 w)"
  by (rule drain_ok) simp_all

lemma flush_ends: "writer_ok C w \<Longrightarrow> wt_phase w = Idle \<Longrightarrow> wt_phase (flush E C locks w) = Idle"
  unfolding flush_def by (rule flush_loop_ends [OF flush_starts]) (auto simp: drain_def)

lemma flush_loop_ok: "writer_ok C w \<Longrightarrow> writer_ok C (flush_loop E C k locks w)"
proof (induction k arbitrary: locks w)
  case (Suc k)
  show ?case
  proof (cases "wt_phase w")
    case (Writing n batch)
    then show ?thesis using Suc.IH [OF write_step_ok [OF Suc.prems Writing]] by simp
  next
    case (Waiting n)
    have "writer_ok C (drain (n + 1) w)"
      using Suc.prems Waiting drain_ok [OF Suc.prems, of "n + 1"] by (simp add: writer_ok_def)
    then show ?thesis using Suc.IH Waiting by simp
  qed (simp add: Suc.prems)
qed simp

lemma flush_ok: "writer_ok C w \<Longrightarrow> wt_phase w = Idle \<Longrightarrow> writer_ok C (flush E C locks w)"
  unfolding flush_def by (rule flush_loop_ok [OF flush_starts])

definition flushed_into :: "tele_env \<Rightarrow> writer_config \<Rightarrow> writer \<Rightarrow> tele_db \<Rightarrow> bool" where
  "flushed_into E C w db \<longleftrightarrow> wt_buffer (flush E C [] w) = [] \<and> wt_db (flush E C [] w) = db \<and>
     wt_stored (flush E C [] w) = wt_stored w @ wt_buffer w"

lemma flush_into: "write_batch E (wt_buffer w) (wt_db w) = Inr db \<Longrightarrow> flushed_into E C w db"
  using flush_alone [of E w db C]
  by (cases "wt_buffer w = []") (auto simp: flushed_into_def Let_def write_batch_def grouped_def)

text \<open>A flush ends however the database is locked, after at most as many tries as the back-off allows, with the
  records still accounted for; on an unlocked database that accepts the records it leaves nothing in the buffer,
  so a read that flushes first sees every record enqueued before it.\<close>

theorem flush_ends_and_writes:
  "writer_ok C w \<Longrightarrow> wt_phase w = Idle \<Longrightarrow>
     wt_phase (flush E C locks w) = Idle \<and> writer_ok C (flush E C locks w) \<and>
     (\<forall>db. write_batch E (wt_buffer w) (wt_db w) = Inr db \<longrightarrow> flushed_into E C w db)"
  by (intro conjI allI impI flush_ends flush_ok flush_into)

section \<open>Examples\<close>

definition empty_db :: tele_db where
  "empty_db = (\<lambda>_. empty_table)"

definition tele_sample :: tele_env where
  "tele_sample = \<lparr>ne_now = ''t'', ne_dumps = (\<lambda>_. ''[]''), ne_loads = (\<lambda>_. None), ne_project = ''p''\<rparr>"

definition gate_entry :: "string \<Rightarrow> entry" where
  "gate_entry g = (''gates'', [(''gate'', PStr g), (''status'', PStr ''passed'')])"

definition small_config :: writer_config where
  "small_config = \<lparr>wc_capacity = 2, wc_batch_size = 2, wc_retries = 1\<rparr>"

text \<open>A full buffer drops the oldest record; a locked database is tried again and the order kept.\<close>

definition sample_acts :: "writer_act list" where
  "sample_acts = [Enqueue (gate_entry ''a''), Enqueue (gate_entry ''b''), Enqueue (gate_entry ''c''), Begin, Write True,
     Enqueue (gate_entry ''d''), Retry, Write False]"

lemma sample_run:
  "map_option (\<lambda>w. (wt_stored w, wt_flushed w, wt_dropped w, wt_lost w))
     (writer_run tele_sample small_config sample_acts (writer_start empty_db)) =
   Some ([gate_entry ''c'', gate_entry ''d''], 2, 2, 0)"
  by code_simp

lemma small_positive: "0 < wc_capacity small_config"
  by (simp add: small_config_def)

lemma map_option_all: "map_option f x = Some y \<Longrightarrow> (\<And>a. x = Some a \<Longrightarrow> P a) \<Longrightarrow> \<exists>a. x = Some a \<and> f a = y \<and> P a"
  by (cases x) auto

theorem writer_conserves_records_witness:
  "\<exists>w. writer_run tele_sample small_config sample_acts (writer_start empty_db) = Some w \<and>
     (wt_stored w, wt_flushed w, wt_dropped w, wt_lost w) = ([gate_entry ''c'', gate_entry ''d''], 2, 2, 0) \<and>
     writer_ok small_config w"
  by (rule map_option_all [OF sample_run writer_conserves_records [OF small_positive]])

text \<open>A security record whose violations are a number cannot be listed: the exception is no database error, so the
  batch, a sound gate record with it, is gone and counted nowhere. It ends the thread that flushes in the background.\<close>

lemma poison_record_loses_batch:
  "map_option (\<lambda>w. (wt_buffer w, wt_stored w, wt_dropped w, wt_lost w))
     (writer_run tele_sample DEFAULT_CONFIG [Enqueue (gate_entry ''a''),
        Enqueue (''security'', [(''decision'', PStr ''d''), (''violations'', PInt 5)]), Begin, Write False]
        (writer_start empty_db)) = Some ([], [], 0, 2)"
  by code_simp

text \<open>A record without its mandatory column drops the whole batch, the sound records of the other tables with it.\<close>

lemma bad_record_drops_batch:
  "map_option (\<lambda>w. (wt_stored w, wt_dropped w))
     (writer_run tele_sample DEFAULT_CONFIG [Enqueue (gate_entry ''a''),
        Enqueue (''routing'', [(''model'', PNone)]), Begin, Write False] (writer_start empty_db)) = Some ([], 2)"
  by code_simp

definition one_gate :: writer where
  "one_gate = enqueue DEFAULT_CONFIG (gate_entry ''a'') (writer_start empty_db)"

lemma one_gate_ok: "writer_ok DEFAULT_CONFIG one_gate" "wt_phase one_gate = Idle"
  by (simp_all add: one_gate_def enqueue_ok writer_start_ok DEFAULT_CONFIG_def) (simp add: enqueue_def writer_start_def Let_def)

lemma one_gate_batch: "\<exists>db. write_batch tele_sample (wt_buffer one_gate) (wt_db one_gate) = Inr db"
proof -
  have "(case write_batch tele_sample (wt_buffer one_gate) (wt_db one_gate) of Inl _ \<Rightarrow> False | Inr _ \<Rightarrow> True)"
    by code_simp
  then show ?thesis by (auto split: sum.splits)
qed

theorem flush_ends_and_writes_witness:
  "wt_phase (flush tele_sample DEFAULT_CONFIG [True] one_gate) = Idle \<and>
     (\<exists>db. write_batch tele_sample (wt_buffer one_gate) (wt_db one_gate) = Inr db \<and>
        flushed_into tele_sample DEFAULT_CONFIG one_gate db)"
  using flush_ends_and_writes [OF one_gate_ok] one_gate_batch by blast

end
