(* ===== verification/TelemetryProps.thy ===== *)
theory TelemetryProps
  imports TelemetryWriter
begin

text \<open>
  What the telemetry store promises: a batch that is stored is what single insertions store, a query answers rows of
  its own project, and the totals of the usage report agree with its break-downs.
\<close>

section \<open>One table at a time\<close>

definition ins :: "tele_table \<Rightarrow> pydict \<Rightarrow> pydict table \<Rightarrow> store_error + pydict table" where
  "ins t row tb = map_sum id (\<lambda>db. db t) (sql_insert t row (\<lambda>_. tb))"

lemma sql_insert_local: "sql_insert t row db = map_sum id (\<lambda>x. db(t := x)) (ins t row (db t))"
  by (simp add: ins_def sql_insert_def known_event_def split: option.split)

definition put :: "tele_env \<Rightarrow> tele_table \<Rightarrow> pydict \<Rightarrow> pydict table \<Rightarrow> store_error + pydict table" where
  "put E t r tb = (case build_row E t r of Inl e \<Rightarrow> Inl (PyError e) | Inr row \<Rightarrow> ins t row tb)"

fun put_all :: "tele_env \<Rightarrow> tele_table \<Rightarrow> pydict list \<Rightarrow> pydict table \<Rightarrow> store_error + pydict table" where
  "put_all E t [] tb = Inr tb"
| "put_all E t (r # rs) tb = (case put E t r tb of Inl e \<Rightarrow> Inl e | Inr tb' \<Rightarrow> put_all E t rs tb')"

lemma build_then_insert:
  "build_rows E t rs = Inr rows \<Longrightarrow> sql_inserts t rows db = Inr db' \<Longrightarrow>
     put_all E t rs (db t) = Inr (db' t) \<and> db' = db(t := db' t)"
proof (induction rs arbitrary: rows db)
  case Nil
  then show ?case by simp
next
  case (Cons r rs)
  then obtain row rows' where rows: "build_row E t r = Inr row" "build_rows E t rs = Inr rows'" "rows = row # rows'"
    by (auto split: sum.splits)
  with Cons.prems(2) obtain x where x: "ins t row (db t) = Inr x" "sql_inserts t rows' (db(t := x)) = Inr db'"
    by (cases "ins t row (db t)") (simp_all add: sql_insert_local)
  note IH = Cons.IH [OF rows(2) x(2)]
  have "put_all E t (r # rs) (db t) = Inr (db' t)" using conjunct1 [OF IH] rows(1) x(1) by (simp add: put_def)
  with conjunct2 [OF IH, unfolded fun_upd_upd] show ?case by (rule conjI [rotated])
qed

lemma insert_many_local:
  assumes "insert_many E k rs db = Inr db'"
  obtains t where "map_of TABLE_KEYS k = Some t" and "put_all E t rs (db t) = Inr (db' t)" and "db' = db(t := db' t)"
proof -
  from assms obtain t rows where "map_of TABLE_KEYS k = Some t" "build_rows E t rs = Inr rows" "sql_inserts t rows db = Inr db'"
    by (auto simp: insert_many_def split: option.splits sum.splits)
  with build_then_insert [of E t rs rows db db'] that show thesis by blast
qed

fun key_of :: "tele_table \<Rightarrow> string" where
  "key_of TExecutions = ''executions''"
| "key_of TUsage = ''usage''"
| "key_of TCosts = ''costs''"
| "key_of TRetrieval = ''retrieval''"
| "key_of TSkills = ''skills''"
| "key_of TGates = ''gates''"
| "key_of TSecurity = ''security''"
| "key_of TRouting = ''routing''"
| "key_of TBacklog = ''backlog''"

lemma table_key_iff: "map_of TABLE_KEYS k = Some t \<longleftrightarrow> k = key_of t"
  by (cases t) (auto simp: TABLE_KEYS_def split: if_splits)

lemma key_of_inj: "key_of t = key_of t' \<longleftrightarrow> t = t'"
  by (metis option.inject table_key_iff)

section \<open>A batch is its records one by one\<close>

lemma insert_groups_local:
  "insert_groups E gs db = Inr db' \<Longrightarrow> distinct (map fst gs) \<Longrightarrow>
     (\<forall>k \<in> fst ` set gs. \<exists>t. k = key_of t) \<and> (\<forall>t. put_all E t (dict_get gs (key_of t) []) (db t) = Inr (db' t))"
proof (induction gs arbitrary: db)
  case Nil
  then show ?case by simp
next
  case (Cons g gs)
  obtain k rs where g: "g = (k, rs)" by (cases g)
  with Cons.prems obtain mid where mid: "insert_many E k rs db = Inr mid" "insert_groups E gs mid = Inr db'"
    by (auto split: sum.splits)
  from insert_many_local [OF mid(1)] obtain t where t: "map_of TABLE_KEYS k = Some t"
      "put_all E t rs (db t) = Inr (mid t)" "mid = db(t := mid t)" by metis
  have k: "k = key_of t" using t(1) table_key_iff by blast
  have other: "mid t' = db t'" if "t' \<noteq> t" for t' using fun_cong [OF t(3), of t'] that by simp
  have IH: "(\<forall>k \<in> fst ` set gs. \<exists>t. k = key_of t) \<and> (\<forall>t. put_all E t (dict_get gs (key_of t) []) (mid t) = Inr (db' t))"
    using Cons.IH [OF mid(2)] Cons.prems(2) by simp
  have fresh: "dict_get gs (key_of t) [] = []"
    using Cons.prems(2) k g by (simp add: dict_get_def map_of_eq_None_iff [THEN iffD2])
  have "put_all E t' (dict_get (g # gs) (key_of t') []) (db t') = Inr (db' t')" for t'
  proof (cases "t' = t")
    case True
    have "mid t = db' t" using spec [OF conjunct2 [OF IH], of t] fresh by simp
    then show ?thesis using True t(2) k g by (simp add: dict_get_Cons)
  next
    case False
    then show ?thesis using spec [OF conjunct2 [OF IH], of t'] other k g by (simp add: dict_get_Cons key_of_inj)
  qed
  then show ?case using IH k g by auto
qed

definition records_for :: "string \<Rightarrow> (string \<times> pydict) list \<Rightarrow> pydict list" where
  "records_for k batch = map snd (filter (\<lambda>x. fst x = k) batch)"

lemma grouped_facts:
  "distinct (map fst (grouped batch)) \<and> fst ` set (grouped batch) = fst ` set batch \<and>
   (\<forall>k. dict_get (grouped batch) k [] = records_for k batch)"
proof (induction batch rule: rev_induct)
  case Nil
  then show ?case by (simp add: grouped_def records_for_def)
next
  case (snoc x batch)
  obtain k r where x: "x = (k, r)" by (cases x)
  have "grouped (batch @ [x]) = dict_set k (dict_get (grouped batch) k [] @ [r]) (grouped batch)"
    by (simp add: grouped_def x)
  then show ?case using snoc by (auto simp: x keys_dict_set distinct_dict_set records_for_def dict_get_def)
qed

text \<open>Every record of a batch inserted on its own, in the order they came.\<close>

fun insert_each :: "tele_env \<Rightarrow> (string \<times> pydict) list \<Rightarrow> tele_db \<Rightarrow> exn + tele_db" where
  "insert_each E [] db = Inr db"
| "insert_each E ((k, r) # batch) db =
     (case map_of TABLE_KEYS k of
        None \<Rightarrow> Inl (Exn KeyError k)
      | Some t \<Rightarrow> (case insert_one E t r db of Inl e \<Rightarrow> Inl e | Inr db' \<Rightarrow> insert_each E batch db'))"

lemma insert_one_put: "put E t r (db t) = Inr x \<Longrightarrow> insert_one E t r db = Inr (db(t := x))"
  by (auto simp: insert_one_def put_def sql_insert_local split: sum.splits)

lemma each_of_tables:
  assumes "\<forall>k \<in> fst ` set batch. \<exists>t. k = key_of t"
    and "\<forall>t. put_all E t (records_for (key_of t) batch) (db t) = Inr (db' t)"
  shows "insert_each E batch db = Inr db'"
  using assms
proof (induction batch arbitrary: db)
  case Nil
  then show ?case by (auto simp: records_for_def)
next
  case (Cons x batch)
  obtain t r where x: "x = (key_of t, r)" using Cons.prems(1) by (cases x) auto
  have mine: "records_for (key_of t) (x # batch) = r # records_for (key_of t) batch" by (simp add: x records_for_def)
  obtain tb where tb: "put E t r (db t) = Inr tb" "put_all E t (records_for (key_of t) batch) tb = Inr (db' t)"
    using spec [OF Cons.prems(2), of t] unfolding mine by (auto split: sum.splits)
  have "put_all E t' (records_for (key_of t') batch) ((db(t := tb)) t') = Inr (db' t')" for t'
  proof (cases "t' = t")
    case False
    then have "records_for (key_of t') (x # batch) = records_for (key_of t') batch"
      by (auto simp: x records_for_def key_of_inj)
    then show ?thesis using spec [OF Cons.prems(2), of t'] False by simp
  qed (simp add: tb(2))
  then have "insert_each E batch (db(t := tb)) = Inr db'" using Cons.IH [of "db(t := tb)"] Cons.prems(1) by (simp del: fun_upd_apply)
  then show ?case using insert_one_put [where db = db and t = t, OF tb(1)] table_key_iff [of "key_of t" t] by (simp add: x)
qed

lemma batch_is_each: "write_batch E batch db = Inr db' \<Longrightarrow> insert_each E batch db = Inr db'"
  unfolding write_batch_def using insert_groups_local [of E "grouped batch" db db'] grouped_facts [of batch]
  by (intro each_of_tables) auto

text \<open>C32: A batch that is stored leaves the database as inserting its records one by one in the order they came
  would, whatever tables they are for: grouping by table, building all rows first and writing in one transaction
  change nothing.\<close>

theorem batch_equals_single_inserts:
  "write_batch E batch db = Inr db' \<Longrightarrow> insert_each E batch db = Inr db'"
  by (rule batch_is_each)

lemma mixed_batch: "\<exists>db. write_batch tele_sample [gate_entry ''a'', (''usage'', [(''agent'', PStr ''d'')]), gate_entry ''b''] empty_db = Inr db"
proof -
  have "(case write_batch tele_sample [gate_entry ''a'', (''usage'', [(''agent'', PStr ''d'')]), gate_entry ''b''] empty_db of
     Inl _ \<Rightarrow> False | Inr _ \<Rightarrow> True)" by code_simp
  then show ?thesis by (auto split: sum.splits)
qed

theorem batch_equals_single_inserts_witness:
  "\<exists>db. insert_each tele_sample [gate_entry ''a'', (''usage'', [(''agent'', PStr ''d'')]), gate_entry ''b''] empty_db = Inr db"
  using mixed_batch batch_equals_single_inserts by blast

text \<open>A batch with a record SQLite refuses is refused whole, where single insertions store the others.\<close>

lemma paths_diverge_on_errors:
  "(case write_batch tele_sample [gate_entry ''a'', (''routing'', [(''model'', PNone)])] empty_db of
      Inl (SqlError m) \<Rightarrow> True | _ \<Rightarrow> False) \<and>
   (case insert_each tele_sample [gate_entry ''a'', (''routing'', [(''model'', PNone)])] empty_db of
      Inr db \<Rightarrow> length (table_rows (db TGates)) = 1 \<and> table_rows (db TRouting) = [] | _ \<Rightarrow> False)"
  by code_simp

section \<open>Queries keep to their project\<close>

text \<open>The rows of the project of the environment, table by table.\<close>

definition same_own :: "tele_env \<Rightarrow> tele_db \<Rightarrow> tele_db \<Rightarrow> bool" where
  "same_own E db db' \<longleftrightarrow> (\<forall>t. select_own E t (\<lambda>_. True) db = select_own E t (\<lambda>_. True) db')"

lemma select_own_only: "select_own E t P db = filter (\<lambda>(i, r). P r) (select_own E t (\<lambda>_. True) db)"
  by (simp add: select_own_def case_prod_unfold conj_commute)

lemma select_own_same: "same_own E db db' \<Longrightarrow> select_own E t P db = select_own E t P db'"
  by (subst (1 2) select_own_only) (simp add: same_own_def)

lemma usage_without_workflow: "nf_workflow f = [] \<Longrightarrow> usage_matches f db = usage_matches f db'"
  by (simp add: usage_matches_def in_workflow_def fun_eq_iff)

lemma query_usage_same: "same_own E db db' \<Longrightarrow> nf_workflow f = [] \<Longrightarrow> query_usage E f n db = query_usage E f n db'"
  unfolding query_usage_def by (simp add: usage_without_workflow [of f db db'] select_own_same)

text \<open>What other projects wrote into the shared database does not show in a query: executions, usage, retrieval,
  skill, gate, security, routing and backlog queries answer the same on any two databases with the same rows of the
  project, as long as the usage is not asked for a workflow.\<close>

theorem telemetry_queries_isolated:
  "same_own E db db' \<Longrightarrow>
     query_executions E f n db = query_executions E f n db' \<and>
     (nf_workflow f = [] \<longrightarrow> query_usage E f n db = query_usage E f n db') \<and>
     query_retrieval E a n db = query_retrieval E a n db' \<and>
     query_skill_stats E s a x z n db = query_skill_stats E s a x z n db' \<and>
     query_gate_stats E g u x z n db = query_gate_stats E g u x z n db' \<and>
     query_gate_records E g u x z n db = query_gate_records E g u x z n db' \<and>
     query_security_stats E d a x z n db = query_security_stats E d a x z n db' \<and>
     query_security_records E d a al x z n db = query_security_records E d a al x z n db' \<and>
     query_routing_stats E a m x z n db = query_routing_stats E a m x z n db' \<and>
     query_routing_records E a m x z n db = query_routing_records E a m x z n db' \<and>
     query_backlog_stats E r u x z n db = query_backlog_stats E r u x z n db'"
  by (simp add: query_executions_def query_usage_same query_retrieval_def
      query_skill_stats_def skill_rows_def query_gate_stats_def query_gate_records_def gate_rows_def
      query_security_stats_def query_security_records_def security_rows_def query_routing_stats_def
      query_routing_records_def routing_rows_def query_backlog_stats_def select_own_same)

definition other_project :: tele_env where
  "other_project = tele_sample\<lparr>ne_project := ''q''\<rparr>"

definition stored_in :: "tele_env \<Rightarrow> (string \<times> pydict) list \<Rightarrow> tele_db \<Rightarrow> tele_db" where
  "stored_in E batch db = (case write_batch E batch db of Inr db' \<Rightarrow> db' | Inl _ \<Rightarrow> db)"

definition mine_db :: tele_db where
  "mine_db = stored_in tele_sample [gate_entry ''a''] empty_db"

definition shared_db :: tele_db where
  "shared_db = stored_in other_project [gate_entry ''b''] mine_db"

lemma shared_same: "same_own tele_sample mine_db shared_db"
proof -
  have "list_all (\<lambda>t. select_own tele_sample t (\<lambda>_. True) mine_db = select_own tele_sample t (\<lambda>_. True) shared_db)
     (map snd TABLE_KEYS)" by code_simp
  moreover have "t \<in> set (map snd TABLE_KEYS)" for t by (cases t) (simp_all add: TABLE_KEYS_def)
  ultimately show ?thesis unfolding same_own_def list_all_iff by blast
qed

lemma shared_has_both: "length (table_rows (shared_db TGates)) = 2"
  by code_simp

theorem telemetry_queries_isolated_witness:
  "query_gate_stats tele_sample [] [] [] [] 100 mine_db = query_gate_stats tele_sample [] [] [] [] 100 shared_db \<and>
     length (table_rows (shared_db TGates)) = 2"
  using telemetry_queries_isolated [OF shared_same] shared_has_both by blast

text \<open>The accuracy of routes has no condition on the project: it answers the routes of every project, and pairs
  a route with the cost of each of its executions' records, however many events of one execution were recorded.\<close>

definition routed :: "(string \<times> pydict) list" where
  "routed = [(''routing'', [(''model'', PStr ''m''), (''correlation_id'', PStr ''c''), (''estimated_cost'', PFloat 1)]),
     (''executions'', [(''execution_id'', PStr ''x''), (''event_id'', PStr ''e1''), (''correlation_id'', PStr ''c''), (''model'', PStr ''m'')]),
     (''executions'', [(''execution_id'', PStr ''x''), (''event_id'', PStr ''e2''), (''correlation_id'', PStr ''c''), (''model'', PStr ''m'')]),
     (''costs'', [(''execution_id'', PStr ''x''), (''total_cost'', PFloat 3)])]"

lemma route_accuracy_crosses_projects:
  "map aq_delta (query_route_accuracy 100 (stored_in other_project routed empty_db)) = [2, 2]"
  by code_simp

section \<open>The usage report adds up\<close>

definition total_of :: "(usage_sums \<Rightarrow> 'a::comm_monoid_add) \<Rightarrow> (string \<times> usage_sums) list \<Rightarrow> 'a" where
  "total_of f g = sum_list (map (f \<circ> snd) g)"

lemma total_of_set:
  fixes f :: "usage_sums \<Rightarrow> 'a::ab_group_add"
  shows "f no_usage = 0 \<Longrightarrow> total_of f (dict_set k u g) = total_of f g - f (dict_get g k no_usage) + f u"
  by (induction g) (auto simp: total_of_def dict_set_def dict_get_def algebra_simps)

lemma usage_by_total:
  fixes f :: "usage_sums \<Rightarrow> 'a::ab_group_add"
  assumes "f no_usage = 0" and "\<And>r u v. add_usage r u = Some v \<Longrightarrow> f v = f u + d r"
  shows "usage_by c rs g = Some g' \<Longrightarrow> total_of f g' = total_of f g + sum_list (map d rs)"
proof (induction rs arbitrary: g)
  case Nil
  then show ?case by simp
next
  case (Cons r rs)
  then obtain u where u: "add_usage r (dict_get g (usage_key c r) no_usage) = Some u"
      "usage_by c rs (dict_set (usage_key c r) u g) = Some g'"
    by (auto simp: Let_def bind_opt_Some)
  show ?case using Cons.IH [OF u(2)] total_of_set [where f = f, OF assms(1), of "usage_key c r" u g] assms(2) [OF u(1)]
    by (simp add: algebra_simps)
qed

definition amount_of :: "string \<Rightarrow> pydict \<Rightarrow> rat" where
  "amount_of c r = (case amount c r of Some x \<Rightarrow> x | None \<Rightarrow> 0)"

lemma amounts_sum: "amounts c rs = Some x \<Longrightarrow> x = sum_list (map (amount_of c) rs)"
  by (induction rs arbitrary: x) (auto simp: bind_opt_Some amount_of_def)

lemma add_usage_sums:
  assumes "add_usage r u = Some v"
  shows "us_input v = us_input u + amount_of ''input_tokens'' r" "us_output v = us_output u + amount_of ''output_tokens'' r"
    "us_total v = us_total u + amount_of ''total_tokens'' r" "us_count v = us_count u + 1"
  using assms by (auto simp: add_usage_def bind_opt_Some amount_of_def)

lemma usage_by_sums:
  assumes "usage_by c rs [] = Some g"
  shows "total_of us_input g = sum_list (map (amount_of ''input_tokens'') rs)"
    "total_of us_output g = sum_list (map (amount_of ''output_tokens'') rs)"
    "total_of us_total g = sum_list (map (amount_of ''total_tokens'') rs)"
    "total_of (int \<circ> us_count) g = int (length rs)"
  using usage_by_total [where f = us_input and d = "amount_of ''input_tokens''", OF _ _ assms]
    usage_by_total [where f = us_output and d = "amount_of ''output_tokens''", OF _ _ assms]
    usage_by_total [where f = us_total and d = "amount_of ''total_tokens''", OF _ _ assms]
    usage_by_total [where f = "int \<circ> us_count" and d = "\<lambda>_. 1", OF _ _ assms]
  by (simp_all add: no_usage_def add_usage_sums total_of_def sum_list_triv)

definition adds_up :: "usage_report \<Rightarrow> (string \<times> usage_sums) list \<Rightarrow> bool" where
  "adds_up rep g \<longleftrightarrow> total_of us_input g = ur_input rep \<and> total_of us_output g = ur_output rep \<and>
     total_of (int \<circ> us_count) g = int (length (ur_records rep)) \<and>
     ur_total rep = (if total_of us_total g = 0 then ur_input rep + ur_output rep else total_of us_total g)"

lemma length_at_most: "length (at_most n xs) \<le> length xs" "0 \<le> n \<Longrightarrow> int (length (at_most n xs)) \<le> n"
  by (auto simp: at_most_def)

lemma length_newest: "length (newest_first c xs) = length xs"
  by (simp add: newest_first_def sort_desc_def)

lemma aggregate_adds_up:
  assumes "aggregate_usage E f n db = Inr rep"
  shows "adds_up rep (ur_by_agent rep) \<and> adds_up rep (ur_by_model rep) \<and> length (ur_records rep) \<le> ur_record_count rep"
proof -
  let ?rs = "query_usage E f n db"
  from assms obtain i out t c agents models where parts: "amounts ''input_tokens'' ?rs = Some i"
      "amounts ''output_tokens'' ?rs = Some out" "amounts ''total_tokens'' ?rs = Some t"
      "usage_by ''agent'' ?rs [] = Some agents" "usage_by ''model'' ?rs [] = Some models"
    and rep: "ur_input rep = i" "ur_output rep = out" "ur_total rep = (if t = 0 then i + out else t)" "ur_records rep = ?rs"
      "ur_by_agent rep = agents" "ur_by_model rep = models"
      "ur_record_count rep = length (select_own E TUsage (usage_matches f db) db)"
    by (auto simp: aggregate_usage_def add_type_error_def Let_def bind_opt_Some split: option.splits)
  note sums = parts(1-3) [THEN amounts_sum]
  have "length ?rs \<le> ur_record_count rep"
    using length_at_most(1) [of n "newest_first ''timestamp'' (select_own E TUsage (usage_matches f db) db)"]
    by (simp add: query_usage_def rep length_newest)
  then show ?thesis
    using usage_by_sums [OF parts(4)] usage_by_sums [OF parts(5)] sums rep by (simp add: adds_up_def)
qed

text \<open>The usage report either cannot be made, because a count of tokens is no number, or it adds up: the tokens
  in and out, and the number of records, are those of its agents together and of its models together, the total
  likewise unless no record has one; and no more records are listed than are counted.\<close>

theorem usage_report_adds_up:
  "case aggregate_usage E f n db of
     Inl e \<Rightarrow> exn_kind e = TypeError
   | Inr rep \<Rightarrow> adds_up rep (ur_by_agent rep) \<and> adds_up rep (ur_by_model rep) \<and>
       length (ur_records rep) \<le> ur_record_count rep"
  using aggregate_adds_up [of E f n db]
  by (auto simp: aggregate_usage_def add_type_error_def Let_def split: sum.split option.splits)

end
