(* ===== verification/Events.thy ===== *)
theory Events
  imports PyStr
begin

text \<open>
  The event vocabulary (\<open>events/events.py\<close>), the in-process bus (\<open>events/bus.py\<close>) and its
  engine (\<open>events/__init__.py\<close>). The bus maps a topic to the list of its subscribers in
  subscription order; a pattern ending in \<open>.*\<close> subscribes to every topic it is a prefix of.
  Handlers are values of a type \<open>'h\<close>, and calling one is a parameter: the model says which
  handlers are called, in which order, and that an exception of one reaches neither the
  publisher nor the other handlers. Logging is left out.
\<close>

section \<open>Topics\<close>

definition SYSTEM_TOPICS :: "string list" where
  "SYSTEM_TOPICS = [''system.health_check'', ''system.error'', ''system.shutdown'']"

definition SESSION_TOPICS :: "string list" where
  "SESSION_TOPICS = [''session.start'', ''session.ready'', ''session.shutdown'']"

definition CONTEXT_TOPICS :: "string list" where
  "CONTEXT_TOPICS = [''context.detected'', ''context.error'']"

definition MEMORY_TOPICS :: "string list" where
  "MEMORY_TOPICS = [''memory.loaded'', ''memory.updated'', ''memory.error'']"

definition TASK_TOPICS :: "string list" where
  "TASK_TOPICS = [''task.created'', ''task.dispatched'', ''task.completed'', ''task.failed'',
     ''task.retrying'']"

definition AGENT_LIFECYCLE_TOPICS :: "string list" where
  "AGENT_LIFECYCLE_TOPICS = [''agent.lifecycle.changed'']"

definition AGENT_EXECUTION_TOPICS :: "string list" where
  "AGENT_EXECUTION_TOPICS = [''agent.execution.started'', ''agent.execution.progress'', ''agent.execution.completed'',
     ''agent.execution.failed'', ''agent.execution.timed_out'', ''agent.execution.retried'',
     ''agent.execution.cancelled'']"

definition KANBAN_TOPICS :: "string list" where
  "KANBAN_TOPICS = [''kanban.card_moved'', ''kanban.card_blocked'', ''kanban.subtask_created'',
     ''kanban.subtask_completed'']"

definition QUALITY_TOPICS :: "string list" where
  "QUALITY_TOPICS = [''quality.started'', ''quality.gate_started'', ''quality.gate_completed'',
     ''quality.gate_blocked'', ''quality.gate_passed'', ''quality.gate_failed'',
     ''quality.completed'']"

definition SECURITY_TOPICS :: "string list" where
  "SECURITY_TOPICS = [''security.violation'', ''security.approval_requested'', ''security.approval_granted'',
     ''security.approval_denied'', ''security.intent.applied'', ''security.check.passed'',
     ''security.check.denied'']"

definition WORKFLOW_TOPICS :: "string list" where
  "WORKFLOW_TOPICS = [''workflow.started'', ''workflow.stage_changed'', ''workflow.completed'',
     ''workflow.failed'']"

definition RUNTIME_TOPICS :: "string list" where
  "RUNTIME_TOPICS = [''runtime.ready'', ''runtime.error'', ''runtime.disconnected'',
     ''runtime.route_selected'']"

definition TELEMETRY_TOPICS :: "string list" where
  "TELEMETRY_TOPICS = [''telemetry.usage.captured'', ''telemetry.cost.calculated'']"

definition RESEARCH_TOPICS :: "string list" where
  "RESEARCH_TOPICS = [''research.completed'']"

definition LEARNING_TOPICS :: "string list" where
  "LEARNING_TOPICS = [''learning.observation_recorded'', ''learning.candidate.created'',
     ''learning.candidate.approved'', ''learning.candidate.rejected'', ''learning.ingested'']"

definition BACKLOG_TOPICS :: "string list" where
  "BACKLOG_TOPICS = [''backlog.run_started'', ''backlog.task_started'', ''backlog.task_succeeded'',
     ''backlog.task_failed'', ''backlog.run_completed'']"

definition ALL_TOPICS :: "string list" where
  "ALL_TOPICS =
     SYSTEM_TOPICS
     @ SESSION_TOPICS
     @ CONTEXT_TOPICS
     @ MEMORY_TOPICS
     @ TASK_TOPICS
     @ AGENT_LIFECYCLE_TOPICS
     @ AGENT_EXECUTION_TOPICS
     @ KANBAN_TOPICS
     @ QUALITY_TOPICS
     @ SECURITY_TOPICS
     @ WORKFLOW_TOPICS
     @ RUNTIME_TOPICS
     @ TELEMETRY_TOPICS
     @ RESEARCH_TOPICS
     @ LEARNING_TOPICS
     @ BACKLOG_TOPICS"

abbreviation AGENT_LIFECYCLE_CHANGED :: string where "AGENT_LIFECYCLE_CHANGED \<equiv> ''agent.lifecycle.changed''"
abbreviation AGENT_EXECUTION_STARTED :: string where "AGENT_EXECUTION_STARTED \<equiv> ''agent.execution.started''"
abbreviation AGENT_EXECUTION_PROGRESS :: string where "AGENT_EXECUTION_PROGRESS \<equiv> ''agent.execution.progress''"
abbreviation AGENT_EXECUTION_COMPLETED :: string where "AGENT_EXECUTION_COMPLETED \<equiv> ''agent.execution.completed''"
abbreviation AGENT_EXECUTION_FAILED :: string where "AGENT_EXECUTION_FAILED \<equiv> ''agent.execution.failed''"
abbreviation AGENT_EXECUTION_TIMED_OUT :: string where "AGENT_EXECUTION_TIMED_OUT \<equiv> ''agent.execution.timed_out''"
abbreviation AGENT_EXECUTION_RETRIED :: string where "AGENT_EXECUTION_RETRIED \<equiv> ''agent.execution.retried''"
abbreviation AGENT_EXECUTION_CANCELLED :: string where "AGENT_EXECUTION_CANCELLED \<equiv> ''agent.execution.cancelled''"
abbreviation KANBAN_CARD_MOVED :: string where "KANBAN_CARD_MOVED \<equiv> ''kanban.card_moved''"
abbreviation KANBAN_CARD_BLOCKED :: string where "KANBAN_CARD_BLOCKED \<equiv> ''kanban.card_blocked''"
abbreviation KANBAN_SUBTASK_CREATED :: string where "KANBAN_SUBTASK_CREATED \<equiv> ''kanban.subtask_created''"
abbreviation KANBAN_SUBTASK_COMPLETED :: string where "KANBAN_SUBTASK_COMPLETED \<equiv> ''kanban.subtask_completed''"
abbreviation QUALITY_STARTED :: string where "QUALITY_STARTED \<equiv> ''quality.started''"
abbreviation QUALITY_GATE_STARTED :: string where "QUALITY_GATE_STARTED \<equiv> ''quality.gate_started''"
abbreviation QUALITY_GATE_COMPLETED :: string where "QUALITY_GATE_COMPLETED \<equiv> ''quality.gate_completed''"
abbreviation QUALITY_GATE_BLOCKED :: string where "QUALITY_GATE_BLOCKED \<equiv> ''quality.gate_blocked''"
abbreviation QUALITY_GATE_PASSED :: string where "QUALITY_GATE_PASSED \<equiv> ''quality.gate_passed''"
abbreviation QUALITY_GATE_FAILED :: string where "QUALITY_GATE_FAILED \<equiv> ''quality.gate_failed''"
abbreviation QUALITY_COMPLETED :: string where "QUALITY_COMPLETED \<equiv> ''quality.completed''"
abbreviation SECURITY_INTENT_APPLIED :: string where "SECURITY_INTENT_APPLIED \<equiv> ''security.intent.applied''"
abbreviation SECURITY_CHECK_PASSED :: string where "SECURITY_CHECK_PASSED \<equiv> ''security.check.passed''"
abbreviation SECURITY_CHECK_DENIED :: string where "SECURITY_CHECK_DENIED \<equiv> ''security.check.denied''"
abbreviation RUNTIME_READY :: string where "RUNTIME_READY \<equiv> ''runtime.ready''"
abbreviation RUNTIME_ERROR :: string where "RUNTIME_ERROR \<equiv> ''runtime.error''"
abbreviation RUNTIME_DISCONNECTED :: string where "RUNTIME_DISCONNECTED \<equiv> ''runtime.disconnected''"
abbreviation RUNTIME_ROUTE_SELECTED :: string where "RUNTIME_ROUTE_SELECTED \<equiv> ''runtime.route_selected''"
abbreviation RESEARCH_COMPLETED :: string where "RESEARCH_COMPLETED \<equiv> ''research.completed''"
abbreviation LEARNING_OBSERVATION_RECORDED :: string where "LEARNING_OBSERVATION_RECORDED \<equiv> ''learning.observation_recorded''"
abbreviation LEARNING_CANDIDATE_CREATED :: string where "LEARNING_CANDIDATE_CREATED \<equiv> ''learning.candidate.created''"
abbreviation LEARNING_CANDIDATE_APPROVED :: string where "LEARNING_CANDIDATE_APPROVED \<equiv> ''learning.candidate.approved''"
abbreviation LEARNING_CANDIDATE_REJECTED :: string where "LEARNING_CANDIDATE_REJECTED \<equiv> ''learning.candidate.rejected''"
abbreviation LEARNING_INGESTED :: string where "LEARNING_INGESTED \<equiv> ''learning.ingested''"
abbreviation BACKLOG_RUN_STARTED :: string where "BACKLOG_RUN_STARTED \<equiv> ''backlog.run_started''"
abbreviation BACKLOG_TASK_STARTED :: string where "BACKLOG_TASK_STARTED \<equiv> ''backlog.task_started''"
abbreviation BACKLOG_TASK_SUCCEEDED :: string where "BACKLOG_TASK_SUCCEEDED \<equiv> ''backlog.task_succeeded''"
abbreviation BACKLOG_TASK_FAILED :: string where "BACKLOG_TASK_FAILED \<equiv> ''backlog.task_failed''"
abbreviation BACKLOG_RUN_COMPLETED :: string where "BACKLOG_RUN_COMPLETED \<equiv> ''backlog.run_completed''"

section \<open>The bus\<close>

record event =
  ev_topic :: string
  ev_payload :: pyval
  ev_timestamp :: string
  ev_correlation :: string

type_synonym 'h subscribers = "(string \<times> 'h list) list"

definition EventBus_init :: "'h subscribers" where
  "EventBus_init = []"

definition subscribe :: "'h subscribers \<Rightarrow> string \<Rightarrow> 'h \<Rightarrow> 'h subscribers" where
  "subscribe subs topic h = dict_set topic (dict_get subs topic [] @ [h]) subs"

text \<open>\<open>self._subscribers[topic]\<close> on the \<open>defaultdict\<close> creates the key.\<close>

definition unsubscribe :: "'h subscribers \<Rightarrow> string \<Rightarrow> 'h \<Rightarrow> 'h subscribers" where
  "unsubscribe subs topic h =
     (let hs = dict_get subs topic [] in
      if h \<in> set hs then dict_set topic (remove1 h hs) subs else dict_set topic hs subs)"

definition subscriber_count :: "'h subscribers \<Rightarrow> string option \<Rightarrow> nat" where
  "subscriber_count subs topic =
     (case topic of
        Some t \<Rightarrow> if t \<noteq> [] then length (dict_get subs t [])
                  else sum_list (map (length \<circ> snd) subs)
      | None \<Rightarrow> sum_list (map (length \<circ> snd) subs))"

definition pattern_matches :: "string \<Rightarrow> string \<Rightarrow> bool" where
  "pattern_matches pattern topic =
     (endswith pattern ''.*'' \<and> startswith topic (butlast pattern))"

definition resolve_handlers :: "'h subscribers \<Rightarrow> string \<Rightarrow> 'h list" where
  "resolve_handlers subs topic =
     dict_get subs topic [] @
     concat (map (\<lambda>(pattern, hs). if pattern_matches pattern topic then hs else []) subs)"

primrec deliver ::
  "('h \<Rightarrow> event \<Rightarrow> ('w, unit) py) \<Rightarrow> event \<Rightarrow> 'h list \<Rightarrow> ('w, unit) py" where
  "deliver call ev [] = ret ()"
| "deliver call ev (h # hs) = seq (try_except (call h ev) (\<lambda>_. ret ())) (deliver call ev hs)"

definition publish ::
  "('h \<Rightarrow> event \<Rightarrow> ('w, unit) py) \<Rightarrow> string \<Rightarrow> 'h subscribers \<Rightarrow>
   string \<Rightarrow> pyval \<Rightarrow> string \<Rightarrow> ('w, unit) py" where
  "publish call now subs topic payload correlation =
     deliver call
       \<lparr>ev_topic = topic, ev_payload = payload, ev_timestamp = now,
        ev_correlation = correlation\<rparr>
       (resolve_handlers subs topic)"

section \<open>The engine\<close>

record 'h events_engine =
  bus :: "'h subscribers option"

definition events_initialize :: "'h events_engine \<Rightarrow> 'h events_engine" where
  "events_initialize e = e\<lparr>bus := Some EventBus_init\<rparr>"

definition events_health_check :: "'h events_engine \<Rightarrow> bool" where
  "events_health_check e = (bus e \<noteq> None)"

definition events_shutdown :: "'h events_engine \<Rightarrow> 'h events_engine" where
  "events_shutdown e = e\<lparr>bus := None\<rparr>"

section \<open>Delivery\<close>

lemma deliver_fold: "deliver call ev hs w = (Inr (), fold (\<lambda>h w. snd (call h ev w)) hs w)"
  by (induction hs arbitrary: w) (auto simp: py_run split: prod.splits sum.splits)

text \<open>
  What a publisher relies on: publishing is a total operation that never raises. The client
  lemmas hold for every channel with that law.
\<close>

locale event_sink =
  fixes pub :: "string \<Rightarrow> pyval \<Rightarrow> string \<Rightarrow> ('w, unit) py"
  assumes pub_quiet: "fst (pub topic payload correlation w) = Inr ()"
begin

primrec pub_all :: "(string \<times> pyval \<times> string) list \<Rightarrow> ('w, unit) py" where
  "pub_all [] = ret ()"
| "pub_all (m # ms) = (case m of (t, p, c) \<Rightarrow> seq (pub t p c) (pub_all ms))"

lemma pub_then: "seq (pub t p c) m w = m (snd (pub t p c w))"
proof -
  have "fst (pub t p c w) = Inr ()" by (rule pub_quiet)
  then show ?thesis by (cases "pub t p c w") (simp add: py_run)
qed

lemma pub_all_quiet: "fst (pub_all ms w) = Inr ()"
  by (induction ms arbitrary: w) (auto simp: pub_then ret_run split: prod.splits)

lemma pub_all_append: "snd (pub_all (ms @ ns) w) = snd (pub_all ns (snd (pub_all ms w)))"
  by (induction ms arbitrary: w) (auto simp: pub_then ret_run split: prod.splits)

end

interpretation event_bus: event_sink "publish call now subs"
  by unfold_locales (simp add: publish_def deliver_fold)

section \<open>Subscriptions\<close>

lemma resolve_subscribe_exact:
  "h \<in> set (resolve_handlers (subscribe subs topic h) topic)"
  by (simp add: resolve_handlers_def subscribe_def)

lemma in_patterns_dict_set:
  assumes "pattern_matches pattern topic" and "h \<in> set hs"
  shows "h \<in> set (concat (map (\<lambda>(p, hs). if pattern_matches p topic then hs else [])
           (dict_set pattern hs subs)))"
proof -
  have "map_of (dict_set pattern hs subs) pattern = Some hs" by simp
  then have "(pattern, hs) \<in> set (dict_set pattern hs subs)" by (rule map_of_SomeD)
  with assms show ?thesis by force
qed

lemma resolve_subscribe_pattern:
  "pattern_matches pattern topic \<Longrightarrow>
   h \<in> set (resolve_handlers (subscribe subs pattern h) topic)"
  unfolding resolve_handlers_def subscribe_def
  using in_patterns_dict_set [of pattern topic h "dict_get subs pattern [] @ [h]" subs] by simp

lemma pattern_matches_iff:
  "pattern_matches (p @ ''.*'') topic \<longleftrightarrow> (\<exists>r. topic = p @ ''.'' @ r)"
  by (auto simp: pattern_matches_def endswith_iff startswith_iff butlast_append)

lemma dict_get_subscribe:
  "dict_get (subscribe subs topic h) t [] =
     (if t = topic then dict_get subs topic [] @ [h] else dict_get subs t [])"
  by (auto simp: subscribe_def)

lemma dict_get_unsubscribe:
  "dict_get (unsubscribe subs topic h) t [] =
     (if t = topic then remove1 h (dict_get subs topic []) else dict_get subs t [])"
  by (auto simp: unsubscribe_def Let_def remove1_idem)

section \<open>Properties\<close>

text \<open>Publishing calls the resolved handlers exactly once each, in order, whatever any of
  them raises, and never raises itself: its effect is the composition of the handlers'.\<close>

theorem publish_isolates_handlers:
  "publish call now subs topic payload correlation w =
     (Inr (), fold (\<lambda>h w. snd (call h \<lparr>ev_topic = topic, ev_payload = payload,
        ev_timestamp = now, ev_correlation = correlation\<rparr> w)) (resolve_handlers subs topic) w)"
  by (simp add: publish_def deliver_fold)

text \<open>A subscriber of a topic, or of a pattern \<open>p.*\<close>, is among the handlers of that topic,
  or of every topic that starts with \<open>p.\<close>, until it unsubscribes as often as it subscribed.\<close>

theorem subscription_resolves:
  "h \<in> set (resolve_handlers (subscribe subs topic h) topic)
   \<and> h \<in> set (resolve_handlers (subscribe subs (p @ ''.*'') h) (p @ ''.'' @ r))
   \<and> dict_get (unsubscribe (subscribe subs topic h) topic h) topic [] =
       remove1 h (dict_get subs topic [] @ [h])"
  by (auto simp: resolve_subscribe_exact resolve_subscribe_pattern pattern_matches_iff
      dict_get_unsubscribe dict_get_subscribe)

text \<open>A handler subscribed once to a pattern is called twice for an event whose topic is
  the pattern itself, once as an exact subscriber and once through the pattern.\<close>

theorem pattern_topic_delivers_twice:
  "resolve_handlers (subscribe EventBus_init (p @ ''.*'') h) (p @ ''.*'') = [h, h]"
  by (simp add: resolve_handlers_def subscribe_def EventBus_init_def dict_set_def dict_get_def
      pattern_matches_iff)

end
