(* ===== verification/TelemetryEngine.thy ===== *)
theory TelemetryEngine
  imports Pricing TelemetryProps Events
begin

text \<open>
  The telemetry engine (\<open>telemetry/engine.py\<close>): a passive subscriber that turns the events of the bus into records
  for the writer, and queries that flush the writer first. The engine's handlers run on the bus of \<open>Events\<close>, which
  swallows what they raise. The state is the engine and the bus; the clock, the hash of a payload and the display of
  a value are parameters.
\<close>

section \<open>State\<close>

datatype tele_handler = OnLifecycle | OnExecution | OnGate | OnSecurity | OnRouting | OnBacklog

record tele_host =
  nh_env :: tele_env
  nh_hash :: "pydict \<Rightarrow> string"
  nh_show :: "pyval \<Rightarrow> string"

record tele_engine =
  ng_open :: bool
  ng_writer :: "writer option"
  ng_disk :: tele_db
  ng_bus :: "tele_handler subscribers option"
  ng_subscribed :: nat

type_synonym 'a tele = "(tele_engine, 'a) py"

definition tele_new :: "tele_db \<Rightarrow> tele_engine" where
  "tele_new disk = \<lparr>ng_open = False, ng_writer = None, ng_disk = disk, ng_bus = None, ng_subscribed = 0\<rparr>"

definition SUBSCRIPTIONS :: "(string \<times> tele_handler) list" where
  "SUBSCRIPTIONS =
     [(''agent.lifecycle.changed'', OnLifecycle), (''agent.execution.*'', OnExecution), (''quality.*'', OnGate),
      (''security.*'', OnSecurity), (''runtime.route_selected'', OnRouting), (''backlog.*'', OnBacklog)]"

definition tele_subscribe :: "tele_engine \<Rightarrow> tele_engine" where
  "tele_subscribe g = (case ng_bus g of
     None \<Rightarrow> g
   | Some subs \<Rightarrow> if 0 < ng_subscribed g then g
       else g\<lparr>ng_bus := Some (foldl (\<lambda>b (t, h). subscribe b t h) subs SUBSCRIPTIONS),
              ng_subscribed := ng_subscribed g + 6\<rparr>)"

definition tele_unsubscribe :: "tele_engine \<Rightarrow> tele_engine" where
  "tele_unsubscribe g = (case ng_bus g of
     None \<Rightarrow> g
   | Some subs \<Rightarrow> if ng_subscribed g = 0 then g
       else g\<lparr>ng_bus := Some (foldl (\<lambda>b (t, h). unsubscribe b t h) subs SUBSCRIPTIONS), ng_subscribed := 0\<rparr>)"

section \<open>Life cycle\<close>

definition tele_set_event_bus :: "tele_handler subscribers option \<Rightarrow> tele_engine \<Rightarrow> tele_engine" where
  "tele_set_event_bus b g = (let h = g\<lparr>ng_bus := b\<rparr> in if b \<noteq> None \<and> ng_open h then tele_subscribe h else h)"

definition tele_initialize :: "tele_engine \<Rightarrow> tele_engine" where
  "tele_initialize g = tele_subscribe (g\<lparr>ng_open := True, ng_writer := Some (writer_start (ng_disk g))\<rparr>)"

text \<open>The flush of a reader; an exception that is no database error reaches it.\<close>

fun flush_error :: "tele_env \<Rightarrow> writer_config \<Rightarrow> nat \<Rightarrow> bool list \<Rightarrow> writer \<Rightarrow> exn option" where
  "flush_error E C 0 locks w = None"
| "flush_error E C (Suc k) locks w = (case wt_phase w of
     Writing n batch \<Rightarrow>
       (if locks \<noteq> [] \<and> hd locks then flush_error E C k (tl locks) (write_step E C True n batch w)
        else case write_batch E batch (wt_db w) of Inl (PyError e) \<Rightarrow> Some e | _ \<Rightarrow> None)
   | Waiting n \<Rightarrow> flush_error E C k locks (drain (n + 1) w)
   | Idle \<Rightarrow> None)"

definition flush_on_read :: "tele_host \<Rightarrow> bool list \<Rightarrow> unit tele" where
  "flush_on_read H locks = (\<lambda>g. case ng_writer g of
     None \<Rightarrow> (Inr (), g)
   | Some w \<Rightarrow> ((case flush_error (nh_env H) DEFAULT_CONFIG (2 * (wc_retries DEFAULT_CONFIG + 2)) locks (drain 0 w) of
         None \<Rightarrow> Inr () | Some e \<Rightarrow> Inl e),
       g\<lparr>ng_writer := Some (flush (nh_env H) DEFAULT_CONFIG locks w)\<rparr>))"

definition tele_shutdown :: "tele_host \<Rightarrow> bool list \<Rightarrow> unit tele" where
  "tele_shutdown H locks =
     seq (modify tele_unsubscribe)
      (seq (flush_on_read H locks)
        (modify (\<lambda>g. g\<lparr>ng_open := False, ng_writer := None,
           ng_disk := (case ng_writer g of None \<Rightarrow> ng_disk g | Some w \<Rightarrow> wt_db w)\<rparr>)))"

section \<open>Queries\<close>

definition tele_data :: "tele_engine \<Rightarrow> tele_db" where
  "tele_data g = (case ng_writer g of None \<Rightarrow> ng_disk g | Some w \<Rightarrow> wt_db w)"

definition tele_read :: "tele_host \<Rightarrow> bool list \<Rightarrow> 'a \<Rightarrow> (tele_db \<Rightarrow> exn + 'a) \<Rightarrow> 'a tele" where
  "tele_read H locks absent q = bnd (gets ng_open) (\<lambda>is_open.
     if \<not> is_open then ret absent
     else seq (flush_on_read H locks) (bnd (gets tele_data) (\<lambda>db. of_sum (q db))))"

definition no_report :: usage_report where
  "no_report = \<lparr>ur_input = 0, ur_output = 0, ur_total = 0, ur_cost = 0, ur_by_agent = [], ur_by_model = [], ur_records = [],
     ur_costs = [], ur_executions = [], ur_record_count = 0, ur_execution_count = 0\<rparr>"

definition tele_query :: "tele_host \<Rightarrow> bool list \<Rightarrow> tele_filter \<Rightarrow> int \<Rightarrow> usage_report tele" where
  "tele_query H locks f limit = tele_read H locks no_report (aggregate_usage (nh_env H) f limit)"

definition tele_query_retrieval :: "tele_host \<Rightarrow> bool list \<Rightarrow> string \<Rightarrow> int \<Rightarrow> (int \<times> pydict) list tele" where
  "tele_query_retrieval H locks agent limit = tele_read H locks [] (\<lambda>db. Inr (query_retrieval (nh_env H) agent limit db))"

definition tele_query_skill_stats ::
  "tele_host \<Rightarrow> bool list \<Rightarrow> string \<Rightarrow> string \<Rightarrow> string \<Rightarrow> string \<Rightarrow> int \<Rightarrow> skill_stats list tele" where
  "tele_query_skill_stats H locks skill agent a z limit =
     tele_read H locks [] (\<lambda>db. Inr (query_skill_stats (nh_env H) skill agent a z limit db))"

definition tele_query_gate_stats ::
  "tele_host \<Rightarrow> bool list \<Rightarrow> string \<Rightarrow> string \<Rightarrow> string \<Rightarrow> string \<Rightarrow> int \<Rightarrow> gate_stats list tele" where
  "tele_query_gate_stats H locks gate status a z limit =
     tele_read H locks [] (\<lambda>db. Inr (query_gate_stats (nh_env H) gate status a z limit db))"

definition tele_query_gate_records ::
  "tele_host \<Rightarrow> bool list \<Rightarrow> string \<Rightarrow> string \<Rightarrow> string \<Rightarrow> string \<Rightarrow> int \<Rightarrow> (int \<times> pydict) list tele" where
  "tele_query_gate_records H locks gate status a z limit =
     tele_read H locks [] (\<lambda>db. Inr (query_gate_records (nh_env H) gate status a z limit db))"

definition tele_query_security_stats ::
  "tele_host \<Rightarrow> bool list \<Rightarrow> string \<Rightarrow> string \<Rightarrow> string \<Rightarrow> string \<Rightarrow> int \<Rightarrow> security_stats list tele" where
  "tele_query_security_stats H locks decision agent a z limit =
     tele_read H locks [] (\<lambda>db. Inr (query_security_stats (nh_env H) decision agent a z limit db))"

definition tele_query_security_records ::
  "tele_host \<Rightarrow> bool list \<Rightarrow> string \<Rightarrow> string \<Rightarrow> bool option \<Rightarrow> string \<Rightarrow> string \<Rightarrow> int \<Rightarrow> (int \<times> pydict) list tele" where
  "tele_query_security_records H locks decision agent allowed a z limit =
     tele_read H locks [] (query_security_records (nh_env H) decision agent allowed a z limit)"

definition tele_query_routing_stats ::
  "tele_host \<Rightarrow> bool list \<Rightarrow> string \<Rightarrow> string \<Rightarrow> string \<Rightarrow> string \<Rightarrow> int \<Rightarrow> routing_stats list tele" where
  "tele_query_routing_stats H locks agent model a z limit =
     tele_read H locks [] (\<lambda>db. Inr (query_routing_stats (nh_env H) agent model a z limit db))"

definition tele_query_routing_records ::
  "tele_host \<Rightarrow> bool list \<Rightarrow> string \<Rightarrow> string \<Rightarrow> string \<Rightarrow> string \<Rightarrow> int \<Rightarrow> pydict list tele" where
  "tele_query_routing_records H locks agent model a z limit =
     tele_read H locks [] (\<lambda>db. Inr (query_routing_records (nh_env H) agent model a z limit db))"

definition tele_query_route_accuracy :: "tele_host \<Rightarrow> bool list \<Rightarrow> int \<Rightarrow> route_accuracy list tele" where
  "tele_query_route_accuracy H locks limit = tele_read H locks [] (\<lambda>db. Inr (query_route_accuracy limit db))"

definition tele_query_backlog_stats ::
  "tele_host \<Rightarrow> bool list \<Rightarrow> string \<Rightarrow> string \<Rightarrow> string \<Rightarrow> string \<Rightarrow> int \<Rightarrow> pydict list tele" where
  "tele_query_backlog_stats H locks run status a z limit =
     tele_read H locks [] (\<lambda>db. Inr (query_backlog_stats (nh_env H) run status a z limit db))"


section \<open>Records\<close>

text \<open>\<open>a or b\<close>\<close>

definition or_val :: "pyval \<Rightarrow> pyval \<Rightarrow> pyval" where
  "or_val a b = (if truthy a then a else b)"

text \<open>\<open>a + b\<close> on two values, and \<open>int(v)\<close>.\<close>

fun as_int :: "pyval \<Rightarrow> int option" where
  "as_int (PInt i) = Some i"
| "as_int (PBool b) = Some (if b then 1 else 0)"
| "as_int _ = None"

definition py_add :: "pyval \<Rightarrow> pyval \<Rightarrow> exn + pyval" where
  "py_add a b = (case (as_int a, as_int b) of
     (Some i, Some j) \<Rightarrow> Inr (PInt (i + j))
   | _ \<Rightarrow> (case (num a, num b) of
       (Some x, Some y) \<Rightarrow> Inr (PFloat (x + y))
     | _ \<Rightarrow> (case (a, b) of
         (PStr s, PStr t) \<Rightarrow> Inr (PStr (s @ t))
       | (PList xs, PList ys) \<Rightarrow> Inr (PList (xs @ ys))
       | _ \<Rightarrow> Inl (Exn TypeError ''unsupported operand''))))"

fun py_int :: "pyval \<Rightarrow> exn + int" where
  "py_int (PInt i) = Inr i"
| "py_int (PBool b) = Inr (if b then 1 else 0)"
| "py_int (PFloat r) = Inr (if r < 0 then \<lceil>r\<rceil> else \<lfloor>r\<rfloor>)"
| "py_int (PStr s) = int_of_str s"
| "py_int _ = Inl (Exn TypeError ''int() argument must be a string or a number'')"

definition push :: "string \<Rightarrow> pydict \<Rightarrow> unit tele" where
  "push key r = modify (\<lambda>g. case ng_writer g of
     None \<Rightarrow> g | Some w \<Rightarrow> g\<lparr>ng_writer := Some (enqueue DEFAULT_CONFIG (key, r) w)\<rparr>)"

text \<open>The guards of every handler: a writer, and a payload that is a dictionary.\<close>

definition with_payload :: "event \<Rightarrow> (pydict \<Rightarrow> unit tele) \<Rightarrow> unit tele" where
  "with_payload ev f = bnd (gets ng_writer) (\<lambda>w. case w of
     None \<Rightarrow> ret () | Some _ \<Rightarrow> (case ev_payload ev of PDict p \<Rightarrow> f p | _ \<Rightarrow> ret ()))"

definition copied :: "pydict \<Rightarrow> string \<times> pyval \<Rightarrow> string \<times> pyval" where
  "copied p c = (fst c, dict_get p (fst c) (snd c))"

definition stamped :: "tele_host \<Rightarrow> pydict \<Rightarrow> string \<times> pyval" where
  "stamped H p = copied p (''timestamp'', PStr (ne_now (nh_env H)))"

definition correlated :: "event \<Rightarrow> pydict \<Rightarrow> string \<times> pyval" where
  "correlated ev p = (''correlation_id'', or_val (dict_get p ''correlation_id'' PNone) (PStr (ev_correlation ev)))"

definition as_bool :: "pydict \<Rightarrow> string \<Rightarrow> string \<times> pyval" where
  "as_bool p k = (k, PBool (truthy (dict_get p k PNone)))"

section \<open>Handlers\<close>

definition execution_record :: "tele_host \<Rightarrow> pydict \<Rightarrow> pydict \<Rightarrow> pydict" where
  "execution_record H p obs =
     [copied p (''execution_id'', PStr ''''), copied p (''event_id'', PStr (nh_hash H p)),
      copied p (''correlation_id'', PStr ''''), copied p (''task_id'', PStr ''''), copied p (''workflow_id'', PNone),
      copied p (''agent'', PStr ''''), (''model'', or_val (dict_get p ''model'' PNone) (dict_get obs ''model'' PNone)),
      (''provider'', or_val (dict_get p ''provider'' PNone) (dict_get obs ''provider'' PNone)),
      copied p (''runtime'', PNone), copied p (''attempt'', PInt 1), copied p (''status'', PStr ''''),
      copied p (''duration_ms'', PNone), copied obs (''tool_calls'', PInt 0), copied obs (''llm_turns'', PInt 0),
      copied obs (''total_cost'', PFloat 0), stamped H p]"

definition persist_execution :: "tele_host \<Rightarrow> event \<Rightarrow> unit tele" where
  "persist_execution H ev = with_payload ev (\<lambda>p.
     case or_val (dict_get p ''observability'' PNone) (PDict []) of
       PDict obs \<Rightarrow> push ''executions'' (execution_record H p obs)
     | _ \<Rightarrow> raise (Exn AttributeError ''object has no attribute get''))"

definition usage_record :: "tele_host \<Rightarrow> pydict \<Rightarrow> pydict \<Rightarrow> pydict" where
  "usage_record H u p =
     [copied p (''execution_id'', PStr ''''), copied p (''agent'', PStr ''''), copied u (''model'', PStr ''''),
      copied u (''provider'', PStr ''''), copied u (''input_tokens'', PNone), copied u (''output_tokens'', PNone),
      copied u (''total_tokens'', PNone), copied u (''cached_tokens'', PNone), copied u (''reasoning_tokens'', PNone),
      copied u (''context_tokens'', PNone), copied u (''provider_raw'', PNone), stamped H u]"

definition persist_usage :: "tele_host \<Rightarrow> pydict \<Rightarrow> pydict \<Rightarrow> unit tele" where
  "persist_usage H u p = (let r = usage_record H u p; get = (\<lambda>k. dict_get r k PNone) in
     if \<not> truthy (get ''total_tokens'') \<and> truthy (get ''input_tokens'') \<and> truthy (get ''output_tokens'')
     then bnd (of_sum (py_add (get ''input_tokens'') (get ''output_tokens''))) (\<lambda>t. push ''usage'' (dict_set ''total_tokens'' t r))
     else push ''usage'' r)"

definition persist_cost :: "tele_host \<Rightarrow> pydict \<Rightarrow> pydict \<Rightarrow> unit tele" where
  "persist_cost H u p =
     bnd (of_sum (price_usage (nh_env H) (dict_get u ''provider'' (PStr '''')) (dict_get u ''model'' (PStr ''''))
         (dict_get u ''input_tokens'' PNone) (dict_get u ''output_tokens'' PNone)))
       (\<lambda>c. push ''costs'' (dict_set ''execution_id'' (dict_get p ''execution_id'' (PStr '''')) c))"

definition counted_usage :: "pydict \<Rightarrow> pydict option" where
  "counted_usage p =
     (if dict_get p ''status'' PNone \<noteq> PStr ''succeeded'' then None
      else case dict_get p ''usage'' PNone of
        PDict u \<Rightarrow> if u \<noteq> [] \<and> list_ex (\<lambda>k. dict_get u k PNone \<noteq> PNone) [''input_tokens'', ''output_tokens'', ''total_tokens'']
          then Some u else None
      | _ \<Rightarrow> None)"

definition on_execution_event :: "tele_host \<Rightarrow> event \<Rightarrow> unit tele" where
  "on_execution_event H ev = seq (persist_execution H ev) (with_payload ev (\<lambda>p. case counted_usage p of
     None \<Rightarrow> ret () | Some u \<Rightarrow> seq (persist_usage H u p) (persist_cost H u p)))"

definition on_lifecycle_event :: "tele_host \<Rightarrow> event \<Rightarrow> unit tele" where
  "on_lifecycle_event H ev = persist_execution H ev"

definition GATE_TOPIC_STATUS :: "(string \<times> string) list" where
  "GATE_TOPIC_STATUS = [(''quality.gate_passed'', ''passed''), (''quality.gate_failed'', ''failed''),
     (''quality.gate_blocked'', ''blocked''), (''quality.gate_completed'', ''completed'')]"

definition gate_status :: "tele_host \<Rightarrow> string \<Rightarrow> pydict \<Rightarrow> string option" where
  "gate_status H topic p = (let v = dict_get p ''status'' PNone in
     if truthy v then Some (py_str (nh_show H) v) else map_of GATE_TOPIC_STATUS topic)"

definition gate_count :: "pydict \<Rightarrow> string \<Rightarrow> exn + string \<times> pyval" where
  "gate_count p level =
     (let findings = (case dict_get p ''findings'' PNone of PDict f \<Rightarrow> f | _ \<Rightarrow> []); c = ''findings_'' @ level in
      sum_bind (py_int (or_val (dict_get findings level (dict_get p c (PInt 0))) (PInt 0))) (\<lambda>n. Inr (c, PInt n)))"

definition on_gate_event :: "tele_host \<Rightarrow> event \<Rightarrow> unit tele" where
  "on_gate_event H ev = with_payload ev (\<lambda>p. case gate_status H (ev_topic ev) p of
     None \<Rightarrow> ret ()
   | Some status \<Rightarrow>
       bnd (of_sum (gate_count p ''low'')) (\<lambda>low. bnd (of_sum (gate_count p ''medium'')) (\<lambda>medium.
       bnd (of_sum (gate_count p ''high'')) (\<lambda>high. bnd (of_sum (gate_count p ''critical'')) (\<lambda>critical.
         push ''gates'' [copied p (''gate'', PStr ''''), (''status'', PStr status), correlated ev p,
           copied p (''duration_ms'', PNone), low, medium, high, critical, as_bool p ''blocked'', as_bool p ''overridden'',
           stamped H p])))))"

definition on_security_event :: "tele_host \<Rightarrow> event \<Rightarrow> unit tele" where
  "on_security_event H ev = with_payload ev (\<lambda>p.
     push ''security'' [copied p (''decision'', PStr ''''), copied p (''agent'', PStr ''''), copied p (''action'', PStr ''''),
       as_bool p ''allowed'', copied p (''reason'', PStr ''''), copied p (''violations'', PList []),
       copied p (''intent_source'', PStr ''''), correlated ev p, stamped H p])"

definition on_routing_event :: "tele_host \<Rightarrow> event \<Rightarrow> unit tele" where
  "on_routing_event H ev = with_payload ev (\<lambda>p.
     push ''routing'' (map (copied p) (texts [''agent'', ''task_type'', ''complexity'', ''provider'', ''model'', ''variant'', ''reason''] @
         [(''estimated_cost'', PFloat 0), (''context_size'', PInt 0), (''source'', PStr '''')]) @
       [as_bool p ''fallback_used'', copied p (''fallback_reason'', PStr ''''), correlated ev p, stamped H p]))"

definition on_backlog_event :: "tele_host \<Rightarrow> event \<Rightarrow> unit tele" where
  "on_backlog_event H ev = with_payload ev (\<lambda>p.
     push ''backlog'' (map (copied p) ([(''run_id'', PStr ''''), (''task_index'', PInt 0)] @
         texts [''task_title'', ''task_type'', ''task_scope'', ''status'', ''commit_sha''] @
         [(''duration_ms'', PNone), (''error'', PStr ''''), (''source'', PStr '''')]) @ [stamped H p]))"

definition record_retrieval :: "pydict \<Rightarrow> unit tele" where
  "record_retrieval metrics = push ''retrieval'' metrics"

definition record_skill_usage :: "pydict \<Rightarrow> unit tele" where
  "record_skill_usage r = push ''skills'' r"

fun tele_handle :: "tele_host \<Rightarrow> tele_handler \<Rightarrow> event \<Rightarrow> unit tele" where
  "tele_handle H OnLifecycle = on_lifecycle_event H"
| "tele_handle H OnExecution = on_execution_event H"
| "tele_handle H OnGate = on_gate_event H"
| "tele_handle H OnSecurity = on_security_event H"
| "tele_handle H OnRouting = on_routing_event H"
| "tele_handle H OnBacklog = on_backlog_event H"

definition tele_publish :: "tele_host \<Rightarrow> string \<Rightarrow> string \<Rightarrow> pyval \<Rightarrow> string \<Rightarrow> unit tele" where
  "tele_publish H now topic payload correlation = bnd (gets ng_bus) (\<lambda>b. case b of
     None \<Rightarrow> ret () | Some subs \<Rightarrow> publish (tele_handle H) now subs topic payload correlation)"

end
