(* ===== verification/TelemetryEngineProps.thy ===== *)
theory TelemetryEngineProps
  imports TelemetryEngine
begin

text \<open>
  What the telemetry engine promises: its handlers only buffer, so publishing neither fails nor touches the database,
  and a query sees every record buffered before it, in order, as long as the buffer never fills, the records are sound
  and the database is not locked longer than the back-off.
\<close>

section \<open>Handlers only buffer\<close>

definition grows :: "nat \<Rightarrow> tele_engine \<Rightarrow> tele_engine \<Rightarrow> bool" where
  "grows n g h \<longleftrightarrow> (\<exists>es. length es \<le> n \<and>
     h = g\<lparr>ng_writer := map_option (fold (enqueue DEFAULT_CONFIG) es) (ng_writer g)\<rparr>)"

definition buffers :: "nat \<Rightarrow> unit tele \<Rightarrow> bool" where
  "buffers n m \<longleftrightarrow> (\<forall>g. grows n g (snd (m g)))"

lemma grows_refl: "grows n g g"
  unfolding grows_def by (rule exI [of _ "[]"]) (simp add: option.map_id0)

lemma grows_trans: "grows m g h \<Longrightarrow> grows n h i \<Longrightarrow> grows (m + n) g i"
proof -
  assume "grows m g h" "grows n h i"
  then obtain es fs where es: "length es \<le> m" "h = g\<lparr>ng_writer := map_option (fold (enqueue DEFAULT_CONFIG) es) (ng_writer g)\<rparr>"
    and fs: "length fs \<le> n" "i = h\<lparr>ng_writer := map_option (fold (enqueue DEFAULT_CONFIG) fs) (ng_writer h)\<rparr>"
    unfolding grows_def by blast
  then show ?thesis unfolding grows_def
    by (intro exI [of _ "es @ fs"]) (simp add: option.map_comp comp_def)
qed

lemma grows_mono: "grows m g h \<Longrightarrow> m \<le> n \<Longrightarrow> grows n g h"
  unfolding grows_def using le_trans by blast

lemma buffers_ret: "buffers n (ret x)"
  by (simp add: buffers_def py_run grows_refl)

lemma buffers_raise: "buffers n (raise e)"
  by (simp add: buffers_def py_run grows_refl)

lemma buffers_push: "buffers (Suc 0) (push k r)"
proof -
  have "grows (Suc 0) g (snd (push k r g))" for g
    unfolding grows_def by (intro exI [of _ "[(k, r)]"]) (simp add: push_def py_run split: option.split)
  then show ?thesis by (simp add: buffers_def)
qed

lemma buffers_seq: "buffers m a \<Longrightarrow> buffers n b \<Longrightarrow> buffers (m + n) (seq a b)"
  unfolding buffers_def
  by (auto simp: py_run split: prod.split sum.split) (metis grows_mono grows_trans le_add1 snd_conv)+

lemma buffers_with_payload: "(\<And>p. buffers n (f p)) \<Longrightarrow> buffers n (with_payload ev f)"
  by (auto simp: buffers_def with_payload_def py_run grows_refl split: option.split pyval.split)

lemma buffers_of_sum: "(\<And>x. buffers n (f x)) \<Longrightarrow> buffers n (bnd (of_sum r) f)"
  by (cases r) (auto simp: buffers_def py_run grows_refl)

lemma buffers_mono: "buffers m a \<Longrightarrow> m \<le> n \<Longrightarrow> buffers n a"
  unfolding buffers_def using grows_mono by blast

lemma buffers_execution: "buffers (Suc 0) (persist_execution H ev)"
  unfolding persist_execution_def
  by (rule buffers_with_payload) (auto intro: buffers_push buffers_raise split: pyval.split)

lemma buffers_usage: "buffers (Suc 0) (persist_usage H u p)"
  unfolding persist_usage_def Let_def by (auto intro: buffers_push buffers_of_sum)

lemma buffers_cost: "buffers (Suc 0) (persist_cost H u p)"
  unfolding persist_cost_def by (intro buffers_of_sum buffers_push)

lemma buffers_usage_cost: "buffers 2 (seq (persist_usage H u p) (persist_cost H u p))"
  using buffers_seq [OF buffers_usage buffers_cost] by (simp add: numeral_2_eq_2)

lemma buffers_handler: "buffers 3 (tele_handle H h ev)"
proof (cases h)
  case OnExecution
  have "buffers 2 (case counted_usage p of None \<Rightarrow> ret () | Some u \<Rightarrow> seq (persist_usage H u p) (persist_cost H u p))" for p
    by (auto intro: buffers_ret buffers_usage_cost split: option.split)
  then have "buffers (Suc 0 + 2) (tele_handle H h ev)"
    unfolding OnExecution tele_handle.simps on_execution_event_def
    by (intro buffers_seq buffers_execution buffers_with_payload)
  then show ?thesis by (rule buffers_mono) simp
next
  case OnGate
  have "buffers (Suc 0) (tele_handle H h ev)" unfolding OnGate tele_handle.simps on_gate_event_def
    by (rule buffers_with_payload) (auto intro!: buffers_ret buffers_of_sum buffers_push split: option.split)
  then show ?thesis by (rule buffers_mono) simp
qed (auto simp: on_lifecycle_event_def on_security_event_def on_routing_event_def on_backlog_event_def
    intro!: buffers_mono [OF buffers_execution] buffers_mono [OF buffers_push] buffers_with_payload)

lemma grows_handlers: "grows (3 * length hs) g (fold (\<lambda>h g. snd (tele_handle H h ev g)) hs g)"
proof (induction hs arbitrary: g)
  case Nil
  then show ?case by (simp add: grows_refl)
next
  case (Cons h hs)
  have "grows 3 g (snd (tele_handle H h ev g))" using buffers_handler by (simp add: buffers_def)
  from grows_trans [OF this Cons.IH] show ?case by simp
qed

definition handlers_of :: "tele_engine \<Rightarrow> string \<Rightarrow> tele_handler list" where
  "handlers_of g topic = (case ng_bus g of None \<Rightarrow> [] | Some subs \<Rightarrow> resolve_handlers subs topic)"

lemma publish_grows:
  "\<exists>h. tele_publish H now topic payload c g = (Inr (), h) \<and> grows (3 * length (handlers_of g topic)) g h"
  unfolding tele_publish_def handlers_of_def
  by (auto simp: py_run publish_def deliver_fold grows_refl grows_handlers split: option.split)

lemma tele_publish_fold:
  "ng_bus g = Some subs \<Longrightarrow> snd (tele_publish H now topic payload c g) =
     fold (\<lambda>h g. snd (tele_handle H h \<lparr>ev_topic = topic, ev_payload = payload, ev_timestamp = now, ev_correlation = c\<rparr> g))
       (resolve_handlers subs topic) g"
  by (simp add: tele_publish_def py_run publish_def deliver_fold)

lemma fold_enqueue_db: "wt_db (fold (enqueue C) es w) = wt_db w"
  by (induction es arbitrary: w) (simp_all add: enqueue_def Let_def)

lemma grows_data: "grows n g h \<Longrightarrow> tele_data h = tele_data g \<and> ng_bus h = ng_bus g"
  by (auto simp: grows_def tele_data_def fold_enqueue_db split: option.split)


section \<open>A patient flush\<close>

text \<open>A flush is patient when the database is locked no longer than the back-off lasts.\<close>

definition patient :: "bool list \<Rightarrow> bool" where
  "patient locks \<longleftrightarrow> length (takeWhile (\<lambda>b. b) locks) \<le> wc_retries DEFAULT_CONFIG"

lemma locked_round:
  assumes "wt_phase v = Writing n batch" "wt_buffer v = []" "batch \<noteq> []" "length batch \<le> wc_capacity C" "n < wc_retries C"
  shows "wt_phase (write_step E C True n batch v) = Waiting n"
    and "drain (n + 1) (write_step E C True n batch v) = v\<lparr>wt_phase := Writing (n + 1) batch\<rparr>"
  using assms by (simp_all add: write_step_def requeue_def drain_def)

lemma patient_loop:
  assumes "wt_phase v = Writing n batch" "wt_buffer v = []" "batch \<noteq> []" "length batch \<le> wc_capacity C"
    "n + length (takeWhile (\<lambda>b. b) locks) \<le> wc_retries C" "2 * length (takeWhile (\<lambda>b. b) locks) < k"
    "write_batch E batch (wt_db v) = Inr db"
  shows "flush_loop E C k locks v = write_step E C False n batch v \<and> flush_error E C k locks v = None"
  using assms
proof (induction locks arbitrary: n k v)
  case Nil
  then obtain j where k: "k = Suc j" by (cases k) auto
  have "wt_phase (write_step E C False n batch v) = Idle" using Nil.prems(7) by (simp add: write_step_def)
  then show ?case using Nil.prems(1,7) by (simp add: k flush_loop_idle)
next
  case (Cons b locks)
  show ?case
  proof (cases b)
    case False
    obtain j where k: "k = Suc j" using Cons.prems(6) by (cases k) auto
    have "wt_phase (write_step E C False n batch v) = Idle" using Cons.prems(7) by (simp add: write_step_def)
    then show ?thesis using Cons.prems(1,7) False by (simp add: k flush_loop_idle)
  next
    case True
    with Cons.prems(5,6) obtain j where k: "k = Suc (Suc j)" and j: "2 * length (takeWhile (\<lambda>b. b) locks) < j"
      and n: "n < wc_retries C" and m: "n + 1 + length (takeWhile (\<lambda>b. b) locks) \<le> wc_retries C"
      by (cases k; cases "k - 1") auto
    let ?u = "v\<lparr>wt_phase := Writing (n + 1) batch\<rparr>"
    note round = locked_round [OF Cons.prems(1-4) n]
    have "flush_loop E C j locks ?u = write_step E C False (n + 1) batch ?u \<and> flush_error E C j locks ?u = None"
      using Cons.prems(2-4,7) m j by (intro Cons.IH) simp_all
    moreover have "write_step E C False (n + 1) batch ?u = write_step E C False n batch v"
      using Cons.prems(7) by (simp add: write_step_def)
    ultimately show ?thesis using round [of E] Cons.prems(1) True by (simp add: k)
  qed
qed

lemma patient_flush:
  assumes "wt_phase w = Idle" "patient locks" "length (wt_buffer w) \<le> wc_capacity DEFAULT_CONFIG"
    "write_batch E (wt_buffer w) (wt_db w) = Inr db"
  shows "let u = flush E DEFAULT_CONFIG locks w in wt_phase u = Idle \<and> wt_buffer u = [] \<and> wt_db u = db \<and>
      wt_stored u = wt_stored w @ wt_buffer w \<and> wt_history u = wt_history w"
    and "flush_error E DEFAULT_CONFIG (2 * (wc_retries DEFAULT_CONFIG + 2)) locks (drain 0 w) = None"
proof -
  have both: "(let u = flush E DEFAULT_CONFIG locks w in wt_phase u = Idle \<and> wt_buffer u = [] \<and> wt_db u = db \<and>
      wt_stored u = wt_stored w @ wt_buffer w \<and> wt_history u = wt_history w) \<and>
    flush_error E DEFAULT_CONFIG (2 * (wc_retries DEFAULT_CONFIG + 2)) locks (drain 0 w) = None"
  proof (cases "wt_buffer w = []")
    case True
    then have "db = wt_db w" using assms(4) by (simp add: write_batch_def grouped_def)
    then show ?thesis using True assms(1) by (simp add: flush_def drain_def flush_loop_idle numeral_2_eq_2)
  next
    case False
    let ?v = "w\<lparr>wt_buffer := [], wt_phase := Writing 0 (wt_buffer w)\<rparr>"
    have loop: "flush_loop E DEFAULT_CONFIG (2 * (wc_retries DEFAULT_CONFIG + 2)) locks ?v = write_step E DEFAULT_CONFIG False 0 (wt_buffer w) ?v \<and>
        flush_error E DEFAULT_CONFIG (2 * (wc_retries DEFAULT_CONFIG + 2)) locks ?v = None"
      using assms False by (intro patient_loop [where n = 0 and batch = "wt_buffer w"]) (simp_all add: patient_def)
    have "drain 0 w = ?v" using False by (simp add: drain_def)
    then show ?thesis using loop assms(4) by (simp add: flush_def write_step_def Let_def)
  qed
  then show "let u = flush E DEFAULT_CONFIG locks w in wt_phase u = Idle \<and> wt_buffer u = [] \<and> wt_db u = db \<and>
      wt_stored u = wt_stored w @ wt_buffer w \<and> wt_history u = wt_history w"
    and "flush_error E DEFAULT_CONFIG (2 * (wc_retries DEFAULT_CONFIG + 2)) locks (drain 0 w) = None" by simp_all
qed

section \<open>Sound records\<close>

definition sound_entry :: "tele_env \<Rightarrow> entry \<Rightarrow> bool" where
  "sound_entry E x \<longleftrightarrow> (case map_of TABLE_KEYS (fst x) of
     None \<Rightarrow> False
   | Some t \<Rightarrow> (case build_row E t (snd x) of
       Inl e \<Rightarrow> False | Inr row \<Rightarrow> first_error (map snd row) = None \<and> \<not> missing_column t row))"

lemma sound_group:
  assumes "list_all (\<lambda>r. sound_entry E (k, r)) rs" "rs \<noteq> []"
  shows "\<exists>db'. insert_many E k rs db = Inr db'"
proof -
  obtain t where t: "map_of TABLE_KEYS k = Some t" using assms by (cases rs) (auto simp: sound_entry_def split: option.splits)
  have rows: "\<exists>rows. build_rows E t rs = Inr rows \<and> list_all (\<lambda>row. first_error (map snd row) = None \<and> \<not> missing_column t row) rows"
    using assms(1) by (induction rs) (auto simp: sound_entry_def t split: sum.splits)
  have inserts: "list_all (\<lambda>row. first_error (map snd row) = None \<and> \<not> missing_column t row) rows \<Longrightarrow>
      \<exists>db'. sql_inserts t rows db = Inr db'" for rows
    by (induction rows arbitrary: db) (auto simp: sql_insert_def)
  from rows inserts show ?thesis by (auto simp: insert_many_def t)
qed

lemma sound_groups:
  "list_all (\<lambda>(k, rs). rs \<noteq> [] \<and> list_all (\<lambda>r. sound_entry E (k, r)) rs) gs \<Longrightarrow> \<exists>db'. insert_groups E gs db = Inr db'"
proof (induction gs arbitrary: db)
  case (Cons g gs)
  obtain k rs where g: "g = (k, rs)" by (cases g)
  obtain d where "insert_many E k rs db = Inr d" using sound_group [of E k rs db] Cons.prems by (auto simp: g)
  then show ?case using Cons by (simp add: g)
qed simp

lemma grouped_sound:
  assumes "list_all (sound_entry E) batch"
  shows "list_all (\<lambda>(k, rs). rs \<noteq> [] \<and> list_all (\<lambda>r. sound_entry E (k, r)) rs) (grouped batch)"
proof -
  let ?ok = "\<lambda>(k, rs). rs \<noteq> [] \<and> list_all (\<lambda>r. sound_entry E (k, r)) rs"
  have add: "list_all ?ok (dict_set k (dict_get g k [] @ [r]) g)" if g: "list_all ?ok g" and r: "sound_entry E (k, r)" for g k r
  proof -
    have old: "list_all (\<lambda>r. sound_entry E (k, r)) (dict_get g k [])"
    proof (cases "map_of g k")
      case (Some v)
      then have "(k, v) \<in> set g" by (rule map_of_SomeD)
      then have "?ok (k, v)" using g by (simp only: list_all_iff)
      then show ?thesis using Some by (simp add: dict_get_def)
    qed (simp add: dict_get_def)
    have "\<forall>x \<in> set (dict_set k v g). x \<in> set g \<or> x = (k, v)" for v
      unfolding dict_set_def by (induction g) auto
    then show ?thesis using g r old unfolding list_all_iff by fastforce
  qed
  have "list_all (sound_entry E) batch \<Longrightarrow> list_all ?ok g \<Longrightarrow>
    list_all ?ok (foldl (\<lambda>g (k, r). dict_set k (dict_get g k [] @ [r]) g) g batch)" for g
    using add by (induction batch arbitrary: g) auto
  then show ?thesis using assms by (simp add: grouped_def)
qed

lemma sound_batch: "list_all (sound_entry E) batch \<Longrightarrow> \<exists>db'. write_batch E batch db = Inr db'"
  unfolding write_batch_def by (rule sound_groups [OF grouped_sound])


section \<open>Runs of the engine\<close>

text \<open>What happens to a started engine, one thing after another: an event, a direct recording, a flush of the
  background thread.\<close>

datatype tele_op = Published string pyval string | Retrieved pydict | SkillUsed pydict | Ticked "bool list"

fun tele_step :: "tele_host \<Rightarrow> tele_op \<Rightarrow> tele_engine \<Rightarrow> tele_engine" where
  "tele_step H (Published topic payload c) g = snd (tele_publish H (ne_now (nh_env H)) topic payload c g)"
| "tele_step H (Retrieved metrics) g = snd (record_retrieval metrics g)"
| "tele_step H (SkillUsed r) g = snd (record_skill_usage r g)"
| "tele_step H (Ticked locks) g = snd (flush_on_read H locks g)"

definition tele_run :: "tele_host \<Rightarrow> tele_op list \<Rightarrow> tele_engine \<Rightarrow> tele_engine" where
  "tele_run H opers g = fold (tele_step H) opers g"

definition tele_start :: "tele_db \<Rightarrow> tele_engine" where
  "tele_start db = tele_initialize (tele_set_event_bus (Some EventBus_init) (tele_new db))"

fun patient_op :: "tele_op \<Rightarrow> bool" where
  "patient_op (Ticked locks) = patient locks"
| "patient_op _ = True"

definition recorded :: "tele_engine \<Rightarrow> entry list" where
  "recorded g = (case ng_writer g of None \<Rightarrow> [] | Some w \<Rightarrow> wt_history w)"

text \<open>The writer is between flushes, has lost nothing, and the database holds what was stored.\<close>

definition kept :: "tele_host \<Rightarrow> tele_db \<Rightarrow> tele_engine \<Rightarrow> bool" where
  "kept H db0 g \<longleftrightarrow> ng_open g \<and> (\<exists>w. ng_writer g = Some w \<and> wt_phase w = Idle \<and>
     wt_history w = wt_stored w @ wt_buffer w \<and> insert_each (nh_env H) (wt_stored w) db0 = Inr (wt_db w))"

definition storable :: "tele_host \<Rightarrow> entry list \<Rightarrow> bool" where
  "storable H es \<longleftrightarrow> list_all (sound_entry (nh_env H)) es \<and> length es \<le> wc_capacity DEFAULT_CONFIG"

lemma storable_append: "storable H (a @ b) \<Longrightarrow> storable H a"
  by (simp add: storable_def)

lemma insert_each_append:
  "insert_each E a db = Inr d \<Longrightarrow> insert_each E (a @ b) db = insert_each E b d"
  by (induction a arbitrary: db) (auto split: option.splits sum.splits)

lemma enqueue_history: "wt_history (fold (enqueue C) es w) = wt_history w @ es"
  by (induction es arbitrary: w) (simp_all add: enqueue_def Let_def)

lemma enqueue_kept:
  assumes "wt_history w = wt_stored w @ wt_buffer w" "length (wt_history w) + length es \<le> wc_capacity C"
  shows "wt_buffer (fold (enqueue C) es w) = wt_buffer w @ es \<and> wt_stored (fold (enqueue C) es w) = wt_stored w \<and>
    wt_phase (fold (enqueue C) es w) = wt_phase w"
  using assms by (induction es arbitrary: w) (simp_all add: enqueue_def Let_def)

lemma grows_kept:
  assumes "kept H db0 g" "grows n g h" "storable H (recorded h)"
  shows "kept H db0 h \<and> (\<exists>es. recorded h = recorded g @ es)"
proof -
  obtain w es where w: "ng_open g" "ng_writer g = Some w" "wt_phase w = Idle" "wt_history w = wt_stored w @ wt_buffer w"
      "insert_each (nh_env H) (wt_stored w) db0 = Inr (wt_db w)"
    and h: "h = g\<lparr>ng_writer := Some (fold (enqueue DEFAULT_CONFIG) es w)\<rparr>"
    using assms(1,2) by (auto simp: kept_def grows_def)
  have len: "length (wt_history w) + length es \<le> wc_capacity DEFAULT_CONFIG"
    using assms(3) by (simp add: h recorded_def storable_def enqueue_history)
  show ?thesis using w enqueue_kept [OF w(4) len]
    by (simp add: kept_def h recorded_def enqueue_history fold_enqueue_db)
qed

lemma flush_kept:
  assumes kept: "kept H db0 g" and patient: "patient locks" and storable: "storable H (recorded g)"
  shows "\<exists>h db. flush_on_read H locks g = (Inr (), h) \<and> kept H db0 h \<and> recorded h = recorded g \<and> tele_data h = db \<and>
    insert_each (nh_env H) (recorded g) db0 = Inr db"
proof -
  obtain w where w: "ng_open g" "ng_writer g = Some w" "wt_phase w = Idle" "wt_history w = wt_stored w @ wt_buffer w"
      "insert_each (nh_env H) (wt_stored w) db0 = Inr (wt_db w)"
    using kept by (auto simp: kept_def)
  have sound: "list_all (sound_entry (nh_env H)) (wt_buffer w)" "length (wt_buffer w) \<le> wc_capacity DEFAULT_CONFIG"
    using storable w by (simp_all add: storable_def recorded_def)
  obtain db where db: "write_batch (nh_env H) (wt_buffer w) (wt_db w) = Inr db" using sound_batch [OF sound(1)] by blast
  note u = patient_flush [OF w(3) patient sound(2) db]
  have "insert_each (nh_env H) (wt_buffer w) (wt_db w) = Inr db" using db by (rule batch_is_each)
  then have each: "insert_each (nh_env H) (wt_history w) db0 = Inr db"
    using insert_each_append [OF w(5)] w(4) by simp
  show ?thesis using u each w by (simp add: flush_on_read_def kept_def recorded_def tele_data_def Let_def)
qed

lemma push_grows: "grows (Suc 0) g (snd (push k r g))"
  using buffers_push by (simp add: buffers_def)

lemma flush_history: "wt_history (flush E C locks w) = wt_history w"
proof -
  have "wt_history (write_step E C b n batch v) = wt_history v" "wt_history (drain n v) = wt_history v" for b n batch v
    by (simp_all add: write_step_def requeue_def drop_batch_def drain_def split: sum.split store_error.split)
  then have "wt_history (flush_loop E C k locks v) = wt_history v" for k locks v
    by (induction k arbitrary: locks v) (auto split: phase.split)
  moreover have "wt_history (drain 0 w) = wt_history w" by (simp add: drain_def)
  ultimately show ?thesis by (simp add: flush_def del: flush_loop.simps)
qed

lemma tele_step_kept:
  assumes "kept H db0 g" "patient_op oper" "storable H (recorded (tele_step H oper g))"
  shows "kept H db0 (tele_step H oper g) \<and> (\<exists>es. recorded (tele_step H oper g) = recorded g @ es)"
proof (cases oper)
  case (Published topic payload c)
  obtain h where "tele_publish H (ne_now (nh_env H)) topic payload c g = (Inr (), h)"
    "grows (3 * length (handlers_of g topic)) g h" using publish_grows by blast
  then show ?thesis using grows_kept [OF assms(1)] assms(3) Published by simp
next
  case (Retrieved metrics)
  then show ?thesis using grows_kept [OF assms(1) push_grows] assms(3) by (simp add: record_retrieval_def)
next
  case (SkillUsed r)
  then show ?thesis using grows_kept [OF assms(1) push_grows] assms(3) by (simp add: record_skill_usage_def)
next
  case (Ticked locks)
  have same: "recorded (tele_step H oper g) = recorded g"
    by (simp add: Ticked recorded_def flush_on_read_def flush_history split: option.split)
  then show ?thesis using flush_kept [OF assms(1), of locks] assms(2,3) Ticked by auto
qed


lemma recorded_grows: "\<exists>es. recorded (tele_step H oper g) = recorded g @ es"
proof -
  have grown: "\<exists>es. recorded h = recorded g @ es" if "grows n g h" for n h
    using that by (auto simp: grows_def recorded_def enqueue_history split: option.split)
  show ?thesis
  proof (cases oper)
    case (Published topic payload c)
    then show ?thesis using publish_grows grown by (metis snd_conv tele_step.simps(1))
  next
    case (Ticked locks)
    then show ?thesis by (simp add: recorded_def flush_on_read_def flush_history split: option.split)
  qed (auto simp: record_retrieval_def record_skill_usage_def intro: grown push_grows)
qed

lemma run_recorded: "\<exists>es. recorded (tele_run H opers g) = recorded g @ es"
proof (induction opers arbitrary: g)
  case Nil
  then show ?case by (simp add: tele_run_def)
next
  case (Cons oper opers)
  obtain es where es: "recorded (tele_step H oper g) = recorded g @ es" using recorded_grows by blast
  obtain fs where fs: "recorded (tele_run H opers (tele_step H oper g)) = recorded (tele_step H oper g) @ fs"
    using Cons by blast
  show ?case by (rule exI [of _ "es @ fs"]) (use es fs in \<open>simp add: tele_run_def\<close>)
qed

lemma tele_run_kept:
  "kept H db0 g \<Longrightarrow> list_all patient_op opers \<Longrightarrow> storable H (recorded (tele_run H opers g)) \<Longrightarrow>
     kept H db0 (tele_run H opers g)"
proof (induction opers arbitrary: g)
  case Nil
  then show ?case by (simp add: tele_run_def)
next
  case (Cons oper opers)
  let ?h = "tele_step H oper g"
  have run: "tele_run H (oper # opers) g = tele_run H opers ?h" by (simp add: tele_run_def)
  obtain es where "recorded (tele_run H opers ?h) = recorded ?h @ es" using run_recorded by blast
  then have "storable H (recorded ?h)" using Cons.prems(3) storable_append unfolding run by metis
  then have "kept H db0 ?h" using tele_step_kept [OF Cons.prems(1)] Cons.prems(2) by simp
  then show ?case using Cons.IH [of ?h] Cons.prems(2,3) unfolding run by simp
qed

lemma tele_start_kept: "kept H db (tele_start db)"
  by (simp add: kept_def tele_start_def tele_initialize_def tele_set_event_bus_def tele_new_def tele_subscribe_def
      Let_def writer_start_def)

lemma read_sees_all:
  assumes "kept H db0 g" "patient locks" "storable H (recorded g)"
  shows "\<exists>db. insert_each (nh_env H) (recorded g) db0 = Inr db \<and> fst (tele_read H locks absent q g) = q db"
proof -
  obtain h db where flush: "flush_on_read H locks g = (Inr (), h)" "tele_data h = db"
      "insert_each (nh_env H) (recorded g) db0 = Inr db"
    using flush_kept [OF assms] by blast
  have "ng_open g" using assms(1) by (simp add: kept_def)
  then show ?thesis using flush by (simp add: tele_read_def py_run)
qed

text \<open>C14: Reads observe writes: after any events, recordings and background flushes of a started engine, a query
  answers from the database that inserting every record the handlers buffered, one by one and in order, would give,
  as long as those records are sound and fit the buffer and the database was not locked longer than the back-off.\<close>

theorem telemetry_reads_its_writes:
  "list_all patient_op opers \<Longrightarrow> patient locks \<Longrightarrow> storable H (recorded (tele_run H opers (tele_start db0))) \<Longrightarrow>
     \<exists>db. insert_each (nh_env H) (recorded (tele_run H opers (tele_start db0))) db0 = Inr db \<and>
       fst (tele_read H locks absent q (tele_run H opers (tele_start db0))) = q db"
  by (intro read_sees_all tele_run_kept tele_start_kept)


definition tele_bus :: "tele_handler subscribers" where
  "tele_bus = foldl (\<lambda>b (t, h). subscribe b t h) EventBus_init SUBSCRIPTIONS"

text \<open>Every topic of the vocabulary has at most one handler here, so no event is recorded by two of them.\<close>

lemma one_handler_per_topic: "list_all (\<lambda>t. length (resolve_handlers tele_bus t) \<le> 1) ALL_TOPICS"
  by code_simp

lemma tele_start_bus: "ng_bus (tele_start db) = Some tele_bus"
  by (simp add: tele_start_def tele_initialize_def tele_set_event_bus_def tele_new_def tele_subscribe_def Let_def tele_bus_def)

lemma one_event_grows:
  assumes "ng_bus g = Some tele_bus" "topic \<in> set ALL_TOPICS"
  shows "\<exists>h. tele_publish H now topic payload c g = (Inr (), h) \<and> grows 3 g h"
proof -
  obtain h where h: "tele_publish H now topic payload c g = (Inr (), h)" "grows (3 * length (handlers_of g topic)) g h"
    using publish_grows by blast
  have "length (handlers_of g topic) \<le> 1"
    using one_handler_per_topic assms unfolding list_all_iff handlers_of_def by simp
  then have "grows 3 g h" using grows_mono [OF h(2)] by simp
  with h show ?thesis by blast
qed

lemma grows_stays: "grows 3 g h \<Longrightarrow> tele_data h = tele_data g \<and> ng_bus h = ng_bus g \<and>
  (\<exists>es. length es \<le> 3 \<and> h = g\<lparr>ng_writer := map_option (fold (enqueue DEFAULT_CONFIG) es) (ng_writer g)\<rparr>)"
  using grows_data by (simp add: grows_def)

text \<open>The engine is a passive observer: publishing any event of the vocabulary succeeds whatever its payload is, the
  database stays untouched, and the engine does no more than to buffer at most three records.\<close>

theorem telemetry_never_interferes:
  "ng_bus g = Some tele_bus \<Longrightarrow> topic \<in> set ALL_TOPICS \<Longrightarrow>
     \<exists>h. tele_publish H now topic payload c g = (Inr (), h) \<and> tele_data h = tele_data g \<and> ng_bus h = ng_bus g \<and>
       (\<exists>es. length es \<le> 3 \<and> h = g\<lparr>ng_writer := map_option (fold (enqueue DEFAULT_CONFIG) es) (ng_writer g)\<rparr>)"
  using one_event_grows grows_stays by meson

section \<open>Examples\<close>

definition sample_host :: tele_host where
  "sample_host = \<lparr>nh_env = tele_sample, nh_hash = (\<lambda>_. ''h''), nh_show = (\<lambda>_. '''')\<rparr>"

lemma raising_payload_in_vocabulary: "ng_bus (tele_start empty_db) = Some tele_bus \<and> ''agent.execution.failed'' \<in> set ALL_TOPICS"
  by (simp add: tele_start_bus ALL_TOPICS_def AGENT_EXECUTION_TOPICS_def)

theorem telemetry_never_interferes_witness:
  "\<exists>h. tele_publish sample_host ''t'' ''agent.execution.failed'' (PDict [(''observability'', PInt 3)]) '''' (tele_start empty_db) = (Inr (), h) \<and>
     tele_data h = empty_db"
proof -
  have "tele_data (tele_start empty_db) = empty_db"
    by (simp add: tele_start_def tele_initialize_def tele_set_event_bus_def tele_new_def tele_subscribe_def Let_def
        tele_data_def writer_start_def)
  moreover obtain h where "tele_publish sample_host ''t'' ''agent.execution.failed'' (PDict [(''observability'', PInt 3)]) ''''
      (tele_start empty_db) = (Inr (), h)" "tele_data h = tele_data (tele_start empty_db)"
    using telemetry_never_interferes [OF conjunct1 [OF raising_payload_in_vocabulary] conjunct2 [OF raising_payload_in_vocabulary]]
    by blast
  ultimately show ?thesis by (intro exI conjI) (assumption, rule trans)
qed

definition denied :: pydict where
  "denied = [(''decision'', PStr ''deny''), (''agent'', PStr ''developer'')]"

definition sample_opers :: "tele_op list" where
  "sample_opers = [Published ''security.check.denied'' (PDict denied) ''c1'', Ticked [True, True]]"

definition sample_engine :: tele_engine where
  "sample_engine = tele_run sample_host sample_opers (tele_start empty_db)"

definition denied_record :: pydict where
  "denied_record = [(''decision'', PStr ''deny''), (''agent'', PStr ''developer''), (''action'', PStr ''''), (''allowed'', PBool False),
     (''reason'', PStr ''''), (''violations'', PList []), (''intent_source'', PStr ''''), (''correlation_id'', PStr ''c1''),
     (''timestamp'', PStr ''t'')]"

lemma denied_handler: "resolve_handlers tele_bus ''security.check.denied'' = [OnSecurity]"
  by code_simp

lemma ticked_recorded: "recorded (tele_step H (Ticked locks) g) = recorded g"
  by (simp add: recorded_def flush_on_read_def flush_history split: option.split)

lemma sample_recorded: "recorded sample_engine = [(''security'', denied_record)]"
proof -
  obtain w where w: "ng_writer (tele_start empty_db) = Some w" "wt_history w = []"
    by (simp add: tele_start_def tele_initialize_def tele_set_event_bus_def tele_new_def tele_subscribe_def Let_def writer_start_def)
  have "recorded (snd (on_security_event sample_host \<lparr>ev_topic = t, ev_payload = PDict denied, ev_timestamp = n, ev_correlation = ''c1''\<rparr>
      (tele_start empty_db))) = [(''security'', denied_record)]" for t n
    by (simp add: on_security_event_def with_payload_def push_def py_run w recorded_def enqueue_def Let_def denied_def
        denied_record_def copied_def as_bool_def correlated_def stamped_def or_val_def sample_host_def tele_sample_def dict_get_def)
  then show ?thesis unfolding sample_engine_def tele_run_def sample_opers_def
    by (simp add: ticked_recorded [simplified] tele_publish_fold [OF tele_start_bus] denied_handler)
qed

lemma sample_sound: "sound_entry tele_sample (''security'', denied_record)"
  by code_simp

lemma sample_storable: "list_all patient_op sample_opers \<and> patient [True] \<and> storable sample_host (recorded sample_engine)"
  using sample_sound by (simp add: sample_recorded storable_def sample_opers_def patient_def DEFAULT_CONFIG_def sample_host_def)

definition query_length :: "tele_db \<Rightarrow> exn + nat" where
  "query_length db = Inr (length (query_security_stats tele_sample [] [] [] [] 5 db))"

theorem telemetry_reads_its_writes_witness:
  "\<exists>db. insert_each tele_sample (recorded sample_engine) empty_db = Inr db \<and>
     fst (tele_read sample_host [True] 0 query_length sample_engine) = query_length db"
proof -
  have env: "nh_env sample_host = tele_sample" by (simp add: sample_host_def)
  note facts = sample_storable [unfolded sample_engine_def]
  show ?thesis
    unfolding sample_engine_def env [symmetric]
    by (rule telemetry_reads_its_writes [OF conjunct1 [OF facts] conjunct1 [OF conjunct2 [OF facts]] conjunct2 [OF conjunct2 [OF facts]]])
qed

text \<open>A second bus is not listened to: the subscriptions of the first count.\<close>

lemma second_bus_unheard:
  "ng_bus (tele_set_event_bus (Some EventBus_init) (tele_start db)) = Some EventBus_init"
  by (simp add: tele_start_def tele_initialize_def tele_set_event_bus_def tele_new_def tele_subscribe_def Let_def)

end
