(* ===== verification/Usage.thy ===== *)
theory Usage
  imports PyStr
begin

text \<open>
  The accounting of tokens across providers (\<open>usage/models.py\<close>): the record every provider's payload is normalised
  to, and the redaction of what it keeps of the payload. A token count is what the payload holds under its name,
  \<open>PNone\<close> when it has none; the clock's reading is an argument.
\<close>

section \<open>Redaction\<close>

definition SENSITIVE_KEYS :: "string list" where
  "SENSITIVE_KEYS = [''prompt'', ''messages'', ''authorization'', ''api_key'', ''token'', ''secret'']"

definition SENSITIVE_SUBSTRINGS :: "string list" where
  "SENSITIVE_SUBSTRINGS = [''key'', ''secret'', ''token'', ''auth'']"

definition sensitive :: "string \<Rightarrow> bool" where
  "sensitive key \<longleftrightarrow>
     key \<in> set SENSITIVE_KEYS \<or> lower key \<in> set SENSITIVE_KEYS \<or>
     list_ex (\<lambda>sub. contains (lower key) sub) SENSITIVE_SUBSTRINGS"

definition redact :: "string \<times> pyval \<Rightarrow> string \<times> pyval" where
  "redact e = (fst e, if sensitive (fst e) then PStr ''[redacted]'' else snd e)"

definition sanitize_provider_raw :: "pydict option \<Rightarrow> pydict option" where
  "sanitize_provider_raw raw = (case raw of
     None \<Rightarrow> None
   | Some d \<Rightarrow> Some (foldl (\<lambda>out e. dict_set (fst (redact e)) (snd (redact e)) out) [] d))"

section \<open>Records\<close>

record usage_record =
  ur_input_tokens :: pyval
  ur_output_tokens :: pyval
  ur_total_tokens :: pyval
  ur_cached_tokens :: pyval
  ur_reasoning_tokens :: pyval
  ur_context_tokens :: pyval
  ur_execution_id :: string
  ur_agent :: string
  ur_model :: string
  ur_provider :: string
  ur_timestamp :: string
  ur_provider_raw :: "pydict option"

text \<open>The first of some keys that holds something, as the chain of \<open>payload.get\<close> finds it.\<close>

primrec first_present :: "pydict \<Rightarrow> string list \<Rightarrow> pyval" where
  "first_present d [] = PNone"
| "first_present d (k # ks) = (if dict_get d k PNone = PNone then first_present d ks else dict_get d k PNone)"

definition from_provider :: "string \<Rightarrow> pydict \<Rightarrow> string \<Rightarrow> (string \<times> string) list \<Rightarrow> usage_record" where
  "from_provider now payload provider meta =
     \<lparr>ur_input_tokens = first_present payload [''input_tokens'', ''prompt_tokens'', ''prompt_eval_count''],
      ur_output_tokens = first_present payload [''output_tokens'', ''completion_tokens'', ''eval_count''],
      ur_total_tokens = first_present payload [''total_tokens'', ''total_count''],
      ur_cached_tokens = first_present payload [''cached_tokens'', ''cache_read_input_tokens''],
      ur_reasoning_tokens = dict_get payload ''reasoning_tokens'' PNone,
      ur_context_tokens = dict_get payload ''context_tokens'' PNone,
      ur_execution_id = dict_get meta ''execution_id'' '''',
      ur_agent = dict_get meta ''agent'' '''',
      ur_model = dict_get meta ''model'' '''',
      ur_provider = provider,
      ur_timestamp = dict_get meta ''timestamp'' now,
      ur_provider_raw = sanitize_provider_raw (Some payload)\<rparr>"

definition usage_to_dict :: "usage_record \<Rightarrow> pydict" where
  "usage_to_dict r =
     [(''input_tokens'', ur_input_tokens r), (''output_tokens'', ur_output_tokens r),
      (''total_tokens'', ur_total_tokens r), (''cached_tokens'', ur_cached_tokens r),
      (''reasoning_tokens'', ur_reasoning_tokens r), (''context_tokens'', ur_context_tokens r),
      (''execution_id'', PStr (ur_execution_id r)), (''agent'', PStr (ur_agent r)), (''model'', PStr (ur_model r)),
      (''provider'', PStr (ur_provider r)), (''timestamp'', PStr (ur_timestamp r)),
      (''provider_raw'', case ur_provider_raw r of None \<Rightarrow> PNone | Some d \<Rightarrow> PDict d)]"

definition has_any_tokens :: "usage_record \<Rightarrow> bool" where
  "has_any_tokens r =
     list_ex (\<lambda>v. v \<noteq> PNone)
       [ur_input_tokens r, ur_output_tokens r, ur_total_tokens r, ur_cached_tokens r, ur_reasoning_tokens r,
        ur_context_tokens r]"

section \<open>What the redaction keeps\<close>

lemma foldl_dict_set:
  "map_of (foldl (\<lambda>out e. dict_set (fst (redact e)) (snd (redact e)) out) acc d) k =
     (case map_of (rev d) k of None \<Rightarrow> map_of acc k | Some v \<Rightarrow> Some (snd (redact (k, v))))"
  by (induction d arbitrary: acc) (auto simp: redact_def map_add_def split: option.splits)

text \<open>On the dictionaries of the code, which have every key once.\<close>

lemma sanitize_lookup:
  assumes "distinct (map fst d)"
  shows "\<exists>out. sanitize_provider_raw (Some d) = Some out \<and>
    (\<forall>k. map_of out k = map_option (\<lambda>v. if sensitive k then PStr ''[redacted]'' else v) (map_of d k))"
proof -
  have "map_of (rev d) = map_of d"
    using assms by (intro map_of_inject_set [THEN iffD2]) (simp_all add: rev_map [symmetric])
  then show ?thesis
    by (simp add: sanitize_provider_raw_def foldl_dict_set) (simp add: redact_def option.case_eq_if map_option_case)
qed

lemma sensitive_token: "contains (lower k) ''token'' \<Longrightarrow> sensitive k"
  by (simp add: sensitive_def SENSITIVE_SUBSTRINGS_def)

text \<open>Every key that counts tokens is redacted, known or not: what the record keeps of the payload has no count.\<close>

lemma unknown_counts_redacted:
  "ur_provider_raw (from_provider now [(''cache_creation_input_tokens'', PInt 7), (''id'', PStr ''a'')] p meta) =
     Some [(''cache_creation_input_tokens'', PStr ''[redacted]''), (''id'', PStr ''a'')]"
  by code_simp

text \<open>Redaction looks at the names of the first level only.\<close>

lemma nested_secret_kept:
  "sanitize_provider_raw (Some [(''headers'', PDict [(''api_key'', PStr ''s'')])]) =
     Some [(''headers'', PDict [(''api_key'', PStr ''s'')])]"
  by code_simp

section \<open>What a record counts\<close>

definition TOKEN_FIELDS :: "string list" where
  "TOKEN_FIELDS =
     [''input_tokens'', ''prompt_tokens'', ''prompt_eval_count'', ''output_tokens'', ''completion_tokens'', ''eval_count'',
      ''total_tokens'', ''total_count'', ''cached_tokens'', ''cache_read_input_tokens'', ''reasoning_tokens'',
      ''context_tokens'']"

lemma first_present_None: "first_present d ks = PNone \<longleftrightarrow> (\<forall>k \<in> set ks. dict_get d k PNone = PNone)"
  by (induction ks) auto

lemma first_present_mem: "first_present d ks \<noteq> PNone \<Longrightarrow> \<exists>k \<in> set ks. map_of d k = Some (first_present d ks)"
  by (induction ks) (auto simp: dict_get_def split: option.splits if_splits)

text \<open>Nothing is guessed: a record counts something exactly when the payload has one of the names with a value.\<close>

lemma counts_iff_present:
  "has_any_tokens (from_provider now d p meta) \<longleftrightarrow> (\<exists>k \<in> set TOKEN_FIELDS. dict_get d k PNone \<noteq> PNone)"
  by (auto simp: has_any_tokens_def from_provider_def first_present_None TOKEN_FIELDS_def)

lemma usage_to_dict_keys: "distinct (map fst (usage_to_dict r))"
  by (simp add: usage_to_dict_def)

end
