(* ===== verification/Executor.thy ===== *)
theory Executor
  imports Security
begin

text \<open>
  The agent executor (\<open>agents/executor.py\<close>): the one boundary every agent runs behind. A run
  validates the task, enforces capabilities and intent, walks the validated life cycle, invokes
  the agent under a time-out, retries transient failures and publishes the two-tier event
  stream.

  Its state holds the outside world \<open>'w\<close>, the cancellation flag, the event sequence counter,
  the life cycle of the run in progress, the shared context object, whether the worker pool is
  open, and the list of events handed to the bus, oldest first. What the code takes from outside
  is a field of an environment: the random identifiers, the monotonic clock, sleeping, whether
  somebody has called \<open>cancel()\<close> since the last look, and the display of a float. An agent is a
  record with its \<open>execute\<close> method, which answers how long it took and what it returned or
  raised; a call that takes longer than a time-out that is set is a \<open>TimeoutError\<close>.
\<close>

section \<open>State and environment\<close>

datatype exec_event =
    LifecycleEv agent_lifecycle_event
  | ExecutionEv string agent_execution_event
  | SecurityEv string pydict string

record run_context =
  cx_intent :: "intent_policy option"
  cx_research :: "pyval option"
  cx_settable :: bool

record 'w xstate =
  x_world :: 'w
  x_cancelled :: bool
  x_sequence :: int
  x_lc :: agent_lifecycle
  x_context :: run_context
  x_pool_open :: bool
  x_log :: "exec_event list"

record 'w xenv =
  uuid4 :: "'w \<Rightarrow> string \<times> 'w"
  monotonic :: "'w \<Rightarrow> rat \<times> 'w"
  sleep_for :: "rat \<Rightarrow> 'w \<Rightarrow> 'w"
  cancel_called :: "'w \<Rightarrow> bool \<times> 'w"
  show_float :: "rat \<Rightarrow> string"

record executor =
  has_bus :: bool
  enforcer :: "capability_policy option"
  executor_id :: string

record 'w agent =
  a_name :: string
  a_metadata :: agent_metadata
  a_capabilities :: agent_capabilities
  a_execute :: "agent_task \<Rightarrow> run_context option \<Rightarrow> 'w \<Rightarrow> (rat \<times> (exn + agent_result)) \<times> 'w"

record 'w exec_request =
  rq_agent :: "'w agent"
  rq_task :: agent_task
  rq_context :: bool
  rq_timeout :: "rat option"
  rq_retry :: "retry_policy option"
  rq_correlation :: string
  rq_on_progress :: "(pyval \<Rightarrow> 'w \<Rightarrow> (exn + unit) \<times> 'w) option"
  rq_intent :: "intent_policy option"

record exec_outcome =
  oc_status :: agent_state
  oc_result :: "agent_result option"
  oc_error :: "agent_error option"
  oc_duration :: rat
  oc_attempts :: int
  oc_retried :: bool

definition outcome_success :: "exec_outcome \<Rightarrow> bool" where
  "outcome_success oc = (oc_status oc = Succeeded \<and>
     (case oc_result oc of None \<Rightarrow> False | Some r \<Rightarrow> res_success r))"

definition make_request ::
  "'w agent \<Rightarrow> agent_task \<Rightarrow> bool \<Rightarrow> rat option \<Rightarrow> retry_policy option \<Rightarrow> string \<Rightarrow>
   (pyval \<Rightarrow> 'w \<Rightarrow> (exn + unit) \<times> 'w) option \<Rightarrow> intent_policy option \<Rightarrow> 'w exec_request" where
  "make_request agent task context timeout policy correlation_id on_progress intent =
     \<lparr>rq_agent = agent, rq_task = task, rq_context = context, rq_timeout = timeout,
      rq_retry = policy, rq_correlation = correlation_id, rq_on_progress = on_progress,
      rq_intent = intent\<rparr>"

definition executor_set_event_bus :: "bool \<Rightarrow> executor \<Rightarrow> executor" where
  "executor_set_event_bus present X = X\<lparr>has_bus := present\<rparr>"

definition executor_cancel :: "'w xstate \<Rightarrow> 'w xstate" where
  "executor_cancel s = s\<lparr>x_cancelled := True\<rparr>"

definition executor_shutdown :: "'w xstate \<Rightarrow> 'w xstate" where
  "executor_shutdown s = s\<lparr>x_pool_open := False\<rparr>"

definition draw :: "('w \<Rightarrow> 'a \<times> 'w) \<Rightarrow> ('w xstate, 'a) py" where
  "draw f = (\<lambda>s. let (x, w) = f (x_world s) in (Inr x, s\<lparr>x_world := w\<rparr>))"

section \<open>Publishing\<close>

definition event_correlation :: "'w exec_request \<Rightarrow> string" where
  "event_correlation rq =
     (if rq_correlation rq = [] then at_correlation_id (rq_task rq) else rq_correlation rq)"

definition notify_progress :: "'w exec_request \<Rightarrow> pydict \<Rightarrow> ('w xstate, unit) py" where
  "notify_progress rq d =
     (case rq_on_progress rq of
        None \<Rightarrow> ret ()
      | Some f \<Rightarrow> (\<lambda>s. let (r, w) = f (PDict d) (x_world s) in (r, s\<lparr>x_world := w\<rparr>)))"

definition publish_security ::
  "executor \<Rightarrow> 'w exec_request \<Rightarrow> string \<Rightarrow> string \<Rightarrow> bool \<Rightarrow> string \<Rightarrow> string list \<Rightarrow>
   ('w xstate, unit) py" where
  "publish_security X rq topic action allowed reason violations =
     (if \<not> has_bus X then ret ()
      else modify (\<lambda>s. s\<lparr>x_log := x_log s @ [SecurityEv topic
        [(''decision'', PStr topic),
         (''agent'', PStr (a_name (rq_agent rq))),
         (''action'', PStr action),
         (''allowed'', PBool allowed),
         (''reason'', PStr reason),
         (''violations'', strs violations),
         (''intent_source'', PStr (case rq_intent rq of None \<Rightarrow> '''' | Some i \<Rightarrow> ip_source i))]
        (event_correlation rq)]\<rparr>))"

definition publish_lifecycle ::
  "'w xenv \<Rightarrow> executor \<Rightarrow> string \<Rightarrow> 'w exec_request \<Rightarrow> agent_state \<Rightarrow> agent_state \<Rightarrow>
   ('w xstate, unit) py" where
  "publish_lifecycle E X eid rq previous current =
     (if \<not> has_bus X then ret ()
      else seq (modify (\<lambda>s. s\<lparr>x_sequence := x_sequence s + 1\<rparr>))
        (bnd (draw (uuid4 E)) (\<lambda>event_id.
         bnd (gets x_sequence) (\<lambda>n.
         let ev = \<lparr>le_event_id = event_id, le_execution_id = eid,
                   le_agent = a_name (rq_agent rq), le_task_id = at_task_id (rq_task rq),
                   le_correlation_id = event_correlation rq, le_executor_id = executor_id X,
                   le_sequence = n, le_status = state_name current,
                   le_previous_state = state_name previous,
                   le_current_state = state_name current\<rparr>
         in seq (modify (\<lambda>s. s\<lparr>x_log := x_log s @ [LifecycleEv ev]\<rparr>))
              (notify_progress rq (lifecycle_event_to_dict ev))))))"

definition publish_execution ::
  "'w xenv \<Rightarrow> executor \<Rightarrow> string \<Rightarrow> 'w exec_request \<Rightarrow> string \<Rightarrow> agent_state \<Rightarrow> rat \<Rightarrow> int \<Rightarrow>
   agent_error option \<Rightarrow> pyval option \<Rightarrow> pyval option \<Rightarrow> ('w xstate, unit) py" where
  "publish_execution E X eid rq topic st duration attempt err use_rec obs =
     (if \<not> has_bus X then ret ()
      else seq (modify (\<lambda>s. s\<lparr>x_sequence := x_sequence s + 1\<rparr>))
        (bnd (draw (uuid4 E)) (\<lambda>event_id.
         bnd (gets x_sequence) (\<lambda>n.
         let ev = \<lparr>xe_event_id = event_id, xe_execution_id = eid,
                   xe_agent = a_name (rq_agent rq), xe_task_id = at_task_id (rq_task rq),
                   xe_correlation_id = event_correlation rq, xe_executor_id = executor_id X,
                   xe_sequence = n, xe_status = state_name st,
                   xe_duration_ms = Some duration,
                   xe_error_code = map_option err_code err, xe_attempt = attempt,
                   xe_message = (case err of None \<Rightarrow> '''' | Some e \<Rightarrow> err_message e),
                   xe_usage = use_rec, xe_observability = obs\<rparr>
         in seq (modify (\<lambda>s. s\<lparr>x_log := x_log s @ [ExecutionEv topic ev]\<rparr>))
              (notify_progress rq (execution_event_to_dict ev))))))"

text \<open>What the bus receives: topic, payload and correlation id.\<close>

fun event_message :: "exec_event \<Rightarrow> string \<times> pyval \<times> string" where
  "event_message (LifecycleEv e) =
     (''agent.lifecycle.changed'', PDict (lifecycle_event_to_dict e), le_correlation_id e)"
| "event_message (ExecutionEv topic e) =
     (topic, PDict (execution_event_to_dict e), xe_correlation_id e)"
| "event_message (SecurityEv topic d corr) = (topic, PDict d, corr)"

section \<open>Parts of a run\<close>

text \<open>\<open>lifecycle.transition\<close>, which reads the clock only where it stamps.\<close>

definition do_transition :: "'w xenv \<Rightarrow> agent_state \<Rightarrow> ('w xstate, unit) py" where
  "do_transition E b =
     bnd (gets x_lc) (\<lambda>lc.
     bnd (if b \<in> set (TRANSITIONS (lc_state lc)) \<and>
             (b = Running \<and> started_at lc = None \<or> b \<in> set TERMINAL_STATES)
          then draw (monotonic E) else ret 0) (\<lambda>now.
     bnd (of_sum (transition now lc b)) (\<lambda>lc'. modify (\<lambda>s. s\<lparr>x_lc := lc'\<rparr>))))"

definition elapsed :: "'w xenv \<Rightarrow> rat \<Rightarrow> ('w xstate, rat) py" where
  "elapsed E started = bnd (draw (monotonic E)) (\<lambda>t. ret ((t - started) * 1000))"

definition resolve_timeout :: "'w exec_request \<Rightarrow> rat option" where
  "resolve_timeout rq =
     (let meta = a_metadata (rq_agent rq) in
      if rq_timeout rq \<noteq> None \<and> allow_timeout_override meta then rq_timeout rq
      else meta_timeout meta)"

definition request_policy :: "'w exec_request \<Rightarrow> retry_policy option" where
  "request_policy rq =
     (case rq_retry rq of Some p \<Rightarrow> Some p | None \<Rightarrow> meta_retry_policy (a_metadata (rq_agent rq)))"

definition should_retry :: "agent_error \<Rightarrow> retry_policy option \<Rightarrow> int \<Rightarrow> int \<Rightarrow> bool" where
  "should_retry err policy attempt maxa =
     (case policy of
        None \<Rightarrow> False
      | Some p \<Rightarrow>
          if attempt \<ge> maxa then False
          else retryable err \<and> err_code err \<in> set (retryable_codes p))"

definition backoff :: "retry_policy option \<Rightarrow> int \<Rightarrow> rat" where
  "backoff policy attempt =
     (let delay = (case policy of None \<Rightarrow> 1 / 2 | Some p \<Rightarrow> base_delay p)
      in if attempt \<ge> 2 then delay * 2 ^ nat (attempt - 2) else delay / 2 ^ nat (2 - attempt))"

definition sleep :: "'w xenv \<Rightarrow> rat \<Rightarrow> ('w xstate, unit) py" where
  "sleep E d = (if d < 0 then raise (Exn ValueError ''sleep length must be non-negative'')
     else modify (\<lambda>s. s\<lparr>x_world := sleep_for E d (x_world s)\<rparr>))"

definition invoke :: "'w exec_request \<Rightarrow> rat option \<Rightarrow> ('w xstate, agent_result) py" where
  "invoke rq timeout = (\<lambda>s.
     if \<not> x_pool_open s
     then (Inl (Exn RuntimeError ''cannot schedule new futures after shutdown''), s)
     else
       let ((took, r), w) = a_execute (rq_agent rq) (rq_task rq)
             (if rq_context rq then Some (x_context s) else None) (x_world s);
           s' = s\<lparr>x_world := w\<rparr>
       in case timeout of
            None \<Rightarrow> (r, s')
          | Some t \<Rightarrow> if took > t then (Inl (Exn TimeoutError ''''), s') else (r, s'))"

definition attach_intent :: "'w exec_request \<Rightarrow> ('w xstate, unit) py" where
  "attach_intent rq =
     (if \<not> rq_context rq then ret ()
      else modify (\<lambda>s. if cx_settable (x_context s)
             then s\<lparr>x_context := (x_context s)\<lparr>cx_intent := rq_intent rq\<rparr>\<rparr> else s))"

section \<open>Refusals before the run\<close>

abbreviation outcome0 :: "agent_state \<Rightarrow> int \<Rightarrow> exec_outcome" where
  "outcome0 st n \<equiv> \<lparr>oc_status = st, oc_result = None, oc_error = None, oc_duration = 0,
     oc_attempts = n, oc_retried = False\<rparr>"

definition refuse ::
  "'w xenv \<Rightarrow> executor \<Rightarrow> string \<Rightarrow> 'w exec_request \<Rightarrow> agent_error \<Rightarrow> ('w xstate, exec_outcome) py"
where
  "refuse E X eid rq err =
     seq (do_transition E Failed)
    (seq (publish_lifecycle E X eid rq Created Failed)
    (seq (publish_execution E X eid rq ''agent.execution.failed'' Failed 0 1 (Some err) None None)
    (ret ((outcome0 Failed 1)\<lparr>oc_error := Some err\<rparr>))))"

definition check_capabilities :: "executor \<Rightarrow> 'w exec_request \<Rightarrow> agent_error option" where
  "check_capabilities X rq =
     (case enforcer X of
        None \<Rightarrow> None
      | Some policy \<Rightarrow>
          (case enforcer_validate policy (a_name (rq_agent rq)) (a_capabilities (rq_agent rq)) of
             Inr _ \<Rightarrow> None
           | Inl e \<Rightarrow> Some \<lparr>err_code = PERMISSION_DENIED, err_message = exn_message e,
                            err_transient = False\<rparr>))"

definition intent_error :: "'w exec_request \<Rightarrow> intent_policy \<Rightarrow> security_decision \<Rightarrow> agent_error" where
  "intent_error rq intent decision =
     \<lparr>err_code = PERMISSION_DENIED,
      err_message = ''intent '' @ [CHR 0x27] @ intent_label intent @ [CHR 0x27] @
        '' grants no action for agent '' @ [CHR 0x27] @ a_name (rq_agent rq) @ [CHR 0x27] @
        ''; denied: '' @ show_str_list (sd_violations decision),
      err_transient = False\<rparr>"

text \<open>The opt-in intent check; the answer is the refusal, if there is one.\<close>

definition check_intent ::
  "executor \<Rightarrow> 'w exec_request \<Rightarrow> ('w xstate, agent_error option) py" where
  "check_intent X rq =
     (case rq_intent rq of
        None \<Rightarrow> ret None
      | Some intent \<Rightarrow>
          let label = intent_label intent;
              decision = validate_intent intent (CapObject (a_capabilities (rq_agent rq)));
              err = intent_error rq intent decision
          in seq (publish_security X rq ''security.intent.applied'' label True
                (''intent '' @ [CHR 0x27] @ label @ [CHR 0x27] @ '' applied to agent '' @
                 [CHR 0x27] @ a_name (rq_agent rq) @ [CHR 0x27]) [])
            (if \<not> sd_allowed decision
             then seq (publish_security X rq ''security.check.denied'' label False
                    (err_message err) (sd_violations decision))
                  (ret (Some err))
             else seq (publish_security X rq ''security.check.passed'' label True
                    (''intent '' @ [CHR 0x27] @ label @ [CHR 0x27] @
                     '' grants actions for agent '' @ [CHR 0x27] @ a_name (rq_agent rq) @
                     [CHR 0x27]) [])
                  (seq (attach_intent rq) (ret None))))"

section \<open>The attempt loop\<close>

definition observability :: "agent_result \<Rightarrow> pyval" where
  "observability r = PDict
     [(''tool_calls'', PInt (res_tool_calls r)),
      (''tool_names'', strs (res_tool_names r)),
      (''tool_durations_ms'', PList (map PFloat (res_tool_durations_ms r))),
      (''llm_turns'', PInt (res_llm_turns r)),
      (''total_cost'', PFloat (res_total_cost r)),
      (''tokens'', PDict (res_tokens r)),
      (''model'', PStr (res_model r)),
      (''provider'', PStr (res_provider r)),
      (''fallback_used'', PBool (res_fallback_used r)),
      (''steps_used'', PInt (res_steps_used r)),
      (''repeated_tool_calls'', PInt (res_repeated_tool_calls r)),
      (''turn_sequence'', strs (res_turn_sequence r)),
      (''exit_reason'', PStr (res_exit_reason r))]"

definition result_error :: "agent_result \<Rightarrow> agent_error" where
  "result_error r =
     (case res_error r of
        Some e \<Rightarrow> e
      | None \<Rightarrow>
          \<lparr>err_code = (case res_error_code r of
              None \<Rightarrow> RUNTIME_ERROR | Some c \<Rightarrow> if c = [] then RUNTIME_ERROR else c),
           err_message = (let m = join ''; '' (res_errors r) in if m = [] then ''Agent failed'' else m),
           err_transient = False\<rparr>)"

text \<open>What the run makes of a result: the events and the outcome of a success or a failure.\<close>

definition report_result ::
  "'w xenv \<Rightarrow> executor \<Rightarrow> string \<Rightarrow> 'w exec_request \<Rightarrow> int \<Rightarrow> bool \<Rightarrow> rat \<Rightarrow> agent_result \<Rightarrow>
   ('w xstate, exec_outcome) py" where
  "report_result E X eid rq attempt retried duration result =
     (if res_success result
      then seq (do_transition E Succeeded)
          (seq (publish_lifecycle E X eid rq Running Succeeded)
          (seq (publish_execution E X eid rq ''agent.execution.completed'' Succeeded duration
                  attempt None (res_usage result) (Some (observability result)))
          (ret \<lparr>oc_status = Succeeded, oc_result = Some result, oc_error = None,
                oc_duration = duration, oc_attempts = attempt, oc_retried = retried\<rparr>)))
      else let err = result_error result in
           seq (do_transition E Failed)
          (seq (publish_lifecycle E X eid rq Running Failed)
          (seq (publish_execution E X eid rq ''agent.execution.failed'' Failed duration attempt
                  (Some err) None None)
          (ret \<lparr>oc_status = Failed, oc_result = Some result, oc_error = Some err,
                oc_duration = duration, oc_attempts = attempt, oc_retried = retried\<rparr>))))"

text \<open>The body of the \<open>try\<close>: invoke the agent and conclude from the result it returned.\<close>

definition conclude ::
  "'w xenv \<Rightarrow> executor \<Rightarrow> string \<Rightarrow> 'w exec_request \<Rightarrow> rat \<Rightarrow> int \<Rightarrow> bool \<Rightarrow>
   ('w xstate, exec_outcome) py" where
  "conclude E X eid rq started attempt retried =
     bnd (invoke rq (resolve_timeout rq)) (\<lambda>result.
     bnd (elapsed E started) (\<lambda>duration.
     report_result E X eid rq attempt retried duration
       (result\<lparr>res_duration_ms := duration, res_agent := a_name (rq_agent rq),
          res_task_id := at_task_id (rq_task rq), res_correlation_id := event_correlation rq\<rparr>)))"

text \<open>The error an \<open>except\<close> clause reports, and the state and topic it ends in.\<close>

definition caught_error :: "'w xenv \<Rightarrow> 'w exec_request \<Rightarrow> exn \<Rightarrow> agent_error" where
  "caught_error E rq e =
     (if exn_kind e = TimeoutError
      then \<lparr>err_code = TIMEOUT,
            err_message = ''Execution timed out after '' @
              (case resolve_timeout rq of None \<Rightarrow> ''None'' | Some t \<Rightarrow> show_float E t) @ ''s'',
            err_transient = True\<rparr>
      else error_from_exception e)"

definition caught_state :: "exn \<Rightarrow> agent_state" where
  "caught_state e = (if exn_kind e = TimeoutError then TimedOut else Failed)"

definition caught_topic :: "exn \<Rightarrow> string" where
  "caught_topic e = (if exn_kind e = TimeoutError then ''agent.execution.timed_out''
     else ''agent.execution.failed'')"

definition check_cancelled :: "'w xenv \<Rightarrow> ('w xstate, bool) py" where
  "check_cancelled E =
     bnd (draw (cancel_called E)) (\<lambda>c.
     seq (modify (\<lambda>s. s\<lparr>x_cancelled := x_cancelled s \<or> c\<rparr>)) (gets x_cancelled))"

definition finish_cancelled ::
  "'w xenv \<Rightarrow> executor \<Rightarrow> string \<Rightarrow> 'w exec_request \<Rightarrow> rat \<Rightarrow> int \<Rightarrow> ('w xstate, exec_outcome) py"
where
  "finish_cancelled E X eid rq started attempt =
     seq (do_transition E Cancelled)
    (seq (publish_lifecycle E X eid rq Running Cancelled)
    (bnd (elapsed E started) (\<lambda>d.
     seq (publish_execution E X eid rq ''agent.execution.cancelled'' Cancelled d attempt None
            None None)
    (bnd (elapsed E started) (\<lambda>d'.
     ret ((outcome0 Cancelled attempt)\<lparr>oc_duration := d'\<rparr>))))))"

definition prepare_retry ::
  "'w xenv \<Rightarrow> executor \<Rightarrow> string \<Rightarrow> 'w exec_request \<Rightarrow> rat \<Rightarrow> int \<Rightarrow> agent_error \<Rightarrow>
   ('w xstate, unit) py" where
  "prepare_retry E X eid rq duration attempt err =
     seq (publish_execution E X eid rq ''agent.execution.retried'' Running duration attempt
            (Some err) None None)
    (seq (do_transition E Running)
    (seq (publish_lifecycle E X eid rq Running Running)
    (sleep E (backoff (request_policy rq) (attempt + 1)))))"

definition give_up ::
  "'w xenv \<Rightarrow> executor \<Rightarrow> string \<Rightarrow> 'w exec_request \<Rightarrow> rat \<Rightarrow> int \<Rightarrow> bool \<Rightarrow> exn \<Rightarrow> agent_error \<Rightarrow>
   ('w xstate, exec_outcome) py" where
  "give_up E X eid rq duration attempt retried e err =
     seq (do_transition E (caught_state e))
    (seq (publish_lifecycle E X eid rq Running (caught_state e))
    (seq (publish_execution E X eid rq (caught_topic e) (caught_state e) duration attempt
            (Some err) None None)
    (ret \<lparr>oc_status = caught_state e, oc_result = None, oc_error = Some err,
          oc_duration = duration, oc_attempts = attempt, oc_retried = retried\<rparr>)))"

definition max_attempts_of :: "'w exec_request \<Rightarrow> int" where
  "max_attempts_of rq = (case request_policy rq of None \<Rightarrow> 1 | Some p \<Rightarrow> max_attempts p)"

text \<open>
  The \<open>while True\<close> loop. The \<open>try\<close> yields \<open>Inl\<close> the outcome or \<open>Inr\<close> the caught exception.
  A further round is only entered while \<open>attempt < max_attempts\<close>, so the loop ends.
\<close>

function attempt_loop ::
  "'w xenv \<Rightarrow> executor \<Rightarrow> string \<Rightarrow> 'w exec_request \<Rightarrow> rat \<Rightarrow> int \<Rightarrow> bool \<Rightarrow>
   ('w xstate, exec_outcome) py" where
  "attempt_loop E X eid rq started attempt retried =
     bnd (check_cancelled E) (\<lambda>cancelled.
     if cancelled then finish_cancelled E X eid rq started attempt
     else
       bnd (elapsed E started) (\<lambda>d0.
       seq (publish_execution E X eid rq ''agent.execution.started'' Running d0 attempt None
              None None)
      (bnd (try_except (bnd (conclude E X eid rq started attempt retried) (\<lambda>oc. ret (Inl oc)))
              (\<lambda>e. ret (Inr e))) (\<lambda>r.
       case r of
         Inl oc \<Rightarrow> ret oc
       | Inr e \<Rightarrow>
           let err = caught_error E rq e in
           bnd (elapsed E started) (\<lambda>duration.
           if should_retry err (request_policy rq) attempt (max_attempts_of rq)
           then seq (prepare_retry E X eid rq duration attempt err)
                  (attempt_loop E X eid rq started (attempt + 1) True)
           else give_up E X eid rq duration attempt retried e err)))))"
  by pat_completeness auto
termination
  by (relation "measure (\<lambda>(E, X, eid, rq, started, attempt, retried).
        nat (max_attempts_of rq - attempt))")
     (auto simp: should_retry_def split: option.splits if_splits)

declare attempt_loop.simps [simp del]

section \<open>The run\<close>

definition run_accepted ::
  "'w xenv \<Rightarrow> executor \<Rightarrow> string \<Rightarrow> 'w exec_request \<Rightarrow> rat \<Rightarrow> ('w xstate, exec_outcome) py" where
  "run_accepted E X eid rq started =
     seq (do_transition E Validated)
    (seq (publish_lifecycle E X eid rq Created Validated)
    (seq (do_transition E Queued)
    (seq (publish_lifecycle E X eid rq Validated Queued)
    (seq (do_transition E Running)
    (seq (publish_lifecycle E X eid rq Queued Running)
    (attempt_loop E X eid rq started 1 False))))))"

definition execute ::
  "'w xenv \<Rightarrow> executor \<Rightarrow> 'w exec_request \<Rightarrow> ('w xstate, exec_outcome) py" where
  "execute E X rq =
     seq (modify (\<lambda>s. s\<lparr>x_cancelled := False, x_sequence := 0, x_lc := AgentLifecycle_init\<rparr>))
    (bnd (draw (uuid4 E)) (\<lambda>eid.
     bnd (draw (monotonic E)) (\<lambda>started.
     seq (publish_lifecycle E X eid rq Created Created)
    (let violations = validate_agent_task (rq_task rq) in
     if violations \<noteq> []
     then refuse E X eid rq \<lparr>err_code = VALIDATION_ERROR, err_message = join ''; '' violations,
            err_transient = False\<rparr>
     else case check_capabilities X rq of
       Some err \<Rightarrow> refuse E X eid rq err
     | None \<Rightarrow>
         bnd (check_intent X rq) (\<lambda>denied.
         case denied of
           Some err \<Rightarrow> refuse E X eid rq err
         | None \<Rightarrow>
             run_accepted E X eid rq started)))))"

end
