(* ===== verification/ExecutorProps.thy ===== *)
theory ExecutorProps
  imports Executor
begin

text \<open>
  What a run of the executor guarantees, proved with the Hoare logic of the prelude: the run
  always returns an outcome, its life cycle events are one path of the transition relation that
  ends in the outcome's state, the events of the run are numbered from 1 without gaps, the
  attempts are bounded by the retry policy, and a refused run never reaches the agent.
\<close>

section \<open>The event stream of a run\<close>

fun ev_sequence :: "exec_event \<Rightarrow> int list" where
  "ev_sequence (LifecycleEv e) = [le_sequence e]"
| "ev_sequence (ExecutionEv t e) = [xe_sequence e]"
| "ev_sequence (SecurityEv t d c) = []"

definition sequences :: "exec_event list \<Rightarrow> int list" where
  "sequences evs = concat (map ev_sequence evs)"

fun ev_transition :: "exec_event \<Rightarrow> (string \<times> string) list" where
  "ev_transition (LifecycleEv e) = [(le_previous_state e, le_current_state e)]"
| "ev_transition _ = []"

definition timeline :: "exec_event list \<Rightarrow> (string \<times> string) list" where
  "timeline evs = concat (map ev_transition evs)"

text \<open>A list of (previous, current) names that is a path of the life cycle from one state to
  another.\<close>

inductive lifecycle_path :: "agent_state \<Rightarrow> (string \<times> string) list \<Rightarrow> agent_state \<Rightarrow> bool" where
  here: "lifecycle_path a [] a"
| extend: "lifecycle_path a ps b \<Longrightarrow> lifecycle_step b c \<Longrightarrow>
     lifecycle_path a (ps @ [(state_name b, state_name c)]) c"

definition numbered_from_1 :: "int list \<Rightarrow> bool" where
  "numbered_from_1 ns \<longleftrightarrow> ns = map int [1..<Suc (length ns)]"

lemma numbered_snoc:
  "numbered_from_1 ns \<Longrightarrow> numbered_from_1 (ns @ [int (length ns) + 1])"
  by (simp add: numbered_from_1_def)

lemma sequences_simps [simp]:
  "sequences [] = []"
  "sequences (evs @ [LifecycleEv e]) = sequences evs @ [le_sequence e]"
  "sequences (evs @ [ExecutionEv t x]) = sequences evs @ [xe_sequence x]"
  "sequences (evs @ [SecurityEv t d c]) = sequences evs"
  by (simp_all add: sequences_def)

lemma timeline_simps [simp]:
  "timeline [] = []"
  "timeline (evs @ [LifecycleEv e]) = timeline evs @ [(le_previous_state e, le_current_state e)]"
  "timeline (evs @ [ExecutionEv t x]) = timeline evs"
  "timeline (evs @ [SecurityEv t d c]) = timeline evs"
  by (simp_all add: timeline_def)

section \<open>The invariant\<close>

text \<open>
  \<open>run_stream evs n b\<close>: the events \<open>evs\<close> of a run so far are numbered 1 to \<open>n\<close> and their
  life cycle events are the initialization event and then a path to \<open>b\<close>.
\<close>

definition run_stream :: "exec_event list \<Rightarrow> int \<Rightarrow> agent_state \<Rightarrow> bool" where
  "run_stream evs n b \<longleftrightarrow>
     numbered_from_1 (sequences evs) \<and> n = int (length (sequences evs)) \<and>
     (\<exists>ps. timeline evs = (''created'', ''created'') # ps \<and> lifecycle_path Created ps b)"

definition run_inv ::
  "executor \<Rightarrow> exec_event list \<Rightarrow> agent_state \<Rightarrow> agent_state \<Rightarrow> 'w xstate \<Rightarrow> bool" where
  "run_inv X L a b s \<longleftrightarrow>
     lc_state (x_lc s) = a \<and>
     (if has_bus X then \<exists>evs. x_log s = L @ evs \<and> run_stream evs (x_sequence s) b
      else x_log s = L)"

lemma run_stream_lifecycle:
  assumes "run_stream evs n b" and "lifecycle_step b c"
  shows "run_stream (evs @ [LifecycleEv \<lparr>le_event_id = i, le_execution_id = x, le_agent = ag,
     le_task_id = t, le_correlation_id = co, le_executor_id = ex, le_sequence = n + 1,
     le_status = st, le_previous_state = state_name b, le_current_state = state_name c\<rparr>])
     (n + 1) c"
  using assms by (auto simp: run_stream_def numbered_snoc intro: lifecycle_path.extend)

lemma run_stream_execution:
  assumes "run_stream evs n b" and "xe_sequence e = n + 1"
  shows "run_stream (evs @ [ExecutionEv t e]) (n + 1) b"
  using assms by (auto simp: run_stream_def numbered_snoc)

lemma hoare_quiet: "hoare P m Q no_raise \<Longrightarrow> hoare P m Q R"
  by (erule hoare_weaken) (auto simp: no_raise_def)

lemma draw_inv:
  "(\<And>s w. P s \<Longrightarrow> P (s\<lparr>x_world := w\<rparr>)) \<Longrightarrow> hoare P (draw f) (\<lambda>_. P) R"
  by (rule hoareI) (auto simp: draw_def Let_def split: prod.splits)

lemma run_inv_world [simp]: "run_inv X L a b (s\<lparr>x_world := w\<rparr>) = run_inv X L a b s"
  by (simp add: run_inv_def)

lemma draw_run_inv: "hoare (run_inv X L a b) (draw f) (\<lambda>_. run_inv X L a b) R"
  by (rule draw_inv) simp

lemma notify_silent: "rq_on_progress rq = None \<Longrightarrow> notify_progress rq d = ret ()"
  by (simp add: notify_progress_def)

lemma publish_lifecycle_inv:
  assumes "rq_on_progress rq = None" and "lifecycle_step b c"
  shows "hoare (run_inv X L a b) (publish_lifecycle E X eid rq b c) (\<lambda>_. run_inv X L a c) no_raise"
proof (rule hoareI)
  fix s :: "'a xstate" assume inv: "run_inv X L a b s"
  show "case publish_lifecycle E X eid rq b c s of
      (Inl e, t) \<Rightarrow> no_raise e t | (Inr x, t) \<Rightarrow> run_inv X L a c t"
  proof (cases "has_bus X")
    case False
    with inv show ?thesis by (simp add: publish_lifecycle_def ret_run run_inv_def)
  next
    case True
    with inv obtain evs where evs: "x_log s = L @ evs" "run_stream evs (x_sequence s) b"
      and st: "lc_state (x_lc s) = a"
      by (auto simp: run_inv_def)
    obtain i w where u: "uuid4 E (x_world s) = (i, w)" by fastforce
    show ?thesis
      using True u evs st run_stream_lifecycle [OF evs(2) assms(2)]
      by (auto simp: publish_lifecycle_def notify_silent [OF assms(1)] py_run draw_def Let_def
          run_inv_def)
  qed
qed

lemma publish_execution_inv:
  assumes "rq_on_progress rq = None"
  shows "hoare (run_inv X L a b) (publish_execution E X eid rq topic st d n err us ob)
     (\<lambda>_. run_inv X L a b) no_raise"
proof (rule hoareI)
  fix s :: "'a xstate" assume inv: "run_inv X L a b s"
  show "case publish_execution E X eid rq topic st d n err us ob s of
      (Inl e, t) \<Rightarrow> no_raise e t | (Inr x, t) \<Rightarrow> run_inv X L a b t"
  proof (cases "has_bus X")
    case False
    with inv show ?thesis by (simp add: publish_execution_def ret_run run_inv_def)
  next
    case True
    with inv obtain evs where evs: "x_log s = L @ evs" "run_stream evs (x_sequence s) b"
      and st: "lc_state (x_lc s) = a"
      by (auto simp: run_inv_def)
    obtain i w where u: "uuid4 E (x_world s) = (i, w)" by fastforce
    show ?thesis
      using True u evs st
      by (auto simp: publish_execution_def notify_silent [OF assms(1)] py_run draw_def Let_def
          run_inv_def intro!: run_stream_execution)
  qed
qed

lemma publish_security_inv:
  "hoare (run_inv X L a b) (publish_security X rq topic act ok why vs) (\<lambda>_. run_inv X L a b) R"
  by (rule hoareI) (auto simp: publish_security_def py_run run_inv_def run_stream_def)

lemma do_transition_run:
  assumes "lifecycle_step (lc_state (x_lc s)) c"
  obtains lc' w where "do_transition E c s = (Inr (), s\<lparr>x_world := w, x_lc := lc'\<rparr>)"
    and "lc_state lc' = c"
proof -
  let ?stamp = "c \<in> set (TRANSITIONS (lc_state (x_lc s))) \<and>
    (c = Running \<and> started_at (x_lc s) = None \<or> c \<in> set TERMINAL_STATES)"
  have "\<exists>now w. (if ?stamp then draw (monotonic E) else ret 0) s = (Inr now, s\<lparr>x_world := w\<rparr>)"
  proof (cases ?stamp)
    case True
    then show ?thesis by (cases "monotonic E (x_world s)") (auto simp: draw_def)
  next
    case False
    then have eq: "(if ?stamp then draw (monotonic E) else ret 0) s = (Inr 0, s)"
      by (simp only: if_False ret_run)
    show ?thesis unfolding eq by (intro exI [of _ 0] exI [of _ "x_world s"]) simp
  qed
  then obtain now w where r: "(if ?stamp then draw (monotonic E) else ret 0) s =
      (Inr now, s\<lparr>x_world := w\<rparr>)" by (elim exE)
  obtain lc' where tr: "transition now (x_lc s) c = Inr lc'"
    using assms transition_Inr_iff by blast
  have "do_transition E c s = (Inr (), s\<lparr>x_world := w, x_lc := lc'\<rparr>)"
    using r tr by (simp add: do_transition_def bnd_run gets_run of_sum_run modify_run)
  moreover have "lc_state lc' = c" using tr by (rule transition_state)
  ultimately show thesis by (rule that)
qed

lemma do_transition_inv:
  assumes "lifecycle_step a c"
  shows "hoare (run_inv X L a b) (do_transition E c) (\<lambda>_. run_inv X L c b) no_raise"
proof (rule hoareI)
  fix s :: "'a xstate" assume inv: "run_inv X L a b s"
  with assms have "lifecycle_step (lc_state (x_lc s)) c" by (simp add: run_inv_def)
  then obtain lc' w where "do_transition E c s = (Inr (), s\<lparr>x_world := w, x_lc := lc'\<rparr>)"
    and "lc_state lc' = c" by (rule do_transition_run)
  with inv show "case do_transition E c s of
      (Inl e, t) \<Rightarrow> no_raise e t | (Inr x, t) \<Rightarrow> run_inv X L c b t"
    by (simp add: run_inv_def)
qed

section \<open>Parts of a run\<close>

text \<open>What holds of an outcome: the state it names is terminal and is where the life cycle and
  the event stream stand, and its attempts are within bounds.\<close>

definition run_post ::
  "executor \<Rightarrow> exec_event list \<Rightarrow> int \<Rightarrow> int \<Rightarrow> exec_outcome \<Rightarrow> 'w xstate \<Rightarrow> bool" where
  "run_post X L lo hi oc s \<longleftrightarrow>
     run_inv X L (oc_status oc) (oc_status oc) s \<and> oc_status oc \<in> set TERMINAL_STATES \<and>
     lo \<le> oc_attempts oc \<and> oc_attempts oc \<le> hi \<and>
     (oc_status oc = Succeeded \<longrightarrow> outcome_success oc \<and> oc_error oc = None) \<and>
     (oc_status oc \<noteq> Succeeded \<and> oc_status oc \<noteq> Cancelled \<longrightarrow> oc_error oc \<noteq> None)"

lemma elapsed_inv: "hoare (run_inv X L a b) (elapsed E t0) (\<lambda>_. run_inv X L a b) R"
  unfolding elapsed_def by (rule hoare_bnd [OF draw_run_inv]) (rule hoare_ret)

lemma invoke_inv:
  "hoare (run_inv X L a b) (invoke rq t) (\<lambda>_. run_inv X L a b) (\<lambda>_. run_inv X L a b)"
  by (rule hoareI)
     (auto simp: invoke_def Let_def split: prod.splits option.splits sum.splits if_splits)

lemmas stream_steps =
  hoare_seq [OF do_transition_inv] hoare_seq [OF publish_lifecycle_inv]
  hoare_seq [OF publish_execution_inv]

lemma steps_allowed:
  "lifecycle_step Created Validated" "lifecycle_step Validated Queued"
  "lifecycle_step Queued Running" "lifecycle_step Created Failed"
  "lifecycle_step Running Succeeded" "lifecycle_step Running Failed"
  "lifecycle_step Running TimedOut" "lifecycle_step Running Cancelled"
  "lifecycle_step Running Running"
  by (simp_all add: lifecycle_step_iff)

lemma refuse_post:
  assumes "rq_on_progress rq = None"
  shows "hoare (run_inv X L Created Created) (refuse E X eid rq err) (run_post X L 1 1) no_raise"
  unfolding refuse_def
  by (intro stream_steps hoare_ret assms steps_allowed) (simp add: run_post_def TERMINAL_STATES_def)

lemma finish_cancelled_post:
  assumes "rq_on_progress rq = None"
  shows "hoare (run_inv X L Running Running) (finish_cancelled E X eid rq t0 n)
     (run_post X L n n) no_raise"
  unfolding finish_cancelled_def
  by (intro stream_steps hoare_bnd [OF elapsed_inv] hoare_ret assms steps_allowed)
     (simp add: run_post_def TERMINAL_STATES_def)

lemma caught_state_step: "lifecycle_step Running (caught_state e)"
  by (simp add: caught_state_def steps_allowed)

lemma give_up_post:
  assumes "rq_on_progress rq = None"
  shows "hoare (run_inv X L Running Running) (give_up E X eid rq d n r e err)
     (run_post X L n n) no_raise"
  unfolding give_up_def
  by (intro stream_steps hoare_ret assms caught_state_step)
     (simp add: run_post_def TERMINAL_STATES_def caught_state_def)

lemma prepare_retry_inv:
  assumes "rq_on_progress rq = None" and "0 \<le> backoff (request_policy rq) (n + 1)"
  shows "hoare (run_inv X L Running Running) (prepare_retry E X eid rq d n err)
     (\<lambda>_. run_inv X L Running Running) no_raise"
proof -
  have "hoare (run_inv X L Running Running) (sleep E (backoff (request_policy rq) (n + 1)))
      (\<lambda>_. run_inv X L Running Running) no_raise"
    using assms(2) by (auto simp: sleep_def intro!: hoare_modify)
  then show ?thesis
    unfolding prepare_retry_def
    by (intro stream_steps assms steps_allowed)
qed

lemma report_result_post:
  assumes "rq_on_progress rq = None"
  shows "hoare (run_inv X L Running Running) (report_result E X eid rq n r d result)
     (run_post X L n n) no_raise"
  unfolding report_result_def Let_def
  by (intro hoare_if stream_steps hoare_ret assms steps_allowed)
     (simp_all add: run_post_def TERMINAL_STATES_def outcome_success_def)

lemma conclude_post:
  assumes "rq_on_progress rq = None"
  shows "hoare (run_inv X L Running Running) (conclude E X eid rq t0 n r)
     (run_post X L n n) (\<lambda>_. run_inv X L Running Running)"
  unfolding conclude_def
  by (intro hoare_bnd [OF invoke_inv] hoare_bnd [OF elapsed_inv]
      hoare_quiet [OF report_result_post] assms)

lemma check_cancelled_inv:
  "hoare (run_inv X L a b) (check_cancelled E) (\<lambda>_. run_inv X L a b) R"
  unfolding check_cancelled_def
  by (intro hoare_bnd [OF draw_run_inv] hoare_seq [where S = "run_inv X L a b"] hoare_modify
      hoare_gets) (simp_all add: run_inv_def)

lemma check_intent_inv:
  "hoare (run_inv X L a b) (check_intent X rq) (\<lambda>_. run_inv X L a b) R"
proof (cases "rq_intent rq")
  case None
  then show ?thesis by (simp add: check_intent_def hoare_ret)
next
  case (Some i)
  have attach: "hoare (run_inv X L a b) (attach_intent rq) (\<lambda>_. run_inv X L a b) R"
    unfolding attach_intent_def
    by (intro hoare_if hoare_ret hoare_modify) (simp_all add: run_inv_def)
  show ?thesis
    unfolding check_intent_def Some option.case Let_def
    by (intro hoare_seq [OF publish_security_inv] hoare_if hoare_seq [OF attach] hoare_ret)
qed

section \<open>The attempt loop\<close>

definition policy_ok :: "'w exec_request \<Rightarrow> bool" where
  "policy_ok rq \<longleftrightarrow> (\<forall>p. request_policy rq = Some p \<longrightarrow> 0 \<le> base_delay p)"

lemma backoff_nonneg: "policy_ok rq \<Longrightarrow> 0 \<le> backoff (request_policy rq) n"
  by (auto simp: policy_ok_def backoff_def Let_def split: option.splits)

lemma should_retry_bound: "should_retry err p n m \<Longrightarrow> n < m"
  by (auto simp: should_retry_def split: option.splits if_splits)

lemma run_post_weaken:
  "run_post X L lo hi oc s \<Longrightarrow> lo' \<le> lo \<Longrightarrow> hi \<le> hi' \<Longrightarrow> run_post X L lo' hi' oc s"
  by (auto simp: run_post_def)

lemma attempt_loop_post:
  assumes silent: "rq_on_progress rq = None" and ok: "policy_ok rq"
  shows "hoare (run_inv X L Running Running) (attempt_loop E X eid rq t0 n r)
     (run_post X L n (max n (max_attempts_of rq))) no_raise"
proof (induction "nat (max_attempts_of rq - n)" arbitrary: n r rule: less_induct)
  case less
  let ?I = "run_inv X L Running Running"
  let ?Q = "run_post X L n (max n (max_attempts_of rq))"
  have widen: "hoare ?I m ?Q no_raise" if "hoare ?I m (run_post X L n n) no_raise"
    for m :: "('a xstate, exec_outcome) py"
    using that by (rule hoare_weaken) (auto intro: run_post_weaken)
  have caught: "hoare ?I
      (try_except (bnd (conclude E X eid rq t0 n r) (\<lambda>oc. ret (Inl oc))) (\<lambda>e. ret (Inr e)))
      (\<lambda>x s. case x of Inl oc \<Rightarrow> run_post X L n n oc s | Inr e \<Rightarrow> ?I s) no_raise"
    by (rule hoare_try [OF hoare_bnd [OF conclude_post [OF silent]]]) (auto intro!: hoare_ret)
  have retry: "hoare ?I (seq (prepare_retry E X eid rq d n err)
      (attempt_loop E X eid rq t0 (n + 1) True)) ?Q no_raise"
    if "should_retry err (request_policy rq) n (max_attempts_of rq)" for d err
  proof -
    from that have n: "n < max_attempts_of rq" by (rule should_retry_bound)
    then have "hoare ?I (attempt_loop E X eid rq t0 (n + 1) True)
        (run_post X L (n + 1) (max (n + 1) (max_attempts_of rq))) no_raise"
      by (intro less) simp
    then have "hoare ?I (attempt_loop E X eid rq t0 (n + 1) True) ?Q no_raise"
      by (rule hoare_weaken) (use n in \<open>auto intro: run_post_weaken\<close>)
    then show ?thesis
      by (rule hoare_seq [OF prepare_retry_inv [OF silent backoff_nonneg [OF ok]]])
  qed
  have rest: "hoare (\<lambda>s. case x of Inl oc \<Rightarrow> run_post X L n n oc s | Inr e \<Rightarrow> ?I s)
      (case x of Inl oc \<Rightarrow> ret oc
       | Inr e \<Rightarrow> let err = caught_error E rq e in
           bnd (elapsed E t0) (\<lambda>duration.
           if should_retry err (request_policy rq) n (max_attempts_of rq)
           then seq (prepare_retry E X eid rq duration n err)
                  (attempt_loop E X eid rq t0 (n + 1) True)
           else give_up E X eid rq duration n r e err)) ?Q no_raise" for x
  proof (cases x)
    case (Inl oc)
    show ?thesis unfolding Inl sum.case
      by (rule hoare_ret) (erule run_post_weaken, simp_all)
  next
    case (Inr e)
    let ?err = "caught_error E rq e"
    have "hoare ?I (if should_retry ?err (request_policy rq) n (max_attempts_of rq)
        then seq (prepare_retry E X eid rq d n ?err) (attempt_loop E X eid rq t0 (n + 1) True)
        else give_up E X eid rq d n r e ?err) ?Q no_raise" for d
    proof (rule hoare_if)
      show "hoare ?I (give_up E X eid rq d n r e ?err) ?Q no_raise"
        by (rule widen, rule give_up_post, rule silent)
    qed (rule retry)
    then show ?thesis
      unfolding Inr Let_def sum.case by (rule hoare_bnd [OF elapsed_inv])
  qed
  show ?case
    by (subst attempt_loop.simps, rule hoare_bnd [OF check_cancelled_inv], rule hoare_if,
        rule widen [OF finish_cancelled_post [OF silent]], rule hoare_bnd [OF elapsed_inv],
        rule hoare_seq [OF publish_execution_inv [OF silent]], rule hoare_bnd [OF caught],
        rule rest)
qed

section \<open>The whole run\<close>

lemma start_stream:
  assumes "rq_on_progress rq = None"
  shows "hoare (\<lambda>s. lc_state (x_lc s) = Created \<and> x_sequence s = 0 \<and> x_log s = L)
     (publish_lifecycle E X eid rq Created Created) (\<lambda>_. run_inv X L Created Created) no_raise"
proof (rule hoareI)
  fix s :: "'a xstate"
  assume s: "lc_state (x_lc s) = Created \<and> x_sequence s = 0 \<and> x_log s = L"
  obtain i w where u: "uuid4 E (x_world s) = (i, w)" by fastforce
  have one: "run_stream [LifecycleEv e] 1 Created"
    if "le_sequence e = 1" "le_previous_state e = ''created''" "le_current_state e = ''created''" for e
    using that by (auto simp: run_stream_def sequences_def timeline_def numbered_from_1_def
        intro: lifecycle_path.here)
  show "case publish_lifecycle E X eid rq Created Created s of
      (Inl e, t) \<Rightarrow> no_raise e t | (Inr x, t) \<Rightarrow> run_inv X L Created Created t"
    using s u
    by (auto simp: publish_lifecycle_def notify_silent [OF assms(1)] py_run draw_def Let_def
        run_inv_def intro!: one)
qed

lemma run_accepted_post:
  assumes silent: "rq_on_progress rq = None" and ok: "policy_ok rq"
  shows "hoare (run_inv X L Created Created) (run_accepted E X eid rq started)
     (run_post X L 1 (max 1 (max_attempts_of rq))) no_raise"
  unfolding run_accepted_def
  by (intro stream_steps silent steps_allowed attempt_loop_post ok)

lemma execute_post:
  assumes silent: "rq_on_progress rq = None" and ok: "policy_ok rq"
  shows "hoare (\<lambda>s. x_log s = L) (execute E X rq)
     (run_post X L 1 (max 1 (max_attempts_of rq))) no_raise"
proof -
  let ?S = "\<lambda>s. lc_state (x_lc s) = Created \<and> x_sequence s = 0 \<and> x_log s = L"
  let ?I = "run_inv X L Created Created"
  let ?Q = "run_post X L 1 (max 1 (max_attempts_of rq))"
  have refuse: "hoare ?I (refuse E X eid rq err) ?Q no_raise" for eid err
    by (rule hoare_weaken [OF refuse_post [OF silent]]) (auto intro: run_post_weaken)
  have denied: "hoare ?I (case d of Some err \<Rightarrow> refuse E X eid rq err
      | None \<Rightarrow> run_accepted E X eid rq t0) ?Q no_raise" for d eid t0
    by (cases d) (simp_all only: option.case refuse run_accepted_post [OF silent ok])
  have checked: "hoare ?I (case c of Some err \<Rightarrow> refuse E X eid rq err
      | None \<Rightarrow> bnd (check_intent X rq) (\<lambda>d. case d of Some err \<Rightarrow> refuse E X eid rq err
          | None \<Rightarrow> run_accepted E X eid rq t0)) ?Q no_raise" for c eid t0
    by (cases c) (simp_all only: option.case refuse hoare_bnd [OF check_intent_inv denied])
  show ?thesis
    unfolding execute_def Let_def
    by (rule hoare_seq [where S = ?S], rule hoare_modify, simp add: AgentLifecycle_init_def,
        rule hoare_bnd, rule draw_inv, simp, rule hoare_bnd, rule draw_inv, simp,
        rule hoare_seq [OF start_stream [OF silent]], rule hoare_if, rule refuse, rule checked)
qed

section \<open>The contract clients rely on\<close>

text \<open>
  The workflow engine and the kernel call the executor through this contract: for an admissible
  request a run answers, a succeeded run carries a successful result, and a run without a result
  carries an error unless it was cancelled.
\<close>

locale agent_boundary =
  fixes run :: "'w exec_request \<Rightarrow> ('w xstate, exec_outcome) py"
    and admissible :: "'w exec_request \<Rightarrow> bool"
  assumes run_answers: "admissible rq \<Longrightarrow> \<exists>oc t. run rq s = (Inr oc, t)"
    and run_success: "admissible rq \<Longrightarrow> run rq s = (Inr oc, t) \<Longrightarrow>
      oc_status oc = Succeeded \<longleftrightarrow> outcome_success oc"
    and run_error: "admissible rq \<Longrightarrow> run rq s = (Inr oc, t) \<Longrightarrow> \<not> outcome_success oc \<Longrightarrow>
      oc_error oc \<noteq> None \<or> oc_status oc = Cancelled"
begin

lemma run_cases:
  assumes "admissible rq"
  obtains (success) r oc t where "run rq s = (Inr oc, t)" "oc_result oc = Some r" "res_success r"
  | (failure) e oc t where "run rq s = (Inr oc, t)" "oc_error oc = Some e" "\<not> outcome_success oc"
  | (cancelled) oc t where "run rq s = (Inr oc, t)" "oc_status oc = Cancelled"
proof -
  obtain oc t where r: "run rq s = (Inr oc, t)" using run_answers [OF assms] by blast
  show thesis
  proof (cases "outcome_success oc")
    case True
    then show thesis using r success by (auto simp: outcome_success_def split: option.splits)
  next
    case False
    from run_error [OF assms r False] show thesis
      using r False failure cancelled by blast
  qed
qed

end

lemma execute_run_post:
  assumes "rq_on_progress rq = None" and "policy_ok rq"
  shows "\<exists>oc t. execute E X rq s = (Inr oc, t) \<and>
    run_post X (x_log s) 1 (max 1 (max_attempts_of rq)) oc t"
  by (rule hoare_no_raise [OF execute_post [OF assms]]) simp

definition plain_request :: "'w exec_request \<Rightarrow> bool" where
  "plain_request rq \<longleftrightarrow> rq_on_progress rq = None \<and> policy_ok rq"

lemma run_post_success: "run_post X L lo hi oc s \<Longrightarrow> oc_status oc = Succeeded \<longleftrightarrow> outcome_success oc"
  by (auto simp: run_post_def outcome_success_def)

lemma execute_answer_post:
  assumes "plain_request rq" and "execute E X rq s = (Inr oc, t)"
  shows "run_post X (x_log s) 1 (max 1 (max_attempts_of rq)) oc t"
  using assms execute_run_post [of rq E X s] by (auto simp: plain_request_def)

interpretation agent_executor: agent_boundary "execute E X" plain_request
proof unfold_locales
  fix rq :: "'a exec_request" and s
  assume "plain_request rq"
  then show "\<exists>oc t. execute E X rq s = (Inr oc, t)"
    using execute_run_post [of rq E X s] by (auto simp: plain_request_def)
next
  fix rq :: "'a exec_request" and s oc t
  assume "plain_request rq" and "execute E X rq s = (Inr oc, t)"
  then show "oc_status oc = Succeeded \<longleftrightarrow> outcome_success oc"
    by (rule run_post_success [OF execute_answer_post])
next
  fix rq :: "'a exec_request" and s oc t
  assume "plain_request rq" and "execute E X rq s = (Inr oc, t)" and "\<not> outcome_success oc"
  then show "oc_error oc \<noteq> None \<or> oc_status oc = Cancelled"
    using execute_answer_post [of rq E X s oc t] run_post_success
    by (fastforce simp: run_post_def)
qed

section \<open>Refused runs\<close>

definition with_body ::
  "'w exec_request \<Rightarrow>
   (agent_task \<Rightarrow> run_context option \<Rightarrow> 'w \<Rightarrow> (rat \<times> (exn + agent_result)) \<times> 'w) \<Rightarrow>
   'w exec_request" where
  "with_body rq f = rq\<lparr>rq_agent := (rq_agent rq)\<lparr>a_execute := f\<rparr>\<rparr>"

lemma with_body_sel [simp]:
  "rq_task (with_body rq f) = rq_task rq"
  "a_name (rq_agent (with_body rq f)) = a_name (rq_agent rq)"
  "a_capabilities (rq_agent (with_body rq f)) = a_capabilities (rq_agent rq)"
  "rq_intent (with_body rq f) = rq_intent rq"
  "rq_on_progress (with_body rq f) = rq_on_progress rq"
  "rq_context (with_body rq f) = rq_context rq"
  "event_correlation (with_body rq f) = event_correlation rq"
  by (simp_all add: with_body_def event_correlation_def)

lemma with_body_ops [simp]:
  "notify_progress (with_body rq f) d = notify_progress rq d"
  "publish_security X (with_body rq f) = publish_security X rq"
  "publish_lifecycle E X eid (with_body rq f) = publish_lifecycle E X eid rq"
  "publish_execution E X eid (with_body rq f) = publish_execution E X eid rq"
  "refuse E X eid (with_body rq f) = refuse E X eid rq"
  "check_capabilities X (with_body rq f) = check_capabilities X rq"
  "check_intent X (with_body rq f) = check_intent X rq"
proof -
  show n: "notify_progress (with_body rq f) d = notify_progress rq d" for d
    by (simp add: notify_progress_def)
  show s: "publish_security X (with_body rq f) = publish_security X rq"
    by (intro ext) (simp add: publish_security_def)
  show l: "publish_lifecycle E X eid (with_body rq f) = publish_lifecycle E X eid rq"
    by (intro ext) (simp add: publish_lifecycle_def n)
  show e: "publish_execution E X eid (with_body rq f) = publish_execution E X eid rq"
    by (intro ext) (simp add: publish_execution_def n)
  show "refuse E X eid (with_body rq f) = refuse E X eid rq"
    by (intro ext) (simp add: refuse_def l e)
  show "check_capabilities X (with_body rq f) = check_capabilities X rq"
    by (simp add: check_capabilities_def cong: option.case_cong)
  have a: "attach_intent (with_body rq f) = attach_intent rq"
    unfolding attach_intent_def with_body_sel ..
  have i: "intent_error (with_body rq f) = intent_error rq"
    by (intro ext) (simp add: intent_error_def)
  show "check_intent X (with_body rq f) = check_intent X rq"
    unfolding check_intent_def s a i with_body_sel ..
qed

text \<open>The three grounds for refusal.\<close>

definition refused :: "executor \<Rightarrow> 'w exec_request \<Rightarrow> bool" where
  "refused X rq \<longleftrightarrow> validate_agent_task (rq_task rq) \<noteq> [] \<or> check_capabilities X rq \<noteq> None \<or>
     (\<exists>i. rq_intent rq = Some i \<and>
        effective_permissions i (CapObject (a_capabilities (rq_agent rq))) = {})"

lemma validate_intent_denied:
  "effective_permissions i c = {} \<Longrightarrow> \<not> sd_allowed (validate_intent i c)"
  by (simp add: validate_intent_allowed)

lemma check_intent_denied:
  assumes "rq_intent rq = Some i"
    and "effective_permissions i (CapObject (a_capabilities (rq_agent rq))) = {}"
  shows "\<exists>e t. check_intent X rq s = (Inr (Some e), t) \<and> err_code e = PERMISSION_DENIED"
  using assms validate_intent_denied [OF assms(2)]
  by (auto simp: check_intent_def Let_def py_run publish_security_def intent_error_def)

lemma check_capabilities_code:
  "check_capabilities X rq = Some e \<Longrightarrow> err_code e = PERMISSION_DENIED"
  by (auto simp: check_capabilities_def split: option.splits sum.splits)

lemma bnd_cong_run: "(\<And>x t. m s = (Inr x, t) \<Longrightarrow> f x t = g x t) \<Longrightarrow> bnd m f s = bnd m g s"
  by (auto simp: bnd_run split: prod.splits sum.splits)

lemma seq_cong_run: "(\<And>t. m s = (Inr (), t) \<Longrightarrow> n t = n' t) \<Longrightarrow> seq m n s = seq m n' s"
  unfolding seq_def by (rule bnd_cong_run) auto

lemma refused_body_irrelevant:
  assumes "refused X rq"
  shows "execute E X (with_body rq f) s = execute E X rq s"
proof -
  have accepted: "bnd (check_intent X rq) (\<lambda>d. case d of Some err \<Rightarrow> refuse E X eid rq err
        | None \<Rightarrow> run_accepted E X eid (with_body rq f) t0) u =
      bnd (check_intent X rq) (\<lambda>d. case d of Some err \<Rightarrow> refuse E X eid rq err
        | None \<Rightarrow> run_accepted E X eid rq t0) u"
    if "validate_agent_task (rq_task rq) = []" "check_capabilities X rq = None" for eid t0 u
  proof (rule bnd_cong_run)
    fix d t assume d: "check_intent X rq u = (Inr d, t)"
    from assms that obtain i where i: "rq_intent rq = Some i"
      "effective_permissions i (CapObject (a_capabilities (rq_agent rq))) = {}"
      by (auto simp: refused_def)
    from check_intent_denied [OF i, of X u] d obtain e where "d = Some e" by auto
    then show "(case d of Some err \<Rightarrow> refuse E X eid rq err
        | None \<Rightarrow> run_accepted E X eid (with_body rq f) t0) t =
      (case d of Some err \<Rightarrow> refuse E X eid rq err
        | None \<Rightarrow> run_accepted E X eid rq t0) t" by simp
  qed
  show ?thesis
    unfolding execute_def with_body_sel with_body_ops Let_def
    by (intro seq_cong_run bnd_cong_run) (auto simp: accepted split: option.split)
qed

definition refusal_outcome :: "exec_outcome \<Rightarrow> bool" where
  "refusal_outcome oc \<longleftrightarrow> oc_status oc = Failed \<and> oc_result oc = None \<and> oc_attempts oc = 1 \<and>
     (\<exists>e. oc_error oc = Some e \<and> err_code e \<in> {VALIDATION_ERROR, PERMISSION_DENIED} \<and>
        \<not> retryable e)"

lemma refuse_refusal:
  assumes "err_code err \<in> {VALIDATION_ERROR, PERMISSION_DENIED}" and "\<not> err_transient err"
    and "refuse E X eid rq err s = (Inr oc, t)"
  shows "refusal_outcome oc"
  using assms
  by (auto simp: refuse_def py_run refusal_outcome_def retryable_def
      split: prod.splits sum.splits)

lemma check_capabilities_transient:
  "check_capabilities X rq = Some e \<Longrightarrow> \<not> err_transient e"
  by (auto simp: check_capabilities_def split: option.splits sum.splits)

lemma check_intent_answer:
  "check_intent X rq s = (Inr (Some e), t) \<Longrightarrow> err_code e = PERMISSION_DENIED \<and> \<not> err_transient e"
  by (auto simp: check_intent_def Let_def py_run publish_security_def intent_error_def
      attach_intent_def split: option.splits if_splits)

lemma refused_outcome:
  assumes "refused X rq" and "execute E X rq s = (Inr oc, t)"
  shows "refusal_outcome oc"
proof (cases "validate_agent_task (rq_task rq) = []")
  case False
  with assms(2) show ?thesis
    by (auto simp: execute_def Let_def seq_run bnd_run split: prod.splits sum.splits
        intro: refuse_refusal [rotated 2])
next
  case valid: True
  show ?thesis
  proof (cases "check_capabilities X rq")
    case (Some e)
    with assms(2) valid check_capabilities_code [OF Some] check_capabilities_transient [OF Some]
    show ?thesis
      by (auto simp: execute_def Let_def seq_run bnd_run split: prod.splits sum.splits
          intro: refuse_refusal [rotated 2])
  next
    case None
    with assms(1) valid obtain i where i: "rq_intent rq = Some i"
      "effective_permissions i (CapObject (a_capabilities (rq_agent rq))) = {}"
      by (auto simp: refused_def)
    show ?thesis
      using assms(2) valid None check_intent_denied [OF i]
      by (auto simp: execute_def Let_def seq_run bnd_run split: prod.splits sum.splits option.splits
          dest: check_intent_answer intro: refuse_refusal [rotated 2]) (metis Inr_inject Pair_inject option.distinct(1))+
  qed
qed

end
