(* ===== verification/ExecutorRetry.thy ===== *)
theory ExecutorRetry
  imports ExecutorProps
begin

text \<open>
  The retry discipline of the executor: how often an agent that always fails the same way is
  invoked, and that a result the agent returns, good or bad, ends the run at once. The section
  on the progress callback shows what a callback that raises does to a successful run.
\<close>

section \<open>Runs that nobody cancels\<close>

text \<open>The pool is open and nobody has asked for cancellation; every part of a run keeps this.\<close>

definition calm :: "'w xstate \<Rightarrow> bool" where
  "calm s \<longleftrightarrow> x_pool_open s \<and> \<not> x_cancelled s"

definition any_raise :: "exn \<Rightarrow> 's \<Rightarrow> bool" where
  "any_raise e s \<longleftrightarrow> True"

definition never_cancelled :: "'w xenv \<Rightarrow> bool" where
  "never_cancelled E \<longleftrightarrow> (\<forall>w. \<not> fst (cancel_called E w))"

definition always_raises :: "'w exec_request \<Rightarrow> exn \<Rightarrow> bool" where
  "always_raises rq e \<longleftrightarrow> (\<forall>s. x_pool_open s \<longrightarrow>
     (\<exists>w. invoke rq (resolve_timeout rq) s = (Inl e, s\<lparr>x_world := w\<rparr>)))"

definition always_returns :: "'w exec_request \<Rightarrow> agent_result \<Rightarrow> bool" where
  "always_returns rq r \<longleftrightarrow> (\<forall>s. x_pool_open s \<longrightarrow>
     (\<exists>w. invoke rq (resolve_timeout rq) s = (Inr r, s\<lparr>x_world := w\<rparr>)))"

lemma calm_draw: "hoare calm (draw f) (\<lambda>_. calm) R"
  by (rule draw_inv) (simp add: calm_def)

lemma calm_modify:
  "(\<And>s. x_pool_open (f s) = x_pool_open s \<and> x_cancelled (f s) = x_cancelled s) \<Longrightarrow>
   hoare calm (modify f) (\<lambda>_. calm) any_raise"
  by (rule hoare_modify) (simp add: calm_def)

lemma calm_gets: "hoare calm (gets f) (\<lambda>_. calm) R"
  by (rule hoare_gets)

lemma calm_notify: "hoare calm (notify_progress rq d) (\<lambda>_. calm) any_raise"
  by (rule hoareI)
     (auto simp: notify_progress_def calm_def any_raise_def ret_run Let_def
       split: option.splits prod.splits sum.splits)

lemma calm_publish_lifecycle: "hoare calm (publish_lifecycle E X eid rq a b) (\<lambda>_. calm) any_raise"
  unfolding publish_lifecycle_def Let_def
  by (intro hoare_if hoare_ret hoare_seq [OF calm_modify] hoare_bnd [OF calm_draw]
      hoare_bnd [OF calm_gets] calm_notify) simp_all

lemma calm_publish_execution:
  "hoare calm (publish_execution E X eid rq tp st d n err us ob) (\<lambda>_. calm) any_raise"
  unfolding publish_execution_def Let_def
  by (intro hoare_if hoare_ret hoare_seq [OF calm_modify] hoare_bnd [OF calm_draw]
      hoare_bnd [OF calm_gets] calm_notify) simp_all

lemma calm_publish_security:
  "hoare calm (publish_security X rq tp act ok why vs) (\<lambda>_. calm) any_raise"
  unfolding publish_security_def
  by (intro hoare_if hoare_ret calm_modify) simp_all

lemma calm_transition: "hoare calm (do_transition E b) (\<lambda>_. calm) any_raise"
  by (rule hoareI)
     (auto simp: do_transition_def py_run draw_def calm_def any_raise_def Let_def
       split: prod.splits sum.splits)

lemma calm_elapsed: "hoare calm (elapsed E t0) (\<lambda>_. calm) R"
  unfolding elapsed_def by (rule hoare_bnd [OF calm_draw]) (rule hoare_ret)

lemma calm_sleep: "hoare calm (sleep E d) (\<lambda>_. calm) any_raise"
  unfolding sleep_def by (intro hoare_if hoare_raise calm_modify) (simp_all add: any_raise_def)

lemmas calm_steps =
  hoare_seq [OF calm_transition] hoare_seq [OF calm_publish_lifecycle]
  hoare_seq [OF calm_publish_execution] hoare_seq [OF calm_publish_security]
  hoare_bnd [OF calm_elapsed]

lemma calm_prepare_retry: "hoare calm (prepare_retry E X eid rq d n err) (\<lambda>_. calm) any_raise"
  unfolding prepare_retry_def by (intro calm_steps calm_sleep)

lemma calm_check_cancelled:
  assumes "never_cancelled E"
  shows "hoare calm (check_cancelled E) (\<lambda>c s. \<not> c \<and> calm s) any_raise"
proof (rule hoareI)
  fix s :: "'a xstate" assume "calm s"
  moreover obtain w where "cancel_called E (x_world s) = (False, w)"
    using assms by (cases "cancel_called E (x_world s)") (auto simp: never_cancelled_def dest: spec [of _ "x_world s"])
  ultimately show "case check_cancelled E s of (Inl e, t) \<Rightarrow> any_raise e t
      | (Inr c, t) \<Rightarrow> \<not> c \<and> calm t"
    by (simp add: check_cancelled_def py_run draw_def calm_def)
qed

lemma calm_check_intent: "hoare calm (check_intent X rq) (\<lambda>_. calm) any_raise"
proof (cases "rq_intent rq")
  case None
  then show ?thesis by (simp add: check_intent_def hoare_ret)
next
  case (Some i)
  have attach: "hoare calm (attach_intent rq) (\<lambda>_. calm) any_raise"
    unfolding attach_intent_def by (intro hoare_if hoare_ret calm_modify) simp_all
  show ?thesis
    unfolding check_intent_def Some option.case Let_def
    by (intro calm_steps hoare_if hoare_seq [OF attach] hoare_ret)
qed

lemma invoke_raises:
  "always_raises rq e \<Longrightarrow>
   hoare calm (invoke rq (resolve_timeout rq)) (\<lambda>_ _. False) (\<lambda>e' s. e' = e \<and> calm s)"
  by (rule hoareI) (fastforce simp: always_raises_def calm_def)

lemma invoke_returns:
  "always_returns rq r \<Longrightarrow>
   hoare calm (invoke rq (resolve_timeout rq)) (\<lambda>r' s. r' = r \<and> calm s) R"
  by (rule hoareI) (fastforce simp: always_returns_def calm_def)

section \<open>An agent that always fails the same way\<close>

definition retried_failure :: "'w exec_request \<Rightarrow> agent_error \<Rightarrow> bool" where
  "retried_failure rq err \<longleftrightarrow> (case request_policy rq of None \<Rightarrow> False
     | Some p \<Rightarrow> retryable err \<and> err_code err \<in> set (retryable_codes p))"

lemma should_retry_iff:
  "should_retry err (request_policy rq) n (max_attempts_of rq) \<longleftrightarrow>
     retried_failure rq err \<and> n < max_attempts_of rq"
  by (auto simp: should_retry_def retried_failure_def split: option.splits)

definition exhausted :: "'w xenv \<Rightarrow> 'w exec_request \<Rightarrow> exn \<Rightarrow> int \<Rightarrow> exec_outcome \<Rightarrow> bool" where
  "exhausted E rq e n oc \<longleftrightarrow>
     oc_status oc = caught_state e \<and> oc_error oc = Some (caught_error E rq e) \<and>
     oc_result oc = None \<and>
     oc_attempts oc = (if retried_failure rq (caught_error E rq e)
       then max n (max_attempts_of rq) else n)"

lemma give_up_exhausted:
  "\<not> should_retry (caught_error E rq e) (request_policy rq) n (max_attempts_of rq) \<Longrightarrow>
   hoare calm (give_up E X eid rq d n r e (caught_error E rq e))
     (\<lambda>oc _. exhausted E rq e n oc) any_raise"
  unfolding give_up_def
  by (intro calm_steps hoare_ret) (auto simp: exhausted_def should_retry_iff)

lemma attempt_loop_exhausts:
  assumes raises: "always_raises rq e" and nc: "never_cancelled E"
  shows "hoare calm (attempt_loop E X eid rq t0 n r) (\<lambda>oc _. exhausted E rq e n oc) any_raise"
proof (induction "nat (max_attempts_of rq - n)" arbitrary: n r rule: less_induct)
  case less
  let ?err = "caught_error E rq e"
  let ?again = "should_retry ?err (request_policy rq) n (max_attempts_of rq)"
  have conclude: "hoare calm (conclude E X eid rq t0 n r) (\<lambda>_ _. False) (\<lambda>e' s. e' = e \<and> calm s)"
    unfolding conclude_def
    by (rule hoare_bnd [OF invoke_raises [OF raises]]) (simp add: hoare_def)
  have caught: "hoare calm
      (try_except (bnd (conclude E X eid rq t0 n r) (\<lambda>oc. ret (Inl oc))) (\<lambda>e. ret (Inr e)))
      (\<lambda>x s. x = Inr e \<and> calm s) any_raise"
    by (rule hoare_try [OF hoare_bnd [OF conclude]]) (auto intro!: hoare_ret)
  have again: "hoare calm (seq (prepare_retry E X eid rq d n ?err)
      (attempt_loop E X eid rq t0 (n + 1) True)) (\<lambda>oc _. exhausted E rq e n oc) any_raise"
    if ?again for d
  proof -
    have n: "n < max_attempts_of rq" using that by (rule should_retry_bound)
    have "hoare calm (attempt_loop E X eid rq t0 (n + 1) True)
        (\<lambda>oc _. exhausted E rq e (n + 1) oc) any_raise"
      by (rule less) (use n in simp)
    then have "hoare calm (attempt_loop E X eid rq t0 (n + 1) True)
        (\<lambda>oc _. exhausted E rq e n oc) any_raise"
      by (rule hoare_weaken) (use n that in \<open>auto simp: exhausted_def should_retry_iff\<close>)
    then show ?thesis by (rule hoare_seq [OF calm_prepare_retry])
  qed
  have branch: "hoare calm (if ?again then seq (prepare_retry E X eid rq d n ?err)
        (attempt_loop E X eid rq t0 (n + 1) True) else give_up E X eid rq d n r e ?err)
      (\<lambda>oc _. exhausted E rq e n oc) any_raise" for d
    by (rule hoare_if, erule again, erule give_up_exhausted)
  have rest: "hoare (\<lambda>s. x = Inr e \<and> calm s) (case x of Inl oc \<Rightarrow> ret oc
       | Inr e \<Rightarrow> let err = caught_error E rq e in
           bnd (elapsed E t0) (\<lambda>duration.
           if should_retry err (request_policy rq) n (max_attempts_of rq)
           then seq (prepare_retry E X eid rq duration n err)
                  (attempt_loop E X eid rq t0 (n + 1) True)
           else give_up E X eid rq duration n r e err))
       (\<lambda>oc _. exhausted E rq e n oc) any_raise" for x
  proof (cases "x = Inr e")
    case True
    show ?thesis unfolding True sum.case Let_def
      by (rule hoare_pre, rule hoare_bnd [OF calm_elapsed branch]) simp
  next
    case False
    then show ?thesis by (simp add: hoare_def)
  qed
  show ?case
    by (subst attempt_loop.simps, rule hoare_bnd [OF calm_check_cancelled [OF nc]], rule hoare_if,
        simp add: hoare_def, rule hoare_pre, rule hoare_bnd [OF calm_elapsed],
        rule hoare_seq [OF calm_publish_execution], rule hoare_bnd [OF caught rest], simp)
qed

lemma run_accepted_exhausts:
  "always_raises rq e \<Longrightarrow> never_cancelled E \<Longrightarrow>
   hoare calm (run_accepted E X eid rq t0) (\<lambda>oc _. exhausted E rq e 1 oc) any_raise"
  unfolding run_accepted_def by (intro calm_steps attempt_loop_exhausts)

section \<open>An agent that returns\<close>

definition returned :: "agent_result \<Rightarrow> bool \<Rightarrow> int \<Rightarrow> exec_outcome \<Rightarrow> bool" where
  "returned r again n oc \<longleftrightarrow>
     oc_status oc = (if res_success r then Succeeded else Failed) \<and>
     oc_attempts oc = n \<and> oc_retried oc = again \<and>
     (\<exists>r'. oc_result oc = Some r' \<and> res_success r' = res_success r \<and>
        res_output r' = res_output r \<and> res_errors r' = res_errors r) \<and>
     oc_error oc = (if res_success r then None else Some (result_error r))"

lemma result_error_stamped:
  "result_error (r\<lparr>res_duration_ms := d, res_agent := a, res_task_id := t,
     res_correlation_id := c\<rparr>) = result_error r"
  by (simp add: result_error_def cong: option.case_cong)

lemma report_result_returned:
  "hoare calm (report_result E X eid rq n again d (r\<lparr>res_duration_ms := d', res_agent := a,
     res_task_id := t, res_correlation_id := c\<rparr>)) (\<lambda>oc _. returned r again n oc) any_raise"
  unfolding report_result_def Let_def
  by (intro hoare_if calm_steps hoare_ret) (simp_all add: returned_def result_error_stamped)

text \<open>Facts about quiet runs join the invariant of the event stream.\<close>

lemma both:
  assumes "hoare calm m Q any_raise" and "hoare P m Q' no_raise"
  shows "hoare (\<lambda>s. calm s \<and> P s) m (\<lambda>x s. Q x s \<and> Q' x s) no_raise"
  using assms by (fastforce simp: hoare_def split: prod.splits sum.splits)

lemma conclude_returns:
  assumes "always_returns rq r" and "rq_on_progress rq = None"
  shows "hoare (\<lambda>s. calm s \<and> run_inv X L Running Running s) (conclude E X eid rq t0 n again)
     (\<lambda>oc _. returned r again n oc) no_raise"
proof -
  let ?I = "\<lambda>s. calm s \<and> run_inv X L Running Running s"
  have report: "hoare ?I (report_result E X eid rq n again d (r\<lparr>res_duration_ms := d', res_agent := a,
      res_task_id := t, res_correlation_id := c\<rparr>)) (\<lambda>oc _. returned r again n oc) no_raise" for d d' a t c
    by (rule hoare_weaken [OF both [OF report_result_returned report_result_post [OF assms(2)]]])
       auto
  have "hoare (\<lambda>s. r' = r \<and> ?I s) (bnd (elapsed E t0) (\<lambda>d.
      report_result E X eid rq n again d
        (r'\<lparr>res_duration_ms := d, res_agent := a_name (rq_agent rq),
          res_task_id := at_task_id (rq_task rq), res_correlation_id := event_correlation rq\<rparr>)))
      (\<lambda>oc _. returned r again n oc) no_raise" for r'
  proof (cases "r' = r")
    case True
    show ?thesis unfolding True
      by (rule hoare_pre, rule hoare_bnd [OF both [OF calm_elapsed elapsed_inv] report]) simp
  next
    case False
    then show ?thesis by (simp add: hoare_def)
  qed
  moreover have "hoare ?I (invoke rq (resolve_timeout rq)) (\<lambda>r' s. r' = r \<and> ?I s) no_raise"
    using assms(1) by (intro hoareI) (fastforce simp: always_returns_def calm_def)
  ultimately show ?thesis
    unfolding conclude_def by (rule hoare_bnd [rotated])
qed

lemma attempt_loop_returns:
  assumes "always_returns rq r" and "rq_on_progress rq = None" and "never_cancelled E"
  shows "hoare (\<lambda>s. calm s \<and> run_inv X L Running Running s) (attempt_loop E X eid rq t0 n again)
     (\<lambda>oc _. returned r again n oc) no_raise"
proof -
  let ?I = "\<lambda>s. calm s \<and> run_inv X L Running Running s"
  let ?Q = "\<lambda>oc _. returned r again n oc"
  let ?R = "\<lambda>x s. \<exists>oc. x = Inl oc \<and> returned r again n oc"
  have caught: "hoare ?I
      (try_except (bnd (conclude E X eid rq t0 n again) (\<lambda>oc. ret (Inl oc))) (\<lambda>e. ret (Inr e)))
      ?R no_raise"
    by (rule hoare_try [OF hoare_bnd [OF conclude_returns [OF assms(1,2)]]])
       (auto intro!: hoare_ret simp: no_raise_def)
  have rest: "hoare (\<lambda>s. \<exists>oc. x = Inl oc \<and> returned r again n oc) (case x of Inl oc \<Rightarrow> ret oc
       | Inr e \<Rightarrow> f e) ?Q no_raise" for x f
    by (cases x) (auto simp: hoare_def ret_run)
  have cancelled: "hoare ?I (check_cancelled E) (\<lambda>c s. \<not> c \<and> ?I s) no_raise"
    by (rule hoare_weaken [OF both [OF calm_check_cancelled [OF assms(3)] check_cancelled_inv]])
       auto
  show ?thesis
    by (subst attempt_loop.simps, rule hoare_bnd [OF cancelled], rule hoare_if,
        simp add: hoare_def, rule hoare_pre, rule hoare_bnd [OF both [OF calm_elapsed elapsed_inv]],
        rule hoare_seq [OF both [OF calm_publish_execution publish_execution_inv [OF assms(2)]]],
        rule hoare_bnd [OF caught rest], simp)
qed

lemma run_accepted_returns:
  assumes "always_returns rq r" and "rq_on_progress rq = None" and "never_cancelled E"
  shows "hoare (\<lambda>s. calm s \<and> run_inv X L Created Created s) (run_accepted E X eid rq t0)
     (\<lambda>oc _. returned r False 1 oc) no_raise"
  unfolding run_accepted_def
  by (intro hoare_seq [OF both [OF calm_transition do_transition_inv]]
      hoare_seq [OF both [OF calm_publish_lifecycle publish_lifecycle_inv]] steps_allowed
      attempt_loop_returns assms)

section \<open>Runs that are not refused\<close>

lemma calm_check_intent_passed:
  assumes "\<not> refused X rq"
  shows "hoare calm (check_intent X rq) (\<lambda>d s. d = None \<and> calm s) any_raise"
proof (cases "rq_intent rq")
  case None
  then show ?thesis by (simp add: check_intent_def hoare_ret)
next
  case (Some i)
  then have ok: "\<not> \<not> sd_allowed (validate_intent i (CapObject (a_capabilities (rq_agent rq))))"
    using assms by (auto simp: refused_def validate_intent_allowed)
  have attach: "hoare calm (attach_intent rq) (\<lambda>_. calm) any_raise"
    unfolding attach_intent_def by (intro hoare_if hoare_ret calm_modify) simp_all
  show ?thesis
    unfolding check_intent_def Some option.case Let_def if_not_P [OF ok]
    by (intro calm_steps hoare_seq [OF attach] hoare_ret) simp
qed

lemma execute_accepted:
  assumes pass: "\<not> refused X rq" and silent: "rq_on_progress rq = None"
    and run: "\<And>eid t0. hoare (\<lambda>s. calm s \<and> run_inv X L Created Created s)
      (run_accepted E X eid rq t0) Q no_raise"
  shows "hoare (\<lambda>s. x_pool_open s \<and> x_log s = L) (execute E X rq) Q no_raise"
proof -
  let ?S = "\<lambda>s. lc_state (x_lc s) = Created \<and> x_sequence s = 0 \<and> x_log s = L"
  let ?I = "run_inv X L Created Created"
  have valid: "\<not> validate_agent_task (rq_task rq) \<noteq> []" and caps: "check_capabilities X rq = None"
    using pass by (auto simp: refused_def)
  have passed: "hoare (\<lambda>s. calm s \<and> ?I s) (check_intent X rq) (\<lambda>d s. d = None \<and> calm s \<and> ?I s) no_raise"
    by (rule hoare_weaken [OF both [OF calm_check_intent_passed [OF pass] check_intent_inv]]) auto
  have rest: "hoare (\<lambda>s. d = None \<and> calm s \<and> ?I s) (case d of Some err \<Rightarrow> refuse E X eid rq err
      | None \<Rightarrow> run_accepted E X eid rq t0) Q no_raise" for d eid t0
    using run by (cases d) (auto simp: hoare_def)
  have draws: "hoare (\<lambda>s. calm s \<and> ?S s) (draw f) (\<lambda>_ s. calm s \<and> ?S s) no_raise" for f
    by (rule draw_inv) (simp add: calm_def)
  show ?thesis
    unfolding execute_def Let_def if_not_P [OF valid] caps option.case
    by (rule hoare_seq [where S = "\<lambda>s. calm s \<and> ?S s"], rule hoare_modify,
        simp add: AgentLifecycle_init_def calm_def, rule hoare_bnd [OF draws],
        rule hoare_bnd [OF draws],
        rule hoare_seq [OF both [OF calm_publish_lifecycle start_stream [OF silent]]],
        rule hoare_bnd [OF passed rest])
qed

lemma execute_returns:
  assumes "\<not> refused X rq" and "plain_request rq" and "never_cancelled E"
    and "always_returns rq r" and "x_pool_open s"
  shows "\<exists>oc t. execute E X rq s = (Inr oc, t) \<and> returned r False 1 oc"
proof -
  have "rq_on_progress rq = None" using assms(2) by (simp add: plain_request_def)
  from execute_accepted [OF assms(1) this run_accepted_returns [OF assms(4) this assms(3)]]
  show ?thesis by (rule hoare_no_raise) (simp add: assms(5))
qed

lemma execute_exhausts:
  assumes "\<not> refused X rq" and "plain_request rq" and "never_cancelled E"
    and "always_raises rq e" and "x_pool_open s"
  shows "\<exists>oc t. execute E X rq s = (Inr oc, t) \<and> exhausted E rq e 1 oc"
proof -
  have p: "rq_on_progress rq = None" "policy_ok rq" using assms(2) by (simp_all add: plain_request_def)
  have "hoare (\<lambda>s. calm s \<and> run_inv X L Created Created s) (run_accepted E X eid rq t0)
      (\<lambda>oc _. exhausted E rq e 1 oc) no_raise" for L eid t0
    by (rule hoare_weaken [OF both [OF run_accepted_exhausts [OF assms(4,3)]
          run_accepted_post [OF p]]]) auto
  from execute_accepted [OF assms(1) p(1) this]
  show ?thesis by (rule hoare_no_raise) (simp add: assms(5))
qed

end
