(* ===== verification/Kanban.thy ===== *)
theory Kanban
  imports Table PyStr
begin

text \<open>
  The scrum board (\<open>scheduler/models.py\<close>, \<open>scheduler/store.py\<close>, \<open>scheduler/engine.py\<close>): boards,
  cards and subtasks in the project database, the column discipline of \<open>move_card\<close> with its TDD
  gate, and the engine that publishes what happened. The state is the three tables, whether the
  store is open, how often the clock was read and the events handed to the bus; the clock and
  the project are parameters. The engine is initialized. The database enforces the foreign keys
  of the schema, as the connection asks it to.
\<close>

section \<open>Data\<close>

definition COLUMNS :: "string list" where
  "COLUMNS = [''Backlog'', ''Todo'', ''InProgress'', ''Review'', ''Done'']"

record board_row =
  br_name :: string
  br_status :: string
  br_project :: string
  br_created :: string

record card_row =
  cr_board :: int
  cr_title :: string
  cr_description :: string
  cr_column :: string
  cr_tdd :: bool
  cr_blocked :: bool
  cr_reason :: string
  cr_project :: string
  cr_created :: string
  cr_updated :: string

record subtask_row =
  sr_card :: int
  sr_description :: string
  sr_done :: bool
  sr_created :: string

text \<open>The objects handed out: an identifier, the columns and, for a card, its subtasks.\<close>

record kanban_board =
  kb_id :: int
  kb_row :: board_row

record kanban_subtask =
  ks_id :: int
  ks_row :: subtask_row

record kanban_card =
  kc_id :: int
  kc_row :: card_row
  kc_subtasks :: "kanban_subtask list"

abbreviation kc_column :: "kanban_card \<Rightarrow> string" where
  "kc_column c \<equiv> cr_column (kc_row c)"

record kanban_state =
  k_open :: bool
  k_boards :: "board_row table"
  k_cards :: "card_row table"
  k_subtasks :: "subtask_row table"
  k_tick :: nat
  k_log :: "(string \<times> pydict) list"

record kanban_env =
  k_project :: string
  k_bus :: bool
  k_clock :: "nat \<Rightarrow> string"

type_synonym 'a kanban = "(kanban_state, 'a) py"

definition empty_kanban :: kanban_state where
  "empty_kanban = \<lparr>k_open = True, k_boards = empty_table, k_cards = empty_table,
     k_subtasks = empty_table, k_tick = 0, k_log = []\<rparr>"

section \<open>The store\<close>

definition now_iso :: "kanban_env \<Rightarrow> string kanban" where
  "now_iso E = (\<lambda>s. (Inr (k_clock E (k_tick s)), s\<lparr>k_tick := k_tick s + 1\<rparr>))"

text \<open>\<open>_execute\<close> needs an open connection; the fetch helpers answer nothing without one.\<close>

definition require_open :: "unit kanban" where
  "require_open = (\<lambda>s. (if k_open s then Inr () else Inl (Exn KanbanError ''Store is not open''), s))"

definition require_parent :: "(kanban_state \<Rightarrow> bool) \<Rightarrow> unit kanban" where
  "require_parent P =
     (\<lambda>s. (if P s then Inr () else Inl (Exn OtherException ''FOREIGN KEY constraint failed''), s))"

definition store_create_board :: "kanban_env \<Rightarrow> string \<Rightarrow> kanban_board kanban" where
  "store_create_board E name =
     bnd (now_iso E) (\<lambda>now.
     seq require_open (\<lambda>s.
       let r = \<lparr>br_name = name, br_status = ''active'', br_project = k_project E, br_created = now\<rparr>;
           (i, t) = insert_row r (k_boards s)
       in (Inr \<lparr>kb_id = i, kb_row = r\<rparr>, s\<lparr>k_boards := t\<rparr>)))"

definition store_get_board :: "kanban_env \<Rightarrow> int \<Rightarrow> kanban_board option kanban" where
  "store_get_board E bid = gets (\<lambda>s.
     if \<not> k_open s then None
     else case row_of (k_boards s) bid of
       None \<Rightarrow> None
     | Some r \<Rightarrow> if br_project r = k_project E then Some \<lparr>kb_id = bid, kb_row = r\<rparr> else None)"

definition store_list_boards :: "kanban_env \<Rightarrow> kanban_board list kanban" where
  "store_list_boards E = gets (\<lambda>s.
     if \<not> k_open s then []
     else map (\<lambda>(i, r). \<lparr>kb_id = i, kb_row = r\<rparr>)
       (select_rows (\<lambda>i r. br_project r = k_project E) (k_boards s)))"

definition subtasks_of :: "kanban_state \<Rightarrow> int \<Rightarrow> kanban_subtask list" where
  "subtasks_of s cid =
     (if \<not> k_open s then []
      else map (\<lambda>(i, r). \<lparr>ks_id = i, ks_row = r\<rparr>)
        (select_rows (\<lambda>i r. sr_card r = cid) (k_subtasks s)))"

definition store_create_card ::
  "kanban_env \<Rightarrow> int \<Rightarrow> string \<Rightarrow> string \<Rightarrow> kanban_card kanban" where
  "store_create_card E bid title description =
     bnd (now_iso E) (\<lambda>now.
     seq require_open
    (seq (require_parent (\<lambda>s. row_of (k_boards s) bid \<noteq> None)) (\<lambda>s.
       let r = \<lparr>cr_board = bid, cr_title = title, cr_description = description,
                cr_column = ''Backlog'', cr_tdd = False, cr_blocked = False, cr_reason = '''',
                cr_project = k_project E, cr_created = now, cr_updated = now\<rparr>;
           (i, t) = insert_row r (k_cards s)
       in (Inr \<lparr>kc_id = i, kc_row = r, kc_subtasks = []\<rparr>, s\<lparr>k_cards := t\<rparr>))))"

definition find_card :: "kanban_env \<Rightarrow> kanban_state \<Rightarrow> int \<Rightarrow> kanban_card option" where
  "find_card E s cid =
     (if \<not> k_open s then None
      else case row_of (k_cards s) cid of
        None \<Rightarrow> None
      | Some r \<Rightarrow> if cr_project r = k_project E
          then Some \<lparr>kc_id = cid, kc_row = r, kc_subtasks = subtasks_of s cid\<rparr> else None)"

definition store_get_card :: "kanban_env \<Rightarrow> int \<Rightarrow> kanban_card option kanban" where
  "store_get_card E cid = gets (\<lambda>s. find_card E s cid)"

definition store_list_cards :: "kanban_env \<Rightarrow> int \<Rightarrow> kanban_card list kanban" where
  "store_list_cards E bid = gets (\<lambda>s.
     if \<not> k_open s then []
     else map (\<lambda>(i, r). \<lparr>kc_id = i, kc_row = r, kc_subtasks = subtasks_of s i\<rparr>)
       (select_rows (\<lambda>i r. cr_board r = bid \<and> cr_project r = k_project E) (k_cards s)))"

definition update_card :: "int \<Rightarrow> (card_row \<Rightarrow> card_row) \<Rightarrow> unit kanban" where
  "update_card cid f = seq require_open (modify (\<lambda>s. s\<lparr>k_cards := update_row cid f (k_cards s)\<rparr>))"

text \<open>\<open>COLUMNS.index\<close>, on a column that is there.\<close>

definition column_index :: "string \<Rightarrow> nat" where
  "column_index c = length (takeWhile (\<lambda>d. d \<noteq> c) COLUMNS)"

definition store_move_card :: "kanban_env \<Rightarrow> int \<Rightarrow> string \<Rightarrow> kanban_card option kanban" where
  "store_move_card E cid column =
     (if column \<notin> set COLUMNS
      then raise (Exn KanbanError (''Unknown kanban column: '' @ column))
      else bnd (store_get_card E cid) (\<lambda>found.
        case found of
          None \<Rightarrow> raise (Exn KanbanError (''Card not found: '' @ str_of_int cid))
        | Some k \<Rightarrow>
            if column = kc_column k then ret (Some k)
            else if column = ''Done'' \<and> \<not> cr_tdd (kc_row k)
            then raise (Exn KanbanError ''TDD gate not passed: cannot move to 'Done' without green tests'')
            else if kc_column k \<notin> set COLUMNS
            then raise (Exn ValueError ''tuple.index(x): x not in tuple'')
            else if column_index column > column_index (kc_column k) + 1
            then raise (Exn KanbanError
              (''Cannot skip columns: '' @ kc_column k @ '' -> '' @ column))
            else bnd (now_iso E) (\<lambda>now.
              seq (update_card cid (\<lambda>r. r\<lparr>cr_column := column, cr_updated := now\<rparr>))
                (store_get_card E cid))))"

definition store_pass_tdd_gate :: "kanban_env \<Rightarrow> int \<Rightarrow> unit kanban" where
  "store_pass_tdd_gate E cid =
     bnd (now_iso E) (\<lambda>now. update_card cid (\<lambda>r. r\<lparr>cr_tdd := True, cr_updated := now\<rparr>))"

definition store_set_blocked :: "kanban_env \<Rightarrow> int \<Rightarrow> string \<Rightarrow> kanban_card option kanban" where
  "store_set_blocked E cid reason =
     bnd (now_iso E) (\<lambda>now.
     seq (update_card cid (\<lambda>r. r\<lparr>cr_blocked := True, cr_reason := reason, cr_updated := now\<rparr>))
       (store_get_card E cid))"

definition store_create_subtask :: "kanban_env \<Rightarrow> int \<Rightarrow> string \<Rightarrow> kanban_subtask kanban" where
  "store_create_subtask E cid description =
     bnd (now_iso E) (\<lambda>now.
     seq require_open
    (seq (require_parent (\<lambda>s. row_of (k_cards s) cid \<noteq> None)) (\<lambda>s.
       let r = \<lparr>sr_card = cid, sr_description = description, sr_done = False, sr_created = now\<rparr>;
           (i, t) = insert_row r (k_subtasks s)
       in (Inr \<lparr>ks_id = i, ks_row = r\<rparr>, s\<lparr>k_subtasks := t\<rparr>))))"

definition store_get_subtasks :: "int \<Rightarrow> kanban_subtask list kanban" where
  "store_get_subtasks cid = gets (\<lambda>s. subtasks_of s cid)"

definition store_complete_subtask :: "int \<Rightarrow> unit kanban" where
  "store_complete_subtask sid =
     seq require_open (modify (\<lambda>s. s\<lparr>k_subtasks :=
       update_row sid (\<lambda>r. r\<lparr>sr_done := True\<rparr>) (k_subtasks s)\<rparr>))"

section \<open>The engine\<close>

definition kanban_publish :: "kanban_env \<Rightarrow> string \<Rightarrow> pydict \<Rightarrow> unit kanban" where
  "kanban_publish E topic payload =
     (if k_bus E then modify (\<lambda>s. s\<lparr>k_log := k_log s @ [(topic, payload)]\<rparr>) else ret ())"

definition moved_payload :: "string \<Rightarrow> kanban_card \<Rightarrow> pydict" where
  "moved_payload old c =
     [(''card_id'', PInt (kc_id c)), (''card_title'', PStr (cr_title (kc_row c))),
      (''from_column'', PStr old), (''to_column'', PStr (kc_column c)),
      (''board_id'', PInt (cr_board (kc_row c)))]"

definition blocked_payload :: "string \<Rightarrow> kanban_card \<Rightarrow> pydict" where
  "blocked_payload reason c =
     [(''card_id'', PInt (kc_id c)), (''card_title'', PStr (cr_title (kc_row c))),
      (''reason'', PStr reason), (''column'', PStr (kc_column c)),
      (''board_id'', PInt (cr_board (kc_row c)))]"

definition TDD_REASON :: string where
  "TDD_REASON = ''TDD gate not passed: cannot move to 'Done' without green tests''"

text \<open>Reading an attribute of what the store answered; \<open>None\<close> has none.\<close>

definition need_card :: "kanban_card option \<Rightarrow> kanban_card kanban" where
  "need_card c = (case c of
     None \<Rightarrow> raise (Exn AttributeError ''NoneType object has no attribute'') | Some x \<Rightarrow> ret x)"

definition move_card :: "kanban_env \<Rightarrow> int \<Rightarrow> string \<Rightarrow> kanban_card option kanban" where
  "move_card E cid column =
     bnd (gets (\<lambda>s. if k_bus E then map_option kc_column (find_card E s cid) else None)) (\<lambda>old.
     bnd (try_except (store_move_card E cid column) (\<lambda>e.
            if exn_kind e = KanbanError
            then seq (if column = ''Done'' \<and> k_bus E
                   then bnd (store_get_card E cid) (\<lambda>c. case c of
                     None \<Rightarrow> ret ()
                   | Some k \<Rightarrow>
                       kanban_publish E ''kanban.card_blocked'' (blocked_payload TDD_REASON k))
                   else ret ()) (raise e)
            else raise e)) (\<lambda>result.
     if k_bus E
     then bnd (need_card result) (\<lambda>k.
       seq (if old \<noteq> Some (kc_column k)
            then kanban_publish E ''kanban.card_moved''
              (moved_payload (case old of None \<Rightarrow> '''' | Some c \<Rightarrow> c) k)
            else ret ()) (ret (Some k)))
     else ret result))"

definition block_card :: "kanban_env \<Rightarrow> int \<Rightarrow> string \<Rightarrow> kanban_card option kanban" where
  "block_card E cid reason =
     bnd (store_set_blocked E cid reason) (\<lambda>result.
     if k_bus E
     then bnd (need_card result) (\<lambda>k.
       seq (kanban_publish E ''kanban.card_blocked'' (blocked_payload reason k)) (ret result))
     else ret result)"

definition begin_work :: "kanban_env \<Rightarrow> int \<Rightarrow> kanban_card option kanban" where
  "begin_work E cid = bnd (move_card E cid ''Todo'') (\<lambda>_. move_card E cid ''InProgress'')"

definition complete_work :: "kanban_env \<Rightarrow> int \<Rightarrow> kanban_card option kanban" where
  "complete_work E cid =
     bnd (move_card E cid ''Review'') (\<lambda>_.
     seq (store_pass_tdd_gate E cid) (move_card E cid ''Done''))"

definition create_subtask :: "kanban_env \<Rightarrow> int \<Rightarrow> string \<Rightarrow> kanban_subtask kanban" where
  "create_subtask E cid description =
     bnd (store_create_subtask E cid description) (\<lambda>st.
     seq (kanban_publish E ''kanban.subtask_created''
       [(''subtask_id'', PInt (ks_id st)), (''card_id'', PInt (sr_card (ks_row st))),
        (''description'', PStr (sr_description (ks_row st)))]) (ret st))"

definition complete_subtask :: "kanban_env \<Rightarrow> int \<Rightarrow> unit kanban" where
  "complete_subtask E sid =
     seq (store_complete_subtask sid)
       (kanban_publish E ''kanban.subtask_completed'' [(''subtask_id'', PInt sid)])"

section \<open>The invariant\<close>

definition card_ok :: "card_row \<Rightarrow> bool" where
  "card_ok r \<longleftrightarrow> cr_column r \<in> set COLUMNS \<and> (cr_column r = ''Done'' \<longrightarrow> cr_tdd r)"

text \<open>Every card stands in a known column, in \<open>Done\<close> only with its gate passed, and belongs to a
  board; every subtask belongs to a card.\<close>

definition kanban_inv :: "kanban_state \<Rightarrow> bool" where
  "kanban_inv s \<longleftrightarrow> table_inv (k_boards s) \<and> table_inv (k_cards s) \<and> table_inv (k_subtasks s) \<and>
     sqlite.all_rows (\<lambda>r. card_ok r \<and> row_of (k_boards s) (cr_board r) \<noteq> None) (k_cards s) \<and>
     sqlite.all_rows (\<lambda>r. row_of (k_cards s) (sr_card r) \<noteq> None) (k_subtasks s)"

abbreviation keeps_inv :: "'a kanban \<Rightarrow> bool" where
  "keeps_inv m \<equiv> hoare kanban_inv m (\<lambda>_. kanban_inv) (\<lambda>_. kanban_inv)"

lemma kanban_inv_empty: "kanban_inv empty_kanban"
  by (simp add: kanban_inv_def empty_kanban_def sqlite.all_rows_def)

lemma kanban_inv_frame [simp]:
  "kanban_inv (s\<lparr>k_tick := n\<rparr>) = kanban_inv s"
  "kanban_inv (s\<lparr>k_log := l\<rparr>) = kanban_inv s"
  "kanban_inv (s\<lparr>k_open := b\<rparr>) = kanban_inv s"
  by (simp_all add: kanban_inv_def)

lemma inv_update_card:
  assumes "kanban_inv s"
    and "\<And>r. row_of (k_cards s) cid = Some r \<Longrightarrow> card_ok r \<Longrightarrow> card_ok (f r) \<and> cr_board (f r) = cr_board r"
  shows "kanban_inv (s\<lparr>k_cards := update_row cid f (k_cards s)\<rparr>)"
proof -
  have "sqlite.all_rows (\<lambda>r. card_ok r \<and> row_of (k_boards s) (cr_board r) \<noteq> None)
      (update_row cid f (k_cards s))"
    using assms by (intro sqlite.all_rows_upd) (auto simp: kanban_inv_def)
  moreover have "sqlite.all_rows (\<lambda>r. row_of (update_row cid f (k_cards s)) (sr_card r) \<noteq> None)
      (k_subtasks s)"
    using assms(1) by (auto simp: kanban_inv_def sqlite.all_rows_def row_of_update)
  ultimately show ?thesis using assms(1) by (simp add: kanban_inv_def)
qed

lemma inv_now: "keeps_inv (now_iso E)"
  by (rule hoareI) (simp add: now_iso_def)

lemma inv_require_open: "keeps_inv require_open"
  by (rule hoareI) (simp add: require_open_def)

lemma inv_publish: "keeps_inv (kanban_publish E topic p)"
  unfolding kanban_publish_def by (intro hoare_if hoare_modify hoare_ret) simp_all

lemma inv_gets: "keeps_inv (gets f)"
  by (rule hoare_gets)

lemma inv_store_create_board: "keeps_inv (store_create_board E name)"
  unfolding store_create_board_def
proof (intro hoare_bnd [OF inv_now] hoare_seq [OF inv_require_open] hoareI)
  fix now s assume inv: "kanban_inv s"
  let ?r = "\<lparr>br_name = name, br_status = ''active'', br_project = k_project E, br_created = now\<rparr>"
  have keep: "row_of (snd (insert_row ?r (k_boards s))) i \<noteq> None" if "row_of (k_boards s) i \<noteq> None" for i
    using inv that sqlite.get_ins_kept [of "k_boards s" i _ ?r] by (auto simp: kanban_inv_def)
  have "kanban_inv (s\<lparr>k_boards := snd (insert_row ?r (k_boards s))\<rparr>)"
    using inv keep by (auto simp: kanban_inv_def sqlite.all_rows_def table_inv_insert)
  then show "case (let r = ?r; (i, t) = insert_row r (k_boards s)
        in (Inr \<lparr>kb_id = i, kb_row = r\<rparr>, s\<lparr>k_boards := t\<rparr>)) of
      (Inl e, t) \<Rightarrow> kanban_inv t | (Inr x, t) \<Rightarrow> kanban_inv t"
    by (simp add: Let_def case_prod_unfold)
qed

lemma inv_require_parent: "hoare kanban_inv (require_parent P) (\<lambda>_ s. kanban_inv s \<and> P s) (\<lambda>_. kanban_inv)"
  by (rule hoareI) (simp add: require_parent_def)

lemma inv_store_create_card: "keeps_inv (store_create_card E bid title description)"
  unfolding store_create_card_def
proof (intro hoare_bnd [OF inv_now] hoare_seq [OF inv_require_open]
    hoare_seq [OF inv_require_parent] hoareI)
  fix now s assume s: "kanban_inv s \<and> row_of (k_boards s) bid \<noteq> None"
  let ?r = "\<lparr>cr_board = bid, cr_title = title, cr_description = description,
      cr_column = ''Backlog'', cr_tdd = False, cr_blocked = False, cr_reason = '''',
      cr_project = k_project E, cr_created = now, cr_updated = now\<rparr>"
  have keep: "row_of (snd (insert_row ?r (k_cards s))) i \<noteq> None" if "row_of (k_cards s) i \<noteq> None" for i
    using s that sqlite.get_ins_kept [of "k_cards s" i _ ?r] by (auto simp: kanban_inv_def)
  have "sqlite.all_rows (\<lambda>r. card_ok r \<and> row_of (k_boards s) (cr_board r) \<noteq> None)
      (snd (insert_row ?r (k_cards s)))"
    using s by (intro sqlite.all_rows_ins) (auto simp: kanban_inv_def card_ok_def COLUMNS_def)
  then have "kanban_inv (s\<lparr>k_cards := snd (insert_row ?r (k_cards s))\<rparr>)"
    using s keep by (auto simp: kanban_inv_def sqlite.all_rows_def table_inv_insert)
  then show "case (let r = ?r; (i, t) = insert_row r (k_cards s)
        in (Inr \<lparr>kc_id = i, kc_row = r, kc_subtasks = []\<rparr>, s\<lparr>k_cards := t\<rparr>)) of
      (Inl e, t) \<Rightarrow> kanban_inv t | (Inr x, t) \<Rightarrow> kanban_inv t"
    by (simp add: Let_def case_prod_unfold)
qed

lemma inv_store_create_subtask: "keeps_inv (store_create_subtask E cid description)"
  unfolding store_create_subtask_def
proof (intro hoare_bnd [OF inv_now] hoare_seq [OF inv_require_open]
    hoare_seq [OF inv_require_parent] hoareI)
  fix now s assume s: "kanban_inv s \<and> row_of (k_cards s) cid \<noteq> None"
  let ?r = "\<lparr>sr_card = cid, sr_description = description, sr_done = False, sr_created = now\<rparr>"
  have "sqlite.all_rows (\<lambda>r. row_of (k_cards s) (sr_card r) \<noteq> None)
      (snd (insert_row ?r (k_subtasks s)))"
    using s by (intro sqlite.all_rows_ins) (auto simp: kanban_inv_def)
  then have "kanban_inv (s\<lparr>k_subtasks := snd (insert_row ?r (k_subtasks s))\<rparr>)"
    using s by (auto simp: kanban_inv_def table_inv_insert)
  then show "case (let r = ?r; (i, t) = insert_row r (k_subtasks s)
        in (Inr \<lparr>ks_id = i, ks_row = r\<rparr>, s\<lparr>k_subtasks := t\<rparr>)) of
      (Inl e, t) \<Rightarrow> kanban_inv t | (Inr x, t) \<Rightarrow> kanban_inv t"
    by (simp add: Let_def case_prod_unfold)
qed

lemma inv_store_complete_subtask: "keeps_inv (store_complete_subtask sid)"
  unfolding store_complete_subtask_def
proof (intro hoare_seq [OF inv_require_open] hoare_modify)
  fix s assume inv: "kanban_inv s"
  have "sqlite.all_rows (\<lambda>r. row_of (k_cards s) (sr_card r) \<noteq> None)
      (update_row sid (\<lambda>r. r\<lparr>sr_done := True\<rparr>) (k_subtasks s))"
    using inv by (intro sqlite.all_rows_upd) (auto simp: kanban_inv_def)
  then show "kanban_inv (s\<lparr>k_subtasks := update_row sid (\<lambda>r. r\<lparr>sr_done := True\<rparr>) (k_subtasks s)\<rparr>)"
    using inv by (simp add: kanban_inv_def)
qed

lemma inv_update_mild:
  assumes "\<And>r. card_ok r \<Longrightarrow> card_ok (f r) \<and> cr_board (f r) = cr_board r"
  shows "keeps_inv (update_card cid f)"
  unfolding update_card_def
  by (intro hoare_seq [OF inv_require_open] hoare_modify inv_update_card) (simp_all add: assms)

lemma inv_pass_tdd_gate: "keeps_inv (store_pass_tdd_gate E cid)"
  unfolding store_pass_tdd_gate_def
  by (intro hoare_bnd [OF inv_now] inv_update_mild) (auto simp: card_ok_def)

lemma inv_set_blocked: "keeps_inv (store_set_blocked E cid reason)"
  unfolding store_set_blocked_def store_get_card_def
  by (intro hoare_bnd [OF inv_now] hoare_seq [OF inv_update_mild] inv_gets) (auto simp: card_ok_def)

lemma inv_store_move_card: "keeps_inv (store_move_card E cid column)"
proof (rule hoareI)
  fix s assume inv: "kanban_inv s"
  have upd: "kanban_inv (s\<lparr>k_tick := n, k_cards := update_row cid
      (\<lambda>r. r\<lparr>cr_column := column, cr_updated := now\<rparr>) (k_cards s)\<rparr>)"
    if "column \<in> set COLUMNS" "find_card E s cid = Some k" "column = ''Done'' \<longrightarrow> cr_tdd (kc_row k)"
    for n now k
  proof -
    have "row_of (k_cards s) cid = Some (kc_row k)"
      using that(2) by (auto simp: find_card_def split: if_splits option.splits)
    with that have "kanban_inv ((s\<lparr>k_tick := n\<rparr>)\<lparr>k_cards := update_row cid
        (\<lambda>r. r\<lparr>cr_column := column, cr_updated := now\<rparr>) (k_cards (s\<lparr>k_tick := n\<rparr>))\<rparr>)"
      using inv by (intro inv_update_card) (auto simp: card_ok_def)
    then show ?thesis by simp
  qed
  show "case store_move_card E cid column s of
      (Inl e, t) \<Rightarrow> kanban_inv t | (Inr x, t) \<Rightarrow> kanban_inv t"
    using inv upd
    by (auto simp: store_move_card_def store_get_card_def py_run now_iso_def update_card_def
        require_open_def split: option.splits prod.splits sum.splits)
qed

lemma inv_need_card: "keeps_inv (need_card c)"
  unfolding need_card_def by (cases c) (simp_all add: hoare_raise hoare_ret)

lemma inv_move_card: "keeps_inv (move_card E cid column)"
proof -
  have handler: "keeps_inv (if exn_kind e = KanbanError
      then seq (if column = ''Done'' \<and> k_bus E
             then bnd (store_get_card E cid) (\<lambda>c. case c of None \<Rightarrow> ret ()
               | Some k \<Rightarrow> kanban_publish E ''kanban.card_blocked'' (blocked_payload TDD_REASON k))
             else ret ()) (raise e)
      else raise e)" for e :: exn
  proof -
    have "keeps_inv (case c of None \<Rightarrow> ret () | Some k \<Rightarrow> kanban_publish E topic (g k))" for c topic g
      by (cases c) (simp_all add: hoare_ret inv_publish)
    then show ?thesis
      unfolding store_get_card_def
      by (intro hoare_if hoare_raise hoare_seq [where S = kanban_inv] hoare_ret hoare_bnd [OF inv_gets])
  qed
  show ?thesis
    unfolding move_card_def
    by (rule hoare_bnd [OF inv_gets], rule hoare_bnd [OF hoare_try [OF inv_store_move_card handler]],
        rule hoare_if, rule hoare_bnd [OF inv_need_card], rule hoare_seq [where S = kanban_inv],
        rule hoare_if, rule inv_publish, rule hoare_ret, assumption, rule hoare_ret, assumption,
        rule hoare_ret, assumption)
qed

lemma inv_block_card: "keeps_inv (block_card E cid reason)"
  unfolding block_card_def
  by (intro hoare_bnd [OF inv_set_blocked] hoare_if hoare_bnd [OF inv_need_card]
      hoare_seq [OF inv_publish] hoare_ret)

section \<open>The board as a state machine\<close>

text \<open>A call of the engine, returning or raising, is a step; so is \<open>close\<close>.\<close>

inductive kanban_step :: "kanban_env \<Rightarrow> kanban_state \<Rightarrow> kanban_state \<Rightarrow> bool" for E where
  create_board: "kanban_step E s (snd (store_create_board E name s))"
| create_card: "kanban_step E s (snd (store_create_card E bid title description s))"
| move: "kanban_step E s (snd (move_card E cid column s))"
| block: "kanban_step E s (snd (block_card E cid reason s))"
| pass_gate: "kanban_step E s (snd (store_pass_tdd_gate E cid s))"
| begin_work: "kanban_step E s (snd (begin_work E cid s))"
| complete_work: "kanban_step E s (snd (complete_work E cid s))"
| create_subtask: "kanban_step E s (snd (create_subtask E cid description s))"
| complete_subtask: "kanban_step E s (snd (complete_subtask E sid s))"
| close: "kanban_step E s (s\<lparr>k_open := False\<rparr>)"

inductive kanban_reachable :: "kanban_env \<Rightarrow> kanban_state \<Rightarrow> bool" for E where
  start: "kanban_reachable E empty_kanban"
| step: "kanban_reachable E s \<Longrightarrow> kanban_step E s t \<Longrightarrow> kanban_reachable E t"

lemma keeps_invD: "keeps_inv m \<Longrightarrow> kanban_inv s \<Longrightarrow> kanban_inv (snd (m s))"
  by (cases "m s") (auto simp: hoare_def split: sum.splits)

lemma inv_begin_work: "keeps_inv (begin_work E cid)"
  unfolding begin_work_def by (intro hoare_bnd [OF inv_move_card] inv_move_card)

lemma inv_complete_work: "keeps_inv (complete_work E cid)"
  unfolding complete_work_def
  by (intro hoare_bnd [OF inv_move_card] hoare_seq [OF inv_pass_tdd_gate] inv_move_card)

lemma inv_create_subtask: "keeps_inv (create_subtask E cid description)"
  unfolding create_subtask_def
  by (intro hoare_bnd [OF inv_store_create_subtask] hoare_seq [OF inv_publish] hoare_ret)

lemma inv_complete_subtask: "keeps_inv (complete_subtask E sid)"
  unfolding complete_subtask_def by (intro hoare_seq [OF inv_store_complete_subtask] inv_publish)

lemmas kanban_ops_keep_inv =
  inv_store_create_board inv_store_create_card inv_move_card inv_block_card inv_pass_tdd_gate
  inv_begin_work inv_complete_work inv_create_subtask inv_complete_subtask

lemma kanban_inv_step: "kanban_step E s t \<Longrightarrow> kanban_inv s \<Longrightarrow> kanban_inv t"
  by (induction rule: kanban_step.induct) (simp_all add: keeps_invD [OF kanban_ops_keep_inv(1)]
      keeps_invD [OF kanban_ops_keep_inv(2)] keeps_invD [OF kanban_ops_keep_inv(3)]
      keeps_invD [OF kanban_ops_keep_inv(4)] keeps_invD [OF kanban_ops_keep_inv(5)]
      keeps_invD [OF kanban_ops_keep_inv(6)] keeps_invD [OF kanban_ops_keep_inv(7)]
      keeps_invD [OF kanban_ops_keep_inv(8)] keeps_invD [OF kanban_ops_keep_inv(9)])

lemma kanban_inv_reachable: "kanban_reachable E s \<Longrightarrow> kanban_inv s"
  by (induction rule: kanban_reachable.induct) (auto intro: kanban_inv_empty kanban_inv_step)

section \<open>One move\<close>

lemma find_card_row:
  "find_card E s cid = Some k \<Longrightarrow> k_open s \<and> row_of (k_cards s) cid = Some (kc_row k) \<and>
     kc_id k = cid \<and> kc_subtasks k = subtasks_of s cid \<and> cr_project (kc_row k) = k_project E"
  by (auto simp: find_card_def split: if_splits option.splits)

definition moved :: "kanban_env \<Rightarrow> string \<Rightarrow> kanban_state \<Rightarrow> kanban_card \<Rightarrow> kanban_card" where
  "moved E column s k = k\<lparr>kc_row := (kc_row k)\<lparr>cr_column := column,
     cr_updated := k_clock E (k_tick s)\<rparr>\<rparr>"

definition after_move :: "kanban_env \<Rightarrow> string \<Rightarrow> kanban_state \<Rightarrow> kanban_card \<Rightarrow> kanban_state" where
  "after_move E column s k = s\<lparr>k_tick := k_tick s + 1,
     k_cards := update_row (kc_id k)
       (\<lambda>r. r\<lparr>cr_column := column, cr_updated := k_clock E (k_tick s)\<rparr>) (k_cards s),
     k_log := k_log s @ (if k_bus E then [(''kanban.card_moved'',
       moved_payload (kc_column k) (moved E column s k))] else [])\<rparr>"

lemma subtasks_frame [simp]:
  "subtasks_of (s\<lparr>k_tick := n\<rparr>) cid = subtasks_of s cid"
  "subtasks_of (s\<lparr>k_cards := c\<rparr>) cid = subtasks_of s cid"
  "subtasks_of (s\<lparr>k_log := l\<rparr>) cid = subtasks_of s cid"
  by (simp_all add: subtasks_of_def)

lemma find_card_update:
  assumes "find_card E s cid = Some k" and "cr_project (f (kc_row k)) = cr_project (kc_row k)"
  shows "find_card E (s\<lparr>k_tick := n, k_cards := update_row cid f (k_cards s), k_log := l\<rparr>) cid =
    Some (k\<lparr>kc_row := f (kc_row k)\<rparr>)"
  using find_card_row [OF assms(1)] assms(2)
  by (cases k) (simp add: find_card_def row_of_update)

lemma find_card_update':
  assumes "find_card E s cid = Some k" and "cr_project (f (kc_row k)) = cr_project (kc_row k)"
  shows "find_card E (s\<lparr>k_tick := n, k_cards := update_row cid f (k_cards s)\<rparr>) cid =
    Some (k\<lparr>kc_row := f (kc_row k)\<rparr>)"
  using find_card_update [where f = f and n = n and l = "k_log s" and s = s and k = k and cid = cid] assms by simp

lemma find_after_move:
  assumes "find_card E s cid = Some k"
  shows "find_card E (after_move E column s k) cid = Some (moved E column s k)"
  using find_card_update [OF assms,
      where f = "\<lambda>r. r\<lparr>cr_column := column, cr_updated := k_clock E (k_tick s)\<rparr>"]
    find_card_row [OF assms]
  by (simp add: after_move_def moved_def)

lemma move_card_run:
  assumes k: "find_card E s cid = Some k" and "column \<in> set COLUMNS" and "column \<noteq> kc_column k"
    and "kc_column k \<in> set COLUMNS" and "column_index column \<le> column_index (kc_column k) + 1"
    and "column = ''Done'' \<longrightarrow> cr_tdd (kc_row k)"
  shows "move_card E cid column s = (Inr (Some (moved E column s k)), after_move E column s k)"
proof -
  let ?f = "\<lambda>r. r\<lparr>cr_column := column, cr_updated := k_clock E (k_tick s)\<rparr>"
  let ?s1 = "s\<lparr>k_tick := k_tick s + 1, k_cards := update_row cid ?f (k_cards s)\<rparr>"
  have opened: "k_open s" and id: "kc_id k = cid" using find_card_row [OF k] by simp_all
  have f1: "find_card E ?s1 cid = Some (moved E column s k)"
    using find_card_update' [OF k, where f = ?f and n = "k_tick s + 1"] by (simp add: moved_def)
  have "store_move_card E cid column s = (Inr (Some (moved E column s k)), ?s1)"
    using assms opened f1
    by (auto simp: store_move_card_def store_get_card_def py_run now_iso_def update_card_def
        require_open_def)
  moreover have "kc_column (moved E column s k) = column" by (simp add: moved_def)
  ultimately show ?thesis
    using k id assms(3)
    by (auto simp: move_card_def py_run need_card_def kanban_publish_def after_move_def)
qed

lemma column_index_simps [simp]:
  "column_index ''Backlog'' = 0" "column_index ''Todo'' = 1" "column_index ''InProgress'' = 2"
  "column_index ''Review'' = 3" "column_index ''Done'' = 4"
  by (simp_all add: column_index_def COLUMNS_def)

lemma moved_simps [simp]:
  "kc_column (moved E c s k) = c" "kc_id (moved E c s k) = kc_id k"
  "cr_tdd (kc_row (moved E c s k)) = cr_tdd (kc_row k)"
  by (simp_all add: moved_def)

section \<open>Properties\<close>

text \<open>C8: whatever calls of the engine have been made, returning or raising, every card stands in
  one of the five columns, a card in \<open>Done\<close> has passed its TDD gate, and its board exists.\<close>

theorem done_implies_gate:
  assumes "kanban_reachable E s" and "row_of (k_cards s) cid = Some r"
  shows "cr_column r \<in> set COLUMNS \<and> (cr_column r = ''Done'' \<longrightarrow> cr_tdd r)
     \<and> row_of (k_boards s) (cr_board r) \<noteq> None"
  using kanban_inv_reachable [OF assms(1)] assms(2)
  by (auto simp: kanban_inv_def sqlite.all_rows_def card_ok_def)

definition demo_kanban :: kanban_env where
  "demo_kanban = \<lparr>k_project = ''p'', k_bus = True, k_clock = (\<lambda>n. digits n)\<rparr>"

definition demo_board :: kanban_state where
  "demo_board = snd (store_create_card demo_kanban 1 ''card'' ''''
     (snd (store_create_board demo_kanban ''sprint'' empty_kanban)))"

lemma demo_board_reachable: "kanban_reachable demo_kanban demo_board"
  unfolding demo_board_def
  by (rule kanban_reachable.step [OF kanban_reachable.step [OF kanban_reachable.start]])
     (rule kanban_step.create_board kanban_step.create_card)+

lemma demo_board_card:
  "find_card demo_kanban demo_board 1 =
     Some \<lparr>kc_id = 1, kc_row = \<lparr>cr_board = 1, cr_title = ''card'', cr_description = '''',
        cr_column = ''Backlog'', cr_tdd = False, cr_blocked = False, cr_reason = '''',
        cr_project = ''p'', cr_created = ''1'', cr_updated = ''1''\<rparr>, kc_subtasks = []\<rparr>"
  by code_simp

theorem done_implies_gate_witness:
  "\<exists>r. row_of (k_cards demo_board) 1 = Some r \<and> cr_column r \<in> set COLUMNS
     \<and> row_of (k_boards demo_board) (cr_board r) \<noteq> None"
  using done_implies_gate [OF demo_board_reachable] find_card_row [OF demo_board_card] by blast

text \<open>C33: a move that returns leaves the card in the requested column; it never skips a column
  forward, moves to \<open>Done\<close> only behind a passed gate, changes no other card, and publishes exactly
  one event when the column changed and none otherwise.\<close>

theorem move_card_disciplined:
  assumes "kanban_reachable E s" and "move_card E cid column s = (Inr (Some k), t)"
  shows "\<exists>old. find_card E s cid = Some old \<and> kc_id k = cid \<and> kc_column k = column
     \<and> find_card E t cid = Some k
     \<and> column_index column \<le> column_index (kc_column old) + 1
     \<and> (column = ''Done'' \<and> kc_column old \<noteq> ''Done'' \<longrightarrow> cr_tdd (kc_row old))
     \<and> (\<forall>j. j \<noteq> cid \<longrightarrow> row_of (k_cards t) j = row_of (k_cards s) j)
     \<and> length (k_log t) =
         length (k_log s) + (if k_bus E \<and> column \<noteq> kc_column old then 1 else 0)"
proof -
  have col: "column \<in> set COLUMNS"
    using assms(2)
    by (auto simp: move_card_def store_move_card_def py_run split: if_splits prod.splits sum.splits)
  have "find_card E s cid \<noteq> None"
  proof
    assume "find_card E s cid = None"
    then show False
      using assms(2) col
      by (auto simp: move_card_def store_move_card_def store_get_card_def py_run
          split: if_splits prod.splits sum.splits)
  qed
  then obtain old where old: "find_card E s cid = Some old" by blast
  then have row: "row_of (k_cards s) cid = Some (kc_row old)" and id: "kc_id old = cid"
    by (auto dest: find_card_row)
  then have ok: "kc_column old \<in> set COLUMNS"
    using kanban_inv_reachable [OF assms(1)] by (auto simp: kanban_inv_def sqlite.all_rows_def card_ok_def)
  show ?thesis
  proof (cases "column = kc_column old")
    case True
    then have "k = old \<and> t = s"
      using assms(2) old col
      by (auto simp: move_card_def store_move_card_def store_get_card_def py_run need_card_def
          split: if_splits)
    then show ?thesis using old id True by auto
  next
    case False
    have gate: "column = ''Done'' \<longrightarrow> cr_tdd (kc_row old)"
      using assms(2) old col False
      by (auto simp: move_card_def store_move_card_def store_get_card_def py_run
          split: if_splits prod.splits sum.splits)
    have idx: "column_index column \<le> column_index (kc_column old) + 1"
      using assms(2) old col ok False gate
      by (auto simp: move_card_def store_move_card_def store_get_card_def py_run
          split: if_splits prod.splits sum.splits)
    from move_card_run [OF old col False ok idx gate] assms(2)
    have k: "k = moved E column s old" and t: "t = after_move E column s old" by simp_all
    show ?thesis
      using old id idx gate False find_after_move [OF old, of column]
      by (auto simp: k t after_move_def row_of_update)
  qed
qed

theorem move_card_disciplined_witness:
  "\<exists>k t. move_card demo_kanban 1 ''Todo'' demo_board = (Inr (Some k), t) \<and> kc_column k = ''Todo''"
proof -
  have "\<exists>k t. move_card demo_kanban 1 ''Todo'' demo_board = (Inr (Some k), t)"
    using move_card_run [OF demo_board_card, of "''Todo''"] by (simp add: COLUMNS_def)
  then obtain k t where m: "move_card demo_kanban 1 ''Todo'' demo_board = (Inr (Some k), t)" by blast
  show ?thesis using move_card_disciplined [OF demo_board_reachable m] m by blast
qed

section \<open>The work cycle\<close>

lemma find_after_gate:
  assumes "find_card E s cid = Some k"
  shows "store_pass_tdd_gate E cid s = (Inr (), s\<lparr>k_tick := k_tick s + 1, k_cards := update_row cid
      (\<lambda>r. r\<lparr>cr_tdd := True, cr_updated := k_clock E (k_tick s)\<rparr>) (k_cards s)\<rparr>)"
    and "find_card E (s\<lparr>k_tick := n, k_cards := update_row cid
      (\<lambda>r. r\<lparr>cr_tdd := True, cr_updated := now\<rparr>) (k_cards s)\<rparr>) cid =
      Some (k\<lparr>kc_row := (kc_row k)\<lparr>cr_tdd := True, cr_updated := now\<rparr>\<rparr>)"
  using find_card_row [OF assms]
    find_card_update' [OF assms, where f = "\<lambda>r. r\<lparr>cr_tdd := True, cr_updated := now\<rparr>" and n = n]
  by (simp_all add: store_pass_tdd_gate_def update_card_def require_open_def py_run now_iso_def)

text \<open>What the four moves of a work cycle publish.\<close>

definition column_changes :: "(string \<times> pydict) list \<Rightarrow> (pyval option \<times> pyval option) list" where
  "column_changes evs = map (\<lambda>(topic, p). (map_of p ''from_column'', map_of p ''to_column''))
     (filter (\<lambda>(topic, p). topic = ''kanban.card_moved'') evs)"

lemma column_changes_append: "column_changes (a @ b) = column_changes a @ column_changes b"
  by (simp add: column_changes_def)

lemma changes_after_move:
  "column_changes (k_log (after_move E column s k)) = column_changes (k_log s) @
     (if k_bus E then [(Some (PStr (kc_column k)), Some (PStr column))] else [])"
  by (simp add: after_move_def column_changes_append) (simp add: column_changes_def moved_payload_def)

text \<open>C36: on a card in \<open>Backlog\<close> of the open store, \<open>begin_work\<close> returns it in progress and
  \<open>complete_work\<close> then returns it in \<open>Done\<close> with its gate passed; the moves published in between
  are Backlog to Todo to InProgress to Review to Done, in this order.\<close>

theorem work_cycle_completes:
  assumes "find_card E s cid = Some k" and "kc_column k = ''Backlog''" and "k_bus E"
  shows "\<exists>k1 s1 k2 s2. begin_work E cid s = (Inr (Some k1), s1) \<and> kc_column k1 = ''InProgress''
     \<and> complete_work E cid s1 = (Inr (Some k2), s2) \<and> kc_column k2 = ''Done'' \<and> cr_tdd (kc_row k2)
     \<and> find_card E s2 cid = Some k2
     \<and> column_changes (k_log s2) = column_changes (k_log s) @
         map (\<lambda>(a, b). (Some (PStr a), Some (PStr b)))
           [(''Backlog'', ''Todo''), (''Todo'', ''InProgress''), (''InProgress'', ''Review''),
            (''Review'', ''Done'')]"
proof -
  note cols = COLUMNS_def
  let ?s1 = "after_move E ''Todo'' s k" and ?k1 = "moved E ''Todo'' s k"
  note f1 = find_after_move [OF assms(1), of "''Todo''"]
  have m1: "move_card E cid ''Todo'' s = (Inr (Some ?k1), ?s1)"
    by (rule move_card_run [OF assms(1)]) (simp_all add: cols assms(2))
  let ?s2 = "after_move E ''InProgress'' ?s1 ?k1" and ?k2 = "moved E ''InProgress'' ?s1 ?k1"
  note f2 = find_after_move [OF f1, of "''InProgress''"]
  have m2: "move_card E cid ''InProgress'' ?s1 = (Inr (Some ?k2), ?s2)"
    by (rule move_card_run [OF f1]) (simp_all add: cols)
  let ?s3 = "after_move E ''Review'' ?s2 ?k2" and ?k3 = "moved E ''Review'' ?s2 ?k2"
  note f3 = find_after_move [OF f2, of "''Review''"]
  have m3: "move_card E cid ''Review'' ?s2 = (Inr (Some ?k3), ?s3)"
    by (rule move_card_run [OF f2]) (simp_all add: cols)
  let ?s4 = "?s3\<lparr>k_tick := k_tick ?s3 + 1, k_cards := update_row cid
      (\<lambda>r. r\<lparr>cr_tdd := True, cr_updated := k_clock E (k_tick ?s3)\<rparr>) (k_cards ?s3)\<rparr>"
  note g = find_after_gate(1) [OF f3]
  let ?k4 = "?k3\<lparr>kc_row := (kc_row ?k3)\<lparr>cr_tdd := True, cr_updated := k_clock E (k_tick ?s3)\<rparr>\<rparr>"
  have f4: "find_card E ?s4 cid = Some ?k4" by (rule find_after_gate(2) [OF f3])
  let ?s5 = "after_move E ''Done'' ?s4 ?k4" and ?k5 = "moved E ''Done'' ?s4 ?k4"
  note f5 = find_after_move [OF f4, of "''Done''"]
  have m4: "move_card E cid ''Done'' ?s4 = (Inr (Some ?k5), ?s5)"
    by (rule move_card_run [OF f4]) (simp_all add: cols)
  have "begin_work E cid s = (Inr (Some ?k2), ?s2)"
    unfolding begin_work_def bnd_run m1 by (simp add: m2)
  moreover have "complete_work E cid ?s2 = (Inr (Some ?k5), ?s5)"
    by (simp only: complete_work_def bnd_run m3 prod.case sum.case seq_run g m4)
  moreover have "column_changes (k_log ?s5) = column_changes (k_log s) @
      map (\<lambda>(a, b). (Some (PStr a), Some (PStr b)))
        [(''Backlog'', ''Todo''), (''Todo'', ''InProgress''), (''InProgress'', ''Review''),
         (''Review'', ''Done'')]"
    using assms(2,3) by (simp add: changes_after_move)
  ultimately show ?thesis using f5 by (intro exI conjI) (assumption | simp)+
qed

theorem work_cycle_completes_witness:
  "\<exists>k1 s1 k2 s2. begin_work demo_kanban 1 demo_board = (Inr (Some k1), s1)
     \<and> complete_work demo_kanban 1 s1 = (Inr (Some k2), s2) \<and> kc_column k2 = ''Done''"
proof -
  have "k_bus demo_kanban" by (simp add: demo_kanban_def)
  then show ?thesis using work_cycle_completes [OF demo_board_card] by fastforce
qed

text \<open>Any domain error of a move to \<open>Done\<close> is announced as a failed TDD gate, also when the
  gate is passed and the move was refused for skipping columns.\<close>

theorem blocked_event_blames_gate:
  assumes "find_card E s cid = Some k" and "kc_column k \<in> {''Backlog'', ''Todo'', ''InProgress''}"
    and "cr_tdd (kc_row k)" and "k_bus E"
  shows "move_card E cid ''Done'' s =
     (Inl (Exn KanbanError (''Cannot skip columns: '' @ kc_column k @ '' -> Done'')),
      s\<lparr>k_log := k_log s @ [(''kanban.card_blocked'', blocked_payload TDD_REASON k)]\<rparr>)"
  using assms
  by (auto simp: move_card_def store_move_card_def store_get_card_def py_run kanban_publish_def
      COLUMNS_def)

definition gated_board :: kanban_state where
  "gated_board = snd (store_pass_tdd_gate demo_kanban 1 demo_board)"

theorem blocked_event_blames_gate_witness:
  "\<exists>k. find_card demo_kanban gated_board 1 = Some k \<and> cr_tdd (kc_row k)
     \<and> fst (move_card demo_kanban 1 ''Done'' gated_board) =
         Inl (Exn KanbanError ''Cannot skip columns: Backlog -> Done'')
     \<and> k_log (snd (move_card demo_kanban 1 ''Done'' gated_board)) =
         [(''kanban.card_blocked'', blocked_payload TDD_REASON k)]"
proof -
  have "case find_card demo_kanban gated_board 1 of None \<Rightarrow> False
      | Some k \<Rightarrow> kc_column k = ''Backlog'' \<and> cr_tdd (kc_row k)" by code_simp
  then obtain k where k: "find_card demo_kanban gated_board 1 = Some k"
    "kc_column k = ''Backlog''" "cr_tdd (kc_row k)" by (auto split: option.splits)
  have l: "k_log gated_board = []" by code_simp
  have "k_bus demo_kanban" by (simp add: demo_kanban_def)
  with blocked_event_blames_gate [OF k(1) _ k(3)] k show ?thesis by (simp add: l)
qed

text \<open>Looking a card up is confined to the project, changing it is not: blocking the card of
  another project marks its row as blocked and then raises \<open>AttributeError\<close>.\<close>

theorem block_crosses_projects:
  assumes "k_open s" and "row_of (k_cards s) cid = Some r" and "cr_project r \<noteq> k_project E"
    and "k_bus E"
  shows "\<exists>t r'. block_card E cid reason s =
      (Inl (Exn AttributeError ''NoneType object has no attribute''), t)
     \<and> row_of (k_cards t) cid = Some r' \<and> cr_blocked r' \<and> cr_reason r' = reason \<and> k_log t = k_log s"
  using assms
  by (simp add: block_card_def store_set_blocked_def update_card_def require_open_def now_iso_def
      store_get_card_def find_card_def row_of_update need_card_def py_run)

theorem block_crosses_projects_witness:
  "\<exists>t. block_card (demo_kanban\<lparr>k_project := ''q''\<rparr>) 1 ''stop'' demo_board =
      (Inl (Exn AttributeError ''NoneType object has no attribute''), t)"
proof -
  let ?E = "demo_kanban\<lparr>k_project := ''q''\<rparr>"
  have "k_bus ?E" and "k_project ?E = ''q''" by (simp_all add: demo_kanban_def)
  then show ?thesis
    using block_crosses_projects [of demo_board 1 _ ?E "''stop''"] find_card_row [OF demo_board_card]
    by fastforce
qed

end
