(* ===== verification/Quality.thy ===== *)
theory Quality
  imports PyStr
begin

text \<open>
  The quality pipeline's vocabulary and policy: statuses, severities, findings and results
  (\<open>quality/contracts.py\<close>), the resolution of findings against the policy of an environment with
  its overrides (\<open>quality/policy.py\<close>), and the gates that inspect no files: the test gate
  (\<open>quality/gates/tester.py\<close>) and the release gate (\<open>quality/gates/release.py\<close>).
\<close>

section \<open>Contracts\<close>

datatype gate_status = Passed | FailedGate | Skipped | Errored

fun status_value :: "gate_status \<Rightarrow> string" where
  "status_value Passed = ''passed''"
| "status_value FailedGate = ''failed''"
| "status_value Skipped = ''skipped''"
| "status_value Errored = ''error''"

datatype severity = Low | Medium | High | Critical

fun severity_value :: "severity \<Rightarrow> string" where
  "severity_value Low = ''low''"
| "severity_value Medium = ''medium''"
| "severity_value High = ''high''"
| "severity_value Critical = ''critical''"

lemma severity_value_inject [simp]: "severity_value a = severity_value b \<longleftrightarrow> a = b"
  by (cases a; cases b) simp_all

text \<open>The numeric order of the severities, as the enumeration lists them.\<close>

fun severity_rank :: "severity \<Rightarrow> nat" where
  "severity_rank Low = 0"
| "severity_rank Medium = 1"
| "severity_rank High = 2"
| "severity_rank Critical = 3"

instantiation severity :: linorder
begin

definition "a \<le> b \<longleftrightarrow> severity_rank a \<le> severity_rank b"
definition "a < b \<longleftrightarrow> severity_rank a < severity_rank b"

instance
proof
  fix a b :: severity
  show "a \<le> b \<Longrightarrow> b \<le> a \<Longrightarrow> a = b"
    by (cases a; cases b) (simp_all add: less_eq_severity_def)
qed (auto simp: less_eq_severity_def less_severity_def)

end

record gate_input =
  gi_files :: "string list"
  gi_test_report :: "pydict option"

record gate_finding =
  gf_id :: string
  gf_title :: string
  gf_detail :: string
  gf_severity :: severity
  gf_category :: string
  gf_evidence :: string

definition gate_finding_to_dict :: "gate_finding \<Rightarrow> pydict" where
  "gate_finding_to_dict f =
     [(''id'', PStr (gf_id f)), (''title'', PStr (gf_title f)), (''detail'', PStr (gf_detail f)),
      (''severity'', PStr (severity_value (gf_severity f))), (''category'', PStr (gf_category f)),
      (''evidence'', PStr (gf_evidence f))]"

record gate_result =
  gr_status :: gate_status
  gr_reason :: string
  gr_findings :: "gate_finding list"
  gr_metadata :: pydict

definition gate_result_to_dict :: "gate_result \<Rightarrow> pydict" where
  "gate_result_to_dict r =
     [(''status'', PStr (status_value (gr_status r))), (''reason'', PStr (gr_reason r)),
      (''findings'', PList (map (\<lambda>f. PDict (gate_finding_to_dict f)) (gr_findings r))),
      (''metadata'', PDict (gr_metadata r))]"

abbreviation gate_answer :: "gate_status \<Rightarrow> string \<Rightarrow> gate_result" where
  "gate_answer st why \<equiv> \<lparr>gr_status = st, gr_reason = why, gr_findings = [], gr_metadata = []\<rparr>"

definition SEVERITY_MAP :: "(string \<times> severity) list" where
  "SEVERITY_MAP = [(''info'', Low), (''warning'', Medium), (''error'', High)]"

definition severity_mapper :: "string \<Rightarrow> exn + severity" where
  "severity_mapper s = (case map_of SEVERITY_MAP (lower s) of
     Some v \<Rightarrow> Inr v
   | None \<Rightarrow> Inl (Exn ValueError (''unknown reviewer severity: '' @ s)))"

section \<open>Policy\<close>

datatype gate_decision = Block | Pass | Warn

fun decision_value :: "gate_decision \<Rightarrow> string" where
  "decision_value Block = ''block''"
| "decision_value Pass = ''pass''"
| "decision_value Warn = ''warn''"

definition SEVERITY_LABELS :: "string list" where
  "SEVERITY_LABELS = [''low'', ''medium'', ''high'', ''critical'']"

type_synonym gate_policy = "(string \<times> string list) list"

definition DEFAULT_POLICY :: gate_policy where
  "DEFAULT_POLICY = [(''dev'', [''critical'', ''high'']),
     (''release'', [''critical'', ''high'', ''medium''])]"

text \<open>An override is an object, or a dictionary that may lack keys.\<close>

datatype gate_override =
    OverrideObject string string string
  | OverrideDict "(string \<times> string) list"

record decision_result =
  dr_decision :: gate_decision
  dr_gate :: string
  dr_environment :: string
  dr_findings :: "(string \<times> int) list"
  dr_overridden :: bool
  dr_override_reason :: string
  dr_reason :: string

definition blocks :: "decision_result \<Rightarrow> bool" where
  "blocks d = (dr_decision d = Block \<and> \<not> dr_overridden d)"

definition decision_result_to_dict :: "decision_result \<Rightarrow> pydict" where
  "decision_result_to_dict d =
     [(''decision'', PStr (decision_value (dr_decision d))), (''gate'', PStr (dr_gate d)),
      (''environment'', PStr (dr_environment d)),
      (''findings'', PDict (map (\<lambda>(k, n). (k, PInt n)) (dr_findings d))),
      (''overridden'', PBool (dr_overridden d)),
      (''override_reason'', PStr (dr_override_reason d)), (''reason'', PStr (dr_reason d))]"

datatype severity_arg = SevValue severity | SevLabel string

fun severity_label :: "severity_arg \<Rightarrow> string" where
  "severity_label (SevValue v) = severity_value v"
| "severity_label (SevLabel s) = lower s"

definition normalize_severities :: "severity_arg list \<Rightarrow> string list" where
  "normalize_severities xs = filter (\<lambda>v. v \<in> set SEVERITY_LABELS) (map severity_label xs)"

definition severity_counts :: "string list \<Rightarrow> (string \<times> int) list" where
  "severity_counts xs = map (\<lambda>l. (l, int (count_list xs l))) SEVERITY_LABELS"

fun override_matches :: "string \<Rightarrow> string \<Rightarrow> gate_override \<Rightarrow> bool" where
  "override_matches gate env (OverrideObject g e r) = (g = gate \<and> e = env)"
| "override_matches gate env (OverrideDict d) =
     (map_of d ''gate'' = Some gate \<and> map_of d ''environment'' = Some env)"

fun override_reason_of :: "gate_override \<Rightarrow> string" where
  "override_reason_of (OverrideObject g e r) = r"
| "override_reason_of (OverrideDict d) = dict_get d ''reason'' ''''"

definition find_override_reason :: "string \<Rightarrow> string \<Rightarrow> gate_override list \<Rightarrow> string" where
  "find_override_reason gate env ovs =
     (case find (override_matches gate env) ovs of
        None \<Rightarrow> '''' | Some ov \<Rightarrow> override_reason_of ov)"

definition policy_decision ::
  "string list \<Rightarrow> (string \<times> int) list \<Rightarrow> string \<Rightarrow> gate_policy \<Rightarrow> gate_decision \<times> string" where
  "policy_decision normalized counts env policy =
     (case map_of policy env of
        None \<Rightarrow>
          if normalized \<noteq> []
          then (Block, ''no policy for environment '' @ [CHR 0x27] @ env @ [CHR 0x27] @
                  ''; fail-safe block'')
          else (Pass, ''no findings'')
      | Some block_list \<Rightarrow>
          if normalized = [] then (Pass, ''no findings'')
          else if list_ex (\<lambda>s. s \<in> set block_list) normalized
          then (Block, ''blocking severity: '' @
                  join '', '' (map fst (filter (\<lambda>(s, n). n \<noteq> 0 \<and> s \<in> set block_list) counts)))
          else (Warn, ''findings below block threshold for environment''))"

definition resolve_decision ::
  "severity_arg list \<Rightarrow> string \<Rightarrow> string \<Rightarrow> gate_policy option \<Rightarrow> gate_override list \<Rightarrow>
   decision_result" where
  "resolve_decision severities gate env policy overrides =
     (let normalized = normalize_severities severities;
          findings = severity_counts normalized;
          table = (case policy of None \<Rightarrow> DEFAULT_POLICY
                   | Some p \<Rightarrow> if p = [] then DEFAULT_POLICY else p);
          (decision, reason) = policy_decision normalized findings env table;
          result = \<lparr>dr_decision = decision, dr_gate = gate, dr_environment = env,
            dr_findings = findings, dr_overridden = False, dr_override_reason = '''',
            dr_reason = reason\<rparr>;
          override_reason = find_override_reason gate env overrides
      in if override_reason \<noteq> [] \<and> decision = Block
         then result\<lparr>dr_decision := Pass, dr_overridden := True,
                dr_override_reason := override_reason,
                dr_reason := ''overridden: '' @ override_reason\<rparr>
         else result)"

section \<open>The test gate and the release gate\<close>

definition test_gate_applicable :: "gate_input \<Rightarrow> bool" where
  "test_gate_applicable gi = (gi_test_report gi \<noteq> None)"

definition error_finding :: "(pyval \<Rightarrow> string) \<Rightarrow> nat \<Rightarrow> pyval \<Rightarrow> gate_finding" where
  "error_finding show i e = \<lparr>gf_id = ''test-error-'' @ digits i, gf_title = py_str show e,
     gf_detail = '''', gf_severity = High, gf_category = ''test-error'', gf_evidence = py_str show e\<rparr>"

text \<open>\<open>report.get("errors") or []\<close> of a report whose errors are a list.\<close>

definition report_errors :: "pydict \<Rightarrow> pyval list" where
  "report_errors report = (case dict_get report ''errors'' PNone of PList es \<Rightarrow> es | _ \<Rightarrow> [])"

definition test_gate_run :: "(pyval \<Rightarrow> string) \<Rightarrow> gate_input \<Rightarrow> gate_result" where
  "test_gate_run show gi =
     (case gi_test_report gi of
        None \<Rightarrow> gate_answer Skipped ''no test report''
      | Some report \<Rightarrow>
          if dict_get report ''status'' PNone = PStr ''error''
          then \<lparr>gr_status = Errored, gr_reason = ''test run errored'',
                gr_findings = map (\<lambda>(i, e). error_finding show i e)
                  (enumerate 0 (report_errors report)),
                gr_metadata = []\<rparr>
          else
            let failed = dict_get report ''failed'' (PInt 0);
                passed = dict_get report ''passed'' (PInt 0) in
            if is_zero failed
            then \<lparr>gr_status = Passed, gr_reason = py_str show passed @ '' test(s) passed'',
                  gr_findings = [],
                  gr_metadata = [(''passed'', passed),
                    (''collected'', dict_get report ''collected'' (PInt 0))]\<rparr>
            else \<lparr>gr_status = FailedGate, gr_reason = py_str show failed @ '' test(s) failed'',
                  gr_findings = [\<lparr>gf_id = ''test-failures'',
                    gf_title = py_str show failed @ '' test(s) failed'', gf_detail = '''',
                    gf_severity = High, gf_category = ''test-failure'',
                    gf_evidence = py_str show failed\<rparr>],
                  gr_metadata = []\<rparr>)"

definition release_gate_applicable :: "gate_input \<Rightarrow> bool" where
  "release_gate_applicable gi = False"

definition release_gate_run :: "gate_input \<Rightarrow> gate_result" where
  "release_gate_run gi = gate_answer Skipped ''release gate not implemented''"

section \<open>Facts about the policy\<close>

lemma label_in_labels [simp]: "severity_value v \<in> set SEVERITY_LABELS"
  by (cases v) (simp_all add: SEVERITY_LABELS_def)

lemma normalize_values [simp]:
  "normalize_severities (map SevValue vs) = map severity_value vs"
  by (induction vs) (simp_all add: normalize_severities_def)

lemma normalize_set:
  "set (normalize_severities xs) = severity_label ` set xs \<inter> set SEVERITY_LABELS"
  by (auto simp: normalize_severities_def)

definition environment_blocks :: "gate_policy option \<Rightarrow> string \<Rightarrow> string \<Rightarrow> bool" where
  "environment_blocks policy env label \<longleftrightarrow>
     label \<in> set SEVERITY_LABELS \<and>
     (case map_of (case policy of None \<Rightarrow> DEFAULT_POLICY
                   | Some p \<Rightarrow> if p = [] then DEFAULT_POLICY else p) env of
        None \<Rightarrow> True | Some ls \<Rightarrow> label \<in> set ls)"

lemma policy_decision_block:
  "fst (policy_decision ns counts env policy) = Block \<longleftrightarrow>
     (case map_of policy env of None \<Rightarrow> ns \<noteq> [] | Some ls \<Rightarrow> \<exists>s \<in> set ns. s \<in> set ls)"
  by (auto simp: policy_decision_def list_ex_iff split: option.splits)

lemma resolve_block:
  "fst (policy_decision (normalize_severities xs) counts env
      (case policy of None \<Rightarrow> DEFAULT_POLICY | Some p \<Rightarrow> if p = [] then DEFAULT_POLICY else p)) = Block
   \<longleftrightarrow> (\<exists>x \<in> set xs. environment_blocks policy env (severity_label x))"
  unfolding policy_decision_block environment_blocks_def normalize_severities_def
  by (auto simp: filter_empty_conv split: option.splits)

lemma resolve_decision_facts:
  "(blocks (resolve_decision xs gate env policy ovs) \<longleftrightarrow>
      (\<exists>x \<in> set xs. environment_blocks policy env (severity_label x)) \<and>
      find_override_reason gate env ovs = [])
   \<and> (dr_overridden (resolve_decision xs gate env policy ovs) \<longleftrightarrow>
        (\<exists>x \<in> set xs. environment_blocks policy env (severity_label x)) \<and>
        find_override_reason gate env ovs \<noteq> [])
   \<and> (dr_overridden (resolve_decision xs gate env policy ovs) =
        (dr_override_reason (resolve_decision xs gate env policy ovs) \<noteq> []))
   \<and> dr_findings (resolve_decision xs gate env policy ovs) =
        severity_counts (normalize_severities xs)"
proof -
  let ?t = "case policy of None \<Rightarrow> DEFAULT_POLICY | Some p \<Rightarrow> if p = [] then DEFAULT_POLICY else p"
  obtain d why where p: "policy_decision (normalize_severities xs)
      (severity_counts (normalize_severities xs)) env ?t = (d, why)" by fastforce
  have "d = Block \<longleftrightarrow> (\<exists>x \<in> set xs. environment_blocks policy env (severity_label x))"
    using resolve_block [of xs "severity_counts (normalize_severities xs)" env policy] p by simp
  moreover have "find_override_reason gate env ovs \<noteq> [] \<and> d = Block \<or>
      \<not> (find_override_reason gate env ovs \<noteq> [] \<and> d = Block)" by blast
  ultimately show ?thesis
    unfolding resolve_decision_def Let_def p prod.case
    by (cases "find_override_reason gate env ovs \<noteq> [] \<and> d = Block") (simp_all add: blocks_def, blast+)
qed

lemma default_blocks:
  "blocks (resolve_decision (map SevValue vs) gate env None []) \<longleftrightarrow>
     (\<exists>v \<in> set vs. (if env = ''dev'' then High else if env = ''release'' then Medium else Low) \<le> v)"
proof -
  have "environment_blocks None env (severity_value v) \<longleftrightarrow>
      (if env = ''dev'' then High else if env = ''release'' then Medium else Low) \<le> v" for v
    by (cases v) (auto simp: environment_blocks_def DEFAULT_POLICY_def SEVERITY_LABELS_def
        less_eq_severity_def)
  then show ?thesis
    by (simp add: resolve_decision_facts find_override_reason_def)
qed

section \<open>Properties\<close>


text \<open>Under the default policy and without overrides the severities that block form an upward
  closed set: in \<open>dev\<close> from high on, in \<open>release\<close> from medium on, elsewhere all of them.\<close>

theorem default_policy_thresholds:
  "blocks (resolve_decision (map SevValue vs) gate env None []) \<longleftrightarrow>
     (\<exists>v \<in> set vs. (if env = ''dev'' then High else if env = ''release'' then Medium else Low) \<le> v)"
  by (rule default_blocks)

text \<open>The severities a policy does not list do not block, whatever they are: an own policy lets
  critical findings through, and a label that is not one of the four counts as no finding at all,
  even where no policy is configured for the environment.\<close>

theorem policy_fails_open:
  "dr_decision (resolve_decision [SevValue Critical] gate env (Some [(env, [])]) []) = Warn
   \<and> dr_decision (resolve_decision [SevLabel ''blocker''] gate env policy []) = Pass"
  by (auto simp: resolve_decision_def policy_decision_def normalize_severities_def Let_def
      SEVERITY_LABELS_def find_override_reason_def lower_def lower_char_def split: option.splits)

text \<open>The test gate is green exactly on a report that does not say it errored and whose failure
  count is zero or missing, so also on an empty report; it is red with one high finding when tests
  failed, and an error, never a pass, when the run errored.\<close>

theorem test_gate_verdicts:
  "(gr_status (test_gate_run show gi) = Skipped \<longleftrightarrow> gi_test_report gi = None)
   \<and> (gr_status (test_gate_run show gi) = Passed \<longleftrightarrow> (\<exists>r. gi_test_report gi = Some r \<and>
        map_of r ''status'' \<noteq> Some (PStr ''error'') \<and>
        (map_of r ''failed'' = None \<or> is_zero (the (map_of r ''failed'')))))
   \<and> (case gr_status (test_gate_run show gi) of
        FailedGate \<Rightarrow> map gf_severity (gr_findings (test_gate_run show gi)) = [High] | _ \<Rightarrow> True)"
  by (auto simp: test_gate_run_def dict_get_def Let_def split: option.splits if_splits)

end
