(* ===== verification/Gates.thy ===== *)
theory Gates
  imports Quality Detectors
begin

text \<open>
  The gates that inspect the project: lint and format (\<open>quality/gates/code.py\<close>), the secret scan
  (\<open>quality/gates/security.py\<close>) and the documentation check (\<open>quality/gates/documentation.py\<close>),
  with their helpers (\<open>quality/gates/common.py\<close>). The project is the list of its files by relative
  path with their text; what running a command yields is a parameter.
\<close>

section \<open>Project files\<close>

type_synonym project_files = "(string \<times> string) list"

definition has_py_suffix :: "string \<Rightarrow> bool" where
  "has_py_suffix f = (endswith f ''.py'' \<or> endswith f ''.pyi'')"

definition python_files :: "project_files \<Rightarrow> gate_input \<Rightarrow> string list" where
  "python_files fs gi =
     (if gi_files gi \<noteq> [] then sort (filter has_py_suffix (gi_files gi))
      else sort (filter (\<lambda>f. CHR ''/'' \<notin> set f \<and> has_py_suffix f) (map fst fs) @
                 filter (\<lambda>f. startswith f ''src/'' \<and> endswith f ''.py'') (map fst fs)))"

text \<open>An unreadable file reads as the empty text.\<close>

definition read_text :: "project_files \<Rightarrow> string \<Rightarrow> string" where
  "read_text fs f = dict_get fs f ''''"

datatype command_result = CannotRun string | Ran int string

definition reviewer_finding :: "review_item \<Rightarrow> string \<Rightarrow> exn + gate_finding" where
  "reviewer_finding it category =
     (case severity_mapper (it_severity it) of
        Inl e \<Rightarrow> Inl e
      | Inr sev \<Rightarrow> Inr
          \<lparr>gf_id = it_rule it, gf_title = it_message it,
           gf_detail = it_file it @ '':'' @ digits (it_line it), gf_severity = sev,
           gf_category = category, gf_evidence = it_message it\<rparr>)"

fun reviewer_findings :: "review_item list \<Rightarrow> string \<Rightarrow> exn + gate_finding list" where
  "reviewer_findings [] category = Inr []"
| "reviewer_findings (it # its) category =
     (case reviewer_finding it category of
        Inl e \<Rightarrow> Inl e
      | Inr f \<Rightarrow> (case reviewer_findings its category of Inl e \<Rightarrow> Inl e | Inr fs \<Rightarrow> Inr (f # fs)))"

section \<open>The security gate\<close>

definition security_items :: "project_files \<Rightarrow> gate_input \<Rightarrow> review_item list" where
  "security_items fs gi = concat (map (\<lambda>rel.
     let text = read_text fs rel in scan_secrets text rel @ scan_unsafe text rel)
     (python_files fs gi))"

definition security_gate_run :: "project_files \<Rightarrow> gate_input \<Rightarrow> exn + gate_result" where
  "security_gate_run fs gi =
     (if python_files fs gi = [] then Inr (gate_answer Skipped ''no files to scan'')
      else case reviewer_findings (security_items fs gi) ''security'' of
        Inl e \<Rightarrow> Inl e
      | Inr findings \<Rightarrow>
          if findings = [] then Inr (gate_answer Passed ''no security findings'')
          else Inr \<lparr>gr_status = FailedGate,
                 gr_reason = digits (length findings) @ '' security finding(s)'',
                 gr_findings = findings, gr_metadata = []\<rparr>)"

section \<open>The code gate\<close>

text \<open>One concise lint line, \<open>path:line:col: CODE [*] message\<close>, with the shortest path.\<close>

definition take_digits :: "string \<Rightarrow> (string \<times> string) option" where
  "take_digits s = (let d = takeWhile is_digit s in
     if d = [] then None else Some (d, drop (length d) s))"

definition take_code :: "string \<Rightarrow> (string \<times> string) option" where
  "take_code s = (let u = takeWhile is_upper_ascii s in
     if u = [] \<or> length u > 3 then None
     else case take_digits (drop (length u) s) of
       None \<Rightarrow> None | Some (d, r) \<Rightarrow> Some (u @ d, r))"

text \<open>\<open>(?: \[[^\]]+\])? (?P<msg>.*)\<close>; without the bracket when what follows it does not fit.\<close>

definition take_message :: "string \<Rightarrow> string option" where
  "take_message s =
     (let body = takeWhile (\<lambda>c. c \<noteq> CHR '']'') (drop 2 s);
          after = drop (length body) (drop 2 s)
      in if take 2 s = '' ['' \<and> body \<noteq> [] \<and> take 2 after = ''] '' then Some (drop 2 after)
         else if take 1 s = '' '' then Some (drop 1 s) else None)"

record lint_line =
  ll_path :: string
  ll_line :: string
  ll_code :: string
  ll_msg :: string

definition lint_tail :: "string \<Rightarrow> string \<Rightarrow> lint_line option" where
  "lint_tail path s =
     (case take_digits s of
        None \<Rightarrow> None
      | Some (lno, r1) \<Rightarrow>
          if take 1 r1 \<noteq> '':'' then None
          else case take_digits (drop 1 r1) of
            None \<Rightarrow> None
          | Some (col, r2) \<Rightarrow>
              if take 2 r2 \<noteq> '': '' then None
              else case take_code (drop 2 r2) of
                None \<Rightarrow> None
              | Some (c, r3) \<Rightarrow>
                  (case take_message r3 of
                     None \<Rightarrow> None
                   | Some m \<Rightarrow> Some \<lparr>ll_path = path, ll_line = lno, ll_code = c, ll_msg = m\<rparr>))"

fun lint_match :: "string \<Rightarrow> string \<Rightarrow> lint_line option" where
  "lint_match path [] = None"
| "lint_match path (c # s) =
     (case (if c = CHR '':'' \<and> path \<noteq> [] then lint_tail path s else None) of
        Some l \<Rightarrow> Some l
      | None \<Rightarrow> lint_match (path @ [c]) s)"

definition severity_for_rule :: "string \<Rightarrow> severity" where
  "severity_for_rule c = (if startswith c ''F'' then High else Medium)"

definition parse_ruff_check :: "string \<Rightarrow> gate_finding list" where
  "parse_ruff_check output_text = concat (map (\<lambda>line.
     case lint_match [] line of
       None \<Rightarrow> []
     | Some l \<Rightarrow> [\<lparr>gf_id = ll_code l,
         gf_title = (let m = strip (ll_msg l) in if m = [] then ll_code l else m),
         gf_detail = line, gf_severity = severity_for_rule (ll_code l), gf_category = ''lint'',
         gf_evidence = ll_path l @ '':'' @ ll_line l\<rparr>])
     (splitlines output_text))"

definition parse_ruff_format :: "string \<Rightarrow> gate_finding list" where
  "parse_ruff_format output_text = concat (map (\<lambda>line.
     if \<not> startswith (lower line) ''would reformat:'' then []
     else case partition_char (CHR '':'') line of (_, _, evidence) \<Rightarrow>
       [\<lparr>gf_id = ''RUF-FMT'', gf_title = ''file would be reformatted by ruff format'',
         gf_detail = line, gf_severity = Medium, gf_category = ''format'',
         gf_evidence = (let e = strip evidence in if e = [] then line else e)\<rparr>])
     (splitlines output_text))"

definition code_gate_run ::
  "project_files \<Rightarrow> command_result \<Rightarrow> command_result \<Rightarrow> gate_input \<Rightarrow> gate_result" where
  "code_gate_run fs check_cmd format_cmd gi =
     (if python_files fs gi = [] then gate_answer Skipped ''no python files to check''
      else case check_cmd of
        CannotRun e \<Rightarrow> gate_answer Errored (''cannot run ruff: '' @ e)
      | Ran check_rc check_out \<Rightarrow>
        (case format_cmd of
           CannotRun e \<Rightarrow> gate_answer Errored (''cannot run ruff: '' @ e)
         | Ran fmt_rc fmt_out \<Rightarrow>
             if check_rc \<noteq> 0 \<and> contains check_out ''No module named''
             then gate_answer Errored ''ruff is not installed''
             else
               let findings = parse_ruff_check check_out @ parse_ruff_format fmt_out in
               if check_rc = 0 \<and> fmt_rc = 0
               then \<lparr>gr_status = Passed, gr_reason = ''ruff check and format clean'',
                     gr_findings = [],
                     gr_metadata = [(''lint_issues'',
                       PInt (int (length (parse_ruff_check check_out))))]\<rparr>
               else \<lparr>gr_status = FailedGate,
                     gr_reason = digits (length findings) @ '' lint/format issue(s)'',
                     gr_findings = findings, gr_metadata = []\<rparr>))"

section \<open>The documentation gate\<close>

definition CHANGELOG_NAMES :: "string list" where
  "CHANGELOG_NAMES = [''CHANGELOG.md'', ''CHANGELOG'', ''changelog.md'']"

definition TODO_NAMES :: "string list" where
  "TODO_NAMES = [''TODO.md'', ''TODO'']"

definition find_doc :: "project_files \<Rightarrow> string list \<Rightarrow> string option" where
  "find_doc fs names = find (\<lambda>n. n \<in> fst ` set fs) names"

text \<open>\<open>(?i)\bblock\w*\b\<close>: the rest of the word always ends at a boundary.\<close>

definition blocker_at :: "char option \<Rightarrow> string \<Rightarrow> unit option" where
  "blocker_at prev s =
     (if word_start prev \<and> startswith (lower s) ''block'' then Some () else None)"

definition documentation_gate_run :: "string \<Rightarrow> string \<Rightarrow> project_files \<Rightarrow> gate_result" where
  "documentation_gate_run base today fs =
     (let changelog = find_doc fs CHANGELOG_NAMES; todo = find_doc fs TODO_NAMES in
      if changelog = None \<and> todo = None
      then gate_answer Skipped ''no documentation to verify''
      else
        let f1 = (case changelog of None \<Rightarrow> []
              | Some c \<Rightarrow> let text = read_text fs c in
                  if \<not> contains text ''Unreleased'' \<and> \<not> contains text today
                  then [\<lparr>gf_id = ''changelog-missing-entry'',
                         gf_title = ''CHANGELOG has no entry for this change'', gf_detail = '''',
                         gf_severity = High, gf_category = ''documentation'',
                         gf_evidence = base @ ''/'' @ c\<rparr>] else []);
            f2 = (case todo of None \<Rightarrow> []
              | Some t \<Rightarrow>
                  if search blocker_at None (read_text fs t) \<noteq> None
                  then [\<lparr>gf_id = ''todo-blockers'', gf_title = ''TODO.md contains blocking items'',
                         gf_detail = '''', gf_severity = Medium, gf_category = ''documentation'',
                         gf_evidence = base @ ''/'' @ t\<rparr>] else []);
            findings = f1 @ f2
        in if findings = [] then gate_answer Passed ''documentation reflects changes''
           else \<lparr>gr_status = FailedGate,
                 gr_reason = digits (length findings) @ '' documentation finding(s)'',
                 gr_findings = findings, gr_metadata = []\<rparr>)"

section \<open>Facts\<close>

lemma scan_items:
  "it \<in> set (scan_secrets text rel) \<Longrightarrow> it_severity it = ''error''"
  "it \<in> set (scan_unsafe text rel) \<Longrightarrow> it_severity it = ''warning''"
  by (auto simp: scan_secrets_def scan_unsafe_def mk_item_def split: if_splits)

lemma reviewer_findings_ok:
  "\<forall>it \<in> set its. it_severity it \<in> {''info'', ''warning'', ''error''} \<Longrightarrow>
   \<exists>fs. reviewer_findings its category = Inr fs \<and>
     map gf_severity fs = map (\<lambda>it. the (map_of SEVERITY_MAP (it_severity it))) its \<and>
     map gf_id fs = map it_rule its"
proof (induction its)
  case (Cons it its)
  then obtain fs where "reviewer_findings its category = Inr fs"
    "map gf_severity fs = map (\<lambda>it. the (map_of SEVERITY_MAP (it_severity it))) its"
    "map gf_id fs = map it_rule its" by auto
  then show ?case using Cons.prems
    by (auto simp: reviewer_finding_def severity_mapper_def SEVERITY_MAP_def lower_def lower_char_def)
qed simp

lemma security_items_severity:
  "it \<in> set (security_items fs gi) \<Longrightarrow> it_severity it \<in> {''info'', ''warning'', ''error''}"
  by (auto simp: security_items_def Let_def dest: scan_items)

section \<open>Properties\<close>


text \<open>The code gate passes exactly when both commands succeed; but when a command fails with
  output that has no lint line, the failed result has no findings, and a result without findings
  is let through by every policy: the decision is a pass, and nothing blocks.\<close>

theorem code_gate_fails_open:
  "(gr_status (code_gate_run fs (Ran rc out) (Ran frc fout) gi) = Passed \<longleftrightarrow>
      python_files fs gi \<noteq> [] \<and> rc = 0 \<and> frc = 0)
   \<and> code_gate_run [(''app.py'', '''')] (Ran 2 ''error: invalid configuration'') (Ran 2 '''')
        \<lparr>gi_files = [], gi_test_report = None\<rparr> =
      \<lparr>gr_status = FailedGate, gr_reason = ''0 lint/format issue(s)'', gr_findings = [],
       gr_metadata = []\<rparr>
   \<and> dr_decision (resolve_decision [] gate env policy ovs) = Pass
   \<and> \<not> blocks (resolve_decision [] gate env policy ovs)"
proof -
  have "code_gate_run [(''app.py'', '''')] (Ran 2 ''error: invalid configuration'') (Ran 2 '''')
      \<lparr>gi_files = [], gi_test_report = None\<rparr> =
    \<lparr>gr_status = FailedGate, gr_reason = ''0 lint/format issue(s)'', gr_findings = [],
     gr_metadata = []\<rparr>" by code_simp
  moreover have "dr_decision (resolve_decision [] gate env policy ovs) = Pass"
    by (auto simp: resolve_decision_def policy_decision_def normalize_severities_def Let_def
        split: option.splits)
  ultimately show ?thesis
    by (auto simp: code_gate_run_def Let_def blocks_def)
qed

end
