(* ===== verification/Workflow.thy ===== *)
theory Workflow
  imports ExecutorRetry Kanban Gates
begin

text \<open>
  The workflow engine (\<open>workflow/engine.py\<close>, \<open>workflow/models.py\<close>): the linear pipeline research,
  planner, branch, board, developer, reviewer, tester, documentation, commit, with the quality
  gates in between. Every agent runs through the executor, cards move on the scrum board, and the
  context of the run collects stages and errors.

  The state is that of the executor (which holds the outside world and the shared context
  object), the board, the run counter, the events the engine published and the context of the
  run. Parameters are the agents, the gates that inspect files, \<open>json.loads\<close> (\<open>None\<close> where it
  raises), the git query for changed files, the clock, and the caller's callbacks. A subtask's
  description and type and the texts read from a report are strings; another type raises
  \<open>TypeError\<close> where it is used first.
\<close>

section \<open>Data\<close>

record stage =
  sg_name :: string
  sg_success :: bool
  sg_error :: "string option"
  sg_details :: pydict

abbreviation mk_stage :: "string \<Rightarrow> bool \<Rightarrow> stage" where
  "mk_stage n ok \<equiv> \<lparr>sg_name = n, sg_success = ok, sg_error = None, sg_details = []\<rparr>"

record workflow_context =
  wc_task :: core_task
  wc_run_id :: int
  wc_goal :: string
  wc_started :: string
  wc_plan :: "pydict option"
  wc_branch :: "string option"
  wc_board :: "kanban_board option"
  wc_cards :: "kanban_card list"
  wc_review :: "pyval option"
  wc_tests :: "pyval option"
  wc_commit :: "pyval option"
  wc_research :: "pyval option"
  wc_stages :: "stage list"
  wc_errors :: "string list"
  wc_completed :: nat
  wc_subtasks :: nat
  wc_quality :: bool
  wc_intent :: "intent_policy option"
  wc_finished :: "string option"
  wc_changed :: "string list"
  wc_produced :: bool

record workflow_result =
  wr_run_id :: int
  wr_goal :: string
  wr_branch :: "string option"
  wr_success :: bool
  wr_plan :: "pydict option"
  wr_stages :: "stage list"
  wr_subtasks :: nat
  wr_completed :: nat
  wr_errors :: "string list"
  wr_started :: string
  wr_finished :: "string option"
  wr_research :: "pyval option"
  wr_changed :: "string list"

definition result_from_context :: "workflow_context \<Rightarrow> workflow_result" where
  "result_from_context c =
     \<lparr>wr_run_id = wc_run_id c, wr_goal = wc_goal c, wr_branch = wc_branch c,
      wr_success = (wc_errors c = []), wr_plan = wc_plan c, wr_stages = wc_stages c,
      wr_subtasks = wc_subtasks c, wr_completed = wc_completed c, wr_errors = wc_errors c,
      wr_started = wc_started c, wr_finished = wc_finished c, wr_research = wc_research c,
      wr_changed = wc_changed c\<rparr>"

record quality_config =
  qc_enabled :: bool
  qc_environment :: string
  qc_policy :: gate_policy
  qc_overrides :: "gate_override list"

text \<open>A gate answers how long it took and its result, or what it raised.\<close>

type_synonym 'w gate = "gate_input \<Rightarrow> 'w \<Rightarrow> (rat \<times> (exn + gate_result)) \<times> 'w"

record 'w wstate =
  ws_x :: "'w xstate"
  ws_kanban :: kanban_state
  ws_counter :: int
  ws_log :: "(string \<times> pydict \<times> string) list"
  ws_ctx :: workflow_context

record 'w wenv =
  we_env :: "'w xenv"
  we_exec :: executor
  we_kanban :: kanban_env
  we_planner :: "'w agent"
  we_developer :: "'w agent"
  we_reviewer :: "'w agent"
  we_research :: "'w agent option"
  we_tester :: "'w agent option"
  we_documentation :: "'w agent option"
  we_git :: "'w agent option"
  we_json :: "string \<Rightarrow> pyval option"
  we_now :: "'w \<Rightarrow> string \<times> 'w"
  we_project :: string
  we_has_tests :: "'w \<Rightarrow> bool"
  we_git_changes :: "'w \<Rightarrow> (exn + string list) \<times> 'w"
  we_quality :: "quality_config option"
  we_gates :: "(string \<times> 'w gate) list option"
  we_code_gate :: "'w gate"
  we_security_gate :: "'w gate"
  we_documentation_gate :: "'w gate"
  we_bus :: bool
  we_context :: bool
  we_on_stage :: "(stage \<Rightarrow> 'w \<Rightarrow> (exn + unit) \<times> 'w) option"
  we_commit_message :: "workflow_context \<Rightarrow> string"
  we_create_branch :: bool
  we_show :: "pyval \<Rightarrow> string"

text \<open>The default \<open>commit_factory\<close>.\<close>

definition default_commit_message :: "workflow_context \<Rightarrow> string" where
  "default_commit_message c = ''feat: '' @ wc_goal c"

section \<open>Plumbing\<close>

definition on_exec :: "('w xstate, 'a) py \<Rightarrow> ('w wstate, 'a) py" where
  "on_exec m = (\<lambda>s. let (r, x) = m (ws_x s) in (r, s\<lparr>ws_x := x\<rparr>))"

definition on_board :: "'a kanban \<Rightarrow> ('w wstate, 'a) py" where
  "on_board m = (\<lambda>s. let (r, k) = m (ws_kanban s) in (r, s\<lparr>ws_kanban := k\<rparr>))"

definition on_world :: "('w \<Rightarrow> 'a \<times> 'w) \<Rightarrow> ('w wstate, 'a) py" where
  "on_world f = on_exec (draw f)"

definition set_ctx :: "(workflow_context \<Rightarrow> workflow_context) \<Rightarrow> ('w wstate, unit) py" where
  "set_ctx f = modify (\<lambda>s. s\<lparr>ws_ctx := f (ws_ctx s)\<rparr>)"

definition get_ctx :: "(workflow_context \<Rightarrow> 'a) \<Rightarrow> ('w wstate, 'a) py" where
  "get_ctx f = gets (\<lambda>s. f (ws_ctx s))"

definition notify_stage :: "'w wenv \<Rightarrow> stage \<Rightarrow> ('w wstate, unit) py" where
  "notify_stage W st = (case we_on_stage W of
     None \<Rightarrow> ret ()
   | Some f \<Rightarrow> bnd (on_world (f st)) of_sum)"

text \<open>\<open>ctx.stages.append(...)\<close> and \<open>notify(ctx.stages[-1])\<close>\<close>

definition add_stage :: "'w wenv \<Rightarrow> stage \<Rightarrow> ('w wstate, unit) py" where
  "add_stage W st = seq (set_ctx (\<lambda>c. c\<lparr>wc_stages := wc_stages c @ [st]\<rparr>)) (notify_stage W st)"

definition add_error :: "string \<Rightarrow> ('w wstate, unit) py" where
  "add_error e = set_ctx (\<lambda>c. c\<lparr>wc_errors := wc_errors c @ [e]\<rparr>)"

definition publish_quality :: "'w wenv \<Rightarrow> string \<Rightarrow> pydict \<Rightarrow> ('w wstate, unit) py" where
  "publish_quality W topic payload =
     (if we_bus W then modify (\<lambda>s. let c = str_of_int (wc_run_id (ws_ctx s)) in
        s\<lparr>ws_log := ws_log s @ [(topic, dict_set ''correlation_id'' (PStr c) payload, c)]\<rparr>)
      else ret ())"

text \<open>Reading JSON values.\<close>

fun as_dict :: "pyval \<Rightarrow> exn + pydict" where
  "as_dict (PDict d) = Inr d"
| "as_dict _ = Inl (Exn AttributeError ''object has no attribute get'')"

fun as_items :: "pyval \<Rightarrow> exn + pyval list" where
  "as_items (PList xs) = Inr xs"
| "as_items (PDict d) = Inr (map (\<lambda>(k, v). PStr k) d)"
| "as_items (PStr s) = Inr (map (\<lambda>c. PStr [c]) s)"
| "as_items _ = Inl (Exn TypeError ''object has no len()'')"

fun as_text :: "pyval \<Rightarrow> exn + string" where
  "as_text (PStr s) = Inr s"
| "as_text _ = Inl (Exn TypeError ''expected a string'')"

fun item_get :: "string \<Rightarrow> pyval \<Rightarrow> exn + pyval" where
  "item_get k (PDict d) = (case map_of d k of None \<Rightarrow> Inl (Exn KeyError k) | Some v \<Rightarrow> Inr v)"
| "item_get k _ = Inl (Exn TypeError ''object is not subscriptable by a string'')"

definition json_loads :: "'w wenv \<Rightarrow> string \<Rightarrow> exn + pyval" where
  "json_loads W t = (case we_json W t of
     Some v \<Rightarrow> Inr v | None \<Rightarrow> Inl (Exn JSONDecodeError ''Expecting value''))"

text \<open>\<open>v > 0\<close> on a JSON value\<close>

fun is_positive :: "pyval \<Rightarrow> exn + bool" where
  "is_positive (PInt i) = Inr (i > 0)"
| "is_positive (PFloat r) = Inr (r > 0)"
| "is_positive (PBool b) = Inr b"
| "is_positive _ = Inl (Exn TypeError ''ordering not supported'')"

definition subtask_description :: "pyval \<Rightarrow> exn + string" where
  "subtask_description v = sum_bind (item_get ''description'' v) as_text"

definition subtask_type :: "pyval \<Rightarrow> exn + string" where
  "subtask_type v = sum_bind (as_dict v) (\<lambda>d. as_text (dict_get d ''type'' (PStr ''code'')))"

section \<open>Small functions of the engine\<close>

definition OPTIONAL_AGENTS :: "string list" where
  "OPTIONAL_AGENTS = [''tester'', ''documentation'', ''git'', ''research'']"

definition first_error :: "agent_result \<Rightarrow> string \<Rightarrow> string" where
  "first_error r fallback = (case res_errors r of [] \<Rightarrow> fallback | e # _ \<Rightarrow> e)"

definition compute_produced_files :: "string list \<Rightarrow> string list \<Rightarrow> string list" where
  "compute_produced_files old new = sort (remdups (filter (\<lambda>f. f \<notin> set old) new))"

definition has_relevant_change :: "string list \<Rightarrow> bool" where
  "has_relevant_change produced =
     list_ex (\<lambda>p. startswith p ''src/'' \<or> startswith p ''tests/'') produced"

definition noop_reason :: "string list \<Rightarrow> string" where
  "noop_reason produced =
     ''Developer produced no changes in src/ or tests/ (no-op); changed files: '' @
     (if produced = [] then ''none'' else join '', '' produced)"

definition NON_IMPLEMENTATION_TYPES :: "string list" where
  "NON_IMPLEMENTATION_TYPES = [''docs'', ''chore'', ''release'', ''meta'']"

definition is_implementation_task :: "core_task \<Rightarrow> bool" where
  "is_implementation_task t =
     ((if ct_task_type t = [] then ''code'' else ct_task_type t) \<notin> set NON_IMPLEMENTATION_TYPES)"

definition is_slug_char :: "char \<Rightarrow> bool" where
  "is_slug_char c = (is_lower_ascii c \<or> is_digit c)"

text \<open>\<open>re.sub("[^a-z0-9]+", "-", s)\<close>\<close>

fun slugify :: "string \<Rightarrow> string" where
  "slugify [] = []"
| "slugify (c # s) =
     (if is_slug_char c then c # slugify s
      else case s of
        [] \<Rightarrow> ''-''
      | d # _ \<Rightarrow> if is_slug_char d then CHR ''-'' # slugify s else slugify s)"

definition build_branch :: "int \<Rightarrow> string \<Rightarrow> string" where
  "build_branch run_id goal =
     (let slug = strip_char (CHR ''-'')
            (take 50 (strip_char (CHR ''-'') (slugify (lower goal))));
          slug' = (if slug = [] then ''task'' else slug)
      in ''feature/'' @ slug' @ ''-'' @ str_of_int run_id)"

definition findings_counts :: "gate_result \<Rightarrow> pydict" where
  "findings_counts r = map (\<lambda>v. (severity_value v,
     PInt (int (length (filter (\<lambda>f. gf_severity f = v) (gr_findings r))))))
     [Low, Medium, High, Critical]"

definition git_operation :: "'w wenv \<Rightarrow> agent_result \<Rightarrow> pyval option" where
  "git_operation W r = (if res_output r = [] then None else we_json W (res_output r))"

definition git_error :: "'w wenv \<Rightarrow> agent_result \<Rightarrow> exn + string option" where
  "git_error W r =
     (let fallback = (case res_errors r of [] \<Rightarrow> None | e # _ \<Rightarrow> Some e) in
      case git_operation W r of
        None \<Rightarrow> Inr fallback
      | Some op \<Rightarrow>
          if \<not> truthy op then Inr fallback
          else sum_bind (as_dict op) (\<lambda>d.
            let err = dict_get d ''stderr'' PNone in
            if truthy err then sum_bind (as_text err) (\<lambda>t. Inr (Some (strip t)))
            else Inr fallback))"

definition show_opt :: "string option \<Rightarrow> string" where
  "show_opt x = (case x of None \<Rightarrow> ''None'' | Some s \<Rightarrow> s)"

section \<open>Running an agent\<close>

definition new_task ::
  "'w wenv \<Rightarrow> string \<Rightarrow> string \<Rightarrow> pydict \<Rightarrow> string \<Rightarrow> ('w wstate, agent_task) py" where
  "new_task W description task_type params correlation_id =
     bnd (on_world (uuid4 (we_env W))) (\<lambda>tid.
     ret \<lparr>at_description = description, at_task_type = task_type, at_files = [],
          at_params = params, at_task_id = tid, at_correlation_id = correlation_id\<rparr>)"

text \<open>The result of an outcome; an outcome without one becomes a failing result.\<close>

definition outcome_result :: "string \<Rightarrow> agent_task \<Rightarrow> exec_outcome \<Rightarrow> agent_result" where
  "outcome_result agent_name task oc =
     (case oc_result oc of
        Some r \<Rightarrow> r
      | None \<Rightarrow> AgentResult_default
          \<lparr>res_success := False,
           res_errors := [case oc_error oc of None \<Rightarrow> ''Agent execution failed''
                          | Some e \<Rightarrow> err_message e],
           res_error := oc_error oc, res_error_code := map_option err_code (oc_error oc),
           res_status := state_name (oc_status oc), res_agent := agent_name,
           res_task_id := at_task_id task, res_correlation_id := at_correlation_id task\<rparr>)"

definition run_agent ::
  "'w wenv \<Rightarrow> 'w agent \<Rightarrow> agent_task \<Rightarrow> bool \<Rightarrow> ('w wstate, agent_result) py" where
  "run_agent W ag task with_context =
     bnd (gets (\<lambda>s. if with_context then cx_intent (x_context (ws_x s)) else None)) (\<lambda>intent.
     bnd (on_exec (execute (we_env W) (we_exec W)
            (make_request ag task with_context None None '''' None intent))) (\<lambda>oc.
     ret (outcome_result (a_name ag) task oc)))"

section \<open>Finishing\<close>

definition STAGE_AGENT :: "string list" where
  "STAGE_AGENT = [''planner'', ''reviewer'', ''tester'', ''documentation'', ''git'', ''research'']"

definition agent_named :: "'w wenv \<Rightarrow> string \<Rightarrow> 'w agent option" where
  "agent_named W n =
     (if n = ''planner'' then Some (we_planner W)
      else if n = ''developer'' then Some (we_developer W)
      else if n = ''reviewer'' then Some (we_reviewer W)
      else if n = ''tester'' then we_tester W
      else if n = ''documentation'' then we_documentation W
      else if n = ''git'' then we_git W
      else if n = ''research'' then we_research W
      else None)"

definition enrich_stage :: "'w wenv \<Rightarrow> intent_policy \<Rightarrow> stage \<Rightarrow> stage" where
  "enrich_stage W intent st =
     (let agent_name = (if startswith (sg_name st) ''developer:'' then Some ''developer''
            else if sg_name st \<in> set STAGE_AGENT then Some (sg_name st) else None)
      in case agent_name of
           None \<Rightarrow> st
         | Some n \<Rightarrow>
             (case agent_named W n of
                None \<Rightarrow> st
              | Some ag \<Rightarrow>
                  let effective = effective_permissions intent (CapObject (a_capabilities ag)) in
                  if effective = {} then st
                  else let d = dict_set ''effective'' (strs (sorted_list_of_set effective))
                             (sg_details st);
                           d' = (if map_of d ''intent'' = None
                             then dict_set ''intent'' (PDict [(''name'', PStr (ip_name intent)),
                                    (''source'', PStr (ip_source intent))]) d
                             else d)
                       in st\<lparr>sg_details := d'\<rparr>))"

definition enrich_stages :: "'w wenv \<Rightarrow> workflow_context \<Rightarrow> workflow_context" where
  "enrich_stages W c =
     (case wc_intent c of
        None \<Rightarrow> c
      | Some i \<Rightarrow> c\<lparr>wc_stages := map (enrich_stage W i) (wc_stages c)\<rparr>)"

definition finish :: "'w wenv \<Rightarrow> ('w wstate, workflow_result) py" where
  "finish W =
     bnd (on_world (we_now W)) (\<lambda>now.
     seq (set_ctx (\<lambda>c. enrich_stages W (c\<lparr>wc_finished := Some now\<rparr>)))
    (bnd (get_ctx (\<lambda>c. c)) (\<lambda>c.
     seq (if wc_quality c
          then publish_quality W ''quality.completed''
            [(''success'', PBool (wc_errors c = [])), (''errors'', strs (wc_errors c))]
          else ret ())
    (ret (result_from_context c)))))"

text \<open>A phase answers the final result when it ends the run, and nothing when the run goes on.\<close>

definition then_phase ::
  "('w wstate, workflow_result option) py \<Rightarrow> ('w wstate, workflow_result option) py \<Rightarrow>
   ('w wstate, workflow_result option) py" where
  "then_phase p q = bnd p (\<lambda>r. case r of Some res \<Rightarrow> ret (Some res) | None \<Rightarrow> q)"

definition fail_run :: "'w wenv \<Rightarrow> string \<Rightarrow> ('w wstate, workflow_result) py" where
  "fail_run W err = seq (add_error err) (finish W)"

definition stop_run :: "'w wenv \<Rightarrow> string \<Rightarrow> ('w wstate, workflow_result option) py" where
  "stop_run W err = bnd (fail_run W err) (\<lambda>r. ret (Some r))"

definition go_on :: "('w wstate, workflow_result option) py" where
  "go_on = ret None"

section \<open>Quality gates\<close>

definition quality_active :: "'w wenv \<Rightarrow> bool" where
  "quality_active W = (case we_quality W of None \<Rightarrow> False | Some q \<Rightarrow> qc_enabled q)"

definition quality_environment :: "'w wenv \<Rightarrow> string" where
  "quality_environment W = (case we_quality W of None \<Rightarrow> ''dev'' | Some q \<Rightarrow> qc_environment q)"

text \<open>A gate that inspects only its input takes no time.\<close>

definition pure_gate :: "(gate_input \<Rightarrow> gate_result) \<Rightarrow> 'w gate" where
  "pure_gate f = (\<lambda>gi w. ((0, Inr (f gi)), w))"

definition workflow_gates :: "'w wenv \<Rightarrow> (string \<times> 'w gate) list" where
  "workflow_gates W =
     (if \<not> quality_active W then []
      else case we_gates W of
        Some gs \<Rightarrow> gs
      | None \<Rightarrow>
          [(''code_gate'', we_code_gate W),
           (''security_gate'', we_security_gate W),
           (''test_gate'', pure_gate (test_gate_run (we_show W))),
           (''documentation_gate'', we_documentation_gate W),
           (''release_gate'', pure_gate release_gate_run)])"

text \<open>\<open>asyncio.wait_for(gate.run(...), 30 s)\<close> with its two handlers.\<close>

definition gate_outcome :: "rat \<times> (exn + gate_result) \<Rightarrow> gate_result" where
  "gate_outcome answer =
     (case answer of (took, r) \<Rightarrow>
        let timed_out = \<lparr>gr_status = Errored, gr_reason = ''gate timed out after 30s'',
              gr_findings = [], gr_metadata = [(''timeout_seconds'', PFloat 30)]\<rparr> in
        if took > 30 then timed_out
        else case r of
          Inr g \<Rightarrow> g
        | Inl e \<Rightarrow> if exn_kind e = TimeoutError then timed_out
            else gate_answer Errored (''gate crashed: '' @ exn_message e))"

definition resolve_gate :: "'w wenv \<Rightarrow> string \<Rightarrow> gate_result \<Rightarrow> decision_result" where
  "resolve_gate W name r =
     resolve_decision (map (\<lambda>f. SevValue (gf_severity f)) (gr_findings r)) name
       (quality_environment W)
       (case we_quality W of None \<Rightarrow> None | Some q \<Rightarrow> Some (qc_policy q))
       (case we_quality W of None \<Rightarrow> [] | Some q \<Rightarrow> qc_overrides q)"

text \<open>Whether a result stops the run, and the reason reported.\<close>

definition gate_blocked :: "'w wenv \<Rightarrow> string \<Rightarrow> gate_result \<Rightarrow> bool" where
  "gate_blocked W name r =
     (case gr_status r of Errored \<Rightarrow> True | FailedGate \<Rightarrow> blocks (resolve_gate W name r) | _ \<Rightarrow> False)"

definition gate_reason :: "'w wenv \<Rightarrow> string \<Rightarrow> gate_result \<Rightarrow> string" where
  "gate_reason W name r =
     (case gr_status r of
        Errored \<Rightarrow> if gr_reason r = [] then ''gate error (fail-safe block)'' else gr_reason r
      | FailedGate \<Rightarrow>
          let p = resolve_gate W name r in
          if blocks p then dr_reason p else gr_reason r @ ''; '' @ dr_reason p
      | _ \<Rightarrow> gr_reason r)"

definition gate_details :: "'w wenv \<Rightarrow> string \<Rightarrow> gate_result \<Rightarrow> pydict" where
  "gate_details W name r =
     (''gate'', PDict (gate_result_to_dict r)) #
     (case gr_status r of
        FailedGate \<Rightarrow> [(''policy'', PDict (decision_result_to_dict (resolve_gate W name r)))]
      | Skipped \<Rightarrow> [(''skipped'', PBool True)]
      | _ \<Rightarrow> [])"

definition gate_payload :: "'w wenv \<Rightarrow> string \<Rightarrow> rat \<Rightarrow> gate_result \<Rightarrow> pydict" where
  "gate_payload W name duration r =
     [(''gate'', PStr name),
      (''status'', PStr (status_value (gr_status r))),
      (''duration_ms'', PFloat duration),
      (''findings'', PDict (findings_counts r)),
      (''blocked'', PBool (gate_blocked W name r)),
      (''overridden'', PBool (gr_status r = FailedGate \<and> dr_overridden (resolve_gate W name r))),
      (''reason'', PStr (gate_reason W name r))]"

definition run_gate :: "'w wenv \<Rightarrow> string \<Rightarrow> gate_input \<Rightarrow> ('w wstate, bool) py" where
  "run_gate W name gi =
     (case map_of (workflow_gates W) name of
        None \<Rightarrow>
          seq (add_stage W ((mk_stage name True)\<lparr>sg_details :=
            [(''skipped'', PBool True), (''reason'', PStr ''gate not configured'')]\<rparr>)) (ret True)
      | Some gate \<Rightarrow>
          seq (publish_quality W ''quality.gate_started'' [(''gate'', PStr name)])
         (bnd (on_world (monotonic (we_env W))) (\<lambda>started.
          bnd (on_world (gate gi)) (\<lambda>answer.
          bnd (on_world (monotonic (we_env W))) (\<lambda>ended.
          let r = gate_outcome answer; blocked = gate_blocked W name r;
              why = gate_reason W name r in
          seq (publish_quality W
                (if blocked then ''quality.gate_blocked'' else ''quality.gate_completed'')
                (gate_payload W name ((ended - started) * 1000) r))
         (if blocked
          then seq (add_stage W \<lparr>sg_name = name, sg_success = False, sg_error = Some why,
                     sg_details = gate_details W name r\<rparr>)
              (seq (add_error (name @ '': blocked by policy - '' @ why)) (ret False))
          else seq (add_stage W \<lparr>sg_name = name, sg_success = True, sg_error = None,
                     sg_details = gate_details W name r\<rparr>) (ret True)))))))"

definition project_input :: gate_input where
  "project_input = \<lparr>gi_files = [], gi_test_report = None\<rparr>"

text \<open>\<open>if gates and not self._run_gate(...): return self._finish(ctx)\<close>\<close>

definition gate_phase ::
  "'w wenv \<Rightarrow> string \<Rightarrow> ('w wstate, gate_input) py \<Rightarrow> ('w wstate, workflow_result option) py" where
  "gate_phase W name input =
     (if workflow_gates W = [] then go_on
      else bnd input (\<lambda>gi. bnd (run_gate W name gi) (\<lambda>ok.
        if ok then go_on else bnd (finish W) (\<lambda>r. ret (Some r)))))"

section \<open>Phases\<close>

definition apply_workflow_intent :: "'w wenv \<Rightarrow> ('w wstate, unit) py" where
  "apply_workflow_intent W = modify (\<lambda>s.
     let x = ws_x s; c = x_context x in
     if we_context W \<and> cx_intent c = None \<and> cx_settable c
     then s\<lparr>ws_x := x\<lparr>x_context := c\<lparr>cx_intent := Some WORKFLOW_INTENT\<rparr>\<rparr>\<rparr> else s)"

definition publish_research :: "'w wenv \<Rightarrow> pydict \<Rightarrow> ('w wstate, unit) py" where
  "publish_research W d =
     (if \<not> we_bus W then ret ()
      else bnd (of_sum (as_items (dict_get d ''findings'' (PList [])))) (\<lambda>fs.
           bnd (of_sum (as_items (dict_get d ''sources'' (PList [])))) (\<lambda>ss.
           modify (\<lambda>s. let c = str_of_int (wc_run_id (ws_ctx s)) in
             s\<lparr>ws_log := ws_log s @ [(''research.completed'',
               [(''correlation_id'', PStr c),
                (''memory_candidates'', dict_get d ''memory_candidates'' (PList [])),
                (''findings'', PInt (int (length fs))),
                (''sources'', PInt (int (length ss)))], c)]\<rparr>))))"

definition run_research :: "'w wenv \<Rightarrow> 'w agent \<Rightarrow> core_task \<Rightarrow> ('w wstate, unit) py" where
  "run_research W ag task =
     bnd (get_ctx wc_run_id) (\<lambda>rid.
     bnd (new_task W (ct_description task) ''research'' [(''scope'', PStr ''mixed'')]
            (str_of_int rid)) (\<lambda>t.
     bnd (run_agent W ag t (we_context W)) (\<lambda>r.
     if \<not> res_success r
     then add_stage W ((mk_stage ''research'' False)\<lparr>sg_error := Some
            (first_error r ''Research failed'')\<rparr>)
     else
       let serialized = (case we_json W (res_output r) of None \<Rightarrow> PDict [] | Some v \<Rightarrow> v) in
       seq (set_ctx (\<lambda>c. c\<lparr>wc_research := Some serialized\<rparr>))
      (seq (modify (\<lambda>s. let x = ws_x s; c = x_context x in
              if we_context W \<and> cx_settable c
              then s\<lparr>ws_x := x\<lparr>x_context := c\<lparr>cx_research := Some serialized\<rparr>\<rparr>\<rparr> else s))
      (bnd (of_sum (as_dict serialized)) (\<lambda>d.
       bnd (of_sum (as_items (dict_get d ''sources'' (PList [])))) (\<lambda>ss.
       bnd (of_sum (as_items (dict_get d ''findings'' (PList [])))) (\<lambda>fs.
       seq (add_stage W ((mk_stage ''research'' True)\<lparr>sg_details :=
              [(''status'', dict_get d ''status'' PNone),
               (''summary_short'', dict_get d ''summary_short'' PNone),
               (''sources'', PInt (int (length ss))),
               (''findings'', PInt (int (length fs)))]\<rparr>))
         (publish_research W d)))))))))"

text \<open>The planner; it answers the subtasks, or the final result.\<close>

definition plan_phase ::
  "'w wenv \<Rightarrow> core_task \<Rightarrow> ('w wstate, workflow_result + pyval list) py" where
  "plan_phase W task =
     seq (case we_research W of None \<Rightarrow> ret () | Some ag \<Rightarrow> run_research W ag task)
    (bnd (on_world (uuid4 (we_env W))) (\<lambda>tid.
     bnd (run_agent W (we_planner W) (from_task tid task) (we_context W)) (\<lambda>r.
     if \<not> res_success r
     then seq (add_stage W (mk_stage ''planner'' False))
         (bnd (fail_run W (first_error r ''Planner failed'')) (\<lambda>res. ret (Inl res)))
     else
       bnd (of_sum (json_loads W (res_output r))) (\<lambda>v.
       bnd (of_sum (as_dict v)) (\<lambda>plan.
       seq (set_ctx (\<lambda>c. c\<lparr>wc_plan := Some plan\<rparr>))
      (bnd (of_sum (as_items (dict_get plan ''subtasks'' (PList [])))) (\<lambda>subtasks.
       seq (set_ctx (\<lambda>c. c\<lparr>wc_subtasks := length subtasks\<rparr>))
      (seq (add_stage W ((mk_stage ''planner'' True)\<lparr>sg_details := [(''plan'', PDict plan)]\<rparr>))
      (ret (Inr subtasks))))))))))"

definition skipped_stage :: "string \<Rightarrow> stage" where
  "skipped_stage n = (mk_stage n True)\<lparr>sg_details := [(''skipped'', PBool True)]\<rparr>"

definition branch_phase :: "'w wenv \<Rightarrow> ('w wstate, workflow_result option) py" where
  "branch_phase W =
     (case (if we_create_branch W then we_git W else None) of
        None \<Rightarrow> seq (add_stage W (skipped_stage ''git'')) go_on
      | Some git \<Rightarrow>
          bnd (get_ctx (\<lambda>c. build_branch (wc_run_id c) (wc_goal c))) (\<lambda>branch.
          bnd (new_task W (''create branch '' @ branch) ''create_branch''
                 [(''name'', PStr branch)] '''') (\<lambda>t.
          bnd (run_agent W git t False) (\<lambda>r.
          bnd (of_sum (git_error W r)) (\<lambda>err.
          seq (add_stage W ((mk_stage ''git'' (res_success r))\<lparr>sg_error := err\<rparr>))
         (if \<not> res_success r
          then stop_run W (''Git: failed to create branch '' @ branch @ '': '' @ show_opt err)
          else seq (set_ctx (\<lambda>c. c\<lparr>wc_branch := Some branch\<rparr>)) go_on))))))"

fun create_cards :: "'w wenv \<Rightarrow> int \<Rightarrow> pyval list \<Rightarrow> ('w wstate, unit) py" where
  "create_cards W bid [] = ret ()"
| "create_cards W bid (v # vs) =
     bnd (of_sum (subtask_description v)) (\<lambda>d.
     bnd (on_board (store_create_card (we_kanban W) bid d '''')) (\<lambda>kcard.
     seq (set_ctx (\<lambda>c. c\<lparr>wc_cards := wc_cards c @ [kcard]\<rparr>)) (create_cards W bid vs)))"

definition board_phase :: "'w wenv \<Rightarrow> pyval list \<Rightarrow> ('w wstate, workflow_result option) py" where
  "board_phase W subtasks =
     bnd (get_ctx wc_goal) (\<lambda>goal.
     bnd (on_board (store_create_board (we_kanban W) goal)) (\<lambda>board.
     seq (set_ctx (\<lambda>c. c\<lparr>wc_board := Some board\<rparr>))
    (seq (create_cards W (kb_id board) subtasks)
    (seq (add_stage W (mk_stage ''scheduler'' True)) go_on))))"

definition developer_stage :: "nat \<Rightarrow> bool \<Rightarrow> string option \<Rightarrow> string \<Rightarrow> nat \<Rightarrow> stage" where
  "developer_stage i ok err description ntasks =
     \<lparr>sg_name = ''developer:'' @ digits (i + 1), sg_success = ok, sg_error = err,
      sg_details = [(''description'', PStr description), (''subtask_total'', PInt (int ntasks))]\<rparr>"

text \<open>The loop over the subtasks, from index \<open>i\<close> on, each with its card.\<close>

fun developer_loop ::
  "'w wenv \<Rightarrow> nat \<Rightarrow> nat \<Rightarrow> (pyval \<times> kanban_card) list \<Rightarrow>
   ('w wstate, workflow_result option) py" where
  "developer_loop W ntasks i [] = go_on"
| "developer_loop W ntasks i ((v, kcard) # rest) =
     bnd (on_board (begin_work (we_kanban W) (kc_id kcard))) (\<lambda>_.
     bnd (of_sum (subtask_description v)) (\<lambda>description.
     bnd (of_sum (subtask_type v)) (\<lambda>ty.
     bnd (new_task W description ty [] '''') (\<lambda>t.
     bnd (run_agent W (we_developer W) t (we_context W)) (\<lambda>r.
     if \<not> res_success r
     then bnd (on_board (block_card (we_kanban W) (kc_id kcard) ''execution failed'')) (\<lambda>_.
          seq (add_stage W (developer_stage i False (Some (first_error r ''Developer failed''))
                 description ntasks))
              (stop_run W (''Developer ['' @ description @ '']: '' @ first_error r ''failed'')))
     else bnd (on_board (complete_work (we_kanban W) (kc_id kcard))) (\<lambda>_.
          seq (set_ctx (\<lambda>c. c\<lparr>wc_completed := wc_completed c + 1\<rparr>))
         (seq (add_stage W (developer_stage i True None description ntasks))
              (developer_loop W ntasks (i + 1) rest))))))))"

definition changed_files :: "'w wenv \<Rightarrow> ('w wstate, string list) py" where
  "changed_files W = bnd (on_world (we_git_changes W)) (\<lambda>r.
     ret (case r of Inl e \<Rightarrow> [] | Inr fs \<Rightarrow> fs))"

definition with_files :: "string list \<Rightarrow> stage \<Rightarrow> stage" where
  "with_files produced st =
     (if startswith (sg_name st) ''developer:''
      then st\<lparr>sg_details := dict_set ''files'' (strs produced) (sg_details st)\<rparr> else st)"

text \<open>What the developers changed, and the no-op check of an implementation task.\<close>

definition delta_phase :: "'w wenv \<Rightarrow> string list \<Rightarrow> ('w wstate, workflow_result option) py" where
  "delta_phase W old =
     bnd (changed_files W) (\<lambda>new.
     let produced = compute_produced_files old new in
     seq (set_ctx (\<lambda>c. c\<lparr>wc_changed := produced, wc_produced := has_relevant_change produced,
            wc_stages := map (with_files produced) (wc_stages c)\<rparr>))
    (bnd (get_ctx (\<lambda>c. c)) (\<lambda>c.
     if is_implementation_task (wc_task c) \<and> \<not> has_relevant_change produced
     then let why = noop_reason produced in
       seq (if wc_cards c = [] then ret ()
            else bnd (on_board (block_card (we_kanban W) (kc_id (last (wc_cards c))) why))
                   (\<lambda>_. ret ()))
      (seq (add_stage W \<lparr>sg_name = ''developer:noop'', sg_success = False, sg_error = Some why,
              sg_details = [(''changed_files'', strs produced)]\<rparr>)
           (stop_run W why))
     else go_on)))"

definition developer_phase :: "'w wenv \<Rightarrow> pyval list \<Rightarrow> ('w wstate, workflow_result option) py" where
  "developer_phase W subtasks =
     bnd (if we_git W \<noteq> None then changed_files W else ret []) (\<lambda>old.
     bnd (get_ctx wc_cards) (\<lambda>cards.
     then_phase (developer_loop W (length subtasks) 0 (zip subtasks cards))
       (then_phase (if we_git W \<noteq> None then delta_phase W old else go_on)
         (gate_phase W ''code_gate'' (ret project_input)))))"

definition review_phase :: "'w wenv \<Rightarrow> ('w wstate, workflow_result option) py" where
  "review_phase W =
     bnd (new_task W ''review project'' ''review'' [(''target'', PStr (we_project W))] '''') (\<lambda>t.
     bnd (run_agent W (we_reviewer W) t False) (\<lambda>r.
     bnd (if res_output r = [] then ret (PDict []) else of_sum (json_loads W (res_output r))) (\<lambda>v.
     seq (set_ctx (\<lambda>c. c\<lparr>wc_review := Some v\<rparr>))
    (seq (add_stage W (mk_stage ''reviewer'' (res_success r))) go_on))))"

text \<open>\<open>(report or {}).get(k, default)\<close>\<close>

definition report_get :: "pyval option \<Rightarrow> string \<Rightarrow> pyval \<Rightarrow> exn + pyval" where
  "report_get report k v =
     (case report of
        None \<Rightarrow> Inr v
      | Some p \<Rightarrow> if \<not> truthy p then Inr v else sum_bind (as_dict p) (\<lambda>d. Inr (dict_get d k v)))"

definition test_phase :: "'w wenv \<Rightarrow> ('w wstate, workflow_result option) py" where
  "test_phase W =
     (case we_tester W of
        None \<Rightarrow> seq (add_stage W (skipped_stage ''tester'')) go_on
      | Some tester \<Rightarrow>
          bnd (gets (\<lambda>s. we_has_tests W (x_world (ws_x s)))) (\<lambda>exists.
          seq (if \<not> exists then ret ()
               else bnd (new_task W ''run test suite'' ''test''
                      [(''target'', PStr (we_project W @ ''/tests'')), (''dry_run'', PBool False)]
                      '''') (\<lambda>t.
                    bnd (run_agent W tester t False) (\<lambda>r.
                    bnd (if res_output r = [] then ret (PDict [])
                         else of_sum (json_loads W (res_output r))) (\<lambda>v.
                    set_ctx (\<lambda>c. c\<lparr>wc_tests := Some v\<rparr>)))))
         (bnd (get_ctx wc_tests) (\<lambda>report.
          bnd (of_sum (report_get report ''failed'' (PInt 0))) (\<lambda>failed.
          seq (add_stage W (mk_stage ''tester'' (is_zero failed)))
         (bnd (of_sum (is_positive failed)) (\<lambda>red.
          if red then stop_run W (''Tester: '' @ py_str (we_show W) failed @ '' test(s) failed'')
          else go_on)))))))"

text \<open>The test gate's input: \<open>ctx.test_report\<close>. A report that is not a dictionary is empty or null
  here, as a truthy one has no failure count to read; the gate treats an empty one like \<open>{}\<close>.\<close>

definition test_input :: "('w wstate, gate_input) py" where
  "test_input = get_ctx (\<lambda>c. \<lparr>gi_files = [], gi_test_report =
     (case wc_tests c of
        None \<Rightarrow> None
      | Some PNone \<Rightarrow> None
      | Some (PDict d) \<Rightarrow> Some d
      | Some v \<Rightarrow> Some [])\<rparr>)"

definition documentation_phase :: "'w wenv \<Rightarrow> ('w wstate, workflow_result option) py" where
  "documentation_phase W =
     (case we_documentation W of
        None \<Rightarrow> seq (add_stage W (skipped_stage ''documentation'')) go_on
      | Some ag \<Rightarrow>
          bnd (get_ctx (\<lambda>c. c)) (\<lambda>c.
          bnd (of_sum (report_get (wc_tests c) ''passed'' (PInt 0))) (\<lambda>passed.
          bnd (if we_tester W = None then ret (PInt 0)
               else of_sum (report_get (wc_tests c) ''failed'' (PInt 0))) (\<lambda>failed.
          bnd (of_sum (report_get (wc_review c) ''items'' (PList []))) (\<lambda>items.
          bnd (new_task W ''generate changelog fragment'' ''documentation''
                 [(''report'', PDict [(''summary'', PDict [(''passed'', passed), (''failed'', failed)]),
                    (''items'', items)]), (''dry_run'', PBool False)] '''') (\<lambda>t.
          bnd (run_agent W ag t False) (\<lambda>r.
          seq (add_stage W (mk_stage ''documentation'' (res_success r))) go_on)))))))"

definition release_phase :: "'w wenv \<Rightarrow> ('w wstate, workflow_result option) py" where
  "release_phase W =
     (if we_quality W \<noteq> None \<and> quality_environment W = ''release''
      then gate_phase W ''release_gate'' (ret project_input) else go_on)"

definition commit_phase :: "'w wenv \<Rightarrow> ('w wstate, unit) py" where
  "commit_phase W =
     (case we_git W of
        None \<Rightarrow> add_stage W (skipped_stage ''git'')
      | Some git \<Rightarrow>
          bnd (new_task W ''stage changes'' ''stage'' [] '''') (\<lambda>t1.
          bnd (run_agent W git t1 False) (\<lambda>staged.
          seq (set_ctx (\<lambda>c. c\<lparr>wc_commit := git_operation W staged\<rparr>))
         (bnd (get_ctx (we_commit_message W)) (\<lambda>message.
          bnd (new_task W ''commit changes'' ''commit'' [(''message'', PStr message)] '''') (\<lambda>t2.
          bnd (run_agent W git t2 False) (\<lambda>r.
          seq (set_ctx (\<lambda>c. c\<lparr>wc_commit := git_operation W r\<rparr>))
         (bnd (of_sum (git_error W r)) (\<lambda>err.
          seq (add_stage W ((mk_stage ''git'' (res_success r))\<lparr>sg_error := err\<rparr>))
         (if res_success r then ret ()
          else add_error (''Git: commit failed: '' @ show_opt err)))))))))))"

section \<open>The run\<close>

definition start_run :: "'w wenv \<Rightarrow> core_task \<Rightarrow> ('w wstate, unit) py" where
  "start_run W task =
     seq (modify (\<lambda>s. s\<lparr>ws_counter := ws_counter s + 1\<rparr>))
    (bnd (on_world (we_now W)) (\<lambda>now.
     seq (modify (\<lambda>s. s\<lparr>ws_ctx := \<lparr>wc_task = task, wc_run_id = ws_counter s,
        wc_goal = ct_description task, wc_started = now, wc_plan = None, wc_branch = None,
        wc_board = None, wc_cards = [], wc_review = None, wc_tests = None, wc_commit = None,
        wc_research = None, wc_stages = [], wc_errors = [], wc_completed = 0, wc_subtasks = 0,
        wc_quality = False, wc_intent = None, wc_finished = None, wc_changed = [],
        wc_produced = False\<rparr>\<rparr>))
    (seq (apply_workflow_intent W)
    (seq (modify (\<lambda>s. s\<lparr>ws_ctx := (ws_ctx s)\<lparr>
            wc_intent := (if we_context W then cx_intent (x_context (ws_x s)) else None),
            wc_quality := (workflow_gates W \<noteq> [])\<rparr>\<rparr>))
    (if workflow_gates W = [] then ret ()
     else publish_quality W ''quality.started''
       [(''environment'', PStr (quality_environment W))])))))"

definition workflow_phases :: "'w wenv \<Rightarrow> pyval list \<Rightarrow> ('w wstate, workflow_result option) py" where
  "workflow_phases W subtasks =
     then_phase (branch_phase W)
    (then_phase (board_phase W subtasks)
    (then_phase (developer_phase W subtasks)
    (then_phase (review_phase W)
    (then_phase (gate_phase W ''security_gate'' (ret project_input))
    (then_phase (test_phase W)
    (then_phase (gate_phase W ''test_gate'' test_input)
    (then_phase (documentation_phase W)
    (then_phase (gate_phase W ''documentation_gate'' (ret project_input))
    (release_phase W)))))))))"

definition workflow_execute :: "'w wenv \<Rightarrow> core_task \<Rightarrow> ('w wstate, workflow_result) py" where
  "workflow_execute W task =
     seq (start_run W task)
    (bnd (plan_phase W task) (\<lambda>p.
     case p of
       Inl res \<Rightarrow> ret res
     | Inr subtasks \<Rightarrow>
         bnd (workflow_phases W subtasks) (\<lambda>r.
         case r of
           Some res \<Rightarrow> ret res
         | None \<Rightarrow> seq (commit_phase W) (finish W))))"

section \<open>Health\<close>

record workflow_health =
  wh_agents :: "(string \<times> bool) list"
  wh_optional :: "string list"

definition health_check :: "'w wenv \<Rightarrow> workflow_health" where
  "health_check W =
     \<lparr>wh_agents = [(''planner'', True), (''scheduler'', True), (''developer'', True),
        (''reviewer'', True), (''research'', we_research W \<noteq> None), (''tester'', we_tester W \<noteq> None),
        (''documentation'', we_documentation W \<noteq> None), (''git'', we_git W \<noteq> None)],
      wh_optional = OPTIONAL_AGENTS\<rparr>"

definition required_agents :: "workflow_health \<Rightarrow> (string \<times> bool) list" where
  "required_agents h = filter (\<lambda>(n, present). n \<notin> set (wh_optional h)) (wh_agents h)"

definition healthy :: "workflow_health \<Rightarrow> bool" where
  "healthy h = list_all snd (required_agents h)"

definition missing_agents :: "workflow_health \<Rightarrow> string list" where
  "missing_agents h = map fst (filter (\<lambda>(n, present). \<not> present) (required_agents h))"

end
