(* ===== verification/Learning.thy ===== *)
theory Learning
  imports Memory Workflow
begin

text \<open>
  Learning governance (\<open>learning/models.py\<close>, \<open>contracts.py\<close>, \<open>advisor.py\<close>, \<open>extractor.py\<close>,
  \<open>store.py\<close>, \<open>engine.py\<close>): observations are drawn from events, candidates from observations, a
  human approves or rejects them, and an approved candidate is ingested into the project memory.

  The state is the engine's configuration and error counts, its four tables, the memory engine it
  writes to, the clock and the published events. Parameters are the project, the hash of
  \<open>dedupe_hash\<close>, the texts of floats, and the database error a memory write may raise. Evidence
  lists are kept as values: they go through JSON and come back as they were.
\<close>

section \<open>Data\<close>

text \<open>\<open>ObservationRecord\<close> as the extractor makes it; identifiers come from the event's payload.\<close>

record observation_draft =
  od_execution :: pyval
  od_event :: pyval
  od_source :: pyval
  od_content :: string
  od_type :: string
  od_evidence :: "pydict list"
  od_confidence :: rat
  od_risk :: string
  od_hash :: string

text \<open>A row of \<open>learning_observations\<close>.\<close>

record observation =
  ob_execution :: string
  ob_event :: string
  ob_source :: string
  ob_content :: string
  ob_type :: string
  ob_evidence :: "pydict list"
  ob_confidence :: rat
  ob_risk :: string
  ob_hash :: string
  ob_state :: string
  ob_project :: string
  ob_created :: string

record candidate =
  ca_observation :: "int option"
  ca_content :: string
  ca_type :: string
  ca_confidence :: rat
  ca_risk :: string
  ca_evidence :: "pydict list"
  ca_hash :: string
  ca_state :: string
  ca_version :: int
  ca_memory :: string
  ca_project :: string
  ca_created :: string
  ca_updated :: string

record review =
  rv_candidate :: int
  rv_advisor :: string
  rv_recommendation :: string
  rv_justification :: string
  rv_reviewer :: string
  rv_decision :: string
  rv_reason :: string
  rv_created :: string

record materialization =
  mz_format :: string
  mz_path :: string
  mz_count :: int
  mz_created :: string

record review_decision =
  rd_recommendation :: string
  rd_justification :: string
  rd_advisor :: string

definition decision_approved :: "review_decision \<Rightarrow> bool" where
  "decision_approved d = (rd_recommendation d = ''approve'')"

definition decision_rejected :: "review_decision \<Rightarrow> bool" where
  "decision_rejected d = (rd_recommendation d = ''reject'')"

definition decision_needs_human :: "review_decision \<Rightarrow> bool" where
  "decision_needs_human d = (rd_recommendation d = ''needs_human'')"

record learning_state =
  l_ready :: bool
  l_enabled :: bool
  l_auto_capture :: bool
  l_threshold :: rat
  l_min_evidence :: int
  l_recurrence :: int
  l_errors :: "(string \<times> int) list"
  l_observations :: "observation table"
  l_candidates :: "candidate table"
  l_reviews :: "review table"
  l_materializations :: "materialization table"
  l_memory :: "memory option"
  l_tick :: nat
  l_log :: "(string \<times> pydict) list"

record learning_env =
  le_project :: string
  le_bus :: bool
  le_clock :: "nat \<Rightarrow> string"
  le_hash :: "string \<Rightarrow> string"
  le_show :: "pyval \<Rightarrow> string"
  le_memory :: memory_env
  le_fault :: "nat \<Rightarrow> string option"

type_synonym 'a learning = "(learning_state, 'a) py"

section \<open>Contracts\<close>

text \<open>\<open>ReviewPolicy\<close>: everything needs a human unless its type is configured \<open>auto\<close>.\<close>

definition requires_human :: "(string \<times> string) list \<Rightarrow> candidate \<Rightarrow> bool" where
  "requires_human policy c = (dict_get policy (ca_type c) ''human'' \<noteq> ''auto'')"

definition auto_approve :: "(string \<times> string) list \<Rightarrow> candidate \<Rightarrow> bool" where
  "auto_approve policy c = (\<not> requires_human policy c)"

definition NEEDS_HUMAN_TYPES :: "string list" where
  "NEEDS_HUMAN_TYPES = [''decision'', ''architecture_note'', ''dependency-note'']"

definition NEEDS_HUMAN_RISKS :: "string list" where
  "NEEDS_HUMAN_RISKS = [''high'', ''critical'']"

text \<open>The arrow of the justification lies beyond the characters of the model; this is its UTF-8
  form.\<close>

definition ARROW :: string where
  "ARROW = [char_of (226 :: nat), char_of (134 :: nat), char_of (146 :: nat)]"

definition default_review_logic :: "candidate \<Rightarrow> rat \<Rightarrow> review_decision" where
  "default_review_logic c threshold =
     (let risk = ca_risk c; kind = ca_type c; confidence = ca_confidence c;
          why = (\<lambda>verdict. ''confidence='' @ fixed 2 confidence @ ''; risk='' @ risk @ ''; type='' @ kind @
            '' '' @ ARROW @ '' '' @ verdict) in
      if risk \<in> set NEEDS_HUMAN_RISKS \<or> kind \<in> set NEEDS_HUMAN_TYPES
      then \<lparr>rd_recommendation = ''needs_human'', rd_justification = why ''needs_human'',
            rd_advisor = ''rules-advisor''\<rparr>
      else if confidence \<ge> threshold
      then \<lparr>rd_recommendation = ''approve'', rd_justification = why ''approve'',
            rd_advisor = ''rules-advisor''\<rparr>
      else \<lparr>rd_recommendation = ''reject'', rd_justification = why ''reject (below threshold)'',
            rd_advisor = ''rules-advisor''\<rparr>)"

section \<open>Extraction\<close>

definition SEVERITIES :: "string list" where
  "SEVERITIES = [''critical'', ''high'', ''medium'', ''low'']"

definition map_severity_to_risk :: "string \<Rightarrow> string" where
  "map_severity_to_risk severity = (if severity \<in> set SEVERITIES then severity else ''low'')"

definition confidence_from_gate_severity :: "string \<Rightarrow> rat" where
  "confidence_from_gate_severity severity =
     (if severity = ''critical'' then 9 / 10 else if severity = ''high'' then 7 / 10
      else if severity = ''medium'' then 5 / 10 else 3 / 10)"

definition map_gate_finding_to_type :: "string \<Rightarrow> string" where
  "map_gate_finding_to_type severity =
     (if severity = ''high'' \<or> severity = ''critical'' then ''mistake'' else ''pattern'')"

definition map_candidate_kind_to_type :: "string \<Rightarrow> string" where
  "map_candidate_kind_to_type kind =
     (if kind \<in> set [''convention'', ''decision'', ''pattern'', ''mistake''] then kind
      else if kind = ''dependency-note'' then ''architecture_note'' else ''pattern'')"

text \<open>A lookup in a table of strings: a list or a dictionary is not hashable, another value that
  is not a string is not found (like the empty string, which is no key).\<close>

fun hash_key :: "pyval \<Rightarrow> exn + string" where
  "hash_key (PStr s) = Inr s"
| "hash_key (PList xs) = Inl (Exn TypeError ''unhashable type: list'')"
| "hash_key (PDict d) = Inl (Exn TypeError ''unhashable type: dict'')"
| "hash_key _ = Inr ''''"

text \<open>\<open>content.strip()\<close>\<close>

fun strip_value :: "pyval \<Rightarrow> exn + string" where
  "strip_value (PStr s) = Inr (strip s)"
| "strip_value _ = Inl (Exn AttributeError ''object has no attribute strip'')"

definition dedupe_hash :: "learning_env \<Rightarrow> string \<Rightarrow> string" where
  "dedupe_hash E content = le_hash E (strip content)"

text \<open>The elements of \<open>for x in v\<close>.\<close>

fun iterate :: "pyval \<Rightarrow> exn + pyval list" where
  "iterate (PList xs) = Inr xs"
| "iterate (PDict d) = Inr (map (\<lambda>(k, v). PStr k) d)"
| "iterate (PStr s) = Inr (map (\<lambda>c. PStr [c]) s)"
| "iterate _ = Inl (Exn TypeError ''object is not iterable'')"

fun sum_map :: "('a \<Rightarrow> exn + 'b) \<Rightarrow> 'a list \<Rightarrow> exn + 'b list" where
  "sum_map f [] = Inr []"
| "sum_map f (x # xs) = sum_bind (f x) (\<lambda>y. sum_bind (sum_map f xs) (\<lambda>ys. Inr (y # ys)))"

definition or_value :: "pyval \<Rightarrow> pyval \<Rightarrow> pyval" where
  "or_value a b = (if truthy a then a else b)"

fun number :: "pyval \<Rightarrow> exn + rat" where
  "number (PInt i) = Inr (of_int i)"
| "number (PFloat r) = Inr r"
| "number (PBool b) = Inr (if b then 1 else 0)"
| "number _ = Inl (Exn TypeError ''ordering not supported'')"

definition quality_observation ::
  "learning_env \<Rightarrow> pydict \<Rightarrow> pyval \<Rightarrow> exn + observation_draft option" where
  "quality_observation E payload finding =
     sum_bind (as_dict finding) (\<lambda>f.
     let severity = dict_get f ''severity'' (PStr ''low'');
         content = or_value (dict_get f ''detail'' PNone) (dict_get f ''title'' (PStr '''')) in
     if \<not> truthy content then Inr None
     else sum_bind (hash_key severity) (\<lambda>sev.
       sum_bind (strip_value content) (\<lambda>_. sum_bind (as_text content) (\<lambda>t.
       Inr (Some \<lparr>od_execution = dict_get payload ''correlation_id'' (PStr ''''),
         od_event = dict_get payload ''source_event'' (PStr ''quality.gate_failed''),
         od_source = dict_get f ''id'' (PStr ''''), od_content = t,
         od_type = map_gate_finding_to_type sev,
         od_evidence = [[(''source_event'', PStr ''quality.gate_failed''),
           (''source_id'', dict_get f ''id'' (PStr '''')), (''severity'', severity),
           (''detail'', dict_get f ''detail'' (PStr ''''))]],
         od_confidence = confidence_from_gate_severity sev, od_risk = map_severity_to_risk sev,
         od_hash = dedupe_hash E t\<rparr>)))))"

definition keep_some :: "'a option list \<Rightarrow> 'a list" where
  "keep_some xs = concat (map (\<lambda>x. case x of None \<Rightarrow> [] | Some y \<Rightarrow> [y]) xs)"

definition extract_from_quality_event ::
  "learning_env \<Rightarrow> pydict \<Rightarrow> exn + observation_draft list" where
  "extract_from_quality_event E payload =
     (case or_value (dict_get payload ''findings'' (PList [])) (PList []) of
        PDict d \<Rightarrow> Inr []
      | v \<Rightarrow> sum_bind (iterate v) (\<lambda>fs.
          sum_bind (sum_map (quality_observation E payload) fs) (\<lambda>obs. Inr (keep_some obs))))"

definition research_observation ::
  "learning_env \<Rightarrow> pydict \<Rightarrow> nat \<times> pyval \<Rightarrow> exn + observation_draft option" where
  "research_observation E payload item =
     (case item of (idx, mc) \<Rightarrow>
       sum_bind (as_dict mc) (\<lambda>m.
       let content = dict_get m ''content'' (PStr '''') in
       if \<not> truthy content then Inr None
       else let kind = dict_get m ''kind'' (PStr ''pattern'');
                confidence = dict_get m ''confidence'' (PFloat (1 / 2)) in
         sum_bind (hash_key kind) (\<lambda>k. sum_bind (number confidence) (\<lambda>r.
         sum_bind (strip_value content) (\<lambda>_. sum_bind (as_text content) (\<lambda>t.
         Inr (Some \<lparr>od_execution = dict_get payload ''correlation_id'' (PStr ''''),
           od_event = PStr ''research.completed'',
           od_source = PStr (''research-candidate-'' @ digits (idx + 1)), od_content = t,
           od_type = map_candidate_kind_to_type k,
           od_evidence = [[(''source_event'', PStr ''research.completed''), (''source_id'', kind),
             (''confidence'', confidence), (''detail'', dict_get m ''reason'' (PStr ''''))]],
           od_confidence = r, od_risk = (if r < 7 / 10 then ''medium'' else ''low''),
           od_hash = dedupe_hash E t\<rparr>)))))))"

definition extract_from_research_event ::
  "learning_env \<Rightarrow> pydict \<Rightarrow> exn + observation_draft list" where
  "extract_from_research_event E payload =
     sum_bind (iterate (or_value (dict_get payload ''memory_candidates'' (PList [])) (PList []))) (\<lambda>cs.
     sum_bind (sum_map (research_observation E payload) (enumerate 0 cs)) (\<lambda>obs. Inr (keep_some obs)))"

text \<open>\<open>min(0.9, 0.6 + 0.1 * (count - 2))\<close> from the threshold on; floats are rationals here.\<close>

definition failure_confidence :: "int \<Rightarrow> int \<Rightarrow> rat" where
  "failure_confidence recurrence threshold =
     (if recurrence \<ge> threshold then min (9 / 10) (6 / 10 + of_int (recurrence - 2) / 10) else 6 / 10)"

definition failure_observation ::
  "learning_env \<Rightarrow> pydict \<Rightarrow> rat \<Rightarrow> nat \<times> string \<Rightarrow> observation_draft" where
  "failure_observation E payload confidence item =
     (case item of (k, content) \<Rightarrow>
      \<lparr>od_execution = dict_get payload ''correlation_id'' (PStr ''''),
       od_event = PStr ''agent.execution.failed'',
       od_source = PStr (''agent-error-'' @ digits (k + 1)), od_content = content,
       od_type = ''mistake'',
       od_evidence = [[(''source_event'', PStr ''agent.execution.failed''),
         (''source_id'', PStr ''agent-execution''), (''severity'', PStr ''high''),
         (''detail'', PStr content)]],
       od_confidence = confidence, od_risk = ''high'', od_hash = dedupe_hash E content\<rparr>)"

definition extract_from_agent_failure ::
  "learning_env \<Rightarrow> pydict \<Rightarrow> int \<Rightarrow> int \<Rightarrow> exn + observation_draft list" where
  "extract_from_agent_failure E payload recurrence threshold =
     (let errors = dict_get payload ''errors'' (PList []);
          errors' = (case errors of PStr s \<Rightarrow> PList [PStr s] | v \<Rightarrow> v) in
      sum_bind (iterate errors') (\<lambda>es.
        Inr (map (failure_observation E payload (failure_confidence recurrence threshold))
          (enumerate 0 (map (py_str (le_show E)) (filter truthy es))))))"

text \<open>The draft of a candidate; its state is \<open>scored\<close>.\<close>

definition create_candidate_from_observation ::
  "int \<times> observation \<Rightarrow> rat \<Rightarrow> int \<Rightarrow> candidate option" where
  "create_candidate_from_observation item threshold min_evidence =
     (case item of (i, ob) \<Rightarrow>
       if ob_evidence ob = [] \<or> int (length (ob_evidence ob)) < min_evidence then None
       else if ob_confidence ob < threshold then None
       else Some \<lparr>ca_observation = Some i, ca_content = ob_content ob, ca_type = ob_type ob,
              ca_confidence = ob_confidence ob, ca_risk = ob_risk ob, ca_evidence = ob_evidence ob,
              ca_hash = ob_hash ob, ca_state = ''scored'', ca_version = 0, ca_memory = '''',
              ca_project = ob_project ob, ca_created = '''', ca_updated = ''''\<rparr>)"

section \<open>The store\<close>

definition learning_now :: "learning_env \<Rightarrow> string learning" where
  "learning_now E = (\<lambda>s. (Inr (le_clock E (l_tick s)), s\<lparr>l_tick := l_tick s + 1\<rparr>))"

text \<open>A parameter compared with or stored in a \<open>TEXT\<close> column: numbers become text, nothing and
  containers have no text, an integer beyond 64 bits raises.\<close>

fun sql_param :: "learning_env \<Rightarrow> pyval \<Rightarrow> exn + string option" where
  "sql_param E (PStr s) = Inr (Some s)"
| "sql_param E (PInt i) = (if - (2 ^ 63) \<le> i \<and> i < 2 ^ 63 then Inr (Some (str_of_int i))
     else Inl (Exn OtherException ''Python int too large to convert to SQLite INTEGER''))"
| "sql_param E (PBool b) = Inr (Some (if b then ''1'' else ''0''))"
| "sql_param E (PFloat r) = Inr (Some (le_show E (PFloat r)))"
| "sql_param E _ = Inr None"

definition sql_text :: "learning_env \<Rightarrow> pyval \<Rightarrow> exn + string" where
  "sql_text E v = sum_bind (sql_param E v) (\<lambda>t. case t of
     Some x \<Rightarrow> Inr x
   | None \<Rightarrow> Inl (Exn OtherException
       (if v = PNone then ''NOT NULL constraint failed'' else ''type is not supported'')))"

definition insert_observation :: "learning_env \<Rightarrow> observation_draft \<Rightarrow> int learning" where
  "insert_observation E od =
     bnd (learning_now E) (\<lambda>now.
     bnd (of_sum (sql_text E (od_execution od))) (\<lambda>execution.
     bnd (of_sum (sql_text E (od_event od))) (\<lambda>event.
     bnd (of_sum (sql_text E (od_source od))) (\<lambda>source. (\<lambda>s.
       let (i, t) = insert_row \<lparr>ob_execution = execution, ob_event = event, ob_source = source,
             ob_content = od_content od, ob_type = od_type od, ob_evidence = od_evidence od,
             ob_confidence = od_confidence od, ob_risk = od_risk od, ob_hash = od_hash od,
             ob_state = ''draft'', ob_project = le_project E, ob_created = now\<rparr> (l_observations s)
       in (Inr i, s\<lparr>l_observations := t\<rparr>))))))"

text \<open>The fetch helpers turn a database error, such as an unsupported parameter, into no row.\<close>

definition find_observation_by_source ::
  "learning_env \<Rightarrow> pyval \<Rightarrow> pyval \<Rightarrow> (int \<times> observation) option learning" where
  "find_observation_by_source E execution source =
     bnd (of_sum (sql_param E execution)) (\<lambda>a.
     if a = None \<and> execution \<noteq> PNone then ret None
     else bnd (of_sum (sql_param E source)) (\<lambda>b.
       gets (\<lambda>s. case (a, b) of
         (Some x, Some y) \<Rightarrow> first_row (\<lambda>i r. ob_execution r = x \<and> ob_source r = y \<and>
             ob_project r = le_project E) (l_observations s)
       | _ \<Rightarrow> None)))"

definition get_observation :: "learning_env \<Rightarrow> int \<Rightarrow> learning_state \<Rightarrow> (int \<times> observation) option" where
  "get_observation E i s = (case row_of (l_observations s) i of
     None \<Rightarrow> None | Some r \<Rightarrow> if ob_project r = le_project E then Some (i, r) else None)"

definition list_observations_by_state ::
  "learning_env \<Rightarrow> string \<Rightarrow> learning_state \<Rightarrow> (int \<times> observation) list" where
  "list_observations_by_state E st s = sort_desc (\<lambda>(i, r). ob_created r)
     (select_rows (\<lambda>i r. ob_state r = st \<and> ob_project r = le_project E) (l_observations s))"

definition insert_candidate :: "learning_env \<Rightarrow> candidate \<Rightarrow> int learning" where
  "insert_candidate E c = bnd (learning_now E) (\<lambda>now. (\<lambda>s.
     let (i, t) = insert_row (c\<lparr>ca_state := (if ca_state c = [] then ''draft'' else ca_state c),
           ca_project := le_project E, ca_created := now, ca_updated := now\<rparr>) (l_candidates s)
     in (Inr i, s\<lparr>l_candidates := t\<rparr>)))"

text \<open>\<open>_row_to_candidate\<close> reads an empty type as \<open>pattern\<close>.\<close>

definition row_to_candidate :: "int \<times> candidate \<Rightarrow> int \<times> candidate" where
  "row_to_candidate item = (case item of (i, c) \<Rightarrow>
     (i, if ca_type c = [] then c\<lparr>ca_type := ''pattern''\<rparr> else c))"

definition LIVE_STATES :: "string list" where
  "LIVE_STATES = [''draft'', ''scored'', ''approved'', ''ingested'']"

definition find_candidate_by_hash ::
  "learning_env \<Rightarrow> string \<Rightarrow> learning_state \<Rightarrow> (int \<times> candidate) option" where
  "find_candidate_by_hash E h s =
     (case sort_desc (\<lambda>(i, c). ca_created c) (select_rows (\<lambda>i c. ca_hash c = h \<and>
         ca_project c = le_project E \<and> ca_state c \<in> set LIVE_STATES) (l_candidates s)) of
        [] \<Rightarrow> None | x # _ \<Rightarrow> Some (row_to_candidate x))"

definition store_get_candidate :: "learning_env \<Rightarrow> int \<Rightarrow> learning_state \<Rightarrow> candidate option" where
  "store_get_candidate E i s = (case row_of (l_candidates s) i of
     None \<Rightarrow> None
   | Some c \<Rightarrow> if ca_project c = le_project E then Some (snd (row_to_candidate (i, c))) else None)"

definition store_list_candidates ::
  "learning_env \<Rightarrow> string option \<Rightarrow> nat \<Rightarrow> learning_state \<Rightarrow> (int \<times> candidate) list" where
  "store_list_candidates E st limit s = take limit (map row_to_candidate
     (sort_desc (\<lambda>(i, c). ca_created c) (select_rows (\<lambda>i c. ca_project c = le_project E \<and>
        (case st of None \<Rightarrow> True | Some x \<Rightarrow> x = [] \<or> ca_state c = x)) (l_candidates s))))"

definition update_candidate_state ::
  "learning_env \<Rightarrow> int \<Rightarrow> string \<Rightarrow> (int \<times> string) option \<Rightarrow> unit learning" where
  "update_candidate_state E i st ingested = bnd (learning_now E) (\<lambda>now. modify (\<lambda>s.
     s\<lparr>l_candidates := update_row i (\<lambda>c. if ca_project c \<noteq> le_project E then c
        else let c' = c\<lparr>ca_state := st, ca_updated := now\<rparr> in
          (case ingested of None \<Rightarrow> c' | Some (v, m) \<Rightarrow> c'\<lparr>ca_version := v, ca_memory := m\<rparr>))
        (l_candidates s)\<rparr>))"

definition count_candidates_by_hash :: "learning_env \<Rightarrow> string \<Rightarrow> learning_state \<Rightarrow> nat" where
  "count_candidates_by_hash E h s =
     length (select_rows (\<lambda>i c. ca_hash c = h \<and> ca_project c = le_project E) (l_candidates s))"

definition insert_review ::
  "learning_env \<Rightarrow> int \<Rightarrow> string \<Rightarrow> string \<Rightarrow> string \<Rightarrow> string \<Rightarrow> string \<Rightarrow> string \<Rightarrow> int learning" where
  "insert_review E i advisor recommendation justification reviewer verdict reason =
     bnd (learning_now E) (\<lambda>now. (\<lambda>s.
       let (k, t) = insert_row \<lparr>rv_candidate = i, rv_advisor = advisor,
             rv_recommendation = recommendation, rv_justification = justification,
             rv_reviewer = reviewer, rv_decision = verdict, rv_reason = reason, rv_created = now\<rparr>
             (l_reviews s)
       in (Inr k, s\<lparr>l_reviews := t\<rparr>)))"

definition store_get_reviews :: "int \<Rightarrow> learning_state \<Rightarrow> (int \<times> review) list" where
  "store_get_reviews i s =
     sort_key (\<lambda>(k, r). rv_created r) (select_rows (\<lambda>k r. rv_candidate r = i) (l_reviews s))"

definition insert_materialization :: "learning_env \<Rightarrow> string \<Rightarrow> string \<Rightarrow> int \<Rightarrow> int learning" where
  "insert_materialization E fmt path n = bnd (learning_now E) (\<lambda>now. (\<lambda>s.
     let (k, t) = insert_row \<lparr>mz_format = fmt, mz_path = path, mz_count = n, mz_created = now\<rparr>
           (l_materializations s)
     in (Inr k, s\<lparr>l_materializations := t\<rparr>)))"

section \<open>The engine\<close>

definition learning_publish :: "learning_env \<Rightarrow> string \<Rightarrow> pydict \<Rightarrow> unit learning" where
  "learning_publish E topic payload =
     (if le_bus E then modify (\<lambda>s. s\<lparr>l_log := l_log s @ [(topic, payload)]\<rparr>) else ret ())"

definition configure ::
  "rat option \<Rightarrow> int option \<Rightarrow> int option \<Rightarrow> bool option \<Rightarrow> bool option \<Rightarrow> unit learning" where
  "configure threshold evidence recurrence enabled capture = modify (\<lambda>s. s\<lparr>
     l_threshold := (case threshold of None \<Rightarrow> l_threshold s | Some x \<Rightarrow> x),
     l_min_evidence := (case evidence of None \<Rightarrow> l_min_evidence s | Some x \<Rightarrow> x),
     l_recurrence := (case recurrence of None \<Rightarrow> l_recurrence s | Some x \<Rightarrow> x),
     l_enabled := (case enabled of None \<Rightarrow> l_enabled s | Some x \<Rightarrow> x),
     l_auto_capture := (case capture of None \<Rightarrow> l_auto_capture s | Some x \<Rightarrow> x)\<rparr>)"

text \<open>\<open>v[0]\<close>\<close>

fun first_item :: "pyval \<Rightarrow> exn + pyval" where
  "first_item (PList []) = Inl (Exn IndexError ''list index out of range'')"
| "first_item (PList (x # xs)) = Inr x"
| "first_item (PStr []) = Inl (Exn IndexError ''string index out of range'')"
| "first_item (PStr (c # s)) = Inr (PStr [c])"
| "first_item (PDict d) = Inl (Exn KeyError ''0'')"
| "first_item _ = Inl (Exn TypeError ''object is not subscriptable'')"

definition extract_agent_failures :: "learning_env \<Rightarrow> pydict \<Rightarrow> observation_draft list learning" where
  "extract_agent_failures E payload =
     (let err = dict_get payload ''error'' (PStr '''') in
      bnd (of_sum (if truthy err then Inr err
        else first_item (dict_get payload ''errors'' (PList [PStr ''unknown''])))) (\<lambda>v.
      let key = py_str (le_show E) v in
      bnd (gets (\<lambda>s. dict_get (l_errors s) key 0 + 1)) (\<lambda>n.
      seq (modify (\<lambda>s. s\<lparr>l_errors := dict_set key n (l_errors s)\<rparr>))
     (bnd (gets l_recurrence) (\<lambda>threshold. of_sum (extract_from_agent_failure E payload n threshold))))))"

fun record_observations ::
  "learning_env \<Rightarrow> observation_draft list \<Rightarrow> int list \<Rightarrow> int list learning" where
  "record_observations E [] ids = ret ids"
| "record_observations E (od # ods) ids =
     bnd (find_observation_by_source E (od_execution od) (od_source od)) (\<lambda>existing.
     if existing \<noteq> None then record_observations E ods ids
     else bnd (insert_observation E od) (\<lambda>i.
       seq (learning_publish E ''learning.observation_recorded''
              [(''observation_id'', PInt i), (''source_event'', od_event od)])
           (record_observations E ods (if i > 0 then ids @ [i] else ids))))"

definition observe :: "learning_env \<Rightarrow> string \<Rightarrow> pydict \<Rightarrow> int list learning" where
  "observe E source_event payload =
     bnd (gets (\<lambda>s. l_enabled s \<and> l_ready s)) (\<lambda>on.
     if \<not> on then ret []
     else
       let p = dict_set ''source_event'' (PStr source_event) payload in
       bnd (if startswith source_event ''quality.gate_'' then of_sum (extract_from_quality_event E p)
            else if source_event = ''research.completed'' then of_sum (extract_from_research_event E p)
            else if source_event = ''agent.execution.failed'' then extract_agent_failures E p
            else ret []) (\<lambda>ods.
       record_observations E ods []))"

fun extract_candidates ::
  "learning_env \<Rightarrow> (int \<times> observation) list \<Rightarrow> int list \<Rightarrow> int list learning" where
  "extract_candidates E [] ids = ret ids"
| "extract_candidates E (ob # obs) ids =
     bnd (gets (\<lambda>s. create_candidate_from_observation ob (l_threshold s) (l_min_evidence s))) (\<lambda>c.
     case c of
       None \<Rightarrow> extract_candidates E obs ids
     | Some cand \<Rightarrow>
         bnd (gets (find_candidate_by_hash E (ca_hash cand))) (\<lambda>existing.
         if existing \<noteq> None then extract_candidates E obs ids
         else bnd (insert_candidate E cand) (\<lambda>i.
           seq (learning_publish E ''learning.candidate.created''
                  [(''candidate_id'', PInt i), (''type'', PStr (ca_type cand))])
               (extract_candidates E obs (if i > 0 then ids @ [i] else ids)))))"

definition observations_to_extract ::
  "learning_env \<Rightarrow> int option \<Rightarrow> learning_state \<Rightarrow> (int \<times> observation) list" where
  "observations_to_extract E oid s = (case oid of
     None \<Rightarrow> list_observations_by_state E ''draft'' s
   | Some i \<Rightarrow> (case get_observation E i s of None \<Rightarrow> [] | Some ob \<Rightarrow> [ob]))"

definition learning_extract :: "learning_env \<Rightarrow> int option \<Rightarrow> int list learning" where
  "learning_extract E oid =
     bnd (gets l_ready) (\<lambda>ready.
     if \<not> ready then ret []
     else bnd (gets (observations_to_extract E oid)) (\<lambda>obs. extract_candidates E obs []))"

definition advise :: "candidate \<Rightarrow> learning_state \<Rightarrow> review_decision" where
  "advise c s = default_review_logic c (l_threshold s)"

definition DECIDED_STATES :: "string list" where
  "DECIDED_STATES = [''approved'', ''rejected'', ''ingested'']"

text \<open>The candidate a decision is about, or the exception.\<close>

definition undecided_candidate :: "learning_env \<Rightarrow> string \<Rightarrow> int \<Rightarrow> candidate learning" where
  "undecided_candidate E verb i = (\<lambda>s.
     (if \<not> l_ready s then Inl (Exn RuntimeError ''Learning store not available'')
      else case store_get_candidate E i s of
        None \<Rightarrow> Inl (Exn RuntimeError (''Candidate '' @ str_of_int i @ '' not found''))
      | Some c \<Rightarrow> if ca_state c \<in> set DECIDED_STATES
          then Inl (Exn RuntimeError (''Cannot '' @ verb @ '' candidate in state '' @ [CHR 0x27] @ ca_state c @ [CHR 0x27]))
          else Inr c, s))"

definition approve :: "learning_env \<Rightarrow> int \<Rightarrow> string \<Rightarrow> string \<Rightarrow> int learning" where
  "approve E i reviewer reason =
     bnd (undecided_candidate E ''approve'' i) (\<lambda>c.
     bnd (gets (advise c)) (\<lambda>d.
     seq (update_candidate_state E i ''approved'' None)
    (bnd (insert_review E i ''rules-advisor'' (rd_recommendation d) (rd_justification d) reviewer
            ''approve'' (if reason = [] then rd_justification d else reason)) (\<lambda>rid.
     seq (learning_publish E ''learning.candidate.approved''
            [(''candidate_id'', PInt i), (''type'', PStr (ca_type c))])
         (ret rid)))))"

definition reject :: "learning_env \<Rightarrow> int \<Rightarrow> string \<Rightarrow> string \<Rightarrow> int learning" where
  "reject E i reason reviewer =
     (if reason = [] then raise (Exn RuntimeError ''Reason is required to reject a candidate'')
      else bnd (undecided_candidate E ''reject'' i) (\<lambda>c.
        bnd (gets (advise c)) (\<lambda>d.
        seq (update_candidate_state E i ''rejected'' None)
       (bnd (insert_review E i ''rules-advisor'' (rd_recommendation d) (rd_justification d) reviewer
               ''reject'' reason) (\<lambda>rid.
        seq (learning_publish E ''learning.candidate.rejected''
               [(''candidate_id'', PInt i), (''type'', PStr (ca_type c))])
            (ret rid))))))"

text \<open>A call of the memory engine, which may raise a database error; one without a store is
  silent.\<close>

definition memory_write :: "learning_env \<Rightarrow> (memory \<Rightarrow> memory) \<Rightarrow> unit learning" where
  "memory_write E f = (\<lambda>s. case l_memory s of
     None \<Rightarrow> (Inr (), s)
   | Some None \<Rightarrow> (Inr (), s)
   | Some (Some m) \<Rightarrow> (case le_fault E (m_tick m) of
       Some msg \<Rightarrow> (Inl (Exn OtherException msg), s\<lparr>l_memory := Some (Some (tick m))\<rparr>)
     | None \<Rightarrow> (Inr (), s\<lparr>l_memory := Some (f (Some m))\<rparr>)))"

definition write_to_memory :: "learning_env \<Rightarrow> int \<Rightarrow> candidate \<Rightarrow> string learning" where
  "write_to_memory E i c =
     (let content = ca_content c; kind = ca_type c;
          first_line = take 100 (strip (hd (split_char newline content)));
          prefix = ''learning:candidate:'' @ str_of_int i;
          short = take 50 first_line;
          decide = seq (memory_write E (remember_decision (le_memory E) first_line prefix content ''''))
            (ret (''decision:'' @ short));
          pattern = seq (memory_write E (remember_pattern (le_memory E) first_line content))
            (ret (''pattern:'' @ short)) in
      try_except
        (if kind = ''convention''
         then seq (memory_write E (remember_convention (le_memory E) content ''learning'' prefix))
            (ret (''convention:'' @ short))
         else if kind = ''decision'' then decide
         else if kind = ''pattern'' then pattern
         else if kind = ''mistake''
         then seq (memory_write E (remember_mistake (le_memory E) content ''learning'' (ca_risk c)))
            (ret (''mistake:'' @ short))
         else if kind = ''architecture_note'' \<or> kind = ''dependency-note'' then decide
         else pattern)
        (\<lambda>e. ret (''error:'' @ exn_message e)))"

definition ingest :: "learning_env \<Rightarrow> int \<Rightarrow> int learning" where
  "ingest E i =
     bnd (\<lambda>s. (if \<not> l_ready s then Inl (Exn RuntimeError ''Learning store not available'')
       else case store_get_candidate E i s of
         None \<Rightarrow> Inl (Exn RuntimeError (''Candidate '' @ str_of_int i @ '' not found''))
       | Some c \<Rightarrow> if ca_state c \<noteq> ''approved''
           then Inl (Exn RuntimeError (''Candidate '' @ str_of_int i @ '' must be approved (current: '' @ ca_state c @ '')''))
           else if l_memory s = None
           then Inl (Exn RuntimeError ''Memory engine not available; cannot ingest'')
           else Inr c, s)) (\<lambda>c.
     bnd (write_to_memory E i c) (\<lambda>mid.
     let version = ca_version c + 1 in
     seq (update_candidate_state E i ''ingested'' (Some (version, mid)))
    (bnd (insert_review E i ''engine'' ''ingest'' (''Ingested into memory as '' @ mid) ''engine''
            ''ingested'' (''version '' @ str_of_int version @ '' '' @ ARROW @ '' '' @ mid)) (\<lambda>_.
     seq (learning_publish E ''learning.ingested'' [(''candidate_id'', PInt i),
            (''memory_id'', PStr mid), (''type'', PStr (ca_type c))])
         (ret version)))))"

definition get_reviews :: "int \<Rightarrow> learning_state \<Rightarrow> (int \<times> review) list" where
  "get_reviews i s = (if l_ready s then store_get_reviews i s else [])"

definition get_candidates ::
  "learning_env \<Rightarrow> string option \<Rightarrow> nat \<Rightarrow> learning_state \<Rightarrow> (int \<times> candidate) list" where
  "get_candidates E st limit s = (if l_ready s then store_list_candidates E st limit s else [])"

definition get_candidate :: "learning_env \<Rightarrow> int \<Rightarrow> learning_state \<Rightarrow> candidate option" where
  "get_candidate E i s = (if l_ready s then store_get_candidate E i s else None)"

definition get_advisor_recommendation :: "learning_env \<Rightarrow> int \<Rightarrow> learning_state \<Rightarrow> pydict option" where
  "get_advisor_recommendation E i s = (case get_candidate E i s of
     None \<Rightarrow> None
   | Some c \<Rightarrow> let d = advise c s in
       Some [(''recommendation'', PStr (rd_recommendation d)),
         (''justification'', PStr (rd_justification d)), (''advisor'', PStr (rd_advisor d))])"

text \<open>The subscriptions and their handler.\<close>

definition LEARNING_SUBSCRIPTIONS :: "string list" where
  "LEARNING_SUBSCRIPTIONS =
     [''quality.gate_failed'', ''quality.gate_blocked'', ''research.completed'', ''agent.execution.failed'']"

definition learning_handler :: "learning_env \<Rightarrow> string \<Rightarrow> pydict \<Rightarrow> string \<Rightarrow> int list learning" where
  "learning_handler E topic payload correlation =
     observe E topic (dict_set ''correlation_id''
       (dict_get payload ''correlation_id'' (PStr correlation)) payload)"

definition on_learning_event :: "learning_env \<Rightarrow> string \<Rightarrow> pydict \<Rightarrow> string \<Rightarrow> int list learning" where
  "on_learning_event E topic payload correlation =
     (if topic \<in> set LEARNING_SUBSCRIPTIONS then learning_handler E topic payload correlation else ret [])"

end
