(* ===== verification/LearningProps.thy ===== *)
theory LearningProps
  imports Learning
begin

text \<open>
  The life of a learning candidate: an abstract machine of four states that the engine refines,
  the invariant that every decision has its review and that no two live candidates of a project
  share a hash, and what becomes of the events the other components publish.
\<close>

section \<open>The abstract machine\<close>

type_synonym gov_state = "int \<rightharpoonup> string"

inductive gov_step :: "gov_state \<Rightarrow> gov_state \<Rightarrow> bool" where
  propose: "m i = None \<Longrightarrow> gov_step m (m(i \<mapsto> ''scored''))"
| approved: "m i = Some ''scored'' \<Longrightarrow> gov_step m (m(i \<mapsto> ''approved''))"
| rejected: "m i = Some ''scored'' \<Longrightarrow> gov_step m (m(i \<mapsto> ''rejected''))"
| ingested: "m i = Some ''approved'' \<Longrightarrow> gov_step m (m(i \<mapsto> ''ingested''))"

inductive_cases gov_stepE: "gov_step m m'"

definition governance :: "learning_state \<Rightarrow> gov_state" where
  "governance s = (\<lambda>i. map_option ca_state (row_of (l_candidates s) i))"

section \<open>The invariant\<close>

definition audited :: "review table \<Rightarrow> int \<Rightarrow> string \<Rightarrow> bool" where
  "audited t i verdict = list_ex (\<lambda>(k, r). rv_candidate r = i \<and> rv_decision r = verdict) (table_rows t)"

definition governed :: "review table \<Rightarrow> int \<Rightarrow> candidate \<Rightarrow> bool" where
  "governed t i c \<longleftrightarrow>
     (ca_state c = ''scored'' \<and> ca_version c = 0)
   \<or> (ca_state c = ''approved'' \<and> ca_version c = 0 \<and> audited t i ''approve'')
   \<or> (ca_state c = ''rejected'' \<and> ca_version c = 0 \<and> audited t i ''reject'')
   \<or> (ca_state c = ''ingested'' \<and> ca_version c = 1 \<and> audited t i ''approve'' \<and> audited t i ''ingested'')"

definition live_keys :: "candidate table \<Rightarrow> (string \<times> string) list" where
  "live_keys t = map (\<lambda>(i, c). (ca_project c, ca_hash c))
     (select_rows (\<lambda>i c. ca_state c \<in> set LIVE_STATES) t)"

definition learning_inv :: "learning_state \<Rightarrow> bool" where
  "learning_inv s \<longleftrightarrow> table_inv (l_candidates s)
     \<and> list_all (\<lambda>(i, c). governed (l_reviews s) i c) (table_rows (l_candidates s))
     \<and> distinct (live_keys (l_candidates s))"

definition empty_learning :: learning_state where
  "empty_learning = \<lparr>l_ready = True, l_enabled = True, l_auto_capture = True, l_threshold = 1 / 2,
     l_min_evidence = 1, l_recurrence = 2, l_errors = [], l_observations = empty_table,
     l_candidates = empty_table, l_reviews = empty_table, l_materializations = empty_table,
     l_memory = Some (Some empty_memory), l_tick = 0, l_log = []\<rparr>"

lemma learning_inv_empty: "learning_inv empty_learning"
  by (simp add: learning_inv_def empty_learning_def live_keys_def select_rows_def empty_table_def
      table_inv_def table_ids_def)

lemma audited_insert: "audited t i v \<Longrightarrow> audited (snd (insert_row r t)) i v"
  by (simp add: audited_def insert_row_def)

lemma audited_new: "audited (snd (insert_row r t)) (rv_candidate r) (rv_decision r)"
  by (simp add: audited_def insert_row_def)

lemma governed_insert: "governed t i c \<Longrightarrow> governed (snd (insert_row r t)) i c"
  by (auto simp: governed_def audited_insert)

section \<open>Computations that evolve the machine\<close>

definition evolves :: "'a learning \<Rightarrow> bool" where
  "evolves m \<longleftrightarrow> (\<forall>s. learning_inv s \<longrightarrow>
     learning_inv (snd (m s)) \<and> gov_step\<^sup>*\<^sup>* (governance s) (governance (snd (m s))))"

lemma evolvesD:
  "evolves m \<Longrightarrow> learning_inv s \<Longrightarrow>
   learning_inv (snd (m s)) \<and> gov_step\<^sup>*\<^sup>* (governance s) (governance (snd (m s)))"
  by (simp add: evolves_def)

lemma evolves_bnd: "evolves m \<Longrightarrow> (\<And>x. evolves (f x)) \<Longrightarrow> evolves (bnd m f)"
  unfolding evolves_def
proof (intro allI impI)
  fix s assume m: "\<forall>s. learning_inv s \<longrightarrow> learning_inv (snd (m s)) \<and>
      gov_step\<^sup>*\<^sup>* (governance s) (governance (snd (m s)))"
    and f: "\<And>x. \<forall>s. learning_inv s \<longrightarrow> learning_inv (snd (f x s)) \<and>
      gov_step\<^sup>*\<^sup>* (governance s) (governance (snd (f x s)))"
    and s: "learning_inv s"
  obtain r t where r: "m s = (r, t)" by (cases "m s")
  then have t: "learning_inv t" "gov_step\<^sup>*\<^sup>* (governance s) (governance t)" using m s by force+
  show "learning_inv (snd (bnd m f s)) \<and> gov_step\<^sup>*\<^sup>* (governance s) (governance (snd (bnd m f s)))"
  proof (cases r)
    case (Inl e)
    then show ?thesis using r t by (simp add: bnd_run)
  next
    case (Inr x)
    then show ?thesis using r t f [of x] by (auto simp: bnd_run intro: rtranclp_trans)
  qed
qed

lemma evolves_seq: "evolves m \<Longrightarrow> evolves n \<Longrightarrow> evolves (seq m n)"
  unfolding seq_def by (rule evolves_bnd)

lemma evolves_frame:
  "(\<And>s. l_candidates (snd (m s)) = l_candidates s \<and> l_reviews (snd (m s)) = l_reviews s) \<Longrightarrow> evolves m"
  by (simp add: evolves_def learning_inv_def governance_def)

lemma evolves_ret: "evolves (ret x)"
  by (rule evolves_frame) (simp add: ret_run)

lemma evolves_of_sum: "evolves (of_sum r)"
  by (rule evolves_frame) (simp add: of_sum_run)

lemma evolves_gets: "evolves (gets f)"
  by (rule evolves_frame) (simp add: gets_run)

lemma evolves_raise: "evolves (raise e)"
  by (rule evolves_frame) (simp add: raise_run)

lemma evolves_if: "evolves m \<Longrightarrow> evolves n \<Longrightarrow> evolves (if b then m else n)"
  by simp

lemma evolves_now: "evolves (learning_now E)"
  by (rule evolves_frame) (simp add: learning_now_def)

lemma evolves_publish: "evolves (learning_publish E t p)"
  by (rule evolves_frame) (simp add: learning_publish_def py_run)

lemma evolves_insert_observation: "evolves (insert_observation E od)"
  unfolding insert_observation_def
  by (intro evolves_bnd evolves_now evolves_of_sum evolves_frame) (simp add: Let_def case_prod_unfold)

lemma evolves_find_observation: "evolves (find_observation_by_source E a b)"
  unfolding find_observation_by_source_def
  by (intro evolves_bnd evolves_of_sum evolves_if evolves_ret evolves_gets)

lemmas evolves_intros = evolves_ret evolves_of_sum evolves_gets evolves_raise evolves_if evolves_now
  evolves_publish evolves_insert_observation evolves_find_observation

lemma evolves_record: "evolves (record_observations E ods ids)"
proof (induction ods arbitrary: ids)
  case (Cons od ods)
  then show ?case
    unfolding record_observations.simps by (intro evolves_bnd evolves_seq evolves_intros)
qed (simp add: evolves_ret)

lemma evolves_failures: "evolves (extract_agent_failures E p)"
  unfolding extract_agent_failures_def Let_def
  by (intro evolves_bnd evolves_seq evolves_of_sum evolves_gets evolves_frame) (simp add: modify_run)

lemma evolves_observe: "evolves (observe E t p)"
  unfolding observe_def Let_def
  by (intro evolves_bnd evolves_intros evolves_failures evolves_record)

lemma evolves_configure: "evolves (configure a b c d e)"
  by (rule evolves_frame) (simp add: configure_def modify_run)
section \<open>Proposing\<close>

lemma evolves_gets_bnd: "(\<And>s. evolves (f (g s))) \<Longrightarrow> evolves (bnd (gets g) f)"
  by (simp add: evolves_def bnd_run gets_run)

lemma sort_desc_empty: "sort_desc k xs = [] \<longleftrightarrow> xs = []"
  using set_sort_desc [of k xs] by (metis set_empty)

lemma select_rows_empty:
  "select_rows P t = [] \<longleftrightarrow> (\<forall>i c. (i, c) \<in> set (table_rows t) \<longrightarrow> \<not> P i c)"
  by (auto simp: select_rows_def filter_empty_conv)

lemma live_keys_mem:
  "(p, h) \<in> set (live_keys t) \<longleftrightarrow> (\<exists>i c. (i, c) \<in> set (table_rows t) \<and> ca_state c \<in> set LIVE_STATES
     \<and> ca_project c = p \<and> ca_hash c = h)"
  by (force simp: live_keys_def select_rows_def)

lemma find_candidate_None:
  "find_candidate_by_hash E h s = None \<longleftrightarrow> (le_project E, h) \<notin> set (live_keys (l_candidates s))"
proof -
  have "find_candidate_by_hash E h s = None \<longleftrightarrow>
      select_rows (\<lambda>i c. ca_hash c = h \<and> ca_project c = le_project E \<and> ca_state c \<in> set LIVE_STATES)
        (l_candidates s) = []"
    by (simp add: find_candidate_by_hash_def sort_desc_empty split: list.split)
       (metis sort_desc_empty list.distinct(1))
  then show ?thesis
    unfolding select_rows_empty live_keys_mem by blast
qed

lemma insert_candidate_step:
  assumes "learning_inv s" and "find_candidate_by_hash E (ca_hash c) s = None"
    and "ca_state c = ''scored''" and "ca_version c = 0"
  shows "\<exists>i t. insert_candidate E c s = (Inr i, t) \<and> learning_inv t
    \<and> gov_step (governance s) (governance t)"
proof -
  let ?now = "le_clock E (l_tick s)"
  let ?c = "c\<lparr>ca_state := (if ca_state c = [] then ''draft'' else ca_state c),
    ca_project := le_project E, ca_created := ?now, ca_updated := ?now\<rparr>"
  let ?T = "l_candidates s"
  define i where "i = fst (insert_row ?c ?T)"
  define U where "U = snd (insert_row ?c ?T)"
  define t where "t = s\<lparr>l_tick := l_tick s + 1, l_candidates := U\<rparr>"
  have inv: "table_inv ?T" using assms(1) by (simp add: learning_inv_def)
  have run: "insert_candidate E c s = (Inr i, t)"
    by (simp add: insert_candidate_def bnd_run learning_now_def case_prod_unfold Let_def i_def U_def t_def)
  have rows: "row_of U j = (if j = i then Some ?c else row_of ?T j)" for j
    unfolding U_def i_def by (rule row_of_insert [OF inv])
  have new: "row_of ?T i = None"
    using inv by (auto simp: row_of_None_iff table_inv_def i_def insert_row_def)
  have "governance t = (governance s)(i \<mapsto> ''scored'')"
    using assms(3) by (auto simp: governance_def t_def rows fun_eq_iff)
  moreover have "governance s i = None" by (simp add: governance_def new)
  ultimately have step: "gov_step (governance s) (governance t)" by (metis propose)
  have keys: "live_keys U = live_keys ?T @ [(le_project E, ca_hash c)]"
    using assms(3) by (simp add: live_keys_def U_def select_insert LIVE_STATES_def)
  have "learning_inv t"
    using assms inv table_inv_insert [OF inv, of ?c]
    by (auto simp: learning_inv_def t_def keys find_candidate_None U_def [symmetric])
       (auto simp: U_def insert_row_def governed_def)
  with run step show ?thesis by blast
qed

lemma evolves_propose:
  assumes "evolves A" and "\<And>i. evolves (B i)" and "ca_state c = ''scored''" and "ca_version c = 0"
  shows "evolves (bnd (gets (find_candidate_by_hash E (ca_hash c)))
    (\<lambda>existing. if existing \<noteq> None then A else bnd (insert_candidate E c) B))"
  unfolding evolves_def
proof (intro allI impI)
  fix s assume s: "learning_inv s"
  let ?m = "bnd (gets (find_candidate_by_hash E (ca_hash c)))
    (\<lambda>existing. if existing \<noteq> None then A else bnd (insert_candidate E c) B)"
  show "learning_inv (snd (?m s)) \<and> gov_step\<^sup>*\<^sup>* (governance s) (governance (snd (?m s)))"
  proof (cases "find_candidate_by_hash E (ca_hash c) s")
    case None
    from insert_candidate_step [OF s None assms(3,4)] obtain i t where
      t: "insert_candidate E c s = (Inr i, t)" "learning_inv t" "gov_step (governance s) (governance t)"
      by blast
    from evolvesD [OF assms(2) t(2), of i] t None show ?thesis
      by (auto simp: bnd_run gets_run intro: converse_rtranclp_into_rtranclp)
  next
    case (Some x)
    with evolvesD [OF assms(1) s] show ?thesis by (simp add: bnd_run gets_run)
  qed
qed

lemma created_scored:
  "create_candidate_from_observation ob th m = Some c \<Longrightarrow> ca_state c = ''scored'' \<and> ca_version c = 0"
  by (auto simp: create_candidate_from_observation_def split: prod.splits if_splits)

lemma evolves_extract_candidates: "evolves (extract_candidates E obs ids)"
proof (induction obs arbitrary: ids)
  case (Cons ob obs)
  show ?case
    unfolding extract_candidates.simps
  proof (rule evolves_gets_bnd)
    fix s :: learning_state
    show "evolves (case create_candidate_from_observation ob (l_threshold s) (l_min_evidence s) of
       None \<Rightarrow> extract_candidates E obs ids
     | Some cand \<Rightarrow>
         bnd (gets (find_candidate_by_hash E (ca_hash cand))) (\<lambda>existing.
         if existing \<noteq> None then extract_candidates E obs ids
         else bnd (insert_candidate E cand) (\<lambda>i.
           seq (learning_publish E ''learning.candidate.created''
                  [(''candidate_id'', PInt i), (''type'', PStr (ca_type cand))])
               (extract_candidates E obs (if i > 0 then ids @ [i] else ids)))))"
    proof (cases "create_candidate_from_observation ob (l_threshold s) (l_min_evidence s)")
      case None
      show ?thesis unfolding None option.case by (rule Cons.IH)
    next
      case (Some cand)
      show ?thesis
        unfolding Some option.case
        by (rule evolves_propose) (use created_scored [OF Some] in
          \<open>auto intro: Cons.IH evolves_seq evolves_publish\<close>)
    qed
  qed
qed (simp add: evolves_ret)

lemma evolves_learning_extract: "evolves (learning_extract E oid)"
  unfolding learning_extract_def
  by (intro evolves_bnd evolves_intros evolves_extract_candidates)

section \<open>Deciding\<close>

lemma distinct_live_update:
  assumes "distinct (map k (filter L xs))" and "\<And>x. x \<in> set xs \<Longrightarrow> k (g x) = k x"
    and "\<And>x. x \<in> set xs \<Longrightarrow> L (g x) \<Longrightarrow> L x"
  shows "distinct (map k (filter L (map g xs)))"
  using assms
proof (induction xs)
  case (Cons x xs)
  have sub: "set (map k (filter L (map g ys))) \<subseteq> set (map k (filter L ys))"
    if "\<And>y. y \<in> set ys \<Longrightarrow> k (g y) = k y \<and> (L (g y) \<longrightarrow> L y)" for ys
    using that by fastforce
  have "distinct (map k (filter L (map g xs)))"
    using Cons by (auto split: if_splits)
  moreover have "k x \<notin> set (map k (filter L (map g xs)))" if "L x"
    using sub [of xs] Cons.prems that by auto
  ultimately show ?case using Cons.prems(2,3) [of x] by auto
qed simp

lemma distinct_live_row:
  assumes "distinct (live_keys t)" and "\<And>c. ca_project (f c) = ca_project c \<and> ca_hash (f c) = ca_hash c"
    and "\<And>c. row_of t i = Some c \<Longrightarrow> ca_state c \<in> set LIVE_STATES" and "table_inv t"
  shows "distinct (live_keys (update_row i f t))"
proof -
  have row: "row_of t i = Some c" if "(i, c) \<in> set (table_rows t)" for c
    using that row_of_mem [OF assms(4), of i c] by simp
  show ?thesis
    using assms(1) unfolding live_keys_def select_rows_def update_row_def
    by (simp, intro distinct_live_update)
       (use assms(2,3) row in \<open>auto simp: case_prod_unfold split: if_splits\<close>)
qed

lemma store_get_candidate_Some:
  assumes "store_get_candidate E i s = Some c"
  obtains c0 where "row_of (l_candidates s) i = Some c0" "ca_project c0 = le_project E"
    "ca_state c = ca_state c0" "ca_version c = ca_version c0"
  using assms that by (auto simp: store_get_candidate_def row_to_candidate_def split: option.splits if_splits)

text \<open>One decision: the candidate changes its state and a review of it is added.\<close>

definition decided_state ::
  "learning_env \<Rightarrow> int \<Rightarrow> string \<Rightarrow> (int \<times> string) option \<Rightarrow> string \<Rightarrow> candidate \<Rightarrow> candidate" where
  "decided_state E i st v now c =
     (if ca_project c \<noteq> le_project E then c
      else let c' = c\<lparr>ca_state := st, ca_updated := now\<rparr> in
        (case v of None \<Rightarrow> c' | Some (n, m) \<Rightarrow> c'\<lparr>ca_version := n, ca_memory := m\<rparr>))"

lemma update_candidate_run:
  "update_candidate_state E i st v s = (Inr (), s\<lparr>l_tick := l_tick s + 1,
     l_candidates := update_row i (decided_state E i st v (le_clock E (l_tick s))) (l_candidates s)\<rparr>)"
  by (simp add: update_candidate_state_def bnd_run learning_now_def modify_run decided_state_def [abs_def])

lemma insert_review_run:
  "\<exists>k. insert_review E i a b c d e f s = (Inr k, s\<lparr>l_tick := l_tick s + 1,
     l_reviews := snd (insert_row \<lparr>rv_candidate = i, rv_advisor = a, rv_recommendation = b,
       rv_justification = c, rv_reviewer = d, rv_decision = e, rv_reason = f,
       rv_created = le_clock E (l_tick s)\<rparr> (l_reviews s))\<rparr>)"
  by (simp add: insert_review_def bnd_run learning_now_def case_prod_unfold Let_def)

definition decides ::
  "learning_env \<Rightarrow> int \<Rightarrow> string \<Rightarrow> (int \<times> string) option \<Rightarrow> string \<Rightarrow> learning_state \<Rightarrow> learning_state \<Rightarrow> bool"
where
  "decides E i st v verdict s t \<longleftrightarrow> (\<exists>now r.
     l_candidates t = update_row i (decided_state E i st v now) (l_candidates s) \<and>
     l_reviews t = snd (insert_row r (l_reviews s)) \<and> rv_candidate r = i \<and> rv_decision r = verdict)"

lemma decides_inv:
  assumes "learning_inv s" and "decides E i st v verdict s t"
    and "row_of (l_candidates s) i = Some c" and "ca_project c = le_project E"
    and "ca_state c \<in> set LIVE_STATES"
    and "\<And>now r. rv_candidate r = i \<Longrightarrow> rv_decision r = verdict \<Longrightarrow> governed (l_reviews s) i c \<Longrightarrow>
      governed (snd (insert_row r (l_reviews s))) i (decided_state E i st v now c)"
  shows "learning_inv t \<and> governance t = (governance s)(i \<mapsto> st)"
proof -
  obtain now r where
    t: "l_candidates t = update_row i (decided_state E i st v now) (l_candidates s)"
      "l_reviews t = snd (insert_row r (l_reviews s))" "rv_candidate r = i" "rv_decision r = verdict"
    using assms(2) unfolding decides_def by blast
  let ?f = "decided_state E i st v now" and ?T = "l_candidates s"
  have inv: "table_inv ?T" "distinct (live_keys ?T)"
    "\<And>j d. (j, d) \<in> set (table_rows ?T) \<Longrightarrow> governed (l_reviews s) j d"
    using assms(1) by (auto simp: learning_inv_def list_all_iff)
  have state: "ca_state (?f c) = st"
    using assms(4) by (auto simp: decided_state_def Let_def split: option.split)
  have key: "ca_project (?f d) = ca_project d \<and> ca_hash (?f d) = ca_hash d" for d
    by (auto simp: decided_state_def Let_def split: option.split)
  have "governance t = (governance s)(i \<mapsto> st)"
    using assms(3) state by (auto simp: governance_def t row_of_update fun_eq_iff)
  moreover have "distinct (live_keys (l_candidates t))"
    unfolding t(1) by (rule distinct_live_row [OF inv(2) key _ inv(1)]) (use assms(3,5) in simp)
  moreover have "governed (l_reviews t) j d" if jd: "(j, d) \<in> set (table_rows (l_candidates t))" for j d
  proof (cases "j = i")
    case True
    then obtain d0 where "(i, d0) \<in> set (table_rows ?T)" "d = ?f d0"
      using jd by (force simp: t(1) update_row_def)
    moreover from this(1) have "d0 = c" using row_of_mem [OF inv(1), of i d0] assms(3) by simp
    ultimately show ?thesis using assms(6) [OF t(3,4)] inv(3) True t(2) by auto
  next
    case False
    then have "(j, d) \<in> set (table_rows ?T)" using jd by (auto simp: t(1) update_row_def split: if_splits)
    then show ?thesis using inv(3) by (simp add: t(2) governed_insert)
  qed
  ultimately show ?thesis using inv(1) by (auto simp: learning_inv_def list_all_iff t(1))
qed

lemma learning_inv_states:
  assumes "learning_inv s" and "row_of (l_candidates s) i = Some c"
  shows "governed (l_reviews s) i c"
  using assms row_of_mem [of "l_candidates s" i c] by (auto simp: learning_inv_def list_all_iff)

lemma governed_states: "governed t i c \<Longrightarrow> ca_state c \<in> set [''scored'', ''approved'', ''rejected'', ''ingested'']"
  by (auto simp: governed_def)

lemma undecided_scored:
  assumes "learning_inv s" and "undecided_candidate E verb i s = (Inr c, t)"
  shows "t = s \<and> (\<exists>c0. row_of (l_candidates s) i = Some c0 \<and> ca_project c0 = le_project E \<and>
    ca_state c0 = ''scored'')"
proof -
  have "store_get_candidate E i s = Some c" "ca_state c \<notin> set DECIDED_STATES" "t = s"
    using assms(2) by (auto simp: undecided_candidate_def split: if_splits option.splits)
  moreover from store_get_candidate_Some [OF this(1)] obtain c0 where
    "row_of (l_candidates s) i = Some c0" "ca_project c0 = le_project E" "ca_state c = ca_state c0" by metis
  ultimately show ?thesis
    using governed_states [OF learning_inv_states [OF assms(1), of i c0]] by (auto simp: DECIDED_STATES_def)
qed

lemma undecided_answers:
  assumes "l_ready s" and "store_get_candidate E i s = Some c" and "ca_state c = ''scored''"
  shows "undecided_candidate E verb i s = (Inr c, s)"
  using assms by (simp add: undecided_candidate_def DECIDED_STATES_def)

text \<open>\<open>approve\<close> and \<open>reject\<close> are one call with different words.\<close>

definition decision_call :: "learning_env \<Rightarrow> int \<Rightarrow> string \<Rightarrow> string \<Rightarrow> string \<Rightarrow> string \<Rightarrow>
  (review_decision \<Rightarrow> string) \<Rightarrow> int learning" where
  "decision_call E i verdict st topic reviewer reason =
     bnd (undecided_candidate E verdict i) (\<lambda>c. bnd (gets (advise c)) (\<lambda>d.
     seq (update_candidate_state E i st None)
    (bnd (insert_review E i ''rules-advisor'' (rd_recommendation d) (rd_justification d) reviewer
            verdict (reason d)) (\<lambda>rid.
     seq (learning_publish E topic [(''candidate_id'', PInt i), (''type'', PStr (ca_type c))])
         (ret rid)))))"

lemma approve_call: "approve E i reviewer reason =
    decision_call E i ''approve'' ''approved'' ''learning.candidate.approved'' reviewer
      (\<lambda>d. if reason = [] then rd_justification d else reason)"
  by (simp add: approve_def decision_call_def)

lemma reject_call: "reject E i reason reviewer =
    (if reason = [] then raise (Exn RuntimeError ''Reason is required to reject a candidate'')
     else decision_call E i ''reject'' ''rejected'' ''learning.candidate.rejected'' reviewer (\<lambda>_. reason))"
  by (simp add: reject_def decision_call_def)

lemma publish_run: "\<exists>t. learning_publish E topic p s = (Inr (), t) \<and> l_candidates t = l_candidates s
    \<and> l_reviews t = l_reviews s \<and> l_memory t = l_memory s"
  by (simp add: learning_publish_def py_run)

lemma decision_run:
  assumes "undecided_candidate E verdict i s = (Inr c, s)"
  shows "\<exists>k t. decision_call E i verdict st topic reviewer reason s = (Inr k, t)
    \<and> decides E i st None verdict s t"
proof -
  define s1 where "s1 = snd (update_candidate_state E i st None s)"
  have s1: "update_candidate_state E i st None s = (Inr (), s1)"
      "l_candidates s1 = update_row i (decided_state E i st None (le_clock E (l_tick s))) (l_candidates s)"
      "l_reviews s1 = l_reviews s"
    by (simp_all add: s1_def update_candidate_run)
  obtain k s2 where s2: "insert_review E i ''rules-advisor'' (rd_recommendation (advise c s))
      (rd_justification (advise c s)) reviewer verdict (reason (advise c s)) s1 = (Inr k, s2)"
    "l_candidates s2 = l_candidates s1" "\<exists>r. l_reviews s2 = snd (insert_row r (l_reviews s1)) \<and>
       rv_candidate r = i \<and> rv_decision r = verdict"
    using insert_review_run [of E i "''rules-advisor''" "rd_recommendation (advise c s)"
        "rd_justification (advise c s)" reviewer verdict "reason (advise c s)" s1] by fastforce
  obtain s3 where s3: "learning_publish E topic [(''candidate_id'', PInt i), (''type'', PStr (ca_type c))] s2
      = (Inr (), s3)" "l_candidates s3 = l_candidates s2" "l_reviews s3 = l_reviews s2"
    using publish_run by metis
  have "decision_call E i verdict st topic reviewer reason s = (Inr k, s3)"
    by (simp add: decision_call_def bnd_run seq_run gets_run ret_run assms s1(1) s2(1) s3(1))
  moreover have "decides E i st None verdict s s3"
    using s1(2,3) s2(2,3) s3(2,3) unfolding decides_def by metis
  ultimately show ?thesis by blast
qed

lemma decision_fails:
  assumes "undecided_candidate E verdict i s = (Inl e, t)"
  shows "decision_call E i verdict st topic reviewer reason s = (Inl e, s)"
  using assms by (auto simp: decision_call_def bnd_run undecided_candidate_def)

lemma undecided_state: "snd (undecided_candidate E verb i s) = s"
  by (simp add: undecided_candidate_def)

lemma decision_step:
  assumes "learning_inv s" and "undecided_candidate E verdict i s = (Inr c, s)"
    and "(verdict, st) \<in> {(''approve'', ''approved''), (''reject'', ''rejected'')}"
  shows "\<exists>k t. decision_call E i verdict st topic reviewer reason s = (Inr k, t) \<and> learning_inv t
    \<and> governance s i = Some ''scored'' \<and> governance t = (governance s)(i \<mapsto> st)"
proof -
  from undecided_scored [OF assms(1,2)] obtain c0 where
    c0: "row_of (l_candidates s) i = Some c0" "ca_project c0 = le_project E" "ca_state c0 = ''scored''" by blast
  obtain k t where t: "decision_call E i verdict st topic reviewer reason s = (Inr k, t)"
    "decides E i st None verdict s t" using decision_run [OF assms(2)] by blast
  have "learning_inv t \<and> governance t = (governance s)(i \<mapsto> st)"
  proof (rule decides_inv [OF assms(1) t(2) c0(1,2)])
    show "ca_state c0 \<in> set LIVE_STATES" by (simp add: c0(3) LIVE_STATES_def)
    fix now and r :: review assume r: "rv_candidate r = i" "rv_decision r = verdict"
    assume "governed (l_reviews s) i c0"
    then have "ca_version c0 = 0" using c0(3) by (auto simp: governed_def)
    moreover have "audited (snd (insert_row r (l_reviews s))) i verdict"
      using audited_new [of r "l_reviews s"] r by simp
    ultimately show "governed (snd (insert_row r (l_reviews s))) i (decided_state E i st None now c0)"
      using assms(3) c0(2) by (auto simp: governed_def decided_state_def Let_def)
  qed
  moreover have "governance s i = Some ''scored''" by (simp add: governance_def c0)
  ultimately show ?thesis using t(1) by blast
qed

lemma evolves_decision:
  assumes "(verdict, st) \<in> {(''approve'', ''approved''), (''reject'', ''rejected'')}"
  shows "evolves (decision_call E i verdict st topic reviewer reason)"
  unfolding evolves_def
proof (intro allI impI)
  fix s assume s: "learning_inv s"
  let ?m = "decision_call E i verdict st topic reviewer reason"
  show "learning_inv (snd (?m s)) \<and> gov_step\<^sup>*\<^sup>* (governance s) (governance (snd (?m s)))"
  proof (cases "fst (undecided_candidate E verdict i s)")
    case (Inl e)
    then have "?m s = (Inl e, s)" using decision_fails undecided_state by (metis prod.collapse)
    with s show ?thesis by simp
  next
    case (Inr c)
    then have "undecided_candidate E verdict i s = (Inr c, s)" using undecided_state by (metis prod.collapse)
    from decision_step [OF s this assms] obtain k t where
      t: "?m s = (Inr k, t)" "learning_inv t" "governance s i = Some ''scored''"
      "governance t = (governance s)(i \<mapsto> st)" by blast
    have "gov_step (governance s) (governance t)"
      unfolding t(4) using assms t(3) by (auto intro: gov_step.approved gov_step.rejected)
    with t show ?thesis by auto
  qed
qed

lemma evolves_approve: "evolves (approve E i reviewer reason)"
  unfolding approve_call by (rule evolves_decision) simp

lemma evolves_reject: "evolves (reject E i reason reviewer)"
  unfolding reject_call by (intro evolves_if evolves_raise evolves_decision) simp

section \<open>Ingesting\<close>

lemma memory_write_frame:
  "l_candidates (snd (memory_write E f s)) = l_candidates s" "l_reviews (snd (memory_write E f s)) = l_reviews s"
  "l_tick (snd (memory_write E f s)) = l_tick s" "l_ready (snd (memory_write E f s)) = l_ready s"
  by (auto simp: memory_write_def split: option.split)

lemma write_to_memory_answers:
  "\<exists>mid t. write_to_memory E i c s = (Inr mid, t) \<and> l_candidates t = l_candidates s
     \<and> l_reviews t = l_reviews s"
proof -
  have w: "\<exists>mid t. try_except (seq (memory_write E f) (ret x)) (\<lambda>e. ret (''error:'' @ exn_message e)) s
      = (Inr mid, t) \<and> l_candidates t = l_candidates s \<and> l_reviews t = l_reviews s" for f x
  proof (cases "memory_write E f s")
    case (Pair r t)
    then show ?thesis using memory_write_frame [of E f s]
      by (cases r) (auto simp: try_except_run seq_run ret_run)
  qed
  let ?Q = "\<lambda>m. \<exists>mid t. try_except m (\<lambda>e. ret (''error:'' @ exn_message e)) s = (Inr mid, t)
      \<and> l_candidates t = l_candidates s \<and> l_reviews t = l_reviews s"
  have choose: "?Q m \<Longrightarrow> ?Q n \<Longrightarrow> ?Q (if b then m else n)" for b m n by (cases b) simp_all
  show ?thesis
    unfolding write_to_memory_def Let_def
    by (rule choose [OF w choose [OF w choose [OF w choose [OF w choose [OF w w]]]]])
qed

definition approved_candidate :: "learning_env \<Rightarrow> int \<Rightarrow> learning_state \<Rightarrow> candidate \<Rightarrow> bool" where
  "approved_candidate E i s c \<longleftrightarrow> l_ready s \<and> l_memory s \<noteq> None \<and> store_get_candidate E i s = Some c \<and>
     ca_state c = ''approved''"

lemma ingest_refuses:
  assumes "\<not> (\<exists>c. approved_candidate E i s c)"
  shows "\<exists>e. ingest E i s = (Inl e, s)"
  using assms by (auto simp: ingest_def bnd_run approved_candidate_def split: option.split if_splits)

lemma ingest_run:
  assumes "approved_candidate E i s c"
  shows "\<exists>mid s1 t. write_to_memory E i c s = (Inr mid, s1) \<and> ingest E i s = (Inr (ca_version c + 1), t)
    \<and> decides E i ''ingested'' (Some (ca_version c + 1, mid)) ''ingested'' s t \<and> l_memory t = l_memory s1"
proof -
  obtain mid s1 where s1: "write_to_memory E i c s = (Inr mid, s1)" "l_candidates s1 = l_candidates s"
    "l_reviews s1 = l_reviews s" using write_to_memory_answers by blast
  let ?v = "ca_version c + 1"
  define s2 where "s2 = snd (update_candidate_state E i ''ingested'' (Some (?v, mid)) s1)"
  have s2: "update_candidate_state E i ''ingested'' (Some (?v, mid)) s1 = (Inr (), s2)"
      "l_candidates s2 = update_row i (decided_state E i ''ingested'' (Some (?v, mid)) (le_clock E (l_tick s1)))
         (l_candidates s)" "l_reviews s2 = l_reviews s" "l_memory s2 = l_memory s1"
    using s1 by (simp_all add: s2_def update_candidate_run)
  let ?why = "''version '' @ str_of_int ?v @ '' '' @ ARROW @ '' '' @ mid"
  obtain k s3 where s3: "insert_review E i ''engine'' ''ingest'' (''Ingested into memory as '' @ mid) ''engine''
      ''ingested'' ?why s2 = (Inr k, s3)" "l_candidates s3 = l_candidates s2" "l_memory s3 = l_memory s2"
    "\<exists>r. l_reviews s3 = snd (insert_row r (l_reviews s2)) \<and> rv_candidate r = i \<and> rv_decision r = ''ingested''"
    using insert_review_run [of E i "''engine''" "''ingest''" "''Ingested into memory as '' @ mid"
        "''engine''" "''ingested''" ?why s2] by fastforce
  obtain t where t: "learning_publish E ''learning.ingested'' [(''candidate_id'', PInt i),
      (''memory_id'', PStr mid), (''type'', PStr (ca_type c))] s3 = (Inr (), t)"
    "l_candidates t = l_candidates s3" "l_reviews t = l_reviews s3" "l_memory t = l_memory s3"
    using publish_run by metis
  have "ingest E i s = (Inr ?v, t)"
    using assms s1(1) s2(1) s3(1) t(1)
    by (simp add: ingest_def bnd_run seq_run ret_run approved_candidate_def Let_def)
  moreover have "decides E i ''ingested'' (Some (?v, mid)) ''ingested'' s t"
    using s2(2,3) s3(2,4) t(2,3) unfolding decides_def by metis
  ultimately show ?thesis using s1(1) s2(4) s3(3) t(4) by auto
qed

lemma ingest_step:
  assumes "learning_inv s" and "approved_candidate E i s c"
  shows "\<exists>t. ingest E i s = (Inr 1, t) \<and> learning_inv t \<and> governance s i = Some ''approved''
    \<and> governance t = (governance s)(i \<mapsto> ''ingested'')"
proof -
  from assms(2) have "store_get_candidate E i s = Some c" "ca_state c = ''approved''"
    by (simp_all add: approved_candidate_def)
  then obtain c0 where c0: "row_of (l_candidates s) i = Some c0" "ca_project c0 = le_project E"
    "ca_state c0 = ''approved''" "ca_version c = ca_version c0"
    by (metis store_get_candidate_Some)
  have g: "governed (l_reviews s) i c0" by (rule learning_inv_states [OF assms(1) c0(1)])
  then have v: "ca_version c = 0" "audited (l_reviews s) i ''approve''"
    using c0(3,4) by (auto simp: governed_def)
  obtain mid t where t: "ingest E i s = (Inr (ca_version c + 1), t)"
    "decides E i ''ingested'' (Some (ca_version c + 1, mid)) ''ingested'' s t"
    using ingest_run [OF assms(2)] by blast
  have "learning_inv t \<and> governance t = (governance s)(i \<mapsto> ''ingested'')"
  proof (rule decides_inv [OF assms(1) t(2) c0(1,2)])
    show "ca_state c0 \<in> set LIVE_STATES" by (simp add: c0(3) LIVE_STATES_def)
    fix now and r :: review assume r: "rv_candidate r = i" "rv_decision r = ''ingested''"
    have "audited (snd (insert_row r (l_reviews s))) i ''ingested''"
      using audited_new [of r "l_reviews s"] r by simp
    then show "governed (snd (insert_row r (l_reviews s))) i
        (decided_state E i ''ingested'' (Some (ca_version c + 1, mid)) now c0)"
      using v c0(2) audited_insert [OF v(2)] by (auto simp: governed_def decided_state_def Let_def)
  qed
  moreover have "governance s i = Some ''approved''" by (simp add: governance_def c0)
  ultimately show ?thesis using t(1) v(1) by auto
qed

lemma evolves_ingest: "evolves (ingest E i)"
  unfolding evolves_def
proof (intro allI impI)
  fix s assume s: "learning_inv s"
  show "learning_inv (snd (ingest E i s)) \<and> gov_step\<^sup>*\<^sup>* (governance s) (governance (snd (ingest E i s)))"
  proof (cases "\<exists>c. approved_candidate E i s c")
    case True
    then obtain c t where "approved_candidate E i s c" "ingest E i s = (Inr 1, t)" "learning_inv t"
      "governance s i = Some ''approved''" "governance t = (governance s)(i \<mapsto> ''ingested'')"
      using ingest_step [OF s] by blast
    then show ?thesis using gov_step.ingested [of "governance s" i] by auto
  next
    case False
    with ingest_refuses [OF False] s show ?thesis by auto
  qed
qed

section \<open>Properties\<close>

datatype learning_op =
    Observe string pydict string | Extract "int option" | Approve int string string
  | Reject int string string | Ingest int
  | Configure "rat option" "int option" "int option" "bool option" "bool option"

fun learning_call :: "learning_env \<Rightarrow> learning_op \<Rightarrow> learning_state \<Rightarrow> learning_state" where
  "learning_call E (Observe topic payload corr) = (\<lambda>s. snd (on_learning_event E topic payload corr s))"
| "learning_call E (Extract oid) = (\<lambda>s. snd (learning_extract E oid s))"
| "learning_call E (Approve i reviewer reason) = (\<lambda>s. snd (approve E i reviewer reason s))"
| "learning_call E (Reject i reason reviewer) = (\<lambda>s. snd (reject E i reason reviewer s))"
| "learning_call E (Ingest i) = (\<lambda>s. snd (ingest E i s))"
| "learning_call E (Configure a b c d e) = (\<lambda>s. snd (configure a b c d e s))"

lemma learning_call_evolves:
  assumes "learning_inv s"
  shows "learning_inv (learning_call E c s) \<and> gov_step\<^sup>*\<^sup>* (governance s) (governance (learning_call E c s))"
  using assms evolvesD [OF evolves_observe] evolvesD [OF evolves_learning_extract]
    evolvesD [OF evolves_approve] evolvesD [OF evolves_reject] evolvesD [OF evolves_ingest]
    evolvesD [OF evolves_configure]
  by (cases c) (simp_all add: on_learning_event_def learning_handler_def ret_run)

lemma learning_calls_evolve:
  "learning_inv s \<Longrightarrow> let t = fold (\<lambda>(E, c). learning_call E c) calls s in
     learning_inv t \<and> gov_step\<^sup>*\<^sup>* (governance s) (governance t)"
proof (induction calls arbitrary: s)
  case (Cons p calls)
  obtain E c where p: "p = (E, c)" by (cases p)
  from learning_call_evolves [OF Cons.prems] Cons.IH show ?case
    unfolding p Let_def by (simp, meson rtranclp_trans)
qed simp


text \<open>Decisions are exact. Approving succeeds precisely for a scored candidate of the project,
  ingesting precisely for an approved one, and each changes the state of that candidate and of no
  other; in every other case the call raises and nothing at all has changed.\<close>

theorem decisions_exact:
  assumes "learning_inv s" and "l_ready s" and "l_memory s \<noteq> None"
  shows "(case map_option ca_state (get_candidate E i s) of
      Some st \<Rightarrow>
        (if st = ''scored''
         then \<exists>k t. approve E i reviewer reason s = (Inr k, t) \<and> governance t = (governance s)(i \<mapsto> ''approved'')
         else \<exists>e. approve E i reviewer reason s = (Inl e, s))
        \<and> (if st = ''approved''
           then \<exists>t. ingest E i s = (Inr 1, t) \<and> governance t = (governance s)(i \<mapsto> ''ingested'')
           else \<exists>e. ingest E i s = (Inl e, s))
    | None \<Rightarrow> (\<exists>e. approve E i reviewer reason s = (Inl e, s)) \<and> (\<exists>e. ingest E i s = (Inl e, s)))"
proof (cases "get_candidate E i s")
  case None
  then have n: "store_get_candidate E i s = None" using assms(2) by (simp add: get_candidate_def)
  then have "\<exists>e. undecided_candidate E ''approve'' i s = (Inl e, s)"
    using assms(2) by (simp add: undecided_candidate_def)
  then show ?thesis
    using None n decision_fails ingest_refuses [of E i s]
    by (auto simp: approve_call approved_candidate_def)
next
  case (Some c)
  then have g: "store_get_candidate E i s = Some c" using assms(2) by (simp add: get_candidate_def)
  then obtain c0 where "row_of (l_candidates s) i = Some c0" "ca_state c = ca_state c0"
    by (metis store_get_candidate_Some)
  then have st: "ca_state c \<in> set [''scored'', ''approved'', ''rejected'', ''ingested'']"
    using governed_states [OF learning_inv_states [OF assms(1)]] by metis
  have a: "if ca_state c = ''scored''
      then \<exists>k t. approve E i reviewer reason s = (Inr k, t) \<and> governance t = (governance s)(i \<mapsto> ''approved'')
      else \<exists>e. approve E i reviewer reason s = (Inl e, s)"
  proof (cases "ca_state c = ''scored''")
    case True
    from decision_step [OF assms(1) undecided_answers [OF assms(2) g True, of "''approve''"], of "''approved''"]
    show ?thesis using True unfolding approve_call by simp metis
  next
    case False
    then have "\<exists>e. undecided_candidate E ''approve'' i s = (Inl e, s)"
      using assms(2) g st by (auto simp: undecided_candidate_def DECIDED_STATES_def)
    then show ?thesis using False decision_fails by (auto simp: approve_call)
  qed
  have b: "if ca_state c = ''approved''
      then \<exists>t. ingest E i s = (Inr 1, t) \<and> governance t = (governance s)(i \<mapsto> ''ingested'')
      else \<exists>e. ingest E i s = (Inl e, s)"
  proof (cases "ca_state c = ''approved''")
    case True
    then have "approved_candidate E i s c" using assms(2,3) g by (simp add: approved_candidate_def)
    from ingest_step [OF assms(1) this] True show ?thesis by auto
  next
    case False
    with g ingest_refuses [of E i s] show ?thesis by (auto simp: approved_candidate_def)
  qed
  from Some a b show ?thesis by simp
qed

definition demo_learning :: learning_env where
  "demo_learning = \<lparr>le_project = ''/p'', le_bus = True, le_clock = digits, le_hash = (\<lambda>s. s),
     le_show = (\<lambda>v. ''?''), le_memory = demo_memory, le_fault = (\<lambda>n. None)\<rparr>"

definition demo_lesson :: learning_state where
  "demo_lesson = learning_call demo_learning (Extract None) (learning_call demo_learning
     (Observe ''research.completed'' [(''memory_candidates'', PList [PDict
        [(''content'', PStr ''pin versions''), (''kind'', PStr ''convention''),
         (''confidence'', PFloat (9 / 10))]])] ''run-1'') empty_learning)"

definition scored_lesson :: "learning_state \<Rightarrow> bool" where
  "scored_lesson s \<longleftrightarrow>
     l_ready s \<and> l_memory s \<noteq> None \<and> map_option ca_state (get_candidate demo_learning 1 s) = Some ''scored''"

lemma demo_lesson_facts:
  "learning_inv demo_lesson" "l_ready demo_lesson" "l_memory demo_lesson \<noteq> None"
  "map_option ca_state (get_candidate demo_learning 1 demo_lesson) = Some ''scored''"
proof -
  show "learning_inv demo_lesson"
    unfolding demo_lesson_def using learning_inv_empty learning_call_evolves by blast
  have "scored_lesson demo_lesson" by code_simp
  then show "l_ready demo_lesson" "l_memory demo_lesson \<noteq> None"
    "map_option ca_state (get_candidate demo_learning 1 demo_lesson) = Some ''scored''"
    by (simp_all add: scored_lesson_def)
qed

theorem decisions_exact_witness:
  "\<exists>k t. approve demo_learning 1 ''human'' '''' demo_lesson = (Inr k, t)
     \<and> governance t 1 = Some ''approved''"
  using decisions_exact [OF demo_lesson_facts(1-3), of demo_learning 1 "''human''" "''''"]
    demo_lesson_facts(4) by (simp split: option.splits) (metis fun_upd_same)

section \<open>Events that teach nothing\<close>

lemma dict_get_set: "dict_get (dict_set k v d) k' w = (if k' = k then v else dict_get d k' w)"
  by simp

lemma gate_payload_findings:
  "\<exists>c. dict_get (gate_payload W name duration r) ''findings'' w = PDict c \<and> c \<noteq> []"
  by (simp add: gate_payload_def dict_get_Cons findings_counts_def)

lemma quality_extracts_nothing:
  assumes "dict_get p ''findings'' (PList []) = PDict c" and "c \<noteq> []"
  shows "extract_from_quality_event E p = Inr []"
  using assms by (simp add: extract_from_quality_event_def or_value_def)

lemma gate_event_silent:
  "on_learning_event E ''quality.gate_blocked''
     (dict_set ''correlation_id'' (PStr corr) (gate_payload W name duration r)) corr s = (Inr [], s)"
proof -
  obtain c where c: "dict_get (gate_payload W name duration r) ''findings'' (PList []) = PDict c" "c \<noteq> []"
    using gate_payload_findings by blast
  have "extract_from_quality_event E (dict_set ''source_event'' (PStr ''quality.gate_blocked'')
      (dict_set ''correlation_id'' x (dict_set ''correlation_id'' (PStr corr)
        (gate_payload W name duration r)))) = Inr []" for x
    by (rule quality_extracts_nothing [OF _ c(2)]) (simp add: dict_get_set c(1))
  then show ?thesis
    by (simp add: on_learning_event_def learning_handler_def LEARNING_SUBSCRIPTIONS_def observe_def
        Let_def bnd_run gets_run of_sum_run ret_run startswith_def)
qed

lemma execution_event_keys:
  "dict_get (execution_event_to_dict ev) ''error'' v = v"
  "dict_get (execution_event_to_dict ev) ''errors'' v = v"
  by (simp_all add: execution_event_to_dict_def dict_get_Cons)

lemma failure_event_silent:
  "\<exists>t. on_learning_event E ''agent.execution.failed'' (execution_event_to_dict ev) corr s = (Inr [], t)
     \<and> l_observations t = l_observations s"
  by (simp add: on_learning_event_def learning_handler_def LEARNING_SUBSCRIPTIONS_def observe_def
      Let_def bnd_run seq_run gets_run modify_run of_sum_run ret_run startswith_def
      extract_agent_failures_def execution_event_keys extract_from_agent_failure_def sum_bind_def)

text \<open>C27: the learning engine draws nothing from the events the rest of the system publishes about
  failures. The payload of a blocked quality gate counts its findings instead of listing them, and
  the event of a failed agent run carries neither \<open>error\<close> nor \<open>errors\<close>: whatever the gate found and
  whatever went wrong, handling them returns without an observation.\<close>

theorem failures_teach_nothing:
  "on_learning_event E ''quality.gate_blocked''
       (dict_set ''correlation_id'' (PStr corr) (gate_payload W name duration r)) corr s = (Inr [], s)
   \<and> (\<exists>t. on_learning_event E ''agent.execution.failed'' (execution_event_to_dict ev) corr s = (Inr [], t)
         \<and> l_observations t = l_observations s)"
  using gate_event_silent failure_event_silent by blast

section \<open>Lessons that get lost\<close>

definition same_knowledge :: "memory option \<Rightarrow> memory option \<Rightarrow> bool" where
  "same_knowledge a b \<longleftrightarrow> (case (a, b) of
     (Some (Some m), Some (Some n)) \<Rightarrow> m_conventions m = m_conventions n \<and> m_decisions m = m_decisions n
        \<and> m_patterns m = m_patterns n \<and> m_mistakes m = m_mistakes n
   | _ \<Rightarrow> a = b)"

definition write_lost :: "learning_env \<Rightarrow> learning_state \<Rightarrow> bool" where
  "write_lost E s \<longleftrightarrow> (case l_memory s of
     Some None \<Rightarrow> True | Some (Some m) \<Rightarrow> le_fault E (m_tick m) \<noteq> None | None \<Rightarrow> False)"

lemma memory_write_lost:
  "write_lost E s \<Longrightarrow> same_knowledge (l_memory s) (l_memory (snd (memory_write E f s)))"
  by (auto simp: write_lost_def memory_write_def same_knowledge_def tick_def split: option.splits)

lemma write_to_memory_lost:
  assumes "write_lost E s"
  shows "same_knowledge (l_memory s) (l_memory (snd (write_to_memory E i c s)))"
proof -
  let ?Q = "\<lambda>m. same_knowledge (l_memory s)
    (l_memory (snd (try_except m (\<lambda>e. ret (''error:'' @ exn_message e)) s)))"
  have w: "?Q (seq (memory_write E f) (ret x))" for f x
    using memory_write_lost [OF assms, of f]
    by (cases "memory_write E f s") (auto simp: try_except_run seq_run ret_run split: sum.splits)
  have choose: "?Q m \<Longrightarrow> ?Q n \<Longrightarrow> ?Q (if b then m else n)" for b m n by (cases b) simp_all
  show ?thesis
    unfolding write_to_memory_def Let_def
    by (rule choose [OF w choose [OF w choose [OF w choose [OF w choose [OF w w]]]]])
qed

text \<open>Ingesting an approved candidate can lose it for good. When the memory engine has no open
  store, or its database raises, the call still returns version 1 and marks the candidate as
  ingested, while the memory knows no more than before; and ingesting it again then always
  raises.\<close>

theorem ingestion_can_lose:
  assumes "learning_inv s" and "approved_candidate E i s c" and "write_lost E s"
  shows "\<exists>t. ingest E i s = (Inr 1, t) \<and> same_knowledge (l_memory s) (l_memory t)
     \<and> governance t i = Some ''ingested'' \<and> (\<exists>e. ingest E i t = (Inl e, t))"
proof -
  obtain t where t: "ingest E i s = (Inr 1, t)" "governance t = (governance s)(i \<mapsto> ''ingested'')"
    using ingest_step [OF assms(1,2)] by blast
  obtain mid s1 t' where r: "write_to_memory E i c s = (Inr mid, s1)" "ingest E i s = (Inr (ca_version c + 1), t')"
    "l_memory t' = l_memory s1" using ingest_run [OF assms(2)] by blast
  have "same_knowledge (l_memory s) (l_memory t)"
    using write_to_memory_lost [OF assms(3), of i c] r t(1) by simp
  moreover have st: "governance t i = Some ''ingested''" by (simp add: t(2))
  moreover have "\<not> (\<exists>c. approved_candidate E i t c)"
  proof
    assume "\<exists>c. approved_candidate E i t c"
    then obtain d where "store_get_candidate E i t = Some d" "ca_state d = ''approved''"
      by (auto simp: approved_candidate_def)
    then obtain d0 where "row_of (l_candidates t) i = Some d0" "ca_state d0 = ''approved''"
      by (metis store_get_candidate_Some)
    then show False using st by (simp add: governance_def)
  qed
  ultimately show ?thesis using t(1) ingest_refuses by blast
qed

definition demo_broken :: learning_env where
  "demo_broken = demo_learning\<lparr>le_fault := (\<lambda>n. Some ''disk I/O error'')\<rparr>"

definition demo_approved :: learning_state where
  "demo_approved = learning_call demo_learning (Approve 1 ''human'' '''') demo_lesson"

definition broken_approval :: "learning_state \<Rightarrow> bool" where
  "broken_approval s \<longleftrightarrow> write_lost demo_broken s \<and> l_ready s \<and> l_memory s \<noteq> None \<and>
     (case store_get_candidate demo_broken 1 s of None \<Rightarrow> False | Some c \<Rightarrow> ca_state c = ''approved'')"

theorem ingestion_can_lose_witness:
  "\<exists>t. ingest demo_broken 1 demo_approved = (Inr 1, t) \<and> governance t 1 = Some ''ingested''"
proof -
  have inv: "learning_inv demo_approved"
    unfolding demo_approved_def using demo_lesson_facts(1) learning_call_evolves by blast
  have "broken_approval demo_approved" by code_simp
  then obtain c where "write_lost demo_broken demo_approved" "approved_candidate demo_broken 1 demo_approved c"
    by (auto simp: broken_approval_def approved_candidate_def split: option.splits)
  then show ?thesis using ingestion_can_lose [OF inv] by blast
qed

end
