(* ===== verification/WorkflowProps.thy ===== *)
theory WorkflowProps
  imports Workflow
begin

text \<open>
  The shape of every workflow run. A run is seen through a view of its context (names and verdicts
  of the stages, errors, the task and the number of subtasks, of cards and of completed subtasks); most operations do not change the view, and each
  phase appends a fixed list of stage names or ends the run with one error at the failing stage.
\<close>

section \<open>The view of a run\<close>

type_synonym view = "(string \<times> bool) list \<times> string list \<times> (core_task \<times> nat) \<times> (nat \<times> nat)"

definition stage_view :: "stage \<Rightarrow> string \<times> bool" where
  "stage_view st = (sg_name st, sg_success st)"

definition ctx_view :: "workflow_context \<Rightarrow> view" where
  "ctx_view c = (map stage_view (wc_stages c), wc_errors c, (wc_task c, wc_subtasks c),
     (length (wc_cards c), wc_completed c))"

abbreviation view :: "'w wstate \<Rightarrow> view" where
  "view s \<equiv> ctx_view (ws_ctx s)"

text \<open>A result does not hold the task and the cards.\<close>

definition result_view :: "core_task \<Rightarrow> nat \<Rightarrow> workflow_result \<Rightarrow> view" where
  "result_view task k r =
     (map stage_view (wr_stages r), wr_errors r, (task, wr_subtasks r), (k, wr_completed r))"

definition vh :: "(view \<Rightarrow> bool) \<Rightarrow> ('w wstate, 'a) py \<Rightarrow> ('a \<Rightarrow> view \<Rightarrow> bool) \<Rightarrow> bool" where
  "vh P m Q \<longleftrightarrow> hoare (\<lambda>s. P (view s)) m (\<lambda>x s. Q x (view s)) (\<lambda>_ _. True)"

definition keeps :: "('w wstate, 'a) py \<Rightarrow> bool" where
  "keeps m \<longleftrightarrow> (\<forall>s. view (snd (m s)) = view s)"

lemma vh_keeps: "keeps m \<Longrightarrow> vh P m (\<lambda>_. P)"
  unfolding vh_def keeps_def by (rule hoareI) (auto split: prod.splits sum.splits, (metis snd_conv)+)

lemma vh_ret: "(\<And>v. P v \<Longrightarrow> Q x v) \<Longrightarrow> vh P (ret x) Q"
  unfolding vh_def by (rule hoare_ret)

lemma vh_bnd: "vh P m S \<Longrightarrow> (\<And>x. vh (S x) (f x) Q) \<Longrightarrow> vh P (bnd m f) Q"
  unfolding vh_def by (rule hoare_bnd)

lemma vh_seq: "vh P m (\<lambda>_. S) \<Longrightarrow> vh S n Q \<Longrightarrow> vh P (seq m n) Q"
  unfolding vh_def by (rule hoare_seq)

lemma vh_if: "(b \<Longrightarrow> vh P m Q) \<Longrightarrow> (\<not> b \<Longrightarrow> vh P n Q) \<Longrightarrow> vh P (if b then m else n) Q"
  by simp

lemma vh_let: "(\<And>x. vh P (f x) Q) \<Longrightarrow> vh P (let x = v in f x) Q"
  by (simp add: Let_def)

lemma vh_weaken: "vh P m Q \<Longrightarrow> (\<And>v. P' v \<Longrightarrow> P v) \<Longrightarrow> (\<And>x v. Q x v \<Longrightarrow> Q' x v) \<Longrightarrow> vh P' m Q'"
  unfolding vh_def by (rule hoare_weaken)

lemma vh_pre: "vh P m Q \<Longrightarrow> (\<And>v. P' v \<Longrightarrow> P v) \<Longrightarrow> vh P' m Q"
  by (rule vh_weaken)

lemma vh_set_ctx:
  "(\<And>c. P (ctx_view c) \<Longrightarrow> Q () (ctx_view (f c))) \<Longrightarrow> vh P (set_ctx f) Q"
  unfolding vh_def set_ctx_def by (rule hoare_modify) simp

lemmas vh_keep_bnd = vh_bnd [OF vh_keeps]
lemmas vh_keep_seq = vh_seq [OF vh_keeps]

section \<open>Operations that keep the view\<close>

lemma keeps_ret: "keeps (ret x)"
  by (simp add: keeps_def ret_run)

lemma keeps_bnd: "keeps m \<Longrightarrow> (\<And>x. keeps (f x)) \<Longrightarrow> keeps (bnd m f)"
  unfolding keeps_def by (auto simp: bnd_run split: prod.splits sum.splits) (metis snd_conv)+

lemma keeps_seq: "keeps m \<Longrightarrow> keeps n \<Longrightarrow> keeps (seq m n)"
  unfolding seq_def by (rule keeps_bnd)

lemma keeps_if: "keeps m \<Longrightarrow> keeps n \<Longrightarrow> keeps (if b then m else n)"
  by simp

lemma keeps_of_sum: "keeps (of_sum r)"
  by (simp add: keeps_def of_sum_run)

lemma keeps_gets: "keeps (gets f)"
  by (simp add: keeps_def gets_run)

lemma keeps_get_ctx: "keeps (get_ctx f)"
  unfolding get_ctx_def by (rule keeps_gets)

lemma keeps_on_exec: "keeps (on_exec m)"
  by (simp add: keeps_def on_exec_def case_prod_unfold Let_def)

lemma keeps_on_world: "keeps (on_world f)"
  unfolding on_world_def by (rule keeps_on_exec)

lemma keeps_on_board: "keeps (on_board m)"
  by (simp add: keeps_def on_board_def case_prod_unfold Let_def)

lemma keeps_set_ctx: "(\<And>c. ctx_view (f c) = ctx_view c) \<Longrightarrow> keeps (set_ctx f)"
  by (simp add: keeps_def set_ctx_def modify_run)

lemma keeps_modify: "(\<And>s. view (f s) = view s) \<Longrightarrow> keeps (modify f)"
  by (simp add: keeps_def modify_run)

lemma keeps_notify: "keeps (notify_stage W st)"
  unfolding notify_stage_def
  by (cases "we_on_stage W") (simp_all add: keeps_ret keeps_bnd keeps_on_world keeps_of_sum)

lemma keeps_publish_quality: "keeps (publish_quality W topic p)"
  unfolding publish_quality_def
  by (intro keeps_if keeps_ret keeps_modify) (simp add: Let_def)

lemma keeps_new_task: "keeps (new_task W d ty ps c)"
  unfolding new_task_def by (intro keeps_bnd keeps_on_world keeps_ret)

lemma keeps_run_agent: "keeps (run_agent W ag t b)"
  unfolding run_agent_def by (intro keeps_bnd keeps_gets keeps_on_exec keeps_ret)

lemma keeps_changed_files: "keeps (changed_files W)"
  unfolding changed_files_def by (intro keeps_bnd keeps_on_world keeps_ret)

lemma ctx_view_frame [simp]:
  "ctx_view (c\<lparr>wc_plan := p\<rparr>) = ctx_view c" "ctx_view (c\<lparr>wc_branch := b\<rparr>) = ctx_view c"
  "ctx_view (c\<lparr>wc_board := bd\<rparr>) = ctx_view c"
  "ctx_view (c\<lparr>wc_review := r\<rparr>) = ctx_view c" "ctx_view (c\<lparr>wc_tests := r\<rparr>) = ctx_view c"
  "ctx_view (c\<lparr>wc_commit := r\<rparr>) = ctx_view c" "ctx_view (c\<lparr>wc_research := r\<rparr>) = ctx_view c"
  "ctx_view (c\<lparr>wc_finished := f\<rparr>) = ctx_view c"
  by (simp_all add: ctx_view_def)

lemmas keeps_intros =
  keeps_ret keeps_bnd keeps_seq keeps_if keeps_of_sum keeps_gets keeps_get_ctx keeps_on_exec
  keeps_on_world keeps_on_board keeps_notify keeps_publish_quality keeps_new_task keeps_run_agent
  keeps_changed_files

lemma enrich_stage_view [simp]: "stage_view (enrich_stage W i st) = stage_view st"
  by (simp add: enrich_stage_def stage_view_def Let_def split: option.splits)

lemma enrich_stages_view [simp]: "ctx_view (enrich_stages W c) = ctx_view c"
  by (simp add: enrich_stages_def ctx_view_def comp_def split: option.splits)

lemma with_files_view [simp]: "stage_view (with_files p st) = stage_view st"
  by (simp add: with_files_def stage_view_def)

lemma result_view_ctx: "result_view (wc_task c) (length (wc_cards c)) (result_from_context c) = ctx_view c"
  by (simp add: result_view_def result_from_context_def ctx_view_def)

section \<open>Stages, errors and the end of a run\<close>

lemma vh_add_stage:
  "(\<And>xs es n c. P (xs, es, n, c) \<Longrightarrow> Q () (xs @ [stage_view st], es, n, c)) \<Longrightarrow>
   vh P (add_stage W st) Q"
  unfolding add_stage_def
  by (rule vh_seq [where S = "Q ()"], rule vh_set_ctx, simp add: ctx_view_def,
      rule vh_weaken [OF vh_keeps [OF keeps_notify]], assumption, simp)

lemma vh_add_error:
  "(\<And>xs es n c. P (xs, es, n, c) \<Longrightarrow> Q () (xs, es @ [e], n, c)) \<Longrightarrow> vh P (add_error e) Q"
  unfolding add_error_def by (rule vh_set_ctx) (simp add: ctx_view_def)

text \<open>\<open>finish\<close> answers a result with the view of the context.\<close>

definition faithful :: "(view \<Rightarrow> bool) \<Rightarrow> workflow_result \<Rightarrow> bool" where
  "faithful P res \<longleftrightarrow> (\<exists>task k. P (result_view task k res)) \<and> (wr_success res \<longleftrightarrow> wr_errors res = [])"

lemma vh_finish: "vh P (finish W) (\<lambda>res _. faithful P res)"
proof -
  have keep: "keeps (if wc_quality c
      then publish_quality W ''quality.completed''
        [(''success'', PBool (wc_errors c = [])), (''errors'', strs (wc_errors c))]
      else ret ())" for c
    by (intro keeps_intros)
  have read: "vh P (get_ctx (\<lambda>c. c)) (\<lambda>c v. P (ctx_view c))"
    unfolding vh_def get_ctx_def by (rule hoare_gets) simp
  have result: "faithful P (result_from_context c)" if "P (ctx_view c)" for c
  proof -
    have "P (result_view (wc_task c) (length (wc_cards c)) (result_from_context c))"
      using that by (simp only: result_view_ctx)
    then show ?thesis by (auto simp: faithful_def result_from_context_def)
  qed
  show ?thesis
    unfolding finish_def
    by (rule vh_keep_bnd [OF keeps_on_world], rule vh_seq [where S = P], rule vh_set_ctx, simp,
        rule vh_bnd [OF read], rule vh_keep_seq [OF keep], rule vh_ret) (rule result)
qed

text \<open>The stages that may fail without ending the run.\<close>

definition tolerated :: "string \<Rightarrow> bool" where
  "tolerated n \<longleftrightarrow> n \<in> {''research'', ''reviewer'', ''tester'', ''documentation''}"

definition going :: "string list \<Rightarrow> core_task \<times> nat \<Rightarrow> nat \<times> nat \<Rightarrow> view \<Rightarrow> bool" where
  "going L n c v \<longleftrightarrow> (\<exists>xs. v = (xs, [], n, c) \<and> map fst xs = L \<and> (\<forall>x \<in> set xs. snd x \<or> tolerated (fst x)))"

text \<open>The run ended at a stage of \<open>F\<close>, or at the no-op stage, with one error; every stage before it
  succeeded or is tolerated.\<close>

definition ended :: "string list \<Rightarrow> core_task \<times> nat \<Rightarrow> view \<Rightarrow> bool" where
  "ended F n v \<longleftrightarrow> (\<exists>us st e c R. v = (us @ [st], [e], n, c) \<and>
     (F = map fst us @ fst st # R \<or> fst st = ''developer:noop'' \<and> F = map fst us @ R) \<and>
     (\<forall>x \<in> set us. snd x \<or> tolerated (fst x)))"

abbreviation halted :: "string list \<Rightarrow> core_task \<times> nat \<Rightarrow> workflow_result \<Rightarrow> bool" where
  "halted F n \<equiv> faithful (ended F n)"

lemma faithful_mono: "faithful P res \<Longrightarrow> (\<And>v. P v \<Longrightarrow> Q v) \<Longrightarrow> faithful Q res"
  unfolding faithful_def by blast

lemma ended_mono: "ended L n v \<Longrightarrow> ended (L @ M) n v"
  unfolding ended_def by (elim exE conjE disjE) fastforce+

lemma halted_mono: "halted L n res \<Longrightarrow> halted (L @ M) n res"
  by (erule faithful_mono) (rule ended_mono)

lemma going_stage:
  "going L n c (xs, es, m, k) \<Longrightarrow> sg_success st \<or> tolerated (sg_name st) \<Longrightarrow>
   going (L @ [sg_name st]) n c (xs @ [stage_view st], es, m, k)"
  by (auto simp: going_def stage_view_def)

definition failing :: "string list \<Rightarrow> string \<Rightarrow> core_task \<times> nat \<Rightarrow> view \<Rightarrow> bool" where
  "failing L name n v \<longleftrightarrow> (\<exists>xs b c. v = (xs @ [(name, b)], [], n, c) \<and> map fst xs = L \<and>
     (\<forall>x \<in> set xs. snd x \<or> tolerated (fst x)))"

lemma failing_stage:
  "going L n c (xs, es, m, k) \<Longrightarrow> failing L (sg_name st) n (xs @ [stage_view st], es, m, k)"
  by (auto simp: going_def failing_def stage_view_def)

lemma vh_fail_run:
  "name \<noteq> ''developer:noop'' \<Longrightarrow>
   vh (failing L name n) (fail_run W e) (\<lambda>res _. halted (L @ [name]) n res)"
  unfolding fail_run_def
  by (rule vh_seq [OF vh_add_error vh_finish]) (auto simp: failing_def ended_def)

lemma vh_fail_noop: "vh (failing L ''developer:noop'' n) (fail_run W e) (\<lambda>res _. halted L n res)"
  unfolding fail_run_def
  by (rule vh_seq [OF vh_add_error vh_finish]) (auto simp: failing_def ended_def)

section \<open>Phases\<close>

text \<open>\<open>phase p L n c M c'\<close>: from the stages \<open>L\<close> the phase goes on with \<open>L @ M\<close>, or ends there.\<close>

definition phase ::
  "('w wstate, workflow_result option) py \<Rightarrow> string list \<Rightarrow> core_task \<times> nat \<Rightarrow> nat \<times> nat \<Rightarrow>
   string list \<Rightarrow> nat \<times> nat \<Rightarrow> bool"
where
  "phase p L n c M c' \<longleftrightarrow> vh (going L n c) p (\<lambda>r v. case r of
     None \<Rightarrow> going (L @ M) n c' v | Some res \<Rightarrow> halted (L @ M) n res)"

lemma phase_then:
  assumes "phase p L n c M c'" and "phase q (L @ M) n c' M' c''"
  shows "phase (then_phase p q) L n c (M @ M') c''"
proof -
  have "vh (\<lambda>v. case r of None \<Rightarrow> going (L @ M) n c' v | Some res \<Rightarrow> halted (L @ M) n res)
      (case r of Some res \<Rightarrow> ret (Some res) | None \<Rightarrow> q)
      (\<lambda>r v. case r of None \<Rightarrow> going (L @ M @ M') n c'' v | Some res \<Rightarrow> halted (L @ M @ M') n res)" for r
  proof (cases r)
    case None
    then show ?thesis using assms(2) by (simp only: phase_def append_assoc option.case)
  next
    case (Some res)
    then show ?thesis using halted_mono [of "L @ M" n res M'] by (simp add: vh_ret)
  qed
  then show ?thesis
    unfolding phase_def then_phase_def append_assoc
    by (rule vh_bnd [OF assms(1) [unfolded phase_def]])
qed

lemma phase_go_on: "phase go_on L n c [] c"
  unfolding phase_def go_on_def by (rule vh_ret) simp

lemma phase_if: "(b \<Longrightarrow> phase p L n c M c') \<Longrightarrow> (\<not> b \<Longrightarrow> phase q L n c N c') \<Longrightarrow>
   phase (if b then p else q) L n c (if b then M else N) c'"
  by simp

lemma phase_keep: "keeps m \<Longrightarrow> (\<And>x. phase (f x) L n c M c') \<Longrightarrow> phase (bnd m f) L n c M c'"
  unfolding phase_def by (rule vh_keep_bnd)

lemma phase_keep_seq: "keeps m \<Longrightarrow> phase p L n c M c' \<Longrightarrow> phase (seq m p) L n c M c'"
  unfolding phase_def by (rule vh_keep_seq)

lemma phase_stage:
  "sg_success st \<or> tolerated (sg_name st) \<Longrightarrow> phase (seq (add_stage W st) go_on) L n c [sg_name st] c"
  unfolding phase_def go_on_def
  by (rule vh_seq [OF vh_add_stage vh_ret]) (auto intro: going_stage)

lemma phase_after:
  assumes "vh (going L n c) m (\<lambda>_. going (L @ N) n c')" and "phase p (L @ N) n c' M c''"
  shows "phase (seq m p) L n c (N @ M) c''"
  using vh_seq [OF assms(1) assms(2) [unfolded phase_def append_assoc]] by (simp only: phase_def)

text \<open>A part that always ends the run.\<close>

lemma phase_ends:
  assumes "vh (going L n c) p (\<lambda>r v. \<exists>res. r = Some res \<and> halted (L @ [x]) n res)"
  shows "phase p L n c (x # M) c'"
  unfolding phase_def
proof (rule vh_weaken [OF assms])
  fix r v assume "\<exists>res. r = Some res \<and> halted (L @ [x]) n res"
  then obtain res where "r = Some res" "halted (L @ [x]) n res" by blast
  then show "case r of None \<Rightarrow> going (L @ x # M) n c' v | Some res \<Rightarrow> halted (L @ x # M) n res"
    using halted_mono [of "L @ [x]" n res M] by simp
qed

lemma stage_ends:
  assumes "sg_name st \<noteq> ''developer:noop''"
  shows "vh (going L n c) (seq (add_stage W st) (stop_run W e))
    (\<lambda>r v. \<exists>res. r = Some res \<and> halted (L @ [sg_name st]) n res)"
  unfolding stop_run_def
  by (rule vh_seq [OF vh_add_stage [where Q = "\<lambda>_. failing L (sg_name st) n"]
        vh_bnd [OF vh_fail_run [OF assms] vh_ret]])
     (auto intro: failing_stage)

lemma phase_stop:
  assumes "sg_name st \<noteq> ''developer:noop''"
  shows "phase (seq (add_stage W st) (stop_run W e)) L n c [sg_name st] c'"
  by (rule phase_ends [OF stage_ends [OF assms]])

lemma phase_stop_noop:
  assumes "sg_name st = ''developer:noop''"
  shows "phase (seq (add_stage W st) (stop_run W e)) L n c [] c'"
  unfolding phase_def stop_run_def
  by (rule vh_seq [OF vh_add_stage [where Q = "\<lambda>_. failing L ''developer:noop'' n"]
        vh_bnd [OF vh_fail_noop vh_ret]])
     (use assms in \<open>auto dest: failing_stage [where st = st]\<close>)

definition gate_names :: "'w wenv \<Rightarrow> string \<Rightarrow> string list" where
  "gate_names W g = (if workflow_gates W = [] then [] else [g])"

text \<open>After a failing stage and its error.\<close>

definition gate_stopped :: "string list \<Rightarrow> string \<Rightarrow> core_task \<times> nat \<Rightarrow> view \<Rightarrow> bool" where
  "gate_stopped L name n v \<longleftrightarrow> (\<exists>xs b e c. v = (xs @ [(name, b)], [e], n, c) \<and> map fst xs = L \<and>
     (\<forall>x \<in> set xs. snd x \<or> tolerated (fst x)))"

lemma run_gate_view:
  "vh (going L n c) (run_gate W name gi)
     (\<lambda>ok v. if ok then going (L @ [name]) n c v else gate_stopped L name n v)" (is "vh _ _ ?Q")
proof -
  have ok: "vh (going L n c) (seq (add_stage W st) (ret True)) ?Q"
    if "sg_name st = name" "sg_success st" for st
    by (rule vh_seq [OF vh_add_stage [where Q = "\<lambda>_. going (L @ [name]) n c"] vh_ret])
       (use that in \<open>auto dest: going_stage [where st = st]\<close>)
  have bad: "vh (going L n c) (seq (add_stage W st) (seq (add_error e) (ret False))) ?Q"
    if "sg_name st = name" for st e
    by (rule vh_seq [OF vh_add_stage [where Q = "\<lambda>_. failing L name n"]
          vh_seq [OF vh_add_error [where Q = "\<lambda>_. gate_stopped L name n"] vh_ret]])
       (use that in \<open>auto simp: going_def failing_def gate_stopped_def stage_view_def\<close>)
  show ?thesis
  proof (cases "map_of (workflow_gates W) name")
    case None
    show ?thesis unfolding run_gate_def None option.case by (rule ok) simp_all
  next
    case (Some gate)
    show ?thesis
      unfolding run_gate_def Some option.case Let_def
      by (rule vh_keep_seq [OF keeps_publish_quality], rule vh_keep_bnd [OF keeps_on_world],
          rule vh_keep_bnd [OF keeps_on_world], rule vh_keep_bnd [OF keeps_on_world],
          rule vh_keep_seq [OF keeps_publish_quality], rule vh_if, rule bad, simp, rule ok)
         simp_all
  qed
qed

lemma phase_gate:
  assumes "keeps input"
  shows "phase (gate_phase W name input) L n c (gate_names W name) c"
proof (cases "workflow_gates W = []")
  case True
  then show ?thesis using phase_go_on by (simp add: gate_phase_def gate_names_def)
next
  case False
  have fin: "vh (gate_stopped L name n) (bnd (finish W) (\<lambda>r. ret (Some r)))
      (\<lambda>r v. case r of None \<Rightarrow> going (L @ [name]) n c v | Some res \<Rightarrow> halted (L @ [name]) n res)"
  proof (rule vh_bnd [OF vh_finish vh_ret])
    fix res v assume "faithful (gate_stopped L name n) res"
    then have "halted (L @ [name]) n res"
      by (rule faithful_mono) (auto simp: ended_def gate_stopped_def)
    then show "case Some res of None \<Rightarrow> going (L @ [name]) n c v | Some res \<Rightarrow> halted (L @ [name]) n res"
      by simp
  qed
  have branch: "vh (\<lambda>v. if ok then going (L @ [name]) n c v else gate_stopped L name n v)
      (if ok then go_on else bnd (finish W) (\<lambda>r. ret (Some r)))
      (\<lambda>r v. case r of None \<Rightarrow> going (L @ [name]) n c v | Some res \<Rightarrow> halted (L @ [name]) n res)" for ok
    using fin by (cases ok) (simp_all add: go_on_def vh_ret)
  show ?thesis
    unfolding phase_def gate_phase_def gate_names_def if_not_P [OF False]
    by (rule vh_keep_bnd [OF assms], rule vh_bnd [OF run_gate_view branch])
qed

section \<open>The phases of the pipeline\<close>

lemma phase_branch: "phase (branch_phase W) L n c [''git''] c"
proof (cases "if we_create_branch W then we_git W else None")
  case None
  have "phase (seq (add_stage W (skipped_stage ''git'')) go_on) L n c [sg_name (skipped_stage ''git'')] c"
    by (rule phase_stage) (simp add: skipped_stage_def)
  then show ?thesis unfolding branch_phase_def None option.case by (simp add: skipped_stage_def)
next
  case (Some git)
  have stop: "phase (seq (add_stage W ((mk_stage ''git'' ok)\<lparr>sg_error := err\<rparr>))
      (if \<not> ok then stop_run W e else seq (set_ctx (\<lambda>c. c\<lparr>wc_branch := br\<rparr>)) go_on)) L n c [''git''] c"
    for ok err e br
  proof (cases ok)
    case True
    have "vh (going L n c) (add_stage W ((mk_stage ''git'' True)\<lparr>sg_error := err\<rparr>))
        (\<lambda>_. going (L @ [''git'']) n c)"
      by (rule vh_add_stage) (auto simp: going_def stage_view_def)
    moreover have "phase (seq (set_ctx (\<lambda>c. c\<lparr>wc_branch := br\<rparr>)) go_on) (L @ [''git'']) n c [] c"
      by (rule phase_keep_seq [OF keeps_set_ctx phase_go_on]) simp
    ultimately have "phase (seq (add_stage W ((mk_stage ''git'' True)\<lparr>sg_error := err\<rparr>))
        (seq (set_ctx (\<lambda>c. c\<lparr>wc_branch := br\<rparr>)) go_on)) L n c ([''git''] @ []) c"
      by (rule phase_after)
    then show ?thesis using True by simp
  next
    case False
    then show ?thesis using phase_stop [of "(mk_stage ''git'' False)\<lparr>sg_error := err\<rparr>"] by simp
  qed
  show ?thesis
    unfolding branch_phase_def Some option.case
    by (rule phase_keep [OF keeps_get_ctx], rule phase_keep [OF keeps_new_task],
        rule phase_keep [OF keeps_run_agent], rule phase_keep [OF keeps_of_sum], rule stop)
qed

lemma vh_create_cards:
  "vh (going L n (k, c)) (create_cards W bid vs) (\<lambda>_. going L n (k + length vs, c))"
proof (induction vs arbitrary: k)
  case Nil
  then show ?case by (simp add: vh_ret)
next
  case (Cons v vs)
  have "vh (going L n (k, c)) (set_ctx (\<lambda>c. c\<lparr>wc_cards := wc_cards c @ [kcard]\<rparr>))
      (\<lambda>_. going L n (k + 1, c))" for kcard
    by (rule vh_set_ctx) (auto simp: going_def ctx_view_def)
  moreover have "vh (going L n (k + 1, c)) (create_cards W bid vs)
      (\<lambda>_. going L n (k + length (v # vs), c))"
    using Cons.IH [of "k + 1"] by simp
  ultimately show ?case
    unfolding create_cards.simps
    by (intro vh_keep_bnd [OF keeps_of_sum] vh_keep_bnd [OF keeps_on_board] vh_seq)
qed

lemma phase_board: "phase (board_phase W vs) L n (k, c) [''scheduler''] (k + length vs, c)"
proof -
  have b: "keeps (set_ctx (\<lambda>c. c\<lparr>wc_board := b\<rparr>))" for b by (rule keeps_set_ctx) simp
  have st: "phase (seq (add_stage W (mk_stage ''scheduler'' True)) go_on) L n (k + length vs, c)
      [''scheduler''] (k + length vs, c)"
    using phase_stage [of "mk_stage ''scheduler'' True" W L n "(k + length vs, c)"] by simp
  have cards: "phase (seq (create_cards W bid vs) (seq (add_stage W (mk_stage ''scheduler'' True)) go_on))
      L n (k, c) [''scheduler''] (k + length vs, c)" for bid
    using vh_seq [OF vh_create_cards st [unfolded phase_def]] by (simp only: phase_def)
  show ?thesis
    unfolding board_phase_def
    by (rule phase_keep [OF keeps_get_ctx], rule phase_keep [OF keeps_on_board],
        rule phase_keep_seq [OF b], rule cards)
qed

definition dev_names :: "nat \<Rightarrow> nat \<Rightarrow> string list" where
  "dev_names i m = map (\<lambda>k. ''developer:'' @ digits (k + 1)) [i..<i + m]"

lemma dev_names_Suc: "dev_names i (Suc m) = (''developer:'' @ digits (i + 1)) # dev_names (i + 1) m"
proof -
  have "[i..<i + Suc m] = i # [i + 1..<i + 1 + m]" by (simp add: upt_conv_Cons)
  then show ?thesis by (simp add: dev_names_def)
qed

lemma dev_name_not_noop: "''developer:'' @ digits k \<noteq> ''developer:noop''"
proof
  assume "''developer:'' @ digits k = ''developer:noop''"
  then have "digits k = ''noop''" by simp
  then have "CHR ''n'' \<in> set (digits k)" by simp
  from digits_are_digits [OF this] show False by (simp add: is_digit_def)
qed

lemma phase_developer_loop:
  "phase (developer_loop W m i ps) L n (k, c) (dev_names i (length ps)) (k, c + length ps)"
proof (induction ps arbitrary: i L c)
  case Nil
  then show ?case using phase_go_on [of L n "(k, c)"] by (simp add: dev_names_def)
next
  case (Cons p ps)
  obtain v kcard where p: "p = (v, kcard)" by (cases p)
  let ?n = "''developer:'' @ digits (i + 1)"
  have good: "phase (seq (set_ctx (\<lambda>c. c\<lparr>wc_completed := wc_completed c + 1\<rparr>))
      (seq (add_stage W (developer_stage i True None d m)) (developer_loop W m (i + 1) ps)))
      L n (k, c) (?n # dev_names (i + 1) (length ps)) (k, c + Suc (length ps))" for d
  proof -
    have s1: "vh (going L n (k, c)) (set_ctx (\<lambda>c. c\<lparr>wc_completed := wc_completed c + 1\<rparr>))
        (\<lambda>_. going L n (k, c + 1))"
      by (rule vh_set_ctx) (auto simp: going_def ctx_view_def)
    have s2: "vh (going L n (k, c + 1)) (add_stage W (developer_stage i True None d m))
        (\<lambda>_. going (L @ [?n]) n (k, c + 1))"
      by (rule vh_add_stage) (auto simp: going_def stage_view_def developer_stage_def)
    have s3: "phase (developer_loop W m (i + 1) ps) (L @ [?n]) n (k, c + 1)
        (dev_names (i + 1) (length ps)) (k, c + 1 + length ps)"
      by (rule Cons.IH)
    have "phase (seq (set_ctx (\<lambda>c. c\<lparr>wc_completed := wc_completed c + 1\<rparr>))
        (seq (add_stage W (developer_stage i True None d m)) (developer_loop W m (i + 1) ps)))
        L n (k, c) ([] @ [?n] @ dev_names (i + 1) (length ps)) (k, c + 1 + length ps)"
      by (rule phase_after, simp only: append_Nil2, rule s1, simp only: append_Nil2,
          rule phase_after [OF s2 s3])
    then show ?thesis by simp
  qed
  have bad: "phase (seq (add_stage W (developer_stage i False err d m)) (stop_run W e))
      L n (k, c) (?n # dev_names (i + 1) (length ps)) (k, c + Suc (length ps))" for err d e
    using phase_ends [OF stage_ends [of "developer_stage i False err d m" L n "(k, c)" W e]]
      dev_name_not_noop [of "i + 1"]
    by (simp add: developer_stage_def)
  have len: "length ((v, kcard) # ps) = Suc (length ps)" by simp
  show ?case
    unfolding p developer_loop.simps len dev_names_Suc
    by (rule phase_keep [OF keeps_on_board], rule phase_keep [OF keeps_of_sum],
        rule phase_keep [OF keeps_of_sum], rule phase_keep [OF keeps_new_task],
        rule phase_keep [OF keeps_run_agent], split if_split, intro conjI impI,
        rule phase_keep [OF keeps_on_board], rule bad, rule phase_keep [OF keeps_on_board], rule good)
qed

text \<open>The cards of the context number as many as the subtasks they were created for.\<close>

lemma vh_given: "(B \<Longrightarrow> vh P m Q) \<Longrightarrow> vh (\<lambda>v. P v \<and> B) m Q"
  by (cases B) (simp_all add: vh_def hoare_def)

lemma phase_cards:
  assumes "\<And>cs. length cs = k \<Longrightarrow> phase (f cs) L n (k, c) M c'"
  shows "phase (bnd (get_ctx wc_cards) f) L n (k, c) M c'"
proof -
  have read: "vh (going L n (k, c)) (get_ctx wc_cards) (\<lambda>cs v. going L n (k, c) v \<and> length cs = k)"
    unfolding vh_def get_ctx_def by (rule hoare_gets) (auto simp: going_def ctx_view_def)
  show ?thesis
    unfolding phase_def
    by (rule vh_bnd [OF read vh_given]) (rule assms [unfolded phase_def])
qed

lemma phase_delta: "phase (delta_phase W old) L n c [] c"
proof -
  have frame: "keeps (set_ctx (\<lambda>c. c\<lparr>wc_changed := p, wc_produced := b,
      wc_stages := map (with_files p) (wc_stages c)\<rparr>))" for p b
    by (rule keeps_set_ctx) (simp add: ctx_view_def comp_def)
  have blk: "keeps (if b then ret () else bnd (on_board m) (\<lambda>_. ret ()))" for b m
    by (intro keeps_intros)
  show ?thesis
    unfolding delta_phase_def Let_def
    by (rule phase_keep [OF keeps_changed_files], rule phase_keep_seq [OF frame],
        rule phase_keep [OF keeps_get_ctx], split if_split, intro conjI impI,
        rule phase_keep_seq [OF blk], rule phase_stop_noop, simp, rule phase_go_on)
qed

lemma phase_developer:
  "phase (developer_phase W vs) L n (length vs, c)
     (dev_names 0 (length vs) @ gate_names W ''code_gate'') (length vs, c + length vs)"
proof -
  have before: "keeps (if we_git W \<noteq> None then changed_files W else ret [])"
    by (intro keeps_intros)
  have delta: "phase (if we_git W \<noteq> None then delta_phase W b else go_on) L n c [] c" for b L c
    by (split if_split, intro conjI impI phase_delta phase_go_on)
  have all: "phase (then_phase (developer_loop W (length vs) 0 (zip vs cs))
      (then_phase (if we_git W \<noteq> None then delta_phase W b else go_on)
        (gate_phase W ''code_gate'' (ret project_input)))) L n (length vs, c)
      (dev_names 0 (length (zip vs cs)) @ [] @ gate_names W ''code_gate'')
      (length vs, c + length (zip vs cs))" for b cs
    by (rule phase_then [OF phase_developer_loop phase_then [OF delta phase_gate]]) (rule keeps_ret)
  show ?thesis
    unfolding developer_phase_def
  proof (rule phase_keep [OF before], rule phase_cards)
    fix b and cs :: "kanban_card list" assume "length cs = length vs"
    then have "length (zip vs cs) = length vs" by simp
    from all [of cs b, unfolded this append_Nil]
    show "phase (then_phase (developer_loop W (length vs) 0 (zip vs cs))
      (then_phase (if we_git W \<noteq> None then delta_phase W b else go_on)
        (gate_phase W ''code_gate'' (ret project_input)))) L n (length vs, c)
      (dev_names 0 (length vs) @ gate_names W ''code_gate'') (length vs, c + length vs)" .
  qed
qed

lemma keeps_json: "keeps (if b then ret v else of_sum r)"
  by (intro keeps_intros)

lemma phase_review: "phase (review_phase W) L n c [''reviewer''] c"
proof -
  have frame: "keeps (set_ctx (\<lambda>c. c\<lparr>wc_review := Some v\<rparr>))" for v by (rule keeps_set_ctx) simp
  have st: "phase (seq (add_stage W (mk_stage ''reviewer'' b)) go_on) L n c [''reviewer''] c" for b
    using phase_stage [of "mk_stage ''reviewer'' b" W L n c] by (simp add: tolerated_def)
  show ?thesis
    unfolding review_phase_def
    by (rule phase_keep [OF keeps_new_task], rule phase_keep [OF keeps_run_agent],
        rule phase_keep [OF keeps_json], rule phase_keep_seq [OF frame], rule st)
qed

lemma phase_skipped: "phase (seq (add_stage W (skipped_stage name)) go_on) L n c [name] c"
  using phase_stage [of "skipped_stage name" W L n c] by (simp add: skipped_stage_def)

text \<open>A stop after a stage that has been added.\<close>

lemma phase_stop_after:
  assumes "L \<noteq> []"
  shows "phase (stop_run W e) L n c [] c'"
proof -
  have "vh (going L n c) (add_error e) (\<lambda>_. ended L n)"
  proof (rule vh_add_error)
    fix xs es m k assume "going L n c (xs, es, m, k)"
    then have v: "es = []" "m = n" "map fst xs = L" "\<forall>x \<in> set xs. snd x \<or> tolerated (fst x)"
      by (auto simp: going_def)
    from v(3) assms obtain us st where "xs = us @ [st]" by (cases xs rule: rev_cases) auto
    with v show "ended L n (xs, es @ [e], m, k)" by (auto simp: ended_def)
  qed
  then have "vh (going L n c) (fail_run W e) (\<lambda>res _. halted L n res)"
    unfolding fail_run_def by (rule vh_seq [OF _ vh_finish])
  then show ?thesis
    unfolding phase_def stop_run_def by (rule vh_bnd [OF _ vh_ret]) simp
qed

lemma phase_test: "phase (test_phase W) L n c [''tester''] c"
proof (cases "we_tester W")
  case None
  show ?thesis unfolding test_phase_def None option.case by (rule phase_skipped)
next
  case (Some tester)
  have frame: "keeps (set_ctx (\<lambda>c. c\<lparr>wc_tests := Some v\<rparr>))" for v by (rule keeps_set_ctx) simp
  have run: "keeps (if b then ret () else bnd (new_task W d ty ps cid) (\<lambda>t.
      bnd (run_agent W tester t False) (\<lambda>r.
      bnd (if res_output r = [] then ret (PDict []) else of_sum (json_loads W (res_output r)))
        (\<lambda>v. set_ctx (\<lambda>c. c\<lparr>wc_tests := Some v\<rparr>)))))" for b d ty ps cid
    by (intro keeps_intros frame)
  have added: "vh (going L n c) (add_stage W (mk_stage ''tester'' b)) (\<lambda>_. going (L @ [''tester'']) n c)" for b
    by (rule vh_add_stage) (auto dest: going_stage [where st = "mk_stage ''tester'' b"] simp: tolerated_def)
  have verdict: "phase (seq (add_stage W (mk_stage ''tester'' b)) (bnd (of_sum r) (\<lambda>red.
      if red then stop_run W e else go_on))) L n c ([''tester''] @ []) c" for b r e
  proof (rule phase_after [OF added], rule phase_keep [OF keeps_of_sum])
    show "phase (if red then stop_run W e else go_on) (L @ [''tester'']) n c [] c" for red
      by (split if_split, intro conjI impI phase_go_on phase_stop_after) simp
  qed
  show ?thesis
    unfolding test_phase_def Some option.case
    by (rule phase_keep [OF keeps_gets], rule phase_keep_seq [OF run], rule phase_keep [OF keeps_get_ctx],
        rule phase_keep [OF keeps_of_sum], rule verdict [unfolded append_Nil2])
qed

lemma phase_documentation: "phase (documentation_phase W) L n c [''documentation''] c"
proof (cases "we_documentation W")
  case None
  show ?thesis unfolding documentation_phase_def None option.case by (rule phase_skipped)
next
  case (Some ag)
  have st: "phase (seq (add_stage W (mk_stage ''documentation'' b)) go_on) L n c [''documentation''] c" for b
    using phase_stage [of "mk_stage ''documentation'' b" W L n c] by (simp add: tolerated_def)
  show ?thesis
    unfolding documentation_phase_def Some option.case
    by (rule phase_keep [OF keeps_get_ctx], rule phase_keep [OF keeps_of_sum],
        rule phase_keep [OF keeps_json], rule phase_keep [OF keeps_of_sum],
        rule phase_keep [OF keeps_new_task], rule phase_keep [OF keeps_run_agent], rule st)
qed

definition release_names :: "'w wenv \<Rightarrow> string list" where
  "release_names W = (if we_quality W \<noteq> None \<and> quality_environment W = ''release''
     then gate_names W ''release_gate'' else [])"

lemma phase_release: "phase (release_phase W) L n c (release_names W) c"
  unfolding release_phase_def release_names_def
  by (rule phase_if) (rule phase_gate [OF keeps_ret], rule phase_go_on)

section \<open>The whole run\<close>

definition after_developer :: "'w wenv \<Rightarrow> string list" where
  "after_developer W =
     gate_names W ''code_gate'' @ [''reviewer''] @ gate_names W ''security_gate'' @ [''tester''] @
     gate_names W ''test_gate'' @ [''documentation''] @ gate_names W ''documentation_gate'' @
     release_names W"

definition research_names :: "'w wenv \<Rightarrow> string list" where
  "research_names W = (if we_research W = None then [] else [''research''])"

text \<open>The stages of a run with \<open>n\<close> subtasks that nothing stops.\<close>

definition pipeline :: "'w wenv \<Rightarrow> nat \<Rightarrow> string list" where
  "pipeline W n = research_names W @ [''planner'', ''git'', ''scheduler''] @ dev_names 0 n @
     after_developer W @ [''git'']"

lemma keeps_test_input: "keeps test_input"
  unfolding test_input_def by (rule keeps_get_ctx)

lemma phase_workflow:
  "phase (workflow_phases W vs) L n (0, 0)
     ([''git'', ''scheduler''] @ dev_names 0 (length vs) @ after_developer W)
     (length vs, length vs)"
proof -
  have board: "phase (board_phase W vs) L n (0, 0) [''scheduler''] (length vs, 0)" for L
    using phase_board [of W vs L n 0 0] by simp
  have dev: "phase (developer_phase W vs) L n (length vs, 0)
      (dev_names 0 (length vs) @ gate_names W ''code_gate'') (length vs, length vs)" for L
    using phase_developer [of W vs L n 0] by simp
  have "phase (workflow_phases W vs) L n (0, 0)
      ([''git''] @ [''scheduler''] @ (dev_names 0 (length vs) @ gate_names W ''code_gate'') @
       [''reviewer''] @ gate_names W ''security_gate'' @ [''tester''] @ gate_names W ''test_gate'' @
       [''documentation''] @ gate_names W ''documentation_gate'' @ release_names W)
      (length vs, length vs)"
    unfolding workflow_phases_def
    by (rule phase_then [OF phase_branch phase_then [OF board phase_then [OF dev
          phase_then [OF phase_review phase_then [OF phase_gate phase_then [OF phase_test
          phase_then [OF phase_gate phase_then [OF phase_documentation
          phase_then [OF phase_gate phase_release]]]]]]]]])
       (rule keeps_ret keeps_test_input)+
  then show ?thesis by (simp add: after_developer_def)
qed

lemma vh_tolerated_stage:
  "tolerated (sg_name st) \<Longrightarrow>
   vh (going L n c) (add_stage W st) (\<lambda>_. going (L @ [sg_name st]) n c)"
  by (rule vh_add_stage) (auto intro: going_stage)

lemma keeps_publish_research: "keeps (publish_research W d)"
  unfolding publish_research_def
  by (intro keeps_intros keeps_modify) (simp add: Let_def)

lemma vh_research: "vh (going L n c) (run_research W ag task) (\<lambda>_. going (L @ [''research'']) n c)"
proof -
  have st: "vh (going L n c) (add_stage W st) (\<lambda>_. going (L @ [''research'']) n c)"
    if "sg_name st = ''research''" for st
    using that vh_tolerated_stage [of st L n c W] by (simp add: tolerated_def)
  have frame: "keeps (set_ctx (\<lambda>c. c\<lparr>wc_research := v\<rparr>))" for v by (rule keeps_set_ctx) simp
  have share: "keeps (modify (\<lambda>s. let x = ws_x s; c = x_context x in
      if b \<and> cx_settable c then s\<lparr>ws_x := x\<lparr>x_context := c\<lparr>cx_research := v\<rparr>\<rparr>\<rparr> else s))" for b v
    by (rule keeps_modify) (simp add: Let_def)
  show ?thesis
    unfolding run_research_def
    by (rule vh_keep_bnd [OF keeps_get_ctx], rule vh_keep_bnd [OF keeps_new_task],
        rule vh_keep_bnd [OF keeps_run_agent], rule vh_if, rule st, simp, rule vh_let,
        rule vh_keep_seq [OF frame], rule vh_keep_seq [OF share], rule vh_keep_bnd [OF keeps_of_sum],
        rule vh_keep_bnd [OF keeps_of_sum], rule vh_keep_bnd [OF keeps_of_sum],
        rule vh_seq [OF st vh_keeps [OF keeps_publish_research]], simp)
qed

lemma vh_plan:
  "vh (going [] (task, 0) (0, 0)) (plan_phase W task) (\<lambda>p v. case p of
     Inl res \<Rightarrow> halted (research_names W @ [''planner'']) (task, 0) res
   | Inr vs \<Rightarrow> going (research_names W @ [''planner'']) (task, length vs) (0, 0) v)" (is "vh _ _ ?Q")
proof -
  let ?L = "research_names W"
  have research: "vh (going [] (task, 0) (0, 0))
      (case we_research W of None \<Rightarrow> ret () | Some ag \<Rightarrow> run_research W ag task)
      (\<lambda>_. going ?L (task, 0) (0, 0))"
    using vh_research [of "[]"] by (auto simp: research_names_def vh_ret split: option.split)
  have bad: "vh (going ?L (task, 0) (0, 0)) (seq (add_stage W (mk_stage ''planner'' False))
      (bnd (fail_run W e) (\<lambda>res. ret (Inl res)))) ?Q" for e
    by (rule vh_seq [OF vh_add_stage [where Q = "\<lambda>_. failing ?L ''planner'' (task, 0)"]
          vh_bnd [OF vh_fail_run vh_ret]])
       (auto dest: failing_stage [where st = "mk_stage ''planner'' False"])
  have plan: "keeps (set_ctx (\<lambda>c. c\<lparr>wc_plan := Some p\<rparr>))" for p by (rule keeps_set_ctx) simp
  have count: "vh (going ?L (task, 0) (0, 0)) (set_ctx (\<lambda>c. c\<lparr>wc_subtasks := length vs\<rparr>))
      (\<lambda>_. going ?L (task, length vs) (0, 0))" for vs :: "pyval list"
    by (rule vh_set_ctx) (auto simp: going_def ctx_view_def)
  have good: "vh (going ?L (task, length vs) (0, 0))
      (seq (add_stage W ((mk_stage ''planner'' True)\<lparr>sg_details := d\<rparr>)) (ret (Inr vs))) ?Q" for d vs
    by (rule vh_seq [OF vh_add_stage [where Q = "\<lambda>_. going (?L @ [''planner'']) (task, length vs) (0, 0)"]
          vh_ret])
       (auto dest: going_stage [where st = "(mk_stage ''planner'' True)\<lparr>sg_details := d\<rparr>"])
  show ?thesis
    unfolding plan_phase_def
    by (rule vh_seq [OF research], rule vh_keep_bnd [OF keeps_on_world],
        rule vh_keep_bnd [OF keeps_run_agent], rule vh_if, rule bad,
        rule vh_keep_bnd [OF keeps_of_sum], rule vh_keep_bnd [OF keeps_of_sum],
        rule vh_keep_seq [OF plan], rule vh_keep_bnd [OF keeps_of_sum],
        rule vh_seq [OF count good])
qed

lemma vh_commit:
  "vh (going L n c) (commit_phase W)
     (\<lambda>_ v. going (L @ [''git'']) n c v \<or> ended (L @ [''git'']) n v)" (is "vh _ _ ?Q")
proof (cases "we_git W")
  case None
  show ?thesis
    unfolding commit_phase_def None option.case
    by (rule vh_add_stage)
       (auto simp: skipped_stage_def dest: going_stage [where st = "skipped_stage ''git''"])
next
  case (Some git)
  have ok: "vh (going L n c) (seq (add_stage W ((mk_stage ''git'' b)\<lparr>sg_error := err\<rparr>))
      (if b then ret () else add_error e)) ?Q" for b err e
  proof (cases b)
    case True
    have "vh (going L n c) (add_stage W ((mk_stage ''git'' b)\<lparr>sg_error := err\<rparr>))
        (\<lambda>_. going (L @ [''git'']) n c)"
      using True by (intro vh_add_stage) (auto simp: going_def stage_view_def)
    then show ?thesis using True by (auto intro: vh_seq vh_ret)
  next
    case False
    have "vh (going L n c) (add_stage W ((mk_stage ''git'' b)\<lparr>sg_error := err\<rparr>))
        (\<lambda>_. failing L ''git'' n)"
      by (rule vh_add_stage) (auto simp: going_def failing_def stage_view_def)
    moreover have "vh (failing L ''git'' n) (add_error e) ?Q"
      by (rule vh_add_error) (auto simp: failing_def ended_def)
    ultimately show ?thesis using False by (auto intro: vh_seq)
  qed
  have frame: "keeps (set_ctx (\<lambda>c. c\<lparr>wc_commit := v\<rparr>))" for v by (rule keeps_set_ctx) simp
  show ?thesis
    unfolding commit_phase_def Some option.case
    by (rule vh_keep_bnd [OF keeps_new_task], rule vh_keep_bnd [OF keeps_run_agent],
        rule vh_keep_seq [OF frame], rule vh_keep_bnd [OF keeps_get_ctx],
        rule vh_keep_bnd [OF keeps_new_task], rule vh_keep_bnd [OF keeps_run_agent],
        rule vh_keep_seq [OF frame], rule vh_keep_bnd [OF keeps_of_sum], rule ok)
qed

lemma vh_start: "vh (\<lambda>_. True) (start_run W task) (\<lambda>_. going [] (task, 0) (0, 0))"
proof -
  have count: "keeps (modify (\<lambda>s. s\<lparr>ws_counter := ws_counter s + 1\<rparr>))"
    by (rule keeps_modify) simp
  have fresh: "vh (\<lambda>_. True) (modify (\<lambda>s. s\<lparr>ws_ctx := \<lparr>wc_task = task, wc_run_id = ws_counter s,
        wc_goal = ct_description task, wc_started = now, wc_plan = None, wc_branch = None,
        wc_board = None, wc_cards = [], wc_review = None, wc_tests = None, wc_commit = None,
        wc_research = None, wc_stages = [], wc_errors = [], wc_completed = 0, wc_subtasks = 0,
        wc_quality = False, wc_intent = None, wc_finished = None, wc_changed = [],
        wc_produced = False\<rparr>\<rparr>)) (\<lambda>_. going [] (task, 0) (0, 0))" for now
    unfolding vh_def by (rule hoare_modify) (simp add: going_def ctx_view_def)
  have intent: "keeps (apply_workflow_intent W)"
    unfolding apply_workflow_intent_def by (rule keeps_modify) (simp add: Let_def)
  have flags: "keeps (modify (\<lambda>s. s\<lparr>ws_ctx := (ws_ctx s)\<lparr>
      wc_intent := (if we_context W then cx_intent (x_context (ws_x s)) else None),
      wc_quality := (workflow_gates W \<noteq> [])\<rparr>\<rparr>))"
    by (rule keeps_modify) (simp add: ctx_view_def)
  show ?thesis
    unfolding start_run_def
    by (rule vh_keep_seq [OF count], rule vh_keep_bnd [OF keeps_on_world], rule vh_seq [OF fresh],
        rule vh_keep_seq [OF intent], rule vh_keep_seq [OF flags],
        rule vh_keeps, intro keeps_intros)
qed

definition run_shape :: "'w wenv \<Rightarrow> workflow_result \<Rightarrow> bool" where
  "run_shape W res \<longleftrightarrow> (\<exists>task n. faithful (\<lambda>v.
     going (pipeline W n) (task, n) (n, n) v \<or> ended (pipeline W n) (task, n) v) res)"

lemma halted_run_shape:
  assumes "halted L (task, n) res" and "pipeline W n = L @ M"
  shows "run_shape W res"
  unfolding run_shape_def
proof (rule exI, rule exI, rule faithful_mono [OF assms(1)], rule disjI2)
  fix v assume "ended L (task, n) v"
  then show "ended (pipeline W n) (task, n) v" unfolding assms(2) by (rule ended_mono)
qed

lemma workflow_shape: "vh (\<lambda>_. True) (workflow_execute W task) (\<lambda>res _. run_shape W res)"
proof -
  let ?P = "research_names W @ [''planner'']"
  have shape: "vh (\<lambda>v. case p of
        Inl res \<Rightarrow> halted ?P (task, 0) res
      | Inr vs \<Rightarrow> going ?P (task, length vs) (0, 0) v)
      (case p of Inl res \<Rightarrow> ret res | Inr subtasks \<Rightarrow> bnd (workflow_phases W subtasks)
         (\<lambda>r. case r of Some res \<Rightarrow> ret res | None \<Rightarrow> seq (commit_phase W) (finish W)))
      (\<lambda>res _. run_shape W res)" for p
  proof (cases p)
    case (Inl res)
    have "pipeline W 0 = ?P @ ([''git'', ''scheduler''] @ dev_names 0 0 @ after_developer W @ [''git''])"
      by (simp add: pipeline_def)
    then have "halted ?P (task, 0) res \<Longrightarrow> run_shape W res" by (rule halted_run_shape [rotated])
    then show ?thesis unfolding Inl sum.case by (rule vh_ret)
  next
    case (Inr vs)
    let ?n = "length vs"
    let ?M = "?P @ [''git'', ''scheduler''] @ dev_names 0 ?n @ after_developer W"
    have names: "pipeline W ?n = ?M @ [''git'']" by (simp add: pipeline_def)
    have early: "halted ?M (task, ?n) res \<Longrightarrow> run_shape W res" for res
      by (rule halted_run_shape [OF _ names])
    have late: "faithful (\<lambda>v. going (?M @ [''git'']) (task, ?n) (?n, ?n) v \<or> ended (?M @ [''git'']) (task, ?n) v) res
        \<Longrightarrow> run_shape W res" for res
      unfolding run_shape_def names [symmetric] by (intro exI)
    have fin: "vh (\<lambda>v. case r of None \<Rightarrow> going ?M (task, ?n) (?n, ?n) v | Some res \<Rightarrow> halted ?M (task, ?n) res)
        (case r of Some res \<Rightarrow> ret res | None \<Rightarrow> seq (commit_phase W) (finish W))
        (\<lambda>res _. run_shape W res)" for r
    proof (cases r)
      case None
      show ?thesis
        unfolding None option.case
        by (rule vh_weaken [OF vh_seq [OF vh_commit vh_finish]], assumption, rule late)
    next
      case (Some res)
      show ?thesis unfolding Some option.case by (rule vh_ret) (rule early)
    qed
    show ?thesis
      unfolding Inr sum.case
      by (rule vh_bnd [OF phase_workflow [unfolded phase_def] fin])
  qed
  show ?thesis
    unfolding workflow_execute_def
    by (rule vh_seq [OF vh_start vh_bnd [OF vh_plan shape]])
qed

end
