(* ===== verification/Boundary.thy ===== *)
theory Boundary
  imports ExecutorRetry
begin

text \<open>
  The properties of the executor, and a small concrete world to run it in: the world is a
  counter, reading the clock or drawing an identifier increments it, nobody cancels, and the
  agent of the sample requests is called \<open>git\<close>.
\<close>

section \<open>A concrete world\<close>

definition demo_env :: "nat xenv" where
  "demo_env = \<lparr>uuid4 = (\<lambda>w. (''id'', w + 1)), monotonic = (\<lambda>w. (of_nat w, w + 1)),
     sleep_for = (\<lambda>d w. w), cancel_called = (\<lambda>w. (False, w)), show_float = (\<lambda>r. ''30.0'')\<rparr>"

definition demo_executor :: executor where
  "demo_executor = \<lparr>has_bus = True, enforcer = None, executor_id = ''x''\<rparr>"

definition demo_policy :: retry_policy where
  "demo_policy = \<lparr>max_attempts = 3, base_delay = 1 / 2, retryable_codes = [RUNTIME_ERROR]\<rparr>"

definition demo_agent :: "(exn + agent_result) \<Rightarrow> nat agent" where
  "demo_agent r =
     \<lparr>a_name = ''git'',
      a_metadata = \<lparr>meta_name = ''git'', meta_version = ''1.0'', meta_timeout = Some 30,
        meta_retry_policy = Some demo_policy, allow_timeout_override = True,
        allow_retry_override = True\<rparr>,
      a_capabilities = \<lparr>permissions = [GIT]\<rparr>,
      a_execute = (\<lambda>t c w. ((1, r), w))\<rparr>"

definition demo_task :: "string \<Rightarrow> agent_task" where
  "demo_task d = \<lparr>at_description = d, at_task_type = ''code'', at_files = [], at_params = [],
     at_task_id = ''t1'', at_correlation_id = ''c1''\<rparr>"

definition demo_request :: "(exn + agent_result) \<Rightarrow> nat exec_request" where
  "demo_request r = make_request (demo_agent r) (demo_task ''commit'') False None None '''' None None"

definition demo_state :: "nat xstate" where
  "demo_state = \<lparr>x_world = 0, x_cancelled = False, x_sequence = 0, x_lc = AgentLifecycle_init,
     x_context = \<lparr>cx_intent = None, cx_research = None, cx_settable = True\<rparr>,
     x_pool_open = True, x_log = []\<rparr>"

lemma demo_plain: "plain_request (demo_request r)"
  by (simp add: plain_request_def demo_request_def make_request_def policy_ok_def request_policy_def
      demo_agent_def demo_policy_def)

lemma demo_valid: "validate_agent_task (demo_task ''commit'') = []"
  by code_simp

lemma demo_not_refused: "\<not> refused demo_executor (demo_request r)"
  using demo_valid
  by (simp add: refused_def demo_request_def make_request_def demo_executor_def
      check_capabilities_def)

lemma demo_invoke:
  "x_pool_open s \<Longrightarrow>
   invoke (demo_request r) (resolve_timeout (demo_request r)) s = (r, s\<lparr>x_world := x_world s\<rparr>)"
  by (simp add: invoke_def demo_request_def make_request_def demo_agent_def resolve_timeout_def)

lemma demo_raises: "always_raises (demo_request (Inl e)) e"
  unfolding always_raises_def using demo_invoke by blast

lemma demo_returns: "always_returns (demo_request (Inr r)) r"
  unfolding always_returns_def using demo_invoke by blast

lemma demo_never_cancelled: "never_cancelled demo_env"
  by (simp add: never_cancelled_def demo_env_def)

lemma demo_open: "x_pool_open demo_state"
  by (simp add: demo_state_def)

section \<open>Every run answers\<close>

text \<open>C1: for a request without a progress callback whose retry delay is not negative, the
  executor returns an outcome whatever the agent does (it never raises and its loop ends). The
  outcome's status is terminal and is the state the life cycle is in; the attempts lie between 1
  and the policy's maximum; the status is succeeded exactly when the outcome counts as a success;
  and every outcome that is neither succeeded nor cancelled carries an error.\<close>

theorem execute_total:
  assumes "plain_request rq"
  shows "\<exists>oc t. execute E X rq s = (Inr oc, t)
     \<and> oc_status oc \<in> set TERMINAL_STATES \<and> lc_state (x_lc t) = oc_status oc
     \<and> 1 \<le> oc_attempts oc \<and> oc_attempts oc \<le> max 1 (max_attempts_of rq)
     \<and> (oc_status oc = Succeeded \<longleftrightarrow> outcome_success oc)
     \<and> (oc_status oc \<noteq> Succeeded \<and> oc_status oc \<noteq> Cancelled \<longrightarrow> oc_error oc \<noteq> None)"
proof -
  obtain oc t where r: "execute E X rq s = (Inr oc, t)"
    and p: "run_post X (x_log s) 1 (max 1 (max_attempts_of rq)) oc t"
    using execute_run_post [of rq E X s] assms by (auto simp: plain_request_def)
  then show ?thesis
    using agent_executor.run_success [OF assms r]
    by (auto simp: run_post_def run_inv_def)
qed

theorem execute_total_witness:
  "plain_request (demo_request (Inl (Exn RuntimeError ''boom'')))
   \<and> max_attempts_of (demo_request (Inl (Exn RuntimeError ''boom''))) = 3
   \<and> (\<exists>oc t. execute demo_env demo_executor (demo_request (Inl (Exn RuntimeError ''boom'')))
        demo_state = (Inr oc, t) \<and> oc_status oc \<in> set TERMINAL_STATES \<and> oc_attempts oc \<le> 3)"
proof -
  let ?rq = "demo_request (Inl (Exn RuntimeError ''boom''))"
  have m: "max_attempts_of ?rq = 3"
    by (simp add: max_attempts_of_def request_policy_def demo_request_def make_request_def
        demo_agent_def demo_policy_def)
  show ?thesis
    using execute_total [OF demo_plain, of demo_env demo_executor "Inl (Exn RuntimeError ''boom'')"
        demo_state] demo_plain
    unfolding m by auto
qed

section \<open>The event stream\<close>

text \<open>C4: the events a run adds to the bus are numbered 1, 2, 3, ... without gaps or repeats, and
  its life cycle events are the initialization event created -> created followed by a path of the
  transition relation that ends in the outcome's status.\<close>

theorem execute_event_stream:
  assumes "plain_request rq" and "has_bus X" and "execute E X rq s = (Inr oc, t)"
  shows "\<exists>evs ps. x_log t = x_log s @ evs
     \<and> sequences evs = map int [1..<Suc (length (sequences evs))]
     \<and> timeline evs = (''created'', ''created'') # ps
     \<and> lifecycle_path Created ps (oc_status oc)"
  using execute_answer_post [OF assms(1,3)] assms(2)
  by (auto simp: run_post_def run_inv_def run_stream_def numbered_from_1_def)

theorem execute_event_stream_witness:
  "\<exists>oc t evs ps. execute demo_env demo_executor (demo_request (Inr AgentResult_default)) demo_state
     = (Inr oc, t) \<and> x_log t = evs \<and> timeline evs = (''created'', ''created'') # ps
     \<and> lifecycle_path Created ps (oc_status oc)"
proof -
  obtain oc t where r: "execute demo_env demo_executor (demo_request (Inr AgentResult_default))
      demo_state = (Inr oc, t)"
    using execute_run_post [of "demo_request (Inr AgentResult_default)" demo_env demo_executor
        demo_state] demo_plain [of "Inr AgentResult_default"] by (auto simp: plain_request_def)
  have "has_bus demo_executor" by (simp add: demo_executor_def)
  from execute_event_stream [OF demo_plain this r] r show ?thesis
    by (auto simp: demo_state_def)
qed

section \<open>Refusal\<close>


definition demo_blank :: "nat exec_request" where
  "demo_blank = make_request (demo_agent (Inr AgentResult_default)) (demo_task ''  '') False None
     None '''' None None"


section \<open>Retries\<close>

text \<open>C6: an accepted request whose agent raises the same exception at every invocation, with
  nobody cancelling, ends timed out (for a \<open>TimeoutError\<close>) or failed, reporting that exception. It
  is attempted as often as the policy's maximum says if the error is transient and its code is
  one the policy retries, and exactly once otherwise.\<close>

theorem retry_exhausts:
  assumes "\<not> refused X rq" and "plain_request rq" and "never_cancelled E"
    and "always_raises rq e" and "x_pool_open s"
  shows "\<exists>oc t. execute E X rq s = (Inr oc, t) \<and> oc_status oc = caught_state e
     \<and> oc_error oc = Some (caught_error E rq e) \<and> oc_result oc = None
     \<and> oc_attempts oc =
         (case request_policy rq of None \<Rightarrow> 1
          | Some p \<Rightarrow> if retryable (caught_error E rq e) \<and>
                err_code (caught_error E rq e) \<in> set (retryable_codes p)
              then max 1 (max_attempts p) else 1)"
  using execute_exhausts [OF assms]
  by (auto simp: exhausted_def retried_failure_def max_attempts_of_def split: option.splits if_splits)

theorem retry_exhausts_witness:
  "\<exists>oc t. execute demo_env demo_executor (demo_request (Inl (Exn RuntimeError ''boom'')))
     demo_state = (Inr oc, t) \<and> oc_status oc = Failed \<and> oc_attempts oc = 3"
  using retry_exhausts [OF demo_not_refused demo_plain demo_never_cancelled demo_raises demo_open,
      of "Exn RuntimeError ''boom''"]
  by (simp add: caught_state_def caught_error_def retryable_def request_policy_def demo_request_def
      make_request_def demo_agent_def demo_policy_def) auto

section \<open>Results\<close>

text \<open>C21: a result the agent returns ends the run at its first attempt, good or bad: a failing
  result is never retried, whatever its error code. The outcome carries the agent's verdict,
  output and errors, and a failing result without an error object is given one.\<close>

theorem result_never_retried:
  assumes "\<not> refused X rq" and "plain_request rq" and "never_cancelled E"
    and "always_returns rq r" and "x_pool_open s"
  shows "\<exists>oc t r'. execute E X rq s = (Inr oc, t) \<and> oc_attempts oc = 1 \<and> \<not> oc_retried oc
     \<and> oc_status oc = (if res_success r then Succeeded else Failed)
     \<and> oc_result oc = Some r' \<and> res_success r' = res_success r
     \<and> res_output r' = res_output r \<and> res_errors r' = res_errors r
     \<and> oc_error oc = (if res_success r then None else Some (result_error r))"
  using execute_returns [OF assms] by (auto simp: returned_def)

theorem result_never_retried_witness:
  "\<exists>oc t. execute demo_env demo_executor (demo_request (Inr (base_failure ''no'' RUNTIME_ERROR)))
     demo_state = (Inr oc, t) \<and> oc_status oc = Failed \<and> oc_attempts oc = 1"
  using result_never_retried
      [OF demo_not_refused demo_plain demo_never_cancelled demo_returns demo_open,
       of "base_failure ''no'' RUNTIME_ERROR"]
  by (auto simp: base_failure_def)

section \<open>A callback that raises\<close>

text \<open>A progress callback that raises when it is told of the success.\<close>

definition picky_progress :: "pyval \<Rightarrow> nat \<Rightarrow> (exn + unit) \<times> nat" where
  "picky_progress v w =
     (case v of PDict d \<Rightarrow>
        if map_of d ''status'' = Some (PStr ''succeeded'')
        then (Inl (Exn RuntimeError ''closed''), w) else (Inr (), w)
      | _ \<Rightarrow> (Inr (), w))"

definition picky_request :: "nat exec_request" where
  "picky_request = make_request (demo_agent (Inr AgentResult_default)) (demo_task ''commit'') False
     None (Some RetryPolicy_default) '''' (Some picky_progress) None"

text \<open>The publication of the terminal events is inside the \<open>try\<close> that guards the agent, so a
  progress callback that raises on the success makes the executor look for a state to fail in
  after the run has succeeded; it has none, and \<open>execute\<close> raises \<open>LifecycleError\<close> instead of
  answering.\<close>

theorem raising_callback_escapes:
  "fst (execute demo_env demo_executor picky_request demo_state) =
     Inl (Exn LifecycleError ''Invalid transition: succeeded -> failed'')"
  by code_simp

end
