(* ===== verification/Pipeline.thy ===== *)
theory Pipeline
  imports WorkflowProps Boundary StrProps
begin

text \<open>
  The properties of the workflow engine: the order of the pipeline, the no-op check, what a
  crashing gate and a crashing tester do to a run, and the branch names.
\<close>

section \<open>Small facts\<close>

lemma strip_char_sub: "set (strip_char c s) \<subseteq> set s"
  by (auto simp: strip_char_def dest!: set_dropWhileD)

lemma hd_dropWhile_no: "dropWhile (\<lambda>d. d = c) s \<noteq> [] \<Longrightarrow> hd (dropWhile (\<lambda>d. d = c) s) \<noteq> c"
  using hd_dropWhile [of "\<lambda>d. d = c" s] by blast

lemma strip_char_last:
  assumes "strip_char c s \<noteq> []" shows "last (strip_char c s) \<noteq> c"
  using assms unfolding strip_char_def by (simp add: last_rev hd_dropWhile_no)

lemma strip_char_hd:
  assumes "strip_char c s \<noteq> []" shows "hd (strip_char c s) \<noteq> c"
proof -
  let ?d = "dropWhile (\<lambda>d. d = c) s"
  obtain p where "?d = strip_char c s @ p"
    using dropWhile_rev_prefix [of ?d "\<lambda>d. d = c"] unfolding strip_char_def by blast
  with assms show ?thesis using hd_dropWhile_no [of c s] by (cases "strip_char c s") auto
qed

lemma strip_char_length: "length (strip_char c s) \<le> length s"
  unfolding strip_char_def
  by (simp add: length_dropWhile_le le_trans [OF length_dropWhile_le])

lemma slugify_chars: "x \<in> set (slugify s) \<Longrightarrow> is_slug_char x \<or> x = CHR ''-''"
  by (induction s rule: slugify.induct) (auto split: if_splits list.splits)

lemma dash_not_slug: "\<not> is_slug_char (CHR ''-'')"
  by (simp add: is_slug_char_def is_lower_ascii_def is_digit_def)

section \<open>Branch names\<close>

definition branch_slug :: "string \<Rightarrow> string" where
  "branch_slug goal = (let slug = strip_char (CHR ''-'')
      (take 50 (strip_char (CHR ''-'') (slugify (lower goal)))) in if slug = [] then ''task'' else slug)"

lemma build_branch_slug:
  "build_branch rid goal = ''feature/'' @ branch_slug goal @ ''-'' @ str_of_int rid"
  by (simp add: build_branch_def branch_slug_def Let_def)

lemma branch_slug_length: "length (branch_slug goal) \<le> 50"
proof -
  have "length (strip_char (CHR ''-'') (take 50 t)) \<le> 50" for t :: string
    using strip_char_length [of "CHR ''-''" "take 50 t"] by simp
  then show ?thesis by (simp add: branch_slug_def Let_def)
qed

lemma branch_slug_chars: "list_all (\<lambda>c. is_slug_char c \<or> c = CHR ''-'') (branch_slug goal)"
proof -
  have "set (strip_char (CHR ''-'') (take 50 (strip_char (CHR ''-'') (slugify t)))) \<subseteq> set (slugify t)" for t
    by (meson strip_char_sub set_take_subset subset_trans)
  moreover have "list_all (\<lambda>c. is_slug_char c \<or> c = CHR ''-'') ''task''"
    by (simp add: is_slug_char_def is_lower_ascii_def)
  ultimately show ?thesis
    using slugify_chars unfolding branch_slug_def Let_def by (simp add: list_all_iff) blast
qed

lemma branch_slug_ends:
  "branch_slug goal \<noteq> [] \<and> hd (branch_slug goal) \<noteq> CHR ''-'' \<and> last (branch_slug goal) \<noteq> CHR ''-''"
  using strip_char_hd strip_char_last by (simp add: branch_slug_def Let_def)

lemma last_dash_splits:
  assumes "a @ [x] @ d = b @ [x] @ e" and "x \<notin> set d" and "x \<notin> set e"
  shows "d = e"
proof -
  have "takeWhile (\<lambda>c. c \<noteq> x) (rev (a @ [x] @ d)) = rev d" if "x \<notin> set d" for a d
    using that by (auto simp: takeWhile_tail takeWhile_eq_all_conv)
  then show ?thesis using assms by (metis rev_rev_ident)
qed

lemma dash_not_digit: "CHR ''-'' \<notin> set (digits n)"
  using digits_are_digits [of "CHR ''-''" n] by (auto simp: is_digit_def)

lemma branch_run_id:
  assumes "build_branch r1 g1 = build_branch r2 g2" and "0 \<le> r1" and "0 \<le> r2"
  shows "r1 = r2"
proof -
  have "branch_slug g1 @ [CHR ''-''] @ digits (nat r1) = branch_slug g2 @ [CHR ''-''] @ digits (nat r2)"
    using assms by (simp add: build_branch_slug str_of_int_def)
  from last_dash_splits [OF this dash_not_digit dash_not_digit] assms(2,3)
  show ?thesis by (metis digits_inject eq_nat_nat_iff)
qed

text \<open>The branch of a run is \<open>feature/\<close>, a slug and the run number. The slug has 1 to 50
  characters, lower-case letters, digits and dashes only, and neither starts nor ends with a dash,
  whatever the goal is. The run number can be read off the branch: two runs of different numbers
  never share a branch, whatever their goals.\<close>

theorem branch_names:
  assumes "0 \<le> r1" and "0 \<le> r2"
  shows "(\<exists>slug. build_branch r1 g1 = ''feature/'' @ slug @ ''-'' @ str_of_int r1
       \<and> slug \<noteq> [] \<and> length slug \<le> 50 \<and> hd slug \<noteq> CHR ''-'' \<and> last slug \<noteq> CHR ''-''
       \<and> list_all (\<lambda>c. is_slug_char c \<or> c = CHR ''-'') slug)
     \<and> (build_branch r1 g1 = build_branch r2 g2 \<longrightarrow> r1 = r2)"
  using build_branch_slug branch_slug_length branch_slug_chars branch_slug_ends
    branch_run_id [OF _ assms] by blast

theorem branch_names_witness:
  "build_branch 1 ''Fix: the Parser!'' = ''feature/fix-the-parser-1''
   \<and> build_branch 1 ''Fix: the Parser!'' \<noteq> build_branch 2 ''Fix: the Parser!''"
proof -
  have "build_branch 1 ''Fix: the Parser!'' = ''feature/fix-the-parser-1''" by code_simp
  then show ?thesis
    using branch_names [of 1 2 "''Fix: the Parser!''" "''Fix: the Parser!''"] by auto
qed

section \<open>The order of the stages\<close>

lemma faithful_cases:
  assumes "run_shape W res"
  shows "(wr_success res \<and> wr_errors res = []
       \<and> map sg_name (wr_stages res) = pipeline W (wr_subtasks res)
       \<and> wr_completed res = wr_subtasks res
       \<and> list_all (\<lambda>st. sg_success st \<or> tolerated (sg_name st)) (wr_stages res))
     \<or> (\<not> wr_success res \<and> length (wr_errors res) = 1
       \<and> (\<exists>us st rest. wr_stages res = us @ [st]
         \<and> list_all (\<lambda>st. sg_success st \<or> tolerated (sg_name st)) us
         \<and> (pipeline W (wr_subtasks res) = map sg_name us @ sg_name st # rest
            \<or> sg_name st = ''developer:noop'' \<and> pipeline W (wr_subtasks res) = map sg_name us @ rest)))"
proof -
  obtain task n task' k where
    v: "going (pipeline W n) (task, n) (n, n) (result_view task' k res) \<or>
        ended (pipeline W n) (task, n) (result_view task' k res)"
    and ok: "wr_success res \<longleftrightarrow> wr_errors res = []"
    using assms unfolding run_shape_def faithful_def by blast
  from v show ?thesis
  proof
    assume "going (pipeline W n) (task, n) (n, n) (result_view task' k res)"
    then show ?thesis
      using ok by (auto simp: going_def result_view_def stage_view_def comp_def list_all_iff)
  next
    assume "ended (pipeline W n) (task, n) (result_view task' k res)"
    then obtain us st e c R where
      r: "result_view task' k res = (us @ [st], [e], (task, n), c)"
        "pipeline W n = map fst us @ fst st # R \<or>
           fst st = ''developer:noop'' \<and> pipeline W n = map fst us @ R"
        "\<forall>x \<in> set us. snd x \<or> tolerated (fst x)"
      unfolding ended_def by blast
    from r(1) have e: "map stage_view (wr_stages res) = us @ [st]" "wr_errors res = [e]"
      "wr_subtasks res = n" by (simp_all add: result_view_def)
    from e(1) obtain us' st' where s: "wr_stages res = us' @ [st']" "map stage_view us' = us"
      "stage_view st' = st" by (auto simp: map_eq_append_conv)
    have "list_all (\<lambda>st. sg_success st \<or> tolerated (sg_name st)) us'"
      using r(3) s(2) by (auto simp: stage_view_def list_all_iff)
    then show ?thesis using r(2) e s ok by (auto simp: stage_view_def comp_def)
  qed
qed

text \<open>A run of one coding subtask with the required agents, a tester and a git agent whose query for
  changed files answers \<open>files\<close>.\<close>

definition demo_result :: "string \<Rightarrow> agent_result" where
  "demo_result out = AgentResult_default\<lparr>res_output := out\<rparr>"

definition demo_json :: "string \<Rightarrow> pyval option" where
  "demo_json t = (if t = ''plan'' then Some (PDict [(''subtasks'', PList [PDict
     [(''description'', PStr ''write it''), (''type'', PStr ''code'')]])])
     else if t = ''report'' then Some (PDict [(''passed'', PInt 2), (''failed'', PInt 0)]) else None)"

definition demo_wenv :: "(exn + agent_result) \<Rightarrow> nat wenv" where
  "demo_wenv tester =
     \<lparr>we_env = demo_env, we_exec = demo_executor, we_kanban = demo_kanban,
      we_planner = demo_agent (Inr (demo_result ''plan'')),
      we_developer = demo_agent (Inr (demo_result ''done'')),
      we_reviewer = demo_agent (Inr (demo_result '''')),
      we_research = None, we_tester = Some (demo_agent tester),
      we_documentation = None, we_git = None, we_json = demo_json,
      we_now = (\<lambda>w. (''now'', w + 1)), we_project = ''/p'', we_has_tests = (\<lambda>w. True),
      we_git_changes = (\<lambda>w. (Inr [], w)), we_quality = None, we_gates = None,
      we_code_gate = (\<lambda>gi w. ((0, Inr (gate_answer Passed '''')), w)),
      we_security_gate = (\<lambda>gi w. ((0, Inr (gate_answer Passed '''')), w)),
      we_documentation_gate = (\<lambda>gi w. ((0, Inr (gate_answer Passed '''')), w)),
      we_bus = True, we_context = False, we_on_stage = None,
      we_commit_message = default_commit_message, we_create_branch = True,
      we_show = (\<lambda>v. '''')\<rparr>"

definition demo_core_task :: core_task where
  "demo_core_task = \<lparr>ct_description = ''write it'', ct_task_type = ''code'', ct_files = []\<rparr>"

definition blank_context :: workflow_context where
  "blank_context = \<lparr>wc_task = demo_core_task, wc_run_id = 0, wc_goal = '''', wc_started = '''',
     wc_plan = None, wc_branch = None, wc_board = None, wc_cards = [], wc_review = None,
     wc_tests = None, wc_commit = None, wc_research = None, wc_stages = [], wc_errors = [],
     wc_completed = 0, wc_subtasks = 0, wc_quality = False, wc_intent = None, wc_finished = None,
     wc_changed = [], wc_produced = False\<rparr>"

definition demo_wstate :: "nat wstate" where
  "demo_wstate = \<lparr>ws_x = demo_state, ws_kanban = empty_kanban, ws_counter = 0, ws_log = [],
     ws_ctx = blank_context\<rparr>"

definition answer_names :: "exn + workflow_result \<Rightarrow> (bool \<times> string list) option" where
  "answer_names r = (case r of Inl e \<Rightarrow> None
     | Inr res \<Rightarrow> Some (wr_success res, map sg_name (wr_stages res)))"

text \<open>One run of a sample agent: everything but the executor's own state is kept.\<close>

lemma run_agent_answers:
  assumes "execute (we_env W) (we_exec W) (make_request ag t b None None '''' None
      (if b then cx_intent (x_context (ws_x s)) else None)) (ws_x s) = (Inr oc, x)"
  shows "run_agent W ag t b s = (Inr (outcome_result (a_name ag) t oc), s\<lparr>ws_x := x\<rparr>)"
  using assms by (simp add: run_agent_def on_exec_def py_run)

definition demo_run_request :: "(exn + agent_result) \<Rightarrow> agent_task \<Rightarrow> nat exec_request" where
  "demo_run_request r t = make_request (demo_agent r) t False None None '''' None None"

lemma demo_run_facts:
  assumes "validate_agent_task t = []"
  shows "\<not> refused demo_executor (demo_run_request r t)" and "plain_request (demo_run_request r t)"
    and "r = Inl e \<Longrightarrow> always_raises (demo_run_request r t) e"
    and "r = Inr v \<Longrightarrow> always_returns (demo_run_request r t) v"
proof -
  show "\<not> refused demo_executor (demo_run_request r t)"
    using assms by (simp add: refused_def demo_run_request_def make_request_def demo_executor_def
      check_capabilities_def)
  show "plain_request (demo_run_request r t)"
    by (simp add: plain_request_def demo_run_request_def make_request_def policy_ok_def
      request_policy_def demo_agent_def demo_policy_def)
  have i: "x_pool_open s \<Longrightarrow> invoke (demo_run_request r t) (resolve_timeout (demo_run_request r t)) s
      = (r, s\<lparr>x_world := x_world s\<rparr>)" for s
    by (simp add: invoke_def demo_run_request_def make_request_def demo_agent_def resolve_timeout_def)
  show "r = Inl e \<Longrightarrow> always_raises (demo_run_request r t) e"
    unfolding always_raises_def using i by blast
  show "r = Inr v \<Longrightarrow> always_returns (demo_run_request r t) v"
    unfolding always_returns_def using i by blast
qed

lemma demo_agent_run:
  assumes "we_env W = demo_env" and "we_exec W = demo_executor" and "x_pool_open (ws_x s)"
    and "validate_agent_task t = []"
  shows "\<exists>x r'. run_agent W (demo_agent (Inr r)) t False s = (Inr r', s\<lparr>ws_x := x\<rparr>)
    \<and> res_success r' = res_success r \<and> res_output r' = res_output r"
proof -
  note f = demo_run_facts [OF assms(4)]
  obtain oc x where e: "execute demo_env demo_executor (demo_run_request (Inr r) t) (ws_x s) = (Inr oc, x)"
    and "\<exists>r'. oc_result oc = Some r' \<and> res_success r' = res_success r
      \<and> res_output r' = res_output r"
    using execute_returns [OF f(1,2) demo_never_cancelled f(4) assms(3), of "Inr r" r]
    by (auto simp: returned_def)
  then obtain r' where "oc_result oc = Some r'" "res_success r' = res_success r"
      "res_output r' = res_output r" by blast
  then show ?thesis
    using run_agent_answers [of W "demo_agent (Inr r)" t False s oc x] e assms(1,2)
    by (auto simp: outcome_result_def demo_run_request_def)
qed

lemma demo_agent_runs:
  assumes "we_env W = demo_env" and "we_exec W = demo_executor"
  obtains x r' where
    "\<And>s t. x_pool_open (ws_x s) \<Longrightarrow> validate_agent_task t = [] \<Longrightarrow>
       run_agent W (demo_agent (Inr r)) t False s = (Inr (r' s t), s\<lparr>ws_x := x s t\<rparr>)"
    "\<And>s t. x_pool_open (ws_x s) \<Longrightarrow> validate_agent_task t = [] \<Longrightarrow>
       res_success (r' s t) = res_success r \<and> res_output (r' s t) = res_output r"
proof -
  have "\<forall>s t. \<exists>x r'. x_pool_open (ws_x s) \<and> validate_agent_task t = [] \<longrightarrow>
      run_agent W (demo_agent (Inr r)) t False s = (Inr r', s\<lparr>ws_x := x\<rparr>)
      \<and> res_success r' = res_success r \<and> res_output r' = res_output r"
    using demo_agent_run [OF assms] by metis
  then show thesis using that by metis
qed

lemma publish_quality_answers: "fst (publish_quality W topic p s) = Inr ()"
  by (simp add: publish_quality_def py_run)

lemma demo_task_valid:
  assumes "tid \<noteq> []" shows "validate_agent_task (from_task tid demo_core_task) = []"
proof -
  have "validate_agent_task (from_task tid demo_core_task) =
      validate_agent_task (from_task ''1'' demo_core_task)"
    using assms by (simp add: validate_agent_task_def from_task_def)
  also have "\<dots> = []" by code_simp
  finally show ?thesis .
qed

text \<open>The sample run whose planner fails.\<close>

definition demo_no_plan :: "nat wenv" where
  "demo_no_plan = (demo_wenv (Inr (demo_result '''')))
     \<lparr>we_planner := demo_agent (Inr (base_failure ''no plan'' VALIDATION_ERROR))\<rparr>"

lemma demo_no_plan_runs:
  "\<exists>res t. workflow_execute demo_no_plan demo_core_task demo_wstate = (Inr res, t)"
proof -
  have W: "we_env demo_no_plan = demo_env" "we_exec demo_no_plan = demo_executor"
    "we_planner demo_no_plan = demo_agent (Inr (base_failure ''no plan'' VALIDATION_ERROR))"
    "we_research demo_no_plan = None" "we_context demo_no_plan = False"
    "we_on_stage demo_no_plan = None" "workflow_gates demo_no_plan = []"
    by (simp_all add: demo_no_plan_def demo_wenv_def workflow_gates_def quality_active_def)
  obtain x r' where
    run: "\<And>s t. x_pool_open (ws_x s) \<Longrightarrow> validate_agent_task t = [] \<Longrightarrow>
       run_agent demo_no_plan (demo_agent (Inr (base_failure ''no plan'' VALIDATION_ERROR))) t False s
         = (Inr (r' s t), s\<lparr>ws_x := x s t\<rparr>)"
    and res: "\<And>s t. x_pool_open (ws_x s) \<Longrightarrow> validate_agent_task t = [] \<Longrightarrow>
       \<not> res_success (r' s t)"
    by (rule demo_agent_runs [OF W(1,2), of "base_failure ''no plan'' VALIDATION_ERROR"])
       (simp add: base_failure_def)
  show ?thesis
    by (simp add: workflow_execute_def start_run_def plan_phase_def W py_run on_world_def on_exec_def
        draw_def demo_env_def set_ctx_def get_ctx_def apply_workflow_intent_def add_stage_def
        notify_stage_def fail_run_def add_error_def finish_def run res demo_task_valid
        demo_wstate_def demo_state_def blank_context_def Let_def case_prod_unfold
        publish_quality_answers
        split: prod.splits sum.splits)
qed



section \<open>The no-op check\<close>

definition ends :: "string list \<Rightarrow> core_task \<times> nat \<Rightarrow> workflow_result option \<Rightarrow> bool" where
  "ends F n r \<longleftrightarrow> (\<exists>res. r = Some res \<and> halted F n res)"

lemma vh_then_ends:
  assumes "phase p L n c M c'" and "vh (going (L @ M) n c') q (\<lambda>r _. ends (L @ M @ M') n r)"
  shows "vh (going L n c) (then_phase p q) (\<lambda>r _. ends (L @ M @ M') n r)"
  unfolding then_phase_def
proof (rule vh_bnd [OF assms(1) [unfolded phase_def]])
  fix r
  show "vh (\<lambda>v. case r of None \<Rightarrow> going (L @ M) n c' v | Some res \<Rightarrow> halted (L @ M) n res)
      (case r of Some res \<Rightarrow> ret (Some res) | None \<Rightarrow> q) (\<lambda>r _. ends (L @ M @ M') n r)"
  proof (cases r)
    case None
    then show ?thesis using assms(2) by simp
  next
    case (Some res)
    show ?thesis
      unfolding Some option.case
      by (rule vh_ret) (use halted_mono [of "L @ M" n _ M'] in \<open>auto simp: ends_def\<close>)
  qed
qed

lemma vh_ends_then:
  assumes "vh P p (\<lambda>r _. ends F n r)"
  shows "vh P (then_phase p q) (\<lambda>r _. ends F n r)"
  unfolding then_phase_def
proof (rule vh_bnd [OF assms])
  fix r
  show "vh (\<lambda>_. ends F n r) (case r of Some res \<Rightarrow> ret (Some res) | None \<Rightarrow> q) (\<lambda>r _. ends F n r)"
    by (cases r) (auto simp: ends_def vh_def hoare_def ret_run)
qed

definition quiet_tree :: "'w wenv \<Rightarrow> string list \<Rightarrow> bool" where
  "quiet_tree W fs \<longleftrightarrow> we_git W \<noteq> None \<and> (\<forall>w. fst (we_git_changes W w) = Inr fs)"

lemma vh_changed_files:
  assumes "quiet_tree W fs"
  shows "vh P (changed_files W) (\<lambda>x v. P v \<and> x = fs)"
proof -
  have "fst (changed_files W s) = Inr fs" for s
    using assms by (simp add: quiet_tree_def changed_files_def on_world_def on_exec_def draw_def py_run
        case_prod_unfold Let_def)
  moreover have "view (snd (changed_files W s)) = view s" for s
    using keeps_changed_files [of W] by (simp add: keeps_def)
  ultimately show ?thesis
    unfolding vh_def by (intro hoareI) (auto split: sum.splits prod.splits, (metis fst_conv snd_conv Inr_inject)+)
qed

lemma nothing_produced: "compute_produced_files fs fs = []"
proof -
  have "filter (\<lambda>f. f \<notin> set fs) fs = []" by (simp add: filter_empty_conv)
  then show ?thesis by (simp add: compute_produced_files_def)
qed

lemma vh_getctx: "vh P (get_ctx (\<lambda>c. c)) (\<lambda>c v. P v \<and> v = ctx_view c)"
  unfolding vh_def get_ctx_def by (rule hoare_gets) simp

lemma vh_delta_noop:
  assumes "quiet_tree W fs" and "is_implementation_task task"
  shows "vh (going L (task, n) c) (delta_phase W fs) (\<lambda>r _. ends (L @ M) (task, n) r)"
proof -
  have frame: "keeps (set_ctx (\<lambda>c. c\<lparr>wc_changed := p, wc_produced := b,
      wc_stages := map (with_files p) (wc_stages c)\<rparr>))" for p b
    by (rule keeps_set_ctx) (simp add: ctx_view_def comp_def)
  have blk: "keeps (if b then ret () else bnd (on_board m) (\<lambda>_. ret ()))" for b m
    by (intro keeps_intros)
  have stop: "vh (going L (task, n) c) (seq (add_stage W \<lparr>sg_name = ''developer:noop'',
      sg_success = False, sg_error = e, sg_details = d\<rparr>) (stop_run W why))
      (\<lambda>r _. ends (L @ M) (task, n) r)" for e d why
    unfolding stop_run_def
    by (rule vh_seq [OF vh_add_stage [where Q = "\<lambda>_. failing L ''developer:noop'' (task, n)"]
          vh_bnd [OF vh_fail_noop vh_ret]])
       (auto dest: failing_stage [where st = "\<lparr>sg_name = ''developer:noop'', sg_success = False,
          sg_error = e, sg_details = d\<rparr>"] halted_mono simp: ends_def)
  have check: "vh (\<lambda>v. going L (task, n) c v \<and> v = ctx_view ctx)
      (if is_implementation_task (wc_task ctx) \<and> \<not> has_relevant_change [] then X else go_on)
      (\<lambda>r _. ends (L @ M) (task, n) r)"
    if "vh (going L (task, n) c) X (\<lambda>r _. ends (L @ M) (task, n) r)" for ctx X
  proof (cases "wc_task ctx = task")
    case True
    have "vh (\<lambda>v. going L (task, n) c v \<and> v = ctx_view ctx) X (\<lambda>r _. ends (L @ M) (task, n) r)"
      by (rule vh_pre [OF that]) simp
    then show ?thesis
      using True assms(2) by (simp add: has_relevant_change_def)
  next
    case False
    then show ?thesis
      by (auto simp: vh_def hoare_def going_def ctx_view_def)
  qed
  show ?thesis
    unfolding delta_phase_def
  proof (rule vh_bnd [OF vh_changed_files [OF assms(1)]], rule vh_given)
    fix x assume "x = fs"
    show "vh (going L (task, n) c) (let produced = compute_produced_files fs x in
     seq (set_ctx (\<lambda>c. c\<lparr>wc_changed := produced, wc_produced := has_relevant_change produced,
            wc_stages := map (with_files produced) (wc_stages c)\<rparr>))
    (bnd (get_ctx (\<lambda>c. c)) (\<lambda>c.
     if is_implementation_task (wc_task c) \<and> \<not> has_relevant_change produced
     then let why = noop_reason produced in
       seq (if wc_cards c = [] then ret ()
            else bnd (on_board (block_card (we_kanban W) (kc_id (last (wc_cards c))) why))
                   (\<lambda>_. ret ()))
      (seq (add_stage W \<lparr>sg_name = ''developer:noop'', sg_success = False, sg_error = Some why,
              sg_details = [(''changed_files'', strs produced)]\<rparr>)
           (stop_run W why))
     else go_on))) (\<lambda>r _. ends (L @ M) (task, n) r)"
      unfolding Let_def \<open>x = fs\<close> nothing_produced
      by (rule vh_keep_seq [OF frame], rule vh_bnd [OF vh_getctx], rule check,
          rule vh_keep_seq [OF blk], rule stop)
  qed
qed

lemma vh_developer_noop:
  assumes "quiet_tree W fs" and "is_implementation_task task"
  shows "vh (going L (task, n) (length vs, c)) (developer_phase W vs)
     (\<lambda>r _. ends (L @ dev_names 0 (length vs)) (task, n) r)"
proof -
  have git: "we_git W \<noteq> None" using assms(1) by (simp add: quiet_tree_def)
  have loop: "vh (going L (task, n) (length vs, c)) (then_phase (developer_loop W (length vs) 0 (zip vs cs))
      (then_phase (delta_phase W fs) (gate_phase W ''code_gate'' (ret project_input))))
      (\<lambda>r _. ends (L @ dev_names 0 (length vs)) (task, n) r)" if "length cs = length vs" for cs
  proof -
    have zip: "length (zip vs cs) = length vs" using that by simp
    have p: "phase (developer_loop W (length vs) 0 (zip vs cs)) L (task, n) (length vs, c)
        (dev_names 0 (length vs)) (length vs, c + length vs)"
      using phase_developer_loop [of W "length vs" 0 "zip vs cs" L "(task, n)" "length vs" c]
      unfolding zip .
    have d: "vh (going (L @ dev_names 0 (length vs)) (task, n) (length vs, c + length vs))
        (then_phase (delta_phase W fs) q) (\<lambda>r _. ends (L @ dev_names 0 (length vs) @ []) (task, n) r)" for q
      using vh_ends_then [OF vh_delta_noop [OF assms, of "L @ dev_names 0 (length vs)" n _ "[]"]] by simp
    show ?thesis using vh_then_ends [OF p d] by simp
  qed
  have read: "vh (going L (task, n) (length vs, c)) (get_ctx wc_cards)
      (\<lambda>cs v. going L (task, n) (length vs, c) v \<and> length cs = length vs)"
    unfolding vh_def get_ctx_def by (rule hoare_gets) (auto simp: going_def ctx_view_def)
  show ?thesis
    unfolding developer_phase_def if_P [OF git]
    by (rule vh_bnd [OF vh_changed_files [OF assms(1)]], rule vh_given, hypsubst,
        rule vh_bnd [OF read], rule vh_given, rule loop)
qed

lemma vh_workflow_noop:
  assumes "quiet_tree W fs" and "is_implementation_task task"
  shows "vh (going L (task, n) (0, 0)) (workflow_phases W vs)
     (\<lambda>r _. ends (L @ [''git'', ''scheduler''] @ dev_names 0 (length vs)) (task, n) r)"
proof -
  have dev: "vh (going ((L @ [''git'']) @ [''scheduler'']) (task, n) (length vs, 0))
      (then_phase (developer_phase W vs) q)
      (\<lambda>r _. ends ((L @ [''git'']) @ [''scheduler''] @ dev_names 0 (length vs)) (task, n) r)" for q
    using vh_ends_then [OF vh_developer_noop [OF assms, of "(L @ [''git'']) @ [''scheduler'']" n vs 0]]
    by simp
  have board: "phase (board_phase W vs) (L @ [''git'']) (task, n) (0, 0) [''scheduler''] (length vs, 0)"
    using phase_board [of W vs _ _ 0 0] by simp
  show ?thesis
    unfolding workflow_phases_def
    using vh_then_ends [OF phase_branch [of W L "(task, n)" "(0, 0)"],
      of _ "[''scheduler''] @ dev_names 0 (length vs)"] vh_then_ends [OF board dev] by simp
qed

lemma halted_no_reviewer:
  assumes "halted (research_names W @ [''planner'', ''git'', ''scheduler''] @ dev_names 0 k) n res"
  shows "\<not> wr_success res \<and> length (wr_errors res) = 1
    \<and> ''reviewer'' \<notin> set (map sg_name (wr_stages res))"
proof -
  let ?F = "research_names W @ [''planner'', ''git'', ''scheduler''] @ dev_names 0 k"
  have F: "''reviewer'' \<notin> set ?F"
    by (auto simp: research_names_def dev_names_def)
  from assms obtain task j where e: "ended ?F n (result_view task j res)"
    and ok: "wr_success res \<longleftrightarrow> wr_errors res = []" by (auto simp: faithful_def)
  from e obtain us st er c R where
    v: "result_view task j res = (us @ [st], [er], n, c)"
      "?F = map fst us @ fst st # R \<or> fst st = ''developer:noop'' \<and> ?F = map fst us @ R"
    unfolding ended_def by blast
  have "set (map fst (us @ [st])) \<subseteq> insert ''developer:noop'' (set ?F)"
  proof (cases "?F = map fst us @ fst st # R")
    case True
    show ?thesis unfolding True by auto
  next
    case False
    with v(2) have f: "?F = map fst us @ R" and "fst st = ''developer:noop''" by blast+
    then show ?thesis unfolding f by auto
  qed
  then have "''reviewer'' \<notin> set (map fst (us @ [st]))" using F by auto
  moreover have "map fst (us @ [st]) = map sg_name (wr_stages res)"
    using v(1) by (auto simp: result_view_def stage_view_def comp_def dest!: arg_cong [of _ _ "map fst"])
  ultimately have "''reviewer'' \<notin> set (map sg_name (wr_stages res))" by metis
  moreover have "wr_errors res = [er]" using v(1) by (simp add: result_view_def)
  ultimately show ?thesis using ok by simp
qed

lemma workflow_noop:
  assumes "quiet_tree W fs" and "is_implementation_task task"
  shows "vh (\<lambda>_. True) (workflow_execute W task) (\<lambda>res _. \<exists>k n.
    halted (research_names W @ [''planner'', ''git'', ''scheduler''] @ dev_names 0 k) n res)"
    (is "vh _ _ (\<lambda>res _. ?H res)")
proof -
  let ?P = "research_names W @ [''planner'']"
  have plan: "?H res" if "halted ?P (task, 0) res" for res
    using halted_mono [OF that, of "[''git'', ''scheduler''] @ dev_names 0 0"] by auto
  have stop: "vh (\<lambda>_. ends (?P @ [''git'', ''scheduler''] @ dev_names 0 (length vs)) (task, length vs) r)
      (case r of Some res \<Rightarrow> ret res | None \<Rightarrow> X) (\<lambda>res _. ?H res)" for vs :: "pyval list" and r X
  proof (cases r)
    case None
    then show ?thesis by (simp add: ends_def vh_def hoare_def)
  next
    case (Some res)
    show ?thesis unfolding Some option.case by (rule vh_ret) (auto simp: ends_def)
  qed
  have rest: "vh (\<lambda>v. case p of Inl res \<Rightarrow> halted ?P (task, 0) res
        | Inr vs \<Rightarrow> going ?P (task, length vs) (0, 0) v)
      (case p of Inl res \<Rightarrow> ret res | Inr subtasks \<Rightarrow> bnd (workflow_phases W subtasks)
         (\<lambda>r. case r of Some res \<Rightarrow> ret res | None \<Rightarrow> seq (commit_phase W) (finish W)))
      (\<lambda>res _. ?H res)" for p
  proof (cases p)
    case (Inl res)
    show ?thesis unfolding Inl sum.case by (rule vh_ret) (rule plan)
  next
    case (Inr vs)
    show ?thesis unfolding Inr sum.case by (rule vh_bnd [OF vh_workflow_noop [OF assms] stop])
  qed
  show ?thesis
    unfolding workflow_execute_def
    by (rule vh_seq [OF vh_start vh_bnd [OF vh_plan rest]])
qed


definition demo_edit :: "nat wenv" where
  "demo_edit = (demo_wenv (Inr (demo_result '''')))
     \<lparr>we_json := (\<lambda>t. Some (PDict [])), we_git := Some (demo_agent (Inr (demo_result ''''))),
      we_git_changes := (\<lambda>w. (Inr [''src/a.py''], w)), we_create_branch := False\<rparr>"

definition ready :: "nat wstate \<Rightarrow> bool" where
  "ready s \<longleftrightarrow> k_open (ws_kanban s) \<and> wc_task (ws_ctx s) = demo_core_task \<and> wc_cards (ws_ctx s) = []"

lemma demo_edit_fields:
  "we_env demo_edit = demo_env" "we_exec demo_edit = demo_executor"
  "we_planner demo_edit = demo_agent (Inr (demo_result ''plan''))"
  "we_research demo_edit = None" "we_context demo_edit = False"
  "we_on_stage demo_edit = None" "workflow_gates demo_edit = []"
  "we_create_branch demo_edit = False" "we_git demo_edit \<noteq> None"
  "we_git_changes demo_edit = (\<lambda>w. (Inr [''src/a.py''], w))"
  "json_loads demo_edit x = Inr (PDict [])"
  by (simp_all add: demo_edit_def demo_wenv_def workflow_gates_def quality_active_def json_loads_def)

lemmas run_simps = py_run on_world_def on_exec_def draw_def set_ctx_def get_ctx_def add_stage_def
  notify_stage_def Let_def case_prod_unfold

lemma demo_edit_start:
  "\<exists>s. start_run demo_edit demo_core_task demo_wstate = (Inr (), s) \<and> ready s \<and> x_pool_open (ws_x s)"
  by (simp add: start_run_def run_simps demo_edit_fields apply_workflow_intent_def ready_def
      demo_wstate_def demo_state_def empty_kanban_def)

lemma demo_edit_plan:
  assumes "ready s" and "x_pool_open (ws_x s)"
  shows "\<exists>t. plan_phase demo_edit demo_core_task s = (Inr (Inr []), t) \<and> ready t"
proof -
  obtain x r' where
    run: "\<And>s t. x_pool_open (ws_x s) \<Longrightarrow> validate_agent_task t = [] \<Longrightarrow>
       run_agent demo_edit (demo_agent (Inr (demo_result ''plan''))) t False s
         = (Inr (r' s t), s\<lparr>ws_x := x s t\<rparr>)"
    and res: "\<And>s t. x_pool_open (ws_x s) \<Longrightarrow> validate_agent_task t = [] \<Longrightarrow> res_success (r' s t)"
    by (rule demo_agent_runs [OF demo_edit_fields(1,2), of "demo_result ''plan''"])
       (simp add: demo_result_def AgentResult_default_def)
  show ?thesis
    using assms
    by (simp add: plan_phase_def run_simps demo_edit_fields demo_env_def run res demo_task_valid
        dict_get_def ready_def)
qed

lemma finish_answers: "\<exists>res t. finish W s = (Inr res, t)"
  by (simp add: finish_def run_simps publish_quality_answers split: prod.splits sum.splits)

lemma stop_answers: "\<exists>res t. stop_run W e s = (Inr (Some res), t)"
proof -
  obtain res t where "finish W (s\<lparr>ws_ctx := (ws_ctx s)\<lparr>wc_errors := wc_errors (ws_ctx s) @ [e]\<rparr>\<rparr>)
      = (Inr res, t)" using finish_answers by blast
  then show ?thesis by (simp add: stop_run_def fail_run_def add_error_def set_ctx_def py_run)
qed

lemma demo_edit_developer:
  assumes "ready s"
  shows "\<exists>res t. developer_phase demo_edit [] s = (Inr (Some res), t)"
proof -
  have changed: "changed_files demo_edit s = (Inr [''src/a.py''], s)" for s
    by (simp add: changed_files_def run_simps demo_edit_fields)
  have "\<exists>res t. delta_phase demo_edit [''src/a.py''] s = (Inr (Some res), t)"
    using assms stop_answers
    by (simp add: delta_phase_def changed bnd_run seq_run set_ctx_def get_ctx_def modify_run gets_run
        ret_run nothing_produced has_relevant_change_def is_implementation_task_def ready_def
        demo_core_task_def NON_IMPLEMENTATION_TYPES_def add_stage_def notify_stage_def demo_edit_fields
        Let_def)
  then show ?thesis
    using assms
    by (auto simp: developer_phase_def changed bnd_run get_ctx_def gets_run ready_def then_phase_def
        go_on_def ret_run demo_edit_fields split: prod.splits)
qed

lemma demo_edit_phases:
  assumes "ready s"
  shows "\<exists>res t. workflow_phases demo_edit [] s = (Inr (Some res), t)"
proof -
  have branch: "\<exists>t. branch_phase demo_edit s = (Inr None, t) \<and> ready t"
    using assms by (simp add: branch_phase_def run_simps demo_edit_fields go_on_def ready_def)
  have board: "\<exists>t. board_phase demo_edit [] s = (Inr None, t) \<and> ready t" if "ready s" for s
    using that by (simp add: board_phase_def run_simps demo_edit_fields go_on_def ready_def on_board_def
        store_create_board_def now_iso_def require_open_def)
  from branch board demo_edit_developer show ?thesis
    unfolding workflow_phases_def then_phase_def by (fastforce simp: bnd_run ret_run)
qed

lemma demo_edit_runs: "\<exists>res t. workflow_execute demo_edit demo_core_task demo_wstate = (Inr res, t)"
proof -
  obtain s1 where "start_run demo_edit demo_core_task demo_wstate = (Inr (), s1)" "ready s1"
    "x_pool_open (ws_x s1)" using demo_edit_start by blast
  moreover from this obtain s2 where
    "plan_phase demo_edit demo_core_task s1 = (Inr (Inr []), s2)" "ready s2"
    using demo_edit_plan by blast
  moreover from this obtain res t where "workflow_phases demo_edit [] s2 = (Inr (Some res), t)"
    using demo_edit_phases by blast
  ultimately show ?thesis by (simp add: workflow_execute_def bnd_run seq_run ret_run)
qed


section \<open>Gates that crash\<close>

definition gate_crashes :: "rat \<times> (exn + gate_result) \<Rightarrow> bool" where
  "gate_crashes answer \<longleftrightarrow> fst answer > 30 \<or> (\<exists>e. snd answer = Inl e)"

lemma gate_outcome_crash: "gate_crashes a \<Longrightarrow> gr_status (gate_outcome a) = Errored"
  by (cases a) (auto simp: gate_crashes_def gate_outcome_def Let_def)

lemma gate_blocked_crash: "gate_crashes a \<Longrightarrow> gate_blocked W name (gate_outcome a)"
  by (simp add: gate_blocked_def gate_outcome_crash)

lemma publish_quality_context: "ws_ctx (snd (publish_quality W topic p s)) = ws_ctx s"
  by (simp add: publish_quality_def py_run Let_def)

lemma publish_quality_run:
  "publish_quality W topic p s = (Inr (), snd (publish_quality W topic p s))"
  by (simp add: prod_eq_iff publish_quality_answers)

definition gate_fails :: "string \<Rightarrow> 'w wstate \<Rightarrow> 'w wstate \<Rightarrow> bool" where
  "gate_fails name s t \<longleftrightarrow> (\<exists>st e.
     wc_stages (ws_ctx t) = wc_stages (ws_ctx s) @ [st] \<and> sg_name st = name \<and> \<not> sg_success st
     \<and> wc_errors (ws_ctx t) = wc_errors (ws_ctx s) @ [e])"

lemma on_world_context:
  "\<exists>x t. on_world f s = (Inr x, t) \<and> x = fst (f (x_world (ws_x s))) \<and> ws_ctx t = ws_ctx s"
  by (simp add: on_world_def on_exec_def draw_def case_prod_unfold Let_def)

lemma run_gate_crash:
  assumes "map_of (workflow_gates W) name = Some gate" and "we_on_stage W = None"
    and "\<And>w. gate_crashes (fst (gate gi w))"
  shows "\<exists>t. run_gate W name gi s = (Inr False, t) \<and> gate_fails name s t"
proof -
  have pub: "\<exists>t. publish_quality W topic p s = (Inr (), t) \<and> ws_ctx t = ws_ctx s" for topic p s
    using publish_quality_run publish_quality_context by metis
  note draw = on_world_context
  obtain s1 where s1: "publish_quality W ''quality.gate_started'' [(''gate'', PStr name)] s = (Inr (), s1)"
    "ws_ctx s1 = ws_ctx s" using pub by blast
  obtain t0 s2 where s2: "on_world (monotonic (we_env W)) s1 = (Inr t0, s2)" "ws_ctx s2 = ws_ctx s1"
    using draw [of "monotonic (we_env W)" s1] by metis
  obtain a s3 where s3: "on_world (gate gi) s2 = (Inr a, s3)" "gate_crashes a" "ws_ctx s3 = ws_ctx s2"
    using draw [of "gate gi" s2] assms(3) by metis
  obtain t1 s4 where s4: "on_world (monotonic (we_env W)) s3 = (Inr t1, s4)" "ws_ctx s4 = ws_ctx s3"
    using draw [of "monotonic (we_env W)" s3] by metis
  obtain s5 where s5: "publish_quality W ''quality.gate_blocked''
      (gate_payload W name ((t1 - t0) * 1000) (gate_outcome a)) s4 = (Inr (), s5)" "ws_ctx s5 = ws_ctx s4"
    using pub by blast
  show ?thesis
    using s1 s2 s3 s4 s5 gate_blocked_crash [OF s3(2), of W name] assms(1,2)
    by (simp add: run_gate_def Let_def bnd_run seq_run add_stage_def notify_stage_def set_ctx_def
        modify_run ret_run add_error_def gate_fails_def)
qed

lemma finish_result: "\<exists>res t. finish W s = (Inr res, t) \<and> wr_errors res = wc_errors (ws_ctx s)
  \<and> (wr_success res \<longleftrightarrow> wc_errors (ws_ctx s) = [])"
  by (simp add: finish_def run_simps publish_quality_answers publish_quality_context
      result_from_context_def enrich_stages_def split: prod.splits sum.splits option.splits)


definition demo_quality :: "nat wenv" where
  "demo_quality = (demo_wenv (Inr (demo_result '''')))
     \<lparr>we_quality := Some \<lparr>qc_enabled = True, qc_environment = ''dev'', qc_policy = DEFAULT_POLICY,
        qc_overrides = []\<rparr>,
      we_code_gate := (\<lambda>gi w. ((1, Inl (Exn RuntimeError ''ruff not found'')), w))\<rparr>"


section \<open>A tester that crashes\<close>

definition tester_task :: "'w wenv \<Rightarrow> string \<Rightarrow> agent_task" where
  "tester_task W tid = \<lparr>at_description = ''run test suite'', at_task_type = ''test'', at_files = [],
     at_params = [(''target'', PStr (we_project W @ ''/tests'')), (''dry_run'', PBool False)],
     at_task_id = tid, at_correlation_id = ''''\<rparr>"

abbreviation tester_request :: "'w wenv \<Rightarrow> 'w agent \<Rightarrow> string \<Rightarrow> 'w exec_request" where
  "tester_request W tester tid \<equiv> make_request tester (tester_task W tid) False None None '''' None None"

lemma tester_crash:
  assumes "we_tester W = Some tester" and "we_on_stage W = None"
    and "we_has_tests W (x_world (ws_x s))" and "x_pool_open (ws_x s)" and "never_cancelled (we_env W)"
    and "\<And>w. \<not> refused (we_exec W) (tester_request W tester (fst (uuid4 (we_env W) w)))"
    and "\<And>w. plain_request (tester_request W tester (fst (uuid4 (we_env W) w)))"
    and "\<And>w. always_raises (tester_request W tester (fst (uuid4 (we_env W) w))) e"
  shows "\<exists>t. test_phase W s = (Inr None, t) \<and> wc_tests (ws_ctx t) = Some (PDict [])
    \<and> wc_stages (ws_ctx t) = wc_stages (ws_ctx s) @ [mk_stage ''tester'' True]
    \<and> wc_errors (ws_ctx t) = wc_errors (ws_ctx s)"
proof -
  let ?w = "x_world (ws_x s)"
  let ?tid = "fst (uuid4 (we_env W) ?w)"
  let ?s = "s\<lparr>ws_x := (ws_x s)\<lparr>x_world := snd (uuid4 (we_env W) ?w)\<rparr>\<rparr>"
  have task: "new_task W ''run test suite'' ''test''
      [(''target'', PStr (we_project W @ ''/tests'')), (''dry_run'', PBool False)] '''' s =
      (Inr (tester_task W ?tid), ?s)"
    by (simp add: new_task_def run_simps tester_task_def)
  obtain oc x where e: "execute (we_env W) (we_exec W) (tester_request W tester ?tid) (ws_x ?s) = (Inr oc, x)"
    and r: "oc_result oc = None"
    using execute_exhausts [OF assms(6) [of ?w] assms(7) [of ?w] assms(5) assms(8) [of ?w], of "ws_x ?s"] assms(4)
    by (auto simp: exhausted_def)
  have run: "run_agent W tester (tester_task W ?tid) False ?s =
      (Inr (outcome_result (a_name tester) (tester_task W ?tid) oc), ?s\<lparr>ws_x := x\<rparr>)"
    using run_agent_answers [of W tester "tester_task W ?tid" False ?s oc x] e by simp
  have out: "res_output (outcome_result n t oc) = []" for n t
    using r by (simp add: outcome_result_def AgentResult_default_def)
  show ?thesis
    using assms(1-3)
    by (simp add: test_phase_def gets_run bnd_run seq_run task run out ret_run set_ctx_def get_ctx_def
        modify_run report_get_def of_sum_run add_stage_def notify_stage_def go_on_def)
qed



end
