(* ===== verification/Kernel.thy ===== *)
theory Kernel
  imports WorkflowProps
begin

text \<open>
  The kernel (\<open>core/kernel.py\<close>, \<open>core/run_result.py\<close>): the engines in their start order, their
  statuses, the wiring of the event bus, the shutdown, and the canonical entry points that run a
  plan, a single agent or the whole workflow and answer a \<open>RunResult\<close>.

  An engine is what the kernel calls of it: each call changes the world and answers or raises. The
  banner, the dashboard's lines, the profiler and the diagnostics are left out.
\<close>

section \<open>Results of a run\<close>

record stage_summary =
  su_name :: string
  su_status :: string
  su_reason :: "string option"
  su_details :: pydict

record run_result =
  rn_success :: bool
  rn_stages :: "stage_summary list"
  rn_errors :: "string list"
  rn_output :: "string option"
  rn_plan :: "pydict option"
  rn_subtasks :: nat
  rn_completed :: nat
  rn_started :: "string option"
  rn_finished :: "string option"
  rn_tool_calls :: int
  rn_tool_names :: "string list"
  rn_tool_durations_ms :: "rat list"
  rn_llm_turns :: int
  rn_total_cost :: rat
  rn_tokens :: pydict
  rn_model :: string
  rn_provider :: string
  rn_fallback_used :: bool
  rn_steps_used :: int
  rn_repeated_tool_calls :: int
  rn_turn_sequence :: "string list"
  rn_exit_reason :: string

definition RunResult_default :: run_result where
  "RunResult_default =
     \<lparr>rn_success = False, rn_stages = [], rn_errors = [], rn_output = None, rn_plan = None,
      rn_subtasks = 0, rn_completed = 0, rn_started = None, rn_finished = None, rn_tool_calls = 0,
      rn_tool_names = [], rn_tool_durations_ms = [], rn_llm_turns = 0, rn_total_cost = 0,
      rn_tokens = [], rn_model = '''', rn_provider = '''', rn_fallback_used = False,
      rn_steps_used = 0, rn_repeated_tool_calls = 0, rn_turn_sequence = [], rn_exit_reason = ''stop''\<rparr>"

definition failed_run :: "string \<Rightarrow> run_result" where
  "failed_run message = RunResult_default\<lparr>rn_errors := [message]\<rparr>"

definition stage_to_summary :: "stage \<Rightarrow> stage_summary" where
  "stage_to_summary st =
     (if truthy (dict_get (sg_details st) ''skipped'' PNone)
      then \<lparr>su_name = sg_name st, su_status = ''skipped'', su_reason = None, su_details = sg_details st\<rparr>
      else if sg_success st
      then \<lparr>su_name = sg_name st, su_status = ''success'', su_reason = None, su_details = sg_details st\<rparr>
      else \<lparr>su_name = sg_name st, su_status = ''failed'', su_reason = sg_error st, su_details = sg_details st\<rparr>)"

definition from_agent :: "agent_result \<Rightarrow> run_result" where
  "from_agent r =
     (let failed = \<not> res_success r in RunResult_default
       \<lparr>rn_success := res_success r, rn_output := Some (res_output r), rn_errors := res_errors r,
        rn_tool_calls := res_tool_calls r, rn_tool_names := res_tool_names r,
        rn_tool_durations_ms := res_tool_durations_ms r, rn_llm_turns := res_llm_turns r,
        rn_total_cost := res_total_cost r, rn_tokens := res_tokens r, rn_model := res_model r,
        rn_provider := res_provider r, rn_fallback_used := res_fallback_used r,
        rn_steps_used := res_steps_used r, rn_repeated_tool_calls := res_repeated_tool_calls r,
        rn_turn_sequence := res_turn_sequence r, rn_exit_reason := res_exit_reason r,
        rn_stages := [\<lparr>su_name = ''planner'', su_status = (if failed then ''failed'' else ''success''),
          su_reason = (if failed then (case res_errors r of [] \<Rightarrow> None | e # _ \<Rightarrow> Some e) else None),
          su_details = []\<rparr>]\<rparr>)"

definition from_workflow :: "workflow_result \<Rightarrow> run_result" where
  "from_workflow w = RunResult_default
     \<lparr>rn_success := wr_success w, rn_stages := map stage_to_summary (wr_stages w),
      rn_errors := wr_errors w, rn_plan := wr_plan w, rn_subtasks := wr_subtasks w,
      rn_completed := wr_completed w, rn_started := Some (wr_started w),
      rn_finished := wr_finished w\<rparr>"

section \<open>The life of the engines\<close>

definition INIT_ORDER :: "string list" where
  "INIT_ORDER = [''config'', ''context'', ''memory'', ''learning'', ''scheduler'', ''runtime'',
     ''developer'', ''planner'', ''workflow'', ''events'', ''telemetry'', ''knowledge'', ''security'']"

record 'w engine =
  en_initialize :: "('w, unit) py"
  en_health :: "('w, bool) py"
  en_shutdown :: "('w, unit) py"
  en_set_bus :: "('w, unit) py"

record 'w kernel =
  kn_engines :: "(string \<times> 'w engine) list"
  kn_executor :: "'w engine option"
  kn_pool :: "('w, unit) py option"
  kn_bus :: "'w \<Rightarrow> bool"
  kn_has_context :: "'w \<Rightarrow> bool"
  kn_enrich :: "('w, unit) py"

record 'w kernel_state =
  kl_status :: "(string \<times> string) list"
  kl_errors :: "string list"
  kl_world :: 'w

definition register :: "string \<Rightarrow> 'w engine \<Rightarrow> 'w kernel \<Rightarrow> 'w kernel" where
  "register name e K = K\<lparr>kn_engines := dict_set name e (kn_engines K)\<rparr>"

definition get_engine :: "'w kernel \<Rightarrow> string \<Rightarrow> 'w engine option" where
  "get_engine K name = map_of (kn_engines K) name"

definition on_kernel :: "('w, 'a) py \<Rightarrow> ('w kernel_state, 'a) py" where
  "on_kernel m = (\<lambda>s. case m (kl_world s) of (r, w) \<Rightarrow> (r, s\<lparr>kl_world := w\<rparr>))"

definition set_status :: "string \<Rightarrow> string \<Rightarrow> ('w kernel_state, unit) py" where
  "set_status name st = modify (\<lambda>s. s\<lparr>kl_status := dict_set name st (kl_status s)\<rparr>)"

definition add_warning :: "string \<Rightarrow> ('w kernel_state, unit) py" where
  "add_warning e = modify (\<lambda>s. s\<lparr>kl_errors := kl_errors s @ [e]\<rparr>)"

definition initialize_engine :: "string \<Rightarrow> 'w engine \<Rightarrow> ('w kernel_state, unit) py" where
  "initialize_engine name e =
     try_except
       (seq (on_kernel (en_initialize e))
       (bnd (on_kernel (en_health e)) (\<lambda>ok.
        if ok then set_status name ''ready''
        else seq (set_status name ''degraded'') (add_warning (name @ '': health check failed'')))))
       (\<lambda>exc. seq (set_status name ''error'') (add_warning (name @ '': '' @ exn_message exc)))"

fun initialize_all :: "'w kernel \<Rightarrow> string list \<Rightarrow> ('w kernel_state, unit) py" where
  "initialize_all K [] = ret ()"
| "initialize_all K (name # names) =
     seq (case get_engine K name of
            None \<Rightarrow> set_status name ''not installed''
          | Some e \<Rightarrow> initialize_engine name e)
       (initialize_all K names)"

definition initialize_engines :: "'w kernel \<Rightarrow> ('w kernel_state, unit) py" where
  "initialize_engines K = initialize_all K INIT_ORDER"

text \<open>\<open>_wire_event_bus\<close>: the engines that take the bus, in the order of the code; the executor
  comes third.\<close>

fun call_all :: "('s, unit) py list \<Rightarrow> ('s, unit) py" where
  "call_all [] = ret ()"
| "call_all (m # ms) = seq m (call_all ms)"

definition set_bus_of :: "'w kernel \<Rightarrow> string \<Rightarrow> ('w, unit) py list" where
  "set_bus_of K name = (case get_engine K name of None \<Rightarrow> [] | Some e \<Rightarrow> [en_set_bus e])"

definition wire_event_bus :: "'w kernel \<Rightarrow> ('w kernel_state, unit) py" where
  "wire_event_bus K = (\<lambda>s.
     if get_engine K ''events'' \<noteq> None \<and> kn_bus K (kl_world s)
     then call_all (map on_kernel
       (set_bus_of K ''scheduler'' @ set_bus_of K ''runtime'' @
        (case kn_executor K of None \<Rightarrow> [] | Some x \<Rightarrow> [en_set_bus x]) @
        set_bus_of K ''telemetry'' @ set_bus_of K ''workflow'' @ set_bus_of K ''learning'')) s
     else (Inr (), s))"

definition suppress :: "('s, unit) py \<Rightarrow> ('s, unit) py" where
  "suppress m = try_except m (\<lambda>_. ret ())"

definition enrich_context_with_memory :: "'w kernel \<Rightarrow> ('w kernel_state, unit) py" where
  "enrich_context_with_memory K = (\<lambda>s.
     if get_engine K ''memory'' \<noteq> None \<and> get_engine K ''context'' \<noteq> None
        \<and> kn_has_context K (kl_world s) \<and> map_of (kl_status s) ''memory'' = Some ''ready''
     then suppress (on_kernel (kn_enrich K)) s else (Inr (), s))"

text \<open>The dashboard asks the workflow engine for its health once more.\<close>

definition probe_workflow :: "'w kernel \<Rightarrow> ('w kernel_state, unit) py" where
  "probe_workflow K = (case get_engine K ''workflow'' of
     None \<Rightarrow> ret ()
   | Some e \<Rightarrow> suppress (bnd (on_kernel (en_health e)) (\<lambda>_. ret ())))"

definition kernel_start :: "'w kernel \<Rightarrow> bool \<Rightarrow> ('w kernel_state, unit) py" where
  "kernel_start K render_dashboard =
     seq (initialize_engines K)
    (seq (wire_event_bus K)
    (seq (enrich_context_with_memory K)
    (if render_dashboard then probe_workflow K else ret ())))"

definition kernel_shutdown :: "'w kernel \<Rightarrow> ('w, unit) py" where
  "kernel_shutdown K =
     seq (case kn_executor K of None \<Rightarrow> ret () | Some x \<Rightarrow> suppress (en_shutdown x))
    (seq (call_all (map (\<lambda>name. case get_engine K name of
            None \<Rightarrow> ret () | Some e \<Rightarrow> suppress (en_shutdown e)) (rev INIT_ORDER)))
    (case kn_pool K of None \<Rightarrow> ret () | Some close \<Rightarrow> close))"

definition kernel_status :: "string \<Rightarrow> pydict option \<Rightarrow> 'w kernel_state \<Rightarrow> pydict" where
  "kernel_status path diagnostics s =
     [(''project'', PStr path), (''engines'', PDict (map (\<lambda>(n, st). (n, PStr st)) (kl_status s))),
      (''errors'', strs (kl_errors s))] @
     (case diagnostics of None \<Rightarrow> [] | Some d \<Rightarrow> [(''runtime_diagnostics'', PDict d)])"

section \<open>Running a task\<close>

text \<open>The engines a run looks up; their state is that of the workflow.\<close>

record 'w runner =
  ru_workflow :: "'w wenv option"
  ru_agents :: "(string \<times> 'w agent) list"
  ru_executor :: "('w xenv \<times> executor) option"

definition run_result_from_outcome :: "exec_outcome \<Rightarrow> run_result" where
  "run_result_from_outcome oc = (case oc_result oc of
     Some r \<Rightarrow> from_agent r
   | None \<Rightarrow> failed_run (case oc_error oc of None \<Rightarrow> ''Agent execution failed'' | Some e \<Rightarrow> err_message e))"

text \<open>\<open>make_request(agent, coerce_task(task), context)\<close> inside the \<open>try\<close> of \<open>run_agent\<close> and
  \<open>_run_plan\<close>.\<close>

definition execute_friendly ::
  "'w xenv \<Rightarrow> executor \<Rightarrow> string \<Rightarrow> 'w agent \<Rightarrow> core_task \<Rightarrow> bool \<Rightarrow> ('w wstate, run_result) py" where
  "execute_friendly E X prefix ag task with_context =
     try_except
       (bnd (on_world (uuid4 E)) (\<lambda>tid.
        bnd (on_exec (execute E X (make_request ag (coerce_task tid (CoreTask task)) with_context
               None None '''' None None))) (\<lambda>oc.
        ret (run_result_from_outcome oc))))
       (\<lambda>exc. ret (failed_run (prefix @ exn_message exc)))"

definition kernel_run_agent ::
  "'w runner \<Rightarrow> string \<Rightarrow> core_task \<Rightarrow> bool \<Rightarrow> ('w wstate, run_result) py" where
  "kernel_run_agent R name task with_context =
     (case map_of (ru_agents R) name of
        None \<Rightarrow> ret (failed_run (''Agent '' @ [CHR 0x27] @ name @ [CHR 0x27] @ '' not available.''))
      | Some ag \<Rightarrow> (case ru_executor R of
          None \<Rightarrow> ret (failed_run ''Executor not available.'')
        | Some (E, X) \<Rightarrow> execute_friendly E X (name @ '' failed: '') ag task with_context))"

definition run_plan :: "'w runner \<Rightarrow> core_task \<Rightarrow> bool \<Rightarrow> ('w wstate, run_result) py" where
  "run_plan R task with_context =
     (case map_of (ru_agents R) ''planner'' of
        None \<Rightarrow> ret (failed_run ''Planner agent not available.'')
      | Some ag \<Rightarrow> (case ru_executor R of
          None \<Rightarrow> ret (failed_run ''Executor not available.'')
        | Some (E, X) \<Rightarrow> execute_friendly E X ''Planning failed: '' ag task with_context))"

text \<open>What the caller hands through to the workflow engine.\<close>

record 'w run_options =
  ro_context :: bool
  ro_on_stage :: "(stage_summary \<Rightarrow> 'w \<Rightarrow> (exn + unit) \<times> 'w) option"
  ro_commit_factory :: "(workflow_context \<Rightarrow> string) option"
  ro_create_branch :: bool

definition workflow_with :: "'w run_options \<Rightarrow> 'w wenv \<Rightarrow> 'w wenv" where
  "workflow_with opts W = W
     \<lparr>we_context := ro_context opts,
      we_on_stage := map_option (\<lambda>f st. f (stage_to_summary st)) (ro_on_stage opts),
      we_commit_message := (case ro_commit_factory opts of None \<Rightarrow> we_commit_message W | Some f \<Rightarrow> f),
      we_create_branch := ro_create_branch opts\<rparr>"

definition run_workflow ::
  "'w runner \<Rightarrow> core_task \<Rightarrow> 'w run_options \<Rightarrow> ('w wstate, run_result) py" where
  "run_workflow R task opts =
     (case ru_workflow R of
        None \<Rightarrow> ret (failed_run ''Workflow engine not available.'')
      | Some W \<Rightarrow> try_except
          (bnd (workflow_execute (workflow_with opts W) task) (\<lambda>res. ret (from_workflow res)))
          (\<lambda>exc. ret (failed_run (''Workflow failed: '' @ exn_message exc))))"

definition kernel_run ::
  "'w runner \<Rightarrow> core_task \<Rightarrow> string \<Rightarrow> 'w run_options \<Rightarrow> ('w wstate, run_result) py" where
  "kernel_run R task mode opts =
     (if mode = ''plan-run'' then run_workflow R task opts
      else run_plan R task (ro_context opts))"

end
