(* ===== verification/Backlog.thy ===== *)
theory Backlog
  imports Kernel
begin

text \<open>
  The backlog (\<open>backlog/models.py\<close>, \<open>backlog/parser.py\<close>, \<open>backlog/runner.py\<close>, \<open>backlog/cli.py\<close>,
  \<open>scheduler/backlog_writer.py\<close>): tasks named by conventional commit titles, read from the cards
  of a board or from a Markdown list, run one after the other through the kernel while their cards
  move on the board; and the writer of that list.

  A file is its text, or nothing when there is no such file; writing it atomically is left out. A
  command answers the lines it prints and its exit code.
\<close>

section \<open>Data\<close>

record backlog_task =
  bt_title :: string
  bt_type :: string
  bt_scope :: string
  bt_subject :: string
  bt_version :: string
  bt_source :: string
  bt_index :: nat

record backlog_result =
  bo_task :: backlog_task
  bo_status :: string
  bo_commit :: pyval
  bo_duration :: rat
  bo_error :: string

section \<open>Conventional commit titles\<close>

text \<open>The tail \<open>(?:\s*\((v\d+\.\d+\.\d+)\))?$\<close> of the pattern; the answer is the version.\<close>

definition version_body :: "string \<Rightarrow> bool" where
  "version_body s = (case split_char (CHR ''.'') s of
     [a, b, c] \<Rightarrow> take 1 a = ''v'' \<and> list_all (\<lambda>p. p \<noteq> [] \<and> list_all is_digit p) [drop 1 a, b, c]
   | _ \<Rightarrow> False)"

definition version_tail :: "string \<Rightarrow> string option" where
  "version_tail s =
     (if s = [] then Some ''''
      else let t = dropWhile is_space s in
        if take 1 t = ''('' \<and> last t = CHR '')'' \<and> 2 \<le> length t \<and> version_body (butlast (drop 1 t))
        then Some (butlast (drop 1 t)) else None)"

text \<open>\<open>(.+?)\<close> followed by the tail: the shortest subject that lets the rest match.\<close>

fun lazy_subject :: "string \<Rightarrow> (string \<times> string) option" where
  "lazy_subject [] = None"
| "lazy_subject (c # s) =
     (if c = newline then None
      else case version_tail s of
        Some v \<Rightarrow> Some ([c], v)
      | None \<Rightarrow> map_option (\<lambda>(x, v). (c # x, v)) (lazy_subject s))"

definition after_colon :: "string \<Rightarrow> (string \<times> string) option" where
  "after_colon s = (case s of
     [] \<Rightarrow> None
   | c # t \<Rightarrow> if c = CHR '':'' then lazy_subject (dropWhile is_space t) else None)"

text \<open>The whole pattern on a stripped title. A scope that is not closed, or not followed by a
  colon, leaves the parenthesis where the colon should be.\<close>

definition match_conventional :: "string \<Rightarrow> (string \<times> string \<times> string \<times> string) option" where
  "match_conventional s =
     (let ty = takeWhile is_word s; r = dropWhile is_word s in
      if ty = [] then None
      else if take 1 r = ''(''
      then let sc = takeWhile (\<lambda>c. c \<noteq> CHR '')'') (drop 1 r); q = dropWhile (\<lambda>c. c \<noteq> CHR '')'') (drop 1 r) in
        map_option (\<lambda>(x, v). (ty, sc, x, v)) (if q = [] then None else after_colon (drop 1 q))
      else map_option (\<lambda>(x, v). (ty, [], x, v)) (after_colon r))"

definition parse_conventional :: "string \<Rightarrow> string \<times> string \<times> string \<times> string" where
  "parse_conventional title = (case match_conventional (strip title) of
     None \<Rightarrow> ([], [], [], [])
   | Some (ty, sc, x, v) \<Rightarrow> (ty, sc, strip x, v))"

text \<open>The message a task commits with.\<close>

definition commit_message :: "backlog_task \<Rightarrow> string" where
  "commit_message t =
     bt_type t @ (if bt_scope t = [] then '''' else ''('' @ bt_scope t @ '')'') @ '': '' @ bt_subject t @
     (if bt_version t = [] then '''' else '' ('' @ bt_version t @ '')'')"

section \<open>Loading tasks\<close>

definition make_task :: "string \<Rightarrow> string \<Rightarrow> nat \<Rightarrow> backlog_task" where
  "make_task title source i = (case parse_conventional title of (ty, sc, x, v) \<Rightarrow>
     \<lparr>bt_title = title, bt_type = (if ty = [] then ''feat'' else ty), bt_scope = sc,
      bt_subject = (if x = [] then title else x), bt_version = v, bt_source = source, bt_index = i\<rparr>)"

definition board_named :: "string \<Rightarrow> kanban_board list \<Rightarrow> kanban_board option" where
  "board_named name bs = find (\<lambda>b. br_name (kb_row b) = name) bs"

definition load_tasks_from_kanban :: "kanban_env \<Rightarrow> string \<Rightarrow> backlog_task list kanban" where
  "load_tasks_from_kanban E name =
     bnd (store_list_boards E) (\<lambda>bs. case board_named name bs of
       None \<Rightarrow> ret []
     | Some b \<Rightarrow> bnd (store_list_cards E (kb_id b)) (\<lambda>cs.
         ret (map (\<lambda>(i, c). make_task (cr_title (kc_row c)) (''kanban:'' @ name) i)
           (filter (\<lambda>(i, c). kc_column c = ''Todo'') (enumerate 0 cs)))))"

definition load_tasks_from_file :: "string \<Rightarrow> string option \<Rightarrow> backlog_task list" where
  "load_tasks_from_file name content = (case content of
     None \<Rightarrow> []
   | Some text \<Rightarrow>
       map (\<lambda>(i, l). make_task (strip (drop 6 (strip l))) (''file:'' @ name) i)
         (filter (\<lambda>(i, l). startswith (strip l) ''- [ ] '') (enumerate 0 (splitlines text))))"

section \<open>Writing the list\<close>

text \<open>The ellipsis lies beyond the characters of the model; these are its UTF-8 bytes.\<close>

definition ELLIPSIS :: string where
  "ELLIPSIS = [CHR 0xE2, CHR 0x80, CHR 0xA6]"

definition backlog_line :: "nat option \<Rightarrow> nat \<times> string \<times> bool \<Rightarrow> string" where
  "backlog_line active item = (case item of (i, title, checked) \<Rightarrow>
     let marker = (if Some i = active then ''*(spinner)'' else if checked then ''[X]'' else ''[ ]'')
     in ''- '' @ marker @ '' '' @ title @ (if Some i = active then ELLIPSIS else ''''))"

definition backlog_text :: "(string \<times> bool) list \<Rightarrow> nat option \<Rightarrow> string" where
  "backlog_text tasks active = join [newline]
     ((if tasks = [] then [] else [''# Backlog ('' @ digits (length tasks) @ '')'', ''''])
      @ map (backlog_line active) (enumerate 1 tasks))"

section \<open>Running tasks\<close>

record 'w backlog_env =
  be_run :: "core_task \<Rightarrow> (workflow_context \<Rightarrow> string) \<Rightarrow> bool \<Rightarrow> ('w wstate, run_result) py"
  be_kanban :: "kanban_env option"
  be_clock :: "'w \<Rightarrow> rat \<times> 'w"
  be_on_start :: "(backlog_task \<Rightarrow> 'w \<Rightarrow> (exn + unit) \<times> 'w) option"
  be_on_end :: "(backlog_result \<Rightarrow> 'w \<Rightarrow> (exn + unit) \<times> 'w) option"

text \<open>The kernel as the runner calls it: \<open>has_context\<close> is whether it has a context.\<close>

definition kernel_backlog :: "'w runner \<Rightarrow> bool \<Rightarrow> kanban_env option \<Rightarrow> ('w \<Rightarrow> rat \<times> 'w) \<Rightarrow> 'w backlog_env" where
  "kernel_backlog R has_context E clock =
     \<lparr>be_run = (\<lambda>task message branch. kernel_run R task ''plan-run''
        \<lparr>ro_context = has_context, ro_on_stage = None, ro_commit_factory = Some message,
         ro_create_branch = branch\<rparr>),
      be_kanban = E, be_clock = clock, be_on_start = None, be_on_end = None\<rparr>"

definition execute_task :: "'w backlog_env \<Rightarrow> backlog_task \<Rightarrow> bool \<Rightarrow> ('w wstate, run_result) py" where
  "execute_task B task branch = be_run B
     \<lparr>ct_description = (if bt_subject task = [] then bt_title task else bt_subject task),
      ct_task_type = bt_type task, ct_files = []\<rparr>
     (\<lambda>_. commit_message task) branch"

text \<open>A \<open>RunResult\<close> has no attribute \<open>commit\<close>; the loop over the stages returns at the first whose
  entry is a dictionary, or nothing.\<close>

fun extract_commit_sha :: "stage_summary list \<Rightarrow> pyval" where
  "extract_commit_sha [] = PStr ''''"
| "extract_commit_sha (st # sts) =
     (let v = dict_get (su_details st) ''commit'' PNone in
      case (if truthy v then v else PDict []) of
        PDict d \<Rightarrow> dict_get d ''sha'' (PStr '''')
      | _ \<Rightarrow> extract_commit_sha sts)"

definition source_board :: "backlog_task \<Rightarrow> string option" where
  "source_board t = (if startswith (bt_source t) ''kanban:'' then Some (drop 7 (bt_source t)) else None)"

definition card_action :: "kanban_env \<Rightarrow> string \<Rightarrow> string \<Rightarrow> int \<Rightarrow> unit kanban" where
  "card_action E column reason cid =
     (if column = ''blocked'' then bnd (block_card E cid reason) (\<lambda>_. ret ())
      else if column = ''InProgress'' then bnd (begin_work E cid) (\<lambda>_. ret ())
      else if column = ''Done'' then bnd (complete_work E cid) (\<lambda>_. ret ())
      else ret ())"

definition update_kanban :: "'w backlog_env \<Rightarrow> backlog_task \<Rightarrow> string \<Rightarrow> string \<Rightarrow> unit kanban" where
  "update_kanban B task column reason =
     (case be_kanban B of
        None \<Rightarrow> ret ()
      | Some E \<Rightarrow> bnd (store_list_boards E) (\<lambda>bs.
          case (case source_board task of None \<Rightarrow> None | Some name \<Rightarrow> board_named name bs) of
            None \<Rightarrow> ret ()
          | Some b \<Rightarrow> bnd (store_list_cards E (kb_id b)) (\<lambda>cs.
              case find (\<lambda>c. cr_title (kc_row c) = bt_title task) cs of
                None \<Rightarrow> ret ()
              | Some c \<Rightarrow> card_action E column reason (kc_id c))))"

definition call_back :: "('a \<Rightarrow> 'w \<Rightarrow> (exn + unit) \<times> 'w) option \<Rightarrow> 'a \<Rightarrow> ('w wstate, unit) py" where
  "call_back f x = (case f of None \<Rightarrow> ret () | Some g \<Rightarrow> bnd (on_world (g x)) of_sum)"

text \<open>What the \<open>try\<close> of the loop leaves in \<open>status\<close>, \<open>commit_sha\<close> and \<open>error\<close>.\<close>

definition attempt_task ::
  "'w backlog_env \<Rightarrow> backlog_task \<Rightarrow> bool \<Rightarrow> ('w wstate, string \<times> pyval \<times> string) py" where
  "attempt_task B task branch = try_except
     (bnd (execute_task B task branch) (\<lambda>res.
        let sha = extract_commit_sha (rn_stages res) in
        ret (if rn_success res then (''succeeded'', sha, '''')
             else (''failed'', sha, if rn_errors res = [] then ''task failed'' else join ''; '' (rn_errors res)))))
     (\<lambda>exc. ret (''failed'', PStr '''', exn_message exc))"

definition run_task :: "'w backlog_env \<Rightarrow> bool \<Rightarrow> backlog_task \<Rightarrow> ('w wstate, backlog_result) py" where
  "run_task B branch task =
     seq (call_back (be_on_start B) task)
    (seq (on_board (update_kanban B task ''InProgress'' ''''))
    (bnd (on_world (be_clock B)) (\<lambda>started.
     bnd (attempt_task B task branch) (\<lambda>(status, sha, error).
     bnd (on_world (be_clock B)) (\<lambda>ended.
     let r = \<lparr>bo_task = task, bo_status = status, bo_commit = sha,
              bo_duration = (ended - started) * 1000, bo_error = error\<rparr> in
     seq (on_board (if status = ''succeeded'' then update_kanban B task ''Done'' ''''
            else update_kanban B task ''blocked'' error))
    (seq (call_back (be_on_end B) r) (ret r)))))))"

definition skipped_task :: "backlog_task \<Rightarrow> backlog_result" where
  "skipped_task t = \<lparr>bo_task = t, bo_status = ''skipped'', bo_commit = PStr '''', bo_duration = 0, bo_error = ''''\<rparr>"

fun backlog_loop ::
  "'w backlog_env \<Rightarrow> bool \<Rightarrow> int \<Rightarrow> bool \<Rightarrow> int \<Rightarrow> backlog_task list \<Rightarrow>
   ('w wstate, backlog_result list) py" where
  "backlog_loop B stop start branch i [] = ret []"
| "backlog_loop B stop start branch i (t # ts) =
     (if i < start
      then bnd (backlog_loop B stop start branch (i + 1) ts) (\<lambda>rs. ret (skipped_task t # rs))
      else bnd (run_task B branch t) (\<lambda>r.
        if bo_status r = ''failed'' \<and> stop then ret [r]
        else bnd (backlog_loop B stop start branch (i + 1) ts) (\<lambda>rs. ret (r # rs))))"

definition backlog_run ::
  "'w backlog_env \<Rightarrow> backlog_task list \<Rightarrow> bool \<Rightarrow> int \<Rightarrow> bool \<Rightarrow> ('w wstate, backlog_result list) py" where
  "backlog_run B tasks stop start branch = backlog_loop B stop start branch 0 tasks"


section \<open>Commands\<close>

record backlog_args =
  bg_stop :: bool
  bg_from :: int
  bg_source :: "string option"
  bg_branch :: bool

definition after_char :: "char \<Rightarrow> string \<Rightarrow> string" where
  "after_char c s = snd (snd (partition_char c s))"

fun parse_run_args :: "backlog_args \<Rightarrow> string list \<Rightarrow> exn + backlog_args" where
  "parse_run_args a [] = Inr a"
| "parse_run_args a (arg # rest) =
     (if arg = ''--continue'' then parse_run_args (a\<lparr>bg_stop := False\<rparr>) rest
      else if arg = ''--from''
      then (case rest of
             [] \<Rightarrow> Inr (a\<lparr>bg_from := 0\<rparr>)
           | v # rest' \<Rightarrow> sum_bind (int_of_str v) (\<lambda>n. parse_run_args (a\<lparr>bg_from := n\<rparr>) rest'))
      else if arg = ''--branch'' then parse_run_args (a\<lparr>bg_branch := True\<rparr>) rest
      else if arg = ''--no-branch'' then parse_run_args (a\<lparr>bg_branch := False\<rparr>) rest
      else if startswith arg ''--source='' \<or> startswith arg ''--'' \<and> CHR ''='' \<in> set arg
      then parse_run_args (a\<lparr>bg_source := Some (after_char (CHR ''='') arg)\<rparr>) rest
      else if startswith arg ''board:'' \<or> startswith arg ''file:''
      then parse_run_args (a\<lparr>bg_source := Some arg\<rparr>) rest
      else parse_run_args a rest)"

definition default_run_args :: backlog_args where
  "default_run_args = \<lparr>bg_stop = True, bg_from = 0, bg_source = None, bg_branch = False\<rparr>"

text \<open>\<open>files\<close> answers the last component of a path below the project and the text, if there is one.\<close>

definition load_source ::
  "kanban_env \<Rightarrow> (string \<Rightarrow> string \<times> string option) \<Rightarrow> string \<Rightarrow> backlog_task list kanban" where
  "load_source E files source =
     (if startswith source ''board:'' then load_tasks_from_kanban E (after_char (CHR '':'') source)
      else if startswith source ''file:''
      then ret (case files (after_char (CHR '':'') source) of (name, text) \<Rightarrow> load_tasks_from_file name text)
      else ret [])"

definition with_status :: "string \<Rightarrow> backlog_result list \<Rightarrow> backlog_result list" where
  "with_status st rs = filter (\<lambda>r. bo_status r = st) rs"

text \<open>The em dash, as its UTF-8 bytes.\<close>

definition EM_DASH :: string where
  "EM_DASH = [CHR 0xE2, CHR 0x80, CHR 0x94]"

text \<open>The lines printed to the standard output, those to the standard error and the exit code.\<close>

definition cmd_backlog_run ::
  "'w backlog_env \<Rightarrow> kanban_env \<Rightarrow> (string \<Rightarrow> string \<times> string option) \<Rightarrow> string list \<Rightarrow>
   ('w wstate, string list \<times> string list \<times> int) py" where
  "cmd_backlog_run B E files args =
     bnd (of_sum (parse_run_args default_run_args args)) (\<lambda>a.
     case bg_source a of
       None \<Rightarrow> ret ([''Usage: aios backlog run --source=board:NAME | --source=file:PATH'',
                   ''  [--branch] [--no-branch] [--continue] [--from N]''], [], 1)
     | Some source \<Rightarrow>
         bnd (on_board (load_source E files source)) (\<lambda>tasks.
         if tasks = [] then ret ([''No tasks found in source.''], [], 0)
         else bnd (backlog_run B tasks (bg_stop a) (bg_from a) (bg_branch a)) (\<lambda>rs.
           let count = (\<lambda>st. digits (length (with_status st rs))) in
           ret ([''Running '' @ digits (length tasks) @ '' task(s) from '' @ source @ '' (from index '' @
                   str_of_int (bg_from a) @ '')...'',
                 newline # ''Done: '' @ count ''succeeded'' @ '' succeeded, '' @ count ''failed'' @
                   '' failed, '' @ count ''skipped'' @ '' skipped''],
                map (\<lambda>r. ''  FAIL: '' @ bt_title (bo_task r) @ '' '' @ EM_DASH @ '' '' @ bo_error r)
                  (with_status ''failed'' rs),
                if with_status ''failed'' rs = [] then 0 else 1))))"

definition task_line :: "backlog_task \<Rightarrow> string" where
  "task_line t = ''  ['' @ digits (bt_index t) @ ''] '' @ bt_type t @ ''('' @ bt_scope t @ ''): '' @
     bt_subject t @ '' '' @ bt_version t"

text \<open>What follows the prefix of an argument of \<open>backlog list\<close>.\<close>

definition list_name :: "string \<Rightarrow> string" where
  "list_name arg =
     (let s = (if CHR ''='' \<notin> set arg then after_char (CHR '':'') arg else after_char (CHR ''='') arg)
      in if CHR '':'' \<in> set s \<and> CHR ''='' \<in> set arg then after_char (CHR '':'') s else s)"

text \<open>The board (\<open>Inl\<close>) or the file (\<open>Inr\<close>) the arguments name.\<close>

fun list_source :: "string \<Rightarrow> string list \<Rightarrow> string + string" where
  "list_source src [] = Inl src"
| "list_source src (arg # rest) =
     (if startswith arg ''board:'' \<or> startswith arg ''--source=board:''
      then (if list_name arg \<noteq> [] then Inl (list_name arg) else list_source (list_name arg) rest)
      else if startswith arg ''file:'' \<or> startswith arg ''--source=file:'' then Inr (list_name arg)
      else if src \<noteq> [] then Inl src else list_source src rest)"

definition cmd_backlog_list ::
  "kanban_env \<Rightarrow> (string \<Rightarrow> string \<times> string option) \<Rightarrow> string list \<Rightarrow> (string list \<times> int) kanban" where
  "cmd_backlog_list E files args =
     (case list_source [] args of
        Inr path \<Rightarrow> ret (case files path of (name, text) \<Rightarrow> map task_line (load_tasks_from_file name text), 0)
      | Inl name \<Rightarrow>
          if name = [] then ret ([''Usage: aios backlog list board:NAME''], 1)
          else bnd (load_tasks_from_kanban E name) (\<lambda>tasks. ret (map task_line tasks, 0)))"

definition cmd_backlog_add :: "kanban_env \<Rightarrow> string list \<Rightarrow> (string list \<times> int) kanban" where
  "cmd_backlog_add E args =
     (case args of
        [] \<Rightarrow> ret ([''Usage: aios backlog add <title> [--board NAME]''], 1)
      | title # rest \<Rightarrow>
          let name = (case rest of f # v # _ \<Rightarrow> if f = ''--board'' then v else ''backlog'' | _ \<Rightarrow> ''backlog'') in
          bnd (store_list_boards E) (\<lambda>bs.
          bnd (case board_named name bs of Some b \<Rightarrow> ret b | None \<Rightarrow> store_create_board E name) (\<lambda>b.
          bnd (store_create_card E (kb_id b) title '''') (\<lambda>c.
          ret ([''Card #'' @ str_of_int (kc_id c) @ '' created on board '' @ [CHR 0x27] @ name @ [CHR 0x27] @
                '': '' @ title], 0)))))"

end
