(* ===== verification/BacklogText.thy ===== *)
theory BacklogText
  imports Backlog Pipeline
begin

text \<open>
  The texts of the backlog: a conventional title survives the commit message made of it, and the
  list the writer makes is read back.
\<close>

section \<open>Conventional titles\<close>

text \<open>Characters of a version.\<close>

definition version_char :: "char \<Rightarrow> bool" where
  "version_char c \<longleftrightarrow> c = CHR ''v'' \<or> c = CHR ''.'' \<or> is_digit c"

lemma join_chars: "c \<in> set (join sep ws) \<Longrightarrow> c \<in> set sep \<or> (\<exists>w \<in> set ws. c \<in> set w)"
  by (induction sep ws rule: join.induct) auto

lemma version_body_chars:
  assumes "version_body s" shows "s \<noteq> []" and "list_all version_char s"
proof -
  from assms obtain a b c where abc: "split_char (CHR ''.'') s = [a, b, c]"
    and v: "take 1 a = ''v''" "list_all is_digit (drop 1 a)" "list_all is_digit b" "list_all is_digit c"
    by (auto simp: version_body_def split: list.splits)
  obtain d where "a = CHR ''v'' # d" using v(1) by (cases a) auto
  with v have "list_all version_char a" "list_all version_char b" "list_all version_char c"
    by (auto simp: version_char_def list_all_iff)
  moreover have "s = join ''.'' [a, b, c]" using split_char_join [of "CHR ''.''" s] abc by simp
  ultimately show "list_all version_char s" by (simp add: version_char_def)
  show "s \<noteq> []" using abc by auto
qed

lemma version_tail_Some:
  "version_tail s = Some w \<longleftrightarrow> s = [] \<and> w = [] \<or>
     (\<exists>sp. list_all is_space sp \<and> s = sp @ ''('' @ w @ '')'' \<and> version_body w)"
proof (cases "s = []")
  case False
  let ?t = "dropWhile is_space s"
  show ?thesis
  proof
    assume "version_tail s = Some w"
    with False have t: "take 1 ?t = ''(''" "last ?t = CHR '')''" "2 \<le> length ?t" "w = butlast (drop 1 ?t)" "version_body w"
      by (auto simp: version_tail_def Let_def split: if_splits)
    then obtain q where q: "?t = CHR ''('' # q" by (cases ?t) auto
    with t(3) have "q \<noteq> []" by (cases q) auto
    with t q have "?t = ''('' @ w @ '')''" by (simp, metis append_butlast_last_id)
    moreover have "s = takeWhile is_space s @ ?t" by simp
    ultimately have "s = takeWhile is_space s @ ''('' @ w @ '')''" by metis
    moreover have "list_all is_space (takeWhile is_space s)" by (auto simp: list_all_iff dest: set_takeWhileD)
    ultimately show "s = [] \<and> w = [] \<or> (\<exists>sp. list_all is_space sp \<and> s = sp @ ''('' @ w @ '')'' \<and> version_body w)"
      using t(5) by blast
  next
    assume "s = [] \<and> w = [] \<or> (\<exists>sp. list_all is_space sp \<and> s = sp @ ''('' @ w @ '')'' \<and> version_body w)"
    with False obtain sp where sp: "list_all is_space sp" "s = sp @ ''('' @ w @ '')''" "version_body w" by blast
    have "?t = ''('' @ w @ '')''" unfolding sp(2) by (rule dropWhile_app [OF sp(1)]) (simp add: is_space_def)
    with sp(3) False show "version_tail s = Some w" by (simp add: version_tail_def butlast_append)
  qed
qed (auto simp: version_tail_def)

lemma lazy_subject_Some:
  "lazy_subject u = Some (x, v) \<Longrightarrow> x \<noteq> [] \<and> newline \<notin> set x \<and>
     (\<exists>rest. u = x @ rest \<and> version_tail rest = Some v) \<and>
     (\<forall>k. 0 < k \<longrightarrow> k < length x \<longrightarrow> version_tail (drop k u) = None)"
proof (induction u arbitrary: x)
  case (Cons c s)
  show ?case
  proof (cases "version_tail s")
    case None
    with Cons.prems obtain y where y: "lazy_subject s = Some (y, v)" "x = c # y" "c \<noteq> newline"
      by (auto split: if_splits)
    from Cons.IH [OF y(1)] None y(2,3) show ?thesis
      by (auto simp: drop_Cons split: nat.split) (metis Suc_less_eq2 length_Cons not_gr_zero drop0)
  qed (use Cons.prems in \<open>auto split: if_splits\<close>)
qed simp

lemma lazy_subject_intro:
  assumes "x \<noteq> []" and "newline \<notin> set x" and "version_tail rest = Some v"
    and "\<And>k. 0 < k \<Longrightarrow> k < length x \<Longrightarrow> version_tail (drop k (x @ rest)) = None"
  shows "lazy_subject (x @ rest) = Some (x, v)"
  using assms
proof (induction x)
  case (Cons c x)
  show ?case
  proof (cases "x = []")
    case False
    then have "version_tail (x @ rest) = None" using Cons.prems(4) [of 1] by simp
    moreover have "lazy_subject (x @ rest) = Some (x, v)"
      by (rule Cons.IH [OF False]) (use Cons.prems(2,3) Cons.prems(4) [of "Suc _"] in auto)
    ultimately show ?thesis using Cons.prems(2) by auto
  qed (use Cons.prems in auto)
qed simp


text \<open>A matched subject begins and ends without white space.\<close>

lemma subject_ends:
  assumes u: "lazy_subject u = Some (x, v)" and first: "\<not> is_space (hd u)" and last: "\<not> is_space (last u)"
  shows "strip x = x"
proof -
  obtain rest where r: "x \<noteq> []" "u = x @ rest" "version_tail rest = Some v"
    and least: "\<And>k. 0 < k \<Longrightarrow> k < length x \<Longrightarrow> version_tail (drop k u) = None"
    using lazy_subject_Some [OF u] by blast
  have "\<not> is_space (last x)"
  proof (cases "rest = []")
    case False
    then obtain sp where sp: "list_all is_space sp" "rest = sp @ ''('' @ v @ '')''" "version_body v"
      using r(3) by (auto simp: version_tail_Some)
    show ?thesis
    proof
      assume bad: "is_space (last x)"
      obtain y c where y: "x = y @ [c]" using r(1) by (metis append_butlast_last_id)
      have "y \<noteq> []" using first bad r(2) y by (cases y) auto
      have "list_all is_space (c # sp)" using bad y sp(1) by simp
      moreover have "drop (length y) u = (c # sp) @ ''('' @ v @ '')''" using r(2) y sp(2) by simp
      ultimately have "version_tail (drop (length y) u) = Some v" using sp(3) version_tail_Some by blast
      then show False using least [of "length y"] y \<open>y \<noteq> []\<close> by simp
    qed
  qed (use last r in auto)
  then show ?thesis using strip_id [of x] first r by (cases x) auto
qed

text \<open>The subject is found again in front of one space and the version.\<close>

definition version_part :: "string \<Rightarrow> string" where
  "version_part v = (if v = [] then '''' else '' ('' @ v @ '')'')"

lemma version_part_tail:
  assumes "version_tail rest = Some v" shows "version_tail (version_part v) = Some v"
proof (cases "v = []")
  case False
  with assms have "version_body v" by (auto simp: version_tail_Some)
  moreover have "list_all is_space '' ''" by (simp add: is_space_def)
  ultimately show ?thesis using False version_tail_Some [of "version_part v" v] by (auto simp: version_part_def)
qed (simp add: version_part_def version_tail_def)

lemma subject_again:
  assumes u: "lazy_subject u = Some (x, v)" and x: "strip x = x"
  shows "lazy_subject (x @ version_part v) = Some (x, v)"
proof -
  obtain rest where r: "x \<noteq> []" "newline \<notin> set x" "u = x @ rest" "version_tail rest = Some v"
    and least: "\<And>k. 0 < k \<Longrightarrow> k < length x \<Longrightarrow> version_tail (drop k u) = None"
    using lazy_subject_Some [OF u] by blast
  have lastx: "\<not> is_space (last x)" using strip_ends [of x] x r(1) by simp
  show ?thesis
  proof (rule lazy_subject_intro [OF r(1,2) version_part_tail [OF r(4)]])
    fix k assume k: "0 < k" "k < length x"
    show "version_tail (drop k (x @ version_part v)) = None"
    proof (cases "v = []")
      case True
      then have "rest = []" using r(4) version_body_chars(1) by (auto simp: version_tail_Some)
      with True least [OF k] r(3) k show ?thesis by (simp add: version_part_def)
    next
      case False
      define z where "z = drop k x"
      have z: "z \<noteq> []" "last z = last x" using k by (auto simp: z_def)
      have "version_tail (z @ version_part v) \<noteq> Some w" for w
      proof
        assume "version_tail (z @ version_part v) = Some w"
        then obtain sp where sp: "list_all is_space sp" "z @ version_part v = sp @ ''('' @ w @ '')''" "version_body w"
          using z by (auto simp: version_tail_Some)
        have "butlast (z @ version_part v) = sp @ ''('' @ w" unfolding sp(2) by (simp add: butlast_append)
        then have eq: "z @ '' ('' @ v = sp @ ''('' @ w" using False by (simp add: version_part_def butlast_append)
        have "length z \<le> length sp"
        proof (rule ccontr)
          assume "\<not> length z \<le> length sp"
          then have "w = drop (length sp + 1) z @ '' ('' @ v"
            using arg_cong [OF eq, of "drop (length sp + 1)"] by simp
          then show False using version_body_chars(2) [OF sp(3)] by (simp add: version_char_def is_digit_def)
        qed
        then have "z = take (length z) sp" using arg_cong [OF eq, of "take (length z)"] by simp
        then have "set z \<subseteq> set sp" by (metis set_take_subset)
        then show False using sp(1) z lastx by (metis last_in_set list_all_iff subsetD)
      qed
      then show ?thesis using k by (simp add: z_def) (meson not_None_eq)
    qed
  qed
qed

lemma match_after_colon:
  assumes "ty \<noteq> []" and "list_all is_word ty" and "CHR '')'' \<notin> set sc" and "after_colon q = Some (x, v)"
  shows "match_conventional (ty @ (if sc = [] then '''' else ''('' @ sc @ '')'') @ q) = Some (ty, sc, x, v)"
proof -
  obtain t where q: "q = CHR '':'' # t" using assms(4) by (auto simp: after_colon_def split: list.splits if_splits)
  have nw: "\<not> is_word (CHR '':'')" "\<not> is_word (CHR ''('')"
    by (simp_all add: is_word_def is_digit_def is_upper_ascii_def is_lower_ascii_def)
  have split: "takeWhile is_word (ty @ r) = ty" "dropWhile is_word (ty @ r) = r" if "r \<noteq> []" "\<not> is_word (hd r)" for r
    using assms(2) that takeWhile_app [of is_word ty r] dropWhile_app [of is_word ty r] by auto
  have "list_all (\<lambda>c. c \<noteq> CHR '')'') sc" using assms(3) by (auto simp: list_all_iff)
  then have close: "takeWhile (\<lambda>c. c \<noteq> CHR '')'') (sc @ CHR '')'' # q) = sc"
    "dropWhile (\<lambda>c. c \<noteq> CHR '')'') (sc @ CHR '')'' # q) = CHR '')'' # q"
    by (simp_all add: takeWhile_app dropWhile_app)
  show ?thesis
  proof (cases "sc = []")
    case True
    then show ?thesis using assms(1,4) split [of q] nw q by (simp add: match_conventional_def)
  next
    case False
    then show ?thesis using assms(1,4) split [of "''('' @ sc @ '')'' @ q"] nw close
      by (simp add: match_conventional_def Let_def)
  qed
qed

lemma match_parts:
  assumes "match_conventional s = Some (ty, sc, x, v)"
  shows "ty \<noteq> [] \<and> list_all is_word ty \<and> CHR '')'' \<notin> set sc \<and> (\<exists>p q. s = p @ q \<and> after_colon q = Some (x, v))"
proof -
  let ?r = "dropWhile is_word s"
  have s: "s = takeWhile is_word s @ ?r" by simp
  have ty: "ty = takeWhile is_word s" "ty \<noteq> []"
    using assms by (auto simp: match_conventional_def Let_def split: if_splits)
  have "list_all is_word ty" unfolding ty(1) by (auto simp: list_all_iff dest: set_takeWhileD)
  moreover have "CHR '')'' \<notin> set sc \<and> (\<exists>p q. s = p @ q \<and> after_colon q = Some (x, v))"
  proof (cases "take 1 ?r = ''(''")
    case True
    let ?q = "dropWhile (\<lambda>c. c \<noteq> CHR '')'') (drop 1 ?r)"
    from True assms ty have q: "?q \<noteq> []" "after_colon (drop 1 ?q) = Some (x, v)"
      and sc: "sc = takeWhile (\<lambda>c. c \<noteq> CHR '')'') (drop 1 ?r)"
      by (auto simp: match_conventional_def Let_def split: if_splits)
    have "drop 1 ?r = sc @ ?q" unfolding sc by simp
    then have "\<exists>p. s = p @ drop 1 ?q"
      by (metis append.assoc append_take_drop_id s)
    then show ?thesis using q sc by (auto dest: set_takeWhileD)
  next
    case False
    with assms ty have "after_colon ?r = Some (x, v)" "sc = []"
      by (auto simp: match_conventional_def Let_def split: if_splits)
    then show ?thesis using s by (metis empty_iff list.set(1))
  qed
  ultimately show ?thesis using ty(2) by simp
qed


lemma message_parts:
  assumes m: "match_conventional (strip title) = Some (ty, sc, x, v)"
  shows "parse_conventional (ty @ (if sc = [] then '''' else ''('' @ sc @ '')'') @ '': '' @ x @ version_part v) = (ty, sc, x, v)"
    and "strip x = x" and "x \<noteq> []"
proof -
  obtain p q where parts: "ty \<noteq> []" "list_all is_word ty" "CHR '')'' \<notin> set sc" "strip title = p @ q" "after_colon q = Some (x, v)"
    using match_parts [OF m] by blast
  then obtain t where q: "q = CHR '':'' # t" and u: "lazy_subject (dropWhile is_space t) = Some (x, v)"
    by (auto simp: after_colon_def split: list.splits if_splits)
  let ?u = "dropWhile is_space t"
  have ne: "?u \<noteq> []" using u by (metis lazy_subject.simps(1) option.distinct(1))
  then have first: "\<not> is_space (hd ?u)" by (rule hd_dropWhile)
  have "last t = last ?u" using ne by (metis last_appendR takeWhile_dropWhile_id)
  moreover have "t \<noteq> []" using ne by auto
  moreover have "strip title \<noteq> []" using parts q by simp
  ultimately have last: "\<not> is_space (last ?u)" using strip_ends [of title] parts q by simp
  show x: "strip x = x" by (rule subject_ends [OF u first last])
  show xne: "x \<noteq> []" using lazy_subject_Some [OF u] by simp
  have ends: "\<not> is_space (hd x)" "\<not> is_space (last x)" using strip_ends [of x] x xne by simp_all
  let ?m = "ty @ (if sc = [] then '''' else ''('' @ sc @ '')'') @ '': '' @ x @ version_part v"
  have "dropWhile is_space (CHR '' '' # x @ version_part v) = x @ version_part v"
    using ends xne by (cases x) (simp_all add: is_space_def)
  then have "after_colon ('': '' @ x @ version_part v) = Some (x, v)"
    using subject_again [OF u x] by (simp add: after_colon_def)
  from match_after_colon [OF parts(1-3) this]
  have match: "match_conventional ?m = Some (ty, sc, x, v)" .
  have "\<not> is_space (hd ?m)" using parts(1,2) word_not_space by (cases ty) simp_all
  moreover have "\<not> is_space (last ?m)" using ends xne by (simp add: version_part_def is_space_def)
  ultimately have "strip ?m = ?m" by (intro strip_id) simp
  then show "parse_conventional ?m = (ty, sc, x, v)" using match x by (simp add: parse_conventional_def)
qed

text \<open>C30: committing a backlog task keeps its title's meaning. A title that is a conventional commit
  title (a type, an optional scope, a subject, an optional version) is parsed into fields whose
  commit message parses into the same fields; so the message is a normal form of the title.\<close>

theorem commit_titles_normalise:
  "parse_conventional title = ([], [], [], []) \<or>
   parse_conventional (commit_message (make_task title source i)) = parse_conventional title"
proof (cases "match_conventional (strip title)")
  case None
  then show ?thesis by (simp add: parse_conventional_def)
next
  case (Some p)
  obtain ty sc x v where p: "p = (ty, sc, x, v)" by (cases p)
  note parts = message_parts [OF Some [unfolded p]]
  have title: "parse_conventional title = (ty, sc, x, v)"
    using Some p parts(2) by (simp add: parse_conventional_def)
  have "ty \<noteq> []" using match_parts [OF Some [unfolded p]] by simp
  then have "commit_message (make_task title source i) =
      ty @ (if sc = [] then '''' else ''('' @ sc @ '')'') @ '': '' @ x @ version_part v"
    using parts(3) title by (simp add: make_task_def commit_message_def version_part_def)
  then show ?thesis using parts(1) title by simp
qed

section \<open>The list\<close>

lemma backlog_line_one: "one_line title \<Longrightarrow> one_line (backlog_line active (i, title, checked))"
  by (simp add: backlog_line_def) (simp add: one_line_def ELLIPSIS_def is_line_end_def)

lemma strip_marked:
  assumes "strip title \<noteq> []" and "p \<noteq> []" and "\<not> is_space (hd p)"
  shows "\<exists>a. list_all is_space a \<and> strip (p @ title) = p @ a @ strip title \<and> strip (a @ strip title) = strip title"
proof -
  obtain a b where ab: "title = a @ strip title @ b" "list_all is_space a" "list_all is_space b"
    using strip_parts by blast
  note ends = strip_ends [OF assms(1)]
  have "p @ title = [] @ (p @ a @ strip title) @ b" using ab(1) by (metis append.assoc append_Nil)
  then have "strip (p @ title) = p @ a @ strip title"
    using strip_sandwich [of "[]" b "p @ a @ strip title"] ab(3) assms ends by simp
  moreover have "strip (a @ strip title) = strip title"
    using strip_sandwich [of a "[]" "strip title"] ab(2) assms(1) ends by simp
  ultimately show ?thesis using ab(2) by blast
qed

lemma backlog_line_read:
  assumes "strip title \<noteq> []"
  shows "startswith (strip (backlog_line active (i, title, checked))) ''- [ ] '' \<longleftrightarrow> \<not> checked \<and> Some i \<noteq> active"
    and "\<not> checked \<Longrightarrow> Some i \<noteq> active \<Longrightarrow>
      strip (drop 6 (strip (backlog_line active (i, title, checked)))) = strip title"
proof -
  obtain a where a: "strip (''- [ ] '' @ title) = ''- [ ] '' @ a @ strip title" "strip (a @ strip title) = strip title"
    using strip_marked [OF assms, of "''- [ ] ''"] by (auto simp: is_space_def)
  obtain b where b: "strip (''- [X] '' @ title) = ''- [X] '' @ b @ strip title"
    using strip_marked [OF assms, of "''- [X] ''"] by (auto simp: is_space_def)
  have c: "strip (''- *(spinner) '' @ title @ ELLIPSIS) = ''- *(spinner) '' @ title @ ELLIPSIS"
    by (rule strip_id) (simp add: is_space_def ELLIPSIS_def)
  show "startswith (strip (backlog_line active (i, title, checked))) ''- [ ] '' \<longleftrightarrow> \<not> checked \<and> Some i \<noteq> active"
    using a(1) b c by (auto simp: backlog_line_def startswith_def)
  show "\<not> checked \<Longrightarrow> Some i \<noteq> active \<Longrightarrow>
      strip (drop 6 (strip (backlog_line active (i, title, checked)))) = strip title"
    using a by (auto simp: backlog_line_def)
qed

lemma backlog_text_lines:
  assumes "list_all (\<lambda>(t, c). one_line t) tasks"
  shows "splitlines (backlog_text tasks active) =
    (if tasks = [] then [] else [''# Backlog ('' @ digits (length tasks) @ '')'', ''''])
      @ map (backlog_line active) (enumerate 1 tasks)"
proof -
  have lines: "list_all one_line (map (backlog_line active) (enumerate k tasks))" for k
    using assms by (induction tasks arbitrary: k) (auto simp: backlog_line_one)
  have ne: "backlog_line active p \<noteq> []" for p by (cases p) (simp add: backlog_line_def Let_def)
  have header: "one_line (''# Backlog ('' @ digits n @ '')'')" for n
    unfolding one_line_append by (intro conjI digits_one_line) (simp_all add: one_line_def is_line_end_def)
  show ?thesis
  proof (cases tasks)
    case (Cons t ts)
    show ?thesis
      unfolding backlog_text_def
      by (rule splitlines_join) (use lines [of 1] lines [of 2] ne Cons header in \<open>auto simp: last_map one_line_def [of "[]"]\<close>)
  qed (simp add: backlog_text_def)
qed

text \<open>C40: the written list is read back. When every title is one line and not blank, loading the
  text the writer makes answers exactly the titles that are neither checked nor active, stripped,
  in their order, each with the number of its line.\<close>

theorem backlog_list_roundtrip:
  assumes "list_all (\<lambda>(t, c). one_line t \<and> strip t \<noteq> []) tasks"
  shows "map (\<lambda>t. (bt_title t, bt_index t)) (load_tasks_from_file name (Some (backlog_text tasks active))) =
    map (\<lambda>(i, t, c). (strip t, i + 1))
      (filter (\<lambda>(i, t, c). \<not> c \<and> Some i \<noteq> active) (enumerate 1 tasks))"
proof -
  let ?keep = "\<lambda>(i, l). startswith (strip l) ''- [ ] ''"
  have fields: "bt_title (make_task t s i) = t" "bt_index (make_task t s i) = i" for t s i
    by (simp_all add: make_task_def case_prod_unfold)
  have rows: "map (\<lambda>(i, l). (strip (drop 6 (strip l)), i))
        (filter ?keep (enumerate (k + 1) (map (backlog_line active) (enumerate k ts)))) =
      map (\<lambda>(i, t, c). (strip t, i + 1)) (filter (\<lambda>(i, t, c). \<not> c \<and> Some i \<noteq> active) (enumerate k ts))"
    if "list_all (\<lambda>(t, c). one_line t \<and> strip t \<noteq> []) ts" for k ts
    using that
    by (induction ts arbitrary: k) (auto simp: backlog_line_read)
  have header: "strip (''# Backlog ('' @ ds @ '')'') = ''# Backlog ('' @ ds @ '')''" for ds
    by (rule strip_id) (simp add: is_space_def)
  have "list_all (\<lambda>(t, c). one_line t) tasks" using assms by (auto simp: list_all_iff)
  from backlog_text_lines [OF this, of active] rows [OF assms, of 1] header show ?thesis
    by (auto simp: load_tasks_from_file_def fields comp_def case_prod_unfold startswith_def)
qed


theorem backlog_list_roundtrip_witness:
  "map bt_title (load_tasks_from_file ''TODO.md'' (Some (backlog_text
     [(''feat: one'', False), (''fix: two '', False), (''docs: three'', True)] (Some 1)))) = [''fix: two'']"
proof -
  let ?tasks = "[(''feat: one'', False), (''fix: two '', False), (''docs: three'', True)]"
  have "list_all (\<lambda>(t, c). one_line t \<and> strip t \<noteq> []) ?tasks" by code_simp
  from backlog_list_roundtrip [OF this, of "''TODO.md''" "Some 1"]
  have "map fst (map (\<lambda>t. (bt_title t, bt_index t)) (load_tasks_from_file ''TODO.md'' (Some (backlog_text ?tasks (Some 1))))) =
      map fst (map (\<lambda>(i, t, c). (strip t, i + 1)) (filter (\<lambda>(i, t, c). \<not> c \<and> Some i \<noteq> Some 1) (enumerate 1 ?tasks)))"
    by simp
  also have "\<dots> = [''fix: two'']" by code_simp
  finally show ?thesis by (simp add: comp_def)
qed

end
