(* ===== verification/WorkflowFrame.thy ===== *)
theory WorkflowFrame
  imports WorkflowProps
begin

text \<open>
  What a workflow run leaves alone. The run keeps its cards on a board of its own: the boards,
  cards and subtasks that were there before stay as they were, whatever the agents do and whether
  the run answers or raises. And no stage it reports has a \<open>commit\<close> entry in its details.
\<close>

section \<open>The old part of the board\<close>

definition old_cards :: "kanban_state \<Rightarrow> kanban_state \<Rightarrow> (int \<times> card_row) list" where
  "old_cards K0 k = filter (\<lambda>(i, r). cr_board r \<le> last_id (k_boards K0)) (table_rows (k_cards k))"

definition old_boards :: "kanban_state \<Rightarrow> kanban_state \<Rightarrow> (int \<times> board_row) list" where
  "old_boards K0 k = filter (\<lambda>(i, r). i \<le> last_id (k_boards K0)) (table_rows (k_boards k))"

definition own_card :: "kanban_state \<Rightarrow> kanban_state \<Rightarrow> int \<Rightarrow> bool" where
  "own_card K0 k i \<longleftrightarrow> (case row_of (k_cards k) i of None \<Rightarrow> False | Some r \<Rightarrow> last_id (k_boards K0) < cr_board r)"

text \<open>\<open>C\<close> are identifiers of cards on new boards.\<close>

definition board_kept :: "kanban_state \<Rightarrow> int set \<Rightarrow> kanban_state \<Rightarrow> bool" where
  "board_kept K0 C k \<longleftrightarrow> kanban_inv k \<and> k_open k = k_open K0 \<and> k_subtasks k = k_subtasks K0 \<and>
     last_id (k_boards K0) \<le> last_id (k_boards k) \<and>
     old_boards K0 k = old_boards K0 K0 \<and> old_cards K0 k = old_cards K0 K0 \<and>
     (\<forall>i \<in> C. own_card K0 k i)"

abbreviation board_keeps :: "kanban_state \<Rightarrow> int set \<Rightarrow> 'a kanban \<Rightarrow> bool" where
  "board_keeps K0 C m \<equiv> hoare (board_kept K0 C) m (\<lambda>_. board_kept K0 C) (\<lambda>_. board_kept K0 C)"

lemma board_kept_refl: "kanban_inv K0 \<Longrightarrow> board_kept K0 {} K0"
  by (simp add: board_kept_def)

lemma board_kept_frame [simp]:
  "board_kept K0 C (k\<lparr>k_tick := n\<rparr>) = board_kept K0 C k"
  "board_kept K0 C (k\<lparr>k_log := l\<rparr>) = board_kept K0 C k"
  by (simp_all add: board_kept_def old_cards_def old_boards_def own_card_def)

lemma board_keeps_gets: "board_keeps K0 C (gets f)"
  by (rule hoare_gets)

lemma board_keeps_now: "board_keeps K0 C (now_iso E)"
  by (rule hoareI) (simp add: now_iso_def)

lemma board_keeps_open: "board_keeps K0 C require_open"
  by (rule hoareI) (simp add: require_open_def)

lemma board_keeps_parent: "board_keeps K0 C (require_parent P)"
  by (rule hoareI) (simp add: require_parent_def)

lemma board_keeps_publish: "board_keeps K0 C (kanban_publish E topic p)"
  unfolding kanban_publish_def by (intro hoare_if hoare_modify hoare_ret) simp_all

lemma board_keeps_need: "board_keeps K0 C (need_card c)"
  unfolding need_card_def by (cases c) (simp_all add: hoare_raise hoare_ret)

lemma old_cards_update:
  assumes "own_card K0 k i" and "table_inv (k_cards k)" and "\<And>r. cr_board (f r) = cr_board r"
  shows "old_cards K0 (k\<lparr>k_cards := update_row i f (k_cards k)\<rparr>) = old_cards K0 k"
proof -
  let ?P = "\<lambda>(j, r). cr_board r \<le> last_id (k_boards K0)"
  let ?g = "\<lambda>(j, r). (j, if j = i then f r else r)"
  have "\<not> ?P (i, r)" if "(i, r) \<in> set (table_rows (k_cards k))" for r
    using assms(1) that row_of_mem [OF assms(2), of i r] by (auto simp: own_card_def)
  then have "filter ?P (map ?g xs) = filter ?P xs" if "set xs \<subseteq> set (table_rows (k_cards k))" for xs
    using that by (induction xs) (auto simp: assms(3) split: if_splits)
  then show ?thesis by (simp add: old_cards_def update_row_def)
qed

text \<open>An update of an own card that keeps its board.\<close>

lemma board_kept_update:
  assumes k: "board_kept K0 C k" and own: "i \<in> C"
    and f: "\<And>r. cr_board (f r) = cr_board r"
    and inv: "kanban_inv (k\<lparr>k_cards := update_row i f (k_cards k)\<rparr>)"
  shows "board_kept K0 C (k\<lparr>k_cards := update_row i f (k_cards k)\<rparr>)"
proof -
  have "table_inv (k_cards k)" using k by (simp add: board_kept_def kanban_inv_def)
  then have "old_cards K0 (k\<lparr>k_cards := update_row i f (k_cards k)\<rparr>) = old_cards K0 k"
    using k own by (intro old_cards_update f) (simp add: board_kept_def)
  moreover have "own_card K0 (k\<lparr>k_cards := update_row i f (k_cards k)\<rparr>) j = own_card K0 k j" for j
    by (simp add: own_card_def row_of_update f split: option.split)
  ultimately show ?thesis using k inv by (simp add: board_kept_def old_boards_def)
qed


lemma board_keeps_update:
  assumes "i \<in> C" and "\<And>r. cr_board (f r) = cr_board r" and "\<And>r. card_ok r \<Longrightarrow> card_ok (f r)"
  shows "board_keeps K0 C (update_card i f)"
  unfolding update_card_def
proof (rule hoare_seq [OF board_keeps_open hoare_modify])
  fix k assume k: "board_kept K0 C k"
  then have "kanban_inv (k\<lparr>k_cards := update_row i f (k_cards k)\<rparr>)"
    by (intro inv_update_card) (simp_all add: board_kept_def assms)
  with k assms show "board_kept K0 C (k\<lparr>k_cards := update_row i f (k_cards k)\<rparr>)"
    by (intro board_kept_update)
qed

lemma board_keeps_pass: "i \<in> C \<Longrightarrow> board_keeps K0 C (store_pass_tdd_gate E i)"
  unfolding store_pass_tdd_gate_def
  by (intro hoare_bnd [OF board_keeps_now] board_keeps_update) (auto simp: card_ok_def)

lemma board_keeps_blocked: "i \<in> C \<Longrightarrow> board_keeps K0 C (store_set_blocked E i reason)"
  unfolding store_set_blocked_def store_get_card_def
  by (intro hoare_bnd [OF board_keeps_now] hoare_seq [OF board_keeps_update] board_keeps_gets)
     (auto simp: card_ok_def)

lemma store_move_card_state:
  "snd (store_move_card E i column k) = k \<or>
   snd (store_move_card E i column k) = k\<lparr>k_tick := k_tick k + 1\<rparr> \<or>
   snd (store_move_card E i column k) = k\<lparr>k_tick := k_tick k + 1, k_cards := update_row i
     (\<lambda>r. r\<lparr>cr_column := column, cr_updated := k_clock E (k_tick k)\<rparr>) (k_cards k)\<rparr>"
  by (simp add: store_move_card_def store_get_card_def py_run now_iso_def update_card_def
      require_open_def split: option.split)

lemma board_keeps_store_move:
  assumes "i \<in> C" shows "board_keeps K0 C (store_move_card E i column)"
proof (rule hoareI)
  fix k assume k: "board_kept K0 C k"
  then have inv: "kanban_inv (snd (store_move_card E i column k))"
    by (intro keeps_invD [OF inv_store_move_card]) (simp add: board_kept_def)
  let ?f = "\<lambda>r. r\<lparr>cr_column := column, cr_updated := k_clock E (k_tick k)\<rparr>"
  let ?k1 = "k\<lparr>k_tick := k_tick k + 1\<rparr>"
  have k1: "board_kept K0 C ?k1" using k by simp
  from store_move_card_state [of E i column k] have "board_kept K0 C (snd (store_move_card E i column k))"
  proof (elim disjE)
    assume "snd (store_move_card E i column k) =
      k\<lparr>k_tick := k_tick k + 1, k_cards := update_row i ?f (k_cards k)\<rparr>"
    with board_kept_update [OF k1 assms, of ?f] inv show ?thesis by simp
  qed (use k k1 in simp_all)
  then show "case store_move_card E i column k of (Inl e, t) \<Rightarrow> board_kept K0 C t | (Inr x, t) \<Rightarrow> board_kept K0 C t"
    by (auto split: prod.splits sum.splits)
qed

lemma board_keeps_move:
  assumes "i \<in> C" shows "board_keeps K0 C (move_card E i column)"
proof -
  have handler: "board_keeps K0 C (if exn_kind e = KanbanError
      then seq (if column = ''Done'' \<and> k_bus E
             then bnd (store_get_card E i) (\<lambda>c. case c of None \<Rightarrow> ret ()
               | Some k \<Rightarrow> kanban_publish E ''kanban.card_blocked'' (blocked_payload TDD_REASON k))
             else ret ()) (raise e)
      else raise e)" for e :: exn
  proof -
    have "board_keeps K0 C (case c of None \<Rightarrow> ret () | Some k \<Rightarrow> kanban_publish E topic (g k))" for c topic g
      by (cases c) (simp_all add: hoare_ret board_keeps_publish)
    then show ?thesis
      unfolding store_get_card_def
      by (intro hoare_if hoare_raise hoare_seq [where S = "board_kept K0 C"] hoare_ret hoare_bnd [OF board_keeps_gets])
  qed
  show ?thesis
    unfolding move_card_def
    by (rule hoare_bnd [OF board_keeps_gets],
        rule hoare_bnd [OF hoare_try [OF board_keeps_store_move [OF assms] handler]],
        rule hoare_if, rule hoare_bnd [OF board_keeps_need], rule hoare_seq [where S = "board_kept K0 C"],
        rule hoare_if, rule board_keeps_publish, rule hoare_ret, assumption, rule hoare_ret, assumption,
        rule hoare_ret, assumption)
qed

lemma board_keeps_block: "i \<in> C \<Longrightarrow> board_keeps K0 C (block_card E i reason)"
  unfolding block_card_def
  by (intro hoare_bnd [OF board_keeps_blocked] hoare_if hoare_bnd [OF board_keeps_need]
      hoare_seq [OF board_keeps_publish] hoare_ret)

lemma board_keeps_begin: "i \<in> C \<Longrightarrow> board_keeps K0 C (begin_work E i)"
  unfolding begin_work_def by (intro hoare_bnd [OF board_keeps_move] board_keeps_move)

lemma board_keeps_complete: "i \<in> C \<Longrightarrow> board_keeps K0 C (complete_work E i)"
  unfolding complete_work_def
  by (intro hoare_bnd [OF board_keeps_move] hoare_seq [OF board_keeps_pass] board_keeps_move)

definition new_board :: "kanban_env \<Rightarrow> string \<Rightarrow> string \<Rightarrow> board_row" where
  "new_board E name now = \<lparr>br_name = name, br_status = ''active'', br_project = k_project E, br_created = now\<rparr>"

lemma create_board_run:
  "store_create_board E name k = (if k_open k
     then (Inr \<lparr>kb_id = last_id (k_boards k) + 1, kb_row = new_board E name (k_clock E (k_tick k))\<rparr>,
       k\<lparr>k_tick := k_tick k + 1, k_boards := snd (insert_row (new_board E name (k_clock E (k_tick k))) (k_boards k))\<rparr>)
     else (Inl (Exn KanbanError ''Store is not open''), k\<lparr>k_tick := k_tick k + 1\<rparr>))"
  by (simp add: store_create_board_def py_run now_iso_def require_open_def Let_def insert_row_def new_board_def)

definition new_card :: "kanban_env \<Rightarrow> int \<Rightarrow> string \<Rightarrow> string \<Rightarrow> string \<Rightarrow> card_row" where
  "new_card E bid title description now =
     \<lparr>cr_board = bid, cr_title = title, cr_description = description, cr_column = ''Backlog'',
      cr_tdd = False, cr_blocked = False, cr_reason = '''', cr_project = k_project E,
      cr_created = now, cr_updated = now\<rparr>"

lemma create_card_run:
  "store_create_card E bid title description k =
     (if \<not> k_open k then (Inl (Exn KanbanError ''Store is not open''), k\<lparr>k_tick := k_tick k + 1\<rparr>)
      else if row_of (k_boards k) bid = None
      then (Inl (Exn OtherException ''FOREIGN KEY constraint failed''), k\<lparr>k_tick := k_tick k + 1\<rparr>)
      else let r = new_card E bid title description (k_clock E (k_tick k)) in
        (Inr \<lparr>kc_id = last_id (k_cards k) + 1, kc_row = r, kc_subtasks = []\<rparr>,
         k\<lparr>k_tick := k_tick k + 1, k_cards := snd (insert_row r (k_cards k))\<rparr>))"
  by (simp add: store_create_card_def py_run now_iso_def require_open_def require_parent_def
      Let_def insert_row_def new_card_def)

lemma create_board_kept:
  "hoare (board_kept K0 C) (store_create_board E name)
     (\<lambda>b k. board_kept K0 C k \<and> last_id (k_boards K0) < kb_id b) (\<lambda>_. board_kept K0 C)"
proof (rule hoareI)
  fix k assume k: "board_kept K0 C k"
  then have inv: "kanban_inv (snd (store_create_board E name k))"
    by (intro keeps_invD [OF inv_store_create_board]) (simp add: board_kept_def)
  show "case store_create_board E name k of (Inl e, t) \<Rightarrow> board_kept K0 C t
      | (Inr b, t) \<Rightarrow> board_kept K0 C t \<and> last_id (k_boards K0) < kb_id b"
    using k inv unfolding create_board_run
    by (auto simp: board_kept_def old_boards_def old_cards_def own_card_def insert_row_def split: if_splits)
qed

lemma create_card_kept:
  assumes "last_id (k_boards K0) < bid"
  shows "hoare (board_kept K0 C) (store_create_card E bid title description)
     (\<lambda>c. board_kept K0 (insert (kc_id c) C)) (\<lambda>_. board_kept K0 C)"
proof (rule hoareI)
  fix k assume k: "board_kept K0 C k"
  then have inv: "kanban_inv (snd (store_create_card E bid title description k))"
    by (intro keeps_invD [OF inv_store_create_card]) (simp add: board_kept_def)
  define r where "r = new_card E bid title description (k_clock E (k_tick k))"
  have r: "cr_board r = bid" by (simp add: r_def new_card_def)
  note run = create_card_run [of E bid title description k, folded r_def]
  have "table_inv (k_cards k)" using k by (simp add: board_kept_def kanban_inv_def)
  then have "own_card K0 (k\<lparr>k_tick := k_tick k + 1, k_cards := snd (insert_row r (k_cards k))\<rparr>) i"
    if "own_card K0 k i \<or> i = last_id (k_cards k) + 1" for i
    using that assms r row_of_insert [of "k_cards k" r i] by (auto simp: own_card_def insert_row_def)
  then have "board_kept K0 (insert (last_id (k_cards k) + 1) C)
      (k\<lparr>k_tick := k_tick k + 1, k_cards := snd (insert_row r (k_cards k))\<rparr>)"
    if "k_open k" "row_of (k_boards k) bid \<noteq> None"
    using k inv assms r that unfolding run
    by (auto simp: board_kept_def old_boards_def old_cards_def insert_row_def Let_def)
  then show "case store_create_card E bid title description k of (Inl e, t) \<Rightarrow> board_kept K0 C t
      | (Inr c, t) \<Rightarrow> board_kept K0 (insert (kc_id c) C) t"
    using k by (simp add: run Let_def)
qed


section \<open>The run\<close>

definition no_commit :: "stage \<Rightarrow> bool" where
  "no_commit st \<longleftrightarrow> map_of (sg_details st) ''commit'' = None"

text \<open>\<open>C\<close> are identifiers of the run's own cards.\<close>

definition run_kept :: "kanban_state \<Rightarrow> int set \<Rightarrow> 'w wstate \<Rightarrow> bool" where
  "run_kept K0 C s \<longleftrightarrow> board_kept K0 (C \<union> kc_id ` set (wc_cards (ws_ctx s))) (ws_kanban s) \<and>
     list_all no_commit (wc_stages (ws_ctx s))"

abbreviation run_keeps :: "kanban_state \<Rightarrow> int set \<Rightarrow> ('w wstate, 'a) py \<Rightarrow> bool" where
  "run_keeps K0 C m \<equiv> hoare (run_kept K0 C) m (\<lambda>_. run_kept K0 C) (\<lambda>_. run_kept K0 C)"

definition plain_result :: "workflow_result \<Rightarrow> bool" where
  "plain_result res \<longleftrightarrow> list_all no_commit (wr_stages res)"

text \<open>A computation that answers a result, or a phase that may.\<close>

abbreviation run_answers :: "kanban_state \<Rightarrow> int set \<Rightarrow> ('w wstate, workflow_result) py \<Rightarrow> bool" where
  "run_answers K0 C m \<equiv> hoare (run_kept K0 C) m (\<lambda>r s. run_kept K0 C s \<and> plain_result r) (\<lambda>_. run_kept K0 C)"

abbreviation phase_keeps :: "kanban_state \<Rightarrow> int set \<Rightarrow> ('w wstate, workflow_result option) py \<Rightarrow> bool" where
  "phase_keeps K0 C m \<equiv> hoare (run_kept K0 C) m
     (\<lambda>r s. run_kept K0 C s \<and> pred_option plain_result r) (\<lambda>_. run_kept K0 C)"

lemma run_kept_mono: "run_kept K0 C s \<Longrightarrow> D \<subseteq> C \<union> kc_id ` set (wc_cards (ws_ctx s)) \<Longrightarrow> run_kept K0 D s"
  by (auto simp: run_kept_def board_kept_def)

lemma hoare_when:
  "hoare P m (\<lambda>x s. P s \<and> Q x) R \<Longrightarrow> (\<And>x. Q x \<Longrightarrow> hoare P (f x) S R) \<Longrightarrow> hoare P (bnd m f) S R"
  by (rule hoare_bnd [where S = "\<lambda>x s. P s \<and> Q x"]) (auto simp: hoare_def)

lemma run_keeps_ret: "run_keeps K0 C (ret x)"
  by (rule hoare_ret)

lemma run_keeps_bnd: "run_keeps K0 C m \<Longrightarrow> (\<And>x. run_keeps K0 C (f x)) \<Longrightarrow> run_keeps K0 C (bnd m f)"
  by (rule hoare_bnd)

lemma run_keeps_seq: "run_keeps K0 C m \<Longrightarrow> run_keeps K0 C n \<Longrightarrow> run_keeps K0 C (seq m n)"
  by (rule hoare_seq)

lemma run_keeps_of_sum: "run_keeps K0 C (of_sum r)"
  by (rule hoareI) (simp add: of_sum_run split: sum.split)

lemma run_keeps_gets: "run_keeps K0 C (gets f)"
  by (rule hoare_gets)

lemma run_keeps_get_ctx: "run_keeps K0 C (get_ctx f)"
  unfolding get_ctx_def by (rule run_keeps_gets)

lemma run_keeps_on_exec: "run_keeps K0 C (on_exec m)"
  by (rule hoareI) (auto simp: run_kept_def on_exec_def split: prod.splits sum.splits)

lemma run_keeps_on_world: "run_keeps K0 C (on_world f)"
  unfolding on_world_def by (rule run_keeps_on_exec)

lemma run_keeps_modify:
  "(\<And>s. ws_kanban (f s) = ws_kanban s \<and> ws_ctx (f s) = ws_ctx s) \<Longrightarrow> run_keeps K0 C (modify f)"
  by (rule hoare_modify) (simp add: run_kept_def)

lemma run_keeps_set_ctx:
  "(\<And>c. wc_cards (f c) = wc_cards c \<and> wc_stages (f c) = wc_stages c) \<Longrightarrow> run_keeps K0 C (set_ctx f)"
  unfolding set_ctx_def by (rule hoare_modify) (simp add: run_kept_def)

lemma run_keeps_if: "run_keeps K0 C m \<Longrightarrow> run_keeps K0 C n \<Longrightarrow> run_keeps K0 C (if b then m else n)"
  by simp

lemma run_keeps_new_task: "run_keeps K0 C (new_task W d ty ps c)"
  unfolding new_task_def by (intro run_keeps_bnd run_keeps_on_world run_keeps_ret)

lemma run_keeps_run_agent: "run_keeps K0 C (run_agent W ag t b)"
  unfolding run_agent_def by (intro run_keeps_bnd run_keeps_gets run_keeps_on_exec run_keeps_ret)

lemma run_keeps_publish_quality: "run_keeps K0 C (publish_quality W topic p)"
  unfolding publish_quality_def by (intro run_keeps_if run_keeps_ret run_keeps_modify) (simp add: Let_def)

lemma run_keeps_notify: "run_keeps K0 C (notify_stage W st)"
  unfolding notify_stage_def
  by (cases "we_on_stage W") (simp_all add: run_keeps_ret run_keeps_bnd run_keeps_on_world run_keeps_of_sum)

lemma run_keeps_add_error: "run_keeps K0 C (add_error e)"
  unfolding add_error_def by (rule run_keeps_set_ctx) simp

lemma run_keeps_add_stage: "no_commit st \<Longrightarrow> run_keeps K0 C (add_stage W st)"
  unfolding add_stage_def set_ctx_def
  by (rule hoare_seq [OF hoare_modify run_keeps_notify]) (simp add: run_kept_def)

lemma run_keeps_on_board:
  fixes m :: "'a kanban"
  assumes "\<And>D. C \<subseteq> D \<Longrightarrow> board_keeps K0 D m" shows "run_keeps K0 C (on_board m :: ('b wstate, 'a) py)"
proof (rule hoareI)
  fix s :: "'b wstate" assume s: "run_kept K0 C s"
  let ?D = "C \<union> kc_id ` set (wc_cards (ws_ctx s))"
  have "case m (ws_kanban s) of (Inl e, k) \<Rightarrow> board_kept K0 ?D k | (Inr x, k) \<Rightarrow> board_kept K0 ?D k"
    using assms [of ?D] s by (simp add: hoare_def run_kept_def)
  then show "case on_board m s of (Inl e, t) \<Rightarrow> run_kept K0 C t | (Inr x, t) \<Rightarrow> run_kept K0 C t"
    using s by (auto simp: on_board_def run_kept_def split: prod.splits sum.splits)
qed

lemma run_keeps_changed_files: "run_keeps K0 C (changed_files W)"
  unfolding changed_files_def by (intro run_keeps_bnd run_keeps_on_world run_keeps_ret)

lemmas run_keeps_intros =
  run_keeps_ret run_keeps_bnd run_keeps_seq run_keeps_of_sum run_keeps_gets run_keeps_get_ctx
  run_keeps_on_exec run_keeps_on_world run_keeps_if run_keeps_new_task run_keeps_run_agent
  run_keeps_publish_quality run_keeps_notify run_keeps_add_error run_keeps_changed_files

lemma no_commit_enrich: "no_commit (enrich_stage W i st) = no_commit st"
  by (simp add: enrich_stage_def no_commit_def Let_def split: option.split)

lemma no_commit_files: "no_commit (with_files p st) = no_commit st"
  by (simp add: with_files_def no_commit_def)

lemma no_commit_gate: "no_commit \<lparr>sg_name = n, sg_success = b, sg_error = e, sg_details = gate_details W g r\<rparr>"
  by (simp add: no_commit_def gate_details_def split: gate_status.split)

lemma no_commit_simps [simp]:
  "no_commit (mk_stage n b)" "no_commit (skipped_stage n)" "no_commit (developer_stage i b e d k)"
  by (simp_all add: no_commit_def skipped_stage_def developer_stage_def)

lemma no_commit_Nil [simp]: "no_commit \<lparr>sg_name = n, sg_success = b, sg_error = e, sg_details = []\<rparr>"
  by (simp add: no_commit_def)

lemma run_finish_answers: "run_answers K0 C (finish W)"
proof -
  have enrich: "run_keeps K0 C (set_ctx (\<lambda>c. enrich_stages W (c\<lparr>wc_finished := Some now\<rparr>)))" for now
    unfolding set_ctx_def
    by (rule hoare_modify)
       (auto simp: run_kept_def enrich_stages_def list_all_iff no_commit_enrich split: option.split)
  have result: "hoare (run_kept K0 C) (get_ctx (\<lambda>c. c)) (\<lambda>c s. run_kept K0 C s \<and> plain_result (result_from_context c))
      (\<lambda>_. run_kept K0 C)"
    unfolding get_ctx_def
    by (rule hoare_gets) (simp add: run_kept_def plain_result_def result_from_context_def)
  show ?thesis
    unfolding finish_def
    by (rule hoare_bnd [OF run_keeps_on_world], rule hoare_seq [OF enrich], rule hoare_when [OF result],
        rule hoare_seq [where S = "run_kept K0 C"], rule run_keeps_if, rule run_keeps_publish_quality,
        rule run_keeps_ret, rule hoare_ret) simp
qed


lemma fail_answers: "run_answers K0 C (fail_run W e)"
  unfolding fail_run_def by (rule hoare_seq [OF run_keeps_add_error run_finish_answers])

lemma phase_keeps_stop: "phase_keeps K0 C (stop_run W e)"
  unfolding stop_run_def by (rule hoare_bnd [OF fail_answers hoare_ret]) simp

lemma phase_keeps_finish: "phase_keeps K0 C (bnd (finish W) (\<lambda>r. ret (Some r)))"
  by (rule hoare_bnd [OF run_finish_answers hoare_ret]) simp

lemma phase_keeps_go_on: "phase_keeps K0 C go_on"
  unfolding go_on_def by (rule hoare_ret) simp

lemma phase_keeps_bnd: "run_keeps K0 C m \<Longrightarrow> (\<And>x. phase_keeps K0 C (f x)) \<Longrightarrow> phase_keeps K0 C (bnd m f)"
  by (rule hoare_bnd)

lemma phase_keeps_seq: "run_keeps K0 C m \<Longrightarrow> phase_keeps K0 C n \<Longrightarrow> phase_keeps K0 C (seq m n)"
  by (rule hoare_seq)

lemma phase_keeps_if: "phase_keeps K0 C m \<Longrightarrow> phase_keeps K0 C n \<Longrightarrow> phase_keeps K0 C (if b then m else n)"
  by simp

lemma phase_keeps_then:
  assumes "phase_keeps K0 C p" and "phase_keeps K0 C q" shows "phase_keeps K0 C (then_phase p q)"
  unfolding then_phase_def
proof (rule hoare_bnd [OF assms(1)])
  fix r show "hoare (\<lambda>s. run_kept K0 C s \<and> pred_option plain_result r)
      (case r of Some res \<Rightarrow> ret (Some res) | None \<Rightarrow> q)
      (\<lambda>r s. run_kept K0 C s \<and> pred_option plain_result r) (\<lambda>_. run_kept K0 C)"
    by (cases r) (auto intro: hoare_ret hoare_pre [OF assms(2)])
qed

lemmas phase_keeps_intros =
  phase_keeps_stop phase_keeps_finish phase_keeps_go_on phase_keeps_bnd phase_keeps_seq phase_keeps_if
  phase_keeps_then

lemma run_keeps_gate: "run_keeps K0 C (run_gate W name gi)"
proof (cases "map_of (workflow_gates W) name")
  case None
  have "no_commit ((mk_stage name True)\<lparr>sg_details := [(''skipped'', PBool True), (''reason'', PStr ''gate not configured'')]\<rparr>)"
    by (simp add: no_commit_def)
  with None show ?thesis by (simp add: run_gate_def run_keeps_seq run_keeps_add_stage run_keeps_ret)
next
  case (Some gate)
  then show ?thesis
    unfolding run_gate_def Let_def
    by (auto intro!: run_keeps_intros run_keeps_add_stage no_commit_gate)
qed

lemma phase_keeps_gate: "run_keeps K0 C input \<Longrightarrow> phase_keeps K0 C (gate_phase W name input)"
  unfolding gate_phase_def by (intro phase_keeps_intros run_keeps_gate)

lemma phase_keeps_branch: "phase_keeps K0 C (branch_phase W)"
proof -
  have "phase_keeps K0 C (case g of None \<Rightarrow> seq (add_stage W (skipped_stage ''git'')) go_on
      | Some git \<Rightarrow>
          bnd (get_ctx (\<lambda>c. build_branch (wc_run_id c) (wc_goal c))) (\<lambda>branch.
          bnd (new_task W (''create branch '' @ branch) ''create_branch''
                 [(''name'', PStr branch)] '''') (\<lambda>t.
          bnd (run_agent W git t False) (\<lambda>r.
          bnd (of_sum (git_error W r)) (\<lambda>err.
          seq (add_stage W ((mk_stage ''git'' (res_success r))\<lparr>sg_error := err\<rparr>))
         (if \<not> res_success r
          then stop_run W (''Git: failed to create branch '' @ branch @ '': '' @ show_opt err)
          else seq (set_ctx (\<lambda>c. c\<lparr>wc_branch := Some branch\<rparr>)) go_on))))))" for g
    by (cases g) (auto intro!: phase_keeps_intros run_keeps_intros run_keeps_add_stage run_keeps_set_ctx)
  then show ?thesis unfolding branch_phase_def .
qed

lemma bnd_seq_assoc: "seq (bnd m g) n = bnd m (\<lambda>x. seq (g x) n)"
  by (rule ext) (simp add: bnd_run seq_run split: prod.split sum.split)

lemma create_cards_keeps:
  fixes W :: "'a wenv"
  assumes "last_id (k_boards K0) < bid"
  shows "run_keeps K0 C (create_cards W bid vs)"
proof (induction vs)
  case (Cons v vs)
  have one: "hoare (run_kept K0 C :: 'a wstate \<Rightarrow> bool)
      (bnd (on_board (store_create_card (we_kanban W) bid d '''')) (\<lambda>kcard. set_ctx (\<lambda>c. c\<lparr>wc_cards := wc_cards c @ [kcard]\<rparr>)))
      (\<lambda>_. run_kept K0 C) (\<lambda>_. run_kept K0 C)" for d
  proof (rule hoareI)
    fix s :: "'a wstate" assume s: "run_kept K0 C s"
    let ?D = "C \<union> kc_id ` set (wc_cards (ws_ctx s))"
    let ?m = "store_create_card (we_kanban W) bid d ''''"
    have "case ?m (ws_kanban s) of (Inl e, k) \<Rightarrow> board_kept K0 ?D k
        | (Inr c, k) \<Rightarrow> board_kept K0 (insert (kc_id c) ?D) k"
      using create_card_kept [OF assms, of ?D "we_kanban W" d "''''"] s by (simp add: hoare_def run_kept_def)
    then show "case bnd (on_board ?m) (\<lambda>kcard. set_ctx (\<lambda>c. c\<lparr>wc_cards := wc_cards c @ [kcard]\<rparr>)) s of
        (Inl e, t) \<Rightarrow> run_kept K0 C t | (Inr x, t) \<Rightarrow> run_kept K0 C t"
      using s by (auto simp: bnd_run on_board_def set_ctx_def modify_run run_kept_def split: prod.splits sum.splits)
  qed
  show ?case
    unfolding create_cards.simps bnd_seq_assoc [symmetric]
    by (rule run_keeps_seq [OF run_keeps_bnd [OF run_keeps_of_sum one] Cons.IH])
qed (simp add: run_keeps_ret)

lemma phase_keeps_board:
  fixes W :: "'a wenv"
  shows "phase_keeps K0 C (board_phase W vs)"
proof -
  have create: "hoare (run_kept K0 C :: 'a wstate \<Rightarrow> bool) (on_board (store_create_board (we_kanban W) goal))
      (\<lambda>b s. run_kept K0 C s \<and> last_id (k_boards K0) < kb_id b) (\<lambda>_. run_kept K0 C)" for goal
  proof (rule hoareI)
    fix s :: "'a wstate" assume s: "run_kept K0 C s"
    let ?D = "C \<union> kc_id ` set (wc_cards (ws_ctx s))"
    let ?m = "store_create_board (we_kanban W) goal"
    have "case ?m (ws_kanban s) of (Inl e, k) \<Rightarrow> board_kept K0 ?D k
        | (Inr b, k) \<Rightarrow> board_kept K0 ?D k \<and> last_id (k_boards K0) < kb_id b"
      using create_board_kept [of K0 ?D "we_kanban W" goal] s by (simp add: hoare_def run_kept_def)
    then show "case on_board ?m s of (Inl e, t) \<Rightarrow> run_kept K0 C t
        | (Inr b, t) \<Rightarrow> run_kept K0 C t \<and> last_id (k_boards K0) < kb_id b"
      using s by (auto simp: on_board_def run_kept_def split: prod.splits sum.splits)
  qed
  show ?thesis
    unfolding board_phase_def
    by (rule phase_keeps_bnd [OF run_keeps_get_ctx], rule hoare_when [OF create])
       (auto intro!: phase_keeps_intros run_keeps_set_ctx create_cards_keeps run_keeps_add_stage)
qed


text \<open>Cards read from the context are own cards.\<close>

lemma phase_keeps_cards:
  assumes "\<And>c. phase_keeps K0 (C \<union> kc_id ` set (wc_cards c)) (f c)"
  shows "phase_keeps K0 C (bnd (get_ctx (\<lambda>c. c)) f)"
proof (rule hoare_bnd [where S = "\<lambda>c. run_kept K0 (C \<union> kc_id ` set (wc_cards c))"])
  show "hoare (run_kept K0 C) (get_ctx (\<lambda>c. c)) (\<lambda>c. run_kept K0 (C \<union> kc_id ` set (wc_cards c))) (\<lambda>_. run_kept K0 C)"
    unfolding get_ctx_def by (rule hoare_gets) (auto simp: run_kept_def board_kept_def)
  show "hoare (run_kept K0 (C \<union> kc_id ` set (wc_cards c))) (f c)
      (\<lambda>r s. run_kept K0 C s \<and> pred_option plain_result r) (\<lambda>_. run_kept K0 C)" for c
    by (rule hoare_weaken [OF assms]) (auto elim: run_kept_mono)
qed

lemma get_ctx_cards: "bnd (get_ctx wc_cards) f = bnd (get_ctx (\<lambda>c. c)) (\<lambda>c. f (wc_cards c))"
  by (rule ext) (simp add: get_ctx_def py_run)

lemma phase_keeps_developers:
  "(\<And>v k. (v, k) \<in> set ps \<Longrightarrow> kc_id k \<in> C) \<Longrightarrow> phase_keeps K0 C (developer_loop W n i ps)"
proof (induction ps arbitrary: i)
  case (Cons p ps)
  obtain v k where p: "p = (v, k)" by (cases p)
  then have k: "kc_id k \<in> C" using Cons.prems [of v k] by simp
  have IH: "phase_keeps K0 C (developer_loop W n j ps)" for j
  proof (rule Cons.IH)
    fix v k assume "(v, k) \<in> set ps"
    then show "kc_id k \<in> C" using Cons.prems [of v k] by simp
  qed
  show ?case
    unfolding p developer_loop.simps
    by (intro phase_keeps_intros IH run_keeps_of_sum run_keeps_new_task run_keeps_run_agent
          run_keeps_on_board run_keeps_add_stage run_keeps_set_ctx
          board_keeps_begin board_keeps_block board_keeps_complete) (use k in auto)
qed (simp add: phase_keeps_go_on)

lemma phase_keeps_delta: "phase_keeps K0 C (delta_phase W old)"
proof -
  have files: "run_keeps K0 C (set_ctx (\<lambda>c. c\<lparr>wc_changed := p, wc_produced := b,
      wc_stages := map (with_files p) (wc_stages c)\<rparr>))" for p b
    unfolding set_ctx_def by (rule hoare_modify) (simp add: run_kept_def list_all_iff no_commit_files)
  have block: "run_keeps K0 D (if wc_cards c = [] then ret ()
      else bnd (on_board (block_card (we_kanban W) (kc_id (last (wc_cards c))) why)) (\<lambda>_. ret ()))"
    if "kc_id ` set (wc_cards c) \<subseteq> D" for D c why
  proof (cases "wc_cards c = []")
    case False
    with that have "kc_id (last (wc_cards c)) \<in> D" by (meson imageI last_in_set subsetD)
    with False show ?thesis
      by (auto intro!: run_keeps_ret run_keeps_bnd run_keeps_on_board board_keeps_block)
  qed (simp add: run_keeps_ret)
  have noop: "no_commit \<lparr>sg_name = n, sg_success = b, sg_error = e, sg_details = [(''changed_files'', x)]\<rparr>" for n b e x
    by (simp add: no_commit_def)
  show ?thesis
    unfolding delta_phase_def Let_def
    by (intro phase_keeps_bnd [OF run_keeps_changed_files] phase_keeps_seq [OF files] phase_keeps_cards
          phase_keeps_if phase_keeps_seq [OF block] phase_keeps_seq [OF run_keeps_add_stage [OF noop]]
          phase_keeps_stop phase_keeps_go_on) auto
qed

lemma phase_keeps_developer: "phase_keeps K0 C (developer_phase W vs)"
  unfolding developer_phase_def get_ctx_cards
  by (intro phase_keeps_bnd [OF run_keeps_if [OF run_keeps_changed_files run_keeps_ret]] phase_keeps_cards
        phase_keeps_then phase_keeps_developers phase_keeps_if phase_keeps_delta phase_keeps_go_on
        phase_keeps_gate run_keeps_ret) (auto dest: set_zip_rightD)

lemma run_keeps_json: "run_keeps K0 C (if b then ret v else of_sum r)"
  by (intro run_keeps_if run_keeps_ret run_keeps_of_sum)

lemma phase_keeps_review: "phase_keeps K0 C (review_phase W)"
  unfolding review_phase_def
  by (intro phase_keeps_bnd [OF run_keeps_new_task] phase_keeps_bnd [OF run_keeps_run_agent]
        phase_keeps_bnd [OF run_keeps_json] phase_keeps_seq [OF run_keeps_set_ctx]
        phase_keeps_seq [OF run_keeps_add_stage] phase_keeps_go_on) simp_all

lemma phase_keeps_test: "phase_keeps K0 C (test_phase W)"
  unfolding test_phase_def
  by (cases "we_tester W")
     (auto intro!: phase_keeps_intros run_keeps_intros run_keeps_add_stage run_keeps_set_ctx)

lemma phase_keeps_documentation: "phase_keeps K0 C (documentation_phase W)"
  unfolding documentation_phase_def
  by (cases "we_documentation W")
     (auto intro!: phase_keeps_intros run_keeps_intros run_keeps_add_stage)

lemma phase_keeps_release: "phase_keeps K0 C (release_phase W)"
  unfolding release_phase_def by (intro phase_keeps_if phase_keeps_gate run_keeps_ret phase_keeps_go_on)

lemma run_keeps_commit: "run_keeps K0 C (commit_phase W)"
  unfolding commit_phase_def
  by (cases "we_git W")
     (auto intro!: run_keeps_intros run_keeps_add_stage run_keeps_set_ctx)

lemma run_keeps_test_input: "run_keeps K0 C test_input"
  unfolding test_input_def by (rule run_keeps_get_ctx)

lemma phase_keeps_workflow: "phase_keeps K0 C (workflow_phases W vs)"
  unfolding workflow_phases_def
  by (intro phase_keeps_then phase_keeps_branch phase_keeps_board phase_keeps_developer phase_keeps_review
        phase_keeps_gate phase_keeps_test phase_keeps_documentation phase_keeps_release run_keeps_ret
        run_keeps_test_input)

lemma run_keeps_research: "run_keeps K0 C (run_research W ag task)"
proof -
  have st: "no_commit ((mk_stage n b)\<lparr>sg_error := e\<rparr>)"
    "no_commit ((mk_stage n b)\<lparr>sg_details := [(''status'', v1), (''summary_short'', v2), (''sources'', v3), (''findings'', v4)]\<rparr>)"
    for n b e v1 v2 v3 v4 by (simp_all add: no_commit_def)
  have pub: "run_keeps K0 C (publish_research W d)" for d
    unfolding publish_research_def by (auto intro!: run_keeps_intros run_keeps_modify simp: Let_def)
  show ?thesis
    unfolding run_research_def Let_def
    by (intro run_keeps_intros run_keeps_add_stage st run_keeps_set_ctx run_keeps_modify pub) auto
qed

lemma run_keeps_plan:
  "hoare (run_kept K0 C) (plan_phase W task)
     (\<lambda>r s. run_kept K0 C s \<and> (case r of Inl res \<Rightarrow> plain_result res | Inr vs \<Rightarrow> True)) (\<lambda>_. run_kept K0 C)"
proof -
  have research: "run_keeps K0 C (case r of None \<Rightarrow> ret () | Some ag \<Rightarrow> run_research W ag task)" for r
    by (cases r) (simp_all add: run_keeps_ret run_keeps_research)
  have plan: "no_commit ((mk_stage n b)\<lparr>sg_details := [(''plan'', v)]\<rparr>)" for n b v
    by (simp add: no_commit_def)
  show ?thesis
    unfolding plan_phase_def
    by (rule hoare_seq [OF research], rule hoare_bnd [OF run_keeps_on_world], rule hoare_bnd [OF run_keeps_run_agent],
        rule hoare_if, rule hoare_seq [OF run_keeps_add_stage], simp, rule hoare_bnd [OF fail_answers],
        rule hoare_ret, simp, rule hoare_bnd [OF run_keeps_of_sum], rule hoare_bnd [OF run_keeps_of_sum],
        rule hoare_seq [OF run_keeps_set_ctx], simp, rule hoare_bnd [OF run_keeps_of_sum],
        rule hoare_seq [OF run_keeps_set_ctx], simp, rule hoare_seq [OF run_keeps_add_stage [OF plan]],
        rule hoare_ret) simp
qed

lemma start_kept:
  assumes "kanban_inv K0"
  shows "hoare (\<lambda>s. ws_kanban s = K0) (start_run W task) (\<lambda>_. run_kept K0 {}) (\<lambda>_ s. board_kept K0 {} (ws_kanban s))"
proof -
  have world: "hoare (\<lambda>s. ws_kanban s = K0) (on_world f) (\<lambda>_ s. ws_kanban s = K0) (\<lambda>_ s. board_kept K0 {} (ws_kanban s))" for f
    using board_kept_refl [OF assms]
    by (intro hoareI) (auto simp: on_world_def on_exec_def split: prod.splits sum.splits)
  have keep: "hoare (run_kept K0 {}) m (\<lambda>_. run_kept K0 {}) (\<lambda>_ s. board_kept K0 {} (ws_kanban s))"
    if "run_keeps K0 {} m" for m :: "('a wstate, unit) py"
    by (rule hoare_weaken [OF that]) (auto simp: run_kept_def board_kept_def)
  show ?thesis
    unfolding start_run_def apply_workflow_intent_def
    by (rule hoare_seq [OF hoare_modify [where Q = "\<lambda>_ s. ws_kanban s = K0"]], simp,
        rule hoare_bnd [OF world], rule hoare_seq [OF hoare_modify [where Q = "\<lambda>_. run_kept K0 {}"]],
        simp add: run_kept_def board_kept_refl [OF assms],
        rule hoare_seq [OF keep], rule run_keeps_modify, simp add: Let_def,
        rule hoare_seq [OF hoare_modify [where Q = "\<lambda>_. run_kept K0 {}"]], simp add: run_kept_def,
        rule keep, rule run_keeps_if, rule run_keeps_ret, rule run_keeps_publish_quality)
qed

lemma workflow_kept:
  assumes "kanban_inv K0"
  shows "hoare (\<lambda>s. ws_kanban s = K0) (workflow_execute W task)
     (\<lambda>r s. board_kept K0 {} (ws_kanban s) \<and> plain_result r) (\<lambda>_ s. board_kept K0 {} (ws_kanban s))"
proof -
  have commit: "run_answers K0 {} (seq (commit_phase W) (finish W))"
    by (rule hoare_seq [OF run_keeps_commit run_finish_answers])
  have rest: "run_answers K0 {} (bnd (workflow_phases W vs) (\<lambda>r. case r of Some res \<Rightarrow> ret res
      | None \<Rightarrow> seq (commit_phase W) (finish W)))" for vs
    by (rule hoare_bnd [OF phase_keeps_workflow])
       (auto split: option.split intro!: hoare_ret hoare_pre [OF commit])
  have "hoare (run_kept K0 {}) (bnd (plan_phase W task) (\<lambda>p. case p of Inl res \<Rightarrow> ret res
      | Inr vs \<Rightarrow> bnd (workflow_phases W vs) (\<lambda>r. case r of Some res \<Rightarrow> ret res
          | None \<Rightarrow> seq (commit_phase W) (finish W))))
      (\<lambda>r s. run_kept K0 {} s \<and> plain_result r) (\<lambda>_. run_kept K0 {})"
    by (rule hoare_bnd [OF run_keeps_plan])
       (auto split: sum.split intro!: hoare_ret hoare_pre [OF rest])
  from hoare_weaken [OF this] show ?thesis
    unfolding workflow_execute_def
    by (rule hoare_seq [OF start_kept [OF assms]]) (auto simp: run_kept_def board_kept_def)
qed

end
