(* ===== verification/KernelProps.thy ===== *)
theory KernelProps
  imports Kernel WorkflowFrame Pipeline
begin

text \<open>
  The kernel's promises: a broken engine stops neither the start nor the shutdown of the others;
  running a task always answers, and leaves what was on the board alone.
\<close>

section \<open>The life of the engines\<close>

text \<open>What one engine does to the world when it is started.\<close>

definition boot :: "'w engine \<Rightarrow> 'w \<Rightarrow> string \<times> exn option \<times> 'w" where
  "boot e w = (case en_initialize e w of
     (Inl exc, w1) \<Rightarrow> (''error'', Some exc, w1)
   | (Inr _, w1) \<Rightarrow> (case en_health e w1 of
       (Inl exc, w2) \<Rightarrow> (''error'', Some exc, w2)
     | (Inr ok, w2) \<Rightarrow> (if ok then ''ready'' else ''degraded'', None, w2)))"

definition boot_warning :: "string \<Rightarrow> string \<times> exn option \<times> 'w \<Rightarrow> string list" where
  "boot_warning name b = (case b of (st, exc, _) \<Rightarrow>
     if st = ''ready'' then []
     else [name @ '': '' @ (case exc of None \<Rightarrow> ''health check failed'' | Some x \<Rightarrow> exn_message x)])"

lemma initialize_engine_boot:
  "initialize_engine name e s = (case boot e (kl_world s) of (st, exc, w) \<Rightarrow>
     (Inr (), s\<lparr>kl_status := dict_set name st (kl_status s),
        kl_errors := kl_errors s @ boot_warning name (st, exc, w), kl_world := w\<rparr>))"
  by (auto simp: initialize_engine_def boot_def boot_warning_def py_run on_kernel_def set_status_def
      add_warning_def split: prod.splits sum.splits)

text \<open>The world, the statuses and the warnings after starting the engines of a list of names.\<close>

fun boot_all :: "'w kernel \<Rightarrow> string list \<Rightarrow> 'w \<Rightarrow> (string \<times> string) list \<times> string list \<times> 'w" where
  "boot_all K [] w = ([], [], w)"
| "boot_all K (n # ns) w = (case get_engine K n of
     None \<Rightarrow> (case boot_all K ns w of (sts, ws, w') \<Rightarrow> ((n, ''not installed'') # sts, ws, w'))
   | Some e \<Rightarrow> (case boot e w of (st, exc, w1) \<Rightarrow> (case boot_all K ns w1 of (sts, ws, w') \<Rightarrow>
       ((n, st) # sts, boot_warning n (st, exc, w1) @ ws, w'))))"

lemma dict_set_new: "k \<notin> fst ` set d \<Longrightarrow> dict_set k v d = d @ [(k, v)]"
  unfolding dict_set_def by (induction d) auto

lemma initialize_all_boot:
  "distinct ns \<Longrightarrow> set ns \<inter> fst ` set (kl_status s) = {} \<Longrightarrow>
   initialize_all K ns s = (case boot_all K ns (kl_world s) of (sts, ws, w) \<Rightarrow>
     (Inr (), s\<lparr>kl_status := kl_status s @ sts, kl_errors := kl_errors s @ ws, kl_world := w\<rparr>))"
proof (induction ns arbitrary: s)
  case (Cons n ns)
  show ?case
  proof (cases "get_engine K n")
    case None
    let ?t = "s\<lparr>kl_status := kl_status s @ [(n, ''not installed'')]\<rparr>"
    have "initialize_all K ns ?t = (case boot_all K ns (kl_world s) of (sts, ws, w) \<Rightarrow>
        (Inr (), ?t\<lparr>kl_status := kl_status ?t @ sts, kl_errors := kl_errors ?t @ ws, kl_world := w\<rparr>))"
      using Cons.IH [of ?t] Cons.prems by auto
    then show ?thesis using None Cons.prems
      by (auto simp: set_status_def py_run dict_set_new split: prod.splits)
  next
    case (Some e)
    obtain st exc w1 where b: "boot e (kl_world s) = (st, exc, w1)" by (cases "boot e (kl_world s)")
    let ?t = "s\<lparr>kl_status := kl_status s @ [(n, st)], kl_errors := kl_errors s @ boot_warning n (st, exc, w1), kl_world := w1\<rparr>"
    have "initialize_all K ns ?t = (case boot_all K ns w1 of (sts, ws, w) \<Rightarrow>
        (Inr (), ?t\<lparr>kl_status := kl_status ?t @ sts, kl_errors := kl_errors ?t @ ws, kl_world := w\<rparr>))"
      using Cons.IH [of ?t] Cons.prems by auto
    then show ?thesis using Some b Cons.prems
      by (auto simp: initialize_engine_boot py_run dict_set_new split: prod.splits)
  qed
qed (simp add: ret_run)

lemma boot_all_names: "map fst (fst (boot_all K ns w)) = ns"
  by (induction ns arbitrary: w) (auto simp: case_prod_unfold split: option.split)

definition fresh_kernel :: "'w \<Rightarrow> 'w kernel_state" where
  "fresh_kernel w = \<lparr>kl_status = [], kl_errors = [], kl_world = w\<rparr>"

lemma suppress_run: "suppress m s = (Inr (), snd (m s))"
  by (auto simp: suppress_def py_run split: prod.splits sum.splits)

lemma call_all_quiet:
  "(\<And>m s. m \<in> set ms \<Longrightarrow> fst (m s) = Inr ()) \<Longrightarrow> call_all ms s = (Inr (), fold (\<lambda>m t. snd (m t)) ms s)"
proof (induction ms arbitrary: s)
  case (Cons m ms)
  obtain t where t: "m s = (Inr (), t)" using Cons.prems [of m s] by (cases "m s") auto
  have "call_all ms t = (Inr (), fold (\<lambda>m t. snd (m t)) ms t)" by (rule Cons.IH) (rule Cons.prems, simp)
  then show ?case by (simp add: seq_run t)
qed (simp add: ret_run)



section \<open>Running a task\<close>

lemma friendly_returns: "\<exists>res t. execute_friendly E X prefix ag task c s = (Inr res, t)"
  unfolding execute_friendly_def try_except_run by (auto simp: ret_run split: prod.split sum.split)

lemma run_workflow_returns: "\<exists>res t. run_workflow R task opts s = (Inr res, t)"
  by (auto simp: run_workflow_def try_except_run ret_run split: option.split prod.split sum.split)

lemma kernel_run_returns: "\<exists>res t. kernel_run R task mode opts s = (Inr res, t)"
  using friendly_returns run_workflow_returns
  by (auto simp: kernel_run_def run_plan_def ret_run split: option.split)

lemma summary_details [simp]: "su_details (stage_to_summary st) = sg_details st"
  by (simp add: stage_to_summary_def)

lemma run_workflow_verdict:
  assumes "run_workflow R task opts s = (Inr res, t)"
  shows "rn_success res = (rn_errors res = []) \<and> length (rn_errors res) \<le> 1"
proof (cases "ru_workflow R")
  case (Some W)
  let ?W = "workflow_with opts W"
  show ?thesis
  proof (cases "workflow_execute ?W task s")
    case (Pair r u)
    show ?thesis
    proof (cases r)
      case (Inr w)
      have "wr_success w \<and> wr_errors w = [] \<or> \<not> wr_success w \<and> length (wr_errors w) = 1"
        using faithful_cases [OF hoareD_Inr [OF workflow_shape [of ?W task, unfolded vh_def] TrueI Pair [unfolded Inr]]]
        by blast
      then show ?thesis using assms Some Pair Inr
        by (auto simp: run_workflow_def py_run from_workflow_def RunResult_default_def)
    qed (use assms Some Pair in \<open>auto simp: run_workflow_def py_run failed_run_def RunResult_default_def\<close>)
  qed
qed (use assms in \<open>auto simp: run_workflow_def py_run failed_run_def RunResult_default_def\<close>)


definition plain_run :: "run_result \<Rightarrow> bool" where
  "plain_run res \<longleftrightarrow> list_all (\<lambda>st. map_of (su_details st) ''commit'' = None) (rn_stages res)"

lemma plain_failed [simp]: "plain_run (failed_run m)"
  by (simp add: plain_run_def failed_run_def RunResult_default_def)

lemma plain_agent [simp]: "plain_run (from_agent r)"
  by (simp add: plain_run_def from_agent_def RunResult_default_def Let_def)

lemma plain_workflow: "plain_result w \<Longrightarrow> plain_run (from_workflow w)"
  by (simp add: plain_run_def plain_result_def from_workflow_def RunResult_default_def list_all_iff no_commit_def)

lemma exec_board: "ws_kanban (snd (on_exec m s)) = ws_kanban s"
  by (simp add: on_exec_def case_prod_unfold Let_def)

lemma friendly_board:
  "execute_friendly E X prefix ag task c s = (Inr res, t) \<Longrightarrow> ws_kanban t = ws_kanban s \<and> plain_run res"
  unfolding execute_friendly_def on_world_def try_except_run bnd_run
  by (auto simp: ret_run on_exec_def run_result_from_outcome_def Let_def split: prod.splits sum.splits option.splits)

lemma workflow_board:
  assumes inv: "kanban_inv (ws_kanban s)" and run: "run_workflow R task opts s = (Inr res, t)"
  shows "board_kept (ws_kanban s) {} (ws_kanban t) \<and> plain_run res"
proof (cases "ru_workflow R")
  case None
  then show ?thesis using run board_kept_refl [OF inv] by (auto simp: run_workflow_def ret_run)
next
  case (Some W)
  let ?W = "workflow_with opts W"
  have "case workflow_execute ?W task s of
      (Inl e, u) \<Rightarrow> board_kept (ws_kanban s) {} (ws_kanban u)
    | (Inr r, u) \<Rightarrow> board_kept (ws_kanban s) {} (ws_kanban u) \<and> plain_result r"
    using workflow_kept [OF inv, of ?W task] by (simp add: hoare_def)
  then show ?thesis using run Some
    by (auto simp: run_workflow_def try_except_run bnd_run ret_run plain_workflow split: prod.splits sum.splits)
qed

lemma kernel_run_board:
  assumes inv: "kanban_inv (ws_kanban s)" and run: "kernel_run R task mode opts s = (Inr res, t)"
  shows "board_kept (ws_kanban s) {} (ws_kanban t) \<and> plain_run res"
proof (cases "mode = ''plan-run''")
  case True
  then show ?thesis using workflow_board [OF inv] run by (simp add: kernel_run_def)
next
  case False
  then have "ws_kanban t = ws_kanban s \<and> plain_run res"
    using run by (auto simp: kernel_run_def run_plan_def ret_run split: option.splits dest: friendly_board)
  then show ?thesis using board_kept_refl [OF inv] by simp
qed

lemma all_old:
  assumes "kanban_inv k"
  shows "old_boards k k = table_rows (k_boards k)" and "old_cards k k = table_rows (k_cards k)"
proof -
  have b: "i \<le> last_id (k_boards k)" if "(i, r) \<in> set (table_rows (k_boards k))" for i r
    using assms that by (force simp: kanban_inv_def table_inv_def table_ids_def)
  show "old_boards k k = table_rows (k_boards k)"
    unfolding old_boards_def by (rule filter_True) (auto dest: b)
  have "cr_board r \<le> last_id (k_boards k)" if "(i, r) \<in> set (table_rows (k_cards k))" for i r
  proof -
    have "row_of (k_cards k) i = Some r" using assms that by (simp add: kanban_inv_def row_of_mem)
    then have "row_of (k_boards k) (cr_board r) \<noteq> None" using assms by (auto simp: kanban_inv_def sqlite.all_rows_def)
    then obtain q where "row_of (k_boards k) (cr_board r) = Some q" by blast
    then have "(cr_board r, q) \<in> set (table_rows (k_boards k))" by (auto simp: row_of_def dest: map_of_SomeD)
    then show ?thesis by (rule b)
  qed
  then show "old_cards k k = table_rows (k_cards k)" unfolding old_cards_def by (auto intro: filter_True)
qed

text \<open>C11: running a task through the kernel always answers, whatever the agents, the gates and the
  callbacks do, and a workflow run is successful exactly when it reports no error (it reports at
  most one). On a well-formed board the run adds boards and cards of its own and changes no board,
  card or subtask that was there.\<close>

theorem kernel_run_answers:
  assumes "kanban_inv (ws_kanban s)"
  shows "\<exists>res t. kernel_run R task mode opts s = (Inr res, t)
     \<and> (mode = ''plan-run'' \<longrightarrow> rn_success res = (rn_errors res = []) \<and> length (rn_errors res) \<le> 1)
     \<and> kanban_inv (ws_kanban t)
     \<and> filter (\<lambda>(i, r). i \<le> last_id (k_boards (ws_kanban s))) (table_rows (k_boards (ws_kanban t))) =
         table_rows (k_boards (ws_kanban s))
     \<and> filter (\<lambda>(i, r). cr_board r \<le> last_id (k_boards (ws_kanban s))) (table_rows (k_cards (ws_kanban t))) =
         table_rows (k_cards (ws_kanban s))
     \<and> k_subtasks (ws_kanban t) = k_subtasks (ws_kanban s)"
proof -
  obtain res t where r: "kernel_run R task mode opts s = (Inr res, t)" using kernel_run_returns by blast
  have "board_kept (ws_kanban s) {} (ws_kanban t)" using kernel_run_board [OF assms r] by simp
  moreover have "mode = ''plan-run'' \<longrightarrow> rn_success res = (rn_errors res = []) \<and> length (rn_errors res) \<le> 1"
    using r run_workflow_verdict [of R task opts s res t] by (cases "mode = ''plan-run''") (simp_all add: kernel_run_def)
  ultimately show ?thesis
    using r all_old [OF assms] by (auto simp: board_kept_def old_boards_def old_cards_def)
qed


definition demo_options :: "nat run_options" where
  "demo_options = \<lparr>ro_context = False, ro_on_stage = None, ro_commit_factory = None, ro_create_branch = True\<rparr>"

theorem kernel_run_answers_witness:
  "\<exists>res t. kernel_run \<lparr>ru_workflow = Some demo_no_plan, ru_agents = [], ru_executor = None\<rparr>
       demo_core_task ''plan-run'' demo_options demo_wstate = (Inr res, t)
     \<and> rn_success res = (rn_errors res = []) \<and> kanban_inv (ws_kanban t)"
proof -
  have "kanban_inv (ws_kanban demo_wstate)" by (simp add: demo_wstate_def kanban_inv_empty)
  from kernel_run_answers [OF this, of "\<lparr>ru_workflow = Some demo_no_plan, ru_agents = [], ru_executor = None\<rparr>"
      demo_core_task "''plan-run''" demo_options] show ?thesis by auto
qed

end
