(* ===== verification/BacklogRun.thy ===== *)
theory BacklogRun
  imports BacklogText KernelProps
begin

text \<open>
  Running a backlog from a board: every task is matched to its card, the card goes to
  \<open>InProgress\<close>, and ends in \<open>Done\<close> or blocked with the error. What the runner needs of the kernel is
  the locale \<open>task_kernel\<close>: a run answers and leaves the board alone.
\<close>

section \<open>Working on one card\<close>

abbreviation same_identity :: "card_row \<Rightarrow> card_row \<Rightarrow> bool" where
  "same_identity q r \<equiv> cr_board q = cr_board r \<and> cr_title q = cr_title r \<and> cr_project q = cr_project r"

text \<open>Only the card \<open>i\<close> has changed, and it satisfies \<open>Q\<close> now.\<close>

definition touched :: "int \<Rightarrow> (card_row \<Rightarrow> bool) \<Rightarrow> kanban_state \<Rightarrow> kanban_state \<Rightarrow> bool" where
  "touched i Q k k' \<longleftrightarrow> kanban_inv k' \<and> k_open k' = k_open k \<and> k_boards k' = k_boards k \<and>
     k_subtasks k' = k_subtasks k \<and>
     (\<exists>f. k_cards k' = update_row i f (k_cards k) \<and> (\<forall>r. same_identity (f r) r)) \<and>
     pred_option Q (row_of (k_cards k') i) \<and> row_of (k_cards k') i \<noteq> None"

lemma update_row_twice: "update_row i g (update_row i f t) = update_row i (g \<circ> f) t"
  by (simp add: update_row_def comp_def case_prod_unfold)

lemma update_row_id: "update_row i (\<lambda>r. r) t = t"
  by (simp add: update_row_def case_prod_unfold)

lemma touched_trans:
  assumes "touched i Q k k1" and "touched i Q' k1 k2" shows "touched i Q' k k2"
proof -
  obtain f where f: "k_cards k1 = update_row i f (k_cards k)" "\<And>r. same_identity (f r) r"
    using assms(1) unfolding touched_def by blast
  obtain g where g: "k_cards k2 = update_row i g (k_cards k1)" "\<And>r. same_identity (g r) r"
    using assms(2) unfolding touched_def by blast
  have "k_cards k2 = update_row i (g \<circ> f) (k_cards k)" using f g by (simp add: update_row_twice)
  moreover have "\<forall>r. same_identity ((g \<circ> f) r) r" using f(2) g(2) by simp
  ultimately show ?thesis using assms unfolding touched_def by auto
qed

lemma touched_refl:
  assumes "kanban_inv k" and "find_card E k i = Some c" and "Q (kc_row c)" shows "touched i Q k k"
  using assms find_card_row [OF assms(2)] unfolding touched_def
  by (intro conjI exI [of _ "\<lambda>r. r"]) (simp_all add: update_row_id)

lemma touched_find:
  assumes "touched i Q k k'" and c: "find_card E k i = Some c"
  obtains c' where "find_card E k' i = Some c'" and "Q (kc_row c')" and "kanban_inv k'"
proof -
  from assms(1) obtain f where f: "k_cards k' = update_row i f (k_cards k)" "same_identity (f (kc_row c)) (kc_row c)"
    and k': "k_open k' = k_open k" "kanban_inv k'" "pred_option Q (row_of (k_cards k') i)"
    by (auto simp: touched_def)
  note row = find_card_row [OF c]
  let ?c = "\<lparr>kc_id = i, kc_row = f (kc_row c), kc_subtasks = subtasks_of k' i\<rparr>"
  have "find_card E k' i = Some ?c" using row f k' by (simp add: find_card_def row_of_update)
  moreover have "Q (kc_row ?c)" using k'(3) f(1) row by (simp add: row_of_update)
  ultimately show ?thesis using that k'(2) by blast
qed

lemma move_card_same:
  "find_card E k i = Some c \<Longrightarrow> kc_column c = column \<Longrightarrow> column \<in> set COLUMNS \<Longrightarrow>
     move_card E i column k = (Inr (Some c), k)"
  by (auto simp: move_card_def store_move_card_def store_get_card_def py_run need_card_def)

lemma move_touches:
  assumes inv: "kanban_inv k" and c: "find_card E k i = Some c"
    and col: "column \<in> set COLUMNS" "column_index column \<le> column_index (kc_column c) + 1"
    and gate: "column = ''Done'' \<Longrightarrow> cr_tdd (kc_row c)"
  shows "\<exists>x k'. move_card E i column k = (Inr x, k') \<and>
    touched i (\<lambda>r. cr_column r = column \<and> cr_tdd r = cr_tdd (kc_row c)) k k'"
proof (cases "column = kc_column c")
  case True
  then show ?thesis using move_card_same [OF c] col(1) touched_refl [OF inv c] by simp
next
  case False
  note row = find_card_row [OF c]
  have "card_ok (kc_row c)" using inv row by (auto simp: kanban_inv_def sqlite.all_rows_def)
  then have cur: "kc_column c \<in> set COLUMNS" by (simp add: card_ok_def)
  have run: "move_card E i column k = (Inr (Some (moved E column k c)), after_move E column k c)"
    by (rule move_card_run [OF c col(1) False cur col(2)]) (use gate in blast)
  have "kanban_inv (after_move E column k c)"
    using keeps_invD [OF inv_move_card inv, of E i column] run by simp
  then have "touched i (\<lambda>r. cr_column r = column \<and> cr_tdd r = cr_tdd (kc_row c)) k (after_move E column k c)"
    using row by (auto simp: touched_def after_move_def row_of_update)
  with run show ?thesis by blast
qed

lemma begin_touches:
  assumes inv: "kanban_inv k" and c: "find_card E k i = Some c"
  shows "\<exists>x k'. begin_work E i k = (Inr x, k') \<and> touched i (\<lambda>r. cr_column r = ''InProgress'') k k'"
proof -
  obtain x k1 where m1: "move_card E i ''Todo'' k = (Inr x, k1)"
    and t1: "touched i (\<lambda>r. cr_column r = ''Todo'' \<and> cr_tdd r = cr_tdd (kc_row c)) k k1"
    using move_touches [OF inv c, of "''Todo''"] by (auto simp: COLUMNS_def)
  obtain c1 where c1: "find_card E k1 i = Some c1" "kc_column c1 = ''Todo''" "kanban_inv k1"
    using touched_find [OF t1 c] by blast
  obtain y k2 where m2: "move_card E i ''InProgress'' k1 = (Inr y, k2)"
    and t2: "touched i (\<lambda>r. cr_column r = ''InProgress'' \<and> cr_tdd r = cr_tdd (kc_row c1)) k1 k2"
    using move_touches [OF c1(3,1), of "''InProgress''"] c1(2) by (auto simp: COLUMNS_def)
  have "touched i (\<lambda>r. cr_column r = ''InProgress'') k1 k2" using t2 by (auto simp: touched_def option.pred_set)
  then show ?thesis using m1 m2 touched_trans [OF t1] by (auto simp: begin_work_def bnd_run)
qed

lemma pass_touches:
  assumes inv: "kanban_inv k" and c: "find_card E k i = Some c"
  shows "\<exists>k'. store_pass_tdd_gate E i k = (Inr (), k') \<and>
    touched i (\<lambda>r. cr_column r = kc_column c \<and> cr_tdd r) k k'"
proof -
  note row = find_card_row [OF c]
  let ?k = "snd (store_pass_tdd_gate E i k)"
  have "kanban_inv ?k" by (rule keeps_invD [OF inv_pass_tdd_gate inv])
  moreover have "store_pass_tdd_gate E i k = (Inr (), k\<lparr>k_tick := k_tick k + 1, k_cards :=
      update_row i (\<lambda>r. r\<lparr>cr_tdd := True, cr_updated := k_clock E (k_tick k)\<rparr>) (k_cards k)\<rparr>)"
    using row by (simp add: store_pass_tdd_gate_def update_card_def require_open_def now_iso_def py_run)
  ultimately show ?thesis using row by (auto simp: touched_def row_of_update)
qed

lemma complete_touches:
  assumes inv: "kanban_inv k" and c: "find_card E k i = Some c" and col: "kc_column c = ''InProgress''"
  shows "\<exists>x k'. complete_work E i k = (Inr x, k') \<and> touched i (\<lambda>r. cr_column r = ''Done'' \<and> cr_tdd r) k k'"
proof -
  obtain x k1 where m1: "move_card E i ''Review'' k = (Inr x, k1)"
    and t1: "touched i (\<lambda>r. cr_column r = ''Review'' \<and> cr_tdd r = cr_tdd (kc_row c)) k k1"
    using move_touches [OF inv c, of "''Review''"] col by (auto simp: COLUMNS_def)
  obtain c1 where c1: "find_card E k1 i = Some c1" "kc_column c1 = ''Review''" "kanban_inv k1"
    using touched_find [OF t1 c] by blast
  obtain k2 where m2: "store_pass_tdd_gate E i k1 = (Inr (), k2)"
    and t2: "touched i (\<lambda>r. cr_column r = kc_column c1 \<and> cr_tdd r) k1 k2"
    using pass_touches [OF c1(3,1)] by blast
  obtain c2 where c2: "find_card E k2 i = Some c2" "kc_column c2 = ''Review''" "cr_tdd (kc_row c2)" "kanban_inv k2"
    using touched_find [OF t2 c1(1)] c1(2) by metis
  obtain y k3 where m3: "move_card E i ''Done'' k2 = (Inr y, k3)"
    and t3: "touched i (\<lambda>r. cr_column r = ''Done'' \<and> cr_tdd r = cr_tdd (kc_row c2)) k2 k3"
    using move_touches [OF c2(4,1), of "''Done''"] c2(2,3) by (auto simp: COLUMNS_def)
  have "touched i (\<lambda>r. cr_column r = ''Done'' \<and> cr_tdd r) k k3"
    using touched_trans [OF touched_trans [OF t1 t2] t3] c2(3) by simp
  then show ?thesis using m1 m2 m3 by (auto simp: complete_work_def bnd_run seq_run)
qed

lemma block_touches:
  assumes inv: "kanban_inv k" and c: "find_card E k i = Some c" and col: "kc_column c = ''InProgress''"
  shows "\<exists>x k'. block_card E i reason k = (Inr x, k') \<and>
    touched i (\<lambda>r. cr_column r = ''InProgress'' \<and> cr_blocked r \<and> cr_reason r = reason) k k'"
proof -
  note row = find_card_row [OF c]
  let ?f = "\<lambda>r. r\<lparr>cr_blocked := True, cr_reason := reason, cr_updated := k_clock E (k_tick k)\<rparr>"
  let ?k1 = "k\<lparr>k_tick := k_tick k + 1, k_cards := update_row i ?f (k_cards k)\<rparr>"
  have f1: "find_card E ?k1 i = Some (c\<lparr>kc_row := ?f (kc_row c)\<rparr>)" by (rule find_card_update' [OF c]) simp
  have inv1: "kanban_inv (snd (block_card E i reason k))" by (rule keeps_invD [OF inv_block_card inv])
  obtain l where "block_card E i reason k = (Inr (Some (c\<lparr>kc_row := ?f (kc_row c)\<rparr>)), ?k1\<lparr>k_log := l\<rparr>)"
    using row f1 that [of "k_log k @ (if k_bus E then [(''kanban.card_blocked'', blocked_payload reason (c\<lparr>kc_row := ?f (kc_row c)\<rparr>))] else [])"]
    by (auto simp: block_card_def store_set_blocked_def store_get_card_def update_card_def require_open_def
        now_iso_def py_run need_card_def kanban_publish_def)
  with inv1 row col show ?thesis by (auto simp: touched_def row_of_update)
qed


section \<open>Finding the card of a task\<close>

definition task_card_id :: "kanban_env \<Rightarrow> kanban_state \<Rightarrow> backlog_task \<Rightarrow> int option" where
  "task_card_id E k t = (case source_board t of
     None \<Rightarrow> None
   | Some name \<Rightarrow>
       (case find (\<lambda>(i, r). br_project r = k_project E \<and> br_name r = name) (table_rows (k_boards k)) of
          None \<Rightarrow> None
        | Some (b, _) \<Rightarrow> map_option fst (find (\<lambda>(i, r). cr_board r = b \<and> cr_project r = k_project E
            \<and> cr_title r = bt_title t) (table_rows (k_cards k)))))"

lemma find_map_filter: "find P (map f (filter Q xs)) = map_option f (find (\<lambda>x. Q x \<and> P (f x)) xs)"
  by (induction xs) auto

lemma find_filter_more: "(\<And>x. P x \<Longrightarrow> Q x) \<Longrightarrow> find P (filter Q xs) = find P xs"
  by (induction xs) auto

lemma update_kanban_card:
  assumes "k_open k" and "be_kanban B = Some E"
  shows "update_kanban B t column reason k =
    (case task_card_id E k t of None \<Rightarrow> (Inr (), k) | Some i \<Rightarrow> card_action E column reason i k)"
proof -
  have boards: "board_named name (map (\<lambda>(i, r). \<lparr>kb_id = i, kb_row = r\<rparr>)
        (select_rows (\<lambda>i r. br_project r = k_project E) (k_boards k))) =
      map_option (\<lambda>(i, r). \<lparr>kb_id = i, kb_row = r\<rparr>)
        (find (\<lambda>(i, r). br_project r = k_project E \<and> br_name r = name) (table_rows (k_boards k)))" for name
    unfolding board_named_def select_rows_def find_map_filter by (simp add: case_prod_unfold)
  have cards: "find (\<lambda>c. cr_title (kc_row c) = bt_title t)
        (map (\<lambda>(i, r). \<lparr>kc_id = i, kc_row = r, kc_subtasks = subtasks_of k i\<rparr>)
          (select_rows (\<lambda>i r. cr_board r = b \<and> cr_project r = k_project E) (k_cards k))) =
      map_option (\<lambda>(i, r). \<lparr>kc_id = i, kc_row = r, kc_subtasks = subtasks_of k i\<rparr>)
        (find (\<lambda>(i, r). cr_board r = b \<and> cr_project r = k_project E \<and> cr_title r = bt_title t)
          (table_rows (k_cards k)))" for b
    unfolding select_rows_def find_map_filter by (simp add: case_prod_unfold)
  show ?thesis
    using assms
    by (auto simp: update_kanban_def store_list_boards_def store_list_cards_def py_run boards cards
        task_card_id_def split: option.split)
qed

lemma task_card_found:
  assumes inv: "kanban_inv k" and "k_open k" and "task_card_id E k t = Some i"
  obtains c where "find_card E k i = Some c" and "cr_title (kc_row c) = bt_title t"
proof -
  from assms(3) obtain b r where "find (\<lambda>(i, r). cr_board r = b \<and> cr_project r = k_project E
      \<and> cr_title r = bt_title t) (table_rows (k_cards k)) = Some (i, r)"
    by (auto simp: task_card_id_def split: option.splits)
  then have "(i, r) \<in> set (table_rows (k_cards k))" "cr_project r = k_project E" "cr_title r = bt_title t"
    by (auto dest: find_mem)
  then have "find_card E k i = Some \<lparr>kc_id = i, kc_row = r, kc_subtasks = subtasks_of k i\<rparr>"
    using inv assms(2) by (simp add: find_card_def kanban_inv_def row_of_mem [symmetric])
  then show ?thesis using that \<open>cr_title r = bt_title t\<close> by simp
qed

definition row_identity :: "int \<times> card_row \<Rightarrow> int \<times> int \<times> string \<times> string" where
  "row_identity p = (case p of (i, r) \<Rightarrow> (i, cr_board r, cr_title r, cr_project r))"

text \<open>What has happened since \<open>K0\<close> has left the boards and the identities of the cards.\<close>

definition progressed :: "kanban_state \<Rightarrow> kanban_state \<Rightarrow> bool" where
  "progressed K0 k \<longleftrightarrow> kanban_inv k \<and> k_open k \<and> last_id (k_boards K0) \<le> last_id (k_boards k) \<and>
     old_boards K0 k = table_rows (k_boards K0) \<and>
     map row_identity (old_cards K0 k) = map row_identity (table_rows (k_cards K0))"

lemma progressed_refl: "kanban_inv k \<Longrightarrow> k_open k \<Longrightarrow> progressed k k"
  by (simp add: progressed_def all_old)

lemma find_prefix:
  "sorted_wrt (<) (map fst xs) \<Longrightarrow> find P (filter (\<lambda>(i, r). i \<le> (L::int)) xs) = Some y \<Longrightarrow> find P xs = Some y"
proof (induction xs)
  case (Cons x xs)
  show ?case
  proof (cases "fst x \<le> L")
    case False
    then have "filter (\<lambda>(i, r). i \<le> L) xs = []" using Cons.prems(1) by (fastforce simp: filter_empty_conv)
    then show ?thesis using Cons.prems(2) False by (simp add: case_prod_unfold)
  qed (use Cons in \<open>auto simp: case_prod_unfold split: if_splits\<close>)
qed simp

lemma find_identity:
  assumes "map row_identity xs = map row_identity ys"
  shows "map_option fst (find (\<lambda>(i, r). cr_board r = b \<and> cr_project r = p \<and> cr_title r = t) xs) =
    map_option fst (find (\<lambda>(i, r). cr_board r = b \<and> cr_project r = p \<and> cr_title r = t) ys)"
  using assms
proof (induction xs arbitrary: ys)
  case (Cons x xs)
  then obtain y zs where y: "ys = y # zs" "row_identity x = row_identity y" "map row_identity xs = map row_identity zs"
    by (cases ys) auto
  with Cons.IH [OF y(3)] show ?case by (auto simp: row_identity_def split: prod.splits)
qed simp

lemma progressed_card:
  assumes p: "progressed K0 k" and K0: "kanban_inv K0" and i: "task_card_id E K0 t = Some i"
  shows "task_card_id E k t = Some i"
proof -
  from i obtain name b r where src: "source_board t = Some name"
    and b: "find (\<lambda>(i, r). br_project r = k_project E \<and> br_name r = name) (table_rows (k_boards K0)) = Some (b, r)"
    and c: "map_option fst (find (\<lambda>(i, r). cr_board r = b \<and> cr_project r = k_project E \<and> cr_title r = bt_title t)
        (table_rows (k_cards K0))) = Some i"
    by (auto simp: task_card_id_def split: option.splits)
  have "sorted_wrt (<) (map fst (table_rows (k_boards k)))"
    using p by (simp add: progressed_def kanban_inv_def table_inv_def table_ids_def)
  moreover have "find (\<lambda>(i, r). br_project r = k_project E \<and> br_name r = name)
      (filter (\<lambda>(i, r). i \<le> last_id (k_boards K0)) (table_rows (k_boards k))) = Some (b, r)"
    using p b by (simp only: progressed_def old_boards_def)
  ultimately have "find (\<lambda>(i, r). br_project r = k_project E \<and> br_name r = name) (table_rows (k_boards k)) = Some (b, r)"
    by (rule find_prefix)
  moreover have "b \<le> last_id (k_boards K0)"
    using find_mem [OF b] K0 by (force simp: kanban_inv_def table_inv_def table_ids_def)
  then have "find (\<lambda>(i, r). cr_board r = b \<and> cr_project r = k_project E \<and> cr_title r = bt_title t)
      (table_rows (k_cards k)) = find (\<lambda>(i, r). cr_board r = b \<and> cr_project r = k_project E \<and> cr_title r = bt_title t)
      (old_cards K0 k)"
    unfolding old_cards_def by (subst find_filter_more) auto
  moreover have same: "map row_identity (old_cards K0 k) = map row_identity (table_rows (k_cards K0))"
    using p by (simp only: progressed_def)
  note find_identity [OF same, of b "k_project E" "bt_title t"]
  ultimately show ?thesis
    by (simp only: task_card_id_def src c option.case prod.case)
qed

end
