(* ===== verification/BacklogLoop.thy ===== *)
theory BacklogLoop
  imports BacklogRun
begin

text \<open>
  The loop over the tasks of a board, on top of a kernel that answers and leaves the board alone.
\<close>

section \<open>What one task does to the old cards\<close>

definition worked :: "kanban_state \<Rightarrow> int \<Rightarrow> kanban_state \<Rightarrow> kanban_state \<Rightarrow> bool" where
  "worked K0 i k k' \<longleftrightarrow> kanban_inv k' \<and> k_open k' = k_open k \<and>
     last_id (k_boards k) \<le> last_id (k_boards k') \<and> old_boards K0 k' = old_boards K0 k \<and>
     (\<exists>f. old_cards K0 k' = map (\<lambda>(j, q). (j, if j = i then f q else q)) (old_cards K0 k) \<and>
       (\<forall>r. same_identity (f r) r))"

lemma touched_worked:
  assumes "touched i Q k k'" shows "worked K0 i k k'"
proof -
  obtain f where f: "k_cards k' = update_row i f (k_cards k)" "\<And>r. same_identity (f r) r"
    using assms unfolding touched_def by blast
  have "filter (\<lambda>(j, r). cr_board r \<le> L) (map (\<lambda>(j, q). (j, if j = i then f q else q)) xs) =
      map (\<lambda>(j, q). (j, if j = i then f q else q)) (filter (\<lambda>(j, r). cr_board r \<le> L) xs)" for L xs
    using f(2) by (induction xs) (auto split: if_splits)
  then have "old_cards K0 k' = map (\<lambda>(j, q). (j, if j = i then f q else q)) (old_cards K0 k)"
    unfolding old_cards_def f(1) by (simp add: update_row_def)
  then show ?thesis using assms f(2) by (auto simp: worked_def touched_def old_boards_def)
qed

lemma filter_more: "(\<And>x. x \<in> set xs \<Longrightarrow> P x \<Longrightarrow> Q x) \<Longrightarrow> filter P (filter Q xs) = filter P xs"
  by (induction xs) auto

lemma kept_worked:
  assumes "board_kept k {} k'" and "last_id (k_boards K0) \<le> last_id (k_boards k)"
  shows "worked K0 i k k'"
proof -
  have "old_boards K0 x = filter (\<lambda>(i, r). i \<le> last_id (k_boards K0)) (old_boards k x)" for x
    unfolding old_boards_def by (rule filter_more [symmetric]) (use assms(2) in auto)
  moreover have "old_cards K0 x = filter (\<lambda>(i, r). cr_board r \<le> last_id (k_boards K0)) (old_cards k x)" for x
    unfolding old_cards_def by (rule filter_more [symmetric]) (use assms(2) in auto)
  ultimately have "old_boards K0 k' = old_boards K0 k" "old_cards K0 k' = old_cards K0 k"
    using assms(1) by (simp_all add: board_kept_def)
  moreover have "old_cards K0 k = map (\<lambda>(j, q). (j, if j = i then q else q)) (old_cards K0 k)"
    by (simp add: case_prod_unfold)
  ultimately show ?thesis
    using assms(1) unfolding worked_def by (intro conjI exI [of _ "\<lambda>r. r"]) (simp_all add: board_kept_def)
qed

lemma worked_trans:
  assumes "worked K0 i k k1" and "worked K0 i k1 k2" shows "worked K0 i k k2"
proof -
  obtain f where f: "old_cards K0 k1 = map (\<lambda>(j, q). (j, if j = i then f q else q)) (old_cards K0 k)"
    "\<And>r. same_identity (f r) r" using assms(1) unfolding worked_def by blast
  obtain g where g: "old_cards K0 k2 = map (\<lambda>(j, q). (j, if j = i then g q else q)) (old_cards K0 k1)"
    "\<And>r. same_identity (g r) r" using assms(2) unfolding worked_def by blast
  have "old_cards K0 k2 = map (\<lambda>(j, q). (j, if j = i then (g \<circ> f) q else q)) (old_cards K0 k)"
    unfolding g(1) f(1) by (simp add: comp_def case_prod_unfold)
  moreover have "\<forall>r. same_identity ((g \<circ> f) r) r" using f(2) g(2) by simp
  ultimately show ?thesis using assms unfolding worked_def by auto
qed

lemma worked_progressed: "progressed K0 k \<Longrightarrow> worked K0 i k k' \<Longrightarrow> progressed K0 k'"
proof -
  assume p: "progressed K0 k" and w: "worked K0 i k k'"
  obtain f where f: "old_cards K0 k' = map (\<lambda>(j, q). (j, if j = i then f q else q)) (old_cards K0 k)"
    "\<And>r. same_identity (f r) r" using w unfolding worked_def by blast
  have "map row_identity (old_cards K0 k') = map row_identity (old_cards K0 k)"
    unfolding f(1) using f(2) by (auto simp: row_identity_def)
  with p w show ?thesis by (auto simp: progressed_def worked_def)
qed

text \<open>A card that was there is still there.\<close>

lemma old_card_row:
  assumes "progressed K0 k" and "cr_board q \<le> last_id (k_boards K0)"
  shows "row_of (k_cards k) j = Some q \<longleftrightarrow> (j, q) \<in> set (old_cards K0 k)"
  using assms by (auto simp: progressed_def kanban_inv_def row_of_mem old_cards_def)

lemma kept_row:
  assumes "kanban_inv k" and "board_kept k {} k'" and "row_of (k_cards k) i = Some q"
  shows "row_of (k_cards k') i = Some q"
proof -
  have "(i, q) \<in> set (old_cards k k)"
    using assms(1,3) all_old(2) [OF assms(1)] by (simp add: kanban_inv_def row_of_mem)
  then have "(i, q) \<in> set (old_cards k k')" using assms(2) by (simp add: board_kept_def)
  then have "(i, q) \<in> set (table_rows (k_cards k'))" by (simp add: old_cards_def)
  moreover have "table_inv (k_cards k')" using assms(2) by (simp add: board_kept_def kanban_inv_def)
  ultimately show ?thesis by (simp add: row_of_mem)
qed

section \<open>One task\<close>

text \<open>What a finished task leaves on its card.\<close>

definition card_final :: "backlog_result \<Rightarrow> card_row \<Rightarrow> bool" where
  "card_final r q \<longleftrightarrow>
     (if bo_status r = ''succeeded'' then cr_column q = ''Done'' \<and> cr_tdd q
      else bo_status r = ''failed'' \<and> cr_column q = ''InProgress'' \<and> cr_blocked q \<and> cr_reason q = bo_error r)"

locale task_kernel =
  fixes run_op :: "core_task \<Rightarrow> (workflow_context \<Rightarrow> string) \<Rightarrow> bool \<Rightarrow> ('w wstate, run_result) py"
  assumes answers: "\<exists>res t. run_op task msg branch s = (Inr res, t)"
    and board: "kanban_inv (ws_kanban s) \<Longrightarrow> run_op task msg branch s = (Inr res, t) \<Longrightarrow>
      board_kept (ws_kanban s) {} (ws_kanban t) \<and> plain_run res"
begin

lemma attempt_answers:
  assumes "be_run B = run_op" and "kanban_inv (ws_kanban s)"
  shows "\<exists>st err t. attempt_task B task branch s = (Inr (st, PStr '''', err), t) \<and>
    (st = ''succeeded'' \<or> st = ''failed'') \<and> board_kept (ws_kanban s) {} (ws_kanban t)"
proof -
  obtain res t where r: "execute_task B task branch s = (Inr res, t)"
    unfolding execute_task_def assms(1) using answers by blast
  then have kept: "board_kept (ws_kanban s) {} (ws_kanban t)" and plain: "plain_run res"
    using board [OF assms(2)] assms(1) by (auto simp: execute_task_def)
  have "extract_commit_sha sts = PStr ''''" if "list_all (\<lambda>st. map_of (su_details st) ''commit'' = None) sts" for sts
    using that by (cases sts) (simp_all add: dict_get_def)
  with plain have "extract_commit_sha (rn_stages res) = PStr ''''" by (simp add: plain_run_def)
  with r kept show ?thesis by (auto simp: attempt_task_def try_except_run bnd_run ret_run Let_def)
qed

lemma run_task_works:
  assumes B: "be_run B = run_op" "be_kanban B = Some E" "be_on_start B = None" "be_on_end B = None"
    and p: "progressed K0 (ws_kanban s)" and K0: "kanban_inv K0" and i: "task_card_id E K0 t = Some i"
  shows "\<exists>r u. run_task B branch t s = (Inr r, u) \<and> bo_task r = t \<and> bo_commit r = PStr '''' \<and>
    bo_status r \<noteq> ''skipped'' \<and> worked K0 i (ws_kanban s) (ws_kanban u) \<and>
    (\<exists>q. row_of (k_cards (ws_kanban u)) i = Some q \<and> card_final r q)"
proof -
  have open0: "k_open (ws_kanban s)" and inv0: "kanban_inv (ws_kanban s)" using p by (simp_all add: progressed_def)
  note card0 = progressed_card [OF p K0 i]
  obtain c where c: "find_card E (ws_kanban s) i = Some c" using task_card_found [OF inv0 open0 card0] by blast
  obtain x k1 where b: "begin_work E i (ws_kanban s) = (Inr x, k1)"
    and t1: "touched i (\<lambda>r. cr_column r = ''InProgress'') (ws_kanban s) k1" using begin_touches [OF inv0 c] by blast
  define s1 where "s1 = s\<lparr>ws_kanban := k1\<rparr>"
  have u1: "on_board (update_kanban B t ''InProgress'' '''') s = (Inr (), s1)"
    using update_kanban_card [OF open0 B(2)] card0 b
    by (simp add: on_board_def card_action_def bnd_run ret_run s1_def)
  obtain c1 where c1: "find_card E k1 i = Some c1" "kc_column c1 = ''InProgress''" and inv1: "kanban_inv k1"
    using touched_find [OF t1 c] by blast
  obtain start w2 where clock1: "be_clock B (x_world (ws_x s1)) = (start, w2)" by fastforce
  define s2 where "s2 = s1\<lparr>ws_x := (ws_x s1)\<lparr>x_world := w2\<rparr>\<rparr>"
  have k2: "ws_kanban s2 = k1" by (simp add: s2_def s1_def)
  have w1: "on_world (be_clock B) s1 = (Inr start, s2)" using clock1 by (simp add: on_world_def on_exec_def draw_def s2_def)
  obtain st err s3 where a: "attempt_task B t branch s2 = (Inr (st, PStr '''', err), s3)"
    and st: "st = ''succeeded'' \<or> st = ''failed''" and kept: "board_kept k1 {} (ws_kanban s3)"
    using attempt_answers [OF B(1), of s2 t branch] inv1 k2 by auto
  obtain fin w4 where clock2: "be_clock B (x_world (ws_x s3)) = (fin, w4)" by fastforce
  define s4 where "s4 = s3\<lparr>ws_x := (ws_x s3)\<lparr>x_world := w4\<rparr>\<rparr>"
  have w3: "on_world (be_clock B) s3 = (Inr fin, s4)" using clock2 by (simp add: on_world_def on_exec_def draw_def s4_def)
  define k where "k = ws_kanban s3"
  have k4: "ws_kanban s4 = k" by (simp add: s4_def k_def)
  have inv: "kanban_inv k" and opened: "k_open k"
    using kept open0 t1 by (simp_all add: board_kept_def touched_def k_def)
  have w01: "worked K0 i (ws_kanban s) k1" by (rule touched_worked [OF t1])
  then have "last_id (k_boards K0) \<le> last_id (k_boards k1)" using p by (simp add: progressed_def worked_def)
  then have w02: "worked K0 i (ws_kanban s) k" using worked_trans [OF w01 kept_worked [OF kept]] by (simp add: k_def)
  have card: "task_card_id E k t = Some i" by (rule progressed_card [OF worked_progressed [OF p w02] K0 i])
  have "row_of (k_cards k) i = Some (kc_row c1)"
    unfolding k_def by (rule kept_row [OF inv1 kept]) (use find_card_row [OF c1(1)] in simp)
  then obtain c2 where c2: "find_card E k i = Some c2" "kc_row c2 = kc_row c1"
    using find_card_row [OF c1(1)] opened by (simp add: find_card_def)
  define r where "r = \<lparr>bo_task = t, bo_status = st, bo_commit = PStr '''', bo_duration = (fin - start) * 1000, bo_error = err\<rparr>"
  define upd where "upd = (if st = ''succeeded'' then update_kanban B t ''Done'' '''' else update_kanban B t ''blocked'' err)"
  have "\<exists>k5. upd k = (Inr (), k5) \<and> touched i (card_final r) k k5"
  proof (cases "st = ''succeeded''")
    case True
    then show ?thesis
      using complete_touches [OF inv c2(1)] c1(2) c2(2) update_kanban_card [OF opened B(2), of t "''Done''" "''''"] card
      by (auto simp: upd_def card_action_def bnd_run ret_run r_def card_final_def [abs_def])
  next
    case False
    then show ?thesis
      using block_touches [OF inv c2(1), of err] c1(2) c2(2) st update_kanban_card [OF opened B(2), of t "''blocked''" err] card
      by (auto simp: upd_def card_action_def bnd_run ret_run r_def card_final_def [abs_def])
  qed
  then obtain k5 where k5: "upd k = (Inr (), k5)" "touched i (card_final r) k k5" by blast
  have "on_board upd s4 = (Inr (), s4\<lparr>ws_kanban := k5\<rparr>)" using k5(1) k4 by (simp add: on_board_def)
  then have run: "run_task B branch t s = (Inr r, s4\<lparr>ws_kanban := k5\<rparr>)"
    using u1 w1 a w3 B(3,4) by (simp add: run_task_def seq_run bnd_run ret_run call_back_def Let_def r_def upd_def)
  moreover have "worked K0 i (ws_kanban s) k5" by (rule worked_trans [OF w02 touched_worked [OF k5(2)]])
  moreover have "\<exists>q. row_of (k_cards k5) i = Some q \<and> card_final r q"
    using k5(2) by (auto simp: touched_def)
  ultimately show ?thesis using st by (auto simp: r_def)
qed


end

text \<open>The cards of the tasks that ran.\<close>

definition ran :: "kanban_env \<Rightarrow> kanban_state \<Rightarrow> backlog_result list \<Rightarrow> int option list" where
  "ran E K0 rs = map (\<lambda>r. task_card_id E K0 (bo_task r)) (filter (\<lambda>r. bo_status r \<noteq> ''skipped'') rs)"

text \<open>Cards of tasks that did not run are as before; the others are final.\<close>

definition settled :: "kanban_env \<Rightarrow> kanban_state \<Rightarrow> backlog_result list \<Rightarrow> kanban_state \<Rightarrow> kanban_state \<Rightarrow> bool" where
  "settled E K0 rs k k' \<longleftrightarrow> progressed K0 k' \<and>
     (\<forall>j q. (j, q) \<in> set (old_cards K0 k) \<longrightarrow> Some j \<notin> set (ran E K0 rs) \<longrightarrow> (j, q) \<in> set (old_cards K0 k')) \<and>
     (\<forall>r \<in> set rs. bo_status r \<noteq> ''skipped'' \<longrightarrow>
       (\<exists>i q. task_card_id E K0 (bo_task r) = Some i \<and> (i, q) \<in> set (old_cards K0 k') \<and> card_final r q))"

text \<open>The results: one for each task up to the end of the run; the first \<open>start\<close> are skipped.\<close>

definition results_shape :: "bool \<Rightarrow> int \<Rightarrow> int \<Rightarrow> backlog_task list \<Rightarrow> backlog_result list \<Rightarrow> bool" where
  "results_shape stop start i ts rs \<longleftrightarrow> map bo_task rs = take (length rs) ts \<and>
     list_all (\<lambda>r. bo_commit r = PStr '''') rs \<and>
     map (\<lambda>r. bo_status r = ''skipped'') rs = map (\<lambda>n. i + int n < start) [0..<length rs] \<and>
     (if stop then list_all (\<lambda>r. bo_status r \<noteq> ''failed'') (butlast rs) \<and>
        (length rs < length ts \<longrightarrow> rs \<noteq> [] \<and> bo_status (last rs) = ''failed'')
      else length rs = length ts)"

lemma results_shape_Cons:
  assumes "results_shape stop start (i + 1) ts rs" and "bo_task r = t" and "bo_commit r = PStr ''''"
    and "(bo_status r = ''skipped'') = (i < start)" and "stop \<Longrightarrow> bo_status r \<noteq> ''failed''"
  shows "results_shape stop start i (t # ts) (r # rs)"
proof -
  have "map (\<lambda>n. i + int n < start) [0..<length (r # rs)] = (i < start) # map (\<lambda>n. i + 1 + int n < start) [0..<length rs]"
    by (simp add: map_upt_Suc algebra_simps del: upt_Suc)
  with assms show ?thesis by (auto simp: results_shape_def simp del: upt_Suc)
qed

lemma task_row_old:
  assumes p: "progressed K0 k" and K0: "kanban_inv K0" and i: "task_card_id E K0 t = Some i"
    and q: "row_of (k_cards k) i = Some q"
  shows "(i, q) \<in> set (old_cards K0 k)"
proof -
  from i obtain b r0 where "find (\<lambda>(i, r). cr_board r = b \<and> cr_project r = k_project E
      \<and> cr_title r = bt_title t) (table_rows (k_cards K0)) = Some (i, r0)"
    by (auto simp: task_card_id_def split: option.splits)
  then have "(i, r0) \<in> set (table_rows (k_cards K0))" by (auto dest: find_mem)
  then have "row_identity (i, r0) \<in> set (map row_identity (table_rows (k_cards K0)))" by simp
  then have "row_identity (i, r0) \<in> set (map row_identity (old_cards K0 k))" using p by (simp add: progressed_def)
  then obtain q' where q': "(i, q') \<in> set (old_cards K0 k)" by (auto simp: row_identity_def)
  then have "(i, q') \<in> set (table_rows (k_cards k))" by (simp add: old_cards_def)
  then have "row_of (k_cards k) i = Some q'" using p by (simp add: progressed_def kanban_inv_def row_of_mem)
  with q q' show ?thesis by simp
qed

lemma worked_row:
  assumes "worked K0 i k k'" and "(j, q) \<in> set (old_cards K0 k)" and "j \<noteq> i"
  shows "(j, q) \<in> set (old_cards K0 k')"
  using assms by (force simp: worked_def)

context task_kernel
begin

lemma loop_settles:
  assumes B: "be_run B = run_op" "be_kanban B = Some E" "be_on_start B = None" "be_on_end B = None"
    and K0: "kanban_inv K0"
  shows "progressed K0 (ws_kanban s) \<Longrightarrow> list_all (\<lambda>t. task_card_id E K0 t \<noteq> None) ts \<Longrightarrow>
    distinct (map (task_card_id E K0) ts) \<Longrightarrow>
    \<exists>rs u. backlog_loop B stop start branch i ts s = (Inr rs, u) \<and> results_shape stop start i ts rs
      \<and> settled E K0 rs (ws_kanban s) (ws_kanban u)"
proof (induction ts arbitrary: i s)
  case Nil
  then show ?case by (simp add: ret_run results_shape_def settled_def)
next
  case (Cons t ts)
  show ?case
  proof (cases "i < start")
    case True
    obtain rs u where r: "backlog_loop B stop start branch (i + 1) ts s = (Inr rs, u)"
      "results_shape stop start (i + 1) ts rs" "settled E K0 rs (ws_kanban s) (ws_kanban u)"
      using Cons.IH [of s "i + 1"] Cons.prems by auto
    have "results_shape stop start i (t # ts) (skipped_task t # rs)"
      by (rule results_shape_Cons [OF r(2)]) (use True in \<open>simp_all add: skipped_task_def\<close>)
    moreover have "settled E K0 (skipped_task t # rs) (ws_kanban s) (ws_kanban u)"
      using r(3) by (simp add: settled_def ran_def skipped_task_def)
    ultimately show ?thesis using True r(1) by (simp add: bnd_run ret_run)
  next
    case False
    obtain j where j: "task_card_id E K0 t = Some j" using Cons.prems(2) by auto
    obtain r v where run: "run_task B branch t s = (Inr r, v)" and r: "bo_task r = t" "bo_commit r = PStr ''''"
      "bo_status r \<noteq> ''skipped''" and w: "worked K0 j (ws_kanban s) (ws_kanban v)"
      and q: "\<exists>q. row_of (k_cards (ws_kanban v)) j = Some q \<and> card_final r q"
      using run_task_works [OF B Cons.prems(1) K0 j] by blast
    have pv: "progressed K0 (ws_kanban v)" by (rule worked_progressed [OF Cons.prems(1) w])
    from q obtain q where q: "(j, q) \<in> set (old_cards K0 (ws_kanban v))" "card_final r q"
      using task_row_old [OF pv K0 j] by blast
    show ?thesis
    proof (cases "bo_status r = ''failed'' \<and> stop")
      case True
      have "results_shape stop start i (t # ts) [r]"
        using r True False by (simp add: results_shape_def)
      moreover have "settled E K0 [r] (ws_kanban s) (ws_kanban v)"
        using pv q r j worked_row [OF w] by (auto simp: settled_def ran_def)
      ultimately show ?thesis using False True run by (simp add: bnd_run ret_run)
    next
      case go: False
      obtain rs u where l: "backlog_loop B stop start branch (i + 1) ts v = (Inr rs, u)"
        "results_shape stop start (i + 1) ts rs" "settled E K0 rs (ws_kanban v) (ws_kanban u)"
        using Cons.IH [OF pv, of "i + 1"] Cons.prems by auto
      have shape: "results_shape stop start i (t # ts) (r # rs)"
        by (rule results_shape_Cons [OF l(2)]) (use r go False in auto)
      have "Some j \<notin> set (ran E K0 rs)"
      proof -
        have "set (map bo_task rs) \<subseteq> set ts" using l(2) by (metis results_shape_def set_take_subset)
        then have "set (ran E K0 rs) \<subseteq> task_card_id E K0 ` set ts" by (auto simp: ran_def)
        then show ?thesis using Cons.prems(3) j by auto
      qed
      then have "(j, q) \<in> set (old_cards K0 (ws_kanban u))" using l(3) q(1) by (simp add: settled_def)
      moreover have "ran E K0 (r # rs) = Some j # ran E K0 rs" using r j by (simp add: ran_def)
      ultimately have "settled E K0 (r # rs) (ws_kanban s) (ws_kanban u)"
        using l(3) q(2) r j worked_row [OF w] by (auto simp: settled_def)
      then show ?thesis using shape False go run l(1) by (auto simp: bnd_run ret_run)
    qed
  qed
qed

end


interpretation kernel_tasks: task_kernel "be_run (kernel_backlog R has_context E clock)"
  for R :: "'w runner" and has_context E clock
proof unfold_locales
  show "\<exists>res t. be_run (kernel_backlog R has_context E clock) task msg branch s = (Inr res, t)" for task msg branch s
    by (simp add: kernel_backlog_def kernel_run_returns)
  show "board_kept (ws_kanban s) {} (ws_kanban t) \<and> plain_run res"
    if "kanban_inv (ws_kanban s)" "be_run (kernel_backlog R has_context E clock) task msg branch s = (Inr res, t)"
    for s task msg branch res t
    using kernel_run_board [OF that(1)] that(2) by (simp add: kernel_backlog_def)
qed

section \<open>A board\<close>

lemma find_exists: "x \<in> set xs \<Longrightarrow> P x \<Longrightarrow> find P xs \<noteq> None"
  by (auto simp: find_None_iff)

lemma find_card_key:
  assumes "find (\<lambda>(i, r). cr_board r = b \<and> cr_project r = p \<and> cr_title r = x) rows = Some (i, r)"
    and "find (\<lambda>(i, r). cr_board r = b \<and> cr_project r = p \<and> cr_title r = y) rows = Some (i, r')"
    and "distinct (map fst rows)"
  shows "x = y"
proof -
  have "(i, r) \<in> set rows" "cr_title r = x" "(i, r') \<in> set rows" "cr_title r' = y"
    using find_mem [OF assms(1)] find_mem [OF assms(2)] by auto
  then show ?thesis using assms(3) by (metis eq_key_imp_eq_value)
qed

lemma loaded_tasks:
  assumes inv: "kanban_inv k" and "k_open k" and load: "load_tasks_from_kanban E name k = (Inr tasks, k')"
    and dist: "distinct (map bt_title tasks)"
  shows "list_all (\<lambda>t. task_card_id E k t \<noteq> None) tasks" and "distinct (map (task_card_id E k) tasks)"
proof -
  let ?B = "\<lambda>(i, r). br_project r = k_project E \<and> br_name r = name"
  have boards: "board_named name (map (\<lambda>(i, r). \<lparr>kb_id = i, kb_row = r\<rparr>)
        (select_rows (\<lambda>i r. br_project r = k_project E) (k_boards k))) =
      map_option (\<lambda>(i, r). \<lparr>kb_id = i, kb_row = r\<rparr>) (find ?B (table_rows (k_boards k)))"
    unfolding board_named_def select_rows_def find_map_filter by (simp add: case_prod_unfold)
  have "list_all (\<lambda>t. task_card_id E k t \<noteq> None) tasks \<and> distinct (map (task_card_id E k) tasks)"
  proof (cases "find ?B (table_rows (k_boards k))")
    case None
    then have "tasks = []" using load assms(2)
      by (simp add: load_tasks_from_kanban_def store_list_boards_def py_run boards)
    then show ?thesis by simp
  next
    case (Some p)
    obtain b r where p: "p = (b, r)" by (cases p)
    let ?F = "\<lambda>x. find (\<lambda>(i, r). cr_board r = b \<and> cr_project r = k_project E \<and> cr_title r = x) (table_rows (k_cards k))"
    have tasks: "tasks = map (\<lambda>(i, c). make_task (cr_title (kc_row c)) (''kanban:'' @ name) i)
        (filter (\<lambda>(i, c). kc_column c = ''Todo'')
          (enumerate 0 (map (\<lambda>(i, r). \<lparr>kc_id = i, kc_row = r, kc_subtasks = subtasks_of k i\<rparr>)
            (select_rows (\<lambda>i r. cr_board r = b \<and> cr_project r = k_project E) (k_cards k)))))"
      using load assms(2) Some p
      by (auto simp: load_tasks_from_kanban_def store_list_boards_def store_list_cards_def py_run boards)
    have id: "task_card_id E k t = map_option fst (?F (bt_title t))" if "t \<in> set tasks" for t
    proof -
      have "bt_source t = ''kanban:'' @ name" using that unfolding tasks by (auto simp: make_task_def case_prod_unfold)
      then have "source_board t = Some name" by (simp add: source_board_def startswith_def)
      then show ?thesis using Some p by (simp add: task_card_id_def)
    qed
    have found: "?F (bt_title t) \<noteq> None" if "t \<in> set tasks" for t
    proof -
      let ?rows = "select_rows (\<lambda>i r. cr_board r = b \<and> cr_project r = k_project E) (k_cards k)"
      let ?cards = "map (\<lambda>(i, r). \<lparr>kc_id = i, kc_row = r, kc_subtasks = subtasks_of k i\<rparr>) ?rows"
      from that obtain n c where n: "(n, c) \<in> set (enumerate 0 ?cards)"
        and t: "t = make_task (cr_title (kc_row c)) (''kanban:'' @ name) n"
        unfolding tasks by (auto simp del: enumerate_map_upt)
      from n have "snd (n, c) \<in> set (map snd (enumerate 0 ?cards))" by (simp only: set_map imageI)
      then obtain i q where "(i, q) \<in> set ?rows" "kc_row c = q" by auto
      moreover have "bt_title t = cr_title (kc_row c)" by (simp add: t make_task_def case_prod_unfold)
      ultimately have "(i, q) \<in> set ?rows" "bt_title t = cr_title q" by simp_all
      then show ?thesis by (auto simp: select_rows_def find_None_iff)
    qed
    have "table_inv (k_cards k)" using inv by (simp add: kanban_inv_def)
    from table_inv_distinct [OF this] have keys: "distinct (map fst (table_rows (k_cards k)))"
      by (simp add: table_ids_def)
    have same: "bt_title t = bt_title t'"
      if t: "t \<in> set tasks" "t' \<in> set tasks" "task_card_id E k t = task_card_id E k t'" for t t'
    proof -
      obtain i q where q: "?F (bt_title t) = Some (i, q)" using found [OF t(1)] by auto
      obtain i' q' where q': "?F (bt_title t') = Some (i', q')" using found [OF t(2)] by auto
      have "i' = i" using id [OF t(1)] id [OF t(2)] t(3) q q' by simp
      with q' have "?F (bt_title t') = Some (i, q')" by simp
      from find_card_key [OF q this keys] show ?thesis .
    qed
    have "inj_on (task_card_id E k) (set tasks)"
    proof (rule inj_onI)
      fix t t' assume t: "t \<in> set tasks" "t' \<in> set tasks" "task_card_id E k t = task_card_id E k t'"
      have "inj_on bt_title (set tasks)" using dist by (simp add: distinct_map)
      then show "t = t'" using same [OF t] t by (meson inj_onD)
    qed
    then have "distinct (map (task_card_id E k) tasks)" using dist by (simp add: distinct_map)
    then show ?thesis using id found by (auto simp: list_all_iff)
  qed
  then show "list_all (\<lambda>t. task_card_id E k t \<noteq> None) tasks" and "distinct (map (task_card_id E k) tasks)" by simp_all
qed

end
