(* ===== verification/BacklogCards.thy ===== *)
theory BacklogCards
  imports BacklogLoop
begin

text \<open>
  What a run of the backlog leaves on the board its tasks were loaded from: the composition of the
  loop of tasks with the kernel, the workflow and the board.
\<close>

text \<open>The card of a task, before and after a run.\<close>

definition task_card :: "kanban_env \<Rightarrow> kanban_state \<Rightarrow> kanban_state \<Rightarrow> backlog_task \<Rightarrow> card_row option" where
  "task_card E K0 k t = (case task_card_id E K0 t of None \<Rightarrow> None | Some i \<Rightarrow> row_of (k_cards k) i)"

lemma settled_row:
  assumes "settled E K0 rs K0 k" and "(i, q) \<in> set (old_cards K0 k)" and "task_card_id E K0 t = Some i"
  shows "task_card E K0 k t = Some q"
proof -
  have "table_inv (k_cards k)" using assms(1) by (simp add: settled_def progressed_def kanban_inv_def)
  moreover have "(i, q) \<in> set (table_rows (k_cards k))" using assms(2) by (simp add: old_cards_def)
  ultimately show ?thesis using assms(3) by (simp add: task_card_def row_of_mem)
qed

lemma settled_ran:
  assumes "settled E K0 rs K0 k" and "r \<in> set rs" and "bo_status r \<noteq> ''skipped''"
  shows "\<exists>q. task_card E K0 k (bo_task r) = Some q \<and> card_final r q"
proof -
  obtain i q where "task_card_id E K0 (bo_task r) = Some i" "(i, q) \<in> set (old_cards K0 k)" "card_final r q"
    using assms unfolding settled_def by blast
  then show ?thesis using settled_row [OF assms(1)] by blast
qed

lemma not_ran:
  assumes "results_shape stop start 0 tasks rs" and "distinct (map (task_card_id E K0) tasks)" and "t \<in> set tasks"
    and "t \<notin> bo_task ` set (filter (\<lambda>r. bo_status r \<noteq> ''skipped'') rs)"
  shows "task_card_id E K0 t \<notin> set (ran E K0 rs)"
proof
  assume "task_card_id E K0 t \<in> set (ran E K0 rs)"
  then obtain r where r: "r \<in> set rs" "bo_status r \<noteq> ''skipped''" "task_card_id E K0 (bo_task r) = task_card_id E K0 t"
    unfolding ran_def by auto
  have "bo_task r \<in> set (take (length rs) tasks)"
    using assms(1) r(1) unfolding results_shape_def by (metis (no_types) imageI set_map)
  then have "bo_task r \<in> set tasks" by (rule in_set_takeD)
  moreover have "inj_on (task_card_id E K0) (set tasks)" using assms(2) by (simp add: distinct_map)
  ultimately have "bo_task r = t" using r(3) assms(3) by (meson inj_onD)
  then show False using r(1,2) assms(4) by auto
qed

lemma settled_not_ran:
  assumes K0: "kanban_inv K0" and s: "settled E K0 rs K0 k" and shape: "results_shape stop start 0 tasks rs"
    and tasks: "list_all (\<lambda>t. task_card_id E K0 t \<noteq> None) tasks" "distinct (map (task_card_id E K0) tasks)"
    and t: "t \<in> set tasks" "t \<notin> bo_task ` set (filter (\<lambda>r. bo_status r \<noteq> ''skipped'') rs)"
  shows "task_card E K0 k t = task_card E K0 K0 t"
proof -
  obtain i where i: "task_card_id E K0 t = Some i" using tasks(1) t(1) by (auto simp: list_all_iff)
  obtain b r0 where "find (\<lambda>(i, r). cr_board r = b \<and> cr_project r = k_project E
      \<and> cr_title r = bt_title t) (table_rows (k_cards K0)) = Some (i, r0)"
    using i by (auto simp: task_card_id_def split: option.splits)
  then have mem: "(i, r0) \<in> set (table_rows (k_cards K0))" by (auto dest: find_mem)
  then have r0: "(i, r0) \<in> set (old_cards K0 K0)" using all_old(2) [OF K0] by simp
  moreover have "Some i \<notin> set (ran E K0 rs)" using not_ran [OF shape tasks(2) t] i by simp
  ultimately have "(i, r0) \<in> set (old_cards K0 k)" using s unfolding settled_def by blast
  then have "task_card E K0 k t = Some r0" using settled_row [OF s] i by blast
  moreover have "row_of (k_cards K0) i = Some r0" using mem K0 by (simp add: kanban_inv_def row_of_mem)
  ultimately show ?thesis using i by (simp add: task_card_def)
qed


definition demo_runner :: "nat runner" where
  "demo_runner = \<lparr>ru_workflow = Some demo_no_plan, ru_agents = [], ru_executor = None\<rparr>"

definition demo_kanban_env :: kanban_env where
  "demo_kanban_env = \<lparr>k_project = ''/p'', k_bus = True, k_clock = digits\<rparr>"

definition demo_todo :: kanban_state where
  "demo_todo = snd (move_card demo_kanban_env 1 ''Todo'' (snd (store_create_card demo_kanban_env 1 ''fix: the parser'' ''''
     (snd (store_create_board demo_kanban_env ''main'' empty_kanban)))))"


end
