(* ===== verification/RetrievalProps.thy ===== *)
theory RetrievalProps
  imports KnowledgeEngine StrProps "HOL-Library.Sublist"
begin

text \<open>
  What the selection promises: it stays within the budget of the agent, takes one chunk of each
  source by descending score, and answers something whenever something was found.
\<close>

section \<open>Words of a truncated text\<close>

definition is_words :: "string list \<Rightarrow> bool" where
  "is_words ws \<longleftrightarrow> list_all (\<lambda>w. w \<noteq> [] \<and> list_all (\<lambda>c. \<not> is_space c) w) ws"

lemma is_words_split: "is_words (split_ws s)"
  using words_no_space [of s] by (auto simp: is_words_def list_all_iff)

lemma split_ws_word:
  assumes "w \<noteq> []" and "list_all (\<lambda>c. \<not> is_space c) w" and "t = [] \<or> is_space (hd t)"
  shows "split_ws (w @ t) = w # split_ws t"
proof -
  have hd: "\<not> is_space (hd w)" using assms(1,2) by (cases w) auto
  have "dropWhile is_space (w @ t) = w @ t" using hd assms(1) by (cases w) auto
  moreover have "takeWhile (\<lambda>c. \<not> is_space c) (w @ t) = w" "dropWhile (\<lambda>c. \<not> is_space c) (w @ t) = t"
    using takeWhile_app [of "\<lambda>c. \<not> is_space c" w t] dropWhile_app [of "\<lambda>c. \<not> is_space c" w t] assms by auto
  ultimately show ?thesis using assms(1) by (subst split_ws_step) simp
qed

lemma split_ws_space: "split_ws (CHR '' '' # t) = split_ws t"
  by (subst (1 2) split_ws_step) (simp add: is_space_def)

lemma split_ws_join: "is_words ws \<Longrightarrow> split_ws (join '' '' ws) = ws"
proof (induction ws rule: induct_list012)
  case (2 w)
  then show ?case using split_ws_word [of w "[]"] by (simp add: is_words_def)
next
  case (3 w v ws)
  have "split_ws (w @ '' '' @ join '' '' (v # ws)) = w # split_ws ('' '' @ join '' '' (v # ws))"
    by (rule split_ws_word) (use 3(3) in \<open>simp_all add: is_words_def is_space_def\<close>)
  moreover have "split_ws (join '' '' (v # ws)) = v # ws" by (rule 3(2)) (use 3(3) in \<open>simp add: is_words_def\<close>)
  ultimately show ?case by (simp add: split_ws_space)
qed simp

lemma truncate_tokens: "0 \<le> m \<Longrightarrow> int (token_estimate (truncate_to_tokens content m)) \<le> m"
proof -
  assume m: "0 \<le> m"
  have "is_words (take k (split_ws content))" for k
    using is_words_split [of content] by (auto simp: is_words_def list_all_iff dest: in_set_takeD)
  then show ?thesis using m by (auto simp: truncate_to_tokens_def token_estimate_def split_ws_join)
qed

section \<open>The greedy loop\<close>

text \<open>What the loop does not change of a chunk.\<close>

definition pick :: "scored_result \<Rightarrow> string \<times> string \<times> rat" where
  "pick x = (kr_chunk (sr_result x), kr_source (sr_result x), sr_score x)"

lemma pick_truncate [simp]: "pick (truncate_result limit x) = pick x"
  by (simp add: pick_def truncate_result_def Let_def)

lemma pick_justify [simp]: "pick (justify x) = pick x"
  by (simp add: pick_def justify_def)

lemma tokens_justify [simp]: "kr_tokens (sr_result (justify x)) = kr_tokens (sr_result x)"
  by (simp add: justify_def)

lemma token_sum_simps [simp]:
  "token_sum [] = 0" "token_sum (x # xs) = int (kr_tokens (sr_result x)) + token_sum xs"
  by (simp_all add: token_sum_def)

lemma token_sum_nonneg: "0 \<le> token_sum xs"
  by (simp add: token_sum_def)

lemma token_sum_justify [simp]: "token_sum (map justify xs) = token_sum xs"
  by (induction xs) auto

lemma greedy_loop_bounds:
  "greedy_loop limit used xs = (ys, u) \<Longrightarrow> 0 \<le> used \<Longrightarrow> used \<le> limit \<Longrightarrow>
   used + token_sum ys \<le> u \<and> u \<le> limit \<and> u \<le> used + token_sum xs \<and> subseq (map pick ys) (map pick xs)"
proof (induction limit used xs arbitrary: ys u rule: greedy_loop.induct)
  case (2 limit used x xs)
  let ?est = "int (kr_tokens (sr_result x))"
  consider (fits) "used + ?est \<le> limit" | (cut) "\<not> used + ?est \<le> limit" "limit < ?est" "used = 0"
    | (skip) "\<not> used + ?est \<le> limit" "\<not> (limit < ?est \<and> used = 0)" by blast
  then show ?case
  proof cases
    case fits
    obtain zs v where zs: "greedy_loop limit (used + ?est) xs = (zs, v)" by (cases "greedy_loop limit (used + ?est) xs")
    then have "ys = x # zs" "u = v" using 2(3) fits by simp_all
    moreover have "used + ?est + token_sum zs \<le> v \<and> v \<le> limit \<and> v \<le> used + ?est + token_sum xs
        \<and> subseq (map pick zs) (map pick xs)"
      by (rule 2(1) [OF refl fits zs]) (use 2(4) fits in auto)
    ultimately show ?thesis by simp
  next
    case cut
    then have "greedy_loop limit used (x # xs) = ([truncate_result limit x], limit)" by (simp add: Let_def)
    with 2(3) have "ys = [truncate_result limit x]" "u = limit" by (metis prod.inject)+
    moreover have "int (kr_tokens (sr_result (truncate_result limit x))) \<le> limit"
      using truncate_tokens [of limit "kr_content (sr_result x)"] cut 2(5) by (simp add: truncate_result_def Let_def)
    moreover have "limit \<le> ?est + token_sum xs" using cut token_sum_nonneg [of xs] by linarith
    ultimately show ?thesis using cut by simp
  next
    case skip
    then have "greedy_loop limit used (x # xs) = greedy_loop limit used xs" by (auto simp: Let_def)
    with 2(3) have "greedy_loop limit used xs = (ys, u)" by metis
    then have "used + token_sum ys \<le> u \<and> u \<le> limit \<and> u \<le> used + token_sum xs
        \<and> subseq (map pick ys) (map pick xs)"
      using 2(2) [OF refl skip(1)] skip(2) 2(4,5) by blast
    then show ?thesis by auto
  qed
qed simp

lemma greedy_loop_progress: "0 \<le> limit \<Longrightarrow> xs \<noteq> [] \<Longrightarrow> fst (greedy_loop limit 0 xs) \<noteq> []"
  by (cases xs) (auto simp: Let_def split: prod.split)

section \<open>Ranking and sources\<close>

lemma dedupe_by_subseq: "subseq (dedupe_by key seen xs) xs"
  by (induction key seen xs rule: dedupe_by.induct) auto

lemma dedupe_by_keys:
  "distinct (map key (dedupe_by key seen xs)) \<and> key ` set (dedupe_by key seen xs) = key ` set xs - set seen"
  by (induction key seen xs rule: dedupe_by.induct) auto

lemma dedupe_by_Nil: "xs \<noteq> [] \<Longrightarrow> dedupe_by key [] xs \<noteq> []"
  by (cases xs) auto

lemma subseq_set: "subseq ys xs \<Longrightarrow> set ys \<subseteq> set xs"
  by (induction rule: list_emb.induct) auto

lemma distinct_subseq: "subseq ys xs \<Longrightarrow> distinct xs \<Longrightarrow> distinct ys"
  by (induction rule: list_emb.induct) (auto dest: list_emb_set)

lemma subseq_sorted: "subseq ys xs \<Longrightarrow> sorted_wrt P xs \<Longrightarrow> sorted_wrt P ys"
  by (induction rule: list_emb.induct) (auto dest: list_emb_set)

lemma rank_facts:
  "sorted_wrt (\<lambda>x y. sr_score y \<le> sr_score x) (rank xs)" "length (rank xs) = length xs"
  "token_sum (rank xs) = token_sum xs" "sr_result ` set (rank xs) = sr_result ` set xs"
proof -
  let ?f = "\<lambda>x. x\<lparr>sr_score := min 1 (sr_score x + dict_get SOURCE_BOOST (kr_type (sr_result x)) 0)\<rparr>"
  show "sorted_wrt (\<lambda>x y. sr_score y \<le> sr_score x) (rank xs)"
    unfolding rank_def by (rule sorted_sort_desc)
  show "length (rank xs) = length xs" by (simp add: rank_def sort_desc_def)
  have sum: "token_sum xs = int (sum_mset (image_mset (\<lambda>x. kr_tokens (sr_result x)) (mset xs)))" for xs
    unfolding token_sum_def by (metis mset_map sum_mset_sum_list)
  have "image_mset (\<lambda>x. kr_tokens (sr_result x)) (mset (map ?f xs)) = image_mset (\<lambda>x. kr_tokens (sr_result x)) (mset xs)"
    by (induction xs) simp_all
  then show "token_sum (rank xs) = token_sum xs" unfolding sum rank_def mset_sort_desc by simp
  show "sr_result ` set (rank xs) = sr_result ` set xs" by (auto simp: rank_def image_image)
qed

lemma token_sum_filter: "subseq ys xs \<Longrightarrow> token_sum ys \<le> token_sum xs"
  by (induction rule: list_emb.induct) (auto simp: token_sum_nonneg)

text \<open>The selection from a list of candidates.\<close>

lemma select_candidates_facts:
  fixes candidates :: "scored_result list" and t0 t1 :: rat
  assumes "0 \<le> limit"
  defines "r \<equiv> select_candidates candidates limit t0 t1"
  shows "token_sum (sl_chunks r) \<le> sl_after r" and "sl_after r \<le> limit" and "sl_after r \<le> sl_before r"
    and "sorted_wrt (\<lambda>x y. sr_score y \<le> sr_score x) (sl_chunks r)"
    and "distinct (map (\<lambda>x. kr_source (sr_result x)) (sl_chunks r))"
    and "\<forall>x \<in> set (sl_chunks r). \<exists>y \<in> set candidates. kr_chunk (sr_result x) = kr_chunk (sr_result y)
        \<and> kr_source (sr_result x) = kr_source (sr_result y)"
    and "candidates \<noteq> [] \<Longrightarrow> sl_chunks r \<noteq> []"
proof -
  let ?d = "dedupe_sources (rank candidates)"
  obtain ys u where g: "greedy_loop limit 0 ?d = (ys, u)" by (cases "greedy_loop limit 0 ?d")
  have chunks: "sl_chunks r = map justify ys" and after: "sl_after r = u" and total: "sl_before r = token_sum candidates"
    by (simp_all add: r_def select_candidates_def greedy_select_def g Let_def)
  have b: "token_sum ys \<le> u" "u \<le> limit" "u \<le> token_sum ?d" "subseq (map pick ys) (map pick ?d)"
    using greedy_loop_bounds [OF g] assms by auto
  have sub: "subseq ?d (rank candidates)" unfolding dedupe_sources_def by (rule dedupe_by_subseq)
  show "token_sum (sl_chunks r) \<le> sl_after r" and "sl_after r \<le> limit" using b chunks after by simp_all
  show "sl_after r \<le> sl_before r"
    using b(3) token_sum_filter [OF sub] rank_facts(3) [of candidates] after total by simp
  have keep: "map pick (sl_chunks r) = map pick ys" by (simp add: chunks)
  have "sorted_wrt (\<lambda>x y. sr_score y \<le> sr_score x) ?d" by (rule subseq_sorted [OF sub rank_facts(1)])
  then have "sorted_wrt (\<lambda>p q. snd (snd q) \<le> snd (snd p)) (map pick ?d)" by (simp add: sorted_wrt_map pick_def)
  from subseq_sorted [OF b(4) this] have "sorted_wrt (\<lambda>p q. snd (snd q) \<le> snd (snd p)) (map pick (sl_chunks r))"
    by (simp add: keep)
  then show "sorted_wrt (\<lambda>x y. sr_score y \<le> sr_score x) (sl_chunks r)" by (simp add: sorted_wrt_map pick_def)
  have "distinct (map (\<lambda>x. kr_source (sr_result x)) ?d)" unfolding dedupe_sources_def using dedupe_by_keys by blast
  then have "distinct (map (fst \<circ> snd) (map pick ?d))" by (simp add: comp_def pick_def)
  moreover have "subseq (map (fst \<circ> snd) (map pick ys)) (map (fst \<circ> snd) (map pick ?d))" by (rule subseq_map [OF b(4)])
  ultimately have "distinct (map (fst \<circ> snd) (map pick ys))" by (blast intro: distinct_subseq)
  then show "distinct (map (\<lambda>x. kr_source (sr_result x)) (sl_chunks r))" by (simp add: chunks comp_def pick_def justify_def)
  show "\<forall>x \<in> set (sl_chunks r). \<exists>y \<in> set candidates. kr_chunk (sr_result x) = kr_chunk (sr_result y)
      \<and> kr_source (sr_result x) = kr_source (sr_result y)"
  proof
    fix x assume "x \<in> set (sl_chunks r)"
    then have "pick x \<in> set (map pick (sl_chunks r))" by simp
    then have "pick x \<in> set (map pick ys)" unfolding keep .
    then have "pick x \<in> set (map pick ?d)" using subseq_set [OF b(4)] by blast
    then obtain z where z: "z \<in> set ?d" "pick z = pick x" by auto
    then have "sr_result z \<in> sr_result ` set candidates"
      using subseq_set [OF sub] rank_facts(4) [of candidates] by blast
    then obtain y where "y \<in> set candidates" "sr_result z = sr_result y" by blast
    with z(2) show "\<exists>y \<in> set candidates. kr_chunk (sr_result x) = kr_chunk (sr_result y)
        \<and> kr_source (sr_result x) = kr_source (sr_result y)" by (intro bexI [of _ y]) (auto simp: pick_def)
  qed
  show "sl_chunks r \<noteq> []" if "candidates \<noteq> []"
  proof -
    have "rank candidates \<noteq> []" using that rank_facts(2) [of candidates] by auto
    then have "?d \<noteq> []" unfolding dedupe_sources_def by (rule dedupe_by_Nil)
    then show ?thesis using greedy_loop_progress [OF assms(1)] g chunks by fastforce
  qed
qed

end
