(* ===== verification/ChunkingProps.thy ===== *)
theory ChunkingProps
  imports Chunking StrProps
begin

text \<open>
  Correctness of the chunking: the loop by size ends and covers its text, the normal form of a
  content is a fixed point, and splitting loses nothing but white space.
\<close>

section \<open>The loop by size\<close>

lemma py_index_nonneg [simp]: "0 \<le> i \<Longrightarrow> i \<le> int n \<Longrightarrow> py_index n i = nat i"
  by (simp add: py_index_def)

lemma rfind_bounds:
  assumes "rfind s sub a b \<noteq> -1" and "0 \<le> a" and "a \<le> int (length s)" and "0 \<le> b" and "b \<le> int (length s)"
  shows "a \<le> rfind s sub a b \<and> rfind s sub a b + int (length sub) \<le> b"
proof -
  define hits where "hits = filter (\<lambda>k. take (length sub) (drop k s) = sub) [nat a ..< nat b + 1 - length sub]"
  have r: "rfind s sub a b = (if hits = [] then -1 else int (last hits))"
    using assms by (simp add: rfind_def hits_def Let_def)
  then have "hits \<noteq> []" using assms(1) by auto
  then have "last hits \<in> set hits" by (rule last_in_set)
  then have "nat a \<le> last hits" "last hits < nat b + 1 - length sub" unfolding hits_def by auto
  then have "nat a \<le> last hits" "last hits + length sub \<le> nat b" by simp_all
  then have "a \<le> int (last hits)" "int (last hits + length sub) \<le> b"
    using assms(2,4) by (simp_all add: le_nat_iff nat_le_iff)
  then show ?thesis using r \<open>hits \<noteq> []\<close> by simp
qed

lemma chunk_end_bounds:
  assumes "0 \<le> start" and "start < e" and "e \<le> int (length text)" and "0 < overlap"
  shows "start < chunk_end text overlap start e" and "e - overlap < chunk_end text overlap start e"
    and "chunk_end text overlap start e \<le> e"
proof -
  let ?a = "max start (e - overlap)"
  define found where "found = (let f = rfind text [newline, newline] ?a e;
      f = (if f = -1 then rfind text [newline] ?a e else f)
    in if f = -1 then rfind text ''. '' ?a e else f)"
  have a: "0 \<le> ?a" "?a \<le> int (length text)" using assms by auto
  have hit: "rfind text (c # cs) ?a e = -1 \<or> ?a \<le> rfind text (c # cs) ?a e \<and> rfind text (c # cs) ?a e + 1 \<le> e" for c cs
    using rfind_bounds [OF _ a, of "c # cs" e] assms by fastforce
  have "found = -1 \<or> ?a \<le> found \<and> found + 1 \<le> e"
    unfolding found_def Let_def
    using hit [of newline "[newline]"] hit [of newline "[]"] hit [of "CHR ''.''" "'' ''"] by presburger
  moreover have "chunk_end text overlap start e = (if found > start then found + 1 else e)"
    by (simp add: chunk_end_def found_def Let_def)
  ultimately show "start < chunk_end text overlap start e" and "e - overlap < chunk_end text overlap start e"
    and "chunk_end text overlap start e \<le> e" using assms by auto
qed

text \<open>
  A list of spans covers a text of length \<open>n\<close> from \<open>e\<close> on: each begins at most \<open>ov\<close> before the end of
  the one before, is at most \<open>m\<close> long and ends later, and the last ends the text.
\<close>

fun covers :: "int \<Rightarrow> int \<Rightarrow> nat \<Rightarrow> nat \<Rightarrow> (nat \<times> nat) list \<Rightarrow> bool" where
  "covers ov m n e [] = (e = n)"
| "covers ov m n e ((a, b) # ss) \<longleftrightarrow>
     a \<le> e \<and> int e \<le> int a + ov \<and> a < b \<and> e < b \<and> b \<le> n \<and> int b \<le> int a + m \<and> covers ov m n b ss"

definition span_chunks :: "string \<Rightarrow> (nat \<times> nat) list \<Rightarrow> string list" where
  "span_chunks text ss = filter (\<lambda>c. c \<noteq> []) (map (\<lambda>(a, b). strip (text_span text a b)) ss)"

lemma span_chunks_Cons:
  "span_chunks text ((a, b) # ss) =
    (if strip (text_span text a b) = [] then span_chunks text ss else strip (text_span text a b) # span_chunks text ss)"
  by (simp add: span_chunks_def)

lemma size_loop_end: "\<not> start < int (length text) \<Longrightarrow> size_loop text m ov start = Some []"
  by (subst size_loop.simps) simp

lemma size_loop_covers:
  assumes "0 < ov" and "2 * ov \<le> m"
  shows "0 \<le> start \<Longrightarrow> start \<le> int e \<Longrightarrow> int e \<le> start + ov \<Longrightarrow> e < length text \<or> e = length text \<and> start = int e \<Longrightarrow>
    \<exists>ss. size_loop text m ov start = Some (span_chunks text ss) \<and> covers ov m (length text) e ss"
proof (induction "nat (int (length text) - start)" arbitrary: start e rule: less_induct)
  case less
  let ?n = "int (length text)"
  show ?case
  proof (cases "start < ?n")
    case False
    then have "size_loop text m ov start = Some (span_chunks text [])" "e = length text"
      using less.prems by (auto simp: size_loop_end span_chunks_def)
    then show ?thesis by (intro exI [of _ "[]"]) simp
  next
    case True
    define e0 where "e0 = min (start + m) ?n"
    define b where "b = (if e0 < ?n then chunk_end text ov start e0 else e0)"
    define s' where "s' = (if b < ?n then b - ov else b)"
    have e0: "start < e0" "e0 \<le> ?n" "e0 \<le> start + m" using True assms by (auto simp: e0_def)
    have b: "start < b" "b \<le> e0" "e0 < ?n \<Longrightarrow> start + m - ov < b" "\<not> e0 < ?n \<Longrightarrow> b = ?n"
      using chunk_end_bounds [of start e0 "text" ov] e0 less.prems(1) assms by (auto simp: b_def e0_def min_def)
    have eb: "int e < b" using b less.prems True assms by (cases "e0 < ?n") auto
    have bn: "b < ?n \<Longrightarrow> start + m - ov < b" using b(2-4) e0(2) by linarith
    have s': "start < s'" "s' \<le> b" "b \<le> s' + ov" "b < ?n \<or> b = ?n \<and> s' = b" "0 \<le> s'"
      using b(1,2) bn e0 assms less.prems(1) by (auto simp: s'_def)
    have "\<exists>ss. size_loop text m ov s' = Some (span_chunks text ss) \<and> covers ov m (length text) (nat b) ss"
      by (rule less.hyps) (use s' True b(1) less.prems(1) in auto)
    then obtain ss where ss: "size_loop text m ov s' = Some (span_chunks text ss)" "covers ov m (length text) (nat b) ss"
      by blast
    have "size_loop text m ov start = Option.bind (size_loop text m ov s')
        (\<lambda>cs. Some (if strip (py_slice text start b) = [] then cs else strip (py_slice text start b) # cs))"
      using True by (subst size_loop.simps) (simp only: if_True Let_def e0_def b_def s'_def)
    moreover have "py_slice text start b = text_span text (nat start) (nat b)"
      using less.prems(1) b e0 True by (simp add: py_slice_def)
    ultimately have "size_loop text m ov start = Some (span_chunks text ((nat start, nat b) # ss))"
      using ss(1) by (simp add: span_chunks_Cons)
    moreover have "covers ov m (length text) e ((nat start, nat b) # ss)"
      using ss(2) less.prems b e0 eb by auto
    ultimately show ?thesis by blast
  qed
qed

lemma length_strip: "length (strip s) \<le> length s"
proof -
  have "length (dropWhile is_space (rev t)) \<le> length t" for t using length_dropWhile_le [of is_space "rev t"] by simp
  then show ?thesis unfolding strip_def lstrip_def rstrip_def
    by (metis (no_types) dual_order.trans length_dropWhile_le length_rev)
qed

lemma covers_length: "covers ov m n e ss \<Longrightarrow> (a, b) \<in> set ss \<Longrightarrow> a < b \<and> b \<le> n \<and> int b \<le> int a + m"
  by (induction ov m n e ss rule: covers.induct) auto

lemma span_chunks_short: "covers ov m (length text) e ss \<Longrightarrow> c \<in> set (span_chunks text ss) \<Longrightarrow>
    c \<noteq> [] \<and> int (length c) \<le> m"
proof -
  assume cov: "covers ov m (length text) e ss" and "c \<in> set (span_chunks text ss)"
  then obtain a b where ab: "(a, b) \<in> set ss" "c = strip (text_span text a b)" "c \<noteq> []"
    by (auto simp: span_chunks_def)
  have "length c \<le> b - a" using length_strip [of "text_span text a b"] ab(2) by (simp add: text_span_def)
  then show ?thesis using covers_length [OF cov ab(1)] ab(3) by auto
qed

lemma chunk_by_size_spans:
  "strip text \<noteq> [] \<Longrightarrow> \<exists>ss. chunk_by_size text MAX_CHUNK_CHARS OVERLAP_CHARS = Some (span_chunks text ss)
      \<and> covers OVERLAP_CHARS MAX_CHUNK_CHARS (length text) 0 ss"
proof (cases "int (length text) \<le> MAX_CHUNK_CHARS")
  case True
  assume "strip text \<noteq> []"
  with True have "chunk_by_size text MAX_CHUNK_CHARS OVERLAP_CHARS = Some (span_chunks text [(0, length text)])"
    and "covers OVERLAP_CHARS MAX_CHUNK_CHARS (length text) 0 [(0, length text)]"
    by (auto simp: chunk_by_size_def MAX_CHUNK_CHARS_def OVERLAP_CHARS_def text_span_def span_chunks_def)
  then show ?thesis by blast
next
  case False
  assume "strip text \<noteq> []"
  moreover have "\<exists>ss. size_loop text MAX_CHUNK_CHARS OVERLAP_CHARS 0 = Some (span_chunks text ss)
      \<and> covers OVERLAP_CHARS MAX_CHUNK_CHARS (length text) 0 ss"
    using False by (intro size_loop_covers) (auto simp: MAX_CHUNK_CHARS_def OVERLAP_CHARS_def)
  ultimately show ?thesis using False by (auto simp: chunk_by_size_def)
qed

lemma chunk_by_size_blank: "strip text = [] \<Longrightarrow> chunk_by_size text m ov = Some []"
  by (simp add: chunk_by_size_def)

lemma chunk_by_size_total: "chunk_by_size text MAX_CHUNK_CHARS OVERLAP_CHARS \<noteq> None"
  using chunk_by_size_spans [of "text"] chunk_by_size_blank [of "text"] by (cases "strip text = []") auto

text \<open>Splitting by size always ends and covers the text. On the sizes of the code, the loop answers
  for every text that is not blank: the chunks are the stripped spans of the text that are not blank;
  the spans follow each other without a gap, overlap by at most 200 characters, each reaches further
  than the one before, and none is longer than 4096 characters. A blank text has no chunks.\<close>

theorem chunk_by_size_covers:
  "if strip text = [] then chunk_by_size text MAX_CHUNK_CHARS OVERLAP_CHARS = Some []
   else \<exists>ss. chunk_by_size text MAX_CHUNK_CHARS OVERLAP_CHARS =
        Some (filter (\<lambda>c. c \<noteq> []) (map (\<lambda>(a, b). strip (text_span text a b)) ss))
      \<and> covers OVERLAP_CHARS MAX_CHUNK_CHARS (length text) 0 ss"
  using chunk_by_size_spans [of "text"] chunk_by_size_blank [of "text"] by (simp add: span_chunks_def)

section \<open>The normal form of a content\<close>

lemma limit_blanks_length: "length (limit_blanks k ls) \<le> length ls"
  by (induction k ls rule: limit_blanks.induct) auto

lemma limit_blanks_saturated: "MAX_BLANK_RUN \<le> k \<Longrightarrow> MAX_BLANK_RUN \<le> k' \<Longrightarrow> limit_blanks k ls = limit_blanks k' ls"
proof (induction ls arbitrary: k k')
  case (Cons l ls)
  have "limit_blanks (k + 1) ls = limit_blanks (k' + 1) ls" by (rule Cons.IH) (use Cons.prems in auto)
  then show ?case using Cons.prems by simp
qed simp

lemma limit_blanks_idem: "limit_blanks k (limit_blanks k ls) = limit_blanks k ls"
proof (induction ls arbitrary: k)
  case (Cons l ls)
  show ?case
  proof (cases "l = [] \<and> \<not> k + 1 \<le> MAX_BLANK_RUN")
    case True
    then have "limit_blanks (k + 1) xs = limit_blanks k xs" for xs by (intro limit_blanks_saturated) auto
    with True Cons.IH [of k] show ?thesis by simp
  qed (use Cons.IH in auto)
qed simp

lemma limit_blanks_fewer: "limit_blanks k ls = ls \<Longrightarrow> j \<le> k \<Longrightarrow> limit_blanks j ls = ls"
proof (induction ls arbitrary: k j)
  case (Cons l ls)
  have "length (limit_blanks (k + 1) ls) < length (l # ls)" using limit_blanks_length [of "k + 1" ls] by simp
  then have "limit_blanks (k + 1) ls \<noteq> l # ls" by auto
  with Cons show ?case by (auto split: if_splits)
qed simp

lemma limit_blanks_front: "limit_blanks k ls = ls \<Longrightarrow> limit_blanks 0 (dropWhile (\<lambda>l. l = []) ls) = dropWhile (\<lambda>l. l = []) ls"
proof (induction ls arbitrary: k)
  case (Cons l ls)
  have "length (limit_blanks (k + 1) ls) < length (l # ls)" using limit_blanks_length [of "k + 1" ls] by simp
  then have "limit_blanks (k + 1) ls \<noteq> l # ls" by auto
  with Cons limit_blanks_fewer [of k "l # ls" 0] show ?case by (auto split: if_splits)
qed simp

lemma limit_blanks_last: "ls \<noteq> [] \<Longrightarrow> last ls \<noteq> [] \<Longrightarrow> limit_blanks k ls \<noteq> [] \<and> last (limit_blanks k ls) = last ls"
  by (induction k ls rule: limit_blanks.induct) (auto split: if_splits)

lemma limit_blanks_set: "set (limit_blanks k ls) \<subseteq> set ls"
  by (induction k ls rule: limit_blanks.induct) auto

lemma last_dropWhile: "dropWhile P xs \<noteq> [] \<Longrightarrow> last (dropWhile P xs) = last xs"
  by (metis last_appendR takeWhile_dropWhile_id)

definition normal_line :: "string \<Rightarrow> bool" where
  "normal_line l \<longleftrightarrow> one_line l \<and> rstrip l = l"

definition normal_lines :: "string list \<Rightarrow> bool" where
  "normal_lines ls \<longleftrightarrow> list_all normal_line ls \<and> (ls = [] \<or> hd ls \<noteq> [] \<and> last ls \<noteq> []) \<and> limit_blanks 0 ls = ls"

lemma one_line_splitlines: "list_all one_line (splitlines s)"
proof (induction s rule: splitlines.induct)
  case (2 c s)
  show ?case
  proof (cases "is_line_end c")
    case True
    with 2 show ?thesis by (simp add: one_line_def split: list.split)
  next
    case False
    with 2(4) show ?thesis by (cases "splitlines s") (simp_all add: one_line_def)
  qed
qed simp

lemma set_rstrip: "set (rstrip s) \<subseteq> set s"
  by (auto simp: rstrip_def dest: set_dropWhileD)

lemma rstrip_idem [simp]: "rstrip (rstrip s) = rstrip s"
  by (simp add: rstrip_def)

lemma one_line_rstrip: "one_line s \<Longrightarrow> one_line (rstrip s)"
  using set_rstrip [of s] by (auto simp: one_line_def list_all_iff)

lemma no_cr: "one_line s \<Longrightarrow> replace_cr (replace_crlf s) = s"
proof -
  assume one: "one_line s"
  then have cr: "\<forall>c \<in> set s. code c \<noteq> 13" by (auto simp: one_line_def list_all_iff is_line_end_def Let_def)
  have "\<forall>c \<in> set t. code c \<noteq> 13 \<Longrightarrow> replace_crlf t = t" for t
    by (induction t rule: replace_crlf.induct) (auto split: list.splits)
  with cr show ?thesis unfolding replace_cr_def by (simp add: map_idI)
qed

lemma split_char_join_lines: "ls \<noteq> [] \<Longrightarrow> list_all (\<lambda>l. c \<notin> set l) ls \<Longrightarrow> split_char c (join [c] ls) = ls"
proof (induction ls rule: induct_list012)
  case (2 x)
  have "c \<notin> set x \<Longrightarrow> split_char c x = [x]" by (induction x) auto
  with 2 show ?case by simp
next
  case (3 x y zs)
  have "c \<notin> set x \<Longrightarrow> split_char c (x @ c # t) = x # split_char c t" for t by (induction x) auto
  with 3 show ?case by simp
qed simp

lemma one_line_newline: "one_line l \<Longrightarrow> newline \<notin> set l"
  by (auto simp: one_line_def list_all_iff is_line_end_def newline_def)

lemma split_lines: "list_all one_line ls \<Longrightarrow> split_char newline (join [newline] ls) = (if ls = [] then [[]] else ls)"
  using split_char_join_lines [of ls newline] one_line_newline by (auto simp: list_all_iff)

lemma map_rstrip_normal: "list_all normal_line ls \<Longrightarrow> map rstrip ls = ls"
  by (simp add: list_all_iff normal_line_def map_idI)

lemma drop_trailing: "ls = [] \<or> last ls \<noteq> [] \<Longrightarrow> rev (dropWhile (\<lambda>l. l = []) (rev ls)) = ls"
  by (cases ls rule: rev_cases) auto

lemma normalize_normal:
  assumes "normal_lines ls" shows "normalize_content (join [newline] ls) = join [newline] ls"
proof -
  have one: "list_all one_line ls" using assms by (auto simp: normal_lines_def normal_line_def list_all_iff)
  have "splitlines (join [newline] ls) = ls"
    by (rule splitlines_join) (use one assms in \<open>auto simp: normal_lines_def\<close>)
  moreover have "map (\<lambda>l. replace_cr (replace_crlf (rstrip l))) ls = ls"
    using assms one by (intro map_idI) (auto simp: normal_lines_def normal_line_def list_all_iff no_cr)
  moreover have "rev (dropWhile (\<lambda>l. l = []) (rev ls)) = ls"
    using assms by (intro drop_trailing) (auto simp: normal_lines_def)
  moreover have "dropWhile (\<lambda>l. l = []) ls = ls"
    using assms by (cases ls) (auto simp: normal_lines_def)
  ultimately show ?thesis
    using split_lines [OF one] assms map_rstrip_normal [of ls]
    by (cases "ls = []") (simp_all add: normalize_content_def collapse_blank_lines_def normal_lines_def rstrip_def)
qed

lemma normalize_lines: "\<exists>ls. normal_lines ls \<and> normalize_content text = join [newline] ls"
proof -
  define M where "M = map (\<lambda>l. replace_cr (replace_crlf (rstrip l))) (splitlines text)"
  have M: "list_all normal_line M"
    unfolding M_def using one_line_splitlines [of "text"] by (auto simp: list_all_iff normal_line_def one_line_rstrip no_cr)
  then have one: "list_all one_line M" by (auto simp: normal_line_def list_all_iff)
  define N where "N = rev (dropWhile (\<lambda>l. l = []) (rev (if M = [] then [[]] else M)))"
  define R where "R = dropWhile (\<lambda>l. l = []) (limit_blanks 0 N)"
  have "map rstrip (if M = [] then [[]] else M) = (if M = [] then [[]] else M)"
    using map_rstrip_normal [OF M] by (simp add: rstrip_def)
  then have norm: "normalize_content text = join [newline] R"
    using split_lines [OF one] by (simp add: normalize_content_def collapse_blank_lines_def M_def [symmetric] N_def R_def Let_def)
  have "set N \<subseteq> insert [] (set M)" unfolding N_def by (auto dest: set_dropWhileD split: if_splits)
  then have "list_all normal_line N" using M by (auto simp: list_all_iff normal_line_def one_line_def rstrip_def)
  then have "list_all normal_line R"
    using limit_blanks_set [of 0 N] unfolding R_def list_all_iff by (blast dest: set_dropWhileD)
  moreover have "N = [] \<or> last N \<noteq> []"
    using hd_dropWhile [of "\<lambda>l. l = []" "rev (if M = [] then [[]] else M)"] unfolding N_def
    by (metis last_rev rev.simps(1) rev_rev_ident)
  then have "limit_blanks 0 N = [] \<or> last (limit_blanks 0 N) \<noteq> []" using limit_blanks_last [of N 0] by (cases "N = []") auto
  then have "R = [] \<or> last R \<noteq> []" unfolding R_def
    using last_dropWhile [of "\<lambda>l. l = []" "limit_blanks 0 N"] by (metis dropWhile.simps(1))
  moreover have "R = [] \<or> hd R \<noteq> []" unfolding R_def using hd_dropWhile by blast
  moreover have "limit_blanks 0 R = R" unfolding R_def by (rule limit_blanks_front [OF limit_blanks_idem])
  ultimately show ?thesis using norm by (auto simp: normal_lines_def)
qed

lemma normalize_idem: "normalize_content (normalize_content text) = normalize_content text"
  using normalize_lines [of "text"] normalize_normal by metis

section \<open>The chunks of a document\<close>

lemma concat_some_total: "list_all (\<lambda>x. x \<noteq> None) xs \<Longrightarrow> concat_some xs \<noteq> None"
  by (induction xs) auto

lemma section_chunks_total: "section_chunks text m \<noteq> None"
proof -
  have "Option.bind x (\<lambda>cs. Some (f cs)) \<noteq> None" if "x \<noteq> None" for x :: "string list option" and f :: "string list \<Rightarrow> string list"
    using that by (cases x) auto
  then show ?thesis using chunk_by_size_total by (simp add: section_chunks_def Let_def case_prod_unfold)
qed

lemma chunk_markdown_total: "chunk_markdown text \<noteq> None"
proof (cases "find_lines heading_at 0 True text")
  case Nil
  then show ?thesis by (simp add: chunk_markdown_def chunk_by_size_total del: not_None_eq)
next
  case (Cons m ms)
  obtain a l where m: "m = (a, l)" by (cases m)
  have "concat_some ((if 0 < a \<and> strip (text_span text 0 a) \<noteq> []
        then chunk_by_size (strip (text_span text 0 a)) MAX_CHUNK_CHARS OVERLAP_CHARS else Some [])
      # map (section_chunks text) (sections (length text) ((a, l) # ms))) \<noteq> None"
    by (rule concat_some_total) (simp add: list_all_iff chunk_by_size_total section_chunks_total del: not_None_eq)
  then show ?thesis unfolding chunk_markdown_def Cons m by (simp only: list.case prod.case Let_def option.map_disc_iff not_False_eq_True)
qed

lemma chunk_code_total: "chunk_code text \<noteq> None"
proof (cases "find_lines symbol_at 0 True text")
  case Nil
  then show ?thesis by (simp add: chunk_code_def chunk_by_size_total del: not_None_eq)
next
  case (Cons m ms)
  obtain a l where m: "m = (a, l)" by (cases m)
  have "concat_some (Some (if 0 < a \<and> strip (text_span text 0 a) \<noteq> [] then [strip (text_span text 0 a)] else [])
      # map (section_chunks text) (sections (length text) ((a, l) # ms))) \<noteq> None"
    by (rule concat_some_total) (simp add: list_all_iff section_chunks_total del: not_None_eq)
  then show ?thesis unfolding chunk_code_def Cons m by (simp only: list.case prod.case Let_def option.map_disc_iff not_False_eq_True)
qed

lemma chunk_text_facts:
  "\<exists>cs. chunk_text content source_type source_id meta = Some cs
     \<and> map ck_position cs = [0..<length cs]
     \<and> list_all (\<lambda>c. normalize_content (ck_content c) = ck_content c
         \<and> ck_hash c = content_hash (ck_content c)
         \<and> ck_id c = deterministic_chunk_id source_id (ck_position c)
         \<and> ck_tokens c = token_estimate (ck_content c)) cs"
proof -
  obtain raw where raw: "(if source_type = ''code'' then chunk_code content else chunk_markdown content) = Some raw"
    using chunk_code_total [of content] chunk_markdown_total [of content] by fastforce
  have pos: "map (ck_position \<circ> make_chunk source_id meta) (enumerate k raw) = [k..<k + length raw]" for k
  proof -
    have "ck_position \<circ> make_chunk source_id meta = fst" by (auto simp: make_chunk_def Let_def fun_eq_iff)
    then show ?thesis by (simp add: map_fst_enumerate)
  qed
  show ?thesis
    using raw pos [of 0]
    by (auto simp: chunk_text_def list_all_iff make_chunk_def Let_def content_hash_def normalize_idem)
qed

text \<open>Every document is chunked, and its chunks can be checked against their hashes. Chunking
  always answers; the chunks are numbered from zero in order, and every chunk is in normal form
  (normalising it again changes nothing), so the hash it carries is the content hash of what it
  stores, and its token estimate counts the words of what it stores.\<close>

theorem chunk_text_checks:
  "\<exists>cs. chunk_text content source_type source_id meta = Some cs
     \<and> map ck_position cs = [0..<length cs]
     \<and> list_all (\<lambda>c. normalize_content (ck_content c) = ck_content c
         \<and> ck_hash c = content_hash (ck_content c)
         \<and> ck_id c = deterministic_chunk_id source_id (ck_position c)
         \<and> ck_tokens c = token_estimate (ck_content c)) cs"
  by (rule chunk_text_facts)

section \<open>Nothing but white space is lost\<close>

definition visible :: "string \<Rightarrow> string" where
  "visible s = filter (\<lambda>c. \<not> is_space c) s"

lemma visible_append [simp]: "visible (a @ b) = visible a @ visible b"
  by (simp add: visible_def)

lemma visible_Nil [simp]: "visible [] = []"
  by (simp add: visible_def)

lemma visible_space: "list_all is_space s \<Longrightarrow> visible s = []"
  by (auto simp: visible_def list_all_iff filter_empty_conv)

lemma visible_strip [simp]: "visible (strip s) = visible s"
proof -
  obtain a b where "s = a @ strip s @ b" "list_all is_space a" "list_all is_space b" using strip_parts by blast
  then show ?thesis by (metis append_Nil append_Nil2 visible_append visible_space)
qed

lemma visible_concat_strip: "visible (concat (map strip xs)) = visible (concat xs)"
  by (induction xs) simp_all

lemma visible_not_blank: "visible (concat (not_blank cs)) = visible (concat cs)"
proof (induction cs)
  case (Cons c cs)
  have "strip c = [] \<Longrightarrow> visible c = []" by (metis visible_Nil visible_strip)
  with Cons show ?case by (auto simp: not_blank_def)
qed (simp add: not_blank_def)

text \<open>Matches of a pattern lie one after the other in the text.\<close>

definition inside :: "(string \<Rightarrow> nat option) \<Rightarrow> bool" where
  "inside p \<longleftrightarrow> (\<forall>t n. p t = Some n \<longrightarrow> 0 < n \<and> n \<le> length t)"

lemma find_lines_sorted:
  "inside p \<Longrightarrow> sorted (map fst (find_lines p pos bol s)) \<and>
    list_all (\<lambda>(a, l). pos \<le> a \<and> a \<le> pos + length s) (find_lines p pos bol s)"
proof (induction p pos bol s rule: find_lines.induct)
  case (2 p pos bol c s)
  show ?case
  proof (cases "if bol then p (c # s) else None")
    case None
    then show ?thesis using 2(1) [OF None 2(3)] by (auto simp: list_all_iff)
  next
    case (Some n)
    then have "p (c # s) = Some n" by (simp split: if_splits)
    then have "0 < n \<and> n \<le> length (c # s)" using 2(3) unfolding inside_def by blast
    then have n: "0 < n" "n \<le> Suc (length s)" by simp_all
    have IH: "sorted (map fst (find_lines p (pos + n) ((c # s) ! (n - 1) = newline) (drop (n - 1) s)))"
      "list_all (\<lambda>(a, l). pos + n \<le> a \<and> a \<le> pos + n + length (drop (n - 1) s))
         (find_lines p (pos + n) ((c # s) ! (n - 1) = newline) (drop (n - 1) s))"
      using 2(2) [OF Some 2(3)] by simp_all
    have "find_lines p pos bol (c # s) =
        (pos, n) # find_lines p (pos + n) ((c # s) ! (n - 1) = newline) (drop (n - 1) s)"
      using Some by simp
    then show ?thesis using IH n by (fastforce simp: list_all_iff)
  qed
qed simp

lemma inside_heading: "inside heading_at"
proof -
  {
    fix t n assume h: "heading_at t = Some n"
    define k where "k = length (takeWhile (\<lambda>c. c = CHR ''#'') t)"
    define r where "r = drop k t"
    define ws where "ws = takeWhile is_space r"
    define rest where "rest = dropWhile is_space r"
    have "k \<le> length t" unfolding k_def by (rule length_takeWhile_le)
    then have len: "length t = k + length r" by (simp add: r_def)
    have "r = ws @ rest" by (simp add: ws_def rest_def)
    then have lr: "length r = length ws + length rest" by (metis length_append)
    have hd: "heading_at t = (if k = 0 \<or> 6 < k \<or> ws = [] then None
         else if rest \<noteq> [] then Some (k + length ws + length (takeWhile (\<lambda>c. c \<noteq> newline) rest))
         else case filter (\<lambda>i. ws ! i \<noteq> newline) [1..<length ws] of [] \<Rightarrow> None | ks \<Rightarrow> Some (k + last ks + 1))"
      unfolding heading_at_def Let_def k_def [symmetric] r_def [symmetric] ws_def [symmetric] rest_def [symmetric] ..
    have "0 < n \<and> n \<le> length t"
    proof (cases "rest = []")
      case False
      then have "0 < k" "n = k + length ws + length (takeWhile (\<lambda>c. c \<noteq> newline) rest)"
        using h hd by (auto split: if_splits)
      then show ?thesis using length_takeWhile_le [of "\<lambda>c. c \<noteq> newline" rest] len lr by linarith
    next
      case True
      define ks where "ks = filter (\<lambda>i. ws ! i \<noteq> newline) [1..<length ws]"
      have ks: "ks \<noteq> []" "n = k + last ks + 1" using h hd True by (auto simp: ks_def split: if_splits list.splits)
      have "last ks \<in> set ks" using ks(1) by (rule last_in_set)
      then have "last ks < length ws" by (auto simp: ks_def)
      then show ?thesis using ks(2) len lr by linarith
    qed
  }
  then show ?thesis unfolding inside_def by blast
qed

lemma inside_symbol: "inside symbol_at"
  by (auto simp: inside_def symbol_at_def startswith_iff split: if_splits)

lemma span_append: "a \<le> b \<Longrightarrow> text_span text a b @ drop b text = drop a text"
  unfolding text_span_def by (metis add_diff_inverse_nat append_take_drop_id drop_drop add.commute linorder_not_less)

lemma sections_concat:
  "ms \<noteq> [] \<Longrightarrow> sorted (map fst ms) \<Longrightarrow> list_all (\<lambda>(a, l). a \<le> length text) ms \<Longrightarrow>
   concat (map (\<lambda>(a, l, b). text_span text a b) (sections (length text) ms)) = drop (fst (hd ms)) text"
proof (induction ms)
  case (Cons m ms)
  obtain a l where m: "m = (a, l)" by (cases m)
  show ?case
  proof (cases ms)
    case Nil
    then show ?thesis by (simp add: m text_span_def)
  next
    case (Cons m' ms')
    obtain b l' where m': "m' = (b, l')" by (cases m')
    have "a \<le> b" using Cons.prems(2) Cons by (simp add: m m')
    moreover have "concat (map (\<lambda>(a, l, b). text_span text a b) (sections (length text) ms)) = drop b text"
      using Cons.IH Cons.prems Cons by (simp add: m')
    ultimately show ?thesis using span_append [of a b "text"] Cons by (simp add: m m')
  qed
qed simp

lemma length_text_span: "length (text_span text a b) \<le> length text"
  by (simp add: text_span_def)

lemma section_chunks_short:
  "int (length text) \<le> MAX_CHUNK_CHARS \<Longrightarrow>
   section_chunks text m = Some [strip ((\<lambda>(a, l, b). text_span text a b) m)]"
proof (cases m)
  case (fields a l b)
  assume "int (length text) \<le> MAX_CHUNK_CHARS"
  moreover have "length (strip (text_span text a b)) \<le> length text"
    using length_strip [of "text_span text a b"] length_text_span [of "text" a b] by linarith
  ultimately show ?thesis by (simp add: section_chunks_def Let_def fields)
qed

lemma concat_some_singles: "concat_some (map (\<lambda>m. Some [f m]) ms) = Some (map f ms)"
  by (induction ms) auto

lemma by_size_short: "int (length text) \<le> MAX_CHUNK_CHARS \<Longrightarrow>
    \<exists>cs. chunk_by_size text MAX_CHUNK_CHARS ov = Some cs \<and> visible (concat cs) = visible text"
proof (cases "strip text = []")
  case True
  then have "visible text = []" by (metis visible_Nil visible_strip)
  then show ?thesis using True by (simp add: chunk_by_size_def)
qed (simp add: chunk_by_size_def)

lemma structured_visible:
  assumes short: "int (length text) \<le> MAX_CHUNK_CHARS" and ms: "sorted (map fst ((a, l) # ms))"
    "list_all (\<lambda>(a, l). a \<le> length text) ((a, l) # ms)"
    and pre: "concat_some [pre] = Some cs0" "visible (concat cs0) = visible (text_span text 0 a)"
  shows "\<exists>cs. map_option not_blank (concat_some (pre # map (section_chunks text)
      (sections (length text) ((a, l) # ms)))) = Some cs \<and> visible (concat cs) = visible text"
proof -
  let ?ss = "sections (length text) ((a, l) # ms)" and ?f = "\<lambda>(a, l, b). text_span text a b"
  have "map (section_chunks text) ?ss = map (\<lambda>m. Some [strip (?f m)]) ?ss"
    using section_chunks_short [OF short] by (intro map_cong refl) auto
  then have "concat_some (map (section_chunks text) ?ss) = Some (map (\<lambda>m. strip (?f m)) ?ss)"
    using concat_some_singles by metis
  moreover have "pre = Some cs0" using pre(1) by (cases pre) auto
  ultimately have "map_option not_blank (concat_some (pre # map (section_chunks text) ?ss)) =
      Some (not_blank (cs0 @ map strip (map ?f ?ss)))"
    by (simp add: comp_def del: sections.simps)
  moreover have "visible (concat (not_blank (cs0 @ map strip (map ?f ?ss)))) =
      visible (text_span text 0 a) @ visible (concat (map ?f ?ss))"
    by (simp only: visible_not_blank concat_append visible_append visible_concat_strip pre(2))
  moreover have "concat (map ?f ?ss) = drop a text"
    using sections_concat [OF _ ms] by simp
  moreover have "text_span text 0 a @ drop a text = text" using span_append [of 0 a "text"] by simp
  ultimately show ?thesis by (metis visible_append)
qed

lemma structure_facts:
  assumes "inside p" and "find_lines p 0 True text = (a, l) # ms"
  shows "sorted (map fst ((a, l) # ms))" and "list_all (\<lambda>(a, l). a \<le> length text) ((a, l) # ms)"
  using find_lines_sorted [OF assms(1), of 0 True "text"] assms(2) by (auto simp: list_all_iff)

lemma visible_blank: "strip t = [] \<Longrightarrow> visible t = []"
  by (metis visible_Nil visible_strip)

lemma chunks_visible:
  assumes "int (length text) \<le> MAX_CHUNK_CHARS"
  shows "\<exists>cs. chunk_markdown text = Some cs \<and> visible (concat cs) = visible text"
    and "\<exists>cs. chunk_code text = Some cs \<and> visible (concat cs) = visible text"
proof -
  let ?pre = "\<lambda>a. strip (text_span text 0 a)"
  show "\<exists>cs. chunk_markdown text = Some cs \<and> visible (concat cs) = visible text"
  proof (cases "find_lines heading_at 0 True text")
    case Nil
    then show ?thesis using by_size_short [OF assms] by (simp add: chunk_markdown_def)
  next
    case (Cons m ms)
    obtain a l where m: "m = (a, l)" by (cases m)
    have len: "int (length (?pre a)) \<le> MAX_CHUNK_CHARS"
      using assms length_strip [of "text_span text 0 a"] length_text_span [of "text" 0 a] by linarith
    obtain cs0 where cs0: "chunk_by_size (?pre a) MAX_CHUNK_CHARS OVERLAP_CHARS = Some cs0"
      "visible (concat cs0) = visible (?pre a)" using by_size_short [OF len] by blast
    have "\<exists>cs0. concat_some [if 0 < a \<and> ?pre a \<noteq> [] then chunk_by_size (?pre a) MAX_CHUNK_CHARS OVERLAP_CHARS
        else Some []] = Some cs0 \<and> visible (concat cs0) = visible (text_span text 0 a)"
      using cs0 visible_blank [of "text_span text 0 a"] by (cases "0 < a \<and> ?pre a \<noteq> []") (auto simp: text_span_def)
    then obtain cs1 where "concat_some [if 0 < a \<and> ?pre a \<noteq> [] then chunk_by_size (?pre a) MAX_CHUNK_CHARS OVERLAP_CHARS
        else Some []] = Some cs1" "visible (concat cs1) = visible (text_span text 0 a)" by blast
    from structured_visible [OF assms structure_facts [OF inside_heading Cons [unfolded m]] this]
    show ?thesis unfolding chunk_markdown_def Cons m by (simp only: list.case prod.case Let_def)
  qed
  show "\<exists>cs. chunk_code text = Some cs \<and> visible (concat cs) = visible text"
  proof (cases "find_lines symbol_at 0 True text")
    case Nil
    then show ?thesis using by_size_short [OF assms] by (simp add: chunk_code_def)
  next
    case (Cons m ms)
    obtain a l where m: "m = (a, l)" by (cases m)
    let ?p = "if 0 < a \<and> ?pre a \<noteq> [] then [?pre a] else []"
    have "concat_some [Some ?p] = Some ?p" by simp
    moreover have "visible (concat ?p) = visible (text_span text 0 a)"
      using visible_blank [of "text_span text 0 a"] by (cases "0 < a \<and> ?pre a \<noteq> []") (auto simp: text_span_def)
    ultimately show ?thesis
      using structured_visible [OF assms structure_facts [OF inside_symbol Cons [unfolded m]]]
      unfolding chunk_code_def Cons m by (simp only: list.case prod.case Let_def)
  qed
qed

lemma visible_join: "visible (join [newline] ls) = visible (concat ls)"
proof -
  have "visible [newline] = []" by (simp add: visible_def is_space_def newline_def)
  then have "visible (newline # s) = visible s" for s by (metis append_Cons append_Nil visible_append)
  then show ?thesis by (induction ls rule: induct_list012) simp_all
qed

lemma visible_splitlines: "visible (concat (splitlines s)) = visible s"
proof (induction s rule: splitlines.induct)
  case (2 c s)
  have end_space: "is_line_end d \<Longrightarrow> is_space d" for d by (auto simp: is_line_end_def is_space_def Let_def)
  have nl: "is_space newline" by (simp add: is_space_def newline_def)
  show ?case
  proof (cases "is_line_end c")
    case True
    with 2 end_space [OF True] nl show ?thesis by (auto simp: visible_def split: list.split)
  next
    case False
    with 2(4) show ?thesis by (cases "splitlines s") (simp_all add: visible_def)
  qed
qed simp

lemma visible_rstrip [simp]: "visible (rstrip s) = visible s"
proof -
  have "s = rstrip s @ rev (takeWhile is_space (rev s))"
    unfolding rstrip_def by (metis rev_append rev_rev_ident takeWhile_dropWhile_id)
  moreover have "visible (rev (takeWhile is_space (rev s))) = []"
    by (rule visible_space) (auto simp: list_all_iff dest: set_takeWhileD)
  ultimately show ?thesis by (metis append_Nil2 visible_append)
qed

lemma visible_map_rstrip: "visible (concat (map rstrip ls)) = visible (concat ls)"
  by (induction ls) simp_all

lemma visible_collapse: "visible (collapse_blank_lines s) = visible s"
proof -
  have blank: "list_all (\<lambda>l. l = []) ls \<Longrightarrow> concat ls = []" for ls :: "string list" by (induction ls) auto
  have front: "concat (dropWhile (\<lambda>l. l = []) ls) = concat ls" for ls :: "string list" by (induction ls) auto
  have rear: "concat (rev (dropWhile (\<lambda>l. l = []) (rev ls))) = concat ls" for ls :: "string list"
    by (induction ls rule: rev_induct) auto
  have limit: "concat (limit_blanks k ls) = concat ls" for k ls by (induction k ls rule: limit_blanks.induct) auto
  have "visible (concat (split_char newline s)) = visible s"
    by (metis split_char_join visible_join)
  then show ?thesis
    by (simp only: collapse_blank_lines_def Let_def visible_join front limit rear visible_map_rstrip)
qed

lemma visible_normalize: "visible (normalize_content text) = visible text"
proof -
  have "map (\<lambda>l. replace_cr (replace_crlf (rstrip l))) (splitlines text) = map rstrip (splitlines text)"
    using one_line_splitlines [of "text"] by (intro map_cong refl) (auto simp: list_all_iff one_line_rstrip no_cr)
  then show ?thesis
    by (simp only: normalize_content_def visible_collapse visible_join visible_map_rstrip visible_splitlines)
qed

text \<open>Chunking loses nothing but white space. The chunks of a document of at most 4096 characters,
  put together in order, have the same visible characters as the document, whatever its headings or
  symbols are and however its lines end.\<close>

theorem chunk_text_lossless:
  assumes "length content \<le> 4096"
  shows "\<exists>cs. chunk_text content source_type source_id meta = Some cs
     \<and> visible (concat (map ck_content cs)) = visible content"
proof -
  have "int (length content) \<le> MAX_CHUNK_CHARS" using assms by (simp add: MAX_CHUNK_CHARS_def)
  from chunks_visible [OF this] obtain raw where raw:
    "(if source_type = ''code'' then chunk_code content else chunk_markdown content) = Some raw"
    "visible (concat raw) = visible content" by (cases "source_type = ''code''") auto
  have "map (ck_content \<circ> make_chunk source_id meta) (enumerate k raw) = map normalize_content raw" for k
    by (induction raw arbitrary: k) (auto simp: make_chunk_def Let_def)
  moreover have "visible (concat (map normalize_content xs)) = visible (concat xs)" for xs
    by (induction xs) (simp_all add: visible_normalize)
  ultimately show ?thesis using raw by (simp add: chunk_text_def)
qed

theorem chunk_text_lossless_witness:
  "\<exists>cs. chunk_text ''# a b'' ''documentation'' ''s'' [] = Some cs \<and> visible (concat (map ck_content cs)) = ''#ab''"
proof -
  have "visible ''# a b'' = ''#ab''" by code_simp
  then show ?thesis using chunk_text_lossless [of "''# a b''" "''documentation''" "''s''" "[]"] by simp
qed

end
