(* ===== verification/KnowledgeProps.thy ===== *)
theory KnowledgeProps
  imports RetrievalProps ChunkingProps
begin

text \<open>
  What the knowledge store promises about indexing: a document is stored as its chunks, indexing it
  again changes nothing, other sources keep theirs; and the composition of store, retriever and
  selector.
\<close>

section \<open>Rows of a table\<close>

lemma rows_where_delete: "rows_where P (delete_rows (\<lambda>_ x. Q x) t) = rows_where (\<lambda>x. P x \<and> \<not> Q x) t"
  by (simp add: rows_where_def select_rows_def delete_rows_def filter_filter case_prod_unfold conj_commute)

lemma rows_where_insert: "rows_where P (snd (insert_row r t)) = rows_where P t @ (if P r then [r] else [])"
  by (simp add: rows_where_def select_rows_def insert_row_def)

lemma rows_where_replace:
  "rows_where P (replace_row same r t) = rows_where (\<lambda>x. P x \<and> \<not> same x) t @ (if P r then [r] else [])"
  by (simp add: replace_row_def rows_where_insert rows_where_delete)

lemma rows_where_update:
  "(\<And>r. P (f r) = P r) \<Longrightarrow> rows_where P (update_where Q f t) = map (\<lambda>r. if Q r then f r else r) (rows_where P t)"
proof -
  assume P: "\<And>r. P (f r) = P r"
  have "map snd (filter (\<lambda>(i, r). P r) (map (\<lambda>(i, r). (i, if Q r then f r else r)) xs)) =
      map (\<lambda>r. if Q r then f r else r) (map snd (filter (\<lambda>(i, r). P r) xs))" for xs :: "(int \<times> 'a) list"
    by (induction xs) (auto simp: P)
  then show ?thesis by (simp add: rows_where_def select_rows_def update_where_def)
qed

lemma rows_where_filter: "rows_where (\<lambda>x. P x \<and> Q x) t = filter Q (rows_where P t)"
  by (simp add: rows_where_def select_rows_def filter_map filter_filter comp_def case_prod_unfold)

section \<open>Storing the chunks\<close>

definition put_chunks :: "knowledge_env \<Rightarrow> string \<Rightarrow> string \<Rightarrow> chunk_dict list \<Rightarrow> chunk_row table \<Rightarrow> chunk_row table" where
  "put_chunks E sid did cs T = foldl (\<lambda>T c. replace_row (\<lambda>r. cu_chunk r = ck_id c \<and> cu_project r = kv_project E)
     (chunk_to_row E sid did c) T) T cs"

lemma put_chunks_rows:
  "distinct (map ck_id cs) \<Longrightarrow> rows_where P (put_chunks E sid did cs T) =
     rows_where (\<lambda>x. P x \<and> \<not> (cu_project x = kv_project E \<and> cu_chunk x \<in> ck_id ` set cs)) T
     @ filter P (map (chunk_to_row E sid did) cs)"
proof (induction cs arbitrary: T)
  case Nil
  show ?case by (simp add: put_chunks_def)
next
  case (Cons c cs)
  let ?T = "replace_row (\<lambda>r. cu_chunk r = ck_id c \<and> cu_project r = kv_project E) (chunk_to_row E sid did c) T"
  let ?row = "chunk_to_row E sid did c"
  let ?R = "\<lambda>x. P x \<and> \<not> (cu_project x = kv_project E \<and> cu_chunk x \<in> ck_id ` set cs)"
  have "rows_where P (put_chunks E sid did cs ?T) = rows_where ?R ?T @ filter P (map (chunk_to_row E sid did) cs)"
    by (rule Cons.IH) (use Cons.prems in simp)
  moreover have "?R ?row = P ?row" using Cons.prems by (auto simp: chunk_to_row_def)
  moreover have "(\<lambda>x. ?R x \<and> \<not> (cu_chunk x = ck_id c \<and> cu_project x = kv_project E)) =
      (\<lambda>x. P x \<and> \<not> (cu_project x = kv_project E \<and> cu_chunk x \<in> ck_id ` set (c # cs)))" by auto
  moreover have "put_chunks E sid did (c # cs) T = put_chunks E sid did cs ?T" by (simp add: put_chunks_def)
  ultimately show ?case by (simp only: rows_where_replace list.map filter.simps) simp
qed

lemma insert_chunks_run:
  "kw_open s \<Longrightarrow> \<exists>ix. insert_chunks E sid did cs s =
     (Inr (), s\<lparr>kw_chunks := put_chunks E sid did cs (kw_chunks s), kw_index := ix\<rparr>)"
proof (induction cs arbitrary: s)
  case Nil
  then show ?case by (intro exI [of _ "kw_index s"]) (simp add: py_run put_chunks_def)
next
  case (Cons c cs)
  let ?t = "snd (insert_chunk E sid did c s)"
  define ix where "ix = kw_index (snd (insert_chunk E sid did c s))"
  have t: "insert_chunk E sid did c s = (Inr (), s\<lparr>kw_chunks :=
      replace_row (\<lambda>r. cu_chunk r = ck_id c \<and> cu_project r = kv_project E) (chunk_to_row E sid did c) (kw_chunks s),
      kw_index := ix\<rparr>)"
    unfolding ix_def using Cons.prems by (cases "kw_fts s") (simp_all add: insert_chunk_def sql_exec_def py_run)
  have "kw_open ?t" using Cons.prems by (simp add: t)
  from Cons.IH [OF this] obtain ix' where "insert_chunks E sid did cs ?t =
      (Inr (), ?t\<lparr>kw_chunks := put_chunks E sid did cs (kw_chunks ?t), kw_index := ix'\<rparr>)" by blast
  then show ?case by (auto simp: t py_run put_chunks_def)
qed

section \<open>Indexing a document\<close>

lemma chunk_text_positions: "chunk_text a b c m = Some cs \<Longrightarrow> map ck_position cs = [0..<length cs]"
  using chunk_text_facts [of a b c m] by auto

lemma document_chunks_facts: "map ck_position (document_chunks d) = [0..<length (document_chunks d)]"
  unfolding document_chunks_def by (auto split: option.split dest: chunk_text_positions)

text \<open>What the document's own rows look like.\<close>

definition indexed_as :: "knowledge_env \<Rightarrow> knowledge_document \<Rightarrow> knowledge_state \<Rightarrow> bool" where
  "indexed_as E d t \<longleftrightarrow>
     (\<exists>r. document_rows E (document_id d) t = [r] \<and> dc_hash r = content_hash (kd_content d)) \<and>
     source_rows E (deterministic_source_id (kd_type d) (kd_path d)) t \<noteq> []"

lemma ensure_source_run:
  assumes "kw_open s"
  shows "\<exists>T. ensure_source E sid ty path v s = (Inr (), s\<lparr>kw_sources := T\<rparr>) \<and>
    source_rows E sid (s\<lparr>kw_sources := T\<rparr>) \<noteq> [] \<and> (source_rows E sid s \<noteq> [] \<longrightarrow> T = kw_sources s)"
proof (cases "source_rows E sid s = []")
  case True
  let ?r = "\<lparr>so_source = sid, so_type = ty, so_path = path, so_hash = [], so_version = v, so_metadata = [],
    so_indexed = [], so_status = ''active'', so_project = kv_project E\<rparr>"
  show ?thesis
    by (intro exI [of _ "snd (insert_row ?r (kw_sources s))"])
       (use True in \<open>simp add: ensure_source_def sql_rows_def sql_exec_def py_run assms source_rows_def rows_where_insert\<close>)
next
  case False
  then show ?thesis by (intro exI [of _ "kw_sources s"]) (simp add: ensure_source_def sql_rows_def py_run assms)
qed

lemma store_document_run:
  assumes "kw_open s" and "source_rows E (deterministic_source_id (kd_type d) (kd_path d)) s \<noteq> []"
  shows "\<exists>t. store_document E d action n s =
      (Inr \<lparr>ia_action = action, ia_created = length (document_chunks d), ia_deleted = n,
        ia_source = deterministic_source_id (kd_type d) (kd_path d)\<rparr>, t)
    \<and> kw_open t \<and> indexed_as E d t
    \<and> kw_chunks t = put_chunks E (deterministic_source_id (kd_type d) (kd_path d)) (document_id d)
        (document_chunks d) (kw_chunks s)
    \<and> kw_embeddings t = kw_embeddings s"
proof -
  let ?sid = "deterministic_source_id (kd_type d) (kd_path d)" and ?did = "document_id d"
  obtain ix where run: "insert_chunks E ?sid ?did (document_chunks d) s =
      (Inr (), s\<lparr>kw_chunks := put_chunks E ?sid ?did (document_chunks d) (kw_chunks s), kw_index := ix\<rparr>)"
    using insert_chunks_run [OF assms(1)] by blast
  show ?thesis
    using assms
    by (simp add: store_document_def Let_def run knowledge_now_def sql_exec_def py_run indexed_as_def
        document_rows_def source_rows_def rows_where_replace rows_where_update)
       (auto simp: rows_where_def select_rows_def filter_empty_conv)
qed

lemma delete_chunks_run:
  assumes "kw_open s"
  shows "\<exists>ix. delete_chunks_for_source E sid s = (Inr (), s\<lparr>kw_index := ix,
    kw_embeddings := delete_rows (\<lambda>_ r. eb_chunk r \<in> set (map cu_chunk (chunk_rows_of E sid s))) (kw_embeddings s),
    kw_chunks := delete_rows (\<lambda>_ r. cu_source r = sid \<and> cu_project r = kv_project E) (kw_chunks s)\<rparr>)"
  by (intro exI [of _ "if kw_fts s then filter (\<lambda>r. ft_source r \<noteq> sid) (kw_index s) else kw_index s"])
     (use assms in \<open>simp add: delete_chunks_for_source_def delete_embeddings_for_source_def sql_exec_def py_run
        chunk_rows_of_def\<close>)

text \<open>Chunks put in a table that has none of the source, their identifiers free elsewhere.\<close>

definition own :: "knowledge_env \<Rightarrow> string \<Rightarrow> chunk_row \<Rightarrow> bool" where
  "own E sid r \<longleftrightarrow> cu_source r = sid \<and> cu_project r = kv_project E"

definition foreign :: "knowledge_env \<Rightarrow> string \<Rightarrow> knowledge_state \<Rightarrow> chunk_row list" where
  "foreign E sid s = rows_where (\<lambda>r. \<not> own E sid r) (kw_chunks s)"

lemma put_chunks_own:
  assumes "rows_where (own E sid) T = []" and "distinct (map ck_id cs)"
  shows "rows_where (own E sid) (put_chunks E sid did cs T) = map (chunk_to_row E sid did) cs"
  using assms by (simp add: put_chunks_rows rows_where_filter) (simp add: filter_id_conv own_def chunk_to_row_def)

lemma put_chunks_foreign:
  assumes "list_all (\<lambda>r. cu_project r = kv_project E \<longrightarrow> cu_chunk r \<notin> ck_id ` set cs)
      (rows_where (\<lambda>r. \<not> own E sid r) T)" and "distinct (map ck_id cs)"
  shows "rows_where (\<lambda>r. \<not> own E sid r) (put_chunks E sid did cs T) = rows_where (\<lambda>r. \<not> own E sid r) T"
proof -
  have "rows_where (\<lambda>x. \<not> own E sid x \<and> \<not> (cu_project x = kv_project E \<and> cu_chunk x \<in> ck_id ` set cs)) T =
      filter (\<lambda>x. \<not> (cu_project x = kv_project E \<and> cu_chunk x \<in> ck_id ` set cs)) (rows_where (\<lambda>x. \<not> own E sid x) T)"
    by (rule rows_where_filter)
  also have "\<dots> = rows_where (\<lambda>x. \<not> own E sid x) T"
    using assms(1) by (auto simp: filter_id_conv list_all_iff)
  finally show ?thesis
    by (simp only: put_chunks_rows [OF assms(2)]) (simp add: own_def chunk_to_row_def filter_map comp_def)
qed

lemma sorted_positions:
  "map f xs = [0..<length xs] \<Longrightarrow> sort_key f xs = (xs :: 'a list)" for f :: "'a \<Rightarrow> nat"
  by (rule sort_key_id_if_sorted) simp

lemma chunk_to_row_position: "map cu_position (map (chunk_to_row E sid did) cs) = map ck_position cs"
  by (simp add: chunk_to_row_def comp_def)

lemma indexed_again:
  assumes "kw_open t" and "indexed_as E d t" and "kd_type d \<in> set VALID_SOURCE_TYPES"
  shows "\<exists>a. index_document E d t = (Inr a, t) \<and> ia_action a = ''skipped''"
proof -
  let ?sid = "deterministic_source_id (kd_type d) (kd_path d)"
  have src: "ensure_source E ?sid (kd_type d) (kd_path d) (kd_version d) t = (Inr (), t)"
    using assms(2) by (simp add: indexed_as_def ensure_source_def sql_rows_def py_run assms(1))
  obtain r where r: "document_rows E (document_id d) t = [r]" "dc_hash r = content_hash (kd_content d)"
    using assms(2) by (auto simp: indexed_as_def)
  show ?thesis by (simp add: index_document_def Let_def assms(1,3) src py_run sql_rows_def r)
qed

section \<open>What indexing a document comes to\<close>

definition doc_source :: "knowledge_document \<Rightarrow> string" where
  "doc_source d = deterministic_source_id (kd_type d) (kd_path d)"

text \<open>The identifiers of the chunks differ and no other source of the project has one of them; a source
  has chunks only when its document is there.\<close>

definition indexable :: "knowledge_env \<Rightarrow> knowledge_document \<Rightarrow> knowledge_state \<Rightarrow> bool" where
  "indexable E d s \<longleftrightarrow> kw_open s \<and> kd_type d \<in> set VALID_SOURCE_TYPES \<and> distinct (map ck_id (document_chunks d)) \<and>
     list_all (\<lambda>r. cu_project r = kv_project E \<longrightarrow> cu_chunk r \<notin> ck_id ` set (document_chunks d))
       (foreign E (doc_source d) s) \<and>
     (document_rows E (document_id d) s = [] \<longrightarrow> chunk_rows_of E (doc_source d) s = [])"

lemma chunk_rows_own: "chunk_rows_of E sid s = rows_where (own E sid) (kw_chunks s)"
  by (simp add: chunk_rows_of_def own_def [abs_def])

definition stored :: "knowledge_env \<Rightarrow> knowledge_document \<Rightarrow> knowledge_state \<Rightarrow> knowledge_state \<Rightarrow> bool" where
  "stored E d s t \<longleftrightarrow> kw_open t \<and> indexed_as E d t \<and>
     chunk_rows_of E (doc_source d) t = map (chunk_to_row E (doc_source d) (document_id d)) (document_chunks d) \<and>
     foreign E (doc_source d) t = foreign E (doc_source d) s"

lemma store_document_stored:
  assumes "kw_open s" and "source_rows E (doc_source d) s \<noteq> []" and "distinct (map ck_id (document_chunks d))"
    and "list_all (\<lambda>r. cu_project r = kv_project E \<longrightarrow> cu_chunk r \<notin> ck_id ` set (document_chunks d))
       (foreign E (doc_source d) s)"
    and "chunk_rows_of E (doc_source d) s = []"
  shows "\<exists>a t. store_document E d action n s = (Inr a, t) \<and> ia_action a = action \<and> stored E d s t
    \<and> kw_embeddings t = kw_embeddings s"
proof -
  obtain a t where run: "store_document E d action n s = (Inr a, t)" "ia_action a = action" "kw_open t" "indexed_as E d t"
      "kw_chunks t = put_chunks E (doc_source d) (document_id d) (document_chunks d) (kw_chunks s)"
      "kw_embeddings t = kw_embeddings s"
    using store_document_run [OF assms(1), of E d action n] assms(2) by (auto simp: doc_source_def)
  have "stored E d s t"
    using run(3,4) put_chunks_own [of E "doc_source d" "kw_chunks s" "document_chunks d" "document_id d"]
      put_chunks_foreign [of E "document_chunks d" "doc_source d" "kw_chunks s" "document_id d"] assms(3-5)
    by (simp add: stored_def chunk_rows_own foreign_def run(5))
  then show ?thesis using run by blast
qed

lemma index_document_run:
  assumes "indexable E d s"
  shows "\<exists>a t. index_document E d s = (Inr a, t)
    \<and> (ia_action a = ''skipped'' \<longleftrightarrow> (\<exists>r rs. document_rows E (document_id d) s = r # rs \<and> dc_hash r = content_hash (kd_content d)))
    \<and> (if ia_action a = ''skipped''
       then kw_chunks t = kw_chunks s \<and> kw_embeddings t = kw_embeddings s
       else stored E d s t
         \<and> list_all (\<lambda>r. eb_chunk r \<notin> cu_chunk ` set (chunk_rows_of E (doc_source d) s))
             (rows_where (\<lambda>_. True) (kw_embeddings t)))"
proof -
  let ?sid = "doc_source d"
  note idx = assms [unfolded indexable_def]
  obtain T where src: "ensure_source E ?sid (kd_type d) (kd_path d) (kd_version d) s = (Inr (), s\<lparr>kw_sources := T\<rparr>)"
      and has: "source_rows E ?sid (s\<lparr>kw_sources := T\<rparr>) \<noteq> []"
    using ensure_source_run [of s E ?sid "kd_type d" "kd_path d" "kd_version d"] idx by blast
  let ?s = "s\<lparr>kw_sources := T\<rparr>"
  have open_s: "kw_open ?s" and ty: "kd_type d \<in> set VALID_SOURCE_TYPES" using idx by simp_all
  have docs: "document_rows E (document_id d) ?s = document_rows E (document_id d) s" by (simp add: document_rows_def)
  have forn: "foreign E ?sid ?s = foreign E ?sid s" by (simp add: foreign_def)
  show ?thesis
  proof (cases "document_rows E (document_id d) s")
    case Nil
    have "chunk_rows_of E ?sid ?s = []" using idx Nil by (simp add: chunk_rows_own)
    then obtain a t where "store_document E d ''indexed'' 0 ?s = (Inr a, t)" "ia_action a = ''indexed''" "stored E d ?s t"
      using store_document_stored [OF open_s has, of "''indexed''" 0] idx forn by auto
    then show ?thesis using Nil idx src docs
      by (simp add: index_document_def Let_def py_run sql_rows_def doc_source_def stored_def forn [unfolded doc_source_def] list.pred_True)
  next
    case (Cons old rest)
    show ?thesis
    proof (cases "dc_hash old = content_hash (kd_content d)")
      case True
      then show ?thesis using Cons idx src docs
        by (simp add: index_document_def Let_def py_run sql_rows_def doc_source_def)
    next
      case False
      obtain ix where del: "delete_chunks_for_source E ?sid ?s = (Inr (), ?s\<lparr>kw_index := ix,
          kw_embeddings := delete_rows (\<lambda>_ r. eb_chunk r \<in> set (map cu_chunk (chunk_rows_of E ?sid s))) (kw_embeddings s),
          kw_chunks := delete_rows (\<lambda>_ r. cu_source r = ?sid \<and> cu_project r = kv_project E) (kw_chunks s)\<rparr>)"
          (is "_ = (_, ?d)")
        using delete_chunks_run [OF open_s, of E ?sid] by (auto simp: chunk_rows_own)
      let ?e = "?d\<lparr>kw_documents := delete_rows (\<lambda>_ r. dc_document r = document_id d \<and> dc_project r = kv_project E)
          (kw_documents s)\<rparr>"
      have "kw_open ?e" and "source_rows E ?sid ?e \<noteq> []" using idx has by (simp_all add: source_rows_def)
      moreover have "chunk_rows_of E ?sid ?e = []"
        by (auto simp: chunk_rows_own rows_where_delete own_def rows_where_def select_rows_def filter_empty_conv delete_rows_def)
      moreover have fe: "foreign E ?sid ?e = foreign E ?sid s"
        by (simp add: foreign_def rows_where_delete own_def)
      ultimately obtain a t where st: "store_document E d ''reindexed'' (kv_changes E ?d) ?e = (Inr a, t)"
          "ia_action a = ''reindexed''" "stored E d ?e t" "kw_embeddings t = kw_embeddings ?e"
        using store_document_stored [of ?e E d "''reindexed''" "kv_changes E ?d"] idx by auto
      have "list_all (\<lambda>r. eb_chunk r \<notin> cu_chunk ` set (chunk_rows_of E ?sid s)) (rows_where (\<lambda>_. True) (kw_embeddings t))"
        by (simp add: st(4) rows_where_delete) (auto simp: list_all_iff rows_where_def select_rows_def)
      moreover have "stored E d s t" using st(3) fe by (simp add: stored_def)
      moreover have "index_document E d s = (Inr a, t)"
        using Cons False idx src docs del st(1)
        by (simp add: index_document_def Let_def py_run sql_rows_def sql_exec_def doc_source_def)
      ultimately show ?thesis using st(2) Cons False by simp
    qed
  qed
qed


lemma short_text_chunk:
  "length (document_chunks \<lparr>kd_document = i, kd_title = t, kd_path = p, kd_content = ''hi'',
     kd_type = ''documentation'', kd_version = v, kd_metadata = m\<rparr>) = 1"
proof -
  have "chunk_markdown ''hi'' = Some [''hi'']" by code_simp
  then show ?thesis by (simp add: document_chunks_def chunk_text_def)
qed

definition hi_document :: knowledge_document where
  "hi_document = \<lparr>kd_document = '''', kd_title = '''', kd_path = ''a.md'', kd_content = ''hi'',
     kd_type = ''documentation'', kd_version = '''', kd_metadata = []\<rparr>"

definition empty_knowledge :: knowledge_state where
  "empty_knowledge = \<lparr>kw_open = True, kw_fts = True, kw_sources = empty_table, kw_documents = empty_table,
     kw_chunks = empty_table, kw_embeddings = empty_table, kw_runs = [], kw_index = [], kw_tick = 0\<rparr>"

definition still_env :: knowledge_env where
  "still_env = \<lparr>kv_project = ''p'', kv_clock = (\<lambda>_. ''now''), kv_match = (\<lambda>_ _. None), kv_changes = (\<lambda>_. 0)\<rparr>"

lemma hi_chunks: "\<exists>c. document_chunks hi_document = [c]"
  using short_text_chunk by (simp add: hi_document_def length_Suc_conv)

lemma hi_indexable: "indexable still_env hi_document empty_knowledge"
  using hi_chunks
  by (auto simp: indexable_def empty_knowledge_def foreign_def chunk_rows_of_def rows_where_def select_rows_def
        empty_table_def) (simp add: hi_document_def VALID_SOURCE_TYPES_def)


section \<open>What retrieval finds\<close>

text \<open>A chunk of the project.\<close>

definition known_chunk :: "knowledge_env \<Rightarrow> knowledge_state \<Rightarrow> string \<Rightarrow> bool" where
  "known_chunk E s i \<longleftrightarrow> i \<in> cu_chunk ` set (rows_where (\<lambda>r. cu_project r = kv_project E) (kw_chunks s))"

definition finds :: "knowledge_env \<Rightarrow> scored_result list knowledge \<Rightarrow> bool" where
  "finds E m \<longleftrightarrow> (\<forall>s. \<exists>rs. m s = (Inr rs, s) \<and>
     (\<forall>x \<in> set rs. known_chunk E s (kr_chunk (sr_result x))))"

lemma set_rows_where: "x \<in> set (rows_where P t) \<longleftrightarrow> x \<in> set (rows_where (\<lambda>_. True) t) \<and> P x"
  by (auto simp: rows_where_def select_rows_def)

lemma set_sql_limit: "x \<in> set (sql_limit n xs) \<Longrightarrow> x \<in> set xs"
  by (auto simp: sql_limit_def dest: in_set_takeD split: if_splits)

lemma set_joined: "x \<in> set (joined E ty s r) \<Longrightarrow> x = r"
  by (auto simp: joined_def)

lemma kr_chunk_row: "kr_chunk (row_to_result E s r) = cu_chunk r"
  by (simp add: row_to_result_def Let_def)

lemma knowledge_search_finds:
  "\<exists>rs. knowledge_search E q s = (Inr rs, s) \<and> (\<forall>x \<in> set rs. known_chunk E s (kr_chunk x))"
proof -
  have like: "\<forall>x \<in> set (search_like E q s). known_chunk E s (kr_chunk x)"
    by (auto simp: search_like_def known_chunk_def kr_chunk_row set_rows_where [where P = "\<lambda>_. _ _ \<and> _"]
        dest!: set_sql_limit set_joined intro!: imageI) (auto simp: rows_where_def select_rows_def)
  have "\<forall>x \<in> set (search_fts E q s). known_chunk E s (kr_chunk x)"
    using like
    by (auto simp: search_fts_def known_chunk_def kr_chunk_row split: option.splits
        dest!: set_sql_limit set_joined intro!: imageI) (auto simp: rows_where_def select_rows_def)
  then show ?thesis using like by (auto simp: knowledge_search_def sql_rows_def py_run)
qed

lemma set_slice_to: "x \<in> set (slice_to k xs) \<Longrightarrow> x \<in> set xs"
  by (auto simp: slice_to_def dest: in_set_takeD)

lemma scored_result_of: "sr_result (scored r v) = r"
  by (simp add: scored_def)

lemma keyword_finds: "finds E (keyword_retrieve E q k ty)"
  unfolding finds_def
proof
  fix s
  let ?q = "\<lparr>kq_text = strip q, kq_limit = max k 20, kq_types = ty\<rparr>"
  obtain rs where "knowledge_search E ?q s = (Inr rs, s)" "\<forall>x \<in> set rs. known_chunk E s (kr_chunk x)"
    using knowledge_search_finds [of E ?q s] by blast
  then show "\<exists>xs. keyword_retrieve E q k ty s = (Inr xs, s) \<and> (\<forall>x \<in> set xs. known_chunk E s (kr_chunk (sr_result x)))"
    by (auto simp: keyword_retrieve_def Let_def py_run scored_result_of dest!: set_slice_to)
qed

lemma vector_finds: "finds E (vector_retrieve E vec sqr P q k ty)"
  unfolding finds_def
proof
  fix s
  let ?q = "\<lparr>kq_text = strip q, kq_limit = max k 20, kq_types = ty\<rparr>"
  obtain rs where "knowledge_search E ?q s = (Inr rs, s)" "\<forall>x \<in> set rs. known_chunk E s (kr_chunk x)"
    using knowledge_search_finds [of E ?q s] by blast
  then show "\<exists>xs. vector_retrieve E vec sqr P q k ty s = (Inr xs, s) \<and>
      (\<forall>x \<in> set xs. known_chunk E s (kr_chunk (sr_result x)))"
    by (auto simp: vector_retrieve_def get_embeddings_by_chunk_ids_def sql_rows_def Let_def py_run scored_result_of
        split: sum.splits list.splits option.splits dest!: set_slice_to)
qed

lemma select_finds:
  assumes "finds E (retrieve q k)" and "\<And>f. fallback = Some f \<Longrightarrow> finds E (f q k)"
  shows "\<exists>xs. selector_select retrieve fallback budgets clock q agent k s =
      (Inr (select_candidates xs (for_agent budgets agent) (fst clock) (snd clock)), s) \<and>
      (\<forall>x \<in> set xs. known_chunk E s (kr_chunk (sr_result x)))"
proof -
  obtain rs where rs: "retrieve q k s = (Inr rs, s)" "\<forall>x \<in> set rs. known_chunk E s (kr_chunk (sr_result x))"
    using assms(1) unfolding finds_def by blast
  show ?thesis
  proof (cases "fallback = None \<or> rs \<noteq> []")
    case True
    then show ?thesis using rs by (cases fallback) (auto simp: selector_select_def py_run)
  next
    case False
    then obtain f where f: "fallback = Some f" "rs = []" by auto
    then obtain xs where "f q k s = (Inr xs, s)" "\<forall>x \<in> set xs. known_chunk E s (kr_chunk (sr_result x))"
      using assms(2) unfolding finds_def by blast
    then show ?thesis using rs f by (auto simp: selector_select_def py_run)
  qed
qed

lemma knowledge_retrieve_run:
  "\<exists>xs. knowledge_retrieve (Some E) A q agent k v ov s =
      (Inr (select_candidates xs (for_agent (context_budget ov) agent) (fst (ra_clock A)) (snd (ra_clock A))), s) \<and>
      (\<forall>x \<in> set xs. known_chunk E s (kr_chunk (sr_result x)))"
  by (auto simp: knowledge_retrieve_def Let_def split: option.split intro!: select_finds keyword_finds vector_finds)

lemma select_candidates_length:
  assumes "0 \<le> limit"
  shows "length (sl_chunks (select_candidates xs limit t0 t1)) \<le> length xs"
proof -
  obtain ys u where g: "greedy_loop limit 0 (dedupe_sources (rank xs)) = (ys, u)"
    by (cases "greedy_loop limit 0 (dedupe_sources (rank xs))")
  have "subseq (map pick ys) (map pick (dedupe_sources (rank xs)))" using greedy_loop_bounds [OF g] assms by simp
  then have "length ys \<le> length (dedupe_sources (rank xs))" using list_emb_length by fastforce
  also have "\<dots> \<le> length xs"
    using list_emb_length [OF dedupe_by_subseq [of "\<lambda>x. kr_source (sr_result x)" "[]" "rank xs"]] by (simp add: dedupe_sources_def rank_facts(2))
  finally show ?thesis by (simp add: select_candidates_def greedy_select_def g Let_def)
qed

text \<open>C24: Whatever the retriever and its fallback, retrieval for an agent answers without touching the store: the
  chunks are stored chunks of the project, best score first and at most one per source, and their tokens are within
  what is reported, which is within the budget of the agent and within what was retrieved.\<close>

theorem retrieval_within_budget:
  assumes "0 \<le> for_agent (context_budget ov) agent"
  shows "\<exists>r. knowledge_retrieve (Some E) A q agent k v ov s = (Inr r, s)
    \<and> token_sum (sl_chunks r) \<le> sl_after r \<and> sl_after r \<le> for_agent (context_budget ov) agent
    \<and> sl_after r \<le> sl_before r \<and> sl_selected r = length (sl_chunks r) \<and> sl_selected r \<le> sl_retrieved r
    \<and> sorted_wrt (\<lambda>x y. sr_score y \<le> sr_score x) (sl_chunks r)
    \<and> distinct (map (\<lambda>x. kr_source (sr_result x)) (sl_chunks r))
    \<and> list_all (\<lambda>x. known_chunk E s (kr_chunk (sr_result x))) (sl_chunks r)
    \<and> (0 < sl_retrieved r \<longrightarrow> sl_chunks r \<noteq> [])"
proof -
  obtain xs where xs: "\<forall>x \<in> set xs. known_chunk E s (kr_chunk (sr_result x))"
    and run: "knowledge_retrieve (Some E) A q agent k v ov s =
      (Inr (select_candidates xs (for_agent (context_budget ov) agent) (fst (ra_clock A)) (snd (ra_clock A))), s)"
    using knowledge_retrieve_run by blast
  let ?r = "select_candidates xs (for_agent (context_budget ov) agent) (fst (ra_clock A)) (snd (ra_clock A))"
  note facts = select_candidates_facts [OF assms, of xs "fst (ra_clock A)" "snd (ra_clock A)"]
  have known: "list_all (\<lambda>x. known_chunk E s (kr_chunk (sr_result x))) (sl_chunks ?r)"
    unfolding list_all_iff using facts(6) xs by fastforce
  have counts: "sl_selected ?r = length (sl_chunks ?r)" "sl_retrieved ?r = length xs"
    by (simp_all add: select_candidates_def Let_def split: prod.split)
  have "sl_selected ?r \<le> sl_retrieved ?r" unfolding counts by (rule select_candidates_length [OF assms])
  moreover have "0 < sl_retrieved ?r \<longrightarrow> sl_chunks ?r \<noteq> []" using facts(7) by (auto simp: counts)
  ultimately show ?thesis by (intro exI [of _ ?r] conjI) (rule run facts(1-5) known counts(1) | assumption)+
qed

definition one_chunk :: knowledge_state where
  "one_chunk = empty_knowledge\<lparr>kw_fts := False, kw_chunks := snd (insert_row
     \<lparr>cu_chunk = ''c'', cu_source = ''s'', cu_document = ''d'', cu_content = ''the event bus'', cu_metadata = [],
      cu_hash = '''', cu_position = 0, cu_tokens = 3, cu_project = ''p''\<rparr> empty_table),
    kw_sources := snd (insert_row
     \<lparr>so_source = ''s'', so_type = ''documentation'', so_path = ''a.md'', so_hash = '''', so_version = '''',
      so_metadata = [], so_indexed = '''', so_status = ''active'', so_project = ''p''\<rparr> empty_table)\<rparr>"

definition no_vectors :: retrieve_args where
  "no_vectors = \<lparr>ra_vector = (\<lambda>_. None), ra_sqrt = id, ra_provider = None, ra_clock = (0, 0)\<rparr>"

theorem retrieval_within_budget_witness:
  "\<exists>r. knowledge_retrieve (Some still_env) no_vectors ''event'' ''planner'' 5 False [] one_chunk = (Inr r, one_chunk)
     \<and> sl_after r \<le> 3000 \<and> list_all (\<lambda>x. kr_chunk (sr_result x) = ''c'') (sl_chunks r)"
proof -
  have b: "for_agent (context_budget []) ''planner'' = 3000" by code_simp
  have c: "known_chunk still_env one_chunk i \<longleftrightarrow> i = ''c''" for i
    by (simp add: known_chunk_def one_chunk_def still_env_def rows_where_def select_rows_def insert_row_def empty_table_def)
  show ?thesis
    using retrieval_within_budget [of "[]" "''planner''" still_env no_vectors "''event''" 5 False one_chunk]
    by (auto simp: b c)
qed

end
