(* ===== verification/SkillsProps.thy ===== *)
theory SkillsProps
  imports Discovery KnowledgeProps
begin

text \<open>
  What the skills promise: metadata that is read is well formed, discovery ranks the registry
  deterministically, and retrieval stays within the budget of the agent.
\<close>

section \<open>Well-formed metadata\<close>

definition well_formed_skill :: "skill_metadata \<Rightarrow> bool" where
  "well_formed_skill m \<longleftrightarrow> is_slug (sk_name m) \<and> sk_description m \<noteq> [] \<and> sk_status m \<in> set VALID_STATUS \<and>
     0 \<le> sk_priority m \<and> sk_schema m = SKILL_SCHEMA_VERSION \<and>
     list_all (\<lambda>x. strip x \<noteq> []) (sk_triggers m @ sk_scope m @ sk_dependencies m)"

lemma first_blank_None: "first_blank i xs = None \<longleftrightarrow> list_all (\<lambda>x. strip x \<noteq> []) xs"
  by (induction i xs rule: first_blank.induct) auto

lemma last_rstrip: "rstrip s \<noteq> [] \<Longrightarrow> \<not> is_space (last (rstrip s))"
  unfolding rstrip_def by (metis last_rev hd_dropWhile rev_is_Nil_conv)

lemma newline_space: "is_space newline"
  by (simp add: is_space_def newline_def)

lemma bracket_not_newline: "CHR '']'' \<noteq> newline"
  by code_simp

text \<open>No scalar value ends in white space.\<close>

fun trimmed :: "fm_value \<Rightarrow> bool" where
  "trimmed (FStr s) = (s = [] \<or> \<not> is_space (last s))"
| "trimmed (FList xs) = True"

lemma trimmed_raw: "trimmed (FStr (raw_value s))"
  using last_rstrip by (auto simp: raw_value_def strip_quotes_def strip_def)

lemma set_dict_set: "x \<in> set (dict_set k v d) \<Longrightarrow> x = (k, v) \<or> x \<in> set d"
  unfolding dict_set_def by (induction d) (auto split: if_splits)

definition trimmed_dict :: "fm_dict \<Rightarrow> bool" where
  "trimmed_dict d \<longleftrightarrow> (\<forall>x \<in> set d. trimmed (snd x))"

lemma trimmed_set: "trimmed_dict d \<Longrightarrow> trimmed v \<Longrightarrow> trimmed_dict (dict_set k v d)"
  by (auto simp: trimmed_dict_def dest: set_dict_set)

lemma fm_line_trimmed: "trimmed_dict (fst st) \<Longrightarrow> trimmed_dict (fst (fm_line raw st))"
  by (cases st)
     (simp add: fm_line_def Let_def trimmed_set trimmed_raw del: trimmed.simps(1) split: option.split fm_value.split)

lemma parse_trimmed: "trimmed_dict (parse_frontmatter s)"
proof -
  have fold: "trimmed_dict (fst st) \<Longrightarrow> trimmed_dict (fst (fold fm_line ls st))" for ls st
    by (induction ls arbitrary: st) (simp_all add: fm_line_trimmed)
  have nil: "trimmed_dict []" by (simp add: trimmed_dict_def)
  have "trimmed_dict (fst (fold fm_line ls ([], None)))" for ls by (rule fold) (simp add: nil)
  then show ?thesis by (simp add: parse_frontmatter_def nil split: option.split)
qed

lemma trimmed_get: "trimmed_dict d \<Longrightarrow> trimmed v \<Longrightarrow> trimmed (dict_get d k v)"
  by (fastforce simp: trimmed_dict_def dict_get_def split: option.split dest: map_of_SomeD)

lemma skill_validate_error: "skill_validate m = Inl e \<Longrightarrow> exn_kind e = SkillMetadataError"
  by (auto simp: skill_validate_def skill_error_def split: if_splits option.splits)

lemma skill_validate_ok:
  "skill_validate m = Inr n \<Longrightarrow> n = m \<and> (last (sk_name m) \<noteq> newline \<longrightarrow> well_formed_skill m)"
  unfolding skill_validate_def skill_error_def
  by (simp split: if_split_asm option.split_asm)
     (auto simp: well_formed_skill_def name_matches_def first_blank_None)

lemma from_frontmatter_facts:
  "case from_frontmatter s of Inl e \<Rightarrow> exn_kind e = SkillMetadataError | Inr m \<Rightarrow> well_formed_skill m"
proof -
  let ?v = "dict_get (parse_frontmatter s) ''name'' (FStr '''')"
  have "trimmed ?v" by (rule trimmed_get [OF parse_trimmed]) simp
  then have nl: "fm_str ?v \<noteq> [] \<Longrightarrow> last (fm_str ?v) \<noteq> newline"
    using newline_space by (cases ?v) (auto simp: str_of_list_def bracket_not_newline)
  show ?thesis
  proof (cases "?v \<in> {FStr '''', FList []}")
    case True
    then show ?thesis by (simp add: from_frontmatter_def Let_def skill_error_def)
  next
    case False
    then obtain m where m: "from_frontmatter s = skill_validate m" "sk_name m = fm_str ?v"
      by (simp add: from_frontmatter_def Let_def)
    show ?thesis
    proof (cases "skill_validate m")
      case (Inl e)
      then show ?thesis by (simp add: m(1) skill_validate_error)
    next
      case (Inr n)
      then have "sk_name m \<noteq> []" by (auto simp: skill_validate_def skill_error_def split: if_splits)
      then show ?thesis using Inr skill_validate_ok [OF Inr] nl m(2) by (simp add: m(1))
    qed
  qed
qed

section \<open>The registry\<close>

definition skill_dict_ok :: "bool \<Rightarrow> skill_dict \<Rightarrow> bool" where
  "skill_dict_ok deprecated d \<longleftrightarrow> distinct (map fst d) \<and>
     (\<forall>(name, m) \<in> set d. name = sk_name m \<and> well_formed_skill m \<and> (sk_status m = ''active'' \<or> deprecated))"

lemma skill_dict_ok_set:
  "skill_dict_ok dep d \<Longrightarrow> well_formed_skill m \<Longrightarrow> sk_status m = ''active'' \<or> dep \<Longrightarrow>
   skill_dict_ok dep (dict_set (sk_name m) m d)"
  by (auto simp: skill_dict_ok_def distinct_dict_set dest!: set_dict_set)

lemma load_entry_ok:
  assumes "skill_dict_ok dep d"
  shows "skill_dict_ok dep (load_entry dep readable x d)"
proof -
  have status: "well_formed_skill m \<Longrightarrow> sk_status m \<noteq> ''deprecated'' \<Longrightarrow> sk_status m = ''active''" for m
    by (simp add: well_formed_skill_def VALID_STATUS_def)
  have "skill_dict_ok dep (case from_frontmatter s of Inl _ \<Rightarrow> d
      | Inr m \<Rightarrow> if \<not> dep \<and> sk_status m = ''deprecated'' then d else dict_set (sk_name m) m d)" for s
    using from_frontmatter_facts [of s] assms status by (auto intro: skill_dict_ok_set split: sum.splits)
  then show ?thesis using assms
    by (cases x; cases "snd x") (auto simp: load_entry_def split: option.splits node.splits)
qed

lemma registry_load_ok: "skill_dict_ok dep (registry_load dep D)"
proof -
  have "skill_dict_ok dep d \<Longrightarrow> skill_dict_ok dep (fold (load_entry dep r) xs d)" for d r xs
    by (induction xs arbitrary: d) (simp_all add: load_entry_ok)
  moreover have "skill_dict_ok dep []" by (simp add: skill_dict_ok_def)
  ultimately show ?thesis by (simp add: registry_load_def split: option.split)
qed

text \<open>C28: Reading the front matter of a file answers well-formed metadata, a lowercase slug as the name, a
  description, a known status, a natural priority and no blank trigger, scope or dependency, or it raises a
  metadata error and nothing else. The registry of any directory holds every skill under its own name once,
  well formed, and none that is deprecated unless it was asked for.\<close>

theorem skills_well_formed:
  "(case from_frontmatter s of Inl e \<Rightarrow> exn_kind e = SkillMetadataError | Inr m \<Rightarrow> well_formed_skill m)
   \<and> distinct (map fst (registry_load dep D))
   \<and> list_all (\<lambda>(name, m). name = sk_name m \<and> well_formed_skill m \<and> (sk_status m = ''active'' \<or> dep))
       (registry_load dep D)"
  using from_frontmatter_facts registry_load_ok [of dep D] by (auto simp: skill_dict_ok_def list_all_iff)

section \<open>Discovery\<close>

lemma ratio_bounds: "0 \<le> ratio (filter P xs) xs \<and> ratio (filter P xs) xs \<le> 1"
  by (auto simp: ratio_def divide_le_eq)

lemma skill_total_bounds:
  assumes "0 \<le> sk_priority m"
  shows "0 \<le> skill_total i c m \<and> skill_total i c m \<le> 1"
proof -
  define a where "a = ratio (match_triggers (sk_triggers m) i) (sk_triggers m)"
  define b where "b = ratio (match_scope (sk_scope m) c) (sk_scope m)"
  have a: "0 \<le> a \<and> a \<le> 1" unfolding a_def match_triggers_def match_parts_def by (rule ratio_bounds)
  have b: "0 \<le> b \<and> b \<le> 1" using ratio_bounds [of "\<lambda>t. contains c (lower t)" "sk_scope m"]
    by (auto simp: b_def match_scope_def match_parts_def ratio_def)
  define p where "p = (of_int (min (sk_priority m) 10) / 10 :: rat)"
  have "0 \<le> p \<and> p \<le> 1" using assms by (auto simp: p_def divide_le_eq)
  moreover have "skill_total i c m = 1 / 2 * a + 3 / 10 * b + 1 / 5 * p"
    by (simp add: skill_total_def a_def b_def p_def)
  ultimately show ?thesis using a b by linarith
qed

lemma score_bounds: "0 \<le> sk_priority m \<Longrightarrow> 0 \<le> ss_score (score_skill i c m) \<and> ss_score (score_skill i c m) \<le> 1"
  using skill_total_bounds [of m i c] round_to_mono [of 0 "skill_total i c m" 4] round_to_mono [of "skill_total i c m" 1 4]
  by (simp add: score_skill_def)

lemma discover_set:
  "x \<in> set (discover lo k skills i ctx) \<Longrightarrow> x \<in> score_skill (strip (lower i)) (build_context_text ctx) ` set skills"
  by (auto simp: discover_def Let_def split: if_splits dest!: set_slice_to)

lemma discover_sorted: "sorted_wrt (\<lambda>x y. ss_score y \<le> ss_score x) (discover lo k skills i ctx)"
proof -
  have sorted: "sorted_wrt (\<lambda>x y. ss_score y \<le> ss_score x) (sort_key (\<lambda>s. - ss_score s) xs)" for xs
    using sorted_sort_key [of "\<lambda>s. - ss_score s" xs] by (simp add: sorted_map)
  show ?thesis unfolding discover_def Let_def slice_to_def by (auto intro: sorted_wrt_take sorted)
qed

text \<open>The order the registry lists the skills in does not matter.\<close>

lemma discover_order:
  assumes "mset xs = mset ys" and "distinct (map sk_name xs)"
  shows "discover lo k xs i ctx = discover lo k ys i ctx"
proof -
  let ?f = "score_skill (strip (lower i)) (build_context_text ctx)"
  let ?P = "\<lambda>m. \<not> skill_total (strip (lower i)) (build_context_text ctx) m < lo"
  let ?key = "\<lambda>s. sk_name (ss_skill s)"
  have key: "?key (?f m) = sk_name m" for m by (simp add: score_skill_def)
  have "mset (map ?f (filter ?P xs)) = mset (sort_key ?key (map ?f (filter ?P ys)))" using assms(1) by simp
  moreover have "inj_on ?key (set (map ?f (filter ?P xs)))"
    using assms(2) by (auto simp: inj_on_def key distinct_map)
  ultimately have "sort_key ?key (map ?f (filter ?P xs)) = sort_key ?key (map ?f (filter ?P ys))"
    by (rule sort_key_inj_key_eq) simp
  moreover have "xs = [] \<longleftrightarrow> ys = []" using assms(1) by auto
  ultimately show ?thesis by (simp add: discover_def Let_def)
qed

section \<open>Retrieval\<close>

definition tokens_of :: "scored_result list \<Rightarrow> nat" where
  "tokens_of cs = sum_list (map (\<lambda>c. kr_tokens (sr_result c)) cs)"

lemma take_chunks_bound: "spent \<le> limit \<Longrightarrow> spent + int (tokens_of (take_chunks limit spent cs)) \<le> limit"
  by (induction limit spent cs rule: take_chunks.induct) (auto simp: tokens_of_def Let_def algebra_simps)

lemma take_chunks_prefix: "\<exists>n. take_chunks limit spent cs = take n cs"
proof (induction limit spent cs rule: take_chunks.induct)
  case (2 limit spent c cs)
  show ?case
  proof (cases "limit < spent + int (kr_tokens (sr_result c))")
    case True
    then show ?thesis by (intro exI [of _ 0]) simp
  next
    case False
    then obtain n where "take_chunks limit (spent + int (kr_tokens (sr_result c))) cs = take n cs"
      using 2 by auto
    then show ?thesis using False by (intro exI [of _ "Suc n"]) simp
  qed
qed simp

lemma take_chunks_set: "x \<in> set (take_chunks limit spent cs) \<Longrightarrow> x \<in> set cs"
  using take_chunks_prefix [of limit spent cs] by (auto dest: in_set_takeD)

lemma take_chunks_length: "length (take_chunks limit spent cs) \<le> length cs"
  using take_chunks_prefix [of limit spent cs] by auto

lemma slice_to_length: "0 \<le> k \<Longrightarrow> length (slice_to k xs) \<le> nat k"
  by (auto simp: slice_to_def py_index_def)

definition context_ok ::
  "int \<Rightarrow> (string \<times> scored_skill) list \<Rightarrow> (string \<times> scored_result list) list \<Rightarrow> string \<times> rat \<Rightarrow> skill_context \<Rightarrow> bool" where
  "context_ok k named chunks p c \<longleftrightarrow> sx_skill c = the (map_of named (fst p)) \<and> sx_relevance c = snd p \<and>
     sx_chunks c \<noteq> [] \<and> length (sx_chunks c) \<le> nat k \<and> sx_tokens c = tokens_of (sx_chunks c) \<and>
     set (sx_chunks c) \<subseteq> set (dict_get chunks (fst p) [])"

lemma skill_loop_facts:
  assumes "0 \<le> k"
  shows "spent \<le> limit \<Longrightarrow>
     spent + int (sum_list (map sx_tokens (skill_loop limit k named chunks spent xs))) \<le> limit \<and>
     (\<exists>ys. subseq ys xs \<and> list_all2 (context_ok k named chunks) ys (skill_loop limit k named chunks spent xs))"
proof (induction xs arbitrary: spent)
  case (Cons x xs)
  obtain name relevance where x: "x = (name, relevance)" by (cases x)
  let ?all = "slice_to k (sort_desc sr_score (dict_get chunks name []))"
  let ?chosen = "take_chunks limit spent ?all"
  let ?ctx = "\<lparr>sx_skill = the (map_of named name), sx_chunks = ?chosen,
      sx_prompt = format_skill_section (the (map_of named name)) ?chosen,
      sx_tokens = tokens_of ?chosen, sx_relevance = relevance\<rparr>"
  show ?case
  proof (cases "limit \<le> spent")
    case True
    then show ?thesis using Cons.prems by (auto simp: x intro!: exI [of _ "[]"])
  next
    case False
    let ?rest = "skill_loop limit k named chunks (spent + int (tokens_of ?chosen)) xs"
    have b: "spent + int (tokens_of ?chosen) \<le> limit" using take_chunks_bound Cons.prems by blast
    obtain ys where ih: "spent + int (tokens_of ?chosen) + int (sum_list (map sx_tokens ?rest)) \<le> limit"
        "subseq ys xs" "list_all2 (context_ok k named chunks) ys ?rest"
      using Cons.IH [OF b] by blast
    have loop: "skill_loop limit k named chunks spent (x # xs) = (if ?chosen = [] then [] else [?ctx]) @ ?rest"
      using False by (simp add: x tokens_of_def Let_def)
    have "length ?chosen \<le> nat k" using take_chunks_length [of limit spent ?all] slice_to_length [OF assms] by (rule le_trans)
    moreover have "set ?chosen \<subseteq> set (dict_get chunks name [])"
      by (auto dest!: take_chunks_set set_slice_to simp: set_sort_desc)
    ultimately have ok: "?chosen \<noteq> [] \<Longrightarrow> context_ok k named chunks x ?ctx" by (simp add: context_ok_def x)
    show ?thesis
    proof (cases "?chosen = []")
      case True
      then show ?thesis using ih unfolding loop by (auto simp: tokens_of_def)
    next
      case False
      then have "list_all2 (context_ok k named chunks) (x # ys) (?ctx # ?rest)" "subseq (x # ys) (x # xs)"
        using ok ih(2,3) by simp_all
      then show ?thesis using False ih(1) unfolding loop by (intro conjI exI [of _ "x # ys"]) simp_all
    qed
  qed
qed auto

definition named_ok :: "scored_skill list \<Rightarrow> (string \<times> scored_skill) list \<Rightarrow> bool" where
  "named_ok found m \<longleftrightarrow> distinct (map fst m) \<and> (\<forall>(n, s) \<in> set m. s \<in> set found \<and> sk_name (ss_skill s) = n)"

lemma named_ok_set: "named_ok found m \<Longrightarrow> s \<in> set found \<Longrightarrow> named_ok found (dict_set (sk_name (ss_skill s)) s m)"
  by (auto simp: named_ok_def distinct_dict_set dest!: set_dict_set)

lemma scored_by_name_ok: "named_ok found (scored_by_name found)"
proof -
  have "set xs \<subseteq> set found \<Longrightarrow> named_ok found m \<Longrightarrow>
      named_ok found (foldl (\<lambda>m s. dict_set (sk_name (ss_skill s)) s m) m xs)" for xs m
    by (induction xs arbitrary: m) (simp_all add: named_ok_set)
  moreover have "named_ok found []" by (simp add: named_ok_def)
  ultimately show ?thesis by (simp add: scored_by_name_def)
qed

definition chunks_ok ::
  "(string \<times> scored_skill) list \<Rightarrow> scored_result list \<Rightarrow> (string \<times> scored_result list) list \<Rightarrow> bool" where
  "chunks_ok named raw m \<longleftrightarrow> distinct (map fst m) \<and> (\<forall>(n, cs) \<in> set m. map_of named n \<noteq> None \<and>
     (\<forall>c \<in> set cs. c \<in> set raw \<and> extract_skill_name (kr_path (sr_result c)) = Some n))"

lemma chunks_ok_get: "chunks_ok named raw m \<Longrightarrow> c \<in> set (dict_get m n []) \<Longrightarrow>
    c \<in> set raw \<and> extract_skill_name (kr_path (sr_result c)) = Some n"
  by (auto simp: chunks_ok_def dict_get_def split: option.splits dest!: map_of_SomeD)

lemma chunks_ok_set:
  assumes "chunks_ok named raw m" and "r \<in> set raw" and "extract_skill_name (kr_path (sr_result r)) = Some n"
    and "map_of named n \<noteq> None"
  shows "chunks_ok named raw (dict_set n (dict_get m n [] @ [r]) m)"
  using assms chunks_ok_get [OF assms(1)]
  by (auto simp: chunks_ok_def distinct_dict_set simp del: not_None_eq dest!: set_dict_set)

lemma chunks_by_skill_ok: "chunks_ok named raw (chunks_by_skill named raw)"
proof -
  let ?f = "\<lambda>m r. case extract_skill_name (kr_path (sr_result r)) of None \<Rightarrow> m
     | Some name \<Rightarrow> if name = [] \<or> map_of named name = None then m
         else dict_set name (dict_get m name [] @ [r]) m"
  have step: "chunks_ok named raw m \<Longrightarrow> r \<in> set raw \<Longrightarrow> chunks_ok named raw (?f m r)" for m r
    using chunks_ok_set [of named raw m r] by (simp split: option.split)
  have "set xs \<subseteq> set raw \<Longrightarrow> chunks_ok named raw m \<Longrightarrow> chunks_ok named raw (foldl ?f m xs)" for xs m
    by (induction xs arbitrary: m) (simp_all add: step)
  moreover have "chunks_ok named raw []" by (simp add: chunks_ok_def)
  ultimately show ?thesis by (simp add: chunks_by_skill_def)
qed

definition context_name :: "skill_context \<Rightarrow> string" where
  "context_name c = sk_name (ss_skill (sx_skill c))"

text \<open>What a context of the answer is.\<close>

definition context_of :: "int \<Rightarrow> scored_skill list \<Rightarrow> scored_result list \<Rightarrow> skill_context \<Rightarrow> bool" where
  "context_of k found raw c \<longleftrightarrow> sx_skill c \<in> set found \<and> sx_relevance c = ss_score (sx_skill c) \<and>
     sx_chunks c \<noteq> [] \<and> length (sx_chunks c) \<le> nat k \<and> sx_tokens c = tokens_of (sx_chunks c) \<and>
     list_all (\<lambda>r. r \<in> set raw \<and> extract_skill_name (kr_path (sr_result r)) = Some (context_name c)) (sx_chunks c)"

lemma context_ok_of:
  assumes named: "named_ok found named" and chunks: "chunks_ok named raw chunks"
    and p: "p \<in> (\<lambda>(n, _). (n, ss_score (the (map_of named n)))) ` set chunks" and c: "context_ok k named chunks p c"
  shows "context_of k found raw c \<and> context_name c = fst p"
proof -
  obtain n cs where n: "(n, cs) \<in> set chunks" "p = (n, ss_score (the (map_of named n)))" using p by auto
  then obtain s where s: "map_of named n = Some s" using chunks by (fastforce simp: chunks_ok_def)
  then have "s \<in> set found" "sk_name (ss_skill s) = n" using named by (auto simp: named_ok_def dest!: map_of_SomeD)
  then show ?thesis
    using c n(2) s chunks_ok_get [OF chunks, of _ n]
    by (auto simp: context_ok_def context_of_def context_name_def list_all_iff)
qed

lemma skill_contexts_facts:
  assumes "0 \<le> k" and "0 \<le> limit"
  shows "int (sum_list (map sx_tokens (skill_contexts limit k found raw))) \<le> limit"
    and "list_all (context_of k found raw) (skill_contexts limit k found raw)"
    and "distinct (map context_name (skill_contexts limit k found raw))"
    and "sorted_wrt (\<lambda>x y. sx_relevance y \<le> sx_relevance x) (skill_contexts limit k found raw)"
proof -
  define named where "named = scored_by_name found"
  define chunks where "chunks = chunks_by_skill named raw"
  define order where "order = sort_desc snd (map (\<lambda>(n, _). (n, ss_score (the (map_of named n)))) chunks)"
  have run: "skill_contexts limit k found raw = skill_loop limit k named chunks 0 order"
    by (simp add: skill_contexts_def named_def chunks_def order_def Let_def)
  have named: "named_ok found named" unfolding named_def by (rule scored_by_name_ok)
  have chunks: "chunks_ok named raw chunks" unfolding chunks_def by (rule chunks_by_skill_ok)
  obtain ys where b: "int (sum_list (map sx_tokens (skill_loop limit k named chunks 0 order))) \<le> limit"
    and ys: "subseq ys order" "list_all2 (context_ok k named chunks) ys (skill_loop limit k named chunks 0 order)"
    using skill_loop_facts [OF assms(1), of 0 limit named chunks order] assms(2) by auto
  show "int (sum_list (map sx_tokens (skill_contexts limit k found raw))) \<le> limit" using b by (simp add: run)
  have mem: "p \<in> set ys \<Longrightarrow> p \<in> (\<lambda>(n, _). (n, ss_score (the (map_of named n)))) ` set chunks" for p
    using subseq_set [OF ys(1)] by (auto simp: order_def set_sort_desc)
  have all: "list_all2 (\<lambda>p c. context_of k found raw c \<and> context_name c = fst p \<and> sx_relevance c = snd p) ys
      (skill_contexts limit k found raw)"
    unfolding run list_all2_conv_all_nth
  proof (intro conjI allI impI)
    show "length ys = length (skill_loop limit k named chunks 0 order)" using ys(2) by (rule list_all2_lengthD)
    fix i assume i: "i < length ys"
    then have ok: "context_ok k named chunks (ys ! i) (skill_loop limit k named chunks 0 order ! i)"
      using ys(2) by (rule list_all2_nthD [rotated])
    from context_ok_of [OF named chunks mem ok] i
    show "context_of k found raw (skill_loop limit k named chunks 0 order ! i)"
      and "context_name (skill_loop limit k named chunks 0 order ! i) = fst (ys ! i)" by simp_all
    show "sx_relevance (skill_loop limit k named chunks 0 order ! i) = snd (ys ! i)" using ok by (simp add: context_ok_def)
  qed
  then show "list_all (context_of k found raw) (skill_contexts limit k found raw)"
    by (auto simp: list_all_iff list_all2_conv_all_nth in_set_conv_nth)
  have "map context_name (skill_contexts limit k found raw) = map fst ys"
    using all by (auto simp: list_all2_conv_all_nth intro!: nth_equalityI)
  moreover have "distinct (map fst order)"
    using chunks by (simp add: order_def chunks_ok_def distinct_sort_desc comp_def case_prod_unfold)
  ultimately show "distinct (map context_name (skill_contexts limit k found raw))"
    using distinct_subseq [OF subseq_map [OF ys(1)]] by auto
  have rel: "map sx_relevance (skill_contexts limit k found raw) = map snd ys"
    using all by (auto simp: list_all2_conv_all_nth intro!: nth_equalityI)
  have "sorted_wrt (\<lambda>x y. snd y \<le> snd x) ys"
    by (rule subseq_sorted [OF ys(1)]) (simp add: order_def sorted_sort_desc)
  then have "sorted_wrt (\<lambda>x y. y \<le> x) (map sx_relevance (skill_contexts limit k found raw))"
    unfolding rel sorted_wrt_map .
  then show "sorted_wrt (\<lambda>x y. sx_relevance y \<le> sx_relevance x) (skill_contexts limit k found raw)"
    unfolding sorted_wrt_map .
qed

lemma retrieve_raw_finds: "finds E (retrieve_raw (Some E) q k ty)"
  by (simp add: retrieve_raw_def keyword_finds)

lemma context_of_facts:
  assumes "context_of n found raw c" and "\<forall>x \<in> set raw. known_chunk E s (kr_chunk (sr_result x))"
  shows "sx_skill c \<in> set found \<and> sx_chunks c \<noteq> [] \<and> length (sx_chunks c) \<le> nat n
    \<and> sx_tokens c = tokens_of (sx_chunks c)
    \<and> list_all (\<lambda>r. extract_skill_name (kr_path (sr_result r)) = Some (context_name c)
        \<and> known_chunk E s (kr_chunk (sr_result r))) (sx_chunks c)"
proof -
  have "list_all (\<lambda>r. extract_skill_name (kr_path (sr_result r)) = Some (context_name c)
        \<and> known_chunk E s (kr_chunk (sr_result r))) (sx_chunks c)"
    using assms unfolding context_of_def by (elim conjE) (erule list.pred_mono_strong, blast)
  then show ?thesis using assms(1) unfolding context_of_def by blast
qed

lemma skill_retrieve_run:
  assumes "0 \<le> for_agent budgets agent" and "0 \<le> n"
  shows "(\<exists>cs. skill_retrieve (Some E) budgets found intent agent n s = (Inr cs, s)
      \<and> int (sum_list (map sx_tokens cs)) \<le> for_agent budgets agent
      \<and> distinct (map context_name cs)
      \<and> sorted_wrt (\<lambda>x y. sx_relevance y \<le> sx_relevance x) cs
      \<and> list_all (\<lambda>c. sx_skill c \<in> set found \<and> sx_chunks c \<noteq> [] \<and> length (sx_chunks c) \<le> nat n
          \<and> sx_tokens c = tokens_of (sx_chunks c)
          \<and> list_all (\<lambda>r. extract_skill_name (kr_path (sr_result r)) = Some (context_name c)
              \<and> known_chunk E s (kr_chunk (sr_result r))) (sx_chunks c)) cs)"
proof (cases "found = []")
  case True
  then show ?thesis using assms(1) by (auto simp: skill_retrieve_def py_run)
next
  case False
  obtain raw where raw: "retrieve_raw (Some E) intent 50 SKILL_SOURCE_TYPES s = (Inr raw, s)"
      "\<forall>x \<in> set raw. known_chunk E s (kr_chunk (sr_result x))"
    using retrieve_raw_finds [of E intent 50 SKILL_SOURCE_TYPES] unfolding finds_def by blast
  let ?cs = "skill_contexts (for_agent budgets agent) n found raw"
  note facts = skill_contexts_facts [OF assms(2,1), of found raw]
  have "skill_retrieve (Some E) budgets found intent agent n s = (Inr ?cs, s)"
    using False raw(1) by (simp add: skill_retrieve_def py_run)
  moreover have "list_all (\<lambda>c. sx_skill c \<in> set found \<and> sx_chunks c \<noteq> [] \<and> length (sx_chunks c) \<le> nat n
        \<and> sx_tokens c = tokens_of (sx_chunks c)
        \<and> list_all (\<lambda>r. extract_skill_name (kr_path (sr_result r)) = Some (context_name c)
            \<and> known_chunk E s (kr_chunk (sr_result r))) (sx_chunks c)) ?cs"
    by (rule list.pred_mono_strong [OF facts(2)]) (rule context_of_facts [OF _ raw(2)])
  ultimately show ?thesis using facts(1,3,4) by blast
qed

lemma discover_scores:
  assumes "list_all well_formed_skill skills"
  shows "list_all (\<lambda>x. ss_skill x \<in> set skills \<and> 0 \<le> ss_score x \<and> ss_score x \<le> 1) (discover lo k skills intent ctx)"
  unfolding list_all_iff
proof
  fix x assume "x \<in> set (discover lo k skills intent ctx)"
  then obtain m where m: "m \<in> set skills" "x = score_skill (strip (lower intent)) (build_context_text ctx) m"
    by (auto dest: discover_set)
  moreover have "0 \<le> sk_priority m" using m(1) assms by (auto simp: list_all_iff well_formed_skill_def)
  ultimately show "ss_skill x \<in> set skills \<and> 0 \<le> ss_score x \<and> ss_score x \<le> 1"
    using score_bounds [of m] by (simp add: score_skill_def)
qed

text \<open>Discovery scores every skill of the registry between 0 and 1, answers them best first and does not
  depend on the order the registry lists them in; what is then retrieved for an agent leaves the store as it is
  and answers contexts of discovered skills, one per skill and best first, each with a few stored chunks of that
  skill's own files, whose tokens together are within the budget of the agent.\<close>

theorem skill_contexts_within_budget:
  fixes skills :: "skill_metadata list" and lo :: rat and k n :: int and ctx :: "context_packet option"
  assumes "0 \<le> for_agent budgets agent" and "0 \<le> n" and "list_all well_formed_skill skills"
    and "distinct (map sk_name skills)"
  shows "let found = discover lo k skills intent ctx in
    list_all (\<lambda>x. ss_skill x \<in> set skills \<and> 0 \<le> ss_score x \<and> ss_score x \<le> 1) found
    \<and> sorted_wrt (\<lambda>x y. ss_score y \<le> ss_score x) found
    \<and> (\<forall>other. mset skills = mset other \<longrightarrow> discover lo k other intent ctx = found)
    \<and> (\<exists>cs. skill_retrieve (Some E) budgets found intent agent n s = (Inr cs, s)
      \<and> int (sum_list (map sx_tokens cs)) \<le> for_agent budgets agent
      \<and> distinct (map context_name cs)
      \<and> sorted_wrt (\<lambda>x y. sx_relevance y \<le> sx_relevance x) cs
      \<and> list_all (\<lambda>c. sx_skill c \<in> set found \<and> sx_chunks c \<noteq> [] \<and> length (sx_chunks c) \<le> nat n
          \<and> sx_tokens c = tokens_of (sx_chunks c)
          \<and> list_all (\<lambda>r. extract_skill_name (kr_path (sr_result r)) = Some (context_name c)
              \<and> known_chunk E s (kr_chunk (sr_result r))) (sx_chunks c)) cs)"
  unfolding Let_def
  using discover_scores [OF assms(3)] discover_sorted discover_order [OF _ assms(4)] skill_retrieve_run [OF assms(1,2)]
  by (intro conjI allI impI) (blast | metis)+

definition demo_skill :: skill_metadata where
  "demo_skill = \<lparr>sk_name = ''event-bus'', sk_description = ''x'', sk_triggers = [''event''], sk_scope = [],
     sk_dependencies = [], sk_priority = 5, sk_version = ''1'', sk_owner = [], sk_updated = [],
     sk_status = ''active'', sk_schema = ''1''\<rparr>"

theorem skill_contexts_within_budget_witness:
  "discover (1 / 4) 5 [demo_skill] ''add an event'' None = [score_skill ''add an event'' [] demo_skill]
   \<and> (\<exists>cs. skill_retrieve (Some still_env) [] [score_skill ''add an event'' [] demo_skill] ''add an event'' ''planner'' 2
         one_chunk = (Inr cs, one_chunk) \<and> int (sum_list (map sx_tokens cs)) \<le> 3000)"
proof -
  have d: "discover (1 / 4) 5 [demo_skill] ''add an event'' None = [score_skill ''add an event'' [] demo_skill]"
    by code_simp
  have "for_agent [] ''planner'' = 3000" and "list_all well_formed_skill [demo_skill]" by code_simp+
  then show ?thesis
    using skill_contexts_within_budget [of "[]" "''planner''" 2 "[demo_skill]" "1 / 4" 5 "''add an event''" None still_env one_chunk]
    by (auto simp: d Let_def)
qed

end
