(* ===== verification/ContextProps.thy ===== *)
theory ContextProps
  imports Prompts SkillsProps
begin

text \<open>What the assembly of context promises: the task first and whole, the rest within the budget.\<close>

section \<open>Order and duplicates\<close>

abbreviation descending :: "layer list \<Rightarrow> bool" where
  "descending ls \<equiv> sorted_wrt (\<lambda>x y. LAYER_PRECEDENCE (la_type y) \<le> LAYER_PRECEDENCE (la_type x)) ls"

lemma order_layers_sorted: "descending (order_layers ls)"
  unfolding order_layers_def by (rule sorted_sort_desc)

lemma sort_desc_id: "sorted_wrt (\<lambda>x y. key y \<le> key x) xs \<Longrightarrow> sort_desc key xs = xs"
  by (simp add: sort_desc_def sort_key_id_if_sorted sorted_wrt_rev sorted_map)

lemma filter_sort_desc: "filter P (sort_desc key xs) = sort_desc key (filter P xs)"
  by (simp add: sort_desc_def rev_filter [symmetric] filter_sort)

lemma sorted_top_first:
  assumes "sorted_wrt (\<lambda>x y. key y \<le> key x) xs" and "\<forall>x \<in> set xs. key x \<le> (m :: nat)"
  shows "xs = filter (\<lambda>x. key x = m) xs @ filter (\<lambda>x. key x \<noteq> m) xs"
  using assms
proof (induction xs)
  case (Cons x xs)
  show ?case
  proof (cases "key x = m")
    case True
    then show ?thesis using Cons by simp
  next
    case False
    then have "\<forall>y \<in> set (x # xs). key y \<noteq> m" using Cons.prems by fastforce
    then show ?thesis by (simp add: filter_id_conv)
  qed
qed simp

lemma dedupe_loop_facts:
  "dedupe_loop dig seen ls = (kept, audit) \<Longrightarrow>
   subseq kept ls \<and> length kept + length audit = length ls \<and> distinct (map (dig \<circ> la_content) kept) \<and>
   (\<forall>x \<in> set kept. dig (la_content x) \<notin> set seen)"
proof (induction dig seen ls arbitrary: kept audit rule: dedupe_loop.induct)
  case (2 dig seen l ls)
  show ?case
  proof (cases "dig (la_content l) \<in> set seen")
    case True
    obtain k a where "dedupe_loop dig seen ls = (k, a)" by (cases "dedupe_loop dig seen ls")
    then show ?thesis using True 2 by (auto intro: list_emb_Cons)
  next
    case False
    obtain k a where r: "dedupe_loop dig (dig (la_content l) # seen) ls = (k, a)"
      by (cases "dedupe_loop dig (dig (la_content l) # seen) ls")
    have eq: "kept = l # k" "audit = a" using "2.prems" False r by simp_all
    have ih: "subseq k ls" "length k + length a = length ls" "distinct (map (dig \<circ> la_content) k)"
      and new: "\<forall>x \<in> set k. dig (la_content x) \<notin> set (dig (la_content l) # seen)"
      using "2.IH"(2) [OF False r] by blast+
    have "dig (la_content l) \<notin> (\<lambda>x. dig (la_content x)) ` set k" using new by fastforce
    then show ?thesis using ih new False unfolding eq by (simp add: comp_def)
  qed
qed simp

section \<open>Fitting\<close>

lemma truncate_words: "length (split_ws (truncate_to_tokens c (int n))) \<le> n"
  using truncate_tokens [of "int n" c] by (simp add: token_estimate_def)

lemma cut_layer_facts:
  "la_type (cut_layer l n) = la_type l" "is_guardrail (cut_layer l n) = is_guardrail l" "la_tokens (cut_layer l n) \<le> n"
  using truncate_words [of "la_content l" n] by (simp_all add: cut_layer_def is_guardrail_def Let_def)

lemma fit_layers_facts:
  "fit_layers left ls = (kept, short, audit) \<Longrightarrow>
   layer_tokens kept \<le> left + guardrail_tokens ls \<and> filter is_guardrail kept = filter is_guardrail ls \<and>
   subseq (map la_type kept) (map la_type ls) \<and> (short \<or> kept = ls)"
proof (induction left ls arbitrary: kept short audit rule: fit_layers.induct)
  case (2 left l ls)
  obtain k1 c1 a1 where r1: "fit_layers left ls = (k1, c1, a1)" by (cases "fit_layers left ls")
  obtain k2 c2 a2 where r2: "fit_layers (left - la_tokens l) ls = (k2, c2, a2)" by (cases "fit_layers (left - la_tokens l) ls")
  obtain k3 c3 a3 where r3: "fit_layers 0 ls = (k3, c3, a3)" by (cases "fit_layers 0 ls")
  consider "is_guardrail l" | "\<not> is_guardrail l" "la_tokens l \<le> left" | "\<not> is_guardrail l" "left < la_tokens l" "0 < left"
    | "\<not> is_guardrail l" "left < la_tokens l" "left = 0" by linarith
  then show ?case
  proof cases
    case 1
    then show ?thesis using "2.IH"(1) [OF 1 r1] "2.prems" r1 by (auto simp: layer_tokens_def guardrail_tokens_def)
  next
    case 2
    then show ?thesis using "2.IH"(2) [OF 2 r2] "2.prems" r2 by (auto simp: layer_tokens_def guardrail_tokens_def)
  next
    case 3
    then show ?thesis using "2.IH"(3) [OF 3(1) _ 3(3) r3] "2.prems" r3 cut_layer_facts [of l left]
      by (auto simp: layer_tokens_def guardrail_tokens_def)
  next
    case 4
    then show ?thesis using "2.IH"(4) [OF 4(1)] "2.prems" r1 by (auto simp: layer_tokens_def guardrail_tokens_def)
  qed
qed (simp add: layer_tokens_def guardrail_tokens_def)

lemma cap_layer_facts:
  "la_type (fst (cap_layer caps l)) = la_type l" "is_guardrail (fst (cap_layer caps l)) = is_guardrail l"
  "is_guardrail l \<Longrightarrow> fst (cap_layer caps l) = l" "snd (cap_layer caps l) = [] \<Longrightarrow> fst (cap_layer caps l) = l"
  by (auto simp: cap_layer_def Let_def cut_layer_facts)

lemma capped_guardrails: "filter is_guardrail (map (fst \<circ> cap_layer caps) ls) = filter is_guardrail ls"
  by (induction ls) (auto simp: cap_layer_facts)

lemma capped_types: "map la_type (map (fst \<circ> cap_layer caps) ls) = map la_type ls"
  by (simp add: comp_def cap_layer_facts)

lemma descending_types: "descending ls \<longleftrightarrow> sorted_wrt (\<lambda>x y. LAYER_PRECEDENCE y \<le> LAYER_PRECEDENCE x) (map la_type ls)"
  by (simp add: sorted_wrt_map)

lemma truncate_layers_facts:
  assumes run: "truncate_layers caps budget ls = (final, short, audit)" and "descending ls"
  shows "int (layer_tokens final) \<le> max budget (int (guardrail_tokens ls))"
    and "filter is_guardrail final = filter is_guardrail ls" and "descending final" and "short \<or> final = ls"
proof -
  let ?c = "map (fst \<circ> cap_layer caps) ls"
  have ord: "order_layers ls = ls" unfolding order_layers_def by (rule sort_desc_id) (rule assms(2))
  let ?left = "nat (budget - int (guardrail_tokens ls))"
  have g: "guardrail_tokens ?c = guardrail_tokens ls" by (simp add: guardrail_tokens_def capped_guardrails del: map_map)
  obtain k c a where fit: "fit_layers ?left ?c = (k, c, a)" by (cases "fit_layers ?left ?c")
  have eq: "final = k" "short = (c \<or> concat (map snd (map (cap_layer caps) ls)) \<noteq> [])"
    using run unfolding truncate_layers_def Let_def ord map_map g fit by auto
  note facts = fit_layers_facts [OF fit]
  show "filter is_guardrail final = filter is_guardrail ls" using facts by (simp only: eq capped_guardrails)
  show "int (layer_tokens final) \<le> max budget (int (guardrail_tokens ls))" using facts by (simp only: eq g) linarith
  have "subseq (map la_type final) (map la_type ls)" using facts by (simp only: eq capped_types)
  then show "descending final"
    using assms(2) unfolding descending_types by (rule subseq_sorted)
  show "short \<or> final = ls"
  proof (cases short)
    case False
    then have "k = ?c" and "\<forall>l \<in> set ls. snd (cap_layer caps l) = []" using facts by (auto simp: eq)
    then show ?thesis by (auto simp: eq(1) cap_layer_facts intro!: map_idI)
  qed simp
qed

text \<open>What the assembly of any layers comes to.\<close>

definition kept_layers :: "layer list \<Rightarrow> layer list" where
  "kept_layers ls = fst (dedupe_layers (order_layers ls))"

lemma kept_layers_facts:
  "subseq (kept_layers ls) (order_layers ls)" "distinct (map (content_digest \<circ> la_content) (kept_layers ls))"
  "descending (kept_layers ls)"
proof -
  obtain k a where run: "dedupe_loop content_digest [] (order_layers ls) = (k, a)"
    by (cases "dedupe_loop content_digest [] (order_layers ls)")
  have k: "kept_layers ls = k" by (simp add: kept_layers_def dedupe_layers_def run)
  show sub: "subseq (kept_layers ls) (order_layers ls)"
    and "distinct (map (content_digest \<circ> la_content) (kept_layers ls))"
    unfolding k using dedupe_loop_facts [OF run] by blast+
  show "descending (kept_layers ls)" by (rule subseq_sorted [OF sub order_layers_sorted])
qed

lemma assemble_layers_facts:
  fixes ls :: "layer list" and budget :: int and caps :: "layer_type \<Rightarrow> nat"
  defines "r \<equiv> assemble_layers caps budget ls"
  shows "as_tokens r = layer_tokens (as_layers r)" and "as_budget r = budget"
    and "int (as_tokens r) \<le> max budget (int (guardrail_tokens (as_layers r)))"
    and "filter is_guardrail (as_layers r) = filter is_guardrail (kept_layers ls)"
    and "descending (as_layers r)" and "as_truncated r \<or> as_layers r = kept_layers ls"
proof -
  obtain k d a where ded: "dedupe_layers (order_layers ls) = (k, d, a)" by (cases "dedupe_layers (order_layers ls)")
  obtain f c m where tr: "truncate_layers caps budget k = (f, c, m)" by (cases "truncate_layers caps budget k")
  have k: "kept_layers ls = k" by (simp add: kept_layers_def ded)
  have sel: "as_layers r = f" "as_tokens r = layer_tokens f" "as_truncated r = c" "as_budget r = budget"
    by (simp_all add: r_def assemble_layers_def ded tr Let_def)
  have "descending k" using kept_layers_facts(3) [of ls] by (simp add: k)
  note facts = truncate_layers_facts [OF tr this]
  show "as_tokens r = layer_tokens (as_layers r)" "as_budget r = budget" by (simp_all add: sel)
  show "filter is_guardrail (as_layers r) = filter is_guardrail (kept_layers ls)" by (simp add: sel k facts(2))
  then have "guardrail_tokens (as_layers r) = guardrail_tokens k" by (simp add: guardrail_tokens_def k)
  then show "int (as_tokens r) \<le> max budget (int (guardrail_tokens (as_layers r)))" using facts(1) by (simp add: sel)
  show "descending (as_layers r)" "as_truncated r \<or> as_layers r = kept_layers ls" using facts(3,4) by (simp_all add: sel k)
qed

section \<open>The layers of a task\<close>

definition background_layers ::
  "(string \<Rightarrow> string \<Rightarrow> exn + selection_result) option \<Rightarrow> string \<Rightarrow> context_packet option \<Rightarrow> string \<Rightarrow> layer list" where
  "background_layers knowledge d ctx agent = project_layers ctx @ research_layers ctx @
     (case knowledge of None \<Rightarrow> [] | Some retrieve \<Rightarrow>
        (case retrieve d agent of Inl _ \<Rightarrow> [] | Inr sel \<Rightarrow> retrieved_layers sel))"

lemma background_no_guardrail: "l \<in> set (background_layers knowledge d ctx agent) \<Longrightarrow> \<not> is_guardrail l \<and> la_type l \<noteq> TASK"
  by (auto simp: background_layers_def project_layers_def research_layers_def retrieved_layers_def retrieved_layer_def
      plain_layer_def is_guardrail_def GUARDRAIL_LAYERS_def Let_def split: option.splits sum.splits pyval.splits if_splits)

lemma task_layers_guardrail: "l \<in> set (task_layers d) \<Longrightarrow> is_guardrail l \<and> la_type l = TASK"
  by (auto simp: task_layers_def plain_layer_def is_guardrail_def Let_def split: if_splits)

lemma task_layers_short: "length (task_layers d) \<le> 1"
  by (simp add: task_layers_def Let_def)

text \<open>All layers the assembler collects, in its order.\<close>

definition collected ::
  "(string \<Rightarrow> string \<Rightarrow> exn + selection_result) option \<Rightarrow> string \<Rightarrow> context_packet option \<Rightarrow> string \<Rightarrow> layer list" where
  "collected knowledge d ctx agent = project_layers ctx @ task_layers d @ research_layers ctx @
     (case knowledge of None \<Rightarrow> [] | Some retrieve \<Rightarrow>
        (case retrieve d agent of Inl _ \<Rightarrow> [] | Inr sel \<Rightarrow> retrieved_layers sel))"

lemma collected_set: "set (collected kn d ctx agent) = set (task_layers d) \<union> set (background_layers kn d ctx agent)"
  by (auto simp: collected_def background_layers_def)

lemma collected_guardrail: "l \<in> set (collected kn d ctx agent) \<Longrightarrow> is_guardrail l \<longleftrightarrow> la_type l = TASK"
  using background_no_guardrail task_layers_guardrail by (fastforce simp: collected_set)

lemma collected_tasks: "filter (\<lambda>l. la_type l = TASK) (collected kn d ctx agent) = task_layers d"
proof -
  have none: "filter (\<lambda>l. la_type l = TASK) (project_layers ctx) = []"
      "filter (\<lambda>l. la_type l = TASK) (research_layers ctx @ (case kn of None \<Rightarrow> [] | Some retrieve \<Rightarrow>
        (case retrieve d agent of Inl _ \<Rightarrow> [] | Inr sel \<Rightarrow> retrieved_layers sel))) = []"
    using background_no_guardrail [of _ kn d ctx agent] unfolding filter_empty_conv background_layers_def by auto
  have "filter (\<lambda>l. la_type l = TASK) (task_layers d) = task_layers d"
    using task_layers_guardrail by (simp add: filter_id_conv)
  then show ?thesis unfolding collected_def filter_append using none by simp
qed

lemma precedence_max: "LAYER_PRECEDENCE t \<le> 5" and precedence_task: "LAYER_PRECEDENCE t = 5 \<longleftrightarrow> t = TASK"
  by (cases t; simp)+

lemma tasks_first:
  "descending ls \<Longrightarrow> ls = filter (\<lambda>l. la_type l = TASK) ls @ filter (\<lambda>l. la_type l \<noteq> TASK) ls"
  using sorted_top_first [of "\<lambda>l. LAYER_PRECEDENCE (la_type l)" ls 5] by (simp add: precedence_max precedence_task)

lemma sort_desc_single: "length xs \<le> 1 \<Longrightarrow> sort_desc key xs = xs"
  by (cases xs) (auto simp: sort_desc_def)

lemma dedupe_first: "fst (dedupe_loop dig [] (x # xs)) = x # fst (dedupe_loop dig [dig (la_content x)] xs)"
  by (simp split: prod.split)

lemma kept_tasks: "filter is_guardrail (kept_layers (collected kn d ctx agent)) = task_layers d"
proof -
  let ?ls = "collected kn d ctx agent"
  let ?other = "filter (\<lambda>l. la_type l \<noteq> TASK) (order_layers ?ls)"
  have "filter (\<lambda>l. la_type l = TASK) (order_layers ?ls) = task_layers d"
    unfolding order_layers_def filter_sort_desc collected_tasks by (rule sort_desc_single [OF task_layers_short])
  then have ord: "order_layers ?ls = task_layers d @ ?other" using tasks_first [OF order_layers_sorted, of ?ls] by simp
  have kept: "kept_layers ?ls = fst (dedupe_loop content_digest [] (task_layers d @ ?other))"
    unfolding kept_layers_def dedupe_layers_def using ord by (simp split: prod.split)
  obtain xs where xs: "kept_layers ?ls = task_layers d @ xs" "subseq xs ?other"
  proof (cases "task_layers d")
    case Nil
    then show ?thesis using that kept kept_layers_facts(1) [of ?ls] ord by simp
  next
    case (Cons l rest)
    then have t: "task_layers d = [l]" using task_layers_short [of d] by (cases rest) auto
    obtain k a where "dedupe_loop content_digest [content_digest (la_content l)] ?other = (k, a)"
      by (cases "dedupe_loop content_digest [content_digest (la_content l)] ?other")
    then show ?thesis using that [of k] kept dedupe_loop_facts by (fastforce simp: t)
  qed
  have "set xs \<subseteq> set ?ls \<inter> {l. la_type l \<noteq> TASK}" using subseq_set [OF xs(2)] by (auto simp: order_layers_def)
  then have "filter is_guardrail xs = []" using collected_guardrail by (fastforce simp: filter_empty_conv)
  moreover have "filter is_guardrail (task_layers d) = task_layers d" using task_layers_guardrail by (simp add: filter_id_conv)
  ultimately show ?thesis by (simp add: xs(1))
qed

lemma context_assemble_collected:
  "context_assemble budgets kn d ctx agent =
     assemble_layers DEFAULT_LAYER_CAPS (for_agent budgets agent) (collected kn d ctx agent)"
  by (simp add: context_assemble_def collected_def)

lemma context_tasks:
  fixes kn d ctx agent budgets
  defines "r \<equiv> context_assemble budgets kn d ctx agent"
  shows "filter is_guardrail (as_layers r) = task_layers d" and "\<exists>rest. as_layers r = task_layers d @ rest"
proof -
  let ?ls = "collected kn d ctx agent"
  note facts = assemble_layers_facts [of DEFAULT_LAYER_CAPS "for_agent budgets agent" ?ls,
      folded context_assemble_collected, folded r_def]
  show g: "filter is_guardrail (as_layers r) = task_layers d" using facts(4) kept_tasks by simp
  have "is_guardrail l \<longleftrightarrow> la_type l = TASK" if "l \<in> set (as_layers r)" for l
  proof
    assume "is_guardrail l"
    then have "l \<in> set (filter is_guardrail (as_layers r))" using that by simp
    then show "la_type l = TASK" unfolding g using task_layers_guardrail by blast
  qed (simp add: is_guardrail_def GUARDRAIL_LAYERS_def)
  then have "filter (\<lambda>l. la_type l = TASK) (as_layers r) = task_layers d"
    using g filter_cong [of "as_layers r" "as_layers r" is_guardrail "\<lambda>l. la_type l = TASK"] by simp
  then have "as_layers r = task_layers d @ filter (\<lambda>l. la_type l \<noteq> TASK) (as_layers r)"
    using tasks_first [OF facts(5)] by simp
  then show "\<exists>rest. as_layers r = task_layers d @ rest" by (rule exI)
qed

lemma sections_start: "x \<noteq> [] \<Longrightarrow> startswith (sections (x # xs)) x"
  by (cases "filter (\<lambda>s. s \<noteq> []) xs") (simp_all add: sections_def startswith_def)

lemma titled_not_Nil: "titled h b \<noteq> []"
  by (simp add: titled_def)

lemma layered_task_first:
  "as_layers r = l # rest \<Longrightarrow> la_type l = TASK \<Longrightarrow> layered_task (Assembled r) = titled ''Task'' (la_content l)"
  by (simp add: layered_task_def layer_section_def by_type_def)

lemma prompt_starts_with_task:
  "startswith (build_prompt show d p skills (Some (Assembled (context_assemble budgets kn d ctx agent))))
     (if strip d = [] then '''' else titled ''Task'' (strip d))"
proof (cases "strip d = []")
  case False
  let ?r = "context_assemble budgets kn d ctx agent"
  obtain l where l: "task_layers d = [l]" "la_type l = TASK" "la_content l = strip d"
    using False by (simp add: task_layers_def Let_def plain_layer_def)
  then obtain rest where rest: "as_layers ?r = l # rest" using context_tasks(2) [of budgets kn d ctx agent] by auto
  then show ?thesis
    using False layered_task_first [OF rest l(2)] titled_not_Nil
    by (simp add: build_prompt_def build_layered_def sections_start l(3))
qed simp


end
