(* ===== verification/Spec2Isabelle.thy ===== *)
theory Spec2Isabelle
  imports RuntimeAgents ResearchAgent Ollama Config Benchmark TelemetryEngineProps Usage LearningProps Pipeline BacklogCards ContextProps Boundary Events Runtime Routing Detectors Gates Quality Kanban Table
begin

text \<open>
  AiosDeck runs software agents over a repository: a kernel starts a dozen engines around an event bus, a workflow
  drives the agents through a fixed pipeline behind one execution boundary, and what happens is kept in a project
  database. All paths below are under \<open>src/src/aios\<close>. The theories model the program's own logic; this text says
  which theory models what, what is shown of it, and what is left out.

  \<^bold>\<open>How the parts interact.\<close> \<open>core/kernel.py\<close> (theory Kernel) registers the engines, starts them in a fixed order,
  wires the bus to those that want it, and runs a task by handing it to the workflow engine (Workflow). The workflow runs
  research, planner, branch, board, developer, reviewer, tester, documentation and commit, with quality gates (Quality,
  Gates, Detectors) in between; every agent is called through the executor (Executor), which checks capabilities and
  intent (Security), walks the life cycle of an execution (Agents), applies time-outs and retries and publishes events
  (Events). The agents are GitAgent, LocalAgents (tester, documentation, reviewer), RuntimeAgents (planner, developer)
  and ResearchAgent. Those that ask a model do so through the runtime (Runtime), which resolves a model through the
  router (Routing) and calls an adapter (OpenCode with its output parser OpenCodeOutput, or Ollama). Their prompts
  (Prompts) carry layers of context (Context), the packet of the project (Packet), skills (Skills) and chunks retrieved
  (Retrieval) from the knowledge store (KnowledgeStore, filled by KnowledgeEngine from what Discovery finds, cut by
  Chunking, named by Sha256). Tasks come from a backlog (Backlog), which is a list or a board (Kanban); a run of the
  backlog moves the cards. Passive subscribers of the bus are the learning engine (Learning), which proposes what a human
  may approve for the memory (Memory), and the telemetry engine (TelemetryEngine over TelemetryWriter and TelemetryStore,
  with Pricing and Usage). Config is the layered configuration, Benchmark the reports on performance and their comparison.

  \<^bold>\<open>How the code is rendered.\<close> Prelude, PyStr and PyText hold what the components share of Python: dynamic values,
  insertion-ordered dictionaries, the exception classes, methods as functions from a state to an answer or an exception
  and the state left behind, and the methods of strings. StrProps has the laws of the latter, Table the tables of SQLite
  with automatic keys. A class is a record with the fields of the code, a method a definition over it, an enumeration or
  a union a datatype, a regular expression the function it matches. A handler that the code guards is modelled with its
  guard: \<open>try_except\<close> catches, in the state the exception leaves. Proofs about such computations run in the Hoare logic
  of the prelude (the collections \<open>hoare_intro\<close> and \<open>py_run\<close>).

  \<^bold>\<open>Theories, sources and results.\<close>
  \<^item> Execution. Agents: \<open>agents/contracts.py\<close>, \<open>agents/lifecycle.py\<close>, \<open>agents/models.py\<close>. Security: \<open>security\<close>.
    Executor: \<open>agents/executor.py\<close>. ExecutorProps, ExecutorRetry and Boundary show that a run always returns an outcome,
    that its events are numbered without gaps and form a path of the transition relation, that a refused request never
    reaches the agent, and how often an agent is attempted.
  \<^item> Events: \<open>events\<close>. Publishing never raises; subscribers of a topic or a prefix are called in their order.
  \<^item> Models. Routing: \<open>routing\<close>; Runtime: \<open>runtime/__init__.py\<close>; OpenCodeOutput and OpenCode: \<open>runtime/opencode.py\<close>,
    \<open>runtime/diagnostics.py\<close>; Ollama: \<open>runtime/ollama.py\<close>, \<open>runtime/base.py\<close>. The runtime tries the chain in order, the
    router respects the cap of costs, no adapter starts a process outside its sandbox, and the metrics of an output are
    those of its events.
  \<^item> Work. Kanban: \<open>scheduler\<close>; Workflow, WorkflowProps, WorkflowFrame and Pipeline: \<open>workflow\<close>; Kernel and KernelProps:
    \<open>core/kernel.py\<close>, \<open>core/run_result.py\<close>; Backlog, BacklogText, BacklogRun, BacklogLoop and BacklogCards: \<open>backlog\<close>,
    \<open>scheduler/backlog_writer.py\<close>. Every run is the whole pipeline in order or stops at one failing stage, leaves older
    boards alone, and a run of the backlog settles the card of each task it ran.
  \<^item> Quality, Gates, Detectors: \<open>quality\<close>, \<open>agents/detectors.py\<close>. When a decision blocks, and what the gates detect.
  \<^item> Knowledge. Sha256, Chunking and ChunkingProps: \<open>knowledge/chunking.py\<close>; KnowledgeStore, KnowledgeEngine, KnowledgeProps
    and Discovery: the rest of \<open>knowledge\<close>; Retrieval and RetrievalProps: \<open>retrieval\<close>. Indexing stores the chunks of the
    new content and nothing else; retrieval stays within the budget.
  \<^item> Context. Packet: \<open>context/packet.py\<close>, \<open>context/collectors\<close>; Context and ContextProps: \<open>context/layers.py\<close>,
    \<open>context/assembly.py\<close>, \<open>context/assembler.py\<close>; Skills and SkillsProps: \<open>skills\<close>; Prompts: \<open>prompts\<close>.
  \<^item> Learning. Memory: \<open>memory\<close>; Learning and LearningProps: \<open>learning\<close>. The engine refines a machine of four states.
  \<^item> Agents. GitAgent, LocalAgents, RuntimeAgents, Research and ResearchAgent: \<open>agents/git.py\<close>, \<open>tester.py\<close>,
    \<open>documentation.py\<close>, \<open>reviewer.py\<close>, \<open>planner.py\<close>, \<open>developer.py\<close>, \<open>research.py\<close>, with \<open>research\<close> and \<open>tools.py\<close>. What
    each may start, call or ask.
  \<^item> Telemetry. TelemetryStore, TelemetryWriter, TelemetryProps, TelemetryEngine, TelemetryEngineProps and Pricing:
    \<open>telemetry/store.py\<close>, \<open>writer.py\<close>, \<open>engine.py\<close>, \<open>pricing.py\<close>; Usage: \<open>usage/models.py\<close>; Benchmark:
    \<open>telemetry/schema.py\<close>, \<open>benchmark.py\<close>, \<open>compare.py\<close>. No record is lost uncounted under any interleaving of the
    threads, and a query reads what was recorded before it.
  \<^item> Config: \<open>config\<close>. The value of a field is that of the last source that sets it.

  \<^bold>\<open>Interfaces.\<close> What a component relies on of another is a locale, interpreted on the model of the provider in
  that provider's theory: \<open>event_sink\<close> by the bus, \<open>agent_boundary\<close> by the executor, \<open>task_kernel\<close> by the kernel,
  \<open>model_router\<close> by the rule-based router, \<open>autoincrement\<close> by the tables, \<open>sandboxed_adapter\<close> by both adapters.

  \<^bold>\<open>Bounds and termination.\<close> Loops recur on their data or on a measure: the attempts of the executor on those the retry
  policy leaves, the planner on its three iterations, the strings on what is left of them. The loop of the chunker, which
  moves back by an overlap, is a partial function, with the theorem that it returns on the sizes in use. The flush of the
  telemetry writer, which the code ends by counting retries, is bounded by a number of rounds, two for each retry and four
  more, which TelemetryWriter shows to suffice. The additions of SHA-256 wrap at 32 bits; Python's integers are
  unbounded; the buffer of the writer holds what the code lets it hold.

  \<^bold>\<open>Parameters.\<close> What is not in the repository is an argument: the answers of processes, models and users, the clock, drawn
  identifiers, the files, the environment, the readers and writers of JSON and TOML, the full-text engine of the database
  and the embedding provider. Laws assumed of them are hypotheses of the theorems that need them.

  \<^bold>\<open>Limits.\<close> Floats are exact rationals. Characters are the code points below 256. Threads appear in the telemetry
  writer, where every interleaving is a run; elsewhere an operation runs alone. Logging is left out. Not modelled are
  the commands that only parse arguments and print, the terminal interface, the opening, locking and migrating of databases,
  the HTTP of the embedding provider, the measuring of time (benchmarks, contention, profiler), and the scripts
  for the development of the repository itself.
\<close>

end
